(* ===== verification/Prelude.thy ===== *)
theory Prelude
  imports Main "HOL-Library.Word" "HOL-Library.Sublist" "HOL-Library.Char_ord"
    "HOL-Library.List_Lexorder" "HOL-Library.Code_Target_Numeral"
begin

section \<open>Prelude: Go strings, slices, numbers and results\<close>

text \<open>
  Shared vocabulary of the development.  A Go \<open>string\<close> is a sequence of bytes and is
  modelled by \<^typ>\<open>string\<close> (a list of 8-bit \<^typ>\<open>char\<close>s), so \<open>length\<close> is Go's
  \<open>len\<close>.  The functions below are the parts of the packages \<^verbatim>\<open>strings\<close> and \<^verbatim>\<open>strconv\<close>
  that the program uses, under Go's names (with a suffix where HOL has the name), and the
  lemmas about them that the components share.  A Go pair \<open>(value, error)\<close> is a sum
  \<open>error + value\<close>; a Go pointer that may be \<open>nil\<close> is an \<open>option\<close>.
\<close>

named_theorems go_str \<open>unfolding rules of the string predicates\<close>

type_synonym byte_string = string
type_synonym int64 = "64 word"
type_synonym uint16 = "16 word"

subsection \<open>Prefixes, suffixes, searching\<close>

definition HasPrefix :: "string \<Rightarrow> string \<Rightarrow> bool" where
  "HasPrefix s p \<longleftrightarrow> take (length p) s = p"

definition HasSuffix :: "string \<Rightarrow> string \<Rightarrow> bool" where
  "HasSuffix s p \<longleftrightarrow> length p \<le> length s \<and> drop (length s - length p) s = p"

definition TrimPrefix :: "string \<Rightarrow> string \<Rightarrow> string" where
  "TrimPrefix s p = (if HasPrefix s p then drop (length p) s else s)"

fun Index :: "string \<Rightarrow> string \<Rightarrow> nat option" where
  "Index [] sub = (if sub = [] then Some 0 else None)"
| "Index (c # s) sub = (if HasPrefix (c # s) sub then Some 0 else map_option Suc (Index s sub))"

definition Contains :: "string \<Rightarrow> string \<Rightarrow> bool" where
  "Contains s sub \<longleftrightarrow> Index s sub \<noteq> None"

text \<open>\<^verbatim>\<open>strings.ContainsAny\<close> for a set of ASCII characters.\<close>

definition ContainsAny :: "string \<Rightarrow> string \<Rightarrow> bool" where
  "ContainsAny s chars \<longleftrightarrow> list_ex (\<lambda>c. c \<in> set chars) s"

text \<open>\<^verbatim>\<open>strings.LastIndex\<close> of a one-byte string.\<close>

fun LastIndex :: "string \<Rightarrow> char \<Rightarrow> nat option" where
  "LastIndex [] b = None"
| "LastIndex (c # s) b =
     (case LastIndex s b of
        Some i \<Rightarrow> Some (Suc i)
      | None \<Rightarrow> if c = b then Some 0 else None)"

lemma HasPrefix_iff: "HasPrefix s p \<longleftrightarrow> (\<exists>t. s = p @ t)"
  unfolding HasPrefix_def by (metis append_eq_conv_conj append_take_drop_id)

lemma HasPrefix_Nil [simp]: "HasPrefix s []"
  by (simp add: HasPrefix_def)

lemma HasPrefix_append [simp]: "HasPrefix (p @ t) p"
  by (simp add: HasPrefix_def)

lemma HasPrefix_Cons [simp]: "HasPrefix (c # s) (d # p) \<longleftrightarrow> c = d \<and> HasPrefix s p"
  by (auto simp: HasPrefix_def)

lemma HasPrefix_Nil_Cons [simp]: "\<not> HasPrefix [] (d # p)"
  by (simp add: HasPrefix_def)

lemma HasSuffix_iff: "HasSuffix s p \<longleftrightarrow> (\<exists>t. s = t @ p)"
proof
  assume h: "HasSuffix s p"
  have "s = take (length s - length p) s @ drop (length s - length p) s" by simp
  with h show "\<exists>t. s = t @ p" unfolding HasSuffix_def by metis
qed (auto simp: HasSuffix_def)

lemma TrimPrefix_append [simp]: "TrimPrefix (p @ t) p = t"
  by (simp add: TrimPrefix_def)

lemma TrimPrefix_eq_iff: "TrimPrefix s p = s \<longleftrightarrow> p = [] \<or> \<not> HasPrefix s p"
  by (auto simp: TrimPrefix_def HasPrefix_iff)

text \<open>\<open>Index\<close> returns the leftmost occurrence.\<close>

lemma Index_Some_split:
  "Index s sub = Some i \<Longrightarrow> s = take i s @ sub @ drop (i + length sub) s \<and> i + length sub \<le> length s"
proof (induction s arbitrary: i)
  case Nil
  then show ?case by (auto split: if_splits)
next
  case (Cons c s)
  show ?case
  proof (cases "HasPrefix (c # s) sub")
    case True
    with Cons.prems have "i = 0" by simp
    with True show ?thesis
      by (auto simp: HasPrefix_def) (metis append_take_drop_id, metis length_Cons length_take min.absorb_iff2 min.commute)
  next
    case False
    with Cons.prems obtain j where j: "Index s sub = Some j" "i = Suc j" by auto
    from Cons.IH [OF j(1)] j(2) show ?thesis by simp
  qed
qed

lemma Index_leftmost:
  "s = u @ sub @ w \<Longrightarrow> \<exists>i. Index s sub = Some i \<and> i \<le> length u"
proof (induction u arbitrary: s)
  case Nil
  then have "HasPrefix s sub" by simp
  then show ?case by (cases s) (auto simp: HasPrefix_def)
next
  case (Cons c u)
  then obtain i where "Index (u @ sub @ w) sub = Some i" "i \<le> length u" by blast
  with Cons.prems show ?case by auto
qed

lemma Index_None_iff: "Index s sub = None \<longleftrightarrow> (\<nexists>u w. s = u @ sub @ w)"
proof
  assume "Index s sub = None"
  then show "\<nexists>u w. s = u @ sub @ w" using Index_leftmost by fastforce
next
  assume n: "\<nexists>u w. s = u @ sub @ w"
  show "Index s sub = None"
  proof (cases "Index s sub")
    case (Some i)
    from Index_Some_split [OF Some] n show ?thesis by blast
  qed simp
qed

lemma Index_single: "Index s [c] = None \<longleftrightarrow> c \<notin> set s"
  by (induction s) auto

lemma Contains_single [simp]: "Contains s [c] \<longleftrightarrow> c \<in> set s"
  by (simp add: Contains_def Index_single)

lemma ContainsAny_iff: "ContainsAny s cs \<longleftrightarrow> set s \<inter> set cs \<noteq> {}"
  by (auto simp: ContainsAny_def list_ex_iff)

subsection \<open>Splitting\<close>

text \<open>\<^verbatim>\<open>strings.Split(s, sep)\<close> for a one-byte separator.\<close>

fun Split :: "string \<Rightarrow> char \<Rightarrow> string list" where
  "Split [] b = [[]]"
| "Split (c # s) b =
     (if c = b then [] # Split s b
      else (case Split s b of [] \<Rightarrow> [[c]] | p # ps \<Rightarrow> (c # p) # ps))"

lemma Split_absent: "b \<notin> set s \<Longrightarrow> Split s b = [s]"
  by (induction s) auto

lemma Split_first: "b \<notin> set s \<Longrightarrow> Split (s @ b # t) b = s # Split t b"
  by (induction s) auto

text \<open>\<^verbatim>\<open>strings.SplitN(s, sep, n)\<close> for a one-byte separator and \<open>n > 0\<close>: at most \<open>n\<close> parts,
  the last one unsplit.\<close>

fun SplitN :: "nat \<Rightarrow> string \<Rightarrow> char \<Rightarrow> string list" where
  "SplitN 0 s b = []"
| "SplitN (Suc 0) s b = [s]"
| "SplitN (Suc (Suc n)) s b =
     (case Index s [b] of
        None \<Rightarrow> [s]
      | Some i \<Rightarrow> take i s # SplitN (Suc n) (drop (Suc i) s) b)"

fun Join :: "string list \<Rightarrow> string \<Rightarrow> string" where
  "Join [] sep = []"
| "Join [x] sep = x"
| "Join (x # y # xs) sep = x @ sep @ Join (y # xs) sep"

lemma Split_nonempty [simp]: "Split s b \<noteq> []"
  by (induction s) (auto split: list.splits)

lemma Split_no_sep: "p \<in> set (Split s b) \<Longrightarrow> b \<notin> set p"
proof (induction s arbitrary: p)
  case (Cons c s)
  then show ?case by (cases "Split s b") (auto split: if_splits)
qed simp

lemma Split_notin: "b \<notin> set s \<Longrightarrow> Split s b = [s]"
  by (induction s) auto

lemma Join_Split: "Join (Split s b) [b] = s"
proof (induction s)
  case (Cons c s)
  show ?case
  proof (cases "Split s b")
    case Nil
    then show ?thesis by simp
  next
    case (Cons p ps)
    with Cons.IH show ?thesis by (cases ps) auto
  qed
qed simp

lemma Split_append_sep: "b \<notin> set p \<Longrightarrow> Split (p @ b # s) b = p # Split s b"
  by (induction p) auto

lemma Join_Cons: "xs \<noteq> [] \<Longrightarrow> Join (x # xs) sep = x @ sep @ Join xs sep"
  by (cases xs) auto

subsection \<open>Replacing\<close>

text \<open>\<^verbatim>\<open>strings.ReplaceAll\<close> for a non-empty \<open>old\<close>: non-overlapping matches from the left.
  \<open>skip\<close> counts the bytes of the current match that remain to be dropped.\<close>

fun replace_go :: "string \<Rightarrow> string \<Rightarrow> nat \<Rightarrow> string \<Rightarrow> string" where
  "replace_go old new skip [] = []"
| "replace_go old new (Suc k) (c # s) = replace_go old new k s"
| "replace_go old new 0 (c # s) =
     (if HasPrefix (c # s) old then new @ replace_go old new (length old - 1) s
      else c # replace_go old new 0 s)"

definition ReplaceAll :: "string \<Rightarrow> string \<Rightarrow> string \<Rightarrow> string" where
  "ReplaceAll s old new = replace_go old new 0 s"

lemma replace_go_skip: "replace_go old new (length u) (u @ s) = replace_go old new 0 s"
  by (induction u) auto

lemma ReplaceAll_Nil [simp]: "ReplaceAll [] old new = []"
  by (simp add: ReplaceAll_def)

lemma ReplaceAll_match:
  "old \<noteq> [] \<Longrightarrow> ReplaceAll (old @ s) old new = new @ ReplaceAll s old new"
proof -
  assume "old \<noteq> []"
  then obtain c u where old: "old = c # u" by (cases old) auto
  then show ?thesis using replace_go_skip [of old new u s] by (simp add: ReplaceAll_def)
qed

lemma ReplaceAll_nomatch:
  "\<not> HasPrefix (c # s) old \<Longrightarrow> ReplaceAll (c # s) old new = c # ReplaceAll s old new"
  by (simp add: ReplaceAll_def)

lemma ReplaceAll_single:
  "ReplaceAll s [c] new = concat (map (\<lambda>x. if x = c then new else [x]) s)"
  by (induction s) (auto simp: ReplaceAll_def)

subsection \<open>White space\<close>

text \<open>
  The UTF-8 encodings of the runes for which Go's \<^verbatim>\<open>unicode.IsSpace\<close> holds: tab, newline,
  vertical tab, form feed, carriage return, space, U+0085, U+00A0, U+1680, U+2000 to U+200A,
  U+2028, U+2029, U+202F, U+205F and U+3000.  No encoding is a proper prefix or suffix of another and
  no lead byte is a continuation byte, so matching byte sequences agrees with decoding runes.
\<close>

definition space_runes :: "string list" where
  "space_runes =
     [[CHR 0x09], [CHR 0x0A], [CHR 0x0B], [CHR 0x0C], [CHR 0x0D], [CHR 0x20],
      [CHR 0xC2, CHR 0x85], [CHR 0xC2, CHR 0xA0], [CHR 0xE1, CHR 0x9A, CHR 0x80],
      [CHR 0xE2, CHR 0x80, CHR 0x80], [CHR 0xE2, CHR 0x80, CHR 0x81],
      [CHR 0xE2, CHR 0x80, CHR 0x82], [CHR 0xE2, CHR 0x80, CHR 0x83],
      [CHR 0xE2, CHR 0x80, CHR 0x84], [CHR 0xE2, CHR 0x80, CHR 0x85],
      [CHR 0xE2, CHR 0x80, CHR 0x86], [CHR 0xE2, CHR 0x80, CHR 0x87],
      [CHR 0xE2, CHR 0x80, CHR 0x88], [CHR 0xE2, CHR 0x80, CHR 0x89],
      [CHR 0xE2, CHR 0x80, CHR 0x8A], [CHR 0xE2, CHR 0x80, CHR 0xA8],
      [CHR 0xE2, CHR 0x80, CHR 0xA9], [CHR 0xE2, CHR 0x80, CHR 0xAF],
      [CHR 0xE2, CHR 0x81, CHR 0x9F], [CHR 0xE3, CHR 0x80, CHR 0x80]]"

definition leading_space :: "string \<Rightarrow> nat" where
  "leading_space s = (case find (HasPrefix s) space_runes of None \<Rightarrow> 0 | Some r \<Rightarrow> length r)"

text \<open>The first bytes of the encodings above: a byte outside this set never starts a space.\<close>

definition space_lead :: "char set" where
  "space_lead = {CHR 0x09, CHR 0x0A, CHR 0x0B, CHR 0x0C, CHR 0x0D, CHR 0x20,
     CHR 0xC2, CHR 0xE1, CHR 0xE2, CHR 0xE3}"

text \<open>\<^verbatim>\<open>strings.TrimSpace\<close>: \<open>skip\<close> bytes belong to a space rune already recognised.\<close>

fun trim_left :: "nat \<Rightarrow> string \<Rightarrow> string" where
  "trim_left skip [] = []"
| "trim_left (Suc k) (c # s) = trim_left k s"
| "trim_left 0 (c # s) =
     (case leading_space (c # s) of 0 \<Rightarrow> c # s | Suc k \<Rightarrow> trim_left k s)"

definition trailing_space :: "string \<Rightarrow> nat" where
  "trailing_space s = (case find (HasSuffix s) space_runes of None \<Rightarrow> 0 | Some r \<Rightarrow> length r)"

fun trim_right_rev :: "nat \<Rightarrow> string \<Rightarrow> string" where
  "trim_right_rev skip [] = []"
| "trim_right_rev (Suc k) (c # s) = trim_right_rev k s"
| "trim_right_rev 0 (c # s) =
     (case trailing_space (rev (c # s)) of 0 \<Rightarrow> c # s | Suc k \<Rightarrow> trim_right_rev k s)"

definition TrimSpace :: "string \<Rightarrow> string" where
  "TrimSpace s = rev (trim_right_rev 0 (rev (trim_left 0 s)))"

text \<open>\<^verbatim>\<open>strings.Fields\<close>: the maximal runs of bytes between spaces.  \<open>cur\<close> is the reversed
  current field.\<close>

fun fields_go :: "nat \<Rightarrow> string \<Rightarrow> string \<Rightarrow> string list" where
  "fields_go skip cur [] = (if cur = [] then [] else [rev cur])"
| "fields_go (Suc k) cur (c # s) = fields_go k cur s"
| "fields_go 0 cur (c # s) =
     (case leading_space (c # s) of
        0 \<Rightarrow> fields_go 0 (c # cur) s
      | Suc k \<Rightarrow> (if cur = [] then fields_go k [] s else rev cur # fields_go k [] s))"

definition Fields :: "string \<Rightarrow> string list" where
  "Fields s = fields_go 0 [] s"

lemma leading_space_lead: "c \<notin> space_lead \<Longrightarrow> leading_space (c # s) = 0"
  by (simp add: leading_space_def space_runes_def space_lead_def)

lemma leading_space_blank [simp]: "leading_space (CHR 0x20 # s) = 1"
  by (simp add: leading_space_def space_runes_def)

lemma fields_go_word:
  "set w \<inter> space_lead = {} \<Longrightarrow> fields_go 0 cur (w @ s) = fields_go 0 (rev w @ cur) s"
  by (induction w arbitrary: cur) (auto simp: leading_space_lead)

text \<open>Words without space bytes, joined by blanks, come back as the fields.\<close>

lemma Fields_word_blank:
  "w \<noteq> [] \<Longrightarrow> set w \<inter> space_lead = {} \<Longrightarrow> Fields (w @ CHR 0x20 # s) = w # Fields s"
  by (simp add: Fields_def fields_go_word)

lemma Fields_word:
  "w \<noteq> [] \<Longrightarrow> set w \<inter> space_lead = {} \<Longrightarrow> Fields w = [w]"
  using fields_go_word [of w "[]" "[]"] by (simp add: Fields_def)

lemma Fields_Join:
  "list_all (\<lambda>w. w \<noteq> [] \<and> set w \<inter> space_lead = {}) ws \<Longrightarrow> Fields (Join ws '' '') = ws"
proof (induction ws rule: induct_list012)
  case 1
  then show ?case by (simp add: Fields_def)
next
  case (2 w)
  then show ?case by (simp add: Fields_word)
next
  case (3 w v ws)
  then show ?case by (simp add: Fields_word_blank)
qed

subsection \<open>Bytes\<close>

definition is_lower :: "char \<Rightarrow> bool" where "is_lower b \<longleftrightarrow> CHR ''a'' \<le> b \<and> b \<le> CHR ''z''"
definition is_upper :: "char \<Rightarrow> bool" where "is_upper b \<longleftrightarrow> CHR ''A'' \<le> b \<and> b \<le> CHR ''Z''"
definition is_digit :: "char \<Rightarrow> bool" where "is_digit b \<longleftrightarrow> CHR ''0'' \<le> b \<and> b \<le> CHR ''9''"

definition is_hex_digit :: "char \<Rightarrow> bool" where
  "is_hex_digit b \<longleftrightarrow> (CHR ''a'' \<le> b \<and> b \<le> CHR ''f'') \<or> (CHR ''A'' \<le> b \<and> b \<le> CHR ''F'') \<or> is_digit b"

definition digit_val :: "char \<Rightarrow> nat" where "digit_val b = of_char b - 48"

definition digit_char :: "nat \<Rightarrow> char" where "digit_char n = char_of (48 + n)"

lemma char_le_nat: "(a :: char) \<le> b \<longleftrightarrow> (of_char a :: nat) \<le> of_char b"
  by (simp add: less_eq_char_def)

lemma is_digit_nat: "is_digit b \<longleftrightarrow> 48 \<le> (of_char b :: nat) \<and> (of_char b :: nat) \<le> 57"
  by (simp add: is_digit_def char_le_nat)

lemma of_char_digit_char [simp]: "n < 10 \<Longrightarrow> (of_char (digit_char n) :: nat) = 48 + n"
  by (simp add: digit_char_def)

lemma is_digit_digit_char [simp]: "n < 10 \<Longrightarrow> is_digit (digit_char n)"
  by (simp add: is_digit_nat)

lemma digit_val_digit_char [simp]: "n < 10 \<Longrightarrow> digit_val (digit_char n) = n"
  by (simp add: digit_val_def)

lemma digit_val_bound: "is_digit b \<Longrightarrow> digit_val b < 10"
  by (auto simp: is_digit_nat digit_val_def)

lemma digit_char_digit_val [simp]: "is_digit b \<Longrightarrow> digit_char (digit_val b) = b"
  by (simp add: is_digit_nat digit_val_def digit_char_def)


subsection \<open>Decimal numbers\<close>

text \<open>\<^verbatim>\<open>strconv.FormatUint(n, 10)\<close> and \<^verbatim>\<open>strconv.FormatInt(n, 10)\<close> (also \<^verbatim>\<open>Itoa\<close> and \<^verbatim>\<open>%d\<close>).\<close>

fun FormatUint :: "nat \<Rightarrow> string" where
  "FormatUint n = (if n < 10 then [digit_char n] else FormatUint (n div 10) @ [digit_char (n mod 10)])"

declare FormatUint.simps [simp del]

definition FormatInt :: "int \<Rightarrow> string" where
  "FormatInt i = (if i < 0 then CHR ''-'' # FormatUint (nat (- i)) else FormatUint (nat i))"

text \<open>The value of a digit string, \<open>None\<close> at the first byte that is no digit.\<close>

fun parse_digits :: "nat \<Rightarrow> string \<Rightarrow> nat option" where
  "parse_digits acc [] = Some acc"
| "parse_digits acc (c # s) = (if is_digit c then parse_digits (acc * 10 + digit_val c) s else None)"

text \<open>\<^verbatim>\<open>strconv.ParseUint(s, 10, bits)\<close>: no sign, at least one digit, no overflow.\<close>

definition ParseUint :: "string \<Rightarrow> nat \<Rightarrow> nat option" where
  "ParseUint s bits =
     (if s = [] then None
      else case parse_digits 0 s of
        None \<Rightarrow> None
      | Some n \<Rightarrow> if n < 2 ^ bits then Some n else None)"

text \<open>\<^verbatim>\<open>strconv.ParseInt(s, 10, bits)\<close>, and \<^verbatim>\<open>strconv.Atoi\<close> with \<open>bits = 64\<close>: one optional sign.\<close>

definition ParseInt :: "string \<Rightarrow> nat \<Rightarrow> int option" where
  "ParseInt s bits =
     (let neg = HasPrefix s ''-'';
          body = (if neg \<or> HasPrefix s ''+'' then tl s else s)
      in if body = [] then None
         else case parse_digits 0 body of
           None \<Rightarrow> None
         | Some n \<Rightarrow>
             if neg then (if n \<le> 2 ^ (bits - 1) then Some (- int n) else None)
             else (if n < 2 ^ (bits - 1) then Some (int n) else None))"

definition Atoi :: "string \<Rightarrow> int option" where "Atoi s = ParseInt s 64"

text \<open>\<^verbatim>\<open>fmt.Sprintf("%06d", n)\<close> for \<open>n \<ge> 0\<close>.\<close>

definition pad6 :: "nat \<Rightarrow> string" where
  "pad6 n = (let d = FormatUint n in replicate (6 - length d) CHR ''0'' @ d)"

lemma FormatUint_nonempty [simp]: "FormatUint n \<noteq> []"
  by (subst FormatUint.simps) simp

lemma FormatUint_digits: "list_all is_digit (FormatUint n)"
  by (induction n rule: FormatUint.induct) (subst FormatUint.simps, simp)

lemma parse_digits_append:
  "parse_digits acc (s @ t) = Option.bind (parse_digits acc s) (\<lambda>a. parse_digits a t)"
  by (induction s arbitrary: acc) auto

lemma parse_digits_FormatUint: "parse_digits 0 (FormatUint n) = Some n"
proof (induction n rule: FormatUint.induct)
  case (1 n)
  show ?case
  proof (cases "n < 10")
    case True
    then show ?thesis by (subst FormatUint.simps) simp
  next
    case False
    with 1 have "parse_digits 0 (FormatUint (n div 10)) = Some (n div 10)" by simp
    with False show ?thesis by (subst FormatUint.simps) (simp add: parse_digits_append)
  qed
qed

lemma length_FormatUint: "0 < w \<Longrightarrow> n < 10 ^ w \<Longrightarrow> length (FormatUint n) \<le> w"
proof (induction w arbitrary: n)
  case (Suc w)
  show ?case
  proof (cases "n < 10")
    case True
    then show ?thesis by (subst FormatUint.simps) simp
  next
    case False
    then have "0 < w" using Suc.prems by (cases w) auto
    moreover have "n div 10 < 10 ^ w" using Suc.prems by (simp add: less_mult_imp_div_less)
    ultimately have "length (FormatUint (n div 10)) \<le> w" by (rule Suc.IH)
    then show ?thesis using False by (subst FormatUint.simps) simp
  qed
qed simp

lemma FormatUint_inj: "FormatUint m = FormatUint n \<Longrightarrow> m = n"
  by (metis option.inject parse_digits_FormatUint)

lemma FormatUint_no_sign:
  "\<not> HasPrefix (FormatUint n) ''-''" "\<not> HasPrefix (FormatUint n) ''+''"
proof -
  obtain c t where f: "FormatUint n = c # t" by (cases "FormatUint n") auto
  with FormatUint_digits [of n] have "is_digit c" by simp
  with f show "\<not> HasPrefix (FormatUint n) ''-''" "\<not> HasPrefix (FormatUint n) ''+''"
    by (auto simp: is_digit_nat)
qed

lemma ParseUint_FormatUint: "n < 2 ^ bits \<Longrightarrow> ParseUint (FormatUint n) bits = Some n"
  by (simp add: ParseUint_def parse_digits_FormatUint)

lemma ParseInt_FormatInt:
  assumes "- (2 ^ (bits - 1)) \<le> i" and "i < 2 ^ (bits - 1)"
  shows "ParseInt (FormatInt i) bits = Some i"
proof (cases "i < 0")
  case True
  with assms(1) have "nat (- i) \<le> 2 ^ (bits - 1)" by (simp add: nat_le_iff)
  with True show ?thesis by (simp add: ParseInt_def FormatInt_def parse_digits_FormatUint)
next
  case False
  with assms(2) have "nat i < 2 ^ (bits - 1)" by (simp add: nat_less_iff)
  with False show ?thesis
    by (simp add: ParseInt_def FormatInt_def parse_digits_FormatUint FormatUint_no_sign)
qed

lemma FormatInt_inj: "FormatInt i = FormatInt j \<Longrightarrow> i = j"
proof -
  assume f: "FormatInt i = FormatInt j"
  have neg: "hd (FormatInt k) = CHR ''-'' \<longleftrightarrow> k < 0" for k
    using FormatUint_no_sign(1) [of "nat k"] FormatUint_nonempty [of "nat k"]
    by (cases "FormatUint (nat k)") (auto simp: FormatInt_def)
  from f neg have "i < 0 \<longleftrightarrow> j < 0" by metis
  with f show "i = j" by (auto simp: FormatInt_def dest!: FormatUint_inj split: if_splits)
qed

lemma FormatUint_bytes: "c \<in> set (FormatUint n) \<Longrightarrow> is_digit c"
  using FormatUint_digits by (simp add: list_all_iff)

lemma parse_digits_bytes: "parse_digits acc s = Some n \<Longrightarrow> c \<in> set s \<Longrightarrow> is_digit c"
  by (induction s arbitrary: acc) (auto split: if_splits)

subsection \<open>Slices and maps that may be nil\<close>

text \<open>
  A Go slice or map that is marshalled to a JSON column may be \<open>nil\<close> (JSON \<open>null\<close>), which the
  column distinguishes from an empty one.  A map is the list of its entries in key order, the
  order in which \<^verbatim>\<open>encoding/json\<close> writes it.
\<close>

type_synonym go_slice = "string list option"
type_synonym go_map = "(string \<times> string) list option"

definition elems :: "'a list option \<Rightarrow> 'a list" where
  "elems xs = (case xs of None \<Rightarrow> [] | Some ys \<Rightarrow> ys)"

definition map_get :: "go_map \<Rightarrow> string \<Rightarrow> string option" where
  "map_get m k = map_of (elems m) k"

lemma elems_simps [simp]: "elems None = []" "elems (Some xs) = xs"
  by (simp_all add: elems_def)

end
