(* ===== verification/Core_Net.thy ===== *)
theory Core_Net
  imports Prelude
begin

section \<open>Socket addresses (package net as used by internal/core/core.go)\<close>

text \<open>
  \<^verbatim>\<open>core.validDirectAddress\<close> accepts literal \<open>IP:port\<close> pairs only.  It rests on
  \<^verbatim>\<open>net.SplitHostPort\<close>, \<^verbatim>\<open>net.ParseIP\<close> (\<^verbatim>\<open>netip.ParseAddr\<close> without a zone) and \<^verbatim>\<open>strconv.Atoi\<close>,
  which are modelled here branch by branch.  An address is the list of its 16 bytes.
\<close>

subsection \<open>SplitHostPort\<close>

definition SplitHostPort :: "string \<Rightarrow> (string \<times> string) option" where
  "SplitHostPort hostport =
     (case LastIndex hostport CHR '':'' of
        None \<Rightarrow> None
      | Some i \<Rightarrow>
          if HasPrefix hostport ''['' then
            (case Index hostport '']'' of
               None \<Rightarrow> None
             | Some e \<Rightarrow>
                 if e + 1 \<noteq> i then None
                 else if CHR ''['' \<in> set (drop 1 hostport) then None
                 else if CHR '']'' \<in> set (drop (e + 1) hostport) then None
                 else Some (drop 1 (take e hostport), drop (i + 1) hostport))
          else
            (let host = take i hostport in
             if CHR '':'' \<in> set host then None
             else if CHR ''['' \<in> set hostport then None
             else if CHR '']'' \<in> set hostport then None
             else Some (host, drop (i + 1) hostport)))"

subsection \<open>ParseIP\<close>

text \<open>One decimal octet: no leading zero, at most 255.\<close>

definition ipv4_octet :: "string \<Rightarrow> nat option" where
  "ipv4_octet p =
     (if p = [] then None
      else if hd p = CHR ''0'' \<and> length p > 1 then None
      else case parse_digits 0 p of
        None \<Rightarrow> None
      | Some n \<Rightarrow> if n \<le> 255 then Some n else None)"

definition parseIPv4Fields :: "string \<Rightarrow> nat list option" where
  "parseIPv4Fields s =
     (let parts = Split s CHR ''.'' in
      if length parts \<noteq> 4 then None else those (map ipv4_octet parts))"

definition hex_val :: "char \<Rightarrow> nat" where
  "hex_val c = (if is_digit c then of_char c - 48
                else if CHR ''a'' \<le> c then of_char c - 87 else of_char c - 55)"

definition hex_value :: "string \<Rightarrow> nat" where
  "hex_value s = foldl (\<lambda>acc c. acc * 16 + hex_val c) 0 s"

text \<open>One iteration of the loop of \<^verbatim>\<open>parseIPv6\<close>: \<open>ip\<close> holds the bytes read so far (so \<open>i\<close> is its
  length), \<open>ell\<close> the position of the ellipsis.  It fails, leaves the loop, or goes round.\<close>

datatype ipv6_result =
    V6Fail
  | V6Done "nat list" "nat option" string
  | V6More "nat list" "nat option" string

definition ipv6_group :: "nat list \<Rightarrow> nat option \<Rightarrow> string \<Rightarrow> ipv6_result" where
  "ipv6_group ip ell s =
     (let digits = takeWhile is_hex_digit s; rest = dropWhile is_hex_digit s in
      if length digits > 4 then V6Fail
      else if digits = [] then V6Fail
      else if HasPrefix rest ''.'' then
        (if ell = None \<and> length ip \<noteq> 12 then V6Fail
         else if length ip + 4 > 16 then V6Fail
         else (case parseIPv4Fields s of
                 None \<Rightarrow> V6Fail
               | Some octets \<Rightarrow> V6Done (ip @ octets) ell []))
      else
        let acc = hex_value digits; ip' = ip @ [acc div 256, acc mod 256] in
        if rest = [] then V6Done ip' ell []
        else if hd rest \<noteq> CHR '':'' then V6Fail
        else if length rest = 1 then V6Fail
        else
          let s' = tl rest in
          if HasPrefix s' '':'' then
            (if ell \<noteq> None then V6Fail
             else if tl s' = [] then V6Done ip' (Some (length ip')) []
             else V6More ip' (Some (length ip')) (tl s'))
          else V6More ip' ell s')"

lemma ipv6_group_grows: "ipv6_group ip ell s = V6More ip' ell' s' \<Longrightarrow> length ip' = length ip + 2"
  by (auto simp: ipv6_group_def Let_def split: if_splits option.splits)

function ipv6_loop ::
    "nat list \<Rightarrow> nat option \<Rightarrow> string \<Rightarrow> (nat list \<times> nat option \<times> string) option" where
  "ipv6_loop ip ell s =
     (if length ip \<ge> 16 then Some (ip, ell, s)
      else case ipv6_group ip ell s of
        V6Fail \<Rightarrow> None
      | V6Done ip' ell' s' \<Rightarrow> Some (ip', ell', s')
      | V6More ip' ell' s' \<Rightarrow> ipv6_loop ip' ell' s')"
  by pat_completeness auto
termination
  by (relation "measure (\<lambda>(ip, ell, s). 16 - length ip)") (auto dest: ipv6_group_grows)

declare ipv6_loop.simps [simp del]

definition parseIPv6 :: "string \<Rightarrow> nat list option" where
  "parseIPv6 s =
     (if CHR ''%'' \<in> set s then None
      else
        let lead = HasPrefix s ''::''; s' = (if lead then drop 2 s else s) in
        if lead \<and> s' = [] then Some (replicate 16 0)
        else (case ipv6_loop [] (if lead then Some 0 else None) s' of
                None \<Rightarrow> None
              | Some (ip, ell, rest) \<Rightarrow>
                  if rest \<noteq> [] then None
                  else if length ip < 16 then
                    (case ell of
                       None \<Rightarrow> None
                     | Some e \<Rightarrow> Some (take e ip @ replicate (16 - length ip) 0 @ drop e ip))
                  else if ell \<noteq> None then None
                  else Some ip))"

text \<open>\<^verbatim>\<open>netip.ParseAddr\<close> dispatches on the first of \<open>.\<close>, \<open>:\<close> and \<open>%\<close>; \<^verbatim>\<open>net.ParseIP\<close> refuses zones and
  returns an IPv4 address in its IPv4-mapped form.\<close>

definition v4_in_v6 :: "nat list \<Rightarrow> nat list" where
  "v4_in_v6 octets = replicate 10 0 @ [255, 255] @ octets"

definition ParseIP :: "string \<Rightarrow> nat list option" where
  "ParseIP s =
     (case find (\<lambda>c. c = CHR ''.'' \<or> c = CHR '':'' \<or> c = CHR ''%'') s of
        None \<Rightarrow> None
      | Some c \<Rightarrow>
          if c = CHR ''.'' then map_option v4_in_v6 (parseIPv4Fields s)
          else if c = CHR '':'' then parseIPv6 s
          else None)"

definition is_v4 :: "nat list \<Rightarrow> bool" where
  "is_v4 ip \<longleftrightarrow> take 12 ip = replicate 10 0 @ [255, 255]"

definition IsUnspecified :: "nat list \<Rightarrow> bool" where
  "IsUnspecified ip \<longleftrightarrow> ip = v4_in_v6 [0, 0, 0, 0] \<or> ip = replicate 16 0"

definition IsMulticast :: "nat list \<Rightarrow> bool" where
  "IsMulticast ip \<longleftrightarrow> (if is_v4 ip then (ip ! 12) div 16 = 14 else length ip = 16 \<and> hd ip = 255)"

subsection \<open>validDirectAddress\<close>

definition validDirectAddress :: "string \<Rightarrow> bool" where
  "validDirectAddress val =
     (if length val = 0 \<or> length val > 64 then False
      else if Contains val ''%'' then False
      else case SplitHostPort val of
        None \<Rightarrow> False
      | Some (host, portStr) \<Rightarrow>
          (case Atoi portStr of
             None \<Rightarrow> False
           | Some port \<Rightarrow>
               if port \<le> 0 \<or> port > 65535 then False
               else case ParseIP host of
                 None \<Rightarrow> False
               | Some ip \<Rightarrow> \<not> IsUnspecified ip \<and> \<not> IsMulticast ip))"

subsection \<open>The bytes of an accepted address\<close>

definition addr_byte :: "char \<Rightarrow> bool" where
  "addr_byte c \<longleftrightarrow> is_hex_digit c \<or> c \<in> {CHR ''.'', CHR '':'', CHR ''['', CHR '']'', CHR ''+''}"

definition ip_byte :: "char \<Rightarrow> bool" where
  "ip_byte c \<longleftrightarrow> is_hex_digit c \<or> c = CHR ''.'' \<or> c = CHR '':''"

lemma those_Some_all: "those xs = Some ys \<Longrightarrow> x \<in> set xs \<Longrightarrow> x \<noteq> None"
  by (induction xs arbitrary: ys) (auto split: option.splits)

lemma Split_bytes: "c \<in> set s \<Longrightarrow> c = b \<or> (\<exists>p \<in> set (Split s b). c \<in> set p)"
proof (induction s)
  case (Cons d s)
  then show ?case by (cases "Split s b") auto
qed simp

lemma parseIPv4Fields_bytes:
  assumes "parseIPv4Fields s = Some ip" and "c \<in> set s"
  shows "is_digit c \<or> c = CHR ''.''"
proof (rule ccontr)
  assume n: "\<not> (is_digit c \<or> c = CHR ''.'')"
  with Split_bytes [OF assms(2), of "CHR ''.''"] obtain p
    where p: "p \<in> set (Split s CHR ''.'')" "c \<in> set p" by blast
  from assms(1) have "those (map ipv4_octet (Split s CHR ''.'')) = Some ip"
    by (auto simp: parseIPv4Fields_def Let_def split: if_splits)
  with p(1) have "ipv4_octet p \<noteq> None" by (intro those_Some_all) auto
  then obtain k where "parse_digits 0 p = Some k"
    by (auto simp: ipv4_octet_def split: if_splits option.splits)
  with p(2) n show False using parse_digits_bytes by blast
qed

lemma ip_byte_digit: "is_digit c \<Longrightarrow> ip_byte c"
  by (simp add: ip_byte_def is_hex_digit_def)

lemma takeWhile_dropWhile_mem:
  "c \<in> set s \<Longrightarrow> c \<in> set (takeWhile P s) \<or> c \<in> set (dropWhile P s)"
  by (metis Un_iff set_append takeWhile_dropWhile_id)

lemma ipv6_group_rest_bytes:
  assumes "\<forall>c \<in> set (dropWhile is_hex_digit s). ip_byte c \<or> Q c" and "c \<in> set s"
  shows "ip_byte c \<or> Q c"
  using assms takeWhile_dropWhile_mem [OF assms(2), of is_hex_digit]
  by (auto dest: set_takeWhileD simp: ip_byte_def)

lemma ipv6_group_done_bytes:
  assumes "ipv6_group ip ell s = V6Done ip' ell' s'" and "c \<in> set s"
  shows "ip_byte c"
proof (cases "HasPrefix (dropWhile is_hex_digit s) ''.''")
  case True
  with assms(1) obtain octets where "parseIPv4Fields s = Some octets"
    by (auto simp: ipv6_group_def Let_def split: if_splits option.splits)
  from parseIPv4Fields_bytes [OF this assms(2)] show ?thesis
    using ip_byte_digit by (auto simp: ip_byte_def)
next
  case False
  with assms(1) have "dropWhile is_hex_digit s = [] \<or> dropWhile is_hex_digit s = ''::''"
    by (cases "dropWhile is_hex_digit s" rule: remdups_adj.cases)
      (auto simp: ipv6_group_def Let_def split: if_splits option.splits)
  then have "\<forall>c \<in> set (dropWhile is_hex_digit s). ip_byte c \<or> False"
    by (auto simp: ip_byte_def dest: set_dropWhileD)
  from ipv6_group_rest_bytes [OF this assms(2)] show ?thesis by simp
qed

lemma ipv6_group_more_bytes:
  assumes "ipv6_group ip ell s = V6More ip' ell' s'" and "c \<in> set s"
  shows "ip_byte c \<or> c \<in> set s'"
proof -
  from assms(1) have "dropWhile is_hex_digit s = CHR '':'' # s' \<or> dropWhile is_hex_digit s = CHR '':'' # CHR '':'' # s'"
    by (cases "dropWhile is_hex_digit s" rule: remdups_adj.cases)
      (auto simp: ipv6_group_def Let_def split: if_splits option.splits)
  then have "\<forall>c \<in> set (dropWhile is_hex_digit s). ip_byte c \<or> c \<in> set s'" by (auto simp: ip_byte_def)
  from ipv6_group_rest_bytes [OF this assms(2)] show ?thesis .
qed

lemma ipv6_loop_bytes:
  "ipv6_loop ip ell s = Some (ip', ell', []) \<Longrightarrow> c \<in> set s \<Longrightarrow> ip_byte c"
proof (induction ip ell s rule: ipv6_loop.induct)
  case (1 ip ell s)
  note step = ipv6_loop.simps [of ip ell s]
  show ?case
  proof (cases "length ip \<ge> 16")
    case True
    with 1 show ?thesis by (simp add: step)
  next
    case False
    show ?thesis
    proof (cases "ipv6_group ip ell s")
      case V6Fail
      with 1 False show ?thesis by (simp add: step)
    next
      case (V6Done a e r)
      with ipv6_group_done_bytes [OF V6Done "1.prems"(2)] show ?thesis by simp
    next
      case (V6More a e t)
      from ipv6_group_more_bytes [OF V6More "1.prems"(2)] show ?thesis
        using "1.IH" [OF False V6More] "1.prems"(1) False V6More by (auto simp: step)
    qed
  qed
qed

lemma ParseIP_bytes:
  assumes "ParseIP s = Some ip" and "c \<in> set s"
  shows "ip_byte c"
proof (cases "\<exists>v4. parseIPv4Fields s = Some v4")
  case True
  then show ?thesis using parseIPv4Fields_bytes [OF _ assms(2)] ip_byte_digit by (auto simp: ip_byte_def)
next
  case False
  with assms(1) have "parseIPv6 s = Some ip" by (auto simp: ParseIP_def split: option.splits if_splits)
  then consider "s = ''::''" | ip' ell' where "HasPrefix s ''::''" "ipv6_loop [] (Some 0) (drop 2 s) = Some (ip', ell', [])"
    | ip' ell' where "ipv6_loop [] None s = Some (ip', ell', [])"
    by (auto simp: parseIPv6_def Let_def HasPrefix_iff split: if_splits option.splits)
  then show ?thesis
  proof cases
    case 2
    then obtain t where "s = CHR '':'' # CHR '':'' # t" by (auto simp: HasPrefix_iff)
    with ipv6_loop_bytes [OF 2(2), of c] assms(2) show ?thesis by (auto simp: ip_byte_def)
  qed (use assms(2) ipv6_loop_bytes in \<open>auto simp: ip_byte_def\<close>)
qed

lemma Join_snoc: "ws \<noteq> [] \<Longrightarrow> Join (ws @ [w]) sep = Join ws sep @ sep @ w"
proof (induction ws rule: induct_list012)
  case (3 x y zs)
  then show ?case by simp
qed simp_all

lemma LastIndex_append_notin: "b \<notin> set t \<Longrightarrow> LastIndex (s @ b # t) b = Some (length s)"
proof (induction s)
  case Nil
  have "LastIndex t b = None" using Nil by (induction t) auto
  then show ?case by simp
qed simp

lemma LastIndex_split: "LastIndex s b = Some i \<Longrightarrow> s = take i s @ b # drop (i + 1) s"
  by (induction s arbitrary: i) (auto split: option.splits if_splits)

lemma Atoi_bytes: "Atoi s = Some n \<Longrightarrow> 0 < n \<Longrightarrow> c \<in> set s \<Longrightarrow> is_digit c \<or> c = CHR ''+''"
proof -
  assume a: "Atoi s = Some n" "0 < n" "c \<in> set s"
  have "\<not> HasPrefix s ''-''"
    using a(1,2) by (auto simp: Atoi_def ParseInt_def Let_def split: if_splits option.splits)
  with a obtain k where "parse_digits 0 (if HasPrefix s ''+'' then tl s else s) = Some k"
    by (auto simp: Atoi_def ParseInt_def Let_def split: if_splits option.splits)
  then show "is_digit c \<or> c = CHR ''+''"
    using a(3) parse_digits_bytes by (cases s) (fastforce split: if_splits)+
qed

lemma SplitHostPort_parts:
  assumes "SplitHostPort s = Some (host, port)"
  shows "s = host @ '':'' @ port \<or> s = ''['' @ host @ '']:'' @ port"
proof -
  from assms obtain i where i: "LastIndex s CHR '':'' = Some i"
    by (auto simp: SplitHostPort_def split: option.splits)
  note s = LastIndex_split [OF i]
  show ?thesis
  proof (cases "HasPrefix s ''[''")
    case False
    with assms i s show ?thesis by (auto simp: SplitHostPort_def Let_def split: if_splits)
  next
    case True
    then obtain t where t: "s = CHR ''['' # t" by (auto simp: HasPrefix_iff)
    from True assms i obtain e where e: "Index s '']'' = Some e" "e + 1 = i"
      and hp: "host = drop 1 (take e s)" "port = drop (i + 1) s"
      by (auto simp: SplitHostPort_def split: option.splits if_splits)
    from Index_Some_split [OF e(1)] have "s = take e s @ '']'' @ drop (e + 1) s" by simp
    moreover have "drop (e + 1) s = CHR '':'' # port" using s e(2) hp(2)
      by (metis append_eq_conv_conj length_take min.absorb2 nat_le_linear take_all append.right_neutral list.discI drop_all not_less_eq_eq)
    moreover have "take e s = CHR ''['' # host" using hp(1) t e calculation(1)
      by (cases e) auto
    ultimately show ?thesis by auto
  qed
qed

text \<open>Every byte of an accepted direct address is a hexadecimal digit or one of \<open>.:[]+\<close>.\<close>

lemma validDirectAddress_bytes:
  assumes "validDirectAddress a" and "c \<in> set a"
  shows "addr_byte c"
proof -
  from assms(1) obtain host port n ip where s: "SplitHostPort a = Some (host, port)"
    and n: "Atoi port = Some n" "0 < n" and ip: "ParseIP host = Some ip"
    by (auto simp: validDirectAddress_def split: if_splits option.splits)
  from SplitHostPort_parts [OF s] assms(2)
  consider "c \<in> set host" | "c \<in> set port" | "c \<in> {CHR '':'', CHR ''['', CHR '']''}" by auto
  then show ?thesis
  proof cases
    case 1
    with ParseIP_bytes [OF ip] show ?thesis by (auto simp: ip_byte_def addr_byte_def)
  next
    case 2
    with Atoi_bytes [OF n] show ?thesis by (auto simp: addr_byte_def is_hex_digit_def)
  qed (auto simp: addr_byte_def)
qed

lemma validDirectAddress_nonempty: "validDirectAddress a \<Longrightarrow> a \<noteq> []"
  by (auto simp: validDirectAddress_def)

end
