(* ===== verification/Core_Command.thy ===== *)
theory Core_Command
  imports Core_Net
begin

section \<open>SSH command construction (internal/core/core.go)\<close>

text \<open>
  The validators of \<^verbatim>\<open>core.go\<close>, the shell quoting, the builders of the \<^verbatim>\<open>ssh\<close> invocation and of
  its \<^verbatim>\<open>ProxyCommand\<close>, and the validators that \<^verbatim>\<open>ternalctl\<close> runs on what it is handed.  Errors are
  the exported \<^verbatim>\<open>Err...\<close> values.
\<close>

datatype CommandError =
    ErrInvalidEndpointID | ErrInvalidSSHUser | ErrInvalidSSHPort | ErrInvalidRelayURL
  | ErrInvalidDirectAddress | ErrInvalidProxyCommand | ErrInvalidHostReference
  | ErrInvalidHostKey | ErrInvalidCTLPath | ErrMissingRoute

record SshCommand =
  cmd_Program :: string
  cmd_Args :: "string list"

record RelayConfig =
  rc_RelayURLs :: "string list"
  rc_ExtraRelayURLs :: "string list"

subsection \<open>Validators\<close>

definition isAlphanumeric :: "char \<Rightarrow> bool" where
  "isAlphanumeric b \<longleftrightarrow> is_lower b \<or> is_upper b \<or> is_digit b"

definition validEndpointID :: "string \<Rightarrow> bool" where
  "validEndpointID val \<longleftrightarrow> length val = 64 \<and> list_all is_hex_digit val"

definition validHostReference :: "string \<Rightarrow> bool" where
  "validHostReference val =
     (if length val < 1 \<or> length val > 128 then False
      else if hd val = CHR ''-'' then False
      else list_all (\<lambda>b. isAlphanumeric b \<or> b = CHR ''-'' \<or> b = CHR ''_'' \<or> b = CHR ''.'') val)"

definition ValidHostName :: "string \<Rightarrow> bool" where
  "ValidHostName val = validHostReference val"

definition validSSHUser :: "string \<Rightarrow> bool" where
  "validSSHUser val =
     (if length val < 1 \<or> length val > 64 then False
      else if hd val = CHR ''-'' then False
      else list_all (\<lambda>b. isAlphanumeric b \<or> b = CHR ''_'' \<or> b = CHR ''-'' \<or> b = CHR ''.'') val)"

definition ValidSSHUser :: "string \<Rightarrow> bool" where
  "ValidSSHUser val = validSSHUser val"

definition relay_url_byte :: "char \<Rightarrow> bool" where
  "relay_url_byte b \<longleftrightarrow> isAlphanumeric b \<or> b = CHR '':'' \<or> b = CHR ''/'' \<or> b = CHR ''.'' \<or>
     b = CHR ''_'' \<or> b = CHR ''-''"

definition validRelayURL :: "string \<Rightarrow> bool" where
  "validRelayURL val =
     (if length val < 8 \<or> length val > 512 then False
      else if \<not> HasPrefix val ''http://'' \<and> \<not> HasPrefix val ''https://'' then False
      else list_all relay_url_byte val)"

definition ValidHostKeyFingerprint :: "string \<Rightarrow> bool" where
  "ValidHostKeyFingerprint val =
     (if \<not> HasPrefix val ''SHA256:'' then False
      else let digest = TrimPrefix val ''SHA256:'' in
        if length digest < 40 \<or> length digest > 44 then False
        else list_all (\<lambda>b. isAlphanumeric b \<or> b = CHR ''+'' \<or> b = CHR ''/'' \<or> b = CHR ''_'' \<or>
               b = CHR ''-'' \<or> b = CHR ''='') digest)"

definition RelayConfig_Validate :: "RelayConfig \<Rightarrow> CommandError + unit" where
  "RelayConfig_Validate c =
     (if list_all validRelayURL (rc_RelayURLs c @ rc_ExtraRelayURLs c) then Inr ()
      else Inl ErrInvalidRelayURL)"

subsection \<open>Shell quoting\<close>

definition squote :: char where "squote = CHR 0x27"
definition dquote :: char where "dquote = CHR 0x22"
definition bslash :: char where "bslash = CHR 0x5C"

text \<open>The four bytes \<open>'\''\<close> that close the quotes, add an escaped quote and reopen them.\<close>

definition squote_escape :: string where
  "squote_escape = [squote, bslash, squote, squote]"

definition shellQuote :: "string \<Rightarrow> string" where
  "shellQuote val =
     (if \<not> ContainsAny val ([CHR '' '', CHR 0x09, squote, bslash, dquote] @ ''[]*?'') then val
      else [squote] @ ReplaceAll val [squote] squote_escape @ [squote])"

text \<open>\<open>None\<close> is the result \<^verbatim>\<open>("", false)\<close>.\<close>

definition unquoteShellArg :: "string \<Rightarrow> string option" where
  "unquoteShellArg val =
     (if \<not> HasPrefix val [squote] then Some val
      else if \<not> HasSuffix val [squote] \<or> length val < 2 then None
      else let inner = drop 1 (take (length val - 1) val) in
        if ContainsAny inner [squote, dquote] \<and> \<not> Contains inner squote_escape then None
        else Some (ReplaceAll inner squote_escape [squote]))"

subsection \<open>Builders\<close>

fun append_direct :: "string \<Rightarrow> string list \<Rightarrow> CommandError + string" where
  "append_direct command [] = Inr command"
| "append_direct command (addr # addrs) =
     (if \<not> validDirectAddress addr then Inl ErrInvalidDirectAddress
      else append_direct (command @ '' --direct-address '' @ shellQuote addr) addrs)"

fun append_relays :: "string \<Rightarrow> string list \<Rightarrow> string" where
  "append_relays command [] = command"
| "append_relays command (url # urls) = append_relays (command @ '' --relay-url '' @ url) urls"

definition appendRouteArgs :: "string \<Rightarrow> RelayConfig \<Rightarrow> string list \<Rightarrow> CommandError + string" where
  "appendRouteArgs command relayConfig directAddresses =
     (case RelayConfig_Validate relayConfig of
        Inl e \<Rightarrow> Inl e
      | Inr _ \<Rightarrow>
          if directAddresses = [] \<and> rc_RelayURLs relayConfig = [] \<and> rc_ExtraRelayURLs relayConfig = []
          then Inl ErrMissingRoute
          else (case append_direct command directAddresses of
                  Inl e \<Rightarrow> Inl e
                | Inr command' \<Rightarrow>
                    Inr (append_relays (append_relays command' (rc_RelayURLs relayConfig))
                           (rc_ExtraRelayURLs relayConfig))))"

definition buildGrantAwareProxyCommand :: "string \<Rightarrow> RelayConfig \<Rightarrow> string list \<Rightarrow> CommandError + string" where
  "buildGrantAwareProxyCommand hostRef relayConfig directAddresses =
     (if \<not> validHostReference hostRef then Inl ErrInvalidHostReference
      else appendRouteArgs (''ternalctl proxy '' @ hostRef @ '' %h:%p'') relayConfig directAddresses)"

definition buildProxyCommandWithRoutes :: "RelayConfig \<Rightarrow> string list \<Rightarrow> CommandError + string" where
  "buildProxyCommandWithRoutes relayConfig directAddresses =
     appendRouteArgs ''pigeons fly --stdio %h'' relayConfig directAddresses"

definition ssh_args :: "uint16 \<Rightarrow> string \<Rightarrow> string \<Rightarrow> string \<Rightarrow> SshCommand" where
  "ssh_args sshPort proxyCmd sshUser endpointID =
     \<lparr>cmd_Program = ''ssh'',
      cmd_Args = [''-p'', FormatUint (unat sshPort), ''-o'', ''ProxyCommand='' @ proxyCmd,
                  sshUser @ ''@'' @ endpointID]\<rparr>"

definition BuildSSHCommandWithRoutes ::
    "string \<Rightarrow> string \<Rightarrow> uint16 \<Rightarrow> RelayConfig \<Rightarrow> string list \<Rightarrow> CommandError + SshCommand" where
  "BuildSSHCommandWithRoutes endpointID sshUser sshPort relayConfig directAddresses =
     (if \<not> validEndpointID endpointID then Inl ErrInvalidEndpointID
      else if \<not> validSSHUser sshUser then Inl ErrInvalidSSHUser
      else if sshPort = 0 then Inl ErrInvalidSSHPort
      else case RelayConfig_Validate relayConfig of
        Inl e \<Rightarrow> Inl e
      | Inr _ \<Rightarrow>
          (case buildProxyCommandWithRoutes relayConfig directAddresses of
             Inl e \<Rightarrow> Inl e
           | Inr proxyCmd \<Rightarrow> Inr (ssh_args sshPort proxyCmd sshUser endpointID)))"

definition BuildGrantAwareSSHCommand ::
    "string \<Rightarrow> string \<Rightarrow> string \<Rightarrow> uint16 \<Rightarrow> RelayConfig \<Rightarrow> string list \<Rightarrow> CommandError + SshCommand" where
  "BuildGrantAwareSSHCommand hostRef endpointID sshUser sshPort relayConfig directAddresses =
     (if \<not> validHostReference hostRef then Inl ErrInvalidHostReference
      else if \<not> validEndpointID endpointID then Inl ErrInvalidEndpointID
      else if \<not> validSSHUser sshUser then Inl ErrInvalidSSHUser
      else if sshPort = 0 then Inl ErrInvalidSSHPort
      else case buildGrantAwareProxyCommand hostRef relayConfig directAddresses of
        Inl e \<Rightarrow> Inl e
      | Inr proxyCmd \<Rightarrow> Inr (ssh_args sshPort proxyCmd sshUser endpointID))"

definition knownHostsCommand :: "string \<Rightarrow> string \<Rightarrow> string" where
  "knownHostsCommand ctlPath fingerprint =
     ''KnownHostsCommand='' @ shellQuote ctlPath @ '' known-host-key '' @ fingerprint @ '' %I %f %t %K''"

definition BuildStrictGrantAwareSSHCommand ::
    "string \<Rightarrow> string \<Rightarrow> string \<Rightarrow> string \<Rightarrow> uint16 \<Rightarrow> string \<Rightarrow> RelayConfig \<Rightarrow> string list \<Rightarrow>
     CommandError + SshCommand" where
  "BuildStrictGrantAwareSSHCommand ctlPath hostRef endpointID sshUser sshPort fingerprint relayConfig
     directAddresses =
     (case BuildGrantAwareSSHCommand hostRef endpointID sshUser sshPort relayConfig directAddresses of
        Inl e \<Rightarrow> Inl e
      | Inr cmd \<Rightarrow>
          if ctlPath = [] \<or> ContainsAny ctlPath [CHR 0x00, CHR 0x0D, CHR 0x0A] then Inl ErrInvalidCTLPath
          else if \<not> ValidHostKeyFingerprint fingerprint then Inl ErrInvalidHostKey
          else
            let strict = [''-o'', ''UserKnownHostsFile=none'', ''-o'', ''GlobalKnownHostsFile=none'',
                          ''-o'', ''StrictHostKeyChecking=yes'', ''-o'', ''CheckHostIP=no'',
                          ''-o'', ''UpdateHostKeys=no'', ''-o'', knownHostsCommand ctlPath fingerprint]
            in Inr (cmd\<lparr>cmd_Args := butlast (cmd_Args cmd) @ strict @ [last (cmd_Args cmd)]\<rparr>))"

subsection \<open>Validation of received commands\<close>

fun validateRouteArgs :: "string list \<Rightarrow> CommandError + unit" where
  "validateRouteArgs [] = Inr ()"
| "validateRouteArgs [flag] = Inl ErrInvalidProxyCommand"
| "validateRouteArgs (flag # arg # parts) =
     (case unquoteShellArg arg of
        None \<Rightarrow> Inl ErrInvalidProxyCommand
      | Some val \<Rightarrow>
          if flag = ''--direct-address'' then
            (if \<not> validDirectAddress val then Inl ErrInvalidDirectAddress else validateRouteArgs parts)
          else if flag = ''--relay-url'' then
            (if \<not> validRelayURL val then Inl ErrInvalidRelayURL else validateRouteArgs parts)
          else Inl ErrInvalidProxyCommand)"

definition ValidateProxyCommand :: "string \<Rightarrow> CommandError + unit" where
  "ValidateProxyCommand val =
     (let proxy = TrimPrefix val ''ProxyCommand='' in
      if proxy = val then Inl ErrInvalidProxyCommand
      else let parts = Fields proxy in
        if length parts \<ge> 4 \<and>
           ((parts ! 0 = ''pigeons'' \<and> parts ! 1 = ''fly'' \<and> parts ! 2 = ''--stdio'' \<and> parts ! 3 = ''%h'') \<or>
            (parts ! 0 = ''ternalctl'' \<and> parts ! 1 = ''proxy'' \<and> validHostReference (parts ! 2) \<and>
             parts ! 3 = ''%h:%p''))
        then validateRouteArgs (drop 4 parts)
        else Inl ErrInvalidProxyCommand)"

definition ValidateProxyInvocation :: "string \<Rightarrow> string \<Rightarrow> string list \<Rightarrow> CommandError + unit" where
  "ValidateProxyInvocation hostRef endpointPort routeArgs =
     (if \<not> validHostReference hostRef then Inl ErrInvalidHostReference
      else case LastIndex endpointPort CHR '':'' of
        None \<Rightarrow> Inl ErrInvalidProxyCommand
      | Some idx \<Rightarrow>
          if \<not> validEndpointID (take idx endpointPort) then Inl ErrInvalidEndpointID
          else (case ParseUint (drop (idx + 1) endpointPort) 16 of
                  None \<Rightarrow> Inl ErrInvalidSSHPort
                | Some portNum \<Rightarrow>
                    if portNum = 0 then Inl ErrInvalidSSHPort else validateRouteArgs routeArgs))"

subsection \<open>Quoting and unquoting\<close>

lemma ReplaceAll_unescape:
  "ReplaceAll (ReplaceAll v [squote] squote_escape) squote_escape [squote] = v"
proof (induction v)
  case (Cons c v)
  show ?case
  proof (cases "c = squote")
    case True
    have "ReplaceAll (c # v) [squote] squote_escape = squote_escape @ ReplaceAll v [squote] squote_escape"
      using True by (simp add: ReplaceAll_single)
    moreover have "squote_escape \<noteq> []" by (simp add: squote_escape_def)
    ultimately show ?thesis using Cons True by (simp add: ReplaceAll_match)
  next
    case False
    then have "ReplaceAll (c # v) [squote] squote_escape = c # ReplaceAll v [squote] squote_escape"
      by (simp add: ReplaceAll_single)
    moreover have "\<not> HasPrefix (c # t) squote_escape" for t
      using False by (simp add: squote_escape_def)
    ultimately show ?thesis using Cons by (simp add: ReplaceAll_nomatch)
  qed
qed simp

lemma ReplaceAll_single_absent: "c \<notin> set v \<Longrightarrow> ReplaceAll v [c] new = v"
  by (induction v) (auto simp: ReplaceAll_single)

lemma Contains_append: "Contains (u @ x @ w) x"
  using Index_leftmost [of "u @ x @ w" u x w] by (auto simp: Contains_def)

lemma Contains_escape: "Contains (ReplaceAll v [squote] squote_escape) squote_escape \<longleftrightarrow> squote \<in> set v"
proof
  assume "squote \<in> set v"
  then obtain u w where v: "v = u @ squote # w" by (auto dest: split_list)
  show "Contains (ReplaceAll v [squote] squote_escape) squote_escape"
    using v Contains_append [of "ReplaceAll u [squote] squote_escape" squote_escape
      "ReplaceAll w [squote] squote_escape"] by (simp add: ReplaceAll_single)
next
  assume c: "Contains (ReplaceAll v [squote] squote_escape) squote_escape"
  show "squote \<in> set v"
  proof (rule ccontr)
    assume n: "squote \<notin> set v"
    with c have "Contains v squote_escape" by (simp add: ReplaceAll_single_absent)
    then obtain u w where "v = u @ squote_escape @ w" by (auto simp: Contains_def Index_None_iff)
    with n show False by (simp add: squote_escape_def)
  qed
qed

lemma unquote_shellQuote_eq:
  "unquoteShellArg (shellQuote v) = (if dquote \<in> set v \<and> squote \<notin> set v then None else Some v)"
proof (cases "ContainsAny v ([CHR '' '', CHR 0x09, squote, bslash, dquote] @ ''[]*?'')")
  case False
  then have q: "shellQuote v = v" "squote \<notin> set v" "dquote \<notin> set v"
    by (auto simp: shellQuote_def ContainsAny_iff)
  moreover have "\<not> HasPrefix v [squote]" using q(2) by (cases v) auto
  ultimately show ?thesis by (simp add: unquoteShellArg_def)
next
  case True
  let ?e = "ReplaceAll v [squote] squote_escape"
  have q: "shellQuote v = [squote] @ ?e @ [squote]" using True by (simp add: shellQuote_def)
  have "ContainsAny ?e [squote, dquote] \<longleftrightarrow> squote \<in> set v \<or> dquote \<in> set v"
    by (auto simp: ContainsAny_iff ReplaceAll_single squote_escape_def dquote_def squote_def bslash_def
        split: if_splits)
  moreover have "HasSuffix (shellQuote v) [squote]" unfolding q HasSuffix_iff by (metis append.assoc)
  ultimately show ?thesis
    unfolding unquoteShellArg_def
    by (auto simp: q Contains_escape ReplaceAll_unescape Let_def)
qed

subsection \<open>Words of the proxy command\<close>

definition word_ok :: "string \<Rightarrow> bool" where
  "word_ok w \<longleftrightarrow> w \<noteq> [] \<and> set w \<inter> space_lead = {}"

text \<open>The bytes outside letters, digits and \<open>_-.:/+%[]'\<close>: among them all that \<^verbatim>\<open>sh\<close> interprets.\<close>

definition shell_inert :: "char \<Rightarrow> bool" where
  "shell_inert c \<longleftrightarrow> isAlphanumeric c \<or> c \<in> set ''_-.:/+%'' \<or> c \<in> set ''[]'' \<or> c = squote"

definition route_words :: "RelayConfig \<Rightarrow> string list \<Rightarrow> string list" where
  "route_words rc addrs =
     concat (map (\<lambda>a. [''--direct-address'', shellQuote a]) addrs) @
     concat (map (\<lambda>u. [''--relay-url'', u]) (rc_RelayURLs rc @ rc_ExtraRelayURLs rc))"

lemma inert_no_space: "shell_inert c \<Longrightarrow> c \<notin> space_lead"
  by (auto simp: shell_inert_def space_lead_def isAlphanumeric_def is_lower_def is_upper_def
      is_digit_def char_le_nat squote_def)

lemma word_okI: "w \<noteq> [] \<Longrightarrow> \<forall>c \<in> set w. shell_inert c \<Longrightarrow> word_ok w"
  by (auto simp: word_ok_def dest: inert_no_space)

lemma hex_alphanumeric: "is_hex_digit c \<Longrightarrow> isAlphanumeric c"
  by (auto simp: is_hex_digit_def isAlphanumeric_def is_lower_def is_upper_def char_le_nat)

lemma addr_byte_inert: "addr_byte c \<Longrightarrow> shell_inert c"
  by (auto simp: addr_byte_def shell_inert_def hex_alphanumeric)

lemma addr_byte_no_quote: "addr_byte c \<Longrightarrow> c \<noteq> squote \<and> c \<noteq> dquote \<and> c \<noteq> bslash \<and> c \<notin> set '' *?''"
  by (auto simp: addr_byte_def is_hex_digit_def is_digit_def char_le_nat squote_def dquote_def bslash_def)

lemma validRelayURL_bytes: "validRelayURL u \<Longrightarrow> c \<in> set u \<Longrightarrow> relay_url_byte c"
  by (auto simp: validRelayURL_def list_all_iff split: if_splits)

lemma relay_byte_inert: "relay_url_byte c \<Longrightarrow> shell_inert c \<and> c \<noteq> squote"
  by (auto simp: relay_url_byte_def shell_inert_def isAlphanumeric_def is_lower_def is_upper_def
      is_digit_def char_le_nat squote_def)

lemma validRelayURL_nonempty: "validRelayURL u \<Longrightarrow> u \<noteq> []"
  by (auto simp: validRelayURL_def)

lemma validHostReference_bytes: "validHostReference r \<Longrightarrow> c \<in> set r \<Longrightarrow> shell_inert c"
  by (auto simp: validHostReference_def list_all_iff shell_inert_def split: if_splits)

lemma validHostReference_nonempty: "validHostReference r \<Longrightarrow> r \<noteq> []"
  by (auto simp: validHostReference_def)

text \<open>An accepted address is quoted, if at all, by a plain pair of quotes.\<close>

lemma shellQuote_addr:
  assumes "validDirectAddress a"
  shows "shellQuote a = (if ContainsAny a ''[]'' then [squote] @ a @ [squote] else a)"
proof -
  have no: "c \<notin> {squote, dquote, bslash, CHR '' '', CHR 0x09, CHR ''*'', CHR ''?''}" if "c \<in> set a" for c
    using validDirectAddress_bytes [OF assms that] addr_byte_no_quote addr_byte_inert inert_no_space
    by (fastforce simp: space_lead_def)
  then have "squote \<notin> set a" by blast
  then have "ReplaceAll a [squote] squote_escape = a" by (rule ReplaceAll_single_absent)
  with no show ?thesis by (auto simp: shellQuote_def ContainsAny_iff)
qed

lemma shellQuote_addr_inert:
  assumes "validDirectAddress a"
  shows "shellQuote a \<noteq> [] \<and> (\<forall>c \<in> set (shellQuote a). shell_inert c)"
  using assms validDirectAddress_nonempty [OF assms] validDirectAddress_bytes [OF assms] addr_byte_inert
  by (auto simp: shellQuote_addr shell_inert_def)

lemma unquote_addr: "validDirectAddress a \<Longrightarrow> unquoteShellArg (shellQuote a) = Some a"
  using validDirectAddress_bytes addr_byte_no_quote by (auto simp: unquote_shellQuote_eq)

lemma unquote_relay: "validRelayURL u \<Longrightarrow> unquoteShellArg u = Some u"
  using validRelayURL_bytes [of u] relay_byte_inert
  by (cases u) (auto simp: unquoteShellArg_def)

lemma Join_snoc2: "ws \<noteq> [] \<Longrightarrow> Join (ws @ [v, w]) sep = Join ws sep @ sep @ v @ sep @ w"
  using Join_snoc [of "ws @ [v]" w sep] Join_snoc [of ws v sep] by simp

lemma append_direct_words:
  "ws \<noteq> [] \<Longrightarrow> append_direct (Join ws '' '') addrs =
     (if list_all validDirectAddress addrs
      then Inr (Join (ws @ concat (map (\<lambda>a. [''--direct-address'', shellQuote a]) addrs)) '' '')
      else Inl ErrInvalidDirectAddress)"
proof (induction addrs arbitrary: ws)
  case (Cons a addrs)
  have "Join ws '' '' @ '' --direct-address '' @ shellQuote a =
      Join (ws @ [''--direct-address'', shellQuote a]) '' ''"
    using Join_snoc2 [OF Cons.prems, of "''--direct-address''" "shellQuote a" "'' ''"] by simp
  then show ?case using Cons.IH [of "ws @ [''--direct-address'', shellQuote a]"] by simp
qed simp

lemma append_relays_words:
  "ws \<noteq> [] \<Longrightarrow> append_relays (Join ws '' '') urls =
     Join (ws @ concat (map (\<lambda>u. [''--relay-url'', u]) urls)) '' ''"
proof (induction urls arbitrary: ws)
  case (Cons u urls)
  have "Join ws '' '' @ '' --relay-url '' @ u = Join (ws @ [''--relay-url'', u]) '' ''"
    using Join_snoc2 [OF Cons.prems, of "''--relay-url''" u "'' ''"] by simp
  then show ?case using Cons.IH [of "ws @ [''--relay-url'', u]"] by simp
qed simp

text \<open>Success of the route builder, exactly: valid relays, a route, valid addresses.\<close>

definition routes_ok :: "RelayConfig \<Rightarrow> string list \<Rightarrow> bool" where
  "routes_ok rc addrs \<longleftrightarrow>
     list_all validRelayURL (rc_RelayURLs rc @ rc_ExtraRelayURLs rc) \<and>
     list_all validDirectAddress addrs \<and>
     \<not> (addrs = [] \<and> rc_RelayURLs rc = [] \<and> rc_ExtraRelayURLs rc = [])"

lemma appendRouteArgs_words:
  assumes "ws \<noteq> []"
  shows "appendRouteArgs (Join ws '' '') rc addrs = Inr c \<longleftrightarrow>
    routes_ok rc addrs \<and> c = Join (ws @ route_words rc addrs) '' ''"
proof (cases "routes_ok rc addrs")
  case True
  then have "appendRouteArgs (Join ws '' '') rc addrs = Inr (Join (ws @ route_words rc addrs) '' '')"
    unfolding appendRouteArgs_def append_direct_words [OF assms] routes_ok_def
    by (simp add: RelayConfig_Validate_def append_relays_words assms route_words_def)
  with True show ?thesis by auto
next
  case False
  then show ?thesis
    unfolding appendRouteArgs_def append_direct_words [OF assms] routes_ok_def
    by (simp add: RelayConfig_Validate_def split: if_splits) blast
qed

lemma direct_flag_inert: "list_all shell_inert ''--direct-address''"
  by code_simp

lemma relay_flag_inert: "list_all shell_inert ''--relay-url''"
  by code_simp

lemma command_words_inert: "list_all (\<lambda>w. list_all shell_inert w) [''ternalctl'', ''proxy'', ''%h:%p'']"
  by code_simp

lemma route_words_cases:
  assumes "routes_ok rc addrs" and "w \<in> set (route_words rc addrs)"
  obtains "w = ''--direct-address''" | "w = ''--relay-url''"
    | a where "validDirectAddress a" "w = shellQuote a" | "validRelayURL w"
proof -
  have "w = ''--direct-address'' \<or> w = ''--relay-url'' \<or> w \<in> shellQuote ` set addrs \<or>
      w \<in> set (rc_RelayURLs rc @ rc_ExtraRelayURLs rc)"
    using assms(2) by (auto simp: route_words_def split: if_splits)
  with assms(1) that show ?thesis unfolding routes_ok_def list_all_iff by blast
qed

lemma route_words_inert:
  assumes "routes_ok rc addrs" and "w \<in> set (route_words rc addrs)"
  shows "w \<noteq> [] \<and> (\<forall>c \<in> set w. shell_inert c)"
proof -
  note flags = direct_flag_inert [unfolded list_all_iff] relay_flag_inert [unfolded list_all_iff]
  from assms show ?thesis
  proof (cases rule: route_words_cases)
    case 1
    with flags(1) show ?thesis by (simp only: list.simps simp_thms)
  next
    case 2
    with flags(2) show ?thesis by (simp only: list.simps simp_thms)
  next
    case (3 a)
    with shellQuote_addr_inert [of a] show ?thesis by simp
  next
    case 4
    with validRelayURL_bytes validRelayURL_nonempty relay_byte_inert show ?thesis by blast
  qed
qed

lemma validateRouteArgs_direct:
  "list_all validDirectAddress addrs \<Longrightarrow>
   validateRouteArgs (concat (map (\<lambda>a. [''--direct-address'', shellQuote a]) addrs) @ rest) =
   validateRouteArgs rest"
  by (induction addrs) (simp_all add: unquote_addr)

lemma validateRouteArgs_relay:
  "list_all validRelayURL urls \<Longrightarrow>
   validateRouteArgs (concat (map (\<lambda>u. [''--relay-url'', u]) urls)) = Inr ()"
  by (induction urls) (simp_all add: unquote_relay)

lemma validateRouteArgs_route_words:
  "routes_ok rc addrs \<Longrightarrow> validateRouteArgs (route_words rc addrs) = Inr ()"
  using validateRouteArgs_relay [of "rc_RelayURLs rc @ rc_ExtraRelayURLs rc"]
  by (simp add: routes_ok_def route_words_def validateRouteArgs_direct)

subsection \<open>The strict command\<close>

definition proxy_words :: "string \<Rightarrow> RelayConfig \<Rightarrow> string list \<Rightarrow> string list" where
  "proxy_words hostRef rc addrs = [''ternalctl'', ''proxy'', hostRef, ''%h:%p''] @ route_words rc addrs"

lemma buildGrantAwareProxyCommand_iff:
  "buildGrantAwareProxyCommand hostRef rc addrs = Inr c \<longleftrightarrow>
     validHostReference hostRef \<and> routes_ok rc addrs \<and> c = Join (proxy_words hostRef rc addrs) '' ''"
proof -
  have "''ternalctl proxy '' @ hostRef @ '' %h:%p'' = Join [''ternalctl'', ''proxy'', hostRef, ''%h:%p''] '' ''"
    by simp
  then show ?thesis
    using appendRouteArgs_words [of "[''ternalctl'', ''proxy'', hostRef, ''%h:%p'']" rc addrs c]
    by (auto simp: buildGrantAwareProxyCommand_def proxy_words_def simp del: Join.simps append.simps)
qed

lemma proxy_words_inert:
  assumes "validHostReference hostRef" and "routes_ok rc addrs" and "w \<in> set (proxy_words hostRef rc addrs)"
  shows "w \<noteq> [] \<and> (\<forall>c \<in> set w. shell_inert c)"
proof -
  from assms(3) consider "w \<in> set [''ternalctl'', ''proxy'', ''%h:%p'']" | "w = hostRef"
    | "w \<in> set (route_words rc addrs)" by (auto simp: proxy_words_def)
  then show ?thesis
  proof cases
    case 1
    then have "w \<noteq> []" by auto
    with 1 command_words_inert show ?thesis unfolding list_all_iff by blast
  next
    case 2
    with validHostReference_bytes [OF assms(1)] validHostReference_nonempty [OF assms(1)]
    show ?thesis by blast
  next
    case 3
    with route_words_inert [OF assms(2)] show ?thesis by blast
  qed
qed

lemma Fields_proxy_words:
  assumes "validHostReference hostRef" and "routes_ok rc addrs"
  shows "Fields (Join (proxy_words hostRef rc addrs) '' '') = proxy_words hostRef rc addrs"
  using proxy_words_inert [OF assms] word_okI
  by (intro Fields_Join) (simp add: list_all_iff word_ok_def)

lemma ValidateProxyCommand_proxy_words:
  assumes "validHostReference hostRef" and "routes_ok rc addrs"
  shows "ValidateProxyCommand (''ProxyCommand='' @ Join (proxy_words hostRef rc addrs) '' '') = Inr ()"
proof -
  let ?p = "Join (proxy_words hostRef rc addrs) '' ''"
  have t: "TrimPrefix (''ProxyCommand='' @ ?p) ''ProxyCommand='' = ?p" by (rule TrimPrefix_append)
  have ne: "?p \<noteq> ''ProxyCommand='' @ ?p" by (simp del: Join.simps)
  show ?thesis
    unfolding ValidateProxyCommand_def t Fields_proxy_words [OF assms] Let_def
    using ne assms validateRouteArgs_route_words [OF assms(2)] by (simp add: proxy_words_def del: Join.simps)
qed

lemma ValidateProxyInvocation_ok:
  assumes "validHostReference hostRef" "validEndpointID ep" "port \<noteq> 0" "validateRouteArgs ws = Inr ()"
  shows "ValidateProxyInvocation hostRef (ep @ '':'' @ FormatUint (unat (port :: uint16))) ws = Inr ()"
proof -
  have "CHR '':'' \<notin> set (FormatUint (unat port))"
    using FormatUint_bytes [of "CHR '':''" "unat port"] by (auto simp: is_digit_def char_le_nat)
  then have li: "LastIndex (ep @ CHR '':'' # FormatUint (unat port)) CHR '':'' = Some (length ep)"
    by (rule LastIndex_append_notin)
  have "unat port < 2 ^ 16" using unsigned_less [of port] by simp
  then have pu: "ParseUint (FormatUint (unat port)) 16 = Some (unat port)" by (rule ParseUint_FormatUint)
  have "unat port \<noteq> 0" using assms(3) by (simp add: unat_eq_0)
  then show ?thesis using assms li pu by (simp add: ValidateProxyInvocation_def)
qed

lemma quoted_route_words:
  assumes "validHostReference hostRef" and "routes_ok rc addrs"
    and "w \<in> set (proxy_words hostRef rc addrs)" and "ContainsAny w ''[]''"
  shows "\<exists>a. validDirectAddress a \<and> w = [squote] @ a @ [squote]"
proof -
  have no: "\<not> ContainsAny u ''[]''" if "\<forall>c \<in> set u. relay_url_byte c \<or> c = CHR ''%''" for u
    using that by (auto simp: ContainsAny_iff relay_url_byte_def isAlphanumeric_def is_lower_def
        is_upper_def is_digit_def char_le_nat)
  have host: "\<forall>c \<in> set hostRef. relay_url_byte c \<or> c = CHR ''%''"
    using assms(1) by (auto simp: validHostReference_def list_all_iff relay_url_byte_def split: if_splits)
  have fixed: "list_all (\<lambda>u. \<not> ContainsAny u ''[]'')
      [''ternalctl'', ''proxy'', ''%h:%p'']" by code_simp
  have plain: "\<not> ContainsAny ''--direct-address'' ''[]''" "\<not> ContainsAny ''--relay-url'' ''[]''"
    by code_simp+
  consider "w \<in> set [''ternalctl'', ''proxy'', ''%h:%p'']" | "w = hostRef" | "w \<in> set (route_words rc addrs)"
    using assms(3) by (auto simp: proxy_words_def)
  then show ?thesis
  proof cases
    case 1
    with fixed assms(4) show ?thesis by (auto simp: ContainsAny_def)
  next
    case 2
    with no [OF host] assms(4) show ?thesis by blast
  next
    case 3
    from assms(2) this show ?thesis
    proof (cases rule: route_words_cases)
      case (3 a)
      with assms(4) have "w = [squote] @ a @ [squote]" by (simp add: shellQuote_addr split: if_splits)
      with 3 show ?thesis by blast
    next
      case 4
      with no [of w] validRelayURL_bytes assms(4) show ?thesis by blast
    qed (use plain assms(4) in simp_all)
  qed
qed

lemma BuildStrict_iff:
  "BuildStrictGrantAwareSSHCommand ctl hostRef ep user port fp rc addrs = Inr cmd \<longleftrightarrow>
     validHostReference hostRef \<and> validEndpointID ep \<and> validSSHUser user \<and> port \<noteq> 0 \<and>
     routes_ok rc addrs \<and> ctl \<noteq> [] \<and> \<not> ContainsAny ctl [CHR 0x00, CHR 0x0D, CHR 0x0A] \<and>
     ValidHostKeyFingerprint fp \<and>
     cmd = \<lparr>cmd_Program = ''ssh'', cmd_Args =
       [''-p'', FormatUint (unat port),
        ''-o'', ''ProxyCommand='' @ Join (proxy_words hostRef rc addrs) '' '',
        ''-o'', ''UserKnownHostsFile=none'', ''-o'', ''GlobalKnownHostsFile=none'',
        ''-o'', ''StrictHostKeyChecking=yes'', ''-o'', ''CheckHostIP=no'', ''-o'', ''UpdateHostKeys=no'',
        ''-o'', knownHostsCommand ctl fp, user @ ''@'' @ ep]\<rparr>"
proof (cases "buildGrantAwareProxyCommand hostRef rc addrs")
  case (Inl e)
  then have "\<not> (validHostReference hostRef \<and> routes_ok rc addrs)"
    using buildGrantAwareProxyCommand_iff [of hostRef rc addrs] by auto
  with Inl show ?thesis
    by (auto simp: BuildStrictGrantAwareSSHCommand_def BuildGrantAwareSSHCommand_def simp del: Join.simps)
next
  case (Inr c)
  then have "validHostReference hostRef \<and> routes_ok rc addrs \<and> c = Join (proxy_words hostRef rc addrs) '' ''"
    by (simp add: buildGrantAwareProxyCommand_iff del: Join.simps)
  with Inr show ?thesis
    by (auto simp: BuildStrictGrantAwareSSHCommand_def BuildGrantAwareSSHCommand_def ssh_args_def Let_def
        simp del: Join.simps split: if_splits)
qed

text \<open>C21.  Every strict SSH command the builder returns pins the host key, names the destination
  last and carries a \<^verbatim>\<open>ProxyCommand\<close> that the client's own validators accept, both as text and, after
  \<^verbatim>\<open>ssh\<close> has split it and substituted endpoint and port, as an invocation; each of its words consists of
  bytes the shell leaves alone, and a word with a glob bracket is a direct address in single
  quotes.\<close>

theorem BuildStrict_sound:
  assumes "BuildStrictGrantAwareSSHCommand ctl hostRef ep user port fp rc addrs = Inr cmd"
  shows "\<exists>proxy. cmd_Program cmd = ''ssh'' \<and> cmd_Args cmd =
       [''-p'', FormatUint (unat port), ''-o'', ''ProxyCommand='' @ proxy,
        ''-o'', ''UserKnownHostsFile=none'', ''-o'', ''GlobalKnownHostsFile=none'',
        ''-o'', ''StrictHostKeyChecking=yes'', ''-o'', ''CheckHostIP=no'', ''-o'', ''UpdateHostKeys=no'',
        ''-o'', knownHostsCommand ctl fp, user @ ''@'' @ ep] \<and>
     ValidHostKeyFingerprint fp \<and>
     ValidateProxyCommand (''ProxyCommand='' @ proxy) = Inr () \<and>
     ValidateProxyInvocation hostRef (ep @ '':'' @ FormatUint (unat port)) (drop 4 (Fields proxy)) = Inr () \<and>
     (\<forall>w \<in> set (Fields proxy). (\<forall>c \<in> set w. shell_inert c) \<and>
       (ContainsAny w ''[]'' \<longrightarrow> (\<exists>a. validDirectAddress a \<and> w = [squote] @ a @ [squote])))"
proof -
  let ?proxy = "Join (proxy_words hostRef rc addrs) '' ''"
  have ok: "validHostReference hostRef" "validEndpointID ep" "port \<noteq> 0" "routes_ok rc addrs"
    "ValidHostKeyFingerprint fp" using assms by (auto simp: BuildStrict_iff)
  have fields: "Fields ?proxy = proxy_words hostRef rc addrs" by (rule Fields_proxy_words [OF ok(1,4)])
  have inv: "ValidateProxyInvocation hostRef (ep @ '':'' @ FormatUint (unat port)) (drop 4 (Fields ?proxy)) = Inr ()"
    using ValidateProxyInvocation_ok [OF ok(1,2,3) validateRouteArgs_route_words [OF ok(4)]]
    unfolding fields by (simp add: proxy_words_def)
  show ?thesis
    using assms ok(5) inv ValidateProxyCommand_proxy_words [OF ok(1,4)]
      proxy_words_inert [OF ok(1,4)] quoted_route_words [OF ok(1,4)]
    unfolding BuildStrict_iff by (intro exI [of _ ?proxy]) (auto simp: fields simp del: Join.simps)
qed

definition sample_relays :: RelayConfig where
  "sample_relays = \<lparr>rc_RelayURLs = [''https://relay.example''], rc_ExtraRelayURLs = []\<rparr>"

definition sample_strict :: "CommandError + SshCommand" where
  "sample_strict = BuildStrictGrantAwareSSHCommand ''/usr/local/bin/ternalctl'' ''host-1''
     (replicate 64 CHR ''a'') ''ops'' 22 (''SHA256:'' @ replicate 43 CHR ''A'') sample_relays
     [''127.0.0.1:4444'', ''[2001:db8::1]:443'']"

theorem BuildStrict_sound_witness:
  "\<exists>cmd proxy. sample_strict = Inr cmd \<and> cmd_Args cmd ! 3 = ''ProxyCommand='' @ proxy \<and>
     ValidateProxyCommand (''ProxyCommand='' @ proxy) = Inr ()"
proof -
  have "\<not> isl sample_strict" by code_simp
  then obtain cmd where cmd: "sample_strict = Inr cmd" by (metis sum.collapse(2))
  from BuildStrict_sound [OF cmd [unfolded sample_strict_def]] cmd show ?thesis by auto
qed

text \<open>The strict builder fails closed: it returns a command exactly when the host reference,
  endpoint, account, port, host-key fingerprint and control path are well formed, every relay URL
  and direct address is valid and there is at least one route; otherwise it returns an error.\<close>

lemma BuildStrict_fails_closed:
  "(\<exists>cmd. BuildStrictGrantAwareSSHCommand ctl hostRef ep user port fp rc addrs = Inr cmd) \<longleftrightarrow>
     validHostReference hostRef \<and> validEndpointID ep \<and> validSSHUser user \<and> port \<noteq> 0 \<and>
     list_all validRelayURL (rc_RelayURLs rc @ rc_ExtraRelayURLs rc) \<and>
     list_all validDirectAddress addrs \<and>
     \<not> (addrs = [] \<and> rc_RelayURLs rc = [] \<and> rc_ExtraRelayURLs rc = []) \<and>
     ctl \<noteq> [] \<and> \<not> ContainsAny ctl [CHR 0x00, CHR 0x0D, CHR 0x0A] \<and> ValidHostKeyFingerprint fp"
  unfolding BuildStrict_iff routes_ok_def by blast

end
