(* ===== verification/Ctx_RW_Mutex.thy ===== *)
theory Ctx_RW_Mutex
  imports Prelude
begin

section \<open>The cancellable read-write lock (internal/store/ctxrwmutex.go)\<close>

text \<open>
  \<^verbatim>\<open>ctxRWMutex\<close> guards the store and the trust fence.  Every method runs its body under the
  internal \<^verbatim>\<open>sync.Mutex\<close>, so each critical section between \<^verbatim>\<open>m.mu.Lock()\<close> and \<^verbatim>\<open>m.mu.Unlock()\<close> is one
  atomic step.  The state is the struct's fields, with the broadcast channel replaced by its
  generation number: \<^verbatim>\<open>broadcast\<close> closes the current channel, that is, moves to the next generation,
  and a waiter that captured an older generation is woken.  A goroutine is in one of the control
  points below; the step relation lets any goroutine move at any time, and lets the context of a
  waiting goroutine expire at any time.
\<close>

record rwstate =
  readers :: int
  writer :: bool
  wwaiting :: int
  notify :: nat

definition rw_init :: rwstate where
  "rw_init = \<lparr>readers = 0, writer = False, wwaiting = 0, notify = 0\<rparr>"

definition broadcast :: "rwstate \<Rightarrow> rwstate" where
  "broadcast m = m\<lparr>notify := Suc (notify m)\<rparr>"

text \<open>The critical sections.  A lock attempt returns whether it acquired the lock; if not, the
  caller waits on the channel of the generation it saw.\<close>

definition RLock_try :: "rwstate \<Rightarrow> bool \<times> rwstate" where
  "RLock_try m =
     (if \<not> writer m \<and> wwaiting m = 0 then (True, m\<lparr>readers := readers m + 1\<rparr>) else (False, m))"

definition RUnlock :: "rwstate \<Rightarrow> rwstate" where
  "RUnlock m =
     (let m' = m\<lparr>readers := readers m - 1\<rparr> in if readers m' = 0 then broadcast m' else m')"

definition Lock_enter :: "rwstate \<Rightarrow> bool \<times> rwstate" where
  "Lock_enter m =
     (if \<not> writer m \<and> readers m = 0 then (True, m\<lparr>writer := True\<rparr>)
      else (False, m\<lparr>wwaiting := wwaiting m + 1\<rparr>))"

definition Lock_retry :: "rwstate \<Rightarrow> bool \<times> rwstate" where
  "Lock_retry m =
     (if \<not> writer m \<and> readers m = 0 then (True, m\<lparr>writer := True, wwaiting := wwaiting m - 1\<rparr>)
      else (False, m))"

definition Lock_cancel :: "rwstate \<Rightarrow> rwstate" where
  "Lock_cancel m =
     (let m' = m\<lparr>wwaiting := wwaiting m - 1\<rparr> in if wwaiting m' = 0 then broadcast m' else m')"

definition Unlock :: "rwstate \<Rightarrow> rwstate" where
  "Unlock m = broadcast (m\<lparr>writer := False\<rparr>)"

subsection \<open>Goroutines\<close>

text \<open>\<open>RWait g\<close> and \<open>WWait g\<close> are parked in the \<^verbatim>\<open>select\<close> on the channel of generation \<open>g\<close>.\<close>

datatype pc = Idle | Reading | Writing | RWait nat | WWait nat

record sys =
  lockst :: rwstate
  pcs :: "nat \<Rightarrow> pc"

definition sys_init :: sys where
  "sys_init = \<lparr>lockst = rw_init, pcs = (\<lambda>_. Idle)\<rparr>"

definition move :: "sys \<Rightarrow> nat \<Rightarrow> pc \<Rightarrow> rwstate \<Rightarrow> sys" where
  "move s t p m = s\<lparr>lockst := m, pcs := (pcs s)(t := p)\<rparr>"

inductive rw_step :: "sys \<Rightarrow> sys \<Rightarrow> bool" where
  rlock_ok: "pcs s t = Idle \<Longrightarrow> RLock_try (lockst s) = (True, m) \<Longrightarrow> rw_step s (move s t Reading m)"
| rlock_wait: "pcs s t = Idle \<Longrightarrow> RLock_try (lockst s) = (False, m) \<Longrightarrow>
    rw_step s (move s t (RWait (notify m)) m)"
| rwake_ok: "pcs s t = RWait g \<Longrightarrow> g < notify (lockst s) \<Longrightarrow> RLock_try (lockst s) = (True, m) \<Longrightarrow>
    rw_step s (move s t Reading m)"
| rwake_wait: "pcs s t = RWait g \<Longrightarrow> g < notify (lockst s) \<Longrightarrow> RLock_try (lockst s) = (False, m) \<Longrightarrow>
    rw_step s (move s t (RWait (notify m)) m)"
| rcancel: "pcs s t = RWait g \<Longrightarrow> rw_step s (move s t Idle (lockst s))"
| runlock: "pcs s t = Reading \<Longrightarrow> rw_step s (move s t Idle (RUnlock (lockst s)))"
| lock_ok: "pcs s t = Idle \<Longrightarrow> Lock_enter (lockst s) = (True, m) \<Longrightarrow> rw_step s (move s t Writing m)"
| lock_wait: "pcs s t = Idle \<Longrightarrow> Lock_enter (lockst s) = (False, m) \<Longrightarrow>
    rw_step s (move s t (WWait (notify m)) m)"
| wwake_ok: "pcs s t = WWait g \<Longrightarrow> g < notify (lockst s) \<Longrightarrow> Lock_retry (lockst s) = (True, m) \<Longrightarrow>
    rw_step s (move s t Writing m)"
| wwake_wait: "pcs s t = WWait g \<Longrightarrow> g < notify (lockst s) \<Longrightarrow> Lock_retry (lockst s) = (False, m) \<Longrightarrow>
    rw_step s (move s t (WWait (notify m)) m)"
| wcancel: "pcs s t = WWait g \<Longrightarrow> rw_step s (move s t Idle (Lock_cancel (lockst s)))"
| unlock: "pcs s t = Writing \<Longrightarrow> rw_step s (move s t Idle (Unlock (lockst s)))"

inductive rw_reachable :: "sys \<Rightarrow> bool" where
  init: "rw_reachable sys_init"
| step: "rw_reachable s \<Longrightarrow> rw_step s s' \<Longrightarrow> rw_reachable s'"

subsection \<open>Invariant\<close>

definition holders :: "sys \<Rightarrow> pc \<Rightarrow> nat set" where
  "holders s p = {t. pcs s t = p}"

definition wwaiters :: "sys \<Rightarrow> nat set" where
  "wwaiters s = {t. \<exists>g. pcs s t = WWait g}"

text \<open>
  The counters count the goroutines at each control point; at most one goroutine writes and
  none reads meanwhile; and nobody sleeps on the current generation without a reason: a parked
  reader has a writer or a waiting writer in front of it, a parked writer has an owner in front
  of it or another goroutine that will be woken (it is not parked on the current generation).
\<close>

definition rw_inv :: "sys \<Rightarrow> bool" where
  "rw_inv s \<longleftrightarrow>
     finite {t. pcs s t \<noteq> Idle} \<and>
     readers (lockst s) = int (card (holders s Reading)) \<and>
     wwaiting (lockst s) = int (card (wwaiters s)) \<and>
     (writer (lockst s) \<longleftrightarrow> holders s Writing \<noteq> {}) \<and>
     card (holders s Writing) \<le> 1 \<and>
     (writer (lockst s) \<longrightarrow> readers (lockst s) = 0) \<and>
     (\<forall>t g. pcs s t = RWait g \<or> pcs s t = WWait g \<longrightarrow> g \<le> notify (lockst s)) \<and>
     (\<forall>t. pcs s t = RWait (notify (lockst s)) \<longrightarrow> writer (lockst s) \<or> wwaiting (lockst s) > 0) \<and>
     (\<forall>t. pcs s t = WWait (notify (lockst s)) \<longrightarrow> writer (lockst s) \<or> readers (lockst s) > 0)"

subsection \<open>Preservation\<close>

lemma move_simps [simp]:
  "lockst (move s t p m) = m" "pcs (move s t p m) = (pcs s)(t := p)"
  by (simp_all add: move_def)

lemma finite_holders:
  assumes "finite {t. pcs s t \<noteq> Idle}"
  shows "q \<noteq> Idle \<Longrightarrow> finite (holders s q)" and "finite (wwaiters s)"
  by (auto simp: holders_def wwaiters_def intro: finite_subset [OF _ assms])

lemma finite_active_move:
  "finite {u. pcs s u \<noteq> Idle} \<Longrightarrow> finite {u. pcs (move s t p m) u \<noteq> Idle}"
  by (rule finite_subset [of _ "insert t {u. pcs s u \<noteq> Idle}"]) auto

lemma holders_move:
  "holders (move s t p m) q = (if p = q then insert t (holders s q) else holders s q - {t})"
  by (auto simp: holders_def)

lemma wwaiters_move:
  "wwaiters (move s t p m) = (if \<exists>g. p = WWait g then insert t (wwaiters s) else wwaiters s - {t})"
  by (auto simp: wwaiters_def)

lemma card_move:
  assumes "finite {u. pcs s u \<noteq> Idle}"
  shows "q \<noteq> Idle \<Longrightarrow> int (card (holders (move s t p m) q)) = int (card (holders s q))
      + of_bool (p = q) - of_bool (pcs s t = q)"
    and "int (card (wwaiters (move s t p m))) = int (card (wwaiters s))
      + of_bool (\<exists>g. p = WWait g) - of_bool (\<exists>g. pcs s t = WWait g)"
proof -
  assume "q \<noteq> Idle"
  then have f: "finite (holders s q)" by (rule finite_holders(1) [OF assms])
  have "t \<in> holders s q \<longleftrightarrow> pcs s t = q" by (simp add: holders_def)
  moreover have "t \<in> holders s q \<Longrightarrow> 0 < card (holders s q)" using f by (auto simp: card_gt_0_iff)
  ultimately show "int (card (holders (move s t p m) q)) = int (card (holders s q))
      + of_bool (p = q) - of_bool (pcs s t = q)"
    using f by (auto simp: holders_move card_insert_if card_Diff_singleton_if of_nat_diff)
next
  have f: "finite (wwaiters s)" by (rule finite_holders(2) [OF assms])
  have "t \<in> wwaiters s \<longleftrightarrow> (\<exists>g. pcs s t = WWait g)" by (simp add: wwaiters_def)
  moreover have "t \<in> wwaiters s \<Longrightarrow> 0 < card (wwaiters s)" using f by (auto simp: card_gt_0_iff)
  ultimately show "int (card (wwaiters (move s t p m))) = int (card (wwaiters s))
      + of_bool (\<exists>g. p = WWait g) - of_bool (\<exists>g. pcs s t = WWait g)"
    using f by (auto simp: wwaiters_move card_insert_if card_Diff_singleton_if of_nat_diff)
qed

text \<open>The counters are positive where a goroutine needs them to be.\<close>

lemma rw_inv_counts:
  assumes "rw_inv s"
  shows "pcs s t = Reading \<Longrightarrow> 0 < readers (lockst s)" and "pcs s t = WWait g \<Longrightarrow> 0 < wwaiting (lockst s)"
    and "0 \<le> readers (lockst s)" and "0 \<le> wwaiting (lockst s)"
    and "pcs s t = Reading \<Longrightarrow> \<not> writer (lockst s)" and "pcs s t = Writing \<Longrightarrow> writer (lockst s)"
proof -
  have fin: "finite {u. pcs s u \<noteq> Idle}" using assms by (simp add: rw_inv_def)
  show r: "pcs s t = Reading \<Longrightarrow> 0 < readers (lockst s)"
    using assms finite_holders(1) [OF fin, of Reading] by (auto simp: rw_inv_def card_gt_0_iff holders_def)
  show "pcs s t = WWait g \<Longrightarrow> 0 < wwaiting (lockst s)"
    using assms finite_holders(2) [OF fin] by (auto simp: rw_inv_def card_gt_0_iff wwaiters_def)
  show "0 \<le> readers (lockst s)" "0 \<le> wwaiting (lockst s)" using assms by (simp_all add: rw_inv_def)
  show "pcs s t = Reading \<Longrightarrow> \<not> writer (lockst s)" using r assms by (auto simp: rw_inv_def)
  show "pcs s t = Writing \<Longrightarrow> writer (lockst s)" using assms by (auto simp: rw_inv_def holders_def)
qed

text \<open>A new control point for one goroutine and a new lock state keep the invariant when the
  lock state is adjusted accordingly.\<close>

lemma rw_inv_move:
  assumes inv: "rw_inv s"
    and r: "readers m = readers (lockst s) + of_bool (p = Reading) - of_bool (pcs s t = Reading)"
    and w: "wwaiting m = wwaiting (lockst s) + of_bool (\<exists>g. p = WWait g) - of_bool (\<exists>g. pcs s t = WWait g)"
    and wr: "writer m = (p = Writing \<or> writer (lockst s) \<and> pcs s t \<noteq> Writing)"
    and excl: "p = Writing \<Longrightarrow> \<not> writer (lockst s) \<and> readers (lockst s) = 0"
    and excl': "p = Reading \<Longrightarrow> \<not> writer (lockst s)"
    and gen: "notify (lockst s) \<le> notify m" "\<And>g. p = RWait g \<or> p = WWait g \<Longrightarrow> g \<le> notify m"
    and sr: "notify m = notify (lockst s) \<Longrightarrow> writer (lockst s) \<or> wwaiting (lockst s) > 0 \<Longrightarrow>
      writer m \<or> wwaiting m > 0"
    and sw: "notify m = notify (lockst s) \<Longrightarrow> writer (lockst s) \<or> readers (lockst s) > 0 \<Longrightarrow>
      writer m \<or> readers m > 0"
    and pr: "p = RWait (notify m) \<Longrightarrow> writer m \<or> wwaiting m > 0"
    and pw: "p = WWait (notify m) \<Longrightarrow> writer m \<or> readers m > 0"
  shows "rw_inv (move s t p m)"
proof -
  have fin: "finite {u. pcs s u \<noteq> Idle}" using inv by (simp add: rw_inv_def)
  note cards = card_move(1) [OF fin, of Reading] card_move(1) [OF fin, of Writing] card_move(2) [OF fin]
  have one: "card (holders s Writing) \<le> 1" "writer (lockst s) \<longleftrightarrow> holders s Writing \<noteq> {}"
    using inv by (simp_all add: rw_inv_def)
  have fw: "finite (holders s Writing)" by (rule finite_holders(1) [OF fin]) simp
  have tw: "t \<in> holders s Writing \<longleftrightarrow> pcs s t = Writing" by (simp add: holders_def)
  have single: "pcs s t = Writing \<Longrightarrow> holders s Writing = {t}"
    using one(1) fw tw by (metis card_le_Suc0_iff_eq One_nat_def empty_iff insertI1 insert_iff subsetI subset_antisym)
  have W: "writer m \<longleftrightarrow> holders (move s t p m) Writing \<noteq> {}"
    using wr one(2) single tw by (auto simp: holders_move)
  have C: "card (holders (move s t p m) Writing) \<le> 1"
    using cards(2) [of t p m] one excl by (cases "p = Writing"; cases "pcs s t = Writing") auto
  have R0: "writer m \<longrightarrow> readers m = 0"
  proof
    assume "writer m"
    with wr have "p = Writing \<or> writer (lockst s) \<and> pcs s t \<noteq> Writing" by simp
    moreover have "writer (lockst s) \<Longrightarrow> readers (lockst s) = 0" using inv by (simp add: rw_inv_def)
    ultimately have "readers (lockst s) = 0" "p \<noteq> Reading" using excl excl' by auto
    with r rw_inv_counts(1) [OF inv, of t] show "readers m = 0" by (cases "pcs s t = Reading") auto
  qed
  have G: "\<forall>u g. pcs (move s t p m) u = RWait g \<or> pcs (move s t p m) u = WWait g \<longrightarrow> g \<le> notify m"
    using gen inv by (auto simp: rw_inv_def) (meson le_trans)+
  have SR: "\<forall>u. pcs (move s t p m) u = RWait (notify m) \<longrightarrow> writer m \<or> wwaiting m > 0"
  proof (intro allI impI)
    fix u assume u: "pcs (move s t p m) u = RWait (notify m)"
    show "writer m \<or> wwaiting m > 0"
    proof (cases "u = t")
      case False
      with u inv gen(1) have "notify m = notify (lockst s)" by (auto simp: rw_inv_def intro: antisym)
      with u False inv sr show ?thesis by (auto simp: rw_inv_def)
    qed (use u pr in simp)
  qed
  have SW: "\<forall>u. pcs (move s t p m) u = WWait (notify m) \<longrightarrow> writer m \<or> readers m > 0"
  proof (intro allI impI)
    fix u assume u: "pcs (move s t p m) u = WWait (notify m)"
    show "writer m \<or> readers m > 0"
    proof (cases "u = t")
      case False
      with u inv gen(1) have "notify m = notify (lockst s)" by (auto simp: rw_inv_def intro: antisym)
      with u False inv sw show ?thesis by (auto simp: rw_inv_def)
    qed (use u pw in simp)
  qed
  show ?thesis
    unfolding rw_inv_def move_simps(1)
    using finite_active_move [OF fin] cards r w W C R0 G SR SW inv by (simp add: rw_inv_def)
qed

lemmas rw_ops = RLock_try_def RUnlock_def Lock_enter_def Lock_retry_def Lock_cancel_def Unlock_def
  broadcast_def Let_def

lemma rw_step_inv: "rw_step s s' \<Longrightarrow> rw_inv s \<Longrightarrow> rw_inv s'"
proof (induction rule: rw_step.induct)
  case (rlock_ok s t m)
  then show ?case using rw_inv_counts(3,4) [of s]
    by (intro rw_inv_move) (auto simp: rw_ops split: if_splits)
next
  case (rlock_wait s t m)
  then show ?case using rw_inv_counts(3,4) [of s]
    by (intro rw_inv_move) (auto simp: rw_ops split: if_splits)
next
  case (rwake_ok s t g m)
  then show ?case using rw_inv_counts(3,4) [of s]
    by (intro rw_inv_move) (auto simp: rw_ops split: if_splits)
next
  case (rwake_wait s t g m)
  then show ?case using rw_inv_counts(3,4) [of s]
    by (intro rw_inv_move) (auto simp: rw_ops split: if_splits)
next
  case (rcancel s t g)
  then show ?case by (intro rw_inv_move) (auto simp: rw_inv_def)
next
  case (runlock s t)
  then show ?case using rw_inv_counts(1,5) [OF runlock(2,1)]
    by (intro rw_inv_move) (auto simp: rw_ops split: if_splits)
next
  case (lock_ok s t m)
  then show ?case by (intro rw_inv_move) (auto simp: rw_ops split: if_splits)
next
  case (lock_wait s t m)
  then show ?case using rw_inv_counts(3,4) [of s]
    by (intro rw_inv_move) (auto simp: rw_ops split: if_splits)
next
  case (wwake_ok s t g m)
  then show ?case by (intro rw_inv_move) (auto simp: rw_ops split: if_splits)
next
  case (wwake_wait s t g m)
  then show ?case using rw_inv_counts(3,4) [of s]
    by (intro rw_inv_move) (auto simp: rw_ops split: if_splits)
next
  case (wcancel s t g)
  then show ?case using rw_inv_counts(2) [OF wcancel(2,1)]
    by (intro rw_inv_move) (auto simp: rw_ops split: if_splits)
next
  case (unlock s t)
  then show ?case using rw_inv_counts(6) [OF unlock(2,1)]
    by (intro rw_inv_move) (auto simp: rw_ops split: if_splits)
qed

lemma rw_inv_init: "rw_inv sys_init"
  by (simp add: rw_inv_def sys_init_def rw_init_def holders_def wwaiters_def)

lemma rw_reachable_inv: "rw_reachable s \<Longrightarrow> rw_inv s"
  by (induction rule: rw_reachable.induct) (auto intro: rw_inv_init rw_step_inv)

text \<open>C22.  Mutual exclusion: in every state any interleaving of lock operations and cancellations
  reaches, at most one goroutine holds the write lock, nobody reads while it is held, and the
  counters the code decides on are the true numbers of readers and of waiting writers.\<close>

theorem rw_mutual_exclusion:
  assumes "rw_reachable s"
  shows "(pcs s t = Writing \<longrightarrow> (\<forall>u. u \<noteq> t \<longrightarrow> pcs s u \<noteq> Writing \<and> pcs s u \<noteq> Reading)) \<and>
    readers (lockst s) = int (card (holders s Reading)) \<and>
    wwaiting (lockst s) = int (card (wwaiters s)) \<and>
    (writer (lockst s) \<longleftrightarrow> (\<exists>u. pcs s u = Writing))"
proof -
  have inv: "rw_inv s" using assms by (rule rw_reachable_inv)
  have fin: "finite (holders s Writing)"
    using inv by (intro finite_holders(1)) (auto simp: rw_inv_def)
  have "pcs s u \<noteq> Writing \<and> pcs s u \<noteq> Reading" if t: "pcs s t = Writing" and "u \<noteq> t" for u
  proof
    show "pcs s u \<noteq> Writing"
      using inv that fin card_le_Suc0_iff_eq [OF fin] by (auto simp: rw_inv_def holders_def)
    show "pcs s u \<noteq> Reading" using rw_inv_counts(5,6) [OF inv] t by blast
  qed
  with inv show ?thesis by (auto simp: rw_inv_def holders_def)
qed

definition one_writer :: sys where
  "one_writer = move sys_init 7 Writing (snd (Lock_enter rw_init))"

lemma one_writer_reachable: "rw_reachable one_writer"
  unfolding one_writer_def
  by (rule rw_reachable.step [OF rw_reachable.init], rule rw_step.lock_ok)
    (simp_all add: sys_init_def rw_init_def Lock_enter_def)

theorem rw_mutual_exclusion_witness:
  "rw_reachable one_writer \<and> pcs one_writer 7 = Writing \<and> pcs one_writer 8 \<noteq> Reading"
  using rw_mutual_exclusion [OF one_writer_reachable, of 7] one_writer_reachable
  by (simp add: one_writer_def)

text \<open>A parked goroutine whose way is free has been woken: it parks on an older generation.\<close>

lemma parked_reader_acquires:
  assumes inv: "rw_inv s" and t: "pcs s t = RWait g"
    and free: "\<forall>u h. pcs s u \<noteq> Writing \<and> pcs s u \<noteq> WWait h"
  shows "\<exists>s'. rw_step s s' \<and> pcs s' t = Reading"
proof -
  have idle: "\<not> writer (lockst s)" "wwaiting (lockst s) = 0"
    using inv free by (auto simp: rw_inv_def holders_def wwaiters_def)
  have "g < notify (lockst s)"
    using inv t idle by (metis (no_types, lifting) rw_inv_def le_neq_implies_less less_irrefl)
  with t idle have "rw_step s (move s t Reading (snd (RLock_try (lockst s))))"
    by (intro rw_step.rwake_ok [OF t]) (auto simp: RLock_try_def)
  then show ?thesis by (metis fun_upd_same move_simps(2))
qed

lemma parked_writer_acquires:
  assumes inv: "rw_inv s" and t: "pcs s t = WWait g"
    and free: "\<forall>u. pcs s u \<noteq> Reading \<and> pcs s u \<noteq> Writing"
  shows "\<exists>s'. rw_step s s' \<and> pcs s' t = Writing"
proof -
  have idle: "\<not> writer (lockst s)" "readers (lockst s) = 0"
    using inv free by (auto simp: rw_inv_def holders_def)
  have "g < notify (lockst s)"
    using inv t idle by (metis (no_types, lifting) rw_inv_def le_neq_implies_less less_irrefl)
  with t idle have "rw_step s (move s t Writing (snd (Lock_retry (lockst s))))"
    by (intro rw_step.wwake_ok [OF t]) (auto simp: Lock_retry_def)
  then show ?thesis by (metis fun_upd_same move_simps(2))
qed

text \<open>C23.  No lost wake-up: in every reachable state, whatever acquisitions were cancelled before,
  every parked goroutine that could proceed has been woken.  A parked reader acquires the lock in
  its next step when no goroutine writes and none waits to write, other readers or not; a parked
  writer acquires it in its next step when no goroutine reads or writes.  In particular, while
  goroutines wait and nobody holds the lock, some waiting goroutine can acquire it without
  anyone else moving.\<close>

theorem rw_no_lost_wakeup:
  assumes "rw_reachable s"
  shows "(pcs s t = RWait g \<and> (\<forall>u h. pcs s u \<noteq> Writing \<and> pcs s u \<noteq> WWait h) \<longrightarrow>
      (\<exists>s'. rw_step s s' \<and> pcs s' t = Reading)) \<and>
    (pcs s t = WWait g \<and> (\<forall>u. pcs s u \<noteq> Reading \<and> pcs s u \<noteq> Writing) \<longrightarrow>
      (\<exists>s'. rw_step s s' \<and> pcs s' t = Writing)) \<and>
    ((pcs s t = RWait g \<or> pcs s t = WWait g) \<and> (\<forall>u. pcs s u \<noteq> Reading \<and> pcs s u \<noteq> Writing) \<longrightarrow>
      (\<exists>u s'. rw_step s s' \<and> (\<exists>h. pcs s u = RWait h \<or> pcs s u = WWait h) \<and>
        (pcs s' u = Reading \<or> pcs s' u = Writing)))"
proof -
  have inv: "rw_inv s" using assms by (rule rw_reachable_inv)
  have "\<exists>u s'. rw_step s s' \<and> (\<exists>h. pcs s u = RWait h \<or> pcs s u = WWait h) \<and>
      (pcs s' u = Reading \<or> pcs s' u = Writing)"
    if waits: "pcs s t = RWait g \<or> pcs s t = WWait g"
      and free: "\<forall>u. pcs s u \<noteq> Reading \<and> pcs s u \<noteq> Writing"
  proof (cases "\<exists>u h. pcs s u = WWait h")
    case True
    then show ?thesis using parked_writer_acquires [OF inv _ free] by metis
  next
    case False
    with waits have "pcs s t = RWait g" by auto
    then show ?thesis using parked_reader_acquires [OF inv, of t g] False free by metis
  qed
  then show ?thesis
    using parked_reader_acquires [OF inv, of t g] parked_writer_acquires [OF inv, of t g] by simp
qed

definition two_writers :: sys where
  "two_writers = move one_writer 9 (WWait 0) (snd (Lock_enter (lockst one_writer)))"

definition handed_over :: sys where
  "handed_over = move two_writers 7 Idle (Unlock (lockst two_writers))"

lemma handed_over_reachable: "rw_reachable handed_over"
proof -
  have "rw_step one_writer two_writers"
    using rw_step.lock_wait [of one_writer 9 "snd (Lock_enter (lockst one_writer))"]
    by (simp add: two_writers_def one_writer_def sys_init_def rw_init_def Lock_enter_def)
  moreover have "rw_step two_writers handed_over"
    unfolding handed_over_def by (rule rw_step.unlock) (simp add: two_writers_def one_writer_def)
  ultimately show ?thesis using one_writer_reachable rw_reachable.step by blast
qed

text \<open>A second run parks a reader behind a waiting writer, whose context then expires while another
  goroutine still reads.\<close>

definition one_reader :: sys where
  "one_reader = move sys_init 7 Reading (snd (RLock_try rw_init))"

definition writer_behind :: sys where
  "writer_behind = move one_reader 8 (WWait 0) (snd (Lock_enter (lockst one_reader)))"

definition reader_behind :: sys where
  "reader_behind = move writer_behind 9 (RWait 0) (snd (RLock_try (lockst writer_behind)))"

definition writer_cancelled :: sys where
  "writer_cancelled = move reader_behind 8 Idle (Lock_cancel (lockst reader_behind))"

lemma writer_cancelled_reachable: "rw_reachable writer_cancelled"
proof -
  have "rw_step sys_init one_reader"
    unfolding one_reader_def
    by (rule rw_step.rlock_ok) (simp_all add: sys_init_def rw_init_def RLock_try_def)
  moreover have "rw_step one_reader writer_behind"
    using rw_step.lock_wait [of one_reader 8 "snd (Lock_enter (lockst one_reader))"]
    by (simp add: writer_behind_def one_reader_def sys_init_def rw_init_def Lock_enter_def RLock_try_def)
  moreover have "rw_step writer_behind reader_behind"
    using rw_step.rlock_wait [of writer_behind 9 "snd (RLock_try (lockst writer_behind))"]
    by (simp add: reader_behind_def writer_behind_def one_reader_def sys_init_def rw_init_def
        Lock_enter_def RLock_try_def)
  moreover have "rw_step reader_behind writer_cancelled"
    unfolding writer_cancelled_def
    by (rule rw_step.wcancel) (simp add: reader_behind_def writer_behind_def)
  ultimately show ?thesis using rw_reachable.init rw_reachable.step by meson
qed

theorem rw_no_lost_wakeup_witness:
  "(\<exists>s'. rw_step handed_over s' \<and> pcs s' 9 = Writing) \<and>
   pcs writer_cancelled 7 = Reading \<and> (\<exists>s'. rw_step writer_cancelled s' \<and> pcs s' 9 = Reading)"
  using rw_no_lost_wakeup [OF handed_over_reachable, of 9 0]
    rw_no_lost_wakeup [OF writer_cancelled_reachable, of 9 0]
  by (simp add: handed_over_def two_writers_def one_writer_def sys_init_def
      writer_cancelled_def reader_behind_def writer_behind_def one_reader_def)

end
