(* ===== verification/Core_Policy.thy ===== *)
theory Core_Policy
  imports Prelude
begin

section \<open>Policy engine (internal/core/core.go)\<close>

text \<open>
  The data of the policy engine and the decision functions of \<^verbatim>\<open>core.go\<close>: which hosts a user
  sees and which SSH accounts a policy opens.  The clock reading \<^verbatim>\<open>now()\<close> is an argument.  The
  greedy matcher \<open>wildcardMatches\<close> is proved equal to the declarative glob relation \<open>glob\<close>.
\<close>

record Host =
  h_ID :: string
  h_Name :: string
  h_EndpointID :: string
  h_SSHUser :: string
  h_Tags :: go_map
  h_SSHPort :: uint16
  h_Status :: string
  h_Owner :: string
  h_LastSeen :: "int option"

record Policy =
  p_ID :: string
  p_Name :: string
  p_Principal :: string
  p_HostSelector :: string
  p_SSHUsers :: go_slice
  p_ExpiresAt :: "int option"

record UserClaims =
  uc_Subject :: string
  uc_Groups :: "string list"
  uc_CustomClaims :: "(string \<times> string list) list"

subsection \<open>Wildcards\<close>

text \<open>The loop over the parts between the stars: \<open>None\<close> is \<^verbatim>\<open>return false\<close>, otherwise the
  remaining value.\<close>

fun wildcard_loop :: "string \<Rightarrow> nat \<Rightarrow> string list \<Rightarrow> string \<Rightarrow> string option" where
  "wildcard_loop pattern i [] rest = Some rest"
| "wildcard_loop pattern i (part # parts) rest =
     (if part = [] then wildcard_loop pattern (Suc i) parts rest
      else if i = 0 \<and> \<not> HasPrefix pattern ''*'' then
        (if \<not> HasPrefix rest part then None
         else wildcard_loop pattern (Suc i) parts (drop (length part) rest))
      else (case Index rest part of
              None \<Rightarrow> None
            | Some idx \<Rightarrow> wildcard_loop pattern (Suc i) parts (drop (idx + length part) rest)))"

definition wildcardMatches :: "string \<Rightarrow> string \<Rightarrow> bool" where
  "wildcardMatches pattern val =
     (if pattern = ''*'' then True
      else if \<not> Contains pattern ''*'' then pattern = val
      else let parts = Split pattern CHR ''*'' in
        (case wildcard_loop pattern 0 parts val of
           None \<Rightarrow> False
         | Some _ \<Rightarrow> HasSuffix pattern ''*'' \<or> HasSuffix val (last parts)))"

subsection \<open>Decisions\<close>

definition hostSelectorMatches :: "string \<Rightarrow> Host \<Rightarrow> bool" where
  "hostSelectorMatches selector host =
     (if HasPrefix selector ''tag:'' then
        (case SplitN 2 (TrimPrefix selector ''tag:'') CHR ''='' of
           [k, v] \<Rightarrow>
             (let key = TrimSpace k; val = TrimSpace v
              in if key = [] \<or> val = [] then False
                 else (case map_get (h_Tags host) key of
                         None \<Rightarrow> False
                       | Some tag \<Rightarrow> tag = val))
         | _ \<Rightarrow> False)
      else wildcardMatches selector (h_Name host))"

definition policyPrincipalMatches :: "UserClaims \<Rightarrow> string \<Rightarrow> bool" where
  "policyPrincipalMatches claims prin =
     (case Index prin ''='' of
        Some idx \<Rightarrow>
          (let claim = TrimSpace (take idx prin);
               val = TrimSpace (drop (idx + 1) prin)
           in if claim = [] \<or> val = [] then False
              else if claim = ''groups'' then list_ex (\<lambda>group. group = val) (uc_Groups claims)
              else (case map_of (uc_CustomClaims claims) claim of
                      None \<Rightarrow> False
                    | Some values \<Rightarrow> list_ex (\<lambda>v. v = val) values))
      | None \<Rightarrow> list_ex (\<lambda>group. group = prin) (uc_Groups claims))"

definition PolicyAllows :: "int \<Rightarrow> UserClaims \<Rightarrow> Host \<Rightarrow> Policy \<Rightarrow> bool" where
  "PolicyAllows now claims host policy \<longleftrightarrow>
     policyPrincipalMatches claims (p_Principal policy) \<and>
     hostSelectorMatches (p_HostSelector policy) host \<and>
     (case p_ExpiresAt policy of None \<Rightarrow> True | Some e \<Rightarrow> now < e)"

definition PolicyAllowsSSHUser :: "int \<Rightarrow> UserClaims \<Rightarrow> Host \<Rightarrow> Policy \<Rightarrow> string \<Rightarrow> bool" where
  "PolicyAllowsSSHUser now claims host policy sshUser =
     (if \<not> PolicyAllows now claims host policy then False
      else list_ex (\<lambda>user. user = sshUser) (elems (p_SSHUsers policy)))"

text \<open>The nested loops of \<^verbatim>\<open>FilterVisibleHosts\<close>; the inner one breaks at the first match.\<close>

fun any_policy_allows :: "int \<Rightarrow> UserClaims \<Rightarrow> Host \<Rightarrow> Policy list \<Rightarrow> bool" where
  "any_policy_allows now claims host [] = False"
| "any_policy_allows now claims host (policy # policies) =
     (if PolicyAllows now claims host policy then True
      else any_policy_allows now claims host policies)"

fun FilterVisibleHosts :: "int \<Rightarrow> UserClaims \<Rightarrow> Host list \<Rightarrow> Policy list \<Rightarrow> Host list" where
  "FilterVisibleHosts now claims [] policies = []"
| "FilterVisibleHosts now claims (host # hosts) policies =
     (if any_policy_allows now claims host policies
      then host # FilterVisibleHosts now claims hosts policies
      else FilterVisibleHosts now claims hosts policies)"

subsection \<open>The declarative glob relation\<close>

text \<open>A star matches any byte sequence, every other byte matches itself.\<close>

fun glob :: "string \<Rightarrow> string \<Rightarrow> bool" where
  "glob [] v = (v = [])"
| "glob (p # ps) v =
     (if p = CHR ''*'' then list_ex (\<lambda>k. glob ps (drop k v)) [0..<Suc (length v)]
      else (case v of [] \<Rightarrow> False | c # cs \<Rightarrow> c = p \<and> glob ps cs))"

lemma glob_star: "glob (CHR ''*'' # ps) v \<longleftrightarrow> (\<exists>u w. v = u @ w \<and> glob ps w)"
proof
  assume "glob (CHR ''*'' # ps) v"
  then obtain k where "k \<le> length v" "glob ps (drop k v)"
    by (auto simp: list_ex_iff less_Suc_eq_le simp del: upt_Suc)
  then show "\<exists>u w. v = u @ w \<and> glob ps w" by (metis append_take_drop_id)
next
  assume "\<exists>u w. v = u @ w \<and> glob ps w"
  then obtain u w where "v = u @ w" "glob ps w" by blast
  then have "glob ps (drop (length u) v)" "length u \<in> set [0..<Suc (length v)]" by simp_all
  then show "glob (CHR ''*'' # ps) v" by (auto simp: list_ex_iff simp del: upt_Suc)
qed

declare glob.simps(2) [simp del]

lemma glob_char: "p \<noteq> CHR ''*'' \<Longrightarrow> glob (p # ps) v \<longleftrightarrow> (\<exists>cs. v = p # cs \<and> glob ps cs)"
  by (auto simp: glob.simps(2) split: list.splits)

lemma glob_literal:
  "CHR ''*'' \<notin> set p \<Longrightarrow> glob (p @ ps) v \<longleftrightarrow> (\<exists>w. v = p @ w \<and> glob ps w)"
proof (induction p arbitrary: v)
  case (Cons c p)
  then show ?case by (auto simp: glob_char)
qed simp

lemma glob_exact: "CHR ''*'' \<notin> set p \<Longrightarrow> glob p v \<longleftrightarrow> v = p"
  using glob_literal [of p "[]" v] by simp

lemma glob_star_prepend: "glob (CHR ''*'' # ps) w \<Longrightarrow> glob (CHR ''*'' # ps) (u @ w)"
  unfolding glob_star by (metis append.assoc)

text \<open>What a star followed by the remaining parts accepts.\<close>

abbreviation star_parts :: "string list \<Rightarrow> string \<Rightarrow> bool" where
  "star_parts ps v \<equiv> glob (CHR ''*'' # Join ps ''*'') v"

lemma star_parts_last: "CHR ''*'' \<notin> set x \<Longrightarrow> star_parts [x] v \<longleftrightarrow> HasSuffix v x"
  by (auto simp: glob_star glob_exact HasSuffix_iff)

lemma star_parts_Cons:
  assumes "CHR ''*'' \<notin> set x" and "ps \<noteq> []"
  shows "star_parts (x # ps) v \<longleftrightarrow> (\<exists>u w. v = u @ x @ w \<and> star_parts ps w)"
proof -
  have "star_parts (x # ps) v \<longleftrightarrow> (\<exists>u y. v = u @ y \<and> glob (x @ CHR ''*'' # Join ps ''*'') y)"
    by (subst glob_star) (simp add: Join_Cons assms(2))
  then show ?thesis by (simp only: glob_literal [OF assms(1)]) auto
qed

text \<open>Taking the leftmost occurrence loses nothing: it leaves the longest rest.\<close>

lemma star_parts_greedy:
  assumes "CHR ''*'' \<notin> set x" and "ps \<noteq> []"
  shows "star_parts (x # ps) v \<longleftrightarrow>
    (case Index v x of None \<Rightarrow> False | Some i \<Rightarrow> star_parts ps (drop (i + length x) v))"
proof (cases "Index v x")
  case None
  then have "\<nexists>u w. v = u @ x @ w" by (simp add: Index_None_iff)
  with None star_parts_Cons [OF assms, of v] show ?thesis by simp
next
  case (Some i)
  have "star_parts ps (drop (i + length x) v)" if "v = u @ x @ w" "star_parts ps w" for u w
  proof -
    from Index_leftmost [OF that(1)] Some have le: "i \<le> length u" by simp
    have "drop (i + length x) v = drop (i + length x) (u @ x) @ w"
      using \<open>v = u @ x @ w\<close> le by simp
    then show ?thesis using glob_star_prepend [OF that(2)] by (simp only:)
  qed
  moreover from Index_Some_split [OF Some]
  have "v = take i v @ x @ drop (i + length x) v" by blast
  ultimately have "(\<exists>u w. v = u @ x @ w \<and> star_parts ps w) \<longleftrightarrow> star_parts ps (drop (i + length x) v)"
    by blast
  with Some star_parts_Cons [OF assms, of v] show ?thesis by (simp only: option.case)
qed

text \<open>A part that occurs in the rest and ends the value ends the rest.\<close>

lemma HasSuffix_found: "HasSuffix (pre @ rest) x \<and> Index rest x \<noteq> None \<longleftrightarrow> HasSuffix rest x"
proof
  assume a: "HasSuffix (pre @ rest) x \<and> Index rest x \<noteq> None"
  then obtain u w where "rest = u @ x @ w" by (auto simp: Index_None_iff)
  then have "length x \<le> length rest" by simp
  moreover from a obtain t where "pre @ rest = t @ x" by (auto simp: HasSuffix_iff)
  ultimately show "HasSuffix rest x" by (auto simp: HasSuffix_def append_eq_append_conv2)
next
  assume "HasSuffix rest x"
  then obtain t where "rest = t @ x" by (auto simp: HasSuffix_iff)
  then show "HasSuffix (pre @ rest) x \<and> Index rest x \<noteq> None"
    using Index_leftmost [of rest t x "[]"] by (auto simp: HasSuffix_iff)
qed

text \<open>Past the first star every part, empty ones included, is searched for in the rest.\<close>

lemma wildcard_loop_step:
  "i \<noteq> 0 \<or> HasPrefix pattern ''*'' \<Longrightarrow>
   wildcard_loop pattern i (x # ps) rest =
     (case Index rest x of
        None \<Rightarrow> None
      | Some k \<Rightarrow> wildcard_loop pattern (Suc i) ps (drop (k + length x) rest))"
  by (cases "x = []"; cases rest) auto

text \<open>The loop after the first star: it succeeds exactly when the parts match with the last one
  found anywhere, and the final suffix test anchors that last part at the end of the value.\<close>

lemma wildcard_loop_star:
  assumes "ps \<noteq> []" and "\<forall>p \<in> set ps. CHR ''*'' \<notin> set p" and "i \<noteq> 0 \<or> HasPrefix pattern ''*''"
  shows "(wildcard_loop pattern i ps rest \<noteq> None \<and> (last ps = [] \<or> HasSuffix (pre @ rest) (last ps)))
     \<longleftrightarrow> star_parts ps rest"
  using assms
proof (induction ps arbitrary: i rest pre)
  case Nil
  then show ?case by simp
next
  case (Cons x ps)
  have x: "CHR ''*'' \<notin> set x" using Cons.prems(2) by simp
  note step = wildcard_loop_step [OF Cons.prems(3), of x ps rest]
  show ?case
  proof (cases "ps = []")
    case True
    have "wildcard_loop pattern i [x] rest \<noteq> None \<longleftrightarrow> Index rest x \<noteq> None"
      using step True by (auto split: option.splits)
    moreover have "star_parts (x # ps) rest \<longleftrightarrow> HasSuffix rest x"
      using True star_parts_last [OF x, of rest] by (simp only:)
    moreover have "HasSuffix (pre @ rest) x" if "x = []" using that by (simp add: HasSuffix_def)
    ultimately show ?thesis using True HasSuffix_found [of pre rest x]
      by (metis last_ConsL)
  next
    case False
    note greedy = star_parts_greedy [OF x False, of rest]
    show ?thesis
    proof (cases "Index rest x")
      case None
      with greedy step show ?thesis by (simp only: option.case) simp
    next
      case (Some k)
      from Index_Some_split [OF Some]
      have rest: "pre @ rest = (pre @ take k rest @ x) @ drop (k + length x) rest" by simp
      have "(wildcard_loop pattern (Suc i) ps (drop (k + length x) rest) \<noteq> None \<and>
         (last ps = [] \<or> HasSuffix (pre @ rest) (last ps))) \<longleftrightarrow> star_parts ps (drop (k + length x) rest)"
        unfolding rest by (rule Cons.IH [OF False]) (use Cons.prems(2) in auto)
      with Some greedy step False show ?thesis by (simp only: option.case last_ConsR simp_thms)
    qed
  qed
qed

lemma Split_star_cons:
  assumes "CHR ''*'' \<in> set pattern"
  obtains p ps where "Split pattern CHR ''*'' = p # ps" "ps \<noteq> []" "pattern = p @ ''*'' @ Join ps ''*''"
    "CHR ''*'' \<notin> set p" "\<forall>q \<in> set ps. CHR ''*'' \<notin> set q"
proof -
  obtain p ps where s: "Split pattern CHR ''*'' = p # ps" by (cases "Split pattern CHR ''*''") auto
  have no: "\<forall>q \<in> set (p # ps). CHR ''*'' \<notin> set q" using Split_no_sep s by metis
  have j: "Join (p # ps) ''*'' = pattern" using Join_Split [of pattern "CHR ''*''"] s by simp
  have "ps \<noteq> []" using j no assms by auto
  then have "pattern = p @ ''*'' @ Join ps ''*''" using j by (simp add: Join_Cons)
  with s \<open>ps \<noteq> []\<close> no show ?thesis by (intro that) auto
qed

lemma Join_last_star:
  "ps \<noteq> [] \<Longrightarrow> \<forall>q \<in> set ps. CHR ''*'' \<notin> set q \<Longrightarrow>
   HasSuffix (p @ ''*'' @ Join ps ''*'') ''*'' \<longleftrightarrow> last ps = []"
proof (induction ps arbitrary: p rule: induct_list012)
  case (2 x)
  then show ?case by (cases x rule: rev_cases) (auto simp: HasSuffix_def)
next
  case (3 x y zs)
  have "HasSuffix ((p @ ''*'' @ x) @ ''*'' @ Join (y # zs) ''*'') ''*'' \<longleftrightarrow> last (y # zs) = []"
    by (rule "3.IH"(2)) (use "3.prems" in auto)
  then show ?case by simp
qed simp

lemma wildcardMatches_literal:
  "CHR ''*'' \<notin> set pattern \<Longrightarrow> wildcardMatches pattern val \<longleftrightarrow> glob pattern val"
  by (auto simp: wildcardMatches_def glob_exact)

lemma wildcardMatches_star:
  assumes True: "CHR ''*'' \<in> set pattern"
  shows "wildcardMatches pattern val \<longleftrightarrow> glob pattern val"
proof -
  from True obtain p ps where s: "Split pattern CHR ''*'' = p # ps" and ne: "ps \<noteq> []"
    and pat: "pattern = p @ ''*'' @ Join ps ''*''"
    and no: "CHR ''*'' \<notin> set p" "\<forall>q \<in> set ps. CHR ''*'' \<notin> set q"
    by (rule Split_star_cons)
  have lp: "last (Split pattern CHR ''*'') = last ps" using s ne by simp
  have suf: "HasSuffix pattern ''*'' \<longleftrightarrow> last ps = []" using Join_last_star [OF ne no(2)] pat by simp
  have star: "glob ''*'' val" by (simp add: glob_star)
  have first: "HasPrefix pattern ''*'' \<longleftrightarrow> p = []" using pat no(1) by (cases p) auto
  have loop: "(wildcard_loop pattern 0 (p # ps) val \<noteq> None \<and> (last ps = [] \<or> HasSuffix val (last ps)))
    \<longleftrightarrow> glob pattern val"
  proof (cases "p = []")
    case True
    with wildcard_loop_star [OF ne no(2), of 1 pattern val "[]"] pat show ?thesis by simp
  next
    case False
    have "glob pattern val \<longleftrightarrow> (\<exists>w. val = p @ w \<and> star_parts ps w)"
      using pat glob_literal [OF no(1), of "''*'' @ Join ps ''*''" val] by simp
    also have "\<dots> \<longleftrightarrow> HasPrefix val p \<and> star_parts ps (drop (length p) val)"
      by (auto simp: HasPrefix_iff)
    finally show ?thesis
      using wildcard_loop_star [OF ne no(2), of 1 pattern "drop (length p) val" p] False first
      by (auto simp: HasPrefix_iff)
  qed
  have "wildcardMatches pattern val \<longleftrightarrow> pattern = ''*'' \<or>
      (wildcard_loop pattern 0 (p # ps) val \<noteq> None \<and> (last ps = [] \<or> HasSuffix val (last ps)))"
    using True ne
    by (simp add: wildcardMatches_def s suf Let_def del: wildcard_loop.simps split: option.split)
  with loop star show ?thesis by blast
qed

text \<open>C20.  The greedy matcher used for host selectors decides the declarative glob relation: a
  pattern matches a value exactly when every star can be given a byte sequence that makes the
  pattern equal to the value.\<close>

theorem wildcardMatches_glob: "wildcardMatches pattern val \<longleftrightarrow> glob pattern val"
  using wildcardMatches_literal wildcardMatches_star by blast

subsection \<open>Visibility\<close>

lemma any_policy_allows_iff:
  "any_policy_allows now claims host ps \<longleftrightarrow> (\<exists>p \<in> set ps. PolicyAllows now claims host p)"
  by (induction ps) auto

lemma FilterVisibleHosts_filter:
  "FilterVisibleHosts now claims hosts ps =
     filter (\<lambda>h. \<exists>p \<in> set ps. PolicyAllows now claims h p) hosts"
  by (induction hosts) (auto simp: any_policy_allows_iff)

lemma PolicyAllowsSSHUser_iff:
  "PolicyAllowsSSHUser now claims host p u \<longleftrightarrow>
     PolicyAllows now claims host p \<and> u \<in> set (elems (p_SSHUsers p))"
  by (auto simp: PolicyAllowsSSHUser_def list_ex_iff)

lemma PolicyAllows_antimono:
  "now \<le> now' \<Longrightarrow> PolicyAllows now' claims host p \<Longrightarrow> PolicyAllows now claims host p"
  by (auto simp: PolicyAllows_def split: option.splits)

subsection \<open>What a policy means\<close>

text \<open>An entry \<^verbatim>\<open>key=value\<close> is read at its first equals sign; both sides are trimmed and neither may
  be empty.\<close>

definition key_value :: "string \<Rightarrow> string \<Rightarrow> string \<Rightarrow> bool" where
  "key_value entry key val \<longleftrightarrow>
     (\<exists>k v. entry = k @ ''='' @ v \<and> CHR ''='' \<notin> set k \<and> key = TrimSpace k \<and> val = TrimSpace v \<and>
        key \<noteq> [] \<and> val \<noteq> [])"

text \<open>A principal is a group name, or a claim of the token and a value that claim has to carry.\<close>

definition principal_spec :: "UserClaims \<Rightarrow> string \<Rightarrow> bool" where
  "principal_spec claims prin \<longleftrightarrow>
     CHR ''='' \<notin> set prin \<and> prin \<in> set (uc_Groups claims) \<or>
     (\<exists>val. key_value prin ''groups'' val \<and> val \<in> set (uc_Groups claims)) \<or>
     (\<exists>claim val values. key_value prin claim val \<and> claim \<noteq> ''groups'' \<and>
        map_of (uc_CustomClaims claims) claim = Some values \<and> val \<in> set values)"

text \<open>A selector is \<^verbatim>\<open>tag:key=value\<close>, a tag the host has to carry, or a glob over host names.\<close>

definition selector_spec :: "string \<Rightarrow> Host \<Rightarrow> bool" where
  "selector_spec selector host \<longleftrightarrow>
     (\<exists>entry key val. selector = ''tag:'' @ entry \<and> key_value entry key val \<and>
        map_get (h_Tags host) key = Some val) \<or>
     (\<nexists>entry. selector = ''tag:'' @ entry) \<and> glob selector (h_Name host)"

lemma first_split_unique:
  "b \<notin> set k \<Longrightarrow> b \<notin> set k' \<Longrightarrow> k @ b # v = k' @ b # v' \<longleftrightarrow> k = k' \<and> v = v'"
  by (auto simp: append_eq_append_conv2 append_eq_Cons_conv Cons_eq_append_conv)

lemma Index_first_split:
  assumes "Index s [b] = Some i"
  shows "s = take i s @ b # drop (Suc i) s" and "b \<notin> set (take i s)"
proof -
  show s: "s = take i s @ b # drop (Suc i) s" using Index_Some_split [OF assms] by simp
  show "b \<notin> set (take i s)"
  proof
    assume "b \<in> set (take i s)"
    then obtain u w where uw: "take i s = u @ b # w" by (meson split_list)
    then have "s = u @ [b] @ (w @ b # drop (Suc i) s)" using s by simp
    from Index_leftmost [OF this] assms have "i \<le> length u" by simp
    moreover from uw have "length u < length (take i s)" by simp
    ultimately show False by simp
  qed
qed

lemma key_value_iff:
  "key_value s key val \<longleftrightarrow>
     (case Index s ''='' of
        None \<Rightarrow> False
      | Some i \<Rightarrow> key = TrimSpace (take i s) \<and> val = TrimSpace (drop (Suc i) s) \<and> key \<noteq> [] \<and> val \<noteq> [])"
proof (cases "Index s ''=''")
  case None
  then have "CHR ''='' \<notin> set s" by (simp add: Index_single)
  with None show ?thesis by (auto simp: key_value_def simp del: Index.simps)
next
  case (Some i)
  note s = Index_first_split [OF Some]
  have eq: "s = k @ ''='' @ v \<and> CHR ''='' \<notin> set k \<longleftrightarrow> k = take i s \<and> v = drop (Suc i) s" for k v
  proof
    assume a: "s = k @ ''='' @ v \<and> CHR ''='' \<notin> set k"
    then have "k @ CHR ''='' # v = s" by simp
    also note s(1)
    finally show "k = take i s \<and> v = drop (Suc i) s"
      by (rule iffD1 [OF first_split_unique [OF conjunct2 [OF a] s(2)]])
  next
    assume "k = take i s \<and> v = drop (Suc i) s"
    with s show "s = k @ ''='' @ v \<and> CHR ''='' \<notin> set k" by (metis append_Cons append_Nil)
  qed
  have "key_value s key val \<longleftrightarrow> (\<exists>k v. (s = k @ ''='' @ v \<and> CHR ''='' \<notin> set k) \<and>
      key = TrimSpace k \<and> val = TrimSpace v \<and> key \<noteq> [] \<and> val \<noteq> [])"
    by (simp only: key_value_def conj_assoc)
  then show ?thesis by (simp only: eq Some option.case) blast
qed

lemma policyPrincipalMatches_spec: "policyPrincipalMatches claims prin \<longleftrightarrow> principal_spec claims prin"
proof (cases "Index prin ''=''")
  case None
  then have "CHR ''='' \<notin> set prin" by (simp add: Index_single)
  with None show ?thesis
    by (auto simp: policyPrincipalMatches_def principal_spec_def key_value_iff list_ex_iff)
next
  case (Some i)
  then have "CHR ''='' \<in> set prin" by (metis Index_single option.distinct(1))
  with Some show ?thesis
    by (auto simp: policyPrincipalMatches_def principal_spec_def key_value_iff list_ex_iff Let_def
        split: option.splits)
qed

lemma hostSelectorMatches_spec: "hostSelectorMatches selector host \<longleftrightarrow> selector_spec selector host"
proof (cases "HasPrefix selector ''tag:''")
  case True
  then obtain entry where e: "selector = ''tag:'' @ entry" by (auto simp: HasPrefix_iff)
  have t: "TrimPrefix selector ''tag:'' = entry" using e by (simp add: TrimPrefix_def)
  show ?thesis
    unfolding hostSelectorMatches_def selector_spec_def t
    using True e
    by (cases "Index entry ''=''") (auto simp: key_value_iff numeral_2_eq_2 Let_def split: option.splits)
next
  case False
  then have "\<nexists>entry. selector = ''tag:'' @ entry" by (auto simp: HasPrefix_iff)
  with False show ?thesis
    using wildcardMatches_literal [of selector] wildcardMatches_star [of selector]
    by (cases "CHR ''*'' \<in> set selector") (auto simp: hostSelectorMatches_def selector_spec_def)
qed

text \<open>A policy opens a host at a point of time: its principal and its selector match and it has not
  expired.\<close>

definition policy_opens :: "int \<Rightarrow> UserClaims \<Rightarrow> Host \<Rightarrow> Policy \<Rightarrow> bool" where
  "policy_opens now claims host policy \<longleftrightarrow>
     principal_spec claims (p_Principal policy) \<and> selector_spec (p_HostSelector policy) host \<and>
     (\<forall>e. p_ExpiresAt policy = Some e \<longrightarrow> now < e)"

lemma PolicyAllows_opens: "PolicyAllows now claims host p \<longleftrightarrow> policy_opens now claims host p"
  by (auto simp: PolicyAllows_def policy_opens_def policyPrincipalMatches_spec hostSelectorMatches_spec
      split: option.splits)

text \<open>C19.  Host visibility is sound, complete and stable.  The list shown to a user is the sublist,
  in store order, of the hosts some policy opens: an unexpired policy whose principal is one of the
  user's groups, or names a claim of the user that carries the required value, and whose selector
  is a tag of the host with the required value or a glob its name matches.  A policy opens an SSH
  account exactly when it opens the host and lists the account, and every such host is in the
  list; the list only shrinks as time passes, and adding policies never hides a host.\<close>

theorem FilterVisibleHosts_spec:
  assumes "now \<le> now'" and "set ps \<subseteq> set ps'"
  shows "FilterVisibleHosts now claims hosts ps =
           filter (\<lambda>h. \<exists>p \<in> set ps. principal_spec claims (p_Principal p) \<and>
             selector_spec (p_HostSelector p) h \<and> (\<forall>e. p_ExpiresAt p = Some e \<longrightarrow> now < e)) hosts \<and>
         (\<forall>h p u. PolicyAllowsSSHUser now claims h p u \<longleftrightarrow>
           principal_spec claims (p_Principal p) \<and> selector_spec (p_HostSelector p) h \<and>
           (\<forall>e. p_ExpiresAt p = Some e \<longrightarrow> now < e) \<and> u \<in> set (elems (p_SSHUsers p))) \<and>
         (\<forall>h \<in> set hosts. \<forall>p \<in> set ps. \<forall>u. PolicyAllowsSSHUser now claims h p u \<longrightarrow>
           h \<in> set (FilterVisibleHosts now claims hosts ps)) \<and>
         set (FilterVisibleHosts now' claims hosts ps) \<subseteq> set (FilterVisibleHosts now claims hosts ps')"
proof (intro conjI)
  show "FilterVisibleHosts now claims hosts ps =
      filter (\<lambda>h. \<exists>p \<in> set ps. principal_spec claims (p_Principal p) \<and>
        selector_spec (p_HostSelector p) h \<and> (\<forall>e. p_ExpiresAt p = Some e \<longrightarrow> now < e)) hosts"
    by (simp only: FilterVisibleHosts_filter PolicyAllows_opens policy_opens_def)
  show "\<forall>h p u. PolicyAllowsSSHUser now claims h p u \<longleftrightarrow>
      principal_spec claims (p_Principal p) \<and> selector_spec (p_HostSelector p) h \<and>
      (\<forall>e. p_ExpiresAt p = Some e \<longrightarrow> now < e) \<and> u \<in> set (elems (p_SSHUsers p))"
    by (simp add: PolicyAllowsSSHUser_iff PolicyAllows_opens policy_opens_def)
  show "\<forall>h \<in> set hosts. \<forall>p \<in> set ps. \<forall>u. PolicyAllowsSSHUser now claims h p u \<longrightarrow>
      h \<in> set (FilterVisibleHosts now claims hosts ps)"
    by (auto simp: FilterVisibleHosts_filter PolicyAllowsSSHUser_iff)
  show "set (FilterVisibleHosts now' claims hosts ps) \<subseteq> set (FilterVisibleHosts now claims hosts ps')"
    unfolding FilterVisibleHosts_filter using assms(2) PolicyAllows_antimono [OF assms(1)] by fastforce
qed

definition sample_host :: Host where
  "sample_host = \<lparr>h_ID = ''host-1'', h_Name = ''edge-1'', h_EndpointID = replicate 64 CHR ''a'',
     h_SSHUser = ''ops'', h_Tags = Some [(''site'', ''west'')], h_SSHPort = 22,
     h_Status = ''healthy'', h_Owner = ''manufacturing'', h_LastSeen = None\<rparr>"

definition sample_policy :: Policy where
  "sample_policy = \<lparr>p_ID = ''p1'', p_Name = ''ops'', p_Principal = ''groups=operators'',
     p_HostSelector = ''tag:site=west'', p_SSHUsers = Some [''ops''], p_ExpiresAt = Some 100\<rparr>"

definition sample_claims :: UserClaims where
  "sample_claims = \<lparr>uc_Subject = ''alice'', uc_Groups = [''operators''], uc_CustomClaims = []\<rparr>"

theorem FilterVisibleHosts_spec_witness:
  "(10::int) \<le> 20 \<and> set [sample_policy] \<subseteq> set [sample_policy] \<and>
   PolicyAllowsSSHUser 20 sample_claims sample_host sample_policy ''ops'' \<and>
   sample_host \<in> set (FilterVisibleHosts 10 sample_claims [sample_host] [sample_policy])"
proof -
  have allow: "PolicyAllowsSSHUser 10 sample_claims sample_host sample_policy ''ops''"
    and allow': "PolicyAllowsSSHUser 20 sample_claims sample_host sample_policy ''ops''"
    by code_simp+
  have le: "(10::int) \<le> 20" by simp
  have "sample_host \<in> set (FilterVisibleHosts 10 sample_claims [sample_host] [sample_policy])"
    using FilterVisibleHosts_spec [of 10 20 "[sample_policy]" "[sample_policy]" sample_claims "[sample_host]"]
      allow le by (meson list.set_intros(1) subset_refl)
  with allow' show ?thesis by simp
qed

end
