(* ===== verification/Database.thy ===== *)
theory Database
  imports Core_Policy
begin

section \<open>The database: schema, statements, transactions (internal/store/store.go)\<close>

text \<open>
  The schema that \<^verbatim>\<open>migrate\<close> creates, as one record of tables; a table is the list of its rows in
  insertion order.  The row types are the structs of \<^verbatim>\<open>store.go\<close>; a column that holds JSON is
  modelled by the Go value that was marshalled into it.  A SQL statement is a function on the
  tables that returns the new tables and the number of affected rows, or a constraint error; the
  builders \<open>insert_row\<close>, \<open>insert_when\<close>, \<open>insert_for\<close>, \<open>update_rows\<close>, \<open>delete_rows\<close> give the meaning of the
  statement forms the program uses.  \<open>run_tx\<close> runs a transaction: all statements or none.
\<close>

subsection \<open>Rows\<close>

record host_row = Host +
  h_created_at :: int
  h_updated_at :: int

record policy_row = Policy +
  p_created_at :: int
  p_updated_at :: int

record SshKey =
  k_ID :: string
  k_UserID :: string
  k_PublicKey :: string
  k_Fingerprint :: string
  k_CreatedAt :: int

record AccessRequest =
  ar_ID :: string
  ar_UserID :: string
  ar_HostID :: string
  ar_SSHUser :: string
  ar_Status :: string
  ar_CreatedAt :: int

record AccessGrant =
  ag_ID :: string
  ag_RequestID :: string
  ag_UserID :: string
  ag_HostID :: string
  ag_SSHUser :: string
  ag_ExpiresAt :: int
  ag_EphemeralKey :: string
  ag_KeyInstalled :: bool
  ag_CreatedAt :: int

record AuditEvent =
  ev_ID :: string
  ev_Action :: string
  ev_Resource :: string
  ev_ResourceID :: string
  ev_UserID :: string
  ev_Before :: "string option"
  ev_After :: "string option"
  ev_CreatedAt :: int

record token_row =
  mt_ID :: string
  mt_TokenHash :: string
  mt_BatchID :: string
  mt_ExpiresAt :: "int option"
  mt_CreatedAt :: int

record batch_row =
  mb_ID :: string
  mb_Name :: string
  mb_SerialPrefix :: string
  mb_TokenHash :: string
  mb_Status :: string
  mb_ExpiresAt :: int
  mb_MaxDevices :: int
  mb_UsedCount :: int
  mb_ClosedAt :: "int option"
  mb_CreatedAt :: int

record Device =
  d_ID :: string
  d_HostID :: string
  d_EndpointID :: string
  d_SSHHostKeyFingerprint :: string
  d_DevicePublicKey :: string
  d_State :: string
  d_SerialNumber :: string
  d_Model :: string
  d_EnrolledAt :: int
  d_LastSeenAt :: "int option"

record EndpointDiscovery =
  ed_HostID :: string
  ed_DirectAddresses :: "string list"
  ed_RelayURLs :: "string list"
  ed_UpdatedAt :: int

record RelayAccessGrant =
  rg_ID :: string
  rg_HostID :: string
  rg_ClientEndpointID :: string
  rg_ExpiresAt :: int
  rg_CreatedAt :: int

record snapshot_row =
  sn_HostID :: string
  sn_SSHUser :: string
  sn_Generation :: int
  sn_Digest :: string

record snapshot_grant =
  sg_HostID :: string
  sg_SSHUser :: string
  sg_GrantID :: string

record revoked_session =
  rs_CookieHash :: string
  rs_ExpiresAt :: int

record tables =
  hosts :: "host_row list"
  policies :: "policy_row list"
  ssh_keys :: "SshKey list"
  access_requests :: "AccessRequest list"
  access_grants :: "AccessGrant list"
  revoked_sessions :: "revoked_session list"
  audit_events :: "AuditEvent list"
  manufacturing_tokens :: "token_row list"
  manufacturing_batches :: "batch_row list"
  devices :: "Device list"
  endpoint_discovery :: "EndpointDiscovery list"
  relay_access_grants :: "RelayAccessGrant list"
  authorized_keys_snapshots :: "snapshot_row list"
  authorized_keys_snapshot_grants :: "snapshot_grant list"

text \<open>The tables after the migration of an empty data directory.\<close>

definition empty_tables :: tables where
  "empty_tables = \<lparr>hosts = [], policies = [], ssh_keys = [], access_requests = [], access_grants = [],
     revoked_sessions = [], audit_events = [], manufacturing_tokens = [], manufacturing_batches = [],
     devices = [], endpoint_discovery = [], relay_access_grants = [],
     authorized_keys_snapshots = [], authorized_keys_snapshot_grants = []\<rparr>"

subsection \<open>Constraints\<close>

text \<open>Two rows of a table clash when they agree on a column declared \<^verbatim>\<open>PRIMARY KEY\<close> or \<^verbatim>\<open>UNIQUE\<close>.\<close>

definition host_clash :: "host_row \<Rightarrow> host_row \<Rightarrow> bool" where
  "host_clash x r \<longleftrightarrow> h_ID x = h_ID r \<or> h_Name x = h_Name r"
definition policy_clash :: "policy_row \<Rightarrow> policy_row \<Rightarrow> bool" where
  "policy_clash x r \<longleftrightarrow> p_ID x = p_ID r"
definition key_clash :: "SshKey \<Rightarrow> SshKey \<Rightarrow> bool" where
  "key_clash x r \<longleftrightarrow> k_ID x = k_ID r"
definition request_clash :: "AccessRequest \<Rightarrow> AccessRequest \<Rightarrow> bool" where
  "request_clash x r \<longleftrightarrow> ar_ID x = ar_ID r"
definition grant_clash :: "AccessGrant \<Rightarrow> AccessGrant \<Rightarrow> bool" where
  "grant_clash x r \<longleftrightarrow> ag_ID x = ag_ID r"
definition event_clash :: "AuditEvent \<Rightarrow> AuditEvent \<Rightarrow> bool" where
  "event_clash x r \<longleftrightarrow> ev_ID x = ev_ID r"
definition token_clash :: "token_row \<Rightarrow> token_row \<Rightarrow> bool" where
  "token_clash x r \<longleftrightarrow> mt_ID x = mt_ID r \<or> mt_TokenHash x = mt_TokenHash r"
definition batch_clash :: "batch_row \<Rightarrow> batch_row \<Rightarrow> bool" where
  "batch_clash x r \<longleftrightarrow> mb_ID x = mb_ID r \<or> mb_Name x = mb_Name r \<or> mb_TokenHash x = mb_TokenHash r"
definition device_clash :: "Device \<Rightarrow> Device \<Rightarrow> bool" where
  "device_clash x r \<longleftrightarrow> d_ID x = d_ID r \<or> d_DevicePublicKey x = d_DevicePublicKey r \<or>
     d_SerialNumber x = d_SerialNumber r"
definition relay_clash :: "RelayAccessGrant \<Rightarrow> RelayAccessGrant \<Rightarrow> bool" where
  "relay_clash x r \<longleftrightarrow> rg_ID x = rg_ID r"
definition discovery_clash :: "EndpointDiscovery \<Rightarrow> EndpointDiscovery \<Rightarrow> bool" where
  "discovery_clash x r \<longleftrightarrow> ed_HostID x = ed_HostID r"
definition snapshot_clash :: "snapshot_row \<Rightarrow> snapshot_row \<Rightarrow> bool" where
  "snapshot_clash x r \<longleftrightarrow> sn_HostID x = sn_HostID r \<and> sn_SSHUser x = sn_SSHUser r"
definition sgrant_clash :: "snapshot_grant \<Rightarrow> snapshot_grant \<Rightarrow> bool" where
  "sgrant_clash x r \<longleftrightarrow> sg_HostID x = sg_HostID r \<and> sg_SSHUser x = sg_SSHUser r \<and> sg_GrantID x = sg_GrantID r"
definition session_clash :: "revoked_session \<Rightarrow> revoked_session \<Rightarrow> bool" where
  "session_clash x r \<longleftrightarrow> rs_CookieHash x = rs_CookieHash r"

lemmas clash_defs = host_clash_def policy_clash_def key_clash_def request_clash_def grant_clash_def
  event_clash_def token_clash_def batch_clash_def device_clash_def relay_clash_def discovery_clash_def
  snapshot_clash_def sgrant_clash_def session_clash_def

subsection \<open>Statement forms\<close>

datatype sql_error = UniqueViolation | RowsMismatch nat nat

type_synonym sql_fun = "tables \<Rightarrow> sql_error + (tables \<times> nat)"

record statement =
  st_run :: sql_fun
  st_expected :: "nat option"

definition sql :: "sql_fun \<Rightarrow> statement" where
  "sql f = \<lparr>st_run = f, st_expected = None\<rparr>"

definition sql_one :: "sql_fun \<Rightarrow> statement" where
  "sql_one f = \<lparr>st_run = f, st_expected = Some 1\<rparr>"

text \<open>\<^verbatim>\<open>INSERT INTO t ... VALUES ...\<close>.\<close>

definition insert_row :: "(tables \<Rightarrow> 'r list) \<Rightarrow> (('r list \<Rightarrow> 'r list) \<Rightarrow> tables \<Rightarrow> tables) \<Rightarrow>
    ('r \<Rightarrow> 'r \<Rightarrow> bool) \<Rightarrow> 'r \<Rightarrow> sql_fun" where
  "insert_row get upd clash r t =
     (if list_ex (\<lambda>x. clash x r) (get t) then Inl UniqueViolation
      else Inr (upd (\<lambda>rows. rows @ [r]) t, 1))"

text \<open>\<^verbatim>\<open>INSERT INTO t ... SELECT ... WHERE EXISTS (...)\<close>.\<close>

definition insert_when :: "(tables \<Rightarrow> bool) \<Rightarrow> sql_fun \<Rightarrow> sql_fun" where
  "insert_when cond ins t = (if cond t then ins t else Inr (t, 0))"

text \<open>\<^verbatim>\<open>INSERT INTO t ... SELECT constants FROM u WHERE ...\<close>: one insertion per selected row.\<close>

fun insert_times :: "nat \<Rightarrow> sql_fun \<Rightarrow> sql_fun" where
  "insert_times 0 ins t = Inr (t, 0)"
| "insert_times (Suc k) ins t =
     (case ins t of
        Inl e \<Rightarrow> Inl e
      | Inr (t', n) \<Rightarrow>
          (case insert_times k ins t' of Inl e \<Rightarrow> Inl e | Inr (t'', n') \<Rightarrow> Inr (t'', n + n')))"

definition insert_for :: "(tables \<Rightarrow> 's list) \<Rightarrow> ('s \<Rightarrow> bool) \<Rightarrow> sql_fun \<Rightarrow> sql_fun" where
  "insert_for src P ins t = insert_times (length (filter P (src t))) ins t"

text \<open>\<^verbatim>\<open>UPDATE t SET ... WHERE ...\<close> that leaves the key columns alone.\<close>

definition update_rows :: "(tables \<Rightarrow> 'r list) \<Rightarrow> (('r list \<Rightarrow> 'r list) \<Rightarrow> tables \<Rightarrow> tables) \<Rightarrow>
    (tables \<Rightarrow> 'r \<Rightarrow> bool) \<Rightarrow> ('r \<Rightarrow> 'r) \<Rightarrow> sql_fun" where
  "update_rows get upd P f t =
     Inr (upd (map (\<lambda>r. if P t r then f r else r)) t, length (filter (P t) (get t)))"

text \<open>\<^verbatim>\<open>DELETE FROM t WHERE ...\<close>.\<close>

definition delete_rows :: "(tables \<Rightarrow> 'r list) \<Rightarrow> (('r list \<Rightarrow> 'r list) \<Rightarrow> tables \<Rightarrow> tables) \<Rightarrow>
    (tables \<Rightarrow> 'r \<Rightarrow> bool) \<Rightarrow> sql_fun" where
  "delete_rows get upd P t = Inr (upd (filter (\<lambda>r. \<not> P t r)) t, length (filter (P t) (get t)))"

text \<open>\<^verbatim>\<open>UPDATE\<close> of a key column: the statement fails when the new rows clash.\<close>

fun unique :: "('r \<Rightarrow> 'r \<Rightarrow> bool) \<Rightarrow> 'r list \<Rightarrow> bool" where
  "unique clash [] \<longleftrightarrow> True"
| "unique clash (r # rs) \<longleftrightarrow> list_all (\<lambda>x. \<not> clash r x) rs \<and> unique clash rs"

definition update_key_rows :: "(tables \<Rightarrow> 'r list) \<Rightarrow> (('r list \<Rightarrow> 'r list) \<Rightarrow> tables \<Rightarrow> tables) \<Rightarrow>
    ('r \<Rightarrow> 'r \<Rightarrow> bool) \<Rightarrow> (tables \<Rightarrow> 'r \<Rightarrow> bool) \<Rightarrow> ('r \<Rightarrow> 'r) \<Rightarrow> sql_fun" where
  "update_key_rows get upd clash P f t =
     (if unique clash (map (\<lambda>r. if P t r then f r else r) (get t)) then update_rows get upd P f t
      else Inl UniqueViolation)"

text \<open>\<^verbatim>\<open>INSERT ... ON CONFLICT(key) DO UPDATE SET ...\<close>: the new row is merged into the row it clashes with.\<close>

definition upsert_row :: "(tables \<Rightarrow> 'r list) \<Rightarrow> (('r list \<Rightarrow> 'r list) \<Rightarrow> tables \<Rightarrow> tables) \<Rightarrow>
    ('r \<Rightarrow> 'r \<Rightarrow> bool) \<Rightarrow> 'r \<Rightarrow> (tables \<Rightarrow> 'r \<Rightarrow> 'r) \<Rightarrow> sql_fun" where
  "upsert_row get upd clash r merge t =
     (if list_ex (\<lambda>x. clash x r) (get t)
      then Inr (upd (map (\<lambda>x. if clash x r then merge t x else x)) t, 1)
      else Inr (upd (\<lambda>rows. rows @ [r]) t, 1))"

text \<open>\<^verbatim>\<open>INSERT OR REPLACE\<close>: clashing rows are removed first.\<close>

definition replace_row :: "(tables \<Rightarrow> 'r list) \<Rightarrow> (('r list \<Rightarrow> 'r list) \<Rightarrow> tables \<Rightarrow> tables) \<Rightarrow>
    ('r \<Rightarrow> 'r \<Rightarrow> bool) \<Rightarrow> 'r \<Rightarrow> sql_fun" where
  "replace_row get upd clash r t = Inr (upd (\<lambda>rows. filter (\<lambda>x. \<not> clash x r) rows @ [r]) t, 1)"

subsection \<open>Transactions\<close>

fun run_tx :: "statement list \<Rightarrow> tables \<Rightarrow> sql_error + (tables \<times> nat list)" where
  "run_tx [] t = Inr (t, [])"
| "run_tx (s # ss) t =
     (case st_run s t of
        Inl e \<Rightarrow> Inl e
      | Inr (t', n) \<Rightarrow>
          (case st_expected s of
             Some k \<Rightarrow> if n \<noteq> k then Inl (RowsMismatch k n)
                       else (case run_tx ss t' of Inl e \<Rightarrow> Inl e | Inr (t'', ns) \<Rightarrow> Inr (t'', n # ns))
           | None \<Rightarrow> (case run_tx ss t' of Inl e \<Rightarrow> Inl e | Inr (t'', ns) \<Rightarrow> Inr (t'', n # ns))))"

definition keeps :: "(tables \<Rightarrow> bool) \<Rightarrow> sql_fun \<Rightarrow> bool" where
  "keeps I f \<longleftrightarrow> (\<forall>t t' n. I t \<longrightarrow> f t = Inr (t', n) \<longrightarrow> I t')"

lemma keepsD: "keeps I f \<Longrightarrow> I t \<Longrightarrow> f t = Inr (t', n) \<Longrightarrow> I t'"
  by (simp add: keeps_def)

lemma run_tx_Cons_Inr:
  "run_tx (s # ss) t = Inr (t'', ns) \<longleftrightarrow>
     (\<exists>t' n ns'. st_run s t = Inr (t', n) \<and> (\<forall>k. st_expected s = Some k \<longrightarrow> n = k) \<and>
        run_tx ss t' = Inr (t'', ns') \<and> ns = n # ns')"
  by (auto split: sum.splits option.splits if_splits)

lemma run_tx_keeps:
  "\<forall>s \<in> set ss. keeps I (st_run s) \<Longrightarrow> I t \<Longrightarrow> run_tx ss t = Inr (t', ns) \<Longrightarrow> I t'"
proof (induction ss arbitrary: t ns)
  case (Cons s ss)
  then show ?case unfolding run_tx_Cons_Inr by (metis keepsD list.set_intros)
qed simp

lemma run_tx_length: "run_tx ss t = Inr (t', ns) \<Longrightarrow> length ns = length ss"
  by (induction ss arbitrary: t ns) (auto split: sum.splits option.splits if_splits)

lemma st_run_sql [simp]: "st_run (sql f) = f" "st_run (sql_one f) = f"
  by (simp_all add: sql_def sql_one_def)

lemma st_expected_sql [simp]: "st_expected (sql f) = None" "st_expected (sql_one f) = Some 1"
  by (simp_all add: sql_def sql_one_def)

declare run_tx.simps(2) [simp del]

lemma keeps_insert_when: "keeps I f \<Longrightarrow> keeps I (insert_when c f)"
  by (auto simp: keeps_def insert_when_def split: if_splits)

lemma keeps_insert_times:
  assumes "keeps I f" shows "keeps I (insert_times k f)"
proof -
  have "insert_times k f t = Inr (t', n) \<Longrightarrow> I t \<Longrightarrow> I t'" for t t' n
  proof (induction k arbitrary: t n)
    case (Suc k)
    then obtain t1 n1 n2 where "f t = Inr (t1, n1)" "insert_times k f t1 = Inr (t', n2)"
      by (auto split: sum.splits)
    then show ?case using Suc.IH keepsD [OF assms] Suc.prems(2) by blast
  qed simp
  then show ?thesis by (auto simp: keeps_def)
qed

lemma keeps_insert_for: "keeps I f \<Longrightarrow> keeps I (insert_for src P f)"
  using keepsD [OF keeps_insert_times] unfolding keeps_def insert_for_def by blast

subsection \<open>Uniqueness of keys\<close>

lemma unique_snoc:
  "unique clash (rs @ [r]) \<longleftrightarrow> unique clash rs \<and> \<not> list_ex (\<lambda>x. clash x r) rs"
  by (induction rs) (auto simp: list_ex_iff list_all_iff)

lemma unique_filter: "unique clash rs \<Longrightarrow> unique clash (filter P rs)"
  by (induction rs) (auto simp: list_all_iff)

lemma unique_map:
  assumes "\<And>x y. clash (f x) (f y) \<longleftrightarrow> clash x y"
  shows "unique clash (map f rs) \<longleftrightarrow> unique clash rs"
  by (induction rs) (auto simp: assms list_all_iff)

lemma unique_find:
  "unique clash rs \<Longrightarrow> x \<in> set rs \<Longrightarrow> y \<in> set rs \<Longrightarrow> clash x y \<Longrightarrow> clash y x \<Longrightarrow> x = y"
  by (induction rs) (auto simp: list_all_iff)

lemma unique_length_filter:
  assumes "unique clash rs" "\<And>x y. P x \<Longrightarrow> P y \<Longrightarrow> clash x y"
  shows "length (filter P rs) \<le> 1"
  using assms(1)
proof (induction rs)
  case (Cons r rs)
  show ?case
  proof (cases "P r")
    case True
    then have "\<not> P x" if "x \<in> set rs" for x
      using Cons.prems that assms(2) by (auto simp: list_all_iff)
    then have "filter P rs = []" by (simp add: filter_empty_conv)
    then show ?thesis by simp
  next
    case False
    then show ?thesis using Cons by simp
  qed
qed simp

subsection \<open>The connection the store uses\<close>

text \<open>
  The store reaches the database through \<^verbatim>\<open>rhizaSQL\<close>: \<^verbatim>\<open>ExecTransactionResult\<close> (the number of affected rows
  of a committed transaction, or an error) and \<^verbatim>\<open>QueryContext\<close> (the tables as of one linearizable
  read, or an error).  The store's operations are generic in these two functions.  The locale
  \<open>sql_conn\<close> is the contract they rely on: \<open>view\<close> is the tables of a world; success means that exactly
  this transaction was applied; an error means that it was applied as a whole or not at all.
\<close>

datatype db_error =
    ErrTrustUnsettled | ErrPendingWrite | ErrTrustMismatch | ErrTrustMissing | ErrTrustChanged
  | ErrAnchorRead | ErrAnchorInvalid | ErrAnchorUpdate | ErrInvalidRequest | ErrEmptyTransaction
  | ErrRejected | ErrProjection | ErrEngine | ErrNotReady | ErrQuorumUnavailable
  | ErrCommitUnknown | ErrDurabilityUnavailable | ErrCtx
  | ErrFenceMissing | ErrFenceChanged | ErrBootstrapConsumed | ErrSchema

record 'w conn =
  c_exec :: "statement list \<Rightarrow> 'w \<Rightarrow> (db_error + nat) \<times> 'w"
  c_query :: "'w \<Rightarrow> db_error + tables"

locale sql_conn =
  fixes view :: "'w \<Rightarrow> tables" and c :: "'w conn"
  assumes exec_ok: "c_exec c ss w = (Inr n, w') \<Longrightarrow>
      \<exists>ns. run_tx ss (view w) = Inr (view w', ns) \<and> n = sum_list ns"
    and exec_err: "c_exec c ss w = (Inl e, w') \<Longrightarrow>
      view w' = view w \<or> (\<exists>ns. run_tx ss (view w) = Inr (view w', ns))"
    and query_ok: "c_query c w = Inr t \<Longrightarrow> t = view w"
begin

text \<open>Whatever the outcome, a transaction whose statements keep an invariant keeps it.\<close>

lemma exec_keeps:
  assumes "\<forall>s \<in> set ss. keeps I (st_run s)" and "I (view w)"
  shows "I (view (snd (c_exec c ss w)))"
proof (cases "c_exec c ss w")
  case (Pair r w')
  then show ?thesis
    using exec_ok [of ss w _ w'] exec_err [of ss w _ w'] run_tx_keeps [OF assms] assms(2)
    by (cases r) fastforce+
qed

lemma exec_outcome:
  "c_exec c ss w = (r, w') \<Longrightarrow> view w' = view w \<or> (\<exists>ns. run_tx ss (view w) = Inr (view w', ns))"
  using exec_ok exec_err by (cases r) blast+

end

end
