(* ===== verification/Store_Base.thy ===== *)
theory Store_Base
  imports Database Core_Command
begin

section \<open>The store's operations: shared parts (internal/store/store.go)\<close>

text \<open>
  Every operation of \<^verbatim>\<open>Store\<close> takes the store's lock, checks its arguments, reads, and submits at
  most a few transactions.  Here an operation is a function of the connection and of the world;
  the lock outcome (\<open>ok\<close>, false when the caller's context expired during the wait), the identifiers
  that \<^verbatim>\<open>newID\<close> returns and the readings of \<^verbatim>\<open>nowUnix\<close> are arguments, one per call in the source.
  The SHA-256 digest behind \<^verbatim>\<open>hashSecret\<close> is an argument too.
\<close>

datatype store_error =
    CtxDone
  | ActorRequired
  | InvalidHostName
  | InvalidSSHUser_store
  | InvalidRevocation
  | HostUnavailable
  | NotPending
  | InvalidAck
  | AckMismatch
  | SnapshotTooLarge
  | NoRows
  | TokenExpired
  | InvalidBatch
  | InvalidSerialPrefix
  | DeviceKeyRequired
  | DeviceKeyClash
  | TokenBatchUnavailable
  | InvalidToken
  | BatchClosed
  | SerialMismatch
  | SerialRequired
  | InvalidSerial
  | SerialEnrolled
  | DeviceMismatch
  | Db db_error

type_synonym ('a, 'w) outcome = "(store_error + 'a) \<times> 'w"

definition locked :: "bool \<Rightarrow> ('w \<Rightarrow> ('a, 'w) outcome) \<Rightarrow> 'w \<Rightarrow> ('a, 'w) outcome" where
  "locked ok body w = (if ok then body w else (Inl CtxDone, w))"

definition with_query :: "'w conn \<Rightarrow> (tables \<Rightarrow> 'w \<Rightarrow> ('a, 'w) outcome) \<Rightarrow> 'w \<Rightarrow> ('a, 'w) outcome" where
  "with_query c k w = (case c_query c w of Inl e \<Rightarrow> (Inl (Db e), w) | Inr t \<Rightarrow> k t w)"

definition with_tx :: "'w conn \<Rightarrow> statement list \<Rightarrow> (nat \<Rightarrow> 'w \<Rightarrow> ('a, 'w) outcome) \<Rightarrow> 'w \<Rightarrow> ('a, 'w) outcome" where
  "with_tx c ss k w = (case c_exec c ss w of (Inl e, w') \<Rightarrow> (Inl (Db e), w') | (Inr n, w') \<Rightarrow> k n w')"

definition return :: "'a \<Rightarrow> 'w \<Rightarrow> ('a, 'w) outcome" where
  "return a w = (Inr a, w)"

definition fail :: "store_error \<Rightarrow> 'w \<Rightarrow> ('a, 'w) outcome" where
  "fail e w = (Inl e, w)"

definition map_result :: "('a \<Rightarrow> 'b) \<Rightarrow> ('w \<Rightarrow> ('a, 'w) outcome) \<Rightarrow> 'w \<Rightarrow> ('b, 'w) outcome" where
  "map_result f body w = (case body w of (Inl e, w') \<Rightarrow> (Inl e, w') | (Inr a, w') \<Rightarrow> (Inr (f a), w'))"

lemmas store_monad = locked_def with_query_def with_tx_def return_def fail_def map_result_def

subsection \<open>Statements used by several operations\<close>

text \<open>\<^verbatim>\<open>INSERT INTO audit_events (id, action, resource, resource_id, user_id, after_json, created_at)\<close>.\<close>

definition audit_row :: "string \<Rightarrow> string \<Rightarrow> string \<Rightarrow> string \<Rightarrow> string \<Rightarrow> string option \<Rightarrow> int \<Rightarrow> AuditEvent" where
  "audit_row i action resource rid actor aft now =
     \<lparr>ev_ID = i, ev_Action = action, ev_Resource = resource, ev_ResourceID = rid, ev_UserID = actor,
      ev_Before = None, ev_After = aft, ev_CreatedAt = now\<rparr>"

definition insert_audit :: "AuditEvent \<Rightarrow> sql_fun" where
  "insert_audit = insert_row audit_events audit_events_update event_clash"

text \<open>The rows of \<^verbatim>\<open>hosts h JOIN devices d ON d.host_id = h.id\<close> that are not revoked, and the guard
  \<^verbatim>\<open>EXISTS (SELECT 1 FROM hosts h JOIN devices d ... WHERE h.id = ? AND h.status != 'revoked' AND
  d.state != 'revoked')\<close> of every grant.\<close>

definition live_pair :: "host_row \<Rightarrow> Device \<Rightarrow> bool" where
  "live_pair h d \<longleftrightarrow> d_HostID d = h_ID h \<and> h_Status h \<noteq> ''revoked'' \<and> d_State d \<noteq> ''revoked''"

definition host_live :: "string \<Rightarrow> tables \<Rightarrow> bool" where
  "host_live hid t \<longleftrightarrow> list_ex (\<lambda>h. h_ID h = hid \<and> list_ex (live_pair h) (devices t)) (hosts t)"

lemma host_live_iff:
  "host_live hid t \<longleftrightarrow> (\<exists>h \<in> set (hosts t). \<exists>d \<in> set (devices t). h_ID h = hid \<and> d_HostID d = hid \<and>
     h_Status h \<noteq> ''revoked'' \<and> d_State d \<noteq> ''revoked'')"
  by (auto simp: host_live_def live_pair_def list_ex_iff)

text \<open>\<^verbatim>\<open>QueryRow\<close> takes the first row of the result, or reports \<^verbatim>\<open>sql.ErrNoRows\<close>.\<close>

definition query_row :: "('r \<Rightarrow> bool) \<Rightarrow> 'r list \<Rightarrow> 'r option" where
  "query_row P rows = find P rows"

lemma query_row_Some: "query_row P rs = Some r \<Longrightarrow> r \<in> set rs \<and> P r"
  by (auto simp: query_row_def find_Some_iff)

lemma query_row_None: "query_row P rs = None \<longleftrightarrow> (\<forall>r \<in> set rs. \<not> P r)"
  by (auto simp: query_row_def find_None_iff)

text \<open>\<^verbatim>\<open>ORDER BY created_at DESC\<close>; rows with equal keys stay in insertion order.\<close>

definition newest_first :: "('r \<Rightarrow> int) \<Rightarrow> 'r list \<Rightarrow> 'r list" where
  "newest_first key rs = sort_key (\<lambda>r. - key r) rs"

subsection \<open>Sequences of transactions\<close>

text \<open>What a world's tables can become when an operation runs: the locale's lemmas reduce the
  combinators above to the transactions they submit.\<close>

definition reaches :: "(statement list \<Rightarrow> bool) \<Rightarrow> tables \<Rightarrow> tables \<Rightarrow> bool" where
  "reaches T = (\<lambda>t t'. \<exists>ss ns. T ss \<and> run_tx ss t = Inr (t', ns))\<^sup>*\<^sup>*"

lemma reaches_refl [simp, intro]: "reaches T t t"
  by (simp add: reaches_def)

lemma reaches_trans: "reaches T t t' \<Longrightarrow> reaches T t' t'' \<Longrightarrow> reaches T t t''"
  unfolding reaches_def by (rule rtranclp_trans)

lemma reaches_one: "T ss \<Longrightarrow> run_tx ss t = Inr (t', ns) \<Longrightarrow> reaches T t t'"
  unfolding reaches_def by (rule r_into_rtranclp) blast

lemma reaches_keeps:
  assumes "reaches T t t'" "I t"
    and step: "\<And>ss t t' ns. T ss \<Longrightarrow> I t \<Longrightarrow> run_tx ss t = Inr (t', ns) \<Longrightarrow> I t'"
  shows "I t'"
  using assms(1,2) unfolding reaches_def
  by (induction rule: rtranclp_induct) (use step in blast)+

context sql_conn
begin

lemma reaches_exec:
  assumes "T ss" "c_exec c ss w = (r, w')"
  shows "reaches T (view w) (view w')"
  using exec_outcome [OF assms(2)] reaches_one [of T ss, OF assms(1)] by fastforce

lemma reaches_locked:
  "reaches T (view w) (view (snd (body w))) \<Longrightarrow> reaches T (view w) (view (snd (locked ok body w)))"
  by (simp add: locked_def)

lemma reaches_query:
  assumes "c_query c w = Inr (view w) \<Longrightarrow> reaches T (view w) (view (snd (k (view w) w)))"
  shows "reaches T (view w) (view (snd (with_query c k w)))"
proof (cases "c_query c w")
  case (Inr t)
  then show ?thesis using assms query_ok [OF Inr] by (simp add: with_query_def)
qed (simp add: with_query_def)

lemma reaches_tx:
  assumes "T ss" "\<And>n w'. reaches T (view w') (view (snd (k n w')))"
  shows "reaches T (view w) (view (snd (with_tx c ss k w)))"
proof (cases "c_exec c ss w")
  case (Pair r w')
  have "reaches T (view w) (view w')" by (rule reaches_exec) (fact assms(1) Pair)+
  then show ?thesis using Pair reaches_trans [OF _ assms(2) [of w']]
    by (cases r) (simp_all add: with_tx_def)
qed

lemma reaches_done [simp]:
  "reaches T (view w) (view (snd (return a w)))" "reaches T (view w) (view (snd (fail e w)))"
  by (simp_all add: return_def fail_def)

lemma reaches_map_result:
  "reaches T (view w) (view (snd (body w))) \<Longrightarrow> reaches T (view w) (view (snd (map_result f body w)))"
  by (auto simp: map_result_def split: prod.split sum.split)

lemma reaches_if:
  "(b \<Longrightarrow> reaches T x (view (snd (f w)))) \<Longrightarrow> (\<not> b \<Longrightarrow> reaches T x (view (snd (g w)))) \<Longrightarrow>
    reaches T x (view (snd ((if b then f else g) w)))"
  by simp

end

end
