(* ===== verification/Go_Time.thy ===== *)
theory Go_Time
  imports Prelude
begin

section \<open>UTC timestamps as text (Go's time package)\<close>

text \<open>
  \<^verbatim>\<open>time.Unix(s, 0).UTC().Format("20060102150405Z")\<close>, which \<^verbatim>\<open>FormatAuthorizedKeys\<close> uses for the
  \<^verbatim>\<open>expiry-time\<close> option: the proleptic Gregorian date of the day and the time of day, each field
  zero-padded.  \<open>timespec_seconds\<close> reads such a text back, as sshd does with \<^verbatim>\<open>YYYYMMDDHHMMSSZ\<close>.
\<close>

definition civil_from_days :: "int \<Rightarrow> int \<times> int \<times> int" where
  "civil_from_days z =
     (let era = (z + 719468) div 146097;
          doe = (z + 719468) mod 146097;
          yoe = (doe - doe div 1460 + doe div 36524 - doe div 146096) div 365;
          doy = doe - (365 * yoe + yoe div 4 - yoe div 100);
          mp = (5 * doy + 2) div 153;
          m = (if mp < 10 then mp + 3 else mp - 9)
      in (yoe + era * 400 + (if m \<le> 2 then 1 else 0), m, doy - (153 * mp + 2) div 5 + 1))"

definition days_from_civil :: "int \<Rightarrow> int \<Rightarrow> int \<Rightarrow> int" where
  "days_from_civil y m d =
     (let y' = (if m \<le> 2 then y - 1 else y);
          era = y' div 400;
          yoe = y' mod 400;
          doy = (153 * (if m > 2 then m - 3 else m + 9) + 2) div 5 + d - 1
      in era * 146097 + (365 * yoe + yoe div 4 - yoe div 100 + doy) - 719468)"

text \<open>\<^verbatim>\<open>appendInt(b, x, width)\<close>: a minus sign, zero padding, the digits.\<close>

definition appendInt :: "int \<Rightarrow> nat \<Rightarrow> string" where
  "appendInt x width =
     (let ds = FormatUint (nat \<bar>x\<bar>); pad = replicate (width - length ds) CHR ''0'' in
      if x < 0 then CHR ''-'' # pad @ ds else pad @ ds)"

definition format_utc :: "int \<Rightarrow> string" where
  "format_utc s =
     (case civil_from_days (s div 86400) of (y, m, d) \<Rightarrow>
        let r = s mod 86400 in
        appendInt y 4 @ appendInt m 2 @ appendInt d 2 @
        appendInt (r div 3600) 2 @ appendInt (r mod 3600 div 60) 2 @ appendInt (r mod 60) 2 @ ''Z'')"

subsection \<open>Days and dates\<close>

text \<open>A day of a 400-year era, split into centuries, four-year cycles, years and days of the year.\<close>

lemma year_of_era:
  fixes c q a u :: int
  assumes "0 \<le> c" "c \<le> 3" "0 \<le> q" "q \<le> 24" "0 \<le> a" "a \<le> 3" "0 \<le> u"
    and last: "u \<le> 364 \<or> (u = 365 \<and> a = 3 \<and> (q \<noteq> 24 \<or> c = 3))"
    and doe: "doe = 36524 * c + 1461 * q + 365 * a + u"
  shows "(doe - doe div 1460 + doe div 36524 - doe div 146096) div 365 = 100 * c + 4 * q + a"
proof -
  define e where "e = 24 * c + q + 365 * a + u"
  have split: "doe = 1460 * (25 * c + q) + e" by (simp add: doe e_def)
  have "0 \<le> e" "e < 2920" using assms by (auto simp: e_def)
  then have "doe div 1460 = 25 * c + q + (if e \<ge> 1460 then 1 else 0)"
    unfolding split by (auto simp: div_mult_self1 intro!: div_pos_pos_trivial)
  moreover have "doe div 36524 - doe div 146096 = c"
  proof (cases "doe = 146096")
    case True
    then have "c = 3" using assms by linarith
    then show ?thesis using True by simp
  next
    case False
    have "1461 * q + 365 * a + u < 36524 \<or> (c = 3 \<and> 1461 * q + 365 * a + u = 36524)" "0 \<le> 1461 * q + 365 * a + u"
      using assms by linarith+
    then have "1461 * q + 365 * a + u < 36524" using False doe by auto
    then have "doe div 36524 = c" using doe assms(1-7) by (intro int_div_pos_eq [of _ _ _ "1461 * q + 365 * a + u"]) auto
    moreover have "doe div 146096 = 0" using False assms(1-7) last \<open>_ < 36524\<close> doe by (simp add: div_pos_pos_trivial)
    ultimately show ?thesis by simp
  qed
  ultimately have N: "doe - doe div 1460 + doe div 36524 - doe div 146096 =
      365 * (100 * c + 4 * q + a) + (u - (if e \<ge> 1460 then 1 else 0))"
    by (simp add: doe)
  have "0 \<le> u - (if e \<ge> 1460 then 1 else 0)" "u - (if e \<ge> 1460 then 1 else 0) \<le> 364"
    using assms by (auto simp: e_def)
  then show ?thesis unfolding N by (simp add: div_mult_self1)
qed

lemma day_of_era_split:
  fixes doe :: int
  assumes "0 \<le> doe" "doe < 146097"
  obtains c q a u :: int where "0 \<le> c" "c \<le> 3" "0 \<le> q" "q \<le> 24" "0 \<le> a" "a \<le> 3" "0 \<le> u"
    "u \<le> 364 \<or> (u = 365 \<and> a = 3 \<and> (q \<noteq> 24 \<or> c = 3))" "doe = 36524 * c + 1461 * q + 365 * a + u"
proof -
  define c where "c = min 3 (doe div 36524)"
  define r where "r = doe - 36524 * c"
  define q where "q = r div 1461"
  define s where "s = r mod 1461"
  define a where "a = min 3 (s div 365)"
  define u where "u = s - 365 * a"
  have c: "0 \<le> c" "c \<le> 3" using assms by (auto simp: c_def)
  have r: "0 \<le> r" "r \<le> 36524" "r = 36524 \<Longrightarrow> c = 3"
  proof -
    have "0 \<le> r \<and> r \<le> 36524 \<and> (r = 36524 \<longrightarrow> c = 3)"
    proof (cases "doe div 36524 \<ge> 3")
      case True
      then have "c = 3" by (simp add: c_def)
      moreover have "doe \<ge> 109572" using True assms by linarith
      ultimately show ?thesis using assms by (simp add: r_def)
    next
      case False
      then have "r = doe mod 36524" by (simp add: r_def c_def minus_mult_div_eq_mod)
      moreover have "doe mod 36524 < 36524" "0 \<le> doe mod 36524" by simp_all
      ultimately show ?thesis by linarith
    qed
    then show "0 \<le> r" "r \<le> 36524" "r = 36524 \<Longrightarrow> c = 3" by auto
  qed
  have q: "r = 1461 * q + s" "0 \<le> s" "s \<le> 1460"
    using pos_mod_bound [of 1461 r] by (simp_all add: q_def s_def)
  have "0 \<le> q" "q \<le> 24" using r q by linarith+
  have a: "0 \<le> a" "a \<le> 3" "0 \<le> u" "u \<le> 365" "u = 365 \<Longrightarrow> a = 3 \<and> s = 1460"
  proof -
    have "0 \<le> a \<and> a \<le> 3 \<and> 0 \<le> u \<and> u \<le> 365 \<and> (u = 365 \<longrightarrow> a = 3 \<and> s = 1460)"
    proof (cases "s div 365 \<ge> 3")
      case True
      then have "a = 3" by (simp add: a_def)
      moreover have "s \<ge> 1095" using True by linarith
      ultimately show ?thesis using q(2,3) by (simp add: u_def)
    next
      case False
      then have "u = s mod 365" "a = s div 365" by (simp_all add: u_def a_def minus_mult_div_eq_mod)
      moreover have "s mod 365 < 365" "0 \<le> s mod 365" "0 \<le> s div 365"
        using q(2) by (simp_all add: pos_imp_zdiv_nonneg_iff)
      ultimately show ?thesis using False by linarith
    qed
    then show "0 \<le> a" "a \<le> 3" "0 \<le> u" "u \<le> 365" "u = 365 \<Longrightarrow> a = 3 \<and> s = 1460" by auto
  qed
  have "q \<noteq> 24 \<or> c = 3" if "s = 1460" using that q(1) r by auto
  then have l: "u \<le> 364 \<or> (u = 365 \<and> a = 3 \<and> (q \<noteq> 24 \<or> c = 3))" using a(4,5) by linarith
  have "doe = 36524 * c + 1461 * q + 365 * a + u" using q(1) by (simp add: r_def u_def)
  then show ?thesis by (intro that [of c q a u] c \<open>0 \<le> q\<close> \<open>q \<le> 24\<close> a(1-3) l)
qed

lemma doe_bounds:
  fixes doe :: int
  assumes "0 \<le> doe" "doe < 146097"
  defines "yoe \<equiv> (doe - doe div 1460 + doe div 36524 - doe div 146096) div 365"
  shows "0 \<le> yoe \<and> yoe < 400 \<and> 0 \<le> doe - (365 * yoe + yoe div 4 - yoe div 100) \<and>
    doe - (365 * yoe + yoe div 4 - yoe div 100) \<le> 365"
proof -
  obtain c q a u :: int where b: "0 \<le> c" "c \<le> 3" "0 \<le> q" "q \<le> 24" "0 \<le> a" "a \<le> 3" "0 \<le> u"
    and u: "u \<le> 364 \<or> (u = 365 \<and> a = 3 \<and> (q \<noteq> 24 \<or> c = 3))" and doe: "doe = 36524 * c + 1461 * q + 365 * a + u"
    using day_of_era_split [OF assms(1,2)] by metis
  have y: "yoe = 100 * c + 4 * q + a" unfolding yoe_def by (rule year_of_era [OF b u doe])
  have "yoe div 4 = 25 * c + q" using y b by (intro int_div_pos_eq [of _ _ _ a]) auto
  moreover have "yoe div 100 = c" using y b by (intro int_div_pos_eq [of _ _ _ "4 * q + a"]) auto
  ultimately have "doe - (365 * yoe + yoe div 4 - yoe div 100) = u" by (simp add: y doe)
  moreover have "0 \<le> yoe" "yoe < 400" using y b by auto
  ultimately show ?thesis using b(7) u by auto
qed

lemma days_civil_roundtrip:
  "(case civil_from_days z of (y, m, d) \<Rightarrow> days_from_civil y m d) = z"
proof -
  define era where "era = (z + 719468) div 146097"
  define doe where "doe = (z + 719468) mod 146097"
  define yoe where "yoe = (doe - doe div 1460 + doe div 36524 - doe div 146096) div 365"
  define doy where "doy = doe - (365 * yoe + yoe div 4 - yoe div 100)"
  define mp where "mp = (5 * doy + 2) div 153"
  have "0 \<le> doe" "doe < 146097" by (simp_all add: doe_def)
  then have b: "0 \<le> yoe" "yoe < 400" "0 \<le> doy" "doy \<le> 365"
    using doe_bounds [of doe, folded yoe_def, folded doy_def] by blast+
  have mp: "0 \<le> mp" "mp \<le> 11" using b(3,4) by (auto simp: mp_def)
  define m where "m = (if mp < 10 then mp + 3 else mp - 9)"
  have mm: "(if m > 2 then m - 3 else m + 9) = mp" using mp by (auto simp: m_def)
  have c: "civil_from_days z = (yoe + era * 400 + (if m \<le> 2 then 1 else 0), m, doy - (153 * mp + 2) div 5 + 1)"
    unfolding civil_from_days_def Let_def era_def [symmetric] doe_def [symmetric] yoe_def [symmetric]
      doy_def [symmetric] mp_def [symmetric] m_def [symmetric] by (rule refl)
  have y: "(if m \<le> 2 then yoe + era * 400 + (if m \<le> 2 then 1 else 0) - 1
      else yoe + era * 400 + (if m \<le> 2 then 1 else 0)) = yoe + era * 400" by simp
  have "(yoe + era * 400) div 400 = era" using b(1,2) by (intro int_div_pos_eq [of _ _ _ yoe]) auto
  moreover have "(yoe + era * 400) mod 400 = yoe" using b(1,2) by (intro int_mod_pos_eq [of _ _ era]) auto
  ultimately have "days_from_civil (yoe + era * 400 + (if m \<le> 2 then 1 else 0)) m (doy - (153 * mp + 2) div 5 + 1)
      = era * 146097 + doe - 719468"
    unfolding days_from_civil_def Let_def y mm by (simp add: doy_def)
  also have "\<dots> = z" using div_mult_mod_eq [of "z + 719468" 146097] by (simp add: era_def doe_def)
  finally show ?thesis by (simp add: c)
qed

lemma civil_field_bounds:
  assumes "civil_from_days z = (y, m, d)"
  shows "1 \<le> m \<and> m \<le> 12 \<and> 1 \<le> d \<and> d \<le> 31"
proof -
  define doe where "doe = (z + 719468) mod 146097"
  define yoe where "yoe = (doe - doe div 1460 + doe div 36524 - doe div 146096) div 365"
  define doy where "doy = doe - (365 * yoe + yoe div 4 - yoe div 100)"
  define mp where "mp = (5 * doy + 2) div 153"
  have "0 \<le> doe" "doe < 146097" by (simp_all add: doe_def)
  then have doy: "0 \<le> doy" "doy \<le> 365"
    using doe_bounds [of doe, folded yoe_def, folded doy_def] by blast+
  have "m = (if mp < 10 then mp + 3 else mp - 9)" "d = doy - (153 * mp + 2) div 5 + 1"
    using assms unfolding civil_from_days_def Let_def doe_def [symmetric] yoe_def [symmetric]
      doy_def [symmetric] mp_def [symmetric] by simp_all
  moreover have "0 \<le> mp" "mp \<le> 11" using doy by (auto simp: mp_def)
  moreover have "(153 * mp + 2) div 5 \<le> doy \<and> doy \<le> (153 * mp + 2) div 5 + 30"
  proof -
    define k where "k = (153 * mp + 2) div 5"
    have "153 * mp \<le> 5 * doy + 2" "5 * doy + 2 < 153 * mp + 153" by (simp_all add: mp_def)
    moreover have "5 * k \<le> 153 * mp + 2" "153 * mp + 2 < 5 * k + 5" by (simp_all add: k_def)
    ultimately show ?thesis unfolding k_def [symmetric] by linarith
  qed
  ultimately show ?thesis by (auto split: if_splits)
qed

text \<open>Years \<^verbatim>\<open>0000\<close> to \<^verbatim>\<open>9999\<close>, in seconds.\<close>

definition four_digit_year :: "int \<Rightarrow> bool" where
  "four_digit_year s \<longleftrightarrow> -62167219200 \<le> s \<and> s < 253402300800"

lemma civil_year_bounds:
  assumes "civil_from_days z = (y, m, d)" "-719528 \<le> z" "z < 2932897"
  shows "0 \<le> y \<and> y \<le> 9999"
proof -
  have z: "days_from_civil y m d = z" using days_civil_roundtrip [of z] assms(1) by simp
  have f: "1 \<le> m \<and> m \<le> 12 \<and> 1 \<le> d \<and> d \<le> 31" by (rule civil_field_bounds) (fact assms(1))
  define y' where "y' = (if m \<le> 2 then y - 1 else y)"
  define doy where "doy = (153 * (if m > 2 then m - 3 else m + 9) + 2) div 5 + d - 1"
  have eq: "z = y' div 400 * 146097 + (365 * (y' mod 400) + y' mod 400 div 4 - y' mod 400 div 100 + doy) - 719468"
    using z by (simp add: days_from_civil_def Let_def y'_def doy_def)
  have doy: "0 \<le> doy" "doy \<le> 367" "m \<le> 2 \<Longrightarrow> 306 \<le> doy" "m > 2 \<Longrightarrow> doy \<le> 305"
    using f by (auto simp: doy_def)
  define e where "e = y' div 400"
  define r where "r = y' mod 400"
  have r: "0 \<le> r" "r \<le> 399" "y' = 400 * e + r" by (auto simp: e_def r_def)
  have lin: "z = e * 146097 + (365 * r + r div 4 - r div 100 + doy) - 719468" using eq by (simp add: e_def r_def)
  have rd: "0 \<le> r div 4 - r div 100" "r div 4 - r div 100 \<le> 96" using r by auto
  have low: "-1 \<le> y' \<and> (m > 2 \<longrightarrow> 0 \<le> y')"
  proof (rule ccontr)
    assume "\<not> (-1 \<le> y' \<and> (m > 2 \<longrightarrow> 0 \<le> y'))"
    then consider "e \<le> -2" | "e = -1" "r \<le> 398" | "e = -1" "m > 2" using r by linarith
    then show False using lin r rd doy assms(2) by cases linarith+
  qed
  have high: "y' \<le> 9999 \<and> (m \<le> 2 \<longrightarrow> y' \<le> 9998)"
  proof (rule ccontr)
    assume "\<not> (y' \<le> 9999 \<and> (m \<le> 2 \<longrightarrow> y' \<le> 9998))"
    then consider "e \<ge> 25" | "e = 24" "r = 399" "m \<le> 2" using r by linarith
    then show False
    proof cases
      case 1
      then show False using lin r rd doy assms(3) by linarith
    next
      case 2
      then show False using lin doy(3) assms(3) by simp
    qed
  qed
  show ?thesis using low high by (auto simp: y'_def split: if_splits)
qed

subsection \<open>The text and back\<close>

definition timespec_field :: "nat \<Rightarrow> nat \<Rightarrow> string \<Rightarrow> int option" where
  "timespec_field i n s = map_option int (parse_digits 0 (take n (drop i s)))"

definition timespec_seconds :: "string \<Rightarrow> int option" where
  "timespec_seconds s =
     (if length s \<noteq> 15 \<or> drop 14 s \<noteq> ''Z'' then None
      else case (timespec_field 0 4 s, timespec_field 4 2 s, timespec_field 6 2 s,
                 timespec_field 8 2 s, timespec_field 10 2 s, timespec_field 12 2 s) of
        (Some y, Some mo, Some d, Some h, Some mi, Some sec) \<Rightarrow>
          Some (days_from_civil y mo d * 86400 + h * 3600 + mi * 60 + sec)
      | _ \<Rightarrow> None)"

lemma parse_digits_zeros: "parse_digits 0 (replicate k CHR ''0'' @ s) = parse_digits 0 s"
  by (induction k) (simp_all add: is_digit_def digit_val_def)

lemma appendInt_field:
  assumes "0 \<le> x" "x < 10 ^ w" "0 < w"
  shows "length (appendInt x w) = w \<and> parse_digits 0 (appendInt x w) = Some (nat x)"
proof -
  have "nat x < 10 ^ w" using assms by (simp add: nat_less_iff)
  then have "length (FormatUint (nat x)) \<le> w" by (rule length_FormatUint [OF assms(3)])
  then show ?thesis using assms(1)
    by (simp add: appendInt_def Let_def parse_digits_zeros parse_digits_FormatUint)
qed

lemma timespec_format_utc:
  assumes "four_digit_year s"
  shows "timespec_seconds (format_utc s) = Some s"
proof -
  obtain y m d where c: "civil_from_days (s div 86400) = (y, m, d)" by (cases "civil_from_days (s div 86400)") auto
  have days: "days_from_civil y m d = s div 86400" using days_civil_roundtrip [of "s div 86400"] c by simp
  have "-719528 \<le> s div 86400" "s div 86400 < 2932897" using assms by (auto simp: four_digit_year_def)
  then have y: "0 \<le> y \<and> y \<le> 9999" using civil_year_bounds [OF c] by blast
  have md: "1 \<le> m \<and> m \<le> 12 \<and> 1 \<le> d \<and> d \<le> 31" by (rule civil_field_bounds) (fact c)
  define r where "r = s mod 86400"
  have r: "0 \<le> r" "r < 86400" by (simp_all add: r_def)
  have fy: "length (appendInt y 4) = 4 \<and> parse_digits 0 (appendInt y 4) = Some (nat y)"
    using y by (intro appendInt_field) auto
  have fm: "length (appendInt m 2) = 2 \<and> parse_digits 0 (appendInt m 2) = Some (nat m)"
    using md by (intro appendInt_field) auto
  have fd: "length (appendInt d 2) = 2 \<and> parse_digits 0 (appendInt d 2) = Some (nat d)"
    using md by (intro appendInt_field) auto
  have fh: "length (appendInt (r div 3600) 2) = 2 \<and> parse_digits 0 (appendInt (r div 3600) 2) = Some (nat (r div 3600))"
    using r by (intro appendInt_field) (auto simp: pos_imp_zdiv_nonneg_iff)
  have fmi: "length (appendInt (r mod 3600 div 60) 2) = 2 \<and>
      parse_digits 0 (appendInt (r mod 3600 div 60) 2) = Some (nat (r mod 3600 div 60))"
    by (intro appendInt_field) (auto simp: pos_imp_zdiv_nonneg_iff)
  have fs: "length (appendInt (r mod 60) 2) = 2 \<and> parse_digits 0 (appendInt (r mod 60) 2) = Some (nat (r mod 60))"
  proof (intro appendInt_field)
    show "r mod 60 < 10 ^ 2" using pos_mod_bound [of 60 r] by simp
  qed auto
  have sum: "s div 86400 * 86400 + r div 3600 * 3600 + r mod 3600 div 60 * 60 + r mod 60 = s"
  proof -
    have "r mod 60 = r mod 3600 mod 60" by (simp add: mod_mod_cancel)
    then have "r mod 3600 div 60 * 60 + r mod 60 = r mod 3600" by simp
    moreover have "r div 3600 * 3600 + r mod 3600 = r" by simp
    moreover have "s div 86400 * 86400 + r = s" by (simp add: r_def)
    ultimately show ?thesis by linarith
  qed
  have f: "format_utc s = appendInt y 4 @ appendInt m 2 @ appendInt d 2 @ appendInt (r div 3600) 2 @
      appendInt (r mod 3600 div 60) 2 @ appendInt (r mod 60) 2 @ ''Z''"
    by (simp add: format_utc_def c r_def Let_def)
  have nn: "0 \<le> r div 3600" "0 \<le> r mod 3600 div 60" using r by (simp_all add: pos_imp_zdiv_nonneg_iff)
  show ?thesis unfolding f timespec_seconds_def timespec_field_def
    using fy fm fd fh fmi fs y md nn by (simp add: days sum)
qed

end
