(* ===== verification/Store_Access.thy ===== *)
theory Store_Access
  imports Store_Base Go_Time
begin

section \<open>Access requests, grants, snapshots, relay grants, audit (internal/store/store.go)\<close>

text \<open>
  The operations that decide and record access: SSH access grants with their decision record, the
  authorized-keys snapshots an agent installs and acknowledges, relay grants, endpoint discovery,
  and the audit log.
\<close>

subsection \<open>JSON texts of audit events\<close>

text \<open>\<^verbatim>\<open>json.Marshal\<close> of the maps the store writes: keys in sorted order; the values are numbers and
  identifiers from \<^verbatim>\<open>newID\<close>, whose characters need no escape.\<close>

definition json_id :: "string \<Rightarrow> string" where
  "json_id s = [CHR 0x22] @ s @ [CHR 0x22]"

definition json_field :: "string \<Rightarrow> string \<Rightarrow> string" where
  "json_field k v = json_id k @ '':'' @ v"

definition json_object :: "string list \<Rightarrow> string" where
  "json_object fs = ''{'' @ Join fs '','' @ ''}''"

definition approved_json :: "string \<Rightarrow> string \<Rightarrow> int \<Rightarrow> string" where
  "approved_json requestID grantID expiresAt = json_object
     [json_field ''expires_at'' (FormatInt expiresAt), json_field ''grant_id'' (json_id grantID),
      json_field ''request_id'' (json_id requestID)]"

definition relay_json :: "string \<Rightarrow> int \<Rightarrow> string" where
  "relay_json grantID expiresAt = json_object
     [json_field ''expires_at'' (FormatInt expiresAt), json_field ''grant_id'' (json_id grantID)]"

definition denied_json :: string where
  "denied_json = json_object [json_field ''reason'' (json_id ''policy_denied'')]"

subsection \<open>Audit events\<close>

definition audit_tx :: "AuditEvent \<Rightarrow> statement list" where
  "audit_tx e = [sql (insert_audit e)]"

definition RecordPolicyDenied ::
    "'w conn \<Rightarrow> bool \<Rightarrow> string \<Rightarrow> int \<Rightarrow> string \<Rightarrow> string \<Rightarrow> string \<Rightarrow> 'w \<Rightarrow> (unit, 'w) outcome" where
  "RecordPolicyDenied c ok aid now action resourceID userID = locked ok
     (if userID = '''' then fail ActorRequired
      else with_tx c (audit_tx (audit_row aid action ''host'' resourceID userID (Some denied_json) now)) (\<lambda>_. return ()))"

text \<open>\<open>before\<close> and \<open>after\<close> are the JSON texts of the arguments, \<open>None\<close> for nil; a nil argument is
  stored as the empty text.\<close>

definition CreateAuditEvent ::
    "'w conn \<Rightarrow> bool \<Rightarrow> string \<Rightarrow> int \<Rightarrow> string \<Rightarrow> string \<Rightarrow> string \<Rightarrow> string \<Rightarrow> string option \<Rightarrow> string option \<Rightarrow>
     'w \<Rightarrow> (unit, 'w) outcome" where
  "CreateAuditEvent c ok aid now action resource resourceID userID bef aft = locked ok
     (with_tx c (audit_tx \<lparr>ev_ID = aid, ev_Action = action, ev_Resource = resource, ev_ResourceID = resourceID,
        ev_UserID = userID, ev_Before = Some (case bef of None \<Rightarrow> '''' | Some b \<Rightarrow> b),
        ev_After = Some (case aft of None \<Rightarrow> '''' | Some a \<Rightarrow> a), ev_CreatedAt = now\<rparr>) (\<lambda>_. return ()))"

definition ListAuditEvents :: "'w conn \<Rightarrow> bool \<Rightarrow> int \<Rightarrow> 'w \<Rightarrow> (AuditEvent list, 'w) outcome" where
  "ListAuditEvents c ok limit = locked ok
     (let lim = (if limit \<le> 0 then 100 else limit) in
      with_query c (\<lambda>t. return (take (nat lim) (newest_first ev_CreatedAt (audit_events t)))))"

subsection \<open>Access requests and grants\<close>

definition create_request_tx :: "AccessRequest \<Rightarrow> statement list" where
  "create_request_tx r = [sql (insert_row access_requests access_requests_update request_clash r)]"

definition CreateAccessRequest ::
    "'w conn \<Rightarrow> bool \<Rightarrow> string \<Rightarrow> int \<Rightarrow> string \<Rightarrow> string \<Rightarrow> string \<Rightarrow> 'w \<Rightarrow> (AccessRequest, 'w) outcome" where
  "CreateAccessRequest c ok i now userID hostID sshUser = locked ok
     (let r = \<lparr>ar_ID = i, ar_UserID = userID, ar_HostID = hostID, ar_SSHUser = sshUser,
        ar_Status = ''pending'', ar_CreatedAt = now\<rparr> in
      with_tx c (create_request_tx r) (\<lambda>_. return r))"

definition approve_request_tx :: "string \<Rightarrow> statement list" where
  "approve_request_tx i = [sql (update_rows access_requests access_requests_update
     (\<lambda>_ r. ar_ID r = i \<and> ar_Status r = ''pending'') (\<lambda>r. r\<lparr>ar_Status := ''approved''\<rparr>))]"

definition ApproveAccessRequest :: "'w conn \<Rightarrow> bool \<Rightarrow> string \<Rightarrow> 'w \<Rightarrow> (unit, 'w) outcome" where
  "ApproveAccessRequest c ok i = locked ok
     (with_tx c (approve_request_tx i) (\<lambda>n. if n \<noteq> 1 then fail NotPending else return ()))"

definition create_grant_tx :: "AccessGrant \<Rightarrow> statement list" where
  "create_grant_tx g = [sql (insert_when (host_live (ag_HostID g))
     (insert_row access_grants access_grants_update grant_clash g))]"

definition CreateAccessGrant ::
    "'w conn \<Rightarrow> bool \<Rightarrow> string \<Rightarrow> int \<Rightarrow> string \<Rightarrow> string \<Rightarrow> string \<Rightarrow> string \<Rightarrow> int \<Rightarrow> string \<Rightarrow> 'w \<Rightarrow>
     (AccessGrant, 'w) outcome" where
  "CreateAccessGrant c ok i now requestID userID hostID sshUser expiresAt ephemeralKey = locked ok
     (let g = \<lparr>ag_ID = i, ag_RequestID = requestID, ag_UserID = userID, ag_HostID = hostID, ag_SSHUser = sshUser,
        ag_ExpiresAt = expiresAt, ag_EphemeralKey = ephemeralKey, ag_KeyInstalled = False, ag_CreatedAt = now\<rparr> in
      with_tx c (create_grant_tx g) (\<lambda>n. if n \<noteq> 1 then fail HostUnavailable else return g))"

definition issue_access_tx ::
    "string \<Rightarrow> string \<Rightarrow> string \<Rightarrow> int \<Rightarrow> string \<Rightarrow> string \<Rightarrow> string \<Rightarrow> int \<Rightarrow> statement list" where
  "issue_access_tx requestID grantID auditID now userID hostID sshUser expiresAt =
     [sql (insert_when (host_live hostID) (insert_row access_requests access_requests_update request_clash
        \<lparr>ar_ID = requestID, ar_UserID = userID, ar_HostID = hostID, ar_SSHUser = sshUser,
         ar_Status = ''approved'', ar_CreatedAt = now\<rparr>)),
      sql (insert_when (\<lambda>t. list_ex (\<lambda>r. ar_ID r = requestID) (access_requests t))
        (insert_row access_grants access_grants_update grant_clash
          \<lparr>ag_ID = grantID, ag_RequestID = requestID, ag_UserID = userID, ag_HostID = hostID, ag_SSHUser = sshUser,
           ag_ExpiresAt = expiresAt, ag_EphemeralKey = '''', ag_KeyInstalled = False, ag_CreatedAt = now\<rparr>)),
      sql (insert_when (\<lambda>t. list_ex (\<lambda>g. ag_ID g = grantID) (access_grants t))
        (insert_audit (audit_row auditID ''access.approved'' ''host'' hostID userID
          (Some (approved_json requestID grantID expiresAt)) now)))]"

definition IssueSSHAccess ::
    "'w conn \<Rightarrow> bool \<Rightarrow> string \<Rightarrow> string \<Rightarrow> string \<Rightarrow> int \<Rightarrow> string \<Rightarrow> string \<Rightarrow> string \<Rightarrow> int \<Rightarrow> 'w \<Rightarrow>
     (string, 'w) outcome" where
  "IssueSSHAccess c ok requestID grantID auditID now userID hostID sshUser expiresAt = locked ok
     (with_tx c (issue_access_tx requestID grantID auditID now userID hostID sshUser expiresAt)
        (\<lambda>n. if n \<noteq> 3 then fail HostUnavailable else return grantID))"

definition GetAccessGrant :: "'w conn \<Rightarrow> bool \<Rightarrow> string \<Rightarrow> 'w \<Rightarrow> (AccessGrant option, 'w) outcome" where
  "GetAccessGrant c ok i = locked ok (with_query c (\<lambda>t. return (query_row (\<lambda>g. ag_ID g = i) (access_grants t))))"

definition userHistoryLimit :: nat where "userHistoryLimit = 1000"

definition ListAccessGrants :: "'w conn \<Rightarrow> bool \<Rightarrow> 'w \<Rightarrow> (AccessGrant list, 'w) outcome" where
  "ListAccessGrants c ok = locked ok (with_query c (\<lambda>t. return (newest_first ag_CreatedAt (access_grants t))))"

definition ListAccessRequests :: "'w conn \<Rightarrow> bool \<Rightarrow> 'w \<Rightarrow> (AccessRequest list, 'w) outcome" where
  "ListAccessRequests c ok = locked ok (with_query c (\<lambda>t. return (newest_first ar_CreatedAt (access_requests t))))"

definition ListUserAccessGrants :: "'w conn \<Rightarrow> bool \<Rightarrow> string \<Rightarrow> 'w \<Rightarrow> (AccessGrant list, 'w) outcome" where
  "ListUserAccessGrants c ok userID = locked ok (with_query c (\<lambda>t. return (take userHistoryLimit
     (newest_first ag_CreatedAt (filter (\<lambda>g. ag_UserID g = userID) (access_grants t))))))"

definition ListUserAccessRequests :: "'w conn \<Rightarrow> bool \<Rightarrow> string \<Rightarrow> 'w \<Rightarrow> (AccessRequest list, 'w) outcome" where
  "ListUserAccessRequests c ok userID = locked ok (with_query c (\<lambda>t. return (take userHistoryLimit
     (newest_first ar_CreatedAt (filter (\<lambda>r. ar_UserID r = userID) (access_requests t))))))"

subsection \<open>Authorized-keys snapshots\<close>

record AuthorizedKeyEntry =
  ak_Key :: string
  ak_ExpiresAt :: int

definition authorized_key_line :: "AuthorizedKeyEntry \<Rightarrow> string" where
  "authorized_key_line e =
     ''expiry-time='' @ [CHR 0x22] @ format_utc (ak_ExpiresAt e) @ [CHR 0x22] @ '' '' @ ak_Key e"

definition FormatAuthorizedKeys :: "AuthorizedKeyEntry list \<Rightarrow> string list" where
  "FormatAuthorizedKeys entries = map authorized_key_line entries"

definition MaxAuthorizedKeysBodyBytes :: nat where
  "MaxAuthorizedKeysBodyBytes = 1048576"

definition with_newline :: "string \<Rightarrow> string" where
  "with_newline body = (if body \<noteq> '''' then body @ [CHR 0x0A] else body)"

definition within_budget :: "string \<Rightarrow> store_error + string" where
  "within_budget body = (if length body > MaxAuthorizedKeysBodyBytes then Inl SnapshotTooLarge else Inr body)"

definition renderAuthorizedKeysBody :: "AuthorizedKeyEntry list \<Rightarrow> store_error + string" where
  "renderAuthorizedKeysBody entries = within_budget (with_newline (Join (FormatAuthorizedKeys entries) [CHR 0x0A]))"

text \<open>The grants of a host and account that are live at \<open>now\<close>: one row per pair of a live host row
  and a live device row.\<close>

definition live_grant_rows :: "string \<Rightarrow> string \<Rightarrow> int \<Rightarrow> tables \<Rightarrow> AccessGrant list" where
  "live_grant_rows hostID sshUser now t =
     [g. g \<leftarrow> access_grants t, h \<leftarrow> hosts t, d \<leftarrow> devices t,
         h_ID h = ag_HostID g \<and> live_pair h d \<and> ag_HostID g = hostID \<and> ag_SSHUser g = sshUser \<and> ag_ExpiresAt g > now]"

text \<open>\<^verbatim>\<open>JOIN ssh_keys k ON k.user_id = g.user_id\<close>.\<close>

definition live_key_rows :: "string \<Rightarrow> string \<Rightarrow> int \<Rightarrow> tables \<Rightarrow> (string \<times> int) list" where
  "live_key_rows hostID sshUser now t =
     [(k_PublicKey k, ag_ExpiresAt g). g \<leftarrow> live_grant_rows hostID sshUser now t, k \<leftarrow> ssh_keys t, k_UserID k = ag_UserID g]"

text \<open>\<^verbatim>\<open>SELECT k.public_key, MAX(g.expires_at) ... GROUP BY k.public_key ORDER BY k.public_key\<close>.\<close>

definition key_entries :: "(string \<times> int) list \<Rightarrow> AuthorizedKeyEntry list" where
  "key_entries rows = map (\<lambda>k. \<lparr>ak_Key = k, ak_ExpiresAt = foldr max (map snd (filter (\<lambda>r. fst r = k) rows))
       (snd (hd (filter (\<lambda>r. fst r = k) rows)))\<rparr>)
     (sort (remdups (map fst rows)))"

definition authorizedKeysSnapshotForHost ::
    "'w conn \<Rightarrow> int \<Rightarrow> int \<Rightarrow> string \<Rightarrow> string \<Rightarrow>
     (AuthorizedKeyEntry list \<Rightarrow> string list \<Rightarrow> 'w \<Rightarrow> ('a, 'w) outcome) \<Rightarrow> 'w \<Rightarrow> ('a, 'w) outcome" where
  "authorizedKeysSnapshotForHost c now1 now2 hostID sshUser k =
     with_query c (\<lambda>t. let entries = key_entries (live_key_rows hostID sshUser now1 t) in
       with_query c (\<lambda>t'. let grants = sort (remdups (map ag_ID (live_grant_rows hostID sshUser now2 t'))) in
         k entries grants))"

definition AuthorizedKeysSnapshotForHost ::
    "'w conn \<Rightarrow> bool \<Rightarrow> int \<Rightarrow> int \<Rightarrow> string \<Rightarrow> string \<Rightarrow> 'w \<Rightarrow> (AuthorizedKeyEntry list \<times> string list, 'w) outcome" where
  "AuthorizedKeysSnapshotForHost c ok now1 now2 hostID sshUser = locked ok
     (authorizedKeysSnapshotForHost c now1 now2 hostID sshUser (\<lambda>entries grants. return (entries, grants)))"

definition AuthorizedKeysForHost ::
    "'w conn \<Rightarrow> bool \<Rightarrow> int \<Rightarrow> int \<Rightarrow> string \<Rightarrow> string \<Rightarrow> 'w \<Rightarrow> (AuthorizedKeyEntry list, 'w) outcome" where
  "AuthorizedKeysForHost c ok now1 now2 hostID sshUser = locked ok
     (authorizedKeysSnapshotForHost c now1 now2 hostID sshUser (\<lambda>entries grants. return entries))"

definition snapshotMarker :: "(string \<Rightarrow> string) \<Rightarrow> string list \<Rightarrow> string" where
  "snapshotMarker hashSecret grants = ''snapshot:'' @ hashSecret (Join grants [CHR 0x0A])"

definition sgrant :: "string \<Rightarrow> string \<Rightarrow> string \<Rightarrow> snapshot_grant" where
  "sgrant hostID sshUser g = \<lparr>sg_HostID = hostID, sg_SSHUser = sshUser, sg_GrantID = g\<rparr>"

definition insert_sgrant :: "string \<Rightarrow> string \<Rightarrow> string \<Rightarrow> sql_fun" where
  "insert_sgrant hostID sshUser g =
     insert_row authorized_keys_snapshot_grants authorized_keys_snapshot_grants_update sgrant_clash (sgrant hostID sshUser g)"

definition bump_snapshot :: "string \<Rightarrow> string \<Rightarrow> string \<Rightarrow> string \<Rightarrow> tables \<Rightarrow> snapshot_row \<Rightarrow> snapshot_row" where
  "bump_snapshot hostID sshUser digest marker t x = x\<lparr>
     sn_Generation := (if sn_Digest x \<noteq> digest \<or>
        \<not> list_ex (\<lambda>g. sg_HostID g = hostID \<and> sg_SSHUser g = sshUser \<and> sg_GrantID g = marker) (authorized_keys_snapshot_grants t)
        then sn_Generation x + 1 else sn_Generation x),
     sn_Digest := digest\<rparr>"

definition publish_tx :: "string \<Rightarrow> string \<Rightarrow> string \<Rightarrow> string \<Rightarrow> string list \<Rightarrow> statement list" where
  "publish_tx hostID sshUser digest marker grants =
     [sql (upsert_row authorized_keys_snapshots authorized_keys_snapshots_update snapshot_clash
        \<lparr>sn_HostID = hostID, sn_SSHUser = sshUser, sn_Generation = 1, sn_Digest = digest\<rparr>
        (bump_snapshot hostID sshUser digest marker)),
      sql (delete_rows authorized_keys_snapshot_grants authorized_keys_snapshot_grants_update
        (\<lambda>_ g. sg_HostID g = hostID \<and> sg_SSHUser g = sshUser)),
      sql (insert_sgrant hostID sshUser marker)] @
     map (\<lambda>g. sql (insert_sgrant hostID sshUser g)) grants"

definition publishAuthorizedKeysGeneration ::
    "'w conn \<Rightarrow> (string \<Rightarrow> string) \<Rightarrow> string \<Rightarrow> string \<Rightarrow> string \<Rightarrow> string list \<Rightarrow> 'w \<Rightarrow> (int, 'w) outcome" where
  "publishAuthorizedKeysGeneration c hashSecret hostID sshUser digest grants =
     with_tx c (publish_tx hostID sshUser digest (snapshotMarker hashSecret grants) grants)
       (\<lambda>_. with_query c (\<lambda>t.
          case query_row (\<lambda>r. sn_HostID r = hostID \<and> sn_SSHUser r = sshUser \<and> sn_Digest r = digest) (authorized_keys_snapshots t) of
            None \<Rightarrow> fail NoRows
          | Some r \<Rightarrow> return (sn_Generation r)))"

definition AuthorizedKeysGeneration ::
    "'w conn \<Rightarrow> (string \<Rightarrow> string) \<Rightarrow> bool \<Rightarrow> string \<Rightarrow> string \<Rightarrow> string \<Rightarrow> string list \<Rightarrow> 'w \<Rightarrow> (int, 'w) outcome" where
  "AuthorizedKeysGeneration c hashSecret ok hostID sshUser digest grants = locked ok
     (publishAuthorizedKeysGeneration c hashSecret hostID sshUser digest grants)"

definition PublishAuthorizedKeysSnapshot ::
    "'w conn \<Rightarrow> (string \<Rightarrow> string) \<Rightarrow> bool \<Rightarrow> int \<Rightarrow> int \<Rightarrow> string \<Rightarrow> string \<Rightarrow> 'w \<Rightarrow> (string \<times> string \<times> int, 'w) outcome" where
  "PublishAuthorizedKeysSnapshot c hashSecret ok now1 now2 hostID sshUser = locked ok
     (authorizedKeysSnapshotForHost c now1 now2 hostID sshUser (\<lambda>entries grants.
        case renderAuthorizedKeysBody entries of
          Inl e \<Rightarrow> fail e
        | Inr body \<Rightarrow> map_result (\<lambda>generation. (body, hashSecret body, generation))
            (publishAuthorizedKeysGeneration c hashSecret hostID sshUser (hashSecret body) grants)))"

text \<open>\<^verbatim>\<open>LIKE 'prefix%'\<close>, which ignores the case of ASCII letters.\<close>

definition ascii_lower :: "char \<Rightarrow> char" where
  "ascii_lower ch = (if is_upper ch then char_of (of_char ch + 32 :: nat) else ch)"

definition like_prefix :: "string \<Rightarrow> string \<Rightarrow> bool" where
  "like_prefix p s = HasPrefix (map ascii_lower s) (map ascii_lower p)"

definition acknowledge_tx :: "int \<Rightarrow> string \<Rightarrow> string \<Rightarrow> int \<Rightarrow> string \<Rightarrow> statement list" where
  "acknowledge_tx now hostID sshUser generation digest =
     [sql (update_rows authorized_keys_snapshots authorized_keys_snapshots_update
        (\<lambda>t r. sn_HostID r = hostID \<and> sn_SSHUser r = sshUser \<and> sn_Generation r = generation \<and> sn_Digest r = digest \<and>
           list_ex (\<lambda>g. sg_HostID g = hostID \<and> sg_SSHUser g = sshUser \<and> like_prefix ''snapshot:'' (sg_GrantID g))
             (authorized_keys_snapshot_grants t))
        (\<lambda>r. r)),
      sql (update_rows access_grants access_grants_update
        (\<lambda>t g. list_ex (\<lambda>s. sg_HostID s = hostID \<and> sg_SSHUser s = sshUser \<and> sg_GrantID s = ag_ID g)
             (authorized_keys_snapshot_grants t) \<and>
           ag_HostID g = hostID \<and> ag_SSHUser g = sshUser \<and> ag_ExpiresAt g > now \<and>
           list_ex (\<lambda>k. k_UserID k = ag_UserID g) (ssh_keys t) \<and>
           list_ex (\<lambda>r. sn_HostID r = hostID \<and> sn_SSHUser r = sshUser \<and> sn_Generation r = generation \<and> sn_Digest r = digest)
             (authorized_keys_snapshots t))
        (\<lambda>g. g\<lparr>ag_KeyInstalled := True\<rparr>))]"

definition AcknowledgeAuthorizedKeys ::
    "'w conn \<Rightarrow> bool \<Rightarrow> int \<Rightarrow> string \<Rightarrow> string \<Rightarrow> int \<Rightarrow> string \<Rightarrow> 'w \<Rightarrow> (unit, 'w) outcome" where
  "AcknowledgeAuthorizedKeys c ok now hostID sshUser generation digest = locked ok
     (if generation < 1 \<or> length digest \<noteq> 64 then fail InvalidAck
      else with_tx c (acknowledge_tx now hostID sshUser generation digest)
        (\<lambda>n. if n < 1 then fail AckMismatch else return ()))"

subsection \<open>Endpoint discovery and relay grants\<close>

definition discovery_row :: "string \<Rightarrow> string list \<Rightarrow> string list \<Rightarrow> int \<Rightarrow> EndpointDiscovery" where
  "discovery_row hostID addrs relays now =
     \<lparr>ed_HostID = hostID, ed_DirectAddresses = addrs, ed_RelayURLs = relays, ed_UpdatedAt = now\<rparr>"

definition upsert_discovery :: "EndpointDiscovery \<Rightarrow> sql_fun" where
  "upsert_discovery r = upsert_row endpoint_discovery endpoint_discovery_update discovery_clash r
     (\<lambda>_ x. x\<lparr>ed_DirectAddresses := ed_DirectAddresses r, ed_RelayURLs := ed_RelayURLs r, ed_UpdatedAt := ed_UpdatedAt r\<rparr>)"

definition UpdateEndpointDiscovery ::
    "'w conn \<Rightarrow> bool \<Rightarrow> int \<Rightarrow> string \<Rightarrow> string list \<Rightarrow> string list \<Rightarrow> 'w \<Rightarrow> (unit, 'w) outcome" where
  "UpdateEndpointDiscovery c ok now hostID directAddresses relayURLs = locked ok
     (with_tx c [sql (upsert_discovery (discovery_row hostID directAddresses relayURLs now))] (\<lambda>_. return ()))"

definition GetEndpointDiscovery :: "'w conn \<Rightarrow> bool \<Rightarrow> string \<Rightarrow> 'w \<Rightarrow> (EndpointDiscovery option, 'w) outcome" where
  "GetEndpointDiscovery c ok hostID = locked ok (with_query c (\<lambda>t.
     return (query_row (\<lambda>d. ed_HostID d = hostID \<and> host_live (ed_HostID d) t) (endpoint_discovery t))))"

definition insert_relay :: "RelayAccessGrant \<Rightarrow> sql_fun" where
  "insert_relay g = insert_when (host_live (rg_HostID g)) (insert_row relay_access_grants relay_access_grants_update relay_clash g)"

definition relay_audit :: "string \<Rightarrow> AuditEvent \<Rightarrow> sql_fun" where
  "relay_audit i e = insert_when (\<lambda>t. list_ex (\<lambda>g. rg_ID g = i) (relay_access_grants t)) (insert_audit e)"

definition relay_row :: "string \<Rightarrow> string \<Rightarrow> string \<Rightarrow> int \<Rightarrow> int \<Rightarrow> RelayAccessGrant" where
  "relay_row i hostID endpointID now ttlSeconds = \<lparr>rg_ID = i, rg_HostID = hostID,
     rg_ClientEndpointID = endpointID, rg_ExpiresAt = now + ttlSeconds, rg_CreatedAt = now\<rparr>"

definition create_relay_tx :: "string \<Rightarrow> string \<Rightarrow> int \<Rightarrow> string \<Rightarrow> string \<Rightarrow> string \<Rightarrow> int \<Rightarrow> statement list" where
  "create_relay_tx i auditID now hostID clientEndpointID userID ttlSeconds =
     [sql (insert_relay (relay_row i hostID clientEndpointID now ttlSeconds)),
      sql (relay_audit i (audit_row auditID ''relay.grant.created'' ''host'' hostID userID
        (Some (relay_json i (now + ttlSeconds))) now))]"

definition CreateRelayAccessGrant ::
    "'w conn \<Rightarrow> bool \<Rightarrow> string \<Rightarrow> string \<Rightarrow> int \<Rightarrow> string \<Rightarrow> string \<Rightarrow> string \<Rightarrow> int \<Rightarrow> 'w \<Rightarrow> (RelayAccessGrant, 'w) outcome" where
  "CreateRelayAccessGrant c ok i auditID now hostID clientEndpointID userID ttlSeconds = locked ok
     (with_tx c (create_relay_tx i auditID now hostID clientEndpointID userID ttlSeconds)
        (\<lambda>n. if n \<noteq> 2 then fail HostUnavailable else return (relay_row i hostID clientEndpointID now ttlSeconds)))"

definition renew_relay_tx :: "string \<Rightarrow> string \<Rightarrow> int \<Rightarrow> string \<Rightarrow> string \<Rightarrow> string \<Rightarrow> int \<Rightarrow> statement list" where
  "renew_relay_tx i auditID now hostID endpointID actorID ttlSeconds =
     [sql (delete_rows relay_access_grants relay_access_grants_update
        (\<lambda>t g. rg_HostID g = hostID \<and> rg_ClientEndpointID g = endpointID \<and> host_live hostID t)),
      sql (insert_relay (relay_row i hostID endpointID now ttlSeconds)),
      sql (relay_audit i (audit_row auditID ''relay.grant.renewed'' ''host'' hostID actorID
        (Some (relay_json i (now + ttlSeconds))) now))]"

definition RenewRelayAccessGrant ::
    "'w conn \<Rightarrow> bool \<Rightarrow> string \<Rightarrow> string \<Rightarrow> int \<Rightarrow> string \<Rightarrow> string \<Rightarrow> string \<Rightarrow> int \<Rightarrow> 'w \<Rightarrow> (RelayAccessGrant, 'w) outcome" where
  "RenewRelayAccessGrant c ok i auditID now hostID endpointID actorID ttlSeconds = locked ok
     (with_tx c (renew_relay_tx i auditID now hostID endpointID actorID ttlSeconds)
        (\<lambda>n. if n < 2 then fail HostUnavailable else return (relay_row i hostID endpointID now ttlSeconds)))"

text \<open>The rows \<^verbatim>\<open>SELECT COUNT(*)\<close> counts: one per grant and pair of a live host row and a live device row.\<close>

definition relay_rows :: "string \<Rightarrow> int \<Rightarrow> tables \<Rightarrow> RelayAccessGrant list" where
  "relay_rows endpointID now t =
     [g. g \<leftarrow> relay_access_grants t, h \<leftarrow> hosts t, d \<leftarrow> devices t,
         h_ID h = rg_HostID g \<and> live_pair h d \<and> rg_ClientEndpointID g = endpointID \<and> rg_ExpiresAt g > now]"

definition RelayEndpointAllowed :: "'w conn \<Rightarrow> bool \<Rightarrow> int \<Rightarrow> string \<Rightarrow> 'w \<Rightarrow> (bool, 'w) outcome" where
  "RelayEndpointAllowed c ok now endpointID = locked ok
     (with_query c (\<lambda>t. return (length (relay_rows endpointID now t) > 0)))"

end
