(* ===== verification/Store_Hosts.thy ===== *)
theory Store_Hosts
  imports Store_Base
begin

section \<open>Hosts, policies, SSH keys, sessions (internal/store/store.go)\<close>

text \<open>
  The operations on the administrator's objects and on revoked sessions.  Each operation has a
  definition of the transaction it submits (\<open>..._tx\<close>) and one of the whole method.
\<close>

record NewHost =
  nh_Name :: string
  nh_EndpointID :: string
  nh_SSHUser :: string
  nh_Tags :: go_map
  nh_SSHPort :: uint16
  nh_Status :: string
  nh_Owner :: string
  nh_LastSeen :: "int option"

record NewPolicy =
  np_Name :: string
  np_Principal :: string
  np_HostSelector :: string
  np_SSHUsers :: go_slice
  np_ExpiresAt :: "int option"

subsection \<open>Sessions\<close>

definition sessionRevocationRetention :: int where
  "sessionRevocationRetention = 600"

definition sessionRevocationCleanupCutoff :: "int \<Rightarrow> int" where
  "sessionRevocationCleanupCutoff now = now - sessionRevocationRetention"

definition revoke_session_tx :: "string \<Rightarrow> int \<Rightarrow> statement list" where
  "revoke_session_tx cookieHash expiresAt =
     [sql (replace_row revoked_sessions revoked_sessions_update session_clash
        \<lparr>rs_CookieHash = cookieHash, rs_ExpiresAt = expiresAt\<rparr>)]"

text \<open>\<^verbatim>\<open>DELETE ... WHERE cookie_hash IN (SELECT ... WHERE expires_at <= ? ORDER BY expires_at LIMIT 100)\<close>.\<close>

definition expired_sessions :: "int \<Rightarrow> tables \<Rightarrow> string list" where
  "expired_sessions cutoff t =
     map rs_CookieHash (take 100 (sort_key rs_ExpiresAt
       (filter (\<lambda>r. rs_ExpiresAt r \<le> cutoff) (revoked_sessions t))))"

definition cleanup_sessions_tx :: "int \<Rightarrow> statement list" where
  "cleanup_sessions_tx cutoff =
     [sql (delete_rows revoked_sessions revoked_sessions_update
        (\<lambda>t r. rs_CookieHash r \<in> set (expired_sessions cutoff t)))]"

definition RevokeSession ::
    "'w conn \<Rightarrow> (string \<Rightarrow> string) \<Rightarrow> bool \<Rightarrow> int \<Rightarrow> int \<Rightarrow> string \<Rightarrow> int \<Rightarrow> 'w \<Rightarrow> (unit, 'w) outcome" where
  "RevokeSession c hashSecret ok now now2 cookie expiresAt =
     (if cookie = '''' \<or> expiresAt \<le> now then fail InvalidRevocation
      else locked ok (with_tx c (revoke_session_tx (hashSecret cookie) expiresAt) (\<lambda>_ w.
        let r = c_exec c (cleanup_sessions_tx (sessionRevocationCleanupCutoff now2)) w in return () (snd r))))"

definition SessionRevoked ::
    "'w conn \<Rightarrow> (string \<Rightarrow> string) \<Rightarrow> int \<Rightarrow> string \<Rightarrow> 'w \<Rightarrow> (bool, 'w) outcome" where
  "SessionRevoked c hashSecret now cookie =
     (if cookie = '''' then return False
      else with_query c (\<lambda>t. return
        (length (filter (\<lambda>r. rs_CookieHash r = hashSecret cookie \<and> rs_ExpiresAt r > now) (revoked_sessions t)) = 1)))"

subsection \<open>Hosts\<close>

definition create_host_tx :: "string \<Rightarrow> string \<Rightarrow> int \<Rightarrow> NewHost \<Rightarrow> string \<Rightarrow> statement list" where
  "create_host_tx i aid now h actor =
     [sql (insert_row hosts hosts_update host_clash
        \<lparr>h_ID = i, h_Name = nh_Name h, h_EndpointID = nh_EndpointID h, h_SSHUser = nh_SSHUser h,
         h_Tags = nh_Tags h, h_SSHPort = nh_SSHPort h, h_Status = nh_Status h, h_Owner = nh_Owner h,
         h_LastSeen = nh_LastSeen h, h_created_at = now, h_updated_at = now\<rparr>),
      sql (insert_audit (audit_row aid ''host.created'' ''host'' i actor None now))]"

definition CreateHost ::
    "'w conn \<Rightarrow> bool \<Rightarrow> string \<Rightarrow> string \<Rightarrow> int \<Rightarrow> NewHost \<Rightarrow> string \<Rightarrow> 'w \<Rightarrow> (Host, 'w) outcome" where
  "CreateHost c ok i aid now h0 actor = locked ok
     (if actor = '''' then fail ActorRequired
      else let h1 = (if nh_SSHUser h0 = '''' then h0\<lparr>nh_SSHUser := ''root''\<rparr> else h0) in
        if \<not> ValidHostName (nh_Name h1) then fail InvalidHostName
        else if \<not> ValidSSHUser (nh_SSHUser h1) then fail InvalidSSHUser_store
        else let h2 = (if nh_SSHPort h1 = 0 then h1\<lparr>nh_SSHPort := 22\<rparr> else h1);
                 h = (if nh_Status h2 = '''' then h2\<lparr>nh_Status := ''unknown''\<rparr> else h2) in
          with_tx c (create_host_tx i aid now h actor) (\<lambda>_. return
            \<lparr>h_ID = i, h_Name = nh_Name h, h_EndpointID = nh_EndpointID h, h_SSHUser = nh_SSHUser h,
             h_Tags = nh_Tags h, h_SSHPort = nh_SSHPort h, h_Status = nh_Status h, h_Owner = nh_Owner h,
             h_LastSeen = nh_LastSeen h\<rparr>))"

definition host_of_row :: "host_row \<Rightarrow> Host" where
  "host_of_row r = Host.truncate r"

definition ListHosts :: "'w conn \<Rightarrow> bool \<Rightarrow> 'w \<Rightarrow> (Host list, 'w) outcome" where
  "ListHosts c ok = locked ok (with_query c (\<lambda>t. return (map host_of_row (sort_key h_Name (hosts t)))))"

definition GetHost :: "'w conn \<Rightarrow> bool \<Rightarrow> string \<Rightarrow> 'w \<Rightarrow> (Host option, 'w) outcome" where
  "GetHost c ok i = locked ok (with_query c (\<lambda>t.
     return (map_option host_of_row (query_row (\<lambda>r. h_ID r = i) (hosts t)))))"

text \<open>The \<^verbatim>\<open>changed\<close> condition: some column differs from the submitted value.\<close>

definition host_changed :: "string \<Rightarrow> NewHost \<Rightarrow> host_row \<Rightarrow> bool" where
  "host_changed i h r \<longleftrightarrow> h_ID r = i \<and>
     (h_Name r \<noteq> nh_Name h \<or> h_EndpointID r \<noteq> nh_EndpointID h \<or> h_SSHUser r \<noteq> nh_SSHUser h \<or>
      h_Tags r \<noteq> nh_Tags h \<or> h_SSHPort r \<noteq> nh_SSHPort h \<or> h_Status r \<noteq> nh_Status h \<or>
      h_Owner r \<noteq> nh_Owner h \<or> h_LastSeen r \<noteq> nh_LastSeen h)"

definition set_host :: "NewHost \<Rightarrow> int \<Rightarrow> host_row \<Rightarrow> host_row" where
  "set_host h now r = r\<lparr>h_Name := nh_Name h, h_EndpointID := nh_EndpointID h, h_SSHUser := nh_SSHUser h,
     h_Tags := nh_Tags h, h_SSHPort := nh_SSHPort h, h_Status := nh_Status h, h_Owner := nh_Owner h,
     h_LastSeen := nh_LastSeen h, h_updated_at := now\<rparr>"

definition update_host_tx :: "string \<Rightarrow> int \<Rightarrow> string \<Rightarrow> NewHost \<Rightarrow> string \<Rightarrow> statement list" where
  "update_host_tx aid now i h actor =
     [sql (insert_for hosts (host_changed i h)
        (insert_audit (audit_row aid ''host.updated'' ''host'' i actor None now))),
      sql (update_key_rows hosts hosts_update host_clash (\<lambda>_. host_changed i h) (set_host h now))]"

definition UpdateHost ::
    "'w conn \<Rightarrow> bool \<Rightarrow> string \<Rightarrow> int \<Rightarrow> string \<Rightarrow> NewHost \<Rightarrow> string \<Rightarrow> 'w \<Rightarrow> (unit, 'w) outcome" where
  "UpdateHost c ok aid now i h actor = locked ok
     (if actor = '''' then fail ActorRequired
      else if \<not> ValidHostName (nh_Name h) then fail InvalidHostName
      else if \<not> ValidSSHUser (nh_SSHUser h) then fail InvalidSSHUser_store
      else with_tx c (update_host_tx aid now i h actor) (\<lambda>_. return ()))"

definition delete_host_tx :: "string \<Rightarrow> int \<Rightarrow> string \<Rightarrow> string \<Rightarrow> statement list" where
  "delete_host_tx aid now i actor =
     [sql (insert_for hosts (\<lambda>r. h_ID r = i)
        (insert_audit (audit_row aid ''host.deleted'' ''host'' i actor None now))),
      sql (delete_rows authorized_keys_snapshot_grants authorized_keys_snapshot_grants_update (\<lambda>_ r. sg_HostID r = i)),
      sql (delete_rows authorized_keys_snapshots authorized_keys_snapshots_update (\<lambda>_ r. sn_HostID r = i)),
      sql (delete_rows access_grants access_grants_update (\<lambda>_ r. ag_HostID r = i)),
      sql (delete_rows relay_access_grants relay_access_grants_update (\<lambda>_ r. rg_HostID r = i)),
      sql (delete_rows endpoint_discovery endpoint_discovery_update (\<lambda>_ r. ed_HostID r = i)),
      sql (delete_rows devices devices_update (\<lambda>_ r. d_HostID r = i)),
      sql (delete_rows hosts hosts_update (\<lambda>_ r. h_ID r = i))]"

definition DeleteHost ::
    "'w conn \<Rightarrow> bool \<Rightarrow> string \<Rightarrow> int \<Rightarrow> string \<Rightarrow> string \<Rightarrow> 'w \<Rightarrow> (unit, 'w) outcome" where
  "DeleteHost c ok aid now i actor = locked ok
     (if actor = '''' then fail ActorRequired
      else with_tx c (delete_host_tx aid now i actor) (\<lambda>_. return ()))"

subsection \<open>Policies\<close>

definition create_policy_tx :: "string \<Rightarrow> string \<Rightarrow> int \<Rightarrow> NewPolicy \<Rightarrow> string \<Rightarrow> statement list" where
  "create_policy_tx i aid now p actor =
     [sql (insert_row policies policies_update policy_clash
        \<lparr>p_ID = i, p_Name = np_Name p, p_Principal = np_Principal p, p_HostSelector = np_HostSelector p,
         p_SSHUsers = np_SSHUsers p, p_ExpiresAt = np_ExpiresAt p, p_created_at = now, p_updated_at = now\<rparr>),
      sql (insert_audit (audit_row aid ''policy.created'' ''policy'' i actor None now))]"

definition CreatePolicy ::
    "'w conn \<Rightarrow> bool \<Rightarrow> string \<Rightarrow> string \<Rightarrow> int \<Rightarrow> NewPolicy \<Rightarrow> string \<Rightarrow> 'w \<Rightarrow> (Policy, 'w) outcome" where
  "CreatePolicy c ok i aid now p actor = locked ok
     (if actor = '''' then fail ActorRequired
      else with_tx c (create_policy_tx i aid now p actor) (\<lambda>_. return
        \<lparr>p_ID = i, p_Name = np_Name p, p_Principal = np_Principal p, p_HostSelector = np_HostSelector p,
         p_SSHUsers = np_SSHUsers p, p_ExpiresAt = np_ExpiresAt p\<rparr>))"

definition policy_of_row :: "policy_row \<Rightarrow> Policy" where
  "policy_of_row r = Policy.truncate r"

definition ListPolicies :: "'w conn \<Rightarrow> bool \<Rightarrow> 'w \<Rightarrow> (Policy list, 'w) outcome" where
  "ListPolicies c ok = locked ok (with_query c (\<lambda>t. return (map policy_of_row (sort_key p_Name (policies t)))))"

definition policy_changed :: "string \<Rightarrow> NewPolicy \<Rightarrow> policy_row \<Rightarrow> bool" where
  "policy_changed i p r \<longleftrightarrow> p_ID r = i \<and>
     (p_Name r \<noteq> np_Name p \<or> p_Principal r \<noteq> np_Principal p \<or> p_HostSelector r \<noteq> np_HostSelector p \<or>
      p_SSHUsers r \<noteq> np_SSHUsers p \<or> p_ExpiresAt r \<noteq> np_ExpiresAt p)"

definition set_policy :: "NewPolicy \<Rightarrow> int \<Rightarrow> policy_row \<Rightarrow> policy_row" where
  "set_policy p now r = r\<lparr>p_Name := np_Name p, p_Principal := np_Principal p,
     p_HostSelector := np_HostSelector p, p_SSHUsers := np_SSHUsers p, p_ExpiresAt := np_ExpiresAt p,
     p_updated_at := now\<rparr>"

definition update_policy_tx :: "string \<Rightarrow> int \<Rightarrow> string \<Rightarrow> NewPolicy \<Rightarrow> string \<Rightarrow> statement list" where
  "update_policy_tx aid now i p actor =
     [sql (insert_for policies (policy_changed i p)
        (insert_audit (audit_row aid ''policy.updated'' ''policy'' i actor None now))),
      sql (update_rows policies policies_update (\<lambda>_. policy_changed i p) (set_policy p now))]"

definition UpdatePolicy ::
    "'w conn \<Rightarrow> bool \<Rightarrow> string \<Rightarrow> int \<Rightarrow> string \<Rightarrow> NewPolicy \<Rightarrow> string \<Rightarrow> 'w \<Rightarrow> (unit, 'w) outcome" where
  "UpdatePolicy c ok aid now i p actor = locked ok
     (if actor = '''' then fail ActorRequired
      else with_tx c (update_policy_tx aid now i p actor) (\<lambda>_. return ()))"

definition delete_policy_tx :: "string \<Rightarrow> int \<Rightarrow> string \<Rightarrow> string \<Rightarrow> statement list" where
  "delete_policy_tx aid now i actor =
     [sql (insert_for policies (\<lambda>r. p_ID r = i)
        (insert_audit (audit_row aid ''policy.deleted'' ''policy'' i actor None now))),
      sql (delete_rows policies policies_update (\<lambda>_ r. p_ID r = i))]"

definition DeletePolicy ::
    "'w conn \<Rightarrow> bool \<Rightarrow> string \<Rightarrow> int \<Rightarrow> string \<Rightarrow> string \<Rightarrow> 'w \<Rightarrow> (unit, 'w) outcome" where
  "DeletePolicy c ok aid now i actor = locked ok
     (if actor = '''' then fail ActorRequired
      else with_tx c (delete_policy_tx aid now i actor) (\<lambda>_. return ()))"

subsection \<open>SSH keys\<close>

definition create_ssh_key_tx :: "SshKey \<Rightarrow> statement list" where
  "create_ssh_key_tx k = [sql (insert_row ssh_keys ssh_keys_update key_clash k)]"

definition CreateSSHKey ::
    "'w conn \<Rightarrow> bool \<Rightarrow> string \<Rightarrow> int \<Rightarrow> string \<Rightarrow> string \<Rightarrow> string \<Rightarrow> 'w \<Rightarrow> (SshKey, 'w) outcome" where
  "CreateSSHKey c ok i now userID publicKey fingerprint = locked ok
     (let k = \<lparr>k_ID = i, k_UserID = userID, k_PublicKey = publicKey, k_Fingerprint = fingerprint, k_CreatedAt = now\<rparr>
      in with_tx c (create_ssh_key_tx k) (\<lambda>_. return k))"

definition ListSSHKeys :: "'w conn \<Rightarrow> bool \<Rightarrow> string \<Rightarrow> 'w \<Rightarrow> (SshKey list, 'w) outcome" where
  "ListSSHKeys c ok userID = locked ok (with_query c (\<lambda>t.
     return (newest_first k_CreatedAt (filter (\<lambda>k. k_UserID k = userID) (ssh_keys t)))))"

definition delete_ssh_key_tx :: "string \<Rightarrow> statement list" where
  "delete_ssh_key_tx i = [sql (delete_rows ssh_keys ssh_keys_update (\<lambda>_ k. k_ID k = i))]"

definition DeleteSSHKey :: "'w conn \<Rightarrow> bool \<Rightarrow> string \<Rightarrow> 'w \<Rightarrow> (unit, 'w) outcome" where
  "DeleteSSHKey c ok i = locked ok (with_tx c (delete_ssh_key_tx i) (\<lambda>_. return ()))"

definition delete_own_key_tx :: "string \<Rightarrow> string \<Rightarrow> statement list" where
  "delete_own_key_tx i userID =
     [sql (delete_rows ssh_keys ssh_keys_update (\<lambda>_ k. k_ID k = i \<and> k_UserID k = userID))]"

definition delete_any_key_tx :: "string \<Rightarrow> int \<Rightarrow> string \<Rightarrow> string \<Rightarrow> statement list" where
  "delete_any_key_tx aid now i userID =
     [sql (insert_for ssh_keys (\<lambda>k. k_ID k = i)
        (insert_audit (audit_row aid ''ssh_key.deleted'' ''ssh_key'' i userID None now))),
      sql (delete_rows ssh_keys ssh_keys_update (\<lambda>_ k. k_ID k = i))]"

definition DeleteSSHKeyForUser ::
    "'w conn \<Rightarrow> bool \<Rightarrow> string \<Rightarrow> int \<Rightarrow> string \<Rightarrow> string \<Rightarrow> bool \<Rightarrow> 'w \<Rightarrow> (bool, 'w) outcome" where
  "DeleteSSHKeyForUser c ok aid now i userID admin = locked ok
     (if admin then with_tx c (delete_any_key_tx aid now i userID) (\<lambda>n. return (n \<ge> 1))
      else with_tx c (delete_own_key_tx i userID) (\<lambda>n. return (n = 1)))"

end
