(* ===== verification/Store_Devices.thy ===== *)
theory Store_Devices
  imports Store_Access Store_Hosts
begin

section \<open>Manufacturing and devices (internal/store/store.go)\<close>

text \<open>
  Manufacturing tokens and batches, device enrolment, the heartbeat update and device revocation.
  The random token of \<^verbatim>\<open>CreateManufacturingToken\<close> and \<^verbatim>\<open>CreateManufacturingBatch\<close> is an argument.
\<close>

record ManufacturingToken =
  tk_ID :: string
  tk_Token :: string
  tk_BatchID :: string
  tk_ExpiresAt :: "int option"
  tk_CreatedAt :: int

record ManufacturingBatch =
  ba_ID :: string
  ba_Name :: string
  ba_SerialPrefix :: string
  ba_Status :: string
  ba_ExpiresAt :: int
  ba_MaxDevices :: int
  ba_UsedCount :: int
  ba_ClosedAt :: "int option"
  ba_CreatedAt :: int

definition token_of_row :: "token_row \<Rightarrow> ManufacturingToken" where
  "token_of_row r = \<lparr>tk_ID = mt_ID r, tk_Token = '''', tk_BatchID = mt_BatchID r, tk_ExpiresAt = mt_ExpiresAt r,
     tk_CreatedAt = mt_CreatedAt r\<rparr>"

definition batch_of_row :: "batch_row \<Rightarrow> ManufacturingBatch" where
  "batch_of_row r = \<lparr>ba_ID = mb_ID r, ba_Name = mb_Name r, ba_SerialPrefix = mb_SerialPrefix r, ba_Status = mb_Status r,
     ba_ExpiresAt = mb_ExpiresAt r, ba_MaxDevices = mb_MaxDevices r, ba_UsedCount = mb_UsedCount r,
     ba_ClosedAt = mb_ClosedAt r, ba_CreatedAt = mb_CreatedAt r\<rparr>"

subsection \<open>Tokens and batches\<close>

definition insert_token :: "token_row \<Rightarrow> sql_fun" where
  "insert_token = insert_row manufacturing_tokens manufacturing_tokens_update token_clash"

definition batch_open :: "string \<Rightarrow> int \<Rightarrow> tables \<Rightarrow> bool" where
  "batch_open i now t = list_ex (\<lambda>b. mb_ID b = i \<and> mb_Status b = ''open'' \<and> mb_ExpiresAt b > now \<and>
     mb_UsedCount b < mb_MaxDevices b) (manufacturing_batches t)"

definition create_token_tx :: "string \<Rightarrow> int \<Rightarrow> token_row \<Rightarrow> string \<Rightarrow> statement list" where
  "create_token_tx aid now r actor =
     [if mt_BatchID r = '''' then sql (insert_token r)
      else sql_one (insert_when (batch_open (mt_BatchID r) now) (insert_token r)),
      sql (insert_audit (audit_row aid ''manufacturing.token.created'' ''manufacturing_token'' (mt_ID r) actor None now))]"

definition CreateManufacturingToken ::
    "'w conn \<Rightarrow> (string \<Rightarrow> string) \<Rightarrow> bool \<Rightarrow> int \<Rightarrow> string \<Rightarrow> string \<Rightarrow> string \<Rightarrow> string \<Rightarrow> int option \<Rightarrow> string \<Rightarrow> 'w \<Rightarrow>
     (ManufacturingToken, 'w) outcome" where
  "CreateManufacturingToken c hashSecret ok now i token aid batchID expiresAt actor = locked ok
     (if actor = '''' then fail ActorRequired
      else if (case expiresAt of None \<Rightarrow> False | Some e \<Rightarrow> e \<le> now) then fail TokenExpired
      else with_tx c (create_token_tx aid now
             \<lparr>mt_ID = i, mt_TokenHash = hashSecret token, mt_BatchID = batchID, mt_ExpiresAt = expiresAt, mt_CreatedAt = now\<rparr> actor)
        (\<lambda>_. return \<lparr>tk_ID = i, tk_Token = token, tk_BatchID = batchID, tk_ExpiresAt = expiresAt, tk_CreatedAt = now\<rparr>))"

definition ListManufacturingTokens :: "'w conn \<Rightarrow> bool \<Rightarrow> 'w \<Rightarrow> (ManufacturingToken list, 'w) outcome" where
  "ListManufacturingTokens c ok = locked ok (with_query c (\<lambda>t.
     return (map token_of_row (newest_first mt_CreatedAt (manufacturing_tokens t)))))"

definition token_by_hash :: "string \<Rightarrow> tables \<Rightarrow> ManufacturingToken option" where
  "token_by_hash h t = map_option token_of_row (query_row (\<lambda>r. mt_TokenHash r = h) (manufacturing_tokens t))"

definition batch_by_hash :: "string \<Rightarrow> tables \<Rightarrow> ManufacturingBatch option" where
  "batch_by_hash h t = map_option batch_of_row (query_row (\<lambda>r. mb_TokenHash r = h) (manufacturing_batches t))"

definition batch_by_id :: "string \<Rightarrow> tables \<Rightarrow> ManufacturingBatch option" where
  "batch_by_id i t = map_option batch_of_row (query_row (\<lambda>r. mb_ID r = i) (manufacturing_batches t))"

definition GetManufacturingToken ::
    "'w conn \<Rightarrow> (string \<Rightarrow> string) \<Rightarrow> bool \<Rightarrow> string \<Rightarrow> 'w \<Rightarrow> (ManufacturingToken option, 'w) outcome" where
  "GetManufacturingToken c hashSecret ok token = locked ok
     (with_query c (\<lambda>t. return (token_by_hash (hashSecret token) t)))"

definition create_batch_tx :: "string \<Rightarrow> batch_row \<Rightarrow> string \<Rightarrow> statement list" where
  "create_batch_tx aid b actor =
     [sql (insert_row manufacturing_batches manufacturing_batches_update batch_clash b),
      sql (insert_audit (audit_row aid ''manufacturing.batch.created'' ''manufacturing_batch'' (mb_ID b) actor None (mb_CreatedAt b)))]"

definition new_batch :: "string \<Rightarrow> string \<Rightarrow> string \<Rightarrow> string \<Rightarrow> int \<Rightarrow> int \<Rightarrow> int \<Rightarrow> batch_row" where
  "new_batch i name serialPrefix tokenHash expiresAt maxDevices now =
     \<lparr>mb_ID = i, mb_Name = name, mb_SerialPrefix = serialPrefix, mb_TokenHash = tokenHash, mb_Status = ''open'',
      mb_ExpiresAt = expiresAt, mb_MaxDevices = maxDevices, mb_UsedCount = 0, mb_ClosedAt = None, mb_CreatedAt = now\<rparr>"

definition CreateManufacturingBatch ::
    "'w conn \<Rightarrow> (string \<Rightarrow> string) \<Rightarrow> bool \<Rightarrow> int \<Rightarrow> string \<Rightarrow> int \<Rightarrow> string \<Rightarrow> string \<Rightarrow> string \<Rightarrow> string \<Rightarrow> int \<Rightarrow> int \<Rightarrow>
     string \<Rightarrow> 'w \<Rightarrow> (ManufacturingBatch \<times> string, 'w) outcome" where
  "CreateManufacturingBatch c hashSecret ok now1 i now token aid name serialPrefix expiresAt maxDevices actor = locked ok
     (if actor = '''' then fail ActorRequired
      else if name = '''' \<or> serialPrefix = '''' \<or> expiresAt \<le> now1 \<or> maxDevices < 1 \<or> maxDevices > 10000 then fail InvalidBatch
      else if \<not> ValidHostName (serialPrefix @ ''-000001'') then fail InvalidSerialPrefix
      else let b = new_batch i name serialPrefix (hashSecret token) expiresAt maxDevices now in
        with_tx c (create_batch_tx aid b actor) (\<lambda>_. return (batch_of_row b, token)))"

definition ListManufacturingBatches :: "'w conn \<Rightarrow> bool \<Rightarrow> 'w \<Rightarrow> (ManufacturingBatch list, 'w) outcome" where
  "ListManufacturingBatches c ok = locked ok (with_query c (\<lambda>t.
     return (map batch_of_row (newest_first mb_CreatedAt (manufacturing_batches t)))))"

definition close_batch_tx :: "string \<Rightarrow> int \<Rightarrow> string \<Rightarrow> string \<Rightarrow> statement list" where
  "close_batch_tx aid now i actor =
     [sql (insert_for manufacturing_batches (\<lambda>b. mb_ID b = i \<and> mb_Status b = ''open'')
        (insert_audit (audit_row aid ''manufacturing.batch.closed'' ''manufacturing_batch'' i actor None now))),
      sql (update_rows manufacturing_batches manufacturing_batches_update
        (\<lambda>_ b. mb_ID b = i \<and> mb_Status b = ''open'') (\<lambda>b. b\<lparr>mb_Status := ''closed'', mb_ClosedAt := Some now\<rparr>))]"

definition CloseManufacturingBatch ::
    "'w conn \<Rightarrow> bool \<Rightarrow> string \<Rightarrow> int \<Rightarrow> string \<Rightarrow> string \<Rightarrow> 'w \<Rightarrow> (unit, 'w) outcome" where
  "CloseManufacturingBatch c ok aid now i actor = locked ok
     (if actor = '''' then fail ActorRequired
      else with_tx c (close_batch_tx aid now i actor) (\<lambda>_. return ()))"

subsection \<open>Enrolment\<close>

text \<open>The statement that takes one slot of a batch, and the one that consumes a token.\<close>

definition use_slot :: "int \<Rightarrow> batch_row \<Rightarrow> batch_row" where
  "use_slot now b = b\<lparr>mb_UsedCount := mb_UsedCount b + 1,
     mb_Status := (if mb_UsedCount b + 1 \<ge> mb_MaxDevices b then ''closed'' else mb_Status b),
     mb_ClosedAt := (if mb_UsedCount b + 1 \<ge> mb_MaxDevices b then Some now else mb_ClosedAt b)\<rparr>"

definition consume_batch :: "int \<Rightarrow> string \<Rightarrow> int \<Rightarrow> statement" where
  "consume_batch now i used = sql_one (update_rows manufacturing_batches manufacturing_batches_update
     (\<lambda>_ b. mb_ID b = i \<and> mb_Status b = ''open'' \<and> mb_ExpiresAt b > now \<and> mb_UsedCount b = used \<and>
        mb_UsedCount b < mb_MaxDevices b) (use_slot now))"

definition consume_token :: "int \<Rightarrow> string \<Rightarrow> string \<Rightarrow> statement" where
  "consume_token now i h = sql_one (delete_rows manufacturing_tokens manufacturing_tokens_update
     (\<lambda>_ r. mt_ID r = i \<and> mt_TokenHash r = h \<and> (case mt_ExpiresAt r of None \<Rightarrow> True | Some e \<Rightarrow> e > now)))"

definition enroll_host :: "int \<Rightarrow> string \<Rightarrow> string \<Rightarrow> string \<Rightarrow> string \<Rightarrow> go_map \<Rightarrow> uint16 \<Rightarrow> host_row" where
  "enroll_host now hostID serial endpointID sshUser tags sshPort =
     \<lparr>h_ID = hostID, h_Name = serial, h_EndpointID = endpointID, h_SSHUser = sshUser, h_Tags = tags, h_SSHPort = sshPort,
      h_Status = ''manufactured'', h_Owner = ''manufacturing'', h_LastSeen = None, h_created_at = now, h_updated_at = now\<rparr>"

definition enroll_device_row :: "int \<Rightarrow> string \<Rightarrow> string \<Rightarrow> string \<Rightarrow> string \<Rightarrow> string \<Rightarrow> string \<Rightarrow> string \<Rightarrow> Device" where
  "enroll_device_row now i hostID endpointID fingerprint devicePublicKey serial model =
     \<lparr>d_ID = i, d_HostID = hostID, d_EndpointID = endpointID, d_SSHHostKeyFingerprint = fingerprint,
      d_DevicePublicKey = devicePublicKey, d_State = ''manufactured'', d_SerialNumber = serial, d_Model = model,
      d_EnrolledAt = now, d_LastSeenAt = None\<rparr>"

definition enroll_tx :: "statement list \<Rightarrow> host_row \<Rightarrow> Device \<Rightarrow> statement list" where
  "enroll_tx consume h d = consume @
     [sql_one (insert_row hosts hosts_update host_clash h),
      sql_one (insert_row devices devices_update device_clash d)]"

definition batch_serial :: "string \<Rightarrow> int \<Rightarrow> string" where
  "batch_serial pre n = pre @ ''-'' @ pad6 (nat n)"

text \<open>What the token stands for: the statements that consume it and the serial number, or an error.\<close>

definition enroll_consume ::
    "(string \<Rightarrow> string) \<Rightarrow> int \<Rightarrow> string \<Rightarrow> string \<Rightarrow> ManufacturingToken option \<Rightarrow> ManufacturingBatch option \<Rightarrow>
     store_error + (statement list \<times> string)" where
  "enroll_consume hashSecret now token serialNumber mt batch =
     (case batch of
        Some b \<Rightarrow>
          if ba_Status b \<noteq> ''open'' \<or> ba_ExpiresAt b \<le> now \<or> ba_UsedCount b \<ge> ba_MaxDevices b then Inl BatchClosed
          else let expectedSerial = batch_serial (ba_SerialPrefix b) (ba_UsedCount b + 1) in
            if serialNumber \<noteq> '''' \<and> serialNumber \<noteq> expectedSerial then Inl SerialMismatch
            else Inr (consume_batch now (ba_ID b) (ba_UsedCount b) #
                   (case mt of None \<Rightarrow> [] | Some m \<Rightarrow> [consume_token now (tk_ID m) (hashSecret token)]), expectedSerial)
      | None \<Rightarrow>
          (case mt of
             None \<Rightarrow> Inl InvalidToken
           | Some m \<Rightarrow> if serialNumber = '''' then Inl SerialRequired
                       else Inr ([consume_token now (tk_ID m) (hashSecret token)], serialNumber)))"

definition enroll_commit ::
    "'w conn \<Rightarrow> int \<Rightarrow> string \<Rightarrow> string \<Rightarrow> statement list \<Rightarrow> string \<Rightarrow> string \<Rightarrow> string \<Rightarrow> string \<Rightarrow> string \<Rightarrow> string \<Rightarrow> uint16 \<Rightarrow>
     go_map \<Rightarrow> 'w \<Rightarrow> (Device, 'w) outcome" where
  "enroll_commit c now i hostID consume serial endpointID model fingerprint devicePublicKey sshUser0 sshPort0 tags =
     (if \<not> ValidHostName serial then fail InvalidSerial
      else with_query c (\<lambda>t.
        case query_row (\<lambda>d. d_SerialNumber d = serial) (devices t) of
          Some _ \<Rightarrow> fail SerialEnrolled
        | None \<Rightarrow>
            let sshUser = (if sshUser0 = '''' then ''root'' else sshUser0) in
            if \<not> ValidSSHUser sshUser then fail InvalidSSHUser_store
            else let sshPort = (if sshPort0 = 0 then 22 else sshPort0);
                     d = enroll_device_row now i hostID endpointID fingerprint devicePublicKey serial model in
              with_tx c (enroll_tx consume (enroll_host now hostID serial endpointID sshUser tags sshPort) d)
                (\<lambda>_. return d)))"

definition EnrollDevice ::
    "'w conn \<Rightarrow> (string \<Rightarrow> string) \<Rightarrow> bool \<Rightarrow> int \<Rightarrow> int \<Rightarrow> string \<Rightarrow> string \<Rightarrow> string \<Rightarrow> string \<Rightarrow> string \<Rightarrow> string \<Rightarrow> string \<Rightarrow> string \<Rightarrow>
     string \<Rightarrow> uint16 \<Rightarrow> go_map \<Rightarrow> 'w \<Rightarrow> (Device, 'w) outcome" where
  "EnrollDevice c hashSecret ok now1 now i hostID token endpointID serialNumber model fingerprint devicePublicKey sshUser sshPort tags =
     locked ok
     (if devicePublicKey = '''' then fail DeviceKeyRequired
      else with_query c (\<lambda>t0.
        case query_row (\<lambda>d. d_DevicePublicKey d = devicePublicKey) (devices t0) of
          Some replay \<Rightarrow>
            if fingerprint \<noteq> d_SSHHostKeyFingerprint replay \<or> (serialNumber \<noteq> '''' \<and> serialNumber \<noteq> d_SerialNumber replay)
            then fail DeviceKeyClash else return replay
        | None \<Rightarrow> with_query c (\<lambda>t1.
            let mt = token_by_hash (hashSecret token) t1;
                finish = (\<lambda>batch.
                  if mt = None \<and> batch = None then fail InvalidToken
                  else if (case mt of None \<Rightarrow> False | Some m \<Rightarrow> (case tk_ExpiresAt m of None \<Rightarrow> False | Some e \<Rightarrow> e \<le> now1))
                  then fail TokenExpired
                  else case enroll_consume hashSecret now token serialNumber mt batch of
                    Inl e \<Rightarrow> fail e
                  | Inr (consume, serial) \<Rightarrow>
                      enroll_commit c now i hostID consume serial endpointID model fingerprint devicePublicKey sshUser sshPort tags)
            in case mt of
                 Some m \<Rightarrow>
                   if tk_BatchID m \<noteq> '''' then with_query c (\<lambda>t2.
                     case batch_by_id (tk_BatchID m) t2 of
                       None \<Rightarrow> fail TokenBatchUnavailable
                     | Some b \<Rightarrow> finish (Some b))
                   else finish None
               | None \<Rightarrow> with_query c (\<lambda>t2. finish (batch_by_hash (hashSecret token) t2)))))"

subsection \<open>Devices\<close>

definition ListDevices :: "'w conn \<Rightarrow> bool \<Rightarrow> 'w \<Rightarrow> (Device list, 'w) outcome" where
  "ListDevices c ok = locked ok (with_query c (\<lambda>t. return (newest_first d_EnrolledAt (devices t))))"

definition GetDeviceByHostID :: "'w conn \<Rightarrow> bool \<Rightarrow> string \<Rightarrow> 'w \<Rightarrow> (Device option, 'w) outcome" where
  "GetDeviceByHostID c ok hostID = locked ok (with_query c (\<lambda>t.
     return (query_row (\<lambda>_. True) (newest_first d_EnrolledAt (filter (\<lambda>d. d_HostID d = hostID) (devices t))))))"

definition GetDeviceBySerial :: "'w conn \<Rightarrow> bool \<Rightarrow> string \<Rightarrow> 'w \<Rightarrow> (Device option, 'w) outcome" where
  "GetDeviceBySerial c ok serial = locked ok (with_query c (\<lambda>t.
     return (query_row (\<lambda>d. d_SerialNumber d = serial) (devices t))))"

definition device_active :: "string \<Rightarrow> string \<Rightarrow> tables \<Rightarrow> bool" where
  "device_active i hostID t = list_ex (\<lambda>d. d_ID d = i \<and> d_HostID d = hostID \<and> d_State d \<noteq> ''revoked'') (devices t)"

definition touch_tx ::
    "int \<Rightarrow> string \<Rightarrow> string \<Rightarrow> string \<Rightarrow> string \<Rightarrow> string \<Rightarrow> string list \<Rightarrow> string list \<Rightarrow> statement list" where
  "touch_tx now i hostID endpointID fingerprint status directAddresses relayURLs =
     [sql (update_rows devices devices_update
        (\<lambda>_ d. d_ID d = i \<and> d_HostID d = hostID \<and> d_EndpointID d = endpointID \<and>
           d_SSHHostKeyFingerprint d = fingerprint \<and> d_State d \<noteq> ''revoked'')
        (\<lambda>d. d\<lparr>d_LastSeenAt := Some now\<rparr>)),
      sql (update_rows hosts hosts_update (\<lambda>t h. h_ID h = hostID \<and> device_active i hostID t)
        (\<lambda>h. h\<lparr>h_Status := status, h_LastSeen := Some now, h_updated_at := now\<rparr>)),
      sql (insert_when (device_active i hostID) (upsert_discovery (discovery_row hostID directAddresses relayURLs now)))]"

definition TouchDevice ::
    "'w conn \<Rightarrow> bool \<Rightarrow> int \<Rightarrow> string \<Rightarrow> string \<Rightarrow> string \<Rightarrow> string \<Rightarrow> string \<Rightarrow> string list \<Rightarrow> string list \<Rightarrow> 'w \<Rightarrow> (unit, 'w) outcome" where
  "TouchDevice c ok now i hostID endpointID fingerprint status directAddresses relayURLs = locked ok
     (with_tx c (touch_tx now i hostID endpointID fingerprint status directAddresses relayURLs)
        (\<lambda>n. if n \<noteq> 3 then fail DeviceMismatch else return ()))"

definition revoke_tx :: "string \<Rightarrow> int \<Rightarrow> string \<Rightarrow> string \<Rightarrow> string \<Rightarrow> statement list" where
  "revoke_tx aid now i hostID actor =
     [sql (insert_for devices (\<lambda>d. d_ID d = i \<and> d_State d \<noteq> ''revoked'')
        (insert_audit (audit_row aid ''device.revoked'' ''device'' i actor None now))),
      sql (update_rows devices devices_update (\<lambda>_ d. d_ID d = i \<and> d_State d \<noteq> ''revoked'')
        (\<lambda>d. d\<lparr>d_State := ''revoked'', d_LastSeenAt := Some now\<rparr>)),
      sql (update_rows hosts hosts_update (\<lambda>_ h. h_ID h = hostID)
        (\<lambda>h. h\<lparr>h_Status := ''revoked'', h_LastSeen := Some now, h_updated_at := now\<rparr>)),
      sql (update_rows access_grants access_grants_update (\<lambda>_ g. ag_HostID g = hostID \<and> ag_ExpiresAt g > now)
        (\<lambda>g. g\<lparr>ag_ExpiresAt := now\<rparr>)),
      sql (delete_rows relay_access_grants relay_access_grants_update (\<lambda>_ g. rg_HostID g = hostID))]"

definition DeleteDevice ::
    "'w conn \<Rightarrow> bool \<Rightarrow> string \<Rightarrow> int \<Rightarrow> string \<Rightarrow> string \<Rightarrow> 'w \<Rightarrow> (unit, 'w) outcome" where
  "DeleteDevice c ok aid now i actor = locked ok
     (if actor = '''' then fail ActorRequired
      else with_query c (\<lambda>t.
        case query_row (\<lambda>d. d_ID d = i) (devices t) of
          None \<Rightarrow> fail NoRows
        | Some d \<Rightarrow> if d_State d = ''revoked'' then return ()
                    else with_tx c (revoke_tx aid now i (d_HostID d) actor) (\<lambda>_. return ())))"

end
