(* ===== verification/Store_Machine.thy ===== *)
theory Store_Machine
  imports Store_Devices
begin

section \<open>The store as a state machine\<close>

text \<open>
  \<open>store_tx F\<close> is the set of transactions that the store's methods submit, with what the methods have
  checked before they submit them; \<open>F\<close> restricts the host identifiers that an enrolment draws.
  \<open>store_call F c\<close> is one call of a mutating method.  \<open>store_call_reaches\<close> is the refinement: whatever
  the connection answers, a call moves the tables along transactions of \<open>store_tx F\<close>.  Several nodes
  share the tables, so what holds along every sequence of such transactions holds under every
  interleaving of calls, with decisions made on stale reads included.
\<close>

text \<open>What an enrolment consumes: a token, a slot of a batch, or a slot and the token bound to the batch.\<close>

inductive enroll_consumes :: "int \<Rightarrow> statement list \<Rightarrow> bool" for now where
  by_token: "enroll_consumes now [consume_token now ti th]"
| by_batch: "enroll_consumes now [consume_batch now b used]"
| by_both: "enroll_consumes now [consume_batch now b used, consume_token now ti th]"

lemma enroll_consume_shape:
  "enroll_consume hash now token sn mt batch = Inr (cs, serial) \<Longrightarrow> enroll_consumes now cs"
  by (auto simp: enroll_consume_def Let_def intro: enroll_consumes.intros split: option.splits if_splits)

inductive store_tx :: "(string \<Rightarrow> bool) \<Rightarrow> statement list \<Rightarrow> bool" for F where
  tx_revoke_session: "store_tx F (revoke_session_tx ch e)"
| tx_cleanup_sessions: "store_tx F (cleanup_sessions_tx cutoff)"
| tx_create_host: "actor \<noteq> '''' \<Longrightarrow> ValidHostName (nh_Name h) \<Longrightarrow> ValidSSHUser (nh_SSHUser h) \<Longrightarrow>
    store_tx F (create_host_tx i aid now h actor)"
| tx_update_host: "actor \<noteq> '''' \<Longrightarrow> ValidHostName (nh_Name h) \<Longrightarrow> ValidSSHUser (nh_SSHUser h) \<Longrightarrow>
    store_tx F (update_host_tx aid now i h actor)"
| tx_delete_host: "actor \<noteq> '''' \<Longrightarrow> store_tx F (delete_host_tx aid now i actor)"
| tx_create_policy: "actor \<noteq> '''' \<Longrightarrow> store_tx F (create_policy_tx i aid now p actor)"
| tx_update_policy: "actor \<noteq> '''' \<Longrightarrow> store_tx F (update_policy_tx aid now i p actor)"
| tx_delete_policy: "actor \<noteq> '''' \<Longrightarrow> store_tx F (delete_policy_tx aid now i actor)"
| tx_create_key: "store_tx F (create_ssh_key_tx k)"
| tx_delete_key: "store_tx F (delete_ssh_key_tx i)"
| tx_delete_own_key: "store_tx F (delete_own_key_tx i userID)"
| tx_delete_any_key: "store_tx F (delete_any_key_tx aid now i userID)"
| tx_audit: "store_tx F (audit_tx e)"
| tx_create_request: "store_tx F (create_request_tx r)"
| tx_approve_request: "store_tx F (approve_request_tx i)"
| tx_create_grant: "ag_KeyInstalled g = False \<Longrightarrow> store_tx F (create_grant_tx g)"
| tx_issue_access: "store_tx F (issue_access_tx requestID grantID auditID now userID hostID sshUser expiresAt)"
| tx_publish: "store_tx F (publish_tx hostID sshUser digest marker grants)"
| tx_acknowledge: "1 \<le> generation \<Longrightarrow> store_tx F (acknowledge_tx now hostID sshUser generation digest)"
| tx_discovery: "store_tx F [sql (upsert_discovery r)]"
| tx_create_relay: "store_tx F (create_relay_tx i auditID now hostID endpointID userID ttl)"
| tx_renew_relay: "store_tx F (renew_relay_tx i auditID now hostID endpointID actorID ttl)"
| tx_create_token: "actor \<noteq> '''' \<Longrightarrow> store_tx F (create_token_tx aid now r actor)"
| tx_create_batch: "actor \<noteq> '''' \<Longrightarrow> 1 \<le> maxDevices \<Longrightarrow> maxDevices \<le> 10000 \<Longrightarrow>
    store_tx F (create_batch_tx aid (new_batch i name serialPrefix th e maxDevices now) actor)"
| tx_close_batch: "actor \<noteq> '''' \<Longrightarrow> store_tx F (close_batch_tx aid now i actor)"
| tx_enroll: "F hostID \<Longrightarrow> devicePublicKey \<noteq> '''' \<Longrightarrow> ValidHostName serial \<Longrightarrow> ValidSSHUser sshUser \<Longrightarrow>
    enroll_consumes now consume \<Longrightarrow>
    store_tx F (enroll_tx consume (enroll_host now hostID serial ep sshUser tags port)
      (enroll_device_row now i hostID ep fp devicePublicKey serial model))"
| tx_touch: "store_tx F (touch_tx now i hostID ep fp status addrs relays)"
| tx_revoke: "actor \<noteq> '''' \<Longrightarrow> store_tx F (revoke_tx aid now i hostID actor)"

inductive store_call :: "(string \<Rightarrow> bool) \<Rightarrow> 'w conn \<Rightarrow> 'w \<Rightarrow> 'w \<Rightarrow> bool" for F c where
  call_RevokeSession: "store_call F c w (snd (RevokeSession c hash ok now now2 cookie e w))"
| call_CreateHost: "store_call F c w (snd (CreateHost c ok i aid now h actor w))"
| call_UpdateHost: "store_call F c w (snd (UpdateHost c ok aid now i h actor w))"
| call_DeleteHost: "store_call F c w (snd (DeleteHost c ok aid now i actor w))"
| call_CreatePolicy: "store_call F c w (snd (CreatePolicy c ok i aid now p actor w))"
| call_UpdatePolicy: "store_call F c w (snd (UpdatePolicy c ok aid now i p actor w))"
| call_DeletePolicy: "store_call F c w (snd (DeletePolicy c ok aid now i actor w))"
| call_CreateSSHKey: "store_call F c w (snd (CreateSSHKey c ok i now u pk fp w))"
| call_DeleteSSHKey: "store_call F c w (snd (DeleteSSHKey c ok i w))"
| call_DeleteSSHKeyForUser: "store_call F c w (snd (DeleteSSHKeyForUser c ok aid now i u admin w))"
| call_RecordPolicyDenied: "store_call F c w (snd (RecordPolicyDenied c ok aid now action rid u w))"
| call_CreateAuditEvent: "store_call F c w (snd (CreateAuditEvent c ok aid now action res rid u bef aft w))"
| call_CreateAccessRequest: "store_call F c w (snd (CreateAccessRequest c ok i now u hid su w))"
| call_ApproveAccessRequest: "store_call F c w (snd (ApproveAccessRequest c ok i w))"
| call_CreateAccessGrant: "store_call F c w (snd (CreateAccessGrant c ok i now rid u hid su e ek w))"
| call_IssueSSHAccess: "store_call F c w (snd (IssueSSHAccess c ok rid gid aid now u hid su e w))"
| call_AuthorizedKeysGeneration: "store_call F c w (snd (AuthorizedKeysGeneration c hash ok hid su dg gs w))"
| call_PublishAuthorizedKeysSnapshot: "store_call F c w (snd (PublishAuthorizedKeysSnapshot c hash ok now1 now2 hid su w))"
| call_AcknowledgeAuthorizedKeys: "store_call F c w (snd (AcknowledgeAuthorizedKeys c ok now hid su gen dg w))"
| call_UpdateEndpointDiscovery: "store_call F c w (snd (UpdateEndpointDiscovery c ok now hid addrs relays w))"
| call_CreateRelayAccessGrant: "store_call F c w (snd (CreateRelayAccessGrant c ok i aid now hid ep u ttl w))"
| call_RenewRelayAccessGrant: "store_call F c w (snd (RenewRelayAccessGrant c ok i aid now hid ep u ttl w))"
| call_CreateManufacturingToken: "store_call F c w (snd (CreateManufacturingToken c hash ok now i token aid batchID e actor w))"
| call_CreateManufacturingBatch:
    "store_call F c w (snd (CreateManufacturingBatch c hash ok now1 i now token aid name pre e mx actor w))"
| call_CloseManufacturingBatch: "store_call F c w (snd (CloseManufacturingBatch c ok aid now i actor w))"
| call_EnrollDevice: "F hid \<Longrightarrow>
    store_call F c w (snd (EnrollDevice c hash ok now1 now i hid token ep sn model fp dpk su port tags w))"
| call_TouchDevice: "store_call F c w (snd (TouchDevice c ok now i hid ep fp status addrs relays w))"
| call_DeleteDevice: "store_call F c w (snd (DeleteDevice c ok aid now i actor w))"

subsection \<open>Calls refine to transactions\<close>

context sql_conn
begin

lemma reaches_fail_return:
  "reaches T (view w) (view (snd ((if b then fail e else return a) w)))"
  "reaches T (view w) (view (snd ((if b then fail e else fail e') w)))"
  by simp_all

lemmas reach_rules = reaches_locked reaches_if reaches_query reaches_tx reaches_done reaches_fail_return store_tx.intros

lemma reaches_publish:
  "reaches (store_tx F) (view w) (view (snd (publishAuthorizedKeysGeneration c hash hid su dg gs w)))"
  unfolding publishAuthorizedKeysGeneration_def
  by (intro reaches_tx tx_publish reaches_query) (simp split: option.split)

lemma reaches_snapshot:
  assumes "\<And>e g. reaches T (view w) (view (snd (k e g w)))"
  shows "reaches T (view w) (view (snd (authorizedKeysSnapshotForHost c now1 now2 hid su k w)))"
  unfolding authorizedKeysSnapshotForHost_def Let_def by (intro reaches_query assms)

lemma reaches_exec_snd: "T ss \<Longrightarrow> reaches T (view w) (view (snd (c_exec c ss w)))"
  by (rule reaches_exec [of T ss w "fst (c_exec c ss w)"]) simp_all

lemma reaches_RevokeSession: "reaches (store_tx F) (view w) (view (snd (RevokeSession c hash ok now now2 cookie e w)))"
  unfolding RevokeSession_def Let_def
  by (intro reaches_if reaches_locked reaches_tx reaches_done tx_revoke_session)
     (simp add: return_def reaches_exec_snd tx_cleanup_sessions)

lemma reaches_enroll_commit:
  assumes "F hid" "dpk \<noteq> ''''" "enroll_consumes now consume"
  shows "reaches (store_tx F) (view w) (view (snd (enroll_commit c now i hid consume serial ep model fp dpk su port tags w)))"
  unfolding enroll_commit_def Let_def using assms
  by (auto split: option.split intro!: reaches_if reaches_query reaches_tx tx_enroll)

lemma reaches_EnrollDevice:
  assumes "F hid"
  shows "reaches (store_tx F) (view w) (view (snd (EnrollDevice c hash ok now1 now i hid token ep sn model fp dpk su port tags w)))"
proof -
  have commit: "reaches (store_tx F) (view w) (view (snd ((case enroll_consume hash now token sn mt b of
        Inl e \<Rightarrow> fail e | Inr (cs, serial) \<Rightarrow> enroll_commit c now i hid cs serial ep model fp dpk su port tags) w)))"
    if "dpk \<noteq> ''''" for mt b w
    using reaches_enroll_commit [of F hid dpk now, OF assms that] enroll_consume_shape
    by (auto split: sum.split)
  show ?thesis unfolding EnrollDevice_def Let_def
    by (intro reaches_locked reaches_if reaches_done reaches_query)
       (auto split: option.split intro!: reaches_if reaches_query commit)
qed

lemma reaches_PublishAuthorizedKeysSnapshot:
  "reaches (store_tx F) (view w) (view (snd (PublishAuthorizedKeysSnapshot c hash ok now1 now2 hid su w)))"
  unfolding PublishAuthorizedKeysSnapshot_def
  by (intro reaches_locked reaches_snapshot) (auto split: sum.split intro: reaches_map_result reaches_publish)

lemma store_call_reaches: "store_call F c w w' \<Longrightarrow> reaches (store_tx F) (view w) (view w')"
proof (induction rule: store_call.induct)
  case (call_EnrollDevice hid w hash ok now1 now i token ep sn model fp dpk su port tags)
  then show ?case by (rule reaches_EnrollDevice)
next
  case (call_CreateHost w ok i aid now h actor)
  show ?case unfolding CreateHost_def Let_def
    by (intro reaches_locked reaches_if reaches_done reaches_tx tx_create_host) auto
next
  case (call_DeleteDevice w ok aid now i actor)
  show ?case unfolding DeleteDevice_def
    by (intro reaches_locked reaches_if reaches_query reaches_done)
       (auto split: option.split intro!: reaches_if reaches_tx tx_revoke)
next
  case (call_CreateManufacturingBatch w hash ok now1 i now token aid name pre e mx actor)
  show ?case unfolding CreateManufacturingBatch_def Let_def
    by (intro reaches_locked reaches_if reaches_done reaches_tx tx_create_batch) auto
qed (unfold UpdateHost_def DeleteHost_def CreatePolicy_def UpdatePolicy_def DeletePolicy_def CreateSSHKey_def
    DeleteSSHKey_def DeleteSSHKeyForUser_def RecordPolicyDenied_def CreateAuditEvent_def CreateAccessRequest_def
    ApproveAccessRequest_def CreateAccessGrant_def IssueSSHAccess_def AuthorizedKeysGeneration_def
    AcknowledgeAuthorizedKeys_def UpdateEndpointDiscovery_def CreateRelayAccessGrant_def RenewRelayAccessGrant_def
    CreateManufacturingToken_def CloseManufacturingBatch_def TouchDevice_def Let_def,
    (rule reaches_RevokeSession reaches_PublishAuthorizedKeysSnapshot |
     intro reaches_locked reaches_publish reaches_if reaches_tx reaches_done reaches_fail_return store_tx.intros | simp)+)

end

end
