(* ===== verification/Store_Invariant.thy ===== *)
theory Store_Invariant
  imports Store_Machine
begin

section \<open>Invariants of the tables\<close>

text \<open>
  What every transaction of the store keeps: the declared keys are unique; every device belongs to an
  existing host and a host has at most one device; a manufacturing batch never exceeds its quota and
  an open batch has a free slot; snapshot generations are positive; the audit log only grows.
  The locale \<open>keyed_table\<close> is the contract of one table of the schema and is interpreted for each.
\<close>

definition keys_ok :: "tables \<Rightarrow> bool" where
  "keys_ok t \<longleftrightarrow> unique host_clash (hosts t) \<and> unique policy_clash (policies t) \<and> unique key_clash (ssh_keys t) \<and>
     unique request_clash (access_requests t) \<and> unique grant_clash (access_grants t) \<and>
     unique session_clash (revoked_sessions t) \<and> unique event_clash (audit_events t) \<and>
     unique token_clash (manufacturing_tokens t) \<and> unique batch_clash (manufacturing_batches t) \<and>
     unique device_clash (devices t) \<and> unique discovery_clash (endpoint_discovery t) \<and>
     unique relay_clash (relay_access_grants t) \<and> unique snapshot_clash (authorized_keys_snapshots t) \<and>
     unique sgrant_clash (authorized_keys_snapshot_grants t)"

definition fleet_ok :: "tables \<Rightarrow> bool" where
  "fleet_ok t \<longleftrightarrow> set (map d_HostID (devices t)) \<subseteq> set (map h_ID (hosts t)) \<and> distinct (map d_HostID (devices t))"

definition batch_ok :: "batch_row \<Rightarrow> bool" where
  "batch_ok b \<longleftrightarrow> 0 \<le> mb_UsedCount b \<and> mb_UsedCount b \<le> mb_MaxDevices b \<and>
     (mb_Status b = ''open'' \<longrightarrow> mb_UsedCount b < mb_MaxDevices b)"

definition counts_ok :: "tables \<Rightarrow> bool" where
  "counts_ok t \<longleftrightarrow> list_all batch_ok (manufacturing_batches t) \<and>
     list_all (\<lambda>s. 1 \<le> sn_Generation s) (authorized_keys_snapshots t)"

definition db_ok :: "tables \<Rightarrow> bool" where
  "db_ok t \<longleftrightarrow> keys_ok t \<and> fleet_ok t \<and> counts_ok t"

lemma db_ok_empty: "db_ok empty_tables"
  by (simp add: db_ok_def keys_ok_def fleet_ok_def counts_ok_def empty_tables_def)

subsection \<open>Keys: one contract per table\<close>

locale keyed_table =
  fixes get :: "tables \<Rightarrow> 'r list" and upd :: "('r list \<Rightarrow> 'r list) \<Rightarrow> tables \<Rightarrow> tables" and clash :: "'r \<Rightarrow> 'r \<Rightarrow> bool"
  assumes keys_get: "keys_ok t \<Longrightarrow> unique clash (get t)"
    and keys_upd: "keys_ok t \<Longrightarrow> unique clash (f (get t)) \<Longrightarrow> keys_ok (upd f t)"
begin

lemma keeps_keys_insert: "keeps keys_ok (insert_row get upd clash r)"
  using keys_get by (auto simp: keeps_def insert_row_def unique_snoc intro!: keys_upd split: if_splits)

lemma keeps_keys_delete: "keeps keys_ok (delete_rows get upd P)"
  using keys_get by (auto simp: keeps_def delete_rows_def intro!: keys_upd unique_filter)

lemma keeps_keys_update:
  assumes "\<And>x y. clash (f x) y \<longleftrightarrow> clash x y" "\<And>x y. clash x (f y) \<longleftrightarrow> clash x y"
  shows "keeps keys_ok (update_rows get upd P f)"
proof -
  have "unique clash (map (\<lambda>r. if P t r then f r else r) rs) \<longleftrightarrow> unique clash rs" for t rs
    by (rule unique_map) (simp add: assms)
  then show ?thesis using keys_get by (auto simp: keeps_def update_rows_def intro!: keys_upd)
qed

lemma keeps_keys_update_key: "keeps keys_ok (update_key_rows get upd clash P f)"
  by (auto simp: keeps_def update_key_rows_def update_rows_def intro!: keys_upd split: if_splits)

lemma keeps_keys_upsert:
  assumes "\<And>t x y. clash (merge t x) y \<longleftrightarrow> clash x y" "\<And>t x y. clash x (merge t y) \<longleftrightarrow> clash x y"
  shows "keeps keys_ok (upsert_row get upd clash r merge)"
proof -
  have "unique clash (map (\<lambda>x. if clash x r then merge t x else x) rs) \<longleftrightarrow> unique clash rs" for t rs
    by (rule unique_map) (simp add: assms)
  then show ?thesis using keys_get
    by (auto simp: keeps_def upsert_row_def unique_snoc intro!: keys_upd split: if_splits)
qed

lemma keeps_keys_replace: "keeps keys_ok (replace_row get upd clash r)"
proof -
  have "unique clash (filter (\<lambda>x. \<not> clash x r) rs @ [r])" if "unique clash rs" for rs
    using unique_filter [OF that] by (auto simp: unique_snoc list_ex_iff)
  then show ?thesis using keys_get by (auto simp: keeps_def replace_row_def intro!: keys_upd)
qed

lemmas keeps_keys = keeps_keys_insert keeps_keys_delete keeps_keys_update_key keeps_keys_replace

end

interpretation hosts_table: keyed_table hosts hosts_update host_clash
  by unfold_locales (simp_all add: keys_ok_def)
interpretation policies_table: keyed_table policies policies_update policy_clash
  by unfold_locales (simp_all add: keys_ok_def)
interpretation ssh_keys_table: keyed_table ssh_keys ssh_keys_update key_clash
  by unfold_locales (simp_all add: keys_ok_def)
interpretation requests_table: keyed_table access_requests access_requests_update request_clash
  by unfold_locales (simp_all add: keys_ok_def)
interpretation grants_table: keyed_table access_grants access_grants_update grant_clash
  by unfold_locales (simp_all add: keys_ok_def)
interpretation sessions_table: keyed_table revoked_sessions revoked_sessions_update session_clash
  by unfold_locales (simp_all add: keys_ok_def)
interpretation events_table: keyed_table audit_events audit_events_update event_clash
  by unfold_locales (simp_all add: keys_ok_def)
interpretation tokens_table: keyed_table manufacturing_tokens manufacturing_tokens_update token_clash
  by unfold_locales (simp_all add: keys_ok_def)
interpretation batches_table: keyed_table manufacturing_batches manufacturing_batches_update batch_clash
  by unfold_locales (simp_all add: keys_ok_def)
interpretation devices_table: keyed_table devices devices_update device_clash
  by unfold_locales (simp_all add: keys_ok_def)
interpretation discovery_table: keyed_table endpoint_discovery endpoint_discovery_update discovery_clash
  by unfold_locales (simp_all add: keys_ok_def)
interpretation relays_table: keyed_table relay_access_grants relay_access_grants_update relay_clash
  by unfold_locales (simp_all add: keys_ok_def)
interpretation snapshots_table: keyed_table authorized_keys_snapshots authorized_keys_snapshots_update snapshot_clash
  by unfold_locales (simp_all add: keys_ok_def)
interpretation sgrants_table: keyed_table authorized_keys_snapshot_grants authorized_keys_snapshot_grants_update sgrant_clash
  by unfold_locales (simp_all add: keys_ok_def)

lemmas keeps_keys_all =
  hosts_table.keeps_keys policies_table.keeps_keys ssh_keys_table.keeps_keys requests_table.keeps_keys
  grants_table.keeps_keys sessions_table.keeps_keys events_table.keeps_keys tokens_table.keeps_keys
  batches_table.keeps_keys devices_table.keeps_keys discovery_table.keeps_keys relays_table.keeps_keys
  snapshots_table.keeps_keys sgrants_table.keeps_keys

lemmas keeps_keys_updates =
  hosts_table.keeps_keys_update policies_table.keeps_keys_update requests_table.keeps_keys_update
  grants_table.keeps_keys_update batches_table.keeps_keys_update devices_table.keeps_keys_update
  snapshots_table.keeps_keys_update snapshots_table.keeps_keys_upsert discovery_table.keeps_keys_upsert

lemmas tx_defs =
  revoke_session_tx_def cleanup_sessions_tx_def create_host_tx_def update_host_tx_def delete_host_tx_def
  create_policy_tx_def update_policy_tx_def delete_policy_tx_def create_ssh_key_tx_def delete_ssh_key_tx_def
  delete_own_key_tx_def delete_any_key_tx_def audit_tx_def create_request_tx_def approve_request_tx_def
  create_grant_tx_def issue_access_tx_def publish_tx_def acknowledge_tx_def create_relay_tx_def renew_relay_tx_def
  create_token_tx_def create_batch_tx_def close_batch_tx_def enroll_tx_def touch_tx_def revoke_tx_def

lemmas part_defs = insert_audit_def insert_sgrant_def insert_relay_def relay_audit_def insert_token_def
  upsert_discovery_def consume_batch_def consume_token_def

lemma store_tx_keys:
  assumes "store_tx F ss" "s \<in> set ss"
  shows "keeps keys_ok (st_run s)"
  using assms
  by (cases rule: store_tx.cases)
     (auto simp: tx_defs part_defs clash_defs set_policy_def bump_snapshot_def use_slot_def enroll_consumes.simps
        intro!: keeps_keys_all keeps_keys_updates keeps_insert_when keeps_insert_for)

subsection \<open>Invariants that do not depend on a table\<close>

text \<open>A statement on one table keeps every predicate that does not read it.\<close>

definition ignores :: "(('r list \<Rightarrow> 'r list) \<Rightarrow> tables \<Rightarrow> tables) \<Rightarrow> (tables \<Rightarrow> bool) \<Rightarrow> bool" where
  "ignores upd I \<longleftrightarrow> (\<forall>f t. I (upd f t) \<longleftrightarrow> I t)"

lemma ignores_keeps:
  assumes "ignores upd I"
  shows "keeps I (insert_row get upd clash r)" "keeps I (update_rows get upd P f)" "keeps I (delete_rows get upd P)"
    "keeps I (update_key_rows get upd clash P f)" "keeps I (upsert_row get upd clash r m)" "keeps I (replace_row get upd clash r)"
  using assms
  by (auto simp: ignores_def keeps_def insert_row_def update_rows_def delete_rows_def update_key_rows_def
      upsert_row_def replace_row_def split: if_splits)

lemmas keeps_structural = keeps_insert_when keeps_insert_for

lemma run_tx_append_Inr:
  "run_tx (ss @ ss') t = Inr (t'', ns) \<longleftrightarrow>
     (\<exists>t' n1 n2. run_tx ss t = Inr (t', n1) \<and> run_tx ss' t' = Inr (t'', n2) \<and> ns = n1 @ n2)"
  by (induction ss arbitrary: t ns) (auto simp: run_tx_Cons_Inr)

subsection \<open>Hosts and devices\<close>

lemma map_if: "(\<And>x. g (f x) = g x) \<Longrightarrow> map g (map (\<lambda>x. if P x then f x else x) xs) = map g xs"
  by simp

lemma fleet_columns:
  "map d_HostID (devices t') = map d_HostID (devices t) \<Longrightarrow> map h_ID (hosts t') = map h_ID (hosts t) \<Longrightarrow> fleet_ok t' \<longleftrightarrow> fleet_ok t"
  by (simp only: fleet_ok_def)

lemma keeps_fleet_hosts:
  "(\<And>h. h_ID (f h) = h_ID h) \<Longrightarrow> keeps fleet_ok (update_rows hosts hosts_update P f)"
  "(\<And>h. h_ID (f h) = h_ID h) \<Longrightarrow> keeps fleet_ok (update_key_rows hosts hosts_update host_clash P f)"
  "keeps fleet_ok (insert_row hosts hosts_update host_clash r)"
proof -
  assume f: "\<And>h. h_ID (f h) = h_ID h"
  have "fleet_ok (hosts_update (map (\<lambda>h. if P h then f h else h)) t) \<longleftrightarrow> fleet_ok t" for P t
    by (rule fleet_columns) (simp_all add: map_if f del: map_map)
  then show "keeps fleet_ok (update_rows hosts hosts_update P f)"
    "keeps fleet_ok (update_key_rows hosts hosts_update host_clash P f)"
    by (auto simp: keeps_def update_rows_def update_key_rows_def split: if_splits)
next
  show "keeps fleet_ok (insert_row hosts hosts_update host_clash r)"
    by (auto simp: keeps_def insert_row_def fleet_ok_def split: if_splits)
qed

lemma keeps_fleet_devices:
  "(\<And>d. d_HostID (f d) = d_HostID d) \<Longrightarrow> keeps fleet_ok (update_rows devices devices_update P f)"
  "keeps fleet_ok (delete_rows devices devices_update P)"
proof -
  assume f: "\<And>d. d_HostID (f d) = d_HostID d"
  have "fleet_ok (devices_update (map (\<lambda>d. if P d then f d else d)) t) \<longleftrightarrow> fleet_ok t" for P t
    by (rule fleet_columns) (simp_all add: map_if f del: map_map)
  then show "keeps fleet_ok (update_rows devices devices_update P f)"
    by (auto simp: keeps_def update_rows_def)
next
  show "keeps fleet_ok (delete_rows devices devices_update P)"
    by (auto simp: keeps_def delete_rows_def fleet_ok_def distinct_map_filter)
qed

lemma fleet_ignores:
  "ignores policies_update fleet_ok" "ignores ssh_keys_update fleet_ok" "ignores access_requests_update fleet_ok"
  "ignores access_grants_update fleet_ok" "ignores revoked_sessions_update fleet_ok" "ignores audit_events_update fleet_ok"
  "ignores manufacturing_tokens_update fleet_ok" "ignores manufacturing_batches_update fleet_ok"
  "ignores endpoint_discovery_update fleet_ok" "ignores relay_access_grants_update fleet_ok"
  "ignores authorized_keys_snapshots_update fleet_ok" "ignores authorized_keys_snapshot_grants_update fleet_ok"
  by (simp_all add: ignores_def fleet_ok_def)

lemmas fleet_frame = fleet_ignores [THEN ignores_keeps(1)] fleet_ignores [THEN ignores_keeps(2)] fleet_ignores [THEN ignores_keeps(3)]
  fleet_ignores [THEN ignores_keeps(4)] fleet_ignores [THEN ignores_keeps(5)] fleet_ignores [THEN ignores_keeps(6)]

lemma fleet_consume: "enroll_consumes now cs \<Longrightarrow> s \<in> set cs \<Longrightarrow> keeps fleet_ok (st_run s)"
  by (auto simp: enroll_consumes.simps part_defs intro!: fleet_frame)

text \<open>Enrolment adds a host whose identifier no device has, and its device; deletion removes the devices first.\<close>

lemma fleet_enroll:
  assumes "enroll_consumes now cs" "d_HostID d = h_ID h" "fleet_ok t" "run_tx (enroll_tx cs h d) t = Inr (t', ns)"
  shows "fleet_ok t'"
proof -
  obtain t1 n1 n2 where t1: "run_tx cs t = Inr (t1, n1)"
    and "run_tx [sql_one (insert_row hosts hosts_update host_clash h), sql_one (insert_row devices devices_update device_clash d)] t1 = Inr (t', n2)"
    using assms(4) by (auto simp: enroll_tx_def run_tx_append_Inr)
  then have h: "\<not> list_ex (\<lambda>x. host_clash x h) (hosts t1)" and t': "t' = devices_update (\<lambda>rows. rows @ [d]) (hosts_update (\<lambda>rows. rows @ [h]) t1)"
    by (auto simp: run_tx_Cons_Inr insert_row_def split: if_splits)
  have "fleet_ok t1" using run_tx_keeps [of cs fleet_ok] fleet_consume [OF assms(1)] assms(3) t1 by blast
  then show ?thesis using h assms(2) unfolding t'
    by (auto simp: fleet_ok_def list_ex_iff host_clash_def)
qed

lemma fleet_delete_host:
  assumes "fleet_ok t" "run_tx (delete_host_tx aid now i actor) t = Inr (t', ns)"
  shows "fleet_ok t'"
proof -
  define ss where "ss = butlast (delete_host_tx aid now i actor)"
  have tx: "delete_host_tx aid now i actor = ss @ [sql (delete_rows hosts hosts_update (\<lambda>_ r. h_ID r = i))]"
    by (simp add: ss_def delete_host_tx_def)
  obtain t1 n1 where t1: "run_tx ss t = Inr (t1, n1)" and t': "t' = hosts_update (filter (\<lambda>r. h_ID r \<noteq> i)) t1"
    using assms(2) unfolding tx by (auto simp: run_tx_append_Inr run_tx_Cons_Inr delete_rows_def)
  have "\<forall>s \<in> set ss. keeps fleet_ok (st_run s)"
    by (auto simp: ss_def delete_host_tx_def part_defs intro!: keeps_structural fleet_frame keeps_fleet_devices)
  then have "fleet_ok t1" using run_tx_keeps assms(1) t1 by blast
  moreover have "\<forall>d \<in> set (devices t1). d_HostID d \<noteq> i"
    using t1 by (auto simp: ss_def delete_host_tx_def run_tx_Cons_Inr delete_rows_def)
  moreover have "set (map h_ID (filter (\<lambda>r. h_ID r \<noteq> i) (hosts t1))) = set (map h_ID (hosts t1)) - {i}" by auto
  ultimately show ?thesis unfolding t' fleet_ok_def by (simp del: set_map set_filter) auto
qed

lemma store_tx_fleet:
  assumes "store_tx F ss" "fleet_ok t" "run_tx ss t = Inr (t', ns)"
  shows "fleet_ok t'"
  using assms
proof (cases rule: store_tx.cases)
  case (tx_delete_host actor aid now i)
  then show ?thesis using fleet_delete_host assms(2,3) by blast
next
  case (tx_enroll hostID dpk serial sshUser now consume ep tags port i fp model)
  show ?thesis
    by (rule fleet_enroll [OF tx_enroll(6) _ assms(2) assms(3) [unfolded tx_enroll(1)]])
       (simp add: enroll_host_def enroll_device_row_def)
qed (rule run_tx_keeps [of ss fleet_ok t t' ns, OF _ assms(2,3)],
     auto simp: tx_defs part_defs set_host_def intro!: keeps_structural fleet_frame keeps_fleet_hosts keeps_fleet_devices)+

subsection \<open>Quotas and generations\<close>

lemma counts_ignores:
  "ignores hosts_update counts_ok" "ignores devices_update counts_ok"
  "ignores policies_update counts_ok" "ignores ssh_keys_update counts_ok" "ignores access_requests_update counts_ok"
  "ignores access_grants_update counts_ok" "ignores revoked_sessions_update counts_ok" "ignores audit_events_update counts_ok"
  "ignores manufacturing_tokens_update counts_ok" "ignores endpoint_discovery_update counts_ok"
  "ignores relay_access_grants_update counts_ok" "ignores authorized_keys_snapshot_grants_update counts_ok"
  by (simp_all add: ignores_def counts_ok_def)

lemmas counts_frame = counts_ignores [THEN ignores_keeps(1)] counts_ignores [THEN ignores_keeps(2)] counts_ignores [THEN ignores_keeps(3)]
  counts_ignores [THEN ignores_keeps(4)] counts_ignores [THEN ignores_keeps(5)] counts_ignores [THEN ignores_keeps(6)]

lemma keeps_counts_batches:
  "(\<And>t b. P t b \<Longrightarrow> batch_ok b \<Longrightarrow> batch_ok (f b)) \<Longrightarrow> keeps counts_ok (update_rows manufacturing_batches manufacturing_batches_update P f)"
  "batch_ok b \<Longrightarrow> keeps counts_ok (insert_row manufacturing_batches manufacturing_batches_update batch_clash b)"
  by (auto simp: keeps_def update_rows_def insert_row_def counts_ok_def list_all_iff split: if_splits)

lemma keeps_counts_snapshots:
  "(\<And>s. sn_Generation (f s) = sn_Generation s) \<Longrightarrow> keeps counts_ok (update_rows authorized_keys_snapshots authorized_keys_snapshots_update P f)"
  "keeps counts_ok (delete_rows authorized_keys_snapshots authorized_keys_snapshots_update P)"
  "1 \<le> sn_Generation r \<Longrightarrow> (\<And>t s. sn_Generation s \<le> sn_Generation (m t s)) \<Longrightarrow>
     keeps counts_ok (upsert_row authorized_keys_snapshots authorized_keys_snapshots_update snapshot_clash r m)"
  by (auto simp: keeps_def update_rows_def delete_rows_def upsert_row_def counts_ok_def list_all_iff split: if_splits)
     (meson order_trans)

lemma batch_ok_use_slot: "mb_UsedCount b < mb_MaxDevices b \<Longrightarrow> batch_ok b \<Longrightarrow> batch_ok (use_slot now b)"
  by (auto simp: batch_ok_def use_slot_def)

lemma batch_ok_close: "batch_ok b \<Longrightarrow> batch_ok (b\<lparr>mb_Status := ''closed'', mb_ClosedAt := c\<rparr>)"
  by (simp add: batch_ok_def)

lemma batch_ok_new: "1 \<le> mx \<Longrightarrow> batch_ok (new_batch i n p th e mx now)"
  by (simp add: batch_ok_def new_batch_def)

lemma bump_snapshot_mono: "sn_Generation s \<le> sn_Generation (bump_snapshot hid su dg mk t s)"
  by (simp add: bump_snapshot_def)

lemma store_tx_counts:
  assumes "store_tx F ss" "s \<in> set ss"
  shows "keeps counts_ok (st_run s)"
  using assms
  by (cases rule: store_tx.cases)
     (auto simp: tx_defs part_defs enroll_consumes.simps bump_snapshot_mono
        intro!: keeps_structural counts_frame keeps_counts_batches keeps_counts_snapshots batch_ok_use_slot
          batch_ok_close batch_ok_new)

lemma store_tx_db_ok:
  assumes "store_tx F ss" "db_ok t" "run_tx ss t = Inr (t', ns)"
  shows "db_ok t'"
  using store_tx_keys [OF assms(1)] store_tx_fleet [OF assms(1) _ assms(3)] store_tx_counts [OF assms(1)]
    run_tx_keeps [of ss keys_ok t t' ns] run_tx_keeps [of ss counts_ok t t' ns] assms(2,3)
  unfolding db_ok_def by blast

subsection \<open>The audit log\<close>

definition audit_from :: "AuditEvent list \<Rightarrow> tables \<Rightarrow> bool" where
  "audit_from es t \<longleftrightarrow> take (length es) (audit_events t) = es"

lemma audit_ignores:
  "ignores hosts_update (audit_from es)" "ignores devices_update (audit_from es)"
  "ignores policies_update (audit_from es)" "ignores ssh_keys_update (audit_from es)"
  "ignores access_requests_update (audit_from es)" "ignores access_grants_update (audit_from es)"
  "ignores revoked_sessions_update (audit_from es)" "ignores manufacturing_tokens_update (audit_from es)"
  "ignores manufacturing_batches_update (audit_from es)" "ignores endpoint_discovery_update (audit_from es)"
  "ignores relay_access_grants_update (audit_from es)" "ignores authorized_keys_snapshots_update (audit_from es)"
  "ignores authorized_keys_snapshot_grants_update (audit_from es)"
  by (simp_all add: ignores_def audit_from_def)

lemmas audit_frame = audit_ignores [THEN ignores_keeps(1)] audit_ignores [THEN ignores_keeps(2)] audit_ignores [THEN ignores_keeps(3)]
  audit_ignores [THEN ignores_keeps(4)] audit_ignores [THEN ignores_keeps(5)] audit_ignores [THEN ignores_keeps(6)]

lemma keeps_audit: "keeps (audit_from es) (insert_row audit_events audit_events_update event_clash e)"
proof -
  have "take (length es) (xs @ [e]) = es" if "take (length es) xs = es" for xs
  proof -
    have "length es \<le> length xs" using arg_cong [OF that, of length] by simp
    then show ?thesis using that by simp
  qed
  then show ?thesis by (auto simp: keeps_def insert_row_def audit_from_def split: if_splits)
qed

lemma store_tx_audit:
  assumes "store_tx F ss" "s \<in> set ss"
  shows "keeps (audit_from es) (st_run s)"
  using assms
  by (cases rule: store_tx.cases)
     (auto simp: tx_defs part_defs enroll_consumes.simps intro!: keeps_structural keeps_audit audit_frame)

subsection \<open>Revocation\<close>

text \<open>No device of the host is active.\<close>

definition host_dead :: "string \<Rightarrow> tables \<Rightarrow> bool" where
  "host_dead hid t \<longleftrightarrow> list_all (\<lambda>d. d_HostID d = hid \<longrightarrow> d_State d = ''revoked'') (devices t)"

lemma host_dead_not_live: "host_dead hid t \<Longrightarrow> \<not> host_live hid t"
  by (auto simp: host_dead_def host_live_iff list_all_iff)

lemma dead_ignores:
  "ignores hosts_update (host_dead hid)" "ignores audit_events_update (host_dead hid)"
  "ignores policies_update (host_dead hid)" "ignores ssh_keys_update (host_dead hid)"
  "ignores access_requests_update (host_dead hid)" "ignores access_grants_update (host_dead hid)"
  "ignores revoked_sessions_update (host_dead hid)" "ignores manufacturing_tokens_update (host_dead hid)"
  "ignores manufacturing_batches_update (host_dead hid)" "ignores endpoint_discovery_update (host_dead hid)"
  "ignores relay_access_grants_update (host_dead hid)" "ignores authorized_keys_snapshots_update (host_dead hid)"
  "ignores authorized_keys_snapshot_grants_update (host_dead hid)"
  by (simp_all add: ignores_def host_dead_def)

lemmas dead_frame = dead_ignores [THEN ignores_keeps(1)] dead_ignores [THEN ignores_keeps(2)] dead_ignores [THEN ignores_keeps(3)]
  dead_ignores [THEN ignores_keeps(4)] dead_ignores [THEN ignores_keeps(5)] dead_ignores [THEN ignores_keeps(6)]

lemma keeps_dead_devices:
  "(\<And>d. d_HostID (f d) = d_HostID d) \<Longrightarrow> (\<And>d. d_State d = ''revoked'' \<Longrightarrow> d_State (f d) = ''revoked'') \<Longrightarrow>
     keeps (host_dead hid) (update_rows devices devices_update P f)"
  "keeps (host_dead hid) (delete_rows devices devices_update P)"
  "d_HostID d \<noteq> hid \<Longrightarrow> keeps (host_dead hid) (insert_row devices devices_update device_clash d)"
  by (auto simp: keeps_def update_rows_def delete_rows_def insert_row_def host_dead_def list_all_iff split: if_splits)

lemma store_tx_dead:
  assumes "store_tx (\<lambda>x. x \<noteq> hid) ss" "s \<in> set ss"
  shows "keeps (host_dead hid) (st_run s)"
  using assms
  by (cases rule: store_tx.cases)
     (auto simp: tx_defs part_defs enroll_consumes.simps enroll_device_row_def
        intro!: keeps_structural keeps_dead_devices dead_frame)

end
