(* ===== verification/Trust_Record.thy ===== *)
theory Trust_Record
  imports Prelude
begin

section \<open>The trust-anchor record (internal/store/trust\_anchor.go)\<close>

text \<open>
  The anchor is a small record kept outside the replicated database.  It names the pair
  (epoch, token) that the database must carry in \<^verbatim>\<open>trust_state\<close>, and, while a write is in flight,
  the pair that this write moves it to.  The transition and the receipt of a recovery are values
  of the recovery library; only the fields the program reads are visible here, through \<open>recovery_ops\<close>.
\<close>

record ('tr, 'rc) trustAnchorRecord =
  ta_Format :: string
  ta_ClusterID :: string
  ta_StorageID :: string
  ta_Epoch :: int
  ta_Token :: string
  ta_PendingEpoch :: "int option"
  ta_PendingID :: string
  ta_Bootstrap :: bool
  ta_Generation :: nat
  ta_Transition :: "'tr option"
  ta_Receipt :: "'rc option"

record ('tr, 'rc) recovery_ops =
  tr_Generation :: "'tr \<Rightarrow> nat"
  tr_AnchorID :: "'tr \<Rightarrow> string"
  rc_Generation :: "'rc \<Rightarrow> nat"

definition is_lower_hex :: "char \<Rightarrow> bool" where
  "is_lower_hex c \<longleftrightarrow> is_digit c \<or> (CHR ''a'' \<le> c \<and> c \<le> CHR ''f'')"

definition validUUID :: "string \<Rightarrow> bool" where
  "validUUID s \<longleftrightarrow> length s = 36 \<and>
     list_all (\<lambda>(i, c). if i = 8 \<or> i = 13 \<or> i = 18 \<or> i = 23 then c = CHR ''-'' else is_lower_hex c)
       (zip [0..<36] s)"

definition validateStructure :: "('tr, 'rc) recovery_ops \<Rightarrow> ('tr, 'rc) trustAnchorRecord \<Rightarrow> bool" where
  "validateStructure ops r \<longleftrightarrow>
     \<not> (ta_Format r \<noteq> ''1'' \<or> ta_ClusterID r = '''' \<or> ta_StorageID r = '''' \<or> ta_Epoch r < 0 \<or> \<not> validUUID (ta_Token r)) \<and>
     (case ta_PendingEpoch r of
        Some p \<Rightarrow> \<not> (p \<noteq> ta_Epoch r + 1 \<or> \<not> validUUID (ta_PendingID r))
      | None \<Rightarrow> ta_PendingID r = '''') \<and>
     (case ta_Transition r of
        Some tr \<Rightarrow> \<not> (tr_Generation ops tr \<noteq> ta_Generation r \<or> tr_AnchorID ops tr = '''')
      | None \<Rightarrow> (case ta_Receipt r of Some rc \<Rightarrow> rc_Generation ops rc = ta_Generation r | None \<Rightarrow> True))"

text \<open>The deployment's binding, and the check of a record against it.\<close>

record binding =
  bi_ClusterID :: string
  bi_StorageID :: string

definition validate :: "('tr, 'rc) recovery_ops \<Rightarrow> binding \<Rightarrow> ('tr, 'rc) trustAnchorRecord \<Rightarrow> bool" where
  "validate ops b r \<longleftrightarrow> validateStructure ops r \<and>
     \<not> (ta_ClusterID r \<noteq> bi_ClusterID b \<or> ta_StorageID r \<noteq> bi_StorageID b) \<and> ta_Transition r = None"

subsection \<open>The moves of a record\<close>

text \<open>Reserve, finalize and clear: the three updates the fence makes.\<close>

definition reserve :: "int \<Rightarrow> string \<Rightarrow> ('tr, 'rc) trustAnchorRecord \<Rightarrow> ('tr, 'rc) trustAnchorRecord" where
  "reserve epoch pid r = r\<lparr>ta_PendingEpoch := Some epoch, ta_PendingID := pid\<rparr>"

definition finalize :: "int \<Rightarrow> string \<Rightarrow> ('tr, 'rc) trustAnchorRecord \<Rightarrow> ('tr, 'rc) trustAnchorRecord" where
  "finalize epoch token r =
     r\<lparr>ta_Epoch := epoch, ta_Token := token, ta_PendingEpoch := None, ta_PendingID := '''', ta_Bootstrap := False\<rparr>"

definition clear_pending :: "('tr, 'rc) trustAnchorRecord \<Rightarrow> ('tr, 'rc) trustAnchorRecord" where
  "clear_pending r = r\<lparr>ta_PendingEpoch := None, ta_PendingID := ''''\<rparr>"

lemma validate_reserve:
  "validate ops b r \<Longrightarrow> validUUID pid \<Longrightarrow> validate ops b (reserve (ta_Epoch r + 1) pid r)"
  by (auto simp: validate_def validateStructure_def reserve_def split: option.splits)

lemma validate_finalize:
  "validate ops b r \<Longrightarrow> validUUID tok \<Longrightarrow> 0 \<le> e \<Longrightarrow> validate ops b (finalize e tok r)"
  by (auto simp: validate_def validateStructure_def finalize_def split: option.splits)

lemma validate_clear: "validate ops b r \<Longrightarrow> validate ops b (clear_pending r)"
  by (auto simp: validate_def validateStructure_def clear_pending_def split: option.splits)

text \<open>The pair the database must carry, and the pair of the write in flight.\<close>

definition anchor_pair :: "('tr, 'rc) trustAnchorRecord \<Rightarrow> int \<times> string" where
  "anchor_pair r = (ta_Epoch r, ta_Token r)"

definition pending_pair :: "('tr, 'rc) trustAnchorRecord \<Rightarrow> (int \<times> string) option" where
  "pending_pair r = map_option (\<lambda>e. (e, ta_PendingID r)) (ta_PendingEpoch r)"

end
