(* ===== verification/Trust_Fence.thy ===== *)
theory Trust_Fence
  imports Store_Base Trust_Record
begin

section \<open>The fenced database connection (internal/store/rhiza\_sql.go)\<close>

text \<open>
  \<^verbatim>\<open>rhizaSQL\<close> puts every Ternal write between two compare-and-swaps of the trust anchor: reserve the
  next pair, execute the statements together with the update of \<^verbatim>\<open>trust_state\<close>, publish the pair.
  The embedded database and the anchor's store are not part of this program; they are the record
  \<open>env\<close> of functions on an abstract world; \<open>e_peers\<close> is what the other nodes do before the next call of
  this one.  \<open>fence_env\<close> states what is documented of them, when the other nodes are quiet: a
  linearizable query returns the current rows; a committed transaction was applied as a whole, a
  rejected one not at all, any other outcome leaves the two possibilities; a compare-and-swap that
  succeeds replaced exactly the version it was given.
\<close>

datatype mutation_status = MutationCommitted | MutationRejected | MutationOther

record exec_response =
  rs_Status :: mutation_status
  rs_Err :: "db_error option"
  rs_RowsAffected :: nat
  rs_Statements :: "nat list"

text \<open>The tail \<^verbatim>\<open>UPDATE trust_state SET epoch=?, token=? WHERE id=1 AND epoch=? AND token=?\<close> of a
  request: the pair it expects and the pair it writes.\<close>

record exec_request =
  rq_ID :: string
  rq_Statements :: "statement list"
  rq_Tail :: "((int \<times> string) \<times> (int \<times> string)) option"

record ('x, 'tr, 'rc) env =
  e_get :: "'x \<Rightarrow> db_error + (('tr, 'rc) trustAnchorRecord \<times> string)"
  e_cas :: "string \<Rightarrow> ('tr, 'rc) trustAnchorRecord \<Rightarrow> 'x \<Rightarrow> (db_error + string) \<times> 'x"
  e_exec :: "exec_request \<Rightarrow> 'x \<Rightarrow> exec_response \<times> 'x"
  e_query :: "'x \<Rightarrow> db_error + tables"
  e_query_trust :: "'x \<Rightarrow> db_error + (int \<times> string) list"
  e_validate :: "exec_request \<Rightarrow> bool"
  e_uuid :: "'x \<Rightarrow> string \<times> 'x"
  e_lock :: "'x \<Rightarrow> bool"
  e_ctx :: "'x \<Rightarrow> bool"
  e_peers :: "'x \<Rightarrow> 'x"
  e_ops :: "('tr, 'rc) recovery_ops"

record rhizaSQL =
  rz_trust :: "binding option"
  rz_trustRequired :: bool

subsection \<open>Anchor access\<close>

definition anchor_get :: "('x, 'tr, 'rc) env \<Rightarrow> binding \<Rightarrow> 'x \<Rightarrow> db_error + (('tr, 'rc) trustAnchorRecord \<times> string)" where
  "anchor_get env b x =
     (case e_get env x of
        Inl e \<Rightarrow> Inl ErrAnchorRead
      | Inr (r, rv) \<Rightarrow> if validate (e_ops env) b r then Inr (r, rv) else Inl ErrAnchorInvalid)"

definition anchor_cas ::
    "('x, 'tr, 'rc) env \<Rightarrow> binding \<Rightarrow> string \<Rightarrow> ('tr, 'rc) trustAnchorRecord \<Rightarrow> 'x \<Rightarrow> (db_error + string) \<times> 'x" where
  "anchor_cas env b rv r x =
     (if \<not> validate (e_ops env) b r then (Inl ErrAnchorInvalid, x)
      else case e_cas env rv r x of (Inl e, x') \<Rightarrow> (Inl ErrAnchorUpdate, x') | (Inr rv', x') \<Rightarrow> (Inr rv', x'))"

definition verifyDBTrust :: "('x, 'tr, 'rc) env \<Rightarrow> int \<Rightarrow> string \<Rightarrow> 'x \<Rightarrow> db_error option" where
  "verifyDBTrust env epoch token x =
     (case e_query_trust env x of
        Inl e \<Rightarrow> Some e
      | Inr [] \<Rightarrow> Some ErrTrustMissing
      | Inr ((actualEpoch, actualToken) # rest) \<Rightarrow>
          if rest \<noteq> [] \<or> actualEpoch \<noteq> epoch \<or> actualToken \<noteq> token then Some ErrTrustMismatch else None)"

subsection \<open>Writes\<close>

definition committedResponse :: "exec_response \<Rightarrow> db_error + exec_response" where
  "committedResponse r =
     (case rs_Err r of
        Some e \<Rightarrow> Inl e
      | None \<Rightarrow> if rs_Status r \<noteq> MutationCommitted then Inl ErrRejected else Inr r)"

definition execRaw :: "('x, 'tr, 'rc) env \<Rightarrow> exec_request \<Rightarrow> 'x \<Rightarrow> (db_error + exec_response) \<times> 'x" where
  "execRaw env req x = (case e_exec env req x of (r, x') \<Rightarrow> (committedResponse r, x'))"

text \<open>What follows a fenced execution: publish the pair of a committed write, clear the fence of a
  rejected one, leave the fence of any other.\<close>

definition settle_fenced ::
    "('x, 'tr, 'rc) env \<Rightarrow> binding \<Rightarrow> ('tr, 'rc) trustAnchorRecord \<Rightarrow> string \<Rightarrow> int \<Rightarrow> string \<Rightarrow> nat \<Rightarrow> exec_response \<Rightarrow> 'x \<Rightarrow>
     (db_error + nat) \<times> 'x" where
  "settle_fenced env b current pendingRV nextEpoch nextToken originalStatements response x =
     (if rs_Err response = None \<and> rs_Status response = MutationCommitted then
        (case anchor_cas env b pendingRV (finalize nextEpoch nextToken current) x of
           (Inl e, x') \<Rightarrow> (Inl e, x')
         | (Inr _, x') \<Rightarrow>
             if length (rs_Statements response) \<noteq> originalStatements + 1 then (Inl ErrProjection, x')
             else (Inr (sum_list (take originalStatements (rs_Statements response))), x'))
      else
        let err = (case rs_Err response of None \<Rightarrow> ErrRejected | Some e \<Rightarrow> e) in
        if rs_Status response = MutationRejected \<and> verifyDBTrust env (ta_Epoch current) (ta_Token current) x = None then
          (case anchor_cas env b pendingRV (clear_pending current) (e_peers env x) of
             (Inl e, x') \<Rightarrow> (Inl e, x')
           | (Inr _, x') \<Rightarrow> (Inl err, x'))
        else (Inl err, x))"

definition execute_fenced ::
    "('x, 'tr, 'rc) env \<Rightarrow> binding \<Rightarrow> statement list \<Rightarrow> 'x \<Rightarrow> (db_error + nat) \<times> 'x" where
  "execute_fenced env b stmts x0 =
     (if \<not> e_lock env x0 \<or> \<not> e_ctx env x0 then (Inl ErrCtx, x0)
      else case anchor_get env b x0 of
        Inl e \<Rightarrow> (Inl e, x0)
      | Inr (current, rv) \<Rightarrow>
          if ta_PendingEpoch current \<noteq> None then (Inl ErrPendingWrite, x0)
          else case verifyDBTrust env (ta_Epoch current) (ta_Token current) (e_peers env x0) of
            Some e \<Rightarrow> (Inl e, e_peers env x0)
          | None \<Rightarrow>
              (case e_uuid env (e_peers env (e_peers env x0)) of (uid, x1) \<Rightarrow>
                 let nextEpoch = ta_Epoch current + 1;
                     req = \<lparr>rq_ID = uid, rq_Statements = stmts,
                            rq_Tail = Some (anchor_pair current, (nextEpoch, uid))\<rparr> in
                 if \<not> e_validate env req then (Inl ErrInvalidRequest, x1)
                 else case anchor_cas env b rv (reserve nextEpoch uid current) x1 of
                   (Inl e, x2) \<Rightarrow> (Inl e, x2)
                 | (Inr pendingRV, x2) \<Rightarrow>
                     (case e_exec env req (e_peers env x2) of (response, x3) \<Rightarrow>
                        settle_fenced env b current pendingRV nextEpoch uid (length stmts) response (e_peers env x3))))"

definition ExecTransactionResult ::
    "('x, 'tr, 'rc) env \<Rightarrow> rhizaSQL \<Rightarrow> statement list \<Rightarrow> 'x \<Rightarrow> (db_error + nat) \<times> 'x" where
  "ExecTransactionResult env d stmts x0 =
     (if stmts = [] then (Inl ErrEmptyTransaction, x0)
      else case rz_trust d of
        None \<Rightarrow>
          if rz_trustRequired d then (Inl ErrTrustUnsettled, x0)
          else (case e_uuid env x0 of (uid, x1) \<Rightarrow>
                  (case execRaw env \<lparr>rq_ID = uid, rq_Statements = stmts, rq_Tail = None\<rparr> x1 of
                     (Inl e, x2) \<Rightarrow> (Inl e, x2)
                   | (Inr response, x2) \<Rightarrow> (Inr (rs_RowsAffected response), x2)))
      | Some b \<Rightarrow> execute_fenced env b stmts x0)"

subsection \<open>Reads\<close>

text \<open>\<open>x\<close> is the world at the first read of the anchor, \<open>x1\<close> at the query, \<open>x2\<close> at the check of the
  database pair, \<open>x3\<close> at the second read of the anchor: nothing but time passes in between here, but
  other nodes may act.\<close>

definition query_fenced :: "('x, 'tr, 'rc) env \<Rightarrow> binding \<Rightarrow> 'x \<Rightarrow> 'x \<Rightarrow> 'x \<Rightarrow> 'x \<Rightarrow> db_error + tables" where
  "query_fenced env b x x1 x2 x3 =
     (if \<not> e_lock env x then Inl ErrCtx
      else case anchor_get env b x of
        Inl e \<Rightarrow> Inl e
      | Inr (first, rv) \<Rightarrow>
          if ta_PendingEpoch first \<noteq> None then Inl ErrPendingWrite
          else case e_query env x1 of
            Inl e \<Rightarrow> Inl e
          | Inr rows \<Rightarrow>
              (case verifyDBTrust env (ta_Epoch first) (ta_Token first) x2 of
                 Some e \<Rightarrow> Inl e
               | None \<Rightarrow>
                   (case anchor_get env b x3 of
                      Inl e \<Rightarrow> Inl e
                    | Inr (second, rv2) \<Rightarrow>
                        if rv \<noteq> rv2 \<or> ta_PendingEpoch second \<noteq> None \<or> ta_Epoch second \<noteq> ta_Epoch first \<or>
                           ta_Token second \<noteq> ta_Token first
                        then Inl ErrTrustChanged else Inr rows)))"

definition QueryContext :: "('x, 'tr, 'rc) env \<Rightarrow> rhizaSQL \<Rightarrow> 'x \<Rightarrow> 'x \<Rightarrow> 'x \<Rightarrow> 'x \<Rightarrow> db_error + tables" where
  "QueryContext env d x x1 x2 x3 =
     (case rz_trust d of
        None \<Rightarrow> if rz_trustRequired d then Inl ErrTrustUnsettled else e_query env x1
      | Some b \<Rightarrow> query_fenced env b x x1 x2 x3)"

text \<open>The connection the store uses, when no other node acts during a read.\<close>

definition rhiza_conn :: "('x, 'tr, 'rc) env \<Rightarrow> rhizaSQL \<Rightarrow> 'x conn" where
  "rhiza_conn env d = \<lparr>c_exec = ExecTransactionResult env d, c_query = (\<lambda>x. QueryContext env d x x x x)\<rparr>"

subsection \<open>What is documented of the database and of the anchor's store\<close>

text \<open>The effect of a request that was applied.\<close>

definition applied :: "exec_request \<Rightarrow> tables \<Rightarrow> (int \<times> string) option \<Rightarrow> tables \<Rightarrow> (int \<times> string) option \<Rightarrow> nat list \<Rightarrow> bool" where
  "applied req t p t' p' ns \<longleftrightarrow> run_tx (rq_Statements req) t = Inr (t', ns) \<and>
     (case rq_Tail req of None \<Rightarrow> p' = p | Some (old, new) \<Rightarrow> p = Some old \<and> p' = Some new)"

locale fence_env =
  fixes env :: "('x, 'tr, 'rc) env"
    and v_tables :: "'x \<Rightarrow> tables" and v_trust :: "'x \<Rightarrow> (int \<times> string) option"
    and v_anchor :: "'x \<Rightarrow> ('tr, 'rc) trustAnchorRecord" and v_rv :: "'x \<Rightarrow> string"
  assumes quiet [simp]: "e_peers env x = x"
    and get_ok: "e_get env x = Inr (r, rv) \<Longrightarrow> r = v_anchor x \<and> rv = v_rv x"
    and cas_db: "e_cas env rv r x = (q, x') \<Longrightarrow> v_tables x' = v_tables x \<and> v_trust x' = v_trust x"
    and cas_ok: "e_cas env rv r x = (Inr rv', x') \<Longrightarrow> rv = v_rv x \<and> v_anchor x' = r \<and> v_rv x' = rv'"
    and cas_err: "e_cas env rv r x = (Inl e, x') \<Longrightarrow>
      (v_anchor x' = v_anchor x \<and> v_rv x' = v_rv x) \<or> (rv = v_rv x \<and> v_anchor x' = r)"
    and exec_anchor: "e_exec env req x = (p, x') \<Longrightarrow> v_anchor x' = v_anchor x \<and> v_rv x' = v_rv x"
    and exec_committed: "e_exec env req x = (p, x') \<Longrightarrow> rs_Err p = None \<Longrightarrow> rs_Status p = MutationCommitted \<Longrightarrow>
      \<exists>ns tail. applied req (v_tables x) (v_trust x) (v_tables x') (v_trust x') ns \<and>
        rs_RowsAffected p = sum_list (ns @ tail) \<and> rs_Statements p = ns @ tail \<and>
        length tail = (if rq_Tail req = None then 0 else 1)"
    and exec_rejected: "e_exec env req x = (p, x') \<Longrightarrow> rs_Status p = MutationRejected \<Longrightarrow>
      v_tables x' = v_tables x \<and> v_trust x' = v_trust x"
    and exec_other: "e_exec env req x = (p, x') \<Longrightarrow>
      (v_tables x' = v_tables x \<and> v_trust x' = v_trust x) \<or>
      (\<exists>ns. applied req (v_tables x) (v_trust x) (v_tables x') (v_trust x') ns)"
    and query_current: "e_query env x = Inr t \<Longrightarrow> t = v_tables x"
    and trust_current: "e_query_trust env x = Inr ps \<Longrightarrow> ps = (case v_trust x of None \<Rightarrow> [] | Some p \<Rightarrow> [p])"
    and uuid_ok: "e_uuid env x = (uid, x') \<Longrightarrow> validUUID uid \<and> v_tables x' = v_tables x \<and> v_trust x' = v_trust x \<and>
      v_anchor x' = v_anchor x \<and> v_rv x' = v_rv x"

subsection \<open>A fenced write, abstractly\<close>

text \<open>The three things that matter: the tables, the database's pair, the anchor.  A write that gets as far
  as the reservation found no fence and the database on the anchor's pair.\<close>

type_synonym ('tr, 'rc) fstate = "tables \<times> (int \<times> string) option \<times> ('tr, 'rc) trustAnchorRecord"

definition settled :: "('tr, 'rc) fstate \<Rightarrow> bool" where
  "settled s = (case s of (t, p, r) \<Rightarrow> p = Some (anchor_pair r) \<and> ta_PendingEpoch r = None \<and> ta_PendingID r = '''')"

inductive fenced_write :: "statement list \<Rightarrow> ('tr, 'rc) fstate \<Rightarrow> db_error + nat \<Rightarrow> ('tr, 'rc) fstate \<Rightarrow> bool" for ss where
  untouched: "fenced_write ss s (Inl e) s"
| reserved: "settled (t, p, r) \<Longrightarrow> validUUID uid \<Longrightarrow>
    fenced_write ss (t, p, r) (Inl e) (t, p, reserve (ta_Epoch r + 1) uid r)"
| written: "settled (t, p, r) \<Longrightarrow> validUUID uid \<Longrightarrow> run_tx ss t = Inr (t', ns) \<Longrightarrow>
    fenced_write ss (t, p, r) (Inl e) (t', Some (ta_Epoch r + 1, uid), reserve (ta_Epoch r + 1) uid r)"
| published: "settled (t, p, r) \<Longrightarrow> validUUID uid \<Longrightarrow> run_tx ss t = Inr (t', ns) \<Longrightarrow> q = Inr (sum_list ns) \<or> (\<exists>e. q = Inl e) \<Longrightarrow>
    fenced_write ss (t, p, r) q (t', Some (ta_Epoch r + 1, uid), finalize (ta_Epoch r + 1) uid r)"

context fence_env
begin

definition fstate :: "'x \<Rightarrow> ('tr, 'rc) fstate" where
  "fstate x = (v_tables x, v_trust x, v_anchor x)"

lemma anchor_get_Inr: "anchor_get env b x = Inr (r, rv) \<longleftrightarrow> e_get env x = Inr (r, rv) \<and> validate (e_ops env) b r"
  by (auto simp: anchor_get_def split: sum.splits if_splits)

lemma verifyDBTrust_None: "verifyDBTrust env e tok x = None \<Longrightarrow> v_trust x = Some (e, tok)"
  using trust_current [of x]
  by (auto simp: verifyDBTrust_def split: sum.splits list.splits if_splits option.splits)

lemma anchor_cas_cases:
  assumes "anchor_cas env b rv r x = (q, x')"
  obtains (kept) e where "q = Inl e" "v_anchor x' = v_anchor x" "v_rv x' = v_rv x" "v_tables x' = v_tables x" "v_trust x' = v_trust x"
    | (lost) e where "q = Inl e" "v_anchor x' = r" "v_tables x' = v_tables x" "v_trust x' = v_trust x" "validate (e_ops env) b r"
    | (swapped) rv' where "q = Inr rv'" "v_anchor x' = r" "v_rv x' = rv'" "v_tables x' = v_tables x" "v_trust x' = v_trust x"
        "validate (e_ops env) b r"
proof (cases "validate (e_ops env) b r")
  case False
  then show ?thesis using assms kept by (auto simp: anchor_cas_def)
next
  case True
  obtain q0 x0 where c: "e_cas env rv r x = (q0, x0)" by (cases "e_cas env rv r x")
  then show ?thesis
  proof (cases q0)
    case (Inl e)
    then have "q = Inl ErrAnchorUpdate" "x0 = x'" using assms c True by (simp_all add: anchor_cas_def)
    then show ?thesis using cas_db [OF c] cas_err [of rv r x e x0] c Inl True kept lost by auto
  next
    case (Inr rv')
    then have "q = Inr rv'" "x0 = x'" using assms c True by (simp_all add: anchor_cas_def)
    then show ?thesis using cas_db [OF c] cas_ok [of rv r x rv' x0] c Inr True swapped by auto
  qed
qed

lemma settle_fenced_cases:
  assumes run: "settle_fenced env b r prv (ta_Epoch r + 1) uid (length ss) p x = (q, x')"
    and ex: "e_exec env \<lparr>rq_ID = uid, rq_Statements = ss, rq_Tail = Some (anchor_pair r, (ta_Epoch r + 1, uid))\<rparr> x2 = (p, x)"
    and x2: "v_anchor x2 = reserve (ta_Epoch r + 1) uid r" "v_trust x2 = Some (anchor_pair r)"
    and set: "settled (v_tables x2, Some (anchor_pair r), r)" "validUUID uid"
  shows "fenced_write ss (v_tables x2, Some (anchor_pair r), r) q (fstate x')"
proof -
  let ?req = "\<lparr>rq_ID = uid, rq_Statements = ss, rq_Tail = Some (anchor_pair r, (ta_Epoch r + 1, uid))\<rparr>"
  have anch: "v_anchor x = reserve (ta_Epoch r + 1) uid r" using exec_anchor [OF ex] x2 by simp
  have cl: "clear_pending r = r" using set by (cases r) (auto simp: settled_def clear_pending_def)
  show ?thesis
  proof (cases "rs_Err p = None \<and> rs_Status p = MutationCommitted")
    case True
    then obtain ns tail where ap: "applied ?req (v_tables x2) (v_trust x2) (v_tables x) (v_trust x) ns"
      and st: "rs_Statements p = ns @ tail" "length tail = 1"
      using exec_committed [OF ex] by auto
    have tx: "run_tx ss (v_tables x2) = Inr (v_tables x, ns)" "v_trust x = Some (ta_Epoch r + 1, uid)"
      using ap by (auto simp: applied_def)
    have len: "length ns = length ss" using run_tx_length [OF tx(1)] .
    obtain q1 x1 where c: "anchor_cas env b prv (finalize (ta_Epoch r + 1) uid r) x = (q1, x1)"
      by (cases "anchor_cas env b prv (finalize (ta_Epoch r + 1) uid r) x")
    have x': "x' = x1" "q = (case q1 of Inl e \<Rightarrow> Inl e | Inr _ \<Rightarrow> Inr (sum_list ns))"
      using run True c st len by (auto simp: settle_fenced_def split: sum.splits)
    from c show ?thesis
    proof (cases rule: anchor_cas_cases)
      case (kept e)
      then show ?thesis using written [OF set tx(1)] x' anch tx by (simp add: fstate_def)
    next
      case (lost e)
      then show ?thesis using published [OF set tx(1)] x' tx by (simp add: fstate_def)
    next
      case (swapped rv')
      then show ?thesis using published [OF set tx(1)] x' tx by (simp add: fstate_def)
    qed
  next
    case False
    show ?thesis
    proof (cases "rs_Status p = MutationRejected \<and> verifyDBTrust env (ta_Epoch r) (ta_Token r) x = None")
      case True
      then have same: "v_tables x = v_tables x2" "v_trust x = Some (anchor_pair r)"
        using exec_rejected [OF ex] x2 by auto
      obtain q1 x1 where c: "anchor_cas env b prv (clear_pending r) x = (q1, x1)"
        by (cases "anchor_cas env b prv (clear_pending r) x")
      have x': "x' = x1" "\<exists>e. q = Inl e"
        using run True False c by (auto simp: settle_fenced_def Let_def split: sum.splits if_splits)
      from c show ?thesis
      proof (cases rule: anchor_cas_cases)
        case (kept e)
        then show ?thesis using reserved [OF set] x' anch same by (auto simp: fstate_def)
      qed (use x' same cl untouched in \<open>auto simp: fstate_def\<close>)
    next
      case nf: False
      then have x': "x' = x" "\<exists>e. q = Inl e"
        using run False by (auto simp: settle_fenced_def Let_def split: if_splits)
      show ?thesis using exec_other [OF ex] reserved [OF set] written [OF set] x' anch x2
        by (auto simp: fstate_def applied_def)
    qed
  qed
qed

lemma execute_fenced_refines:
  assumes run: "execute_fenced env b ss x0 = (q, x')"
  shows "fenced_write ss (fstate x0) q (fstate x')"
proof (cases "\<exists>r rv. e_lock env x0 \<and> e_ctx env x0 \<and> anchor_get env b x0 = Inr (r, rv) \<and> ta_PendingEpoch r = None \<and>
    verifyDBTrust env (ta_Epoch r) (ta_Token r) x0 = None")
  case False
  then have "x' = x0" "\<exists>e. q = Inl e"
    using run by (auto simp: execute_fenced_def split: sum.splits if_splits option.splits)
  then show ?thesis by (auto intro: fenced_write.untouched)
next
  case True
  then obtain r rv where gate: "e_lock env x0" "e_ctx env x0" and g: "anchor_get env b x0 = Inr (r, rv)"
    and np: "ta_PendingEpoch r = None" and v: "verifyDBTrust env (ta_Epoch r) (ta_Token r) x0 = None" by auto
  have r: "r = v_anchor x0" "validate (e_ops env) b r" using g get_ok by (auto simp: anchor_get_Inr)
  have tr: "v_trust x0 = Some (anchor_pair r)" using verifyDBTrust_None [OF v] by (simp add: anchor_pair_def)
  have "ta_PendingID r = ''''" using r(2) np by (simp add: validate_def validateStructure_def)
  then have set: "settled (v_tables x0, Some (anchor_pair r), r)" using np by (simp add: settled_def)
  obtain uid x1 where u: "e_uuid env x0 = (uid, x1)" by (cases "e_uuid env x0")
  define req where "req = \<lparr>rq_ID = uid, rq_Statements = ss, rq_Tail = Some (anchor_pair r, (ta_Epoch r + 1, uid))\<rparr>"
  have f0: "fstate x0 = (v_tables x0, Some (anchor_pair r), r)" using tr r by (simp add: fstate_def)
  have f1: "fstate x1 = fstate x0" "v_tables x1 = v_tables x0" "v_trust x1 = Some (anchor_pair r)" and uid: "validUUID uid"
    using uuid_ok [OF u] tr by (auto simp: fstate_def)
  obtain q2 x2 where c: "anchor_cas env b rv (reserve (ta_Epoch r + 1) uid r) x1 = (q2, x2)"
    by (cases "anchor_cas env b rv (reserve (ta_Epoch r + 1) uid r) x1")
  show ?thesis
  proof (cases "e_validate env req")
    case False
    then have "x' = x1" "q = Inl ErrInvalidRequest"
      using run gate g np v u by (auto simp: execute_fenced_def Let_def req_def)
    then show ?thesis using f1 by (auto intro: fenced_write.untouched)
  next
    case ok: True
    from c show ?thesis
    proof (cases rule: anchor_cas_cases)
      case (kept e)
      then have "x' = x2" "q = Inl e"
        using run gate g np v u c ok by (auto simp: execute_fenced_def Let_def req_def)
      then show ?thesis using kept f1 untouched [of ss "fstate x0" e] by (simp add: fstate_def)
    next
      case (lost e)
      then have "x' = x2" "q = Inl e"
        using run gate g np v u c ok by (auto simp: execute_fenced_def Let_def req_def)
      then show ?thesis using lost f0 f1 reserved [OF set uid] by (simp add: fstate_def)
    next
      case (swapped prv)
      obtain p x3 where ex: "e_exec env req x2 = (p, x3)" by (cases "e_exec env req x2")
      have "settle_fenced env b r prv (ta_Epoch r + 1) uid (length ss) p x3 = (q, x')"
        using run gate g np v u c ok swapped(1) ex by (auto simp: execute_fenced_def Let_def req_def)
      then show ?thesis using settle_fenced_cases [OF _ ex [unfolded req_def] swapped(2) _ _ uid] swapped f0 f1 set by simp
    qed
  qed
qed

text \<open>Hence the connection meets the store's contract, fenced or not.\<close>

lemma fenced_write_tx: "fenced_write ss s q s' \<Longrightarrow>
    (\<forall>n. q = Inr n \<longrightarrow> (\<exists>ns. run_tx ss (fst s) = Inr (fst s', ns) \<and> n = sum_list ns)) \<and>
    (fst s' = fst s \<or> (\<exists>ns. run_tx ss (fst s) = Inr (fst s', ns)))"
  by (induction rule: fenced_write.induct) auto

lemma execRaw_tx:
  assumes "execRaw env \<lparr>rq_ID = uid, rq_Statements = ss, rq_Tail = None\<rparr> x = (q, x')"
  shows "(\<forall>p. q = Inr p \<longrightarrow> (\<exists>ns. run_tx ss (v_tables x) = Inr (v_tables x', ns) \<and> rs_RowsAffected p = sum_list ns)) \<and>
    (v_tables x' = v_tables x \<or> (\<exists>ns. run_tx ss (v_tables x) = Inr (v_tables x', ns)))"
proof -
  obtain p where ex: "e_exec env \<lparr>rq_ID = uid, rq_Statements = ss, rq_Tail = None\<rparr> x = (p, x')" and q: "q = committedResponse p"
    using assms by (auto simp: execRaw_def split: prod.splits)
  show ?thesis using exec_committed [OF ex] exec_other [OF ex] q
    by (auto simp: committedResponse_def applied_def split: option.splits if_splits)
qed

lemma ExecTransactionResult_tx:
  assumes "ExecTransactionResult env d ss x = (q, x')"
  shows "(\<forall>n. q = Inr n \<longrightarrow> (\<exists>ns. run_tx ss (v_tables x) = Inr (v_tables x', ns) \<and> n = sum_list ns)) \<and>
    (v_tables x' = v_tables x \<or> (\<exists>ns. run_tx ss (v_tables x) = Inr (v_tables x', ns)))"
proof (cases "ss = [] \<or> (rz_trust d = None \<and> rz_trustRequired d)")
  case True
  then show ?thesis using assms by (auto simp: ExecTransactionResult_def split: option.splits if_splits)
next
  case False
  show ?thesis
  proof (cases "rz_trust d")
    case None
    obtain uid x1 where u: "e_uuid env x = (uid, x1)" by (cases "e_uuid env x")
    obtain q1 x2 where e: "execRaw env \<lparr>rq_ID = uid, rq_Statements = ss, rq_Tail = None\<rparr> x1 = (q1, x2)"
      by (cases "execRaw env \<lparr>rq_ID = uid, rq_Statements = ss, rq_Tail = None\<rparr> x1")
    have "x' = x2" "q = (case q1 of Inl e \<Rightarrow> Inl e | Inr p \<Rightarrow> Inr (rs_RowsAffected p))"
      using assms None False u e by (auto simp: ExecTransactionResult_def split: sum.splits)
    then show ?thesis using execRaw_tx [OF e] uuid_ok [OF u] by (auto split: sum.splits)
  next
    case (Some b)
    then have "execute_fenced env b ss x = (q, x')" using assms False by (simp add: ExecTransactionResult_def)
    then show ?thesis using fenced_write_tx [OF execute_fenced_refines] by (fastforce simp: fstate_def)
  qed
qed

lemma QueryContext_Inr: "QueryContext env d x x1 x2 x3 = Inr t \<Longrightarrow> t = v_tables x1"
  using query_current
  by (auto simp: QueryContext_def query_fenced_def split: option.splits sum.splits if_splits)

end

sublocale fence_env \<subseteq> rz: sql_conn v_tables "rhiza_conn env d" for d
  using ExecTransactionResult_tx QueryContext_Inr
  by unfold_locales (fastforce simp: rhiza_conn_def)+

end
