(* ===== verification/Reference_Env.thy ===== *)
theory Reference_Env
  imports Trust_Fence
begin

section \<open>A reference environment\<close>

text \<open>
  A concrete database and anchor store that meet \<open>fence_env\<close>: the tables and the pair are values, the
  anchor is a record with a version number, and a script decides for each request whether it is
  served, applied with its response lost, or refused.  It shows that the assumptions on the
  environment are consistent, on failing runs too, and gives the connection on which the properties
  of the store are evaluated.
\<close>

datatype fault = Served | ResponseLost | Refused

record world =
  wo_tables :: tables
  wo_trust :: "(int \<times> string) option"
  wo_anchor :: "(nat, nat) trustAnchorRecord"
  wo_version :: nat
  wo_ids :: nat
  wo_script :: "fault list"

definition next_fault :: "world \<Rightarrow> fault \<times> world" where
  "next_fault x = (case wo_script x of [] \<Rightarrow> (Served, x) | f # fs \<Rightarrow> (f, x\<lparr>wo_script := fs\<rparr>))"

definition ref_uuid :: "nat \<Rightarrow> string" where
  "ref_uuid n = ''00000000-0000-4000-8000-'' @
     (let d = FormatUint (n mod 10 ^ 12) in replicate (12 - length d) CHR ''0'' @ d)"

text \<open>The statements and then the tail, all or nothing.\<close>

definition ref_apply :: "exec_request \<Rightarrow> world \<Rightarrow> (world \<times> nat list) option" where
  "ref_apply req x =
     (case run_tx (rq_Statements req) (wo_tables x) of
        Inl _ \<Rightarrow> None
      | Inr (t', ns) \<Rightarrow>
          (case rq_Tail req of
             None \<Rightarrow> Some (x\<lparr>wo_tables := t'\<rparr>, ns)
           | Some (old, new) \<Rightarrow> if wo_trust x = Some old then Some (x\<lparr>wo_tables := t', wo_trust := Some new\<rparr>, ns @ [1]) else None))"

definition ref_exec :: "exec_request \<Rightarrow> world \<Rightarrow> exec_response \<times> world" where
  "ref_exec req x0 =
     (case next_fault x0 of (f, x) \<Rightarrow>
        if f = Refused then (\<lparr>rs_Status = MutationOther, rs_Err = Some ErrQuorumUnavailable, rs_RowsAffected = 0, rs_Statements = []\<rparr>, x)
        else case ref_apply req x of
          None \<Rightarrow> (\<lparr>rs_Status = MutationRejected, rs_Err = None, rs_RowsAffected = 0, rs_Statements = []\<rparr>, x)
        | Some (x', ns) \<Rightarrow>
            if f = Served then (\<lparr>rs_Status = MutationCommitted, rs_Err = None, rs_RowsAffected = sum_list ns, rs_Statements = ns\<rparr>, x')
            else (\<lparr>rs_Status = MutationOther, rs_Err = Some ErrCommitUnknown, rs_RowsAffected = 0, rs_Statements = []\<rparr>, x'))"

definition ref_cas :: "string \<Rightarrow> (nat, nat) trustAnchorRecord \<Rightarrow> world \<Rightarrow> (db_error + string) \<times> world" where
  "ref_cas rv r x0 =
     (case next_fault x0 of (f, x) \<Rightarrow>
        if f = Refused \<or> rv \<noteq> FormatUint (wo_version x) then (Inl ErrAnchorUpdate, x)
        else let x' = x\<lparr>wo_anchor := r, wo_version := wo_version x + 1\<rparr> in
          if f = Served then (Inr (FormatUint (wo_version x')), x') else (Inl ErrAnchorUpdate, x'))"

definition ref_env :: "(world, nat, nat) env" where
  "ref_env = \<lparr>e_get = (\<lambda>x. Inr (wo_anchor x, FormatUint (wo_version x))), e_cas = ref_cas, e_exec = ref_exec,
     e_query = (\<lambda>x. Inr (wo_tables x)),
     e_query_trust = (\<lambda>x. Inr (case wo_trust x of None \<Rightarrow> [] | Some p \<Rightarrow> [p])),
     e_validate = (\<lambda>req. rq_Statements req \<noteq> []),
     e_uuid = (\<lambda>x. (ref_uuid (wo_ids x), x\<lparr>wo_ids := wo_ids x + 1\<rparr>)),
     e_lock = (\<lambda>_. True), e_ctx = (\<lambda>_. True), e_peers = (\<lambda>x. x),
     e_ops = \<lparr>tr_Generation = id, tr_AnchorID = (\<lambda>_. ''anchor''), rc_Generation = id\<rparr>\<rparr>"

lemma next_fault_views: "next_fault x = (f, x') \<Longrightarrow> wo_tables x' = wo_tables x \<and> wo_trust x' = wo_trust x \<and>
    wo_anchor x' = wo_anchor x \<and> wo_version x' = wo_version x"
  by (auto simp: next_fault_def split: list.splits)

abbreviation uuid_byte :: "nat \<times> char \<Rightarrow> bool" where
  "uuid_byte \<equiv> \<lambda>(i, c). if i = 8 \<or> i = 13 \<or> i = 18 \<or> i = 23 then c = CHR ''-'' else is_lower_hex c"

lemma uuid_tail:
  assumes "\<forall>c \<in> set d. is_lower_hex c" "24 \<le> m"
  shows "list_all uuid_byte (zip [m..<n] d)"
proof -
  have "uuid_byte (i, c)" if "(i, c) \<in> set (zip [m..<n] d)" for i c
    using set_zip_leftD [OF that] set_zip_rightD [OF that] assms by simp
  then show ?thesis by (auto simp: list_all_iff)
qed

lemma uuid_append:
  assumes "list_all uuid_byte (zip [0..<m] p)" "length p = m" "24 \<le> m" "\<forall>c \<in> set d. is_lower_hex c" "length d = k"
  shows "list_all uuid_byte (zip [0..<m + k] (p @ d))"
proof -
  have "zip [0..<m + k] (p @ d) = zip [0..<m] p @ zip [m..<m + k] d"
    using assms(2) by (simp add: upt_add_eq_append [of 0 m k] zip_append)
  then show ?thesis using assms(1) uuid_tail [OF assms(4,3)] by simp
qed

lemma validUUID_ref: "validUUID (ref_uuid n)"
proof -
  define d where "d = (let d = FormatUint (n mod 10 ^ 12) in replicate (12 - length d) CHR ''0'' @ d)"
  have "length (FormatUint (n mod 10 ^ 12)) \<le> 12" by (rule length_FormatUint) simp_all
  then have len: "length d = 12" by (simp add: d_def Let_def)
  have "\<forall>c \<in> set d. is_lower_hex c"
    using FormatUint_bytes by (auto simp: d_def Let_def is_lower_hex_def is_digit_def)
  moreover have "list_all uuid_byte (zip [0..<24] ''00000000-0000-4000-8000-'')" by code_simp
  ultimately have "list_all uuid_byte (zip [0..<24 + 12] (''00000000-0000-4000-8000-'' @ d))"
    using len by (intro uuid_append) simp_all
  then have "list_all uuid_byte (zip [0..<36] (''00000000-0000-4000-8000-'' @ d))" by (simp only: add_num_simps add_numeral_left numeral_plus_numeral)
  then show ?thesis unfolding validUUID_def ref_uuid_def d_def [symmetric] by (simp add: len del: upt_rec_numeral)
qed

lemma ref_applied: "ref_apply req x = Some (x', ns) \<Longrightarrow>
    wo_anchor x' = wo_anchor x \<and> wo_version x' = wo_version x \<and>
    (\<exists>ms tail. applied req (wo_tables x) (wo_trust x) (wo_tables x') (wo_trust x') ms \<and> ns = ms @ tail \<and>
      length tail = (if rq_Tail req = None then 0 else 1))"
  by (auto simp: ref_apply_def applied_def split: sum.splits option.splits if_splits)


lemma ref_exec_spec:
  assumes "ref_exec req x = (p, x')"
  shows "wo_anchor x' = wo_anchor x \<and> wo_version x' = wo_version x"
    and "rs_Err p = None \<Longrightarrow> rs_Status p = MutationCommitted \<Longrightarrow>
      \<exists>ns tail. applied req (wo_tables x) (wo_trust x) (wo_tables x') (wo_trust x') ns \<and>
        rs_RowsAffected p = sum_list (ns @ tail) \<and> rs_Statements p = ns @ tail \<and> length tail = (if rq_Tail req = None then 0 else 1)"
    and "rs_Status p = MutationRejected \<Longrightarrow> wo_tables x' = wo_tables x \<and> wo_trust x' = wo_trust x"
    and "(wo_tables x' = wo_tables x \<and> wo_trust x' = wo_trust x) \<or>
      (\<exists>ns. applied req (wo_tables x) (wo_trust x) (wo_tables x') (wo_trust x') ns)"
proof -
  obtain f y where f: "next_fault x = (f, y)" by (cases "next_fault x")
  note v = next_fault_views [OF f]
  show "wo_anchor x' = wo_anchor x \<and> wo_version x' = wo_version x"
    using assms f v by (auto simp: ref_exec_def split: if_splits option.splits dest: ref_applied)
  show "rs_Err p = None \<Longrightarrow> rs_Status p = MutationCommitted \<Longrightarrow>
      \<exists>ns tail. applied req (wo_tables x) (wo_trust x) (wo_tables x') (wo_trust x') ns \<and>
        rs_RowsAffected p = sum_list (ns @ tail) \<and> rs_Statements p = ns @ tail \<and> length tail = (if rq_Tail req = None then 0 else 1)"
    using assms f v by (fastforce simp: ref_exec_def split: if_splits option.splits dest: ref_applied)
  show "rs_Status p = MutationRejected \<Longrightarrow> wo_tables x' = wo_tables x \<and> wo_trust x' = wo_trust x"
    using assms f v by (auto simp: ref_exec_def split: if_splits option.splits)
  show "(wo_tables x' = wo_tables x \<and> wo_trust x' = wo_trust x) \<or>
      (\<exists>ns. applied req (wo_tables x) (wo_trust x) (wo_tables x') (wo_trust x') ns)"
    using assms f v by (auto simp: ref_exec_def split: if_splits option.splits dest: ref_applied)
qed

lemma ref_cas_spec:
  assumes "ref_cas rv r x = (q, x')"
  shows "wo_tables x' = wo_tables x \<and> wo_trust x' = wo_trust x"
    and "q = Inr rv' \<Longrightarrow> rv = FormatUint (wo_version x) \<and> wo_anchor x' = r \<and> FormatUint (wo_version x') = rv'"
    and "q = Inl e \<Longrightarrow> (wo_anchor x' = wo_anchor x \<and> wo_version x' = wo_version x) \<or>
      (rv = FormatUint (wo_version x) \<and> wo_anchor x' = r)"
proof -
  obtain f y where f: "next_fault x = (f, y)" by (cases "next_fault x")
  note v = next_fault_views [OF f]
  show "wo_tables x' = wo_tables x \<and> wo_trust x' = wo_trust x"
    using assms f v by (auto simp: ref_cas_def Let_def split: if_splits)
  show "q = Inr rv' \<Longrightarrow> rv = FormatUint (wo_version x) \<and> wo_anchor x' = r \<and> FormatUint (wo_version x') = rv'"
    using assms f v by (auto simp: ref_cas_def Let_def split: if_splits)
  show "q = Inl e \<Longrightarrow> (wo_anchor x' = wo_anchor x \<and> wo_version x' = wo_version x) \<or>
      (rv = FormatUint (wo_version x) \<and> wo_anchor x' = r)"
    using assms f v by (auto simp: ref_cas_def Let_def split: if_splits)
qed

interpretation ref: fence_env ref_env wo_tables wo_trust wo_anchor "\<lambda>x. FormatUint (wo_version x)"
proof unfold_locales
  fix x :: world
  show "e_peers ref_env x = x" by (simp add: ref_env_def)
next
  fix x :: world and r rv assume "e_get ref_env x = Inr (r, rv)"
  then show "r = wo_anchor x \<and> rv = FormatUint (wo_version x)" by (simp add: ref_env_def)
next
  fix rv r and x :: world and q x' assume "e_cas ref_env rv r x = (q, x')"
  then show "wo_tables x' = wo_tables x \<and> wo_trust x' = wo_trust x" using ref_cas_spec(1) by (simp add: ref_env_def)
next
  fix rv r and x :: world and rv' x' assume "e_cas ref_env rv r x = (Inr rv', x')"
  then show "rv = FormatUint (wo_version x) \<and> wo_anchor x' = r \<and> FormatUint (wo_version x') = rv'"
    using ref_cas_spec(2) by (simp add: ref_env_def)
next
  fix rv r and x :: world and e x' assume "e_cas ref_env rv r x = (Inl e, x')"
  then have "ref_cas rv r x = (Inl e, x')" by (simp add: ref_env_def)
  from ref_cas_spec(3) [OF this]
  show "(wo_anchor x' = wo_anchor x \<and> FormatUint (wo_version x') = FormatUint (wo_version x)) \<or>
      (rv = FormatUint (wo_version x) \<and> wo_anchor x' = r)" by auto
next
  fix req and x :: world and p x' assume e: "e_exec ref_env req x = (p, x')"
  then have r: "ref_exec req x = (p, x')" by (simp add: ref_env_def)
  show "wo_anchor x' = wo_anchor x \<and> FormatUint (wo_version x') = FormatUint (wo_version x)"
    using ref_exec_spec(1) [OF r] by simp
  show "\<exists>ns tail. applied req (wo_tables x) (wo_trust x) (wo_tables x') (wo_trust x') ns \<and>
        rs_RowsAffected p = sum_list (ns @ tail) \<and> rs_Statements p = ns @ tail \<and> length tail = (if rq_Tail req = None then 0 else 1)"
    if "rs_Err p = None" "rs_Status p = MutationCommitted" by (rule ref_exec_spec(2) [OF r that])
  show "wo_tables x' = wo_tables x \<and> wo_trust x' = wo_trust x" if "rs_Status p = MutationRejected"
    by (rule ref_exec_spec(3) [OF r that])
  show "(wo_tables x' = wo_tables x \<and> wo_trust x' = wo_trust x) \<or>
      (\<exists>ns. applied req (wo_tables x) (wo_trust x) (wo_tables x') (wo_trust x') ns)" by (rule ref_exec_spec(4) [OF r])
next
  fix x :: world and t assume "e_query ref_env x = Inr t"
  then show "t = wo_tables x" by (simp add: ref_env_def)
next
  fix x :: world and ps assume "e_query_trust ref_env x = Inr ps"
  then show "ps = (case wo_trust x of None \<Rightarrow> [] | Some p \<Rightarrow> [p])" by (simp add: ref_env_def)
next
  fix x :: world and uid x' assume "e_uuid ref_env x = (uid, x')"
  then show "validUUID uid \<and> wo_tables x' = wo_tables x \<and> wo_trust x' = wo_trust x \<and> wo_anchor x' = wo_anchor x \<and>
      FormatUint (wo_version x') = FormatUint (wo_version x)"
    using validUUID_ref by (auto simp: ref_env_def)
qed

end
