(* ===== verification/Store_Properties.thy ===== *)
theory Store_Properties
  imports Store_Invariant Reference_Env
begin

section \<open>What the store guarantees\<close>

text \<open>
  The properties of the store's methods on any connection that meets \<open>sql_conn\<close>.  The witnesses run
  the methods on the fenced connection of the reference environment.
\<close>

subsection \<open>Calls and invariants\<close>

lemma store_calls_reach:
  assumes "sql_conn view c" "(store_call F c)\<^sup>*\<^sup>* w w'"
  shows "reaches (store_tx F) (view w) (view w')"
  using assms(2)
  by (induction rule: rtranclp_induct) (auto intro: reaches_trans sql_conn.store_call_reaches [OF assms(1)])

lemma store_calls_keep:
  assumes "sql_conn view c" "(store_call F c)\<^sup>*\<^sup>* w w'" "I (view w)"
    and "\<And>ss t t' ns. store_tx F ss \<Longrightarrow> I t \<Longrightarrow> run_tx ss t = Inr (t', ns) \<Longrightarrow> I t'"
  shows "I (view w')"
  by (rule reaches_keeps [OF store_calls_reach [OF assms(1,2)]]) (fact assms)+

lemma store_calls_db_ok:
  "sql_conn view c \<Longrightarrow> (store_call F c)\<^sup>*\<^sup>* w w' \<Longrightarrow> db_ok (view w) \<Longrightarrow> db_ok (view w')"
  by (rule store_calls_keep [where I = db_ok]) (auto intro: store_tx_db_ok)

lemma store_calls_audit:
  assumes "sql_conn view c" "(store_call F c)\<^sup>*\<^sup>* w w'"
  shows "audit_from (audit_events (view w)) (view w')"
proof (rule store_calls_keep [OF assms, where I = "audit_from (audit_events (view w))"])
  show "audit_from (audit_events (view w)) (view w)" by (simp add: audit_from_def)
  fix ss t t' ns
  assume "store_tx F ss" "audit_from (audit_events (view w)) t" "run_tx ss t = Inr (t', ns)"
  then show "audit_from (audit_events (view w)) t'"
    using run_tx_keeps [of ss "audit_from (audit_events (view w))" t t' ns] store_tx_audit by blast
qed

lemma store_calls_dead:
  assumes "sql_conn view c" "(store_call (\<lambda>x. x \<noteq> hid) c)\<^sup>*\<^sup>* w w'" "host_dead hid (view w)"
  shows "host_dead hid (view w')"
proof (rule store_calls_keep [OF assms(1,2), where I = "host_dead hid", OF assms(3)])
  fix ss t t' ns
  assume "store_tx (\<lambda>x. x \<noteq> hid) ss" "host_dead hid t" "run_tx ss t = Inr (t', ns)"
  then show "host_dead hid t'"
    using run_tx_keeps [of ss "host_dead hid" t t' ns] store_tx_dead by blast
qed

text \<open>Reading the outcome of the combinators.\<close>

lemma with_tx_Inr:
  assumes "sql_conn view c" "with_tx c ss k w = (Inr a, w')"
  obtains n w1 ns where "run_tx ss (view w) = Inr (view w1, ns)" "n = sum_list ns" "k n w1 = (Inr a, w')"
proof -
  obtain q w1 where q: "c_exec c ss w = (q, w1)" by (cases "c_exec c ss w")
  then obtain n where n: "q = Inr n" "k n w1 = (Inr a, w')"
    using assms(2) by (cases q) (auto simp: with_tx_def)
  then show ?thesis using sql_conn.exec_ok [OF assms(1), of ss w n w1] q that by auto
qed

lemma with_query_Inr:
  assumes "sql_conn view c" "with_query c k w = (Inr a, w')"
  shows "k (view w) w = (Inr a, w')"
  using assms sql_conn.query_ok [OF assms(1), of w] by (auto simp: with_query_def split: sum.splits)

lemma locked_Inr: "locked ok body w = (Inr a, w') \<longleftrightarrow> ok \<and> body w = (Inr a, w')"
  by (simp add: locked_def)

lemma return_Inr: "return a w = (Inr b, w') \<longleftrightarrow> b = a \<and> w' = w"
  by (auto simp: return_def)

lemma fail_Inr: "fail e w \<noteq> (Inr b, w')" by (simp add: fail_def)

text \<open>An audit statement only appends to the log.\<close>

lemma audit_for_frame:
  assumes "insert_for src P (insert_audit e) t = Inr (t', n)"
  shows "\<exists>es. t' = t\<lparr>audit_events := audit_events t @ es\<rparr>"
proof -
  have "keeps (\<lambda>t'. \<exists>es. t' = t\<lparr>audit_events := audit_events t @ es\<rparr>) (insert_audit e)"
    by (auto simp: keeps_def insert_audit_def insert_row_def comp_def split: if_splits)
  then have "keeps (\<lambda>t'. \<exists>es. t' = t\<lparr>audit_events := audit_events t @ es\<rparr>) (insert_for src P (insert_audit e))"
    by (rule keeps_insert_for)
  moreover have "t = t\<lparr>audit_events := audit_events t @ []\<rparr>" by simp
  ultimately show ?thesis using assms unfolding keeps_def by blast
qed

subsection \<open>A dead host\<close>

definition revoke_device :: "string \<Rightarrow> int \<Rightarrow> Device \<Rightarrow> Device" where
  "revoke_device i now d = (if d_ID d = i \<and> d_State d \<noteq> ''revoked''
     then d\<lparr>d_State := ''revoked'', d_LastSeenAt := Some now\<rparr> else d)"

lemma revoke_tx_devices:
  "run_tx (revoke_tx aid now i hid actor) t = Inr (t', ns) \<Longrightarrow> devices t' = map (revoke_device i now) (devices t)"
  by (auto simp: revoke_tx_def run_tx_Cons_Inr update_rows_def delete_rows_def revoke_device_def dest!: audit_for_frame)

lemma DeleteDevice_dead:
  assumes "sql_conn view c" "db_ok (view w)" "DeleteDevice c ok aid now i actor w = (Inr (), w')"
    and "d \<in> set (devices (view w))" "d_ID d = i"
  shows "host_dead (d_HostID d) (view w')"
proof -
  have keys: "unique device_clash (devices (view w))" and one: "distinct (map d_HostID (devices (view w)))"
    using assms(2) by (auto simp: db_ok_def keys_ok_def fleet_ok_def)
  have only: "x = d" if "x \<in> set (devices (view w))" "d_HostID x = d_HostID d" for x
    using one that assms(4) by (simp add: distinct_map inj_on_def)
  obtain d0 where d0: "query_row (\<lambda>d. d_ID d = i) (devices (view w)) = Some d0"
    using assms(4,5) query_row_None [of "\<lambda>d. d_ID d = i" "devices (view w)"]
    by (cases "query_row (\<lambda>d. d_ID d = i) (devices (view w))") auto
  have "d0 \<in> set (devices (view w))" "d_ID d0 = i" using query_row_Some [OF d0] by auto
  then have eq: "d0 = d" using unique_find [OF keys _ assms(4)] assms(5) by (simp add: device_clash_def)
  have run: "(if d_State d = ''revoked'' then return () else with_tx c (revoke_tx aid now i (d_HostID d) actor) (\<lambda>_. return ())) w = (Inr (), w')"
    using assms(3) d0 eq
    by (auto simp: DeleteDevice_def locked_Inr fail_Inr split: if_splits dest!: with_query_Inr [OF assms(1)])
  show ?thesis
  proof (cases "d_State d = ''revoked''")
    case True
    then show ?thesis using run only by (auto simp: return_Inr host_dead_def list_all_iff)
  next
    case False
    then obtain w1 ns where "run_tx (revoke_tx aid now i (d_HostID d) actor) (view w) = Inr (view w1, ns)" "w1 = w'"
      using run by (auto simp: return_Inr elim!: with_tx_Inr [OF assms(1)])
    then have "devices (view w') = map (revoke_device i now) (devices (view w))" using revoke_tx_devices by blast
    then show ?thesis using only assms(5) False by (auto simp: host_dead_def list_all_iff revoke_device_def split: if_splits)
  qed
qed

text \<open>Nothing is granted on a dead host: the guarded statements insert nothing.\<close>

lemma dead_issue:
  assumes "sql_conn view c" "host_dead hid (view w)"
  shows "\<nexists>g w'. IssueSSHAccess c ok rid gid aid now u hid su e w = (Inr g, w')"
proof (intro notI, elim exE)
  fix g w' assume "IssueSSHAccess c ok rid gid aid now u hid su e w = (Inr g, w')"
  then obtain w1 ns where tx: "run_tx (issue_access_tx rid gid aid now u hid su e) (view w) = Inr (view w1, ns)" and "sum_list ns = 3"
    unfolding IssueSSHAccess_def locked_Inr
    by (auto simp: fail_Inr split: if_splits elim!: with_tx_Inr [OF assms(1)])
  moreover have "\<not> host_live hid (view w)" using assms(2) by (rule host_dead_not_live)
  ultimately show False
    by (auto simp: issue_access_tx_def run_tx_Cons_Inr insert_when_def insert_row_def insert_audit_def split: if_splits)
qed

lemma dead_relay:
  assumes "sql_conn view c" "host_dead hid (view w)"
  shows "\<nexists>g w'. CreateRelayAccessGrant c ok i aid now hid ep u ttl w = (Inr g, w')"
    and "\<nexists>g w'. RenewRelayAccessGrant c ok i aid now hid ep u ttl w = (Inr g, w')"
proof -
  have dead: "\<not> host_live hid (view w)" using assms(2) by (rule host_dead_not_live)
  show "\<nexists>g w'. CreateRelayAccessGrant c ok i aid now hid ep u ttl w = (Inr g, w')"
  proof (intro notI, elim exE)
    fix g w' assume "CreateRelayAccessGrant c ok i aid now hid ep u ttl w = (Inr g, w')"
    then obtain w1 ns where "run_tx (create_relay_tx i aid now hid ep u ttl) (view w) = Inr (view w1, ns)" "sum_list ns = 2"
      unfolding CreateRelayAccessGrant_def locked_Inr
      by (auto simp: fail_Inr split: if_splits elim!: with_tx_Inr [OF assms(1)])
    then show False using dead
      by (auto simp: create_relay_tx_def run_tx_Cons_Inr insert_when_def insert_row_def insert_audit_def insert_relay_def
          relay_audit_def relay_row_def split: if_splits)
  qed
  show "\<nexists>g w'. RenewRelayAccessGrant c ok i aid now hid ep u ttl w = (Inr g, w')"
  proof (intro notI, elim exE)
    fix g w' assume "RenewRelayAccessGrant c ok i aid now hid ep u ttl w = (Inr g, w')"
    then obtain w1 ns where "run_tx (renew_relay_tx i aid now hid ep u ttl) (view w) = Inr (view w1, ns)" "2 \<le> sum_list ns"
      unfolding RenewRelayAccessGrant_def locked_Inr
      by (auto simp: fail_Inr split: if_splits elim!: with_tx_Inr [OF assms(1)])
    then show False using dead
      by (auto simp: renew_relay_tx_def run_tx_Cons_Inr insert_when_def insert_row_def insert_audit_def insert_relay_def
          relay_audit_def relay_row_def delete_rows_def host_live_def split: if_splits)
  qed
qed

lemma dead_rows:
  assumes "host_dead hid t"
  shows "live_grant_rows hid su now t = []" and "\<forall>g \<in> set (relay_rows ep now t). rg_HostID g \<noteq> hid"
  using assms by (auto simp: host_dead_def list_all_iff live_grant_rows_def relay_rows_def live_pair_def)

lemma dead_discovery:
  assumes "sql_conn view c" "host_dead hid (view w)" "GetEndpointDiscovery c ok hid w = (Inr d, w')"
  shows "d = None"
proof -
  have "\<not> host_live hid (view w)" using assms(2) by (rule host_dead_not_live)
  then show ?thesis using assms(3)
    by (auto simp: GetEndpointDiscovery_def locked_Inr return_Inr query_row_None dest!: with_query_Inr [OF assms(1)])
qed

subsection \<open>A sample run\<close>

text \<open>A settled deployment with empty tables; an administrator creates a token, a device enrols, sends a
  heartbeat, and is revoked.\<close>

definition sample_binding :: binding where
  "sample_binding = \<lparr>bi_ClusterID = ''ternal'', bi_StorageID = ''s3''\<rparr>"

definition sample_conn :: "world conn" where
  "sample_conn = rhiza_conn ref_env \<lparr>rz_trust = Some sample_binding, rz_trustRequired = True\<rparr>"

definition sample_anchor :: "(nat, nat) trustAnchorRecord" where
  "sample_anchor = \<lparr>ta_Format = ''1'', ta_ClusterID = ''ternal'', ta_StorageID = ''s3'', ta_Epoch = 4, ta_Token = ref_uuid 0,
     ta_PendingEpoch = None, ta_PendingID = '''', ta_Bootstrap = False, ta_Generation = 0, ta_Transition = None, ta_Receipt = None\<rparr>"

definition world0 :: world where
  "world0 = \<lparr>wo_tables = empty_tables, wo_trust = Some (4, ref_uuid 0), wo_anchor = sample_anchor, wo_version = 7, wo_ids = 1, wo_script = []\<rparr>"

definition sample_hash :: "string \<Rightarrow> string" where
  "sample_hash s = ''h:'' @ s"

definition world1 :: world where
  "world1 = snd (CreateManufacturingToken sample_conn sample_hash True 100 ''tok1'' ''secret'' ''a1'' '''' None ''alice'' world0)"

definition world2 :: world where
  "world2 = snd (EnrollDevice sample_conn sample_hash True 101 101 ''dev1'' ''host1'' ''secret'' ''ep1'' ''edge-1'' ''m''
     ''SHA256:x'' ''pk1'' ''root'' 22 None world1)"

definition world3 :: world where
  "world3 = snd (TouchDevice sample_conn True 102 ''dev1'' ''host1'' ''ep1'' ''SHA256:x'' ''online'' [] [] world2)"

definition world4 :: world where
  "world4 = snd (DeleteDevice sample_conn True ''a2'' 103 ''dev1'' ''alice'' world3)"

lemma sample_contract: "sql_conn wo_tables sample_conn"
  unfolding sample_conn_def by (rule ref.rz.sql_conn_axioms)

lemma sample_calls: "(store_call F sample_conn)\<^sup>*\<^sup>* world2 world3"
  unfolding world3_def by (rule r_into_rtranclp) (rule call_TouchDevice)

lemma sample_token: "ref_uuid 0 = ''00000000-0000-4000-8000-000000000000''"
  by code_simp

lemma world3_devices: "map d_State (devices (wo_tables world3)) = [''manufactured'']"
  by code_simp

lemma world4_devices: "map d_State (devices (wo_tables world4)) = [''revoked'']"
  by code_simp

subsection \<open>Properties\<close>

text \<open>C4. The tables stay consistent.  Whatever methods are called, in whatever order, and whatever the
  connection answers (success, rejection, lost responses), every declared key stays unique, every
  device belongs to an existing host, no host has two devices, no manufacturing batch exceeds its
  quota, an open batch has a free slot, and snapshot generations stay positive.\<close>

theorem store_invariant:
  assumes "sql_conn view c" "(store_call F c)\<^sup>*\<^sup>* w w'" "db_ok (view w)"
  shows "db_ok (view w')"
  using assms by (rule store_calls_db_ok)

lemma sample_run3: "(store_call (\<lambda>_. True) sample_conn)\<^sup>*\<^sup>* world0 world3"
proof -
  have "store_call (\<lambda>_. True) sample_conn world0 world1" unfolding world1_def by (rule call_CreateManufacturingToken)
  moreover have "store_call (\<lambda>_. True) sample_conn world1 world2" unfolding world2_def by (rule call_EnrollDevice) simp
  moreover have "store_call (\<lambda>_. True) sample_conn world2 world3" unfolding world3_def by (rule call_TouchDevice)
  ultimately show ?thesis by (meson converse_rtranclp_into_rtranclp rtranclp.rtrancl_refl)
qed

lemma sample_run: "(store_call (\<lambda>_. True) sample_conn)\<^sup>*\<^sup>* world0 world4"
proof -
  have "store_call (\<lambda>_. True) sample_conn world3 world4" unfolding world4_def by (rule call_DeleteDevice)
  then show ?thesis using sample_run3 by (rule rtranclp.rtrancl_into_rtrancl [rotated])
qed

lemma sample_start: "wo_tables world0 = empty_tables"
  by (simp add: world0_def)

theorem store_invariant_witness: "db_ok (wo_tables world4) \<and> length (devices (wo_tables world4)) = 1"
  using store_invariant [OF sample_contract sample_run] sample_start db_ok_empty world4_devices
  by (metis length_map length_Cons list.size(3) One_nat_def)

text \<open>C5. Revoking a device is final.  After \<^verbatim>\<open>DeleteDevice\<close> reported success for a device, and after any
  further calls (the administrator's updates of the host and the device's own heartbeats included;
  only an enrolment that draws the same fresh host identifier is excluded), no SSH access and no
  relay grant is issued or renewed for its host, no grant of the host is live for its
  authorized keys or for the relay, and its endpoint discovery is withheld.\<close>

theorem revocation_terminal:
  assumes "sql_conn view c" "db_ok (view w)"
    and "d \<in> set (devices (view w))" "DeleteDevice c ok aid now (d_ID d) actor w = (Inr (), w1)"
    and "(store_call (\<lambda>x. x \<noteq> d_HostID d) c)\<^sup>*\<^sup>* w1 w2"
  shows "\<not> host_live (d_HostID d) (view w2) \<and>
    (\<nexists>g w'. IssueSSHAccess c ok' rid gid aid' now' u (d_HostID d) su e w2 = (Inr g, w')) \<and>
    (\<nexists>g w'. CreateRelayAccessGrant c ok' rid aid' now' (d_HostID d) ep u ttl w2 = (Inr g, w')) \<and>
    (\<nexists>g w'. RenewRelayAccessGrant c ok' rid aid' now' (d_HostID d) ep u ttl w2 = (Inr g, w')) \<and>
    live_grant_rows (d_HostID d) su now' (view w2) = [] \<and>
    (\<forall>g \<in> set (relay_rows ep now' (view w2)). rg_HostID g \<noteq> d_HostID d) \<and>
    (\<forall>x w'. GetEndpointDiscovery c ok' (d_HostID d) w2 = (Inr x, w') \<longrightarrow> x = None)"
proof -
  have "host_dead (d_HostID d) (view w1)" by (rule DeleteDevice_dead [OF assms(1,2,4,3)]) simp
  then have dead: "host_dead (d_HostID d) (view w2)" by (rule store_calls_dead [OF assms(1,5)])
  show ?thesis
    by (intro conjI host_dead_not_live dead_issue [OF assms(1)] dead_relay [OF assms(1)] dead_rows(1) dead_rows(2) allI impI)
       (use dead dead_discovery [OF assms(1) dead] in blast)+
qed

lemma world3_ok: "db_ok (wo_tables world3)"
  using store_calls_db_ok [OF sample_contract sample_run3] sample_start db_ok_empty by metis

definition sample_device :: Device where
  "sample_device = enroll_device_row 101 ''dev1'' ''host1'' ''ep1'' ''SHA256:x'' ''pk1'' ''edge-1'' ''m''\<lparr>d_LastSeenAt := Some 102\<rparr>"

lemma sample_device_enrolled: "devices (wo_tables world3) = [sample_device]"
  by code_simp

lemma sample_revoked: "DeleteDevice sample_conn True ''a2'' 103 ''dev1'' ''alice'' world3 = (Inr (), world4)"
proof -
  have "fst (DeleteDevice sample_conn True ''a2'' 103 ''dev1'' ''alice'' world3) = Inr ()" by code_simp
  then show ?thesis by (simp add: world4_def prod_eq_iff)
qed

definition world5 :: world where
  "world5 = snd (TouchDevice sample_conn True 104 ''dev1'' ''host1'' ''ep1'' ''SHA256:x'' ''online'' [] [] world4)"

lemma sample_after: "(store_call F sample_conn)\<^sup>*\<^sup>* world4 world5"
  unfolding world5_def by (rule r_into_rtranclp) (rule call_TouchDevice)

theorem revocation_terminal_witness: "\<not> host_live ''host1'' (wo_tables world5) \<and> host_live ''host1'' (wo_tables world3)"
proof
  have d: "sample_device \<in> set (devices (wo_tables world3))" by (simp add: sample_device_enrolled)
  have i: "d_ID sample_device = ''dev1''" "d_HostID sample_device = ''host1''"
    by (simp_all add: sample_device_def enroll_device_row_def)
  show "\<not> host_live ''host1'' (wo_tables world5)"
    using revocation_terminal [OF sample_contract world3_ok d, of True "''a2''" 103 "''alice''" world4 world5] sample_revoked sample_after
    by (simp add: i)
  show "host_live ''host1'' (wo_tables world3)" by code_simp
qed

text \<open>The audit log only grows: no sequence of calls removes, reorders or rewrites an event.\<close>

lemma audit_append_only:
  assumes "sql_conn view c" "(store_call F c)\<^sup>*\<^sup>* w w'"
  shows "\<exists>es. audit_events (view w') = audit_events (view w) @ es"
proof -
  have "take (length (audit_events (view w))) (audit_events (view w')) = audit_events (view w)"
    using store_calls_audit [OF assms] by (simp add: audit_from_def)
  then show ?thesis by (metis append_take_drop_id)
qed

end
