(* ===== verification/Access_Properties.thy ===== *)
theory Access_Properties
  imports Store_Properties
begin

section \<open>Access decisions and what they leave behind\<close>

text \<open>
  The methods that grant access, on any connection that meets \<open>sql_conn\<close>: a decision and its record
  appear together, the authorized keys are exactly those of live grants with the right deadline, a
  published snapshot carries its own generation, an acknowledgement installs only what was
  published, and the relay admits exactly the endpoints with a live grant.
\<close>

subsection \<open>Issuing SSH access\<close>

text \<open>The specification: the three rows appear together.\<close>

definition issued ::
    "string \<Rightarrow> string \<Rightarrow> string \<Rightarrow> int \<Rightarrow> string \<Rightarrow> string \<Rightarrow> string \<Rightarrow> int \<Rightarrow> tables \<Rightarrow> tables" where
  "issued rid gid aid now u hid su e t = t\<lparr>
     access_requests := access_requests t @ [\<lparr>ar_ID = rid, ar_UserID = u, ar_HostID = hid, ar_SSHUser = su,
       ar_Status = ''approved'', ar_CreatedAt = now\<rparr>],
     access_grants := access_grants t @ [\<lparr>ag_ID = gid, ag_RequestID = rid, ag_UserID = u, ag_HostID = hid, ag_SSHUser = su,
       ag_ExpiresAt = e, ag_EphemeralKey = '''', ag_KeyInstalled = False, ag_CreatedAt = now\<rparr>],
     audit_events := audit_events t @ [audit_row aid ''access.approved'' ''host'' hid u (Some (approved_json rid gid e)) now]\<rparr>"

lemma issue_tx_live:
  assumes "run_tx (issue_access_tx rid gid aid now u hid su e) t = Inr (t', ns)" "host_live hid t"
  shows "t' = issued rid gid aid now u hid su e t \<and> sum_list ns = 3"
  using assms
  by (auto simp: issue_access_tx_def run_tx_Cons_Inr insert_when_def insert_row_def insert_audit_def issued_def
      grant_clash_def request_clash_def list_ex_iff comp_def split: if_splits)

lemma issue_tx_dead:
  assumes "run_tx (issue_access_tx rid gid aid now u hid su e) t = Inr (t', ns)" "\<not> host_live hid t"
    and "rid \<notin> ar_ID ` set (access_requests t)" "gid \<notin> ag_ID ` set (access_grants t)"
  shows "t' = t \<and> sum_list ns = 0"
  using assms
  by (auto simp: issue_access_tx_def run_tx_Cons_Inr insert_when_def list_ex_iff image_iff split: if_splits)

text \<open>Issuing SSH access is atomic.  With fresh identifiers, \<^verbatim>\<open>IssueSSHAccess\<close> returns the grant only if
  the host and its device are unrevoked, and then the approved request, the grant and the audit event
  were all stored, and nothing else changed; if it fails, either nothing changed, or the connection
  lost the outcome and all three were stored.\<close>

lemma IssueSSHAccess_atomic:
  assumes "sql_conn view c"
    and "IssueSSHAccess c ok rid gid aid now u hid su e w = (r, w')"
    and "rid \<notin> ar_ID ` set (access_requests (view w))" "gid \<notin> ag_ID ` set (access_grants (view w))"
  shows "case r of
      Inr g \<Rightarrow> g = gid \<and> host_live hid (view w) \<and> view w' = issued rid gid aid now u hid su e (view w)
    | Inl err \<Rightarrow> view w' = view w \<or>
        (\<exists>d. err = Db d) \<and> host_live hid (view w) \<and> view w' = issued rid gid aid now u hid su e (view w)"
proof (cases ok)
  case True
  let ?tx = "issue_access_tx rid gid aid now u hid su e"
  obtain q w1 where q: "c_exec c ?tx w = (q, w1)" by (cases "c_exec c ?tx w")
  have cases: "(host_live hid (view w) \<and> t' = issued rid gid aid now u hid su e (view w) \<and> sum_list ns = 3) \<or>
      (\<not> host_live hid (view w) \<and> t' = view w \<and> sum_list ns = 0)" if "run_tx ?tx (view w) = Inr (t', ns)" for t' ns
    using issue_tx_live [OF that] issue_tx_dead [OF that _ assms(3,4)] by blast
  have w': "w' = w1" "r = (case q of Inl d \<Rightarrow> Inl (Db d) | Inr n \<Rightarrow> if n \<noteq> 3 then Inl HostUnavailable else Inr gid)"
    using assms(2) q True by (auto simp: IssueSSHAccess_def store_monad split: sum.splits if_splits)
  show ?thesis
  proof (cases q)
    case (Inl d)
    then have "view w1 = view w \<or> (\<exists>ns. run_tx ?tx (view w) = Inr (view w1, ns))"
      using sql_conn.exec_err [OF assms(1), of ?tx w d w1] q by simp
    then show ?thesis using Inl w' cases by auto
  next
    case (Inr n)
    then obtain ns where "run_tx ?tx (view w) = Inr (view w1, ns)" "n = sum_list ns"
      using sql_conn.exec_ok [OF assms(1), of ?tx w n w1] q by auto
    then show ?thesis using w' Inr cases [of "view w1" ns] by (auto simp del: sum_list_eq_0_iff)
  qed
qed (use assms(2) in \<open>auto simp: IssueSSHAccess_def store_monad\<close>)

definition sample_issue :: "(string, world) outcome" where
  "sample_issue = IssueSSHAccess sample_conn True ''r1'' ''g1'' ''e1'' 200 ''bob'' ''host1'' ''root'' 500 world3"

subsection \<open>Authorized keys\<close>

lemma live_grant_rows_set:
  "g \<in> set (live_grant_rows hid su now t) \<longleftrightarrow>
     g \<in> set (access_grants t) \<and> ag_HostID g = hid \<and> ag_SSHUser g = su \<and> ag_ExpiresAt g > now \<and> host_live hid t"
  by (auto simp: live_grant_rows_def host_live_def list_ex_iff live_pair_def)

lemma live_key_rows_set:
  "(k, e) \<in> set (live_key_rows hid su now t) \<longleftrightarrow>
     (\<exists>g \<in> set (live_grant_rows hid su now t). \<exists>s \<in> set (ssh_keys t). k_UserID s = ag_UserID g \<and> k = k_PublicKey s \<and> e = ag_ExpiresAt g)"
  by (auto simp: live_key_rows_def)

lemma foldr_max_upper: "x \<in> set xs \<Longrightarrow> x \<le> foldr max xs (b :: int)"
  by (induction xs) auto

lemma foldr_max_mem: "foldr max xs (b :: int) \<in> insert b (set xs)"
  by (induction xs) (auto simp: max_def)

lemma key_entries_deadline:
  assumes "x \<in> set (key_entries rows)"
  shows "(ak_Key x, ak_ExpiresAt x) \<in> set rows \<and> (\<forall>e. (ak_Key x, e) \<in> set rows \<longrightarrow> e \<le> ak_ExpiresAt x)"
proof -
  obtain k where k: "k \<in> fst ` set rows"
    and x: "x = \<lparr>ak_Key = k, ak_ExpiresAt = foldr max (map snd (filter (\<lambda>r. fst r = k) rows)) (snd (hd (filter (\<lambda>r. fst r = k) rows)))\<rparr>"
    using assms by (auto simp: key_entries_def)
  let ?es = "map snd (filter (\<lambda>r. fst r = k) rows)"
  have "filter (\<lambda>r. fst r = k) rows \<noteq> []" using k by (auto simp: filter_empty_conv)
  then have "snd (hd (filter (\<lambda>r. fst r = k) rows)) \<in> set ?es" by (metis hd_in_set image_eqI set_map)
  then have "foldr max ?es (snd (hd (filter (\<lambda>r. fst r = k) rows))) \<in> set ?es"
    using foldr_max_mem [of ?es "snd (hd (filter (\<lambda>r. fst r = k) rows))"] by (metis insertE)
  moreover have "e \<in> set ?es \<longleftrightarrow> (k, e) \<in> set rows" for e by force
  ultimately show ?thesis using foldr_max_upper [of _ ?es] x by auto
qed

lemma key_entries_keys: "map ak_Key (key_entries rows) = sort (remdups (map fst rows))"
  by (simp add: key_entries_def comp_def)

definition grant_covers :: "string \<Rightarrow> string \<Rightarrow> int \<Rightarrow> tables \<Rightarrow> string \<Rightarrow> AccessGrant \<Rightarrow> bool" where
  "grant_covers hid su now t k g \<longleftrightarrow> g \<in> set (access_grants t) \<and> ag_HostID g = hid \<and> ag_SSHUser g = su \<and> ag_ExpiresAt g > now \<and>
     host_live hid t \<and> (\<exists>s \<in> set (ssh_keys t). k_UserID s = ag_UserID g \<and> k_PublicKey s = k)"

text \<open>C24. The authorized keys of a host account are exactly the keys of the users who hold a live grant for
  it on an unrevoked host and device: each key appears once, in order, and its deadline is the latest
  deadline of the live grants that cover it.\<close>

theorem AuthorizedKeysForHost_exact:
  assumes "sql_conn view c" "AuthorizedKeysForHost c ok now now2 hid su w = (Inr entries, w')"
  shows "w' = w \<and> sorted (map ak_Key entries) \<and> distinct (map ak_Key entries) \<and>
    (\<forall>k. k \<in> set (map ak_Key entries) \<longleftrightarrow> (\<exists>g. grant_covers hid su now (view w) k g)) \<and>
    (\<forall>x \<in> set entries. (\<exists>g. grant_covers hid su now (view w) (ak_Key x) g \<and> ag_ExpiresAt g = ak_ExpiresAt x) \<and>
       (\<forall>g. grant_covers hid su now (view w) (ak_Key x) g \<longrightarrow> ag_ExpiresAt g \<le> ak_ExpiresAt x))"
proof -
  let ?covers = "grant_covers hid su now (view w)"
  let ?rows = "live_key_rows hid su now (view w)"
  have e: "entries = key_entries ?rows" "w' = w"
    using assms(2) unfolding AuthorizedKeysForHost_def authorizedKeysSnapshotForHost_def locked_Inr Let_def
    by (auto simp: return_Inr dest!: with_query_Inr [OF assms(1)])
  have cov: "?covers k g \<longleftrightarrow> g \<in> set (live_grant_rows hid su now (view w)) \<and> (\<exists>s \<in> set (ssh_keys (view w)). k_UserID s = ag_UserID g \<and> k_PublicKey s = k)" for k g
    by (auto simp: grant_covers_def live_grant_rows_set)
  have row: "(k, x) \<in> set ?rows \<longleftrightarrow> (\<exists>g. ?covers k g \<and> ag_ExpiresAt g = x)" for k x
    unfolding live_key_rows_set cov by blast
  have "k \<in> set (map ak_Key entries) \<longleftrightarrow> (\<exists>x. (k, x) \<in> set ?rows)" for k
    unfolding e(1) key_entries_keys by force
  then have keys: "k \<in> set (map ak_Key entries) \<longleftrightarrow> (\<exists>g. ?covers k g)" for k using row by blast
  have dl: "(\<exists>g. ?covers (ak_Key x) g \<and> ag_ExpiresAt g = ak_ExpiresAt x) \<and>
       (\<forall>g. ?covers (ak_Key x) g \<longrightarrow> ag_ExpiresAt g \<le> ak_ExpiresAt x)" if "x \<in> set entries" for x
    using key_entries_deadline [of x ?rows] that e(1) row by blast
  show ?thesis using keys dl by (simp add: e key_entries_keys)
qed

definition world_key :: world where
  "world_key = snd (CreateSSHKey sample_conn True ''k1'' 150 ''bob'' ''ssh-ed25519 AAAA'' ''SHA256:k'' world3)"

definition world_issued :: world where
  "world_issued = snd (IssueSSHAccess sample_conn True ''r1'' ''g1'' ''e1'' 200 ''bob'' ''host1'' ''root'' 500 world_key)"

lemma sample_keys: "AuthorizedKeysForHost sample_conn True 300 300 ''host1'' ''root'' world_issued =
    (Inr [\<lparr>ak_Key = ''ssh-ed25519 AAAA'', ak_ExpiresAt = 500\<rparr>], world_issued)"
proof -
  have "fst (AuthorizedKeysForHost sample_conn True 300 300 ''host1'' ''root'' world_issued) =
    Inr [\<lparr>ak_Key = ''ssh-ed25519 AAAA'', ak_ExpiresAt = 500\<rparr>]" by code_simp
  then show ?thesis
    by (auto simp: prod_eq_iff AuthorizedKeysForHost_def authorizedKeysSnapshotForHost_def store_monad Let_def split: sum.splits)
qed

theorem AuthorizedKeysForHost_exact_witness:
  "\<exists>g \<in> set (access_grants (wo_tables world_issued)). ag_ExpiresAt g = 500 \<and> host_live ''host1'' (wo_tables world_issued)"
  using AuthorizedKeysForHost_exact [OF sample_contract sample_keys] by (auto simp: grant_covers_def)

text \<open>The deadline that sshd enforces is the grant's: every rendered line carries the key after a UTC
  timespec that reads back as exactly the entry's deadline (for deadlines in four-digit years).\<close>

lemma FormatAuthorizedKeys_deadline:
  assumes "\<forall>x \<in> set entries. four_digit_year (ak_ExpiresAt x)"
  shows "list_all2 (\<lambda>x line. \<exists>ts. line = ''expiry-time='' @ [CHR 0x22] @ ts @ [CHR 0x22] @ '' '' @ ak_Key x \<and>
      timespec_seconds ts = Some (ak_ExpiresAt x)) entries (FormatAuthorizedKeys entries)"
proof -
  have "\<exists>ts. format_utc (ak_ExpiresAt x) = ts \<and> timespec_seconds ts = Some (ak_ExpiresAt x)" if "x \<in> set entries" for x
    using timespec_format_utc assms that by blast
  then show ?thesis unfolding FormatAuthorizedKeys_def authorized_key_line_def list_all2_map2 list_all2_same by auto
qed

subsection \<open>Relay admission\<close>

lemma relay_rows_set:
  "g \<in> set (relay_rows ep now t) \<longleftrightarrow>
     g \<in> set (relay_access_grants t) \<and> rg_ClientEndpointID g = ep \<and> rg_ExpiresAt g > now \<and> host_live (rg_HostID g) t"
  by (auto simp: relay_rows_def host_live_def list_ex_iff live_pair_def)

text \<open>The relay admits an endpoint exactly while it holds an unexpired relay grant for a host that is
  not revoked and has an unrevoked device; asking changes nothing.\<close>

lemma RelayEndpointAllowed_iff:
  assumes "sql_conn view c" "RelayEndpointAllowed c ok now ep w = (Inr allowed, w')"
  shows "w' = w \<and> (allowed \<longleftrightarrow> (\<exists>g \<in> set (relay_access_grants (view w)). rg_ClientEndpointID g = ep \<and>
    rg_ExpiresAt g > now \<and> host_live (rg_HostID g) (view w)))"
proof -
  have "w' = w" "allowed \<longleftrightarrow> relay_rows ep now (view w) \<noteq> []"
    using assms(2) by (auto simp: RelayEndpointAllowed_def locked_Inr return_Inr dest!: with_query_Inr [OF assms(1)])
  moreover have "relay_rows ep now (view w) \<noteq> [] \<longleftrightarrow> (\<exists>g. g \<in> set (relay_rows ep now (view w)))"
    by (metis list.set_intros(1) neq_Nil_conv list.set_cases empty_iff list.set(1))
  ultimately show ?thesis unfolding relay_rows_set by blast
qed

definition world_relay :: world where
  "world_relay = snd (CreateRelayAccessGrant sample_conn True ''rg1'' ''e1'' 200 ''host1'' ''cli'' ''bob'' 120 world3)"

subsection \<open>Snapshots and acknowledgements\<close>

text \<open>The published grant identifiers of a host account, and its snapshot row.\<close>

definition snapshot_of :: "string \<Rightarrow> string \<Rightarrow> tables \<Rightarrow> snapshot_row option" where
  "snapshot_of hid su t = query_row (\<lambda>r. sn_HostID r = hid \<and> sn_SSHUser r = su) (authorized_keys_snapshots t)"

definition published_ids :: "string \<Rightarrow> string \<Rightarrow> tables \<Rightarrow> string list" where
  "published_ids hid su t = map sg_GrantID (filter (\<lambda>g. sg_HostID g = hid \<and> sg_SSHUser g = su) (authorized_keys_snapshot_grants t))"

lemma find_snoc: "find P (xs @ [x]) = (case find P xs of None \<Rightarrow> if P x then Some x else None | Some y \<Rightarrow> Some y)"
  by (induction xs) auto

lemma find_conj: "find P xs = Some x \<Longrightarrow> Q x \<Longrightarrow> find (\<lambda>y. P y \<and> Q y) xs = Some x"
  by (induction xs) (auto split: if_splits)

lemma publish_inserts:
  "run_tx (map (\<lambda>g. sql (insert_sgrant hid su g)) gs) t = Inr (t', ns) \<Longrightarrow>
     authorized_keys_snapshots t' = authorized_keys_snapshots t \<and> published_ids hid su t' = published_ids hid su t @ gs"
proof (induction gs arbitrary: t ns)
  case (Cons g gs)
  then obtain t1 ns1 where "insert_sgrant hid su g t = Inr (t1, hd ns)" "run_tx (map (\<lambda>g. sql (insert_sgrant hid su g)) gs) t1 = Inr (t', ns1)"
    by (auto simp: run_tx_Cons_Inr)
  moreover from this have "authorized_keys_snapshots t1 = authorized_keys_snapshots t" "published_ids hid su t1 = published_ids hid su t @ [g]"
    by (auto simp: insert_sgrant_def insert_row_def published_ids_def sgrant_def split: if_splits)
  ultimately show ?case using Cons.IH by fastforce
qed simp

lemma publish_tx_effect:
  assumes "run_tx (publish_tx hid su dg mk gs) t = Inr (t', ns)"
  shows "published_ids hid su t' = mk # gs \<and>
    (case snapshot_of hid su t of
       None \<Rightarrow> snapshot_of hid su t' = Some \<lparr>sn_HostID = hid, sn_SSHUser = su, sn_Generation = 1, sn_Digest = dg\<rparr>
     | Some r \<Rightarrow> snapshot_of hid su t' = Some (r\<lparr>
         sn_Generation := (if sn_Digest r = dg \<and> mk \<in> set (published_ids hid su t) then sn_Generation r else sn_Generation r + 1),
         sn_Digest := dg\<rparr>))"
proof -
  let ?row = "\<lparr>sn_HostID = hid, sn_SSHUser = su, sn_Generation = 1, sn_Digest = dg\<rparr>"
  obtain t1 n1 where t1: "upsert_row authorized_keys_snapshots authorized_keys_snapshots_update snapshot_clash ?row (bump_snapshot hid su dg mk) t = Inr (t1, n1)"
    and rest: "\<exists>ms. run_tx (map (\<lambda>g. sql (insert_sgrant hid su g)) (mk # gs))
      (authorized_keys_snapshot_grants_update (filter (\<lambda>g. \<not> (sg_HostID g = hid \<and> sg_SSHUser g = su))) t1) = Inr (t', ms)"
    using assms by (auto simp: publish_tx_def run_tx_Cons_Inr delete_rows_def)
  then have ids: "published_ids hid su t' = mk # gs" and snap: "snapshot_of hid su t' = snapshot_of hid su t1"
    using publish_inserts by (fastforce simp: published_ids_def snapshot_of_def)+
  have P: "(\<lambda>r. sn_HostID r = hid \<and> sn_SSHUser r = su) = (\<lambda>r. snapshot_clash r ?row)" by (simp add: snapshot_clash_def)
  have "snapshot_of hid su t1 = (case snapshot_of hid su t of None \<Rightarrow> Some ?row | Some r \<Rightarrow> Some (bump_snapshot hid su dg mk t r))"
  proof (cases "snapshot_of hid su t")
    case None
    then have "\<not> list_ex (\<lambda>x. snapshot_clash x ?row) (authorized_keys_snapshots t)"
      unfolding snapshot_of_def P query_row_None by (simp add: list_ex_iff)
    then have "authorized_keys_snapshots t1 = authorized_keys_snapshots t @ [?row]" using t1 by (auto simp: upsert_row_def)
    then show ?thesis using None by (simp add: snapshot_of_def query_row_def find_snoc)
  next
    case (Some r)
    then have "list_ex (\<lambda>x. snapshot_clash x ?row) (authorized_keys_snapshots t)"
      using query_row_Some [of _ "authorized_keys_snapshots t" r] unfolding snapshot_of_def by (fastforce simp: list_ex_iff snapshot_clash_def)
    then have a: "authorized_keys_snapshots t1 = map (\<lambda>x. if snapshot_clash x ?row then bump_snapshot hid su dg mk t x else x) (authorized_keys_snapshots t)"
      using t1 by (auto simp: upsert_row_def)
    have "find (\<lambda>r. snapshot_clash r ?row) (map (\<lambda>x. if snapshot_clash x ?row then bump_snapshot hid su dg mk t x else x) xs) =
      map_option (bump_snapshot hid su dg mk t) (find (\<lambda>r. snapshot_clash r ?row) xs)" for xs
      by (induction xs) (auto simp: snapshot_clash_def bump_snapshot_def)
    then show ?thesis using Some unfolding snapshot_of_def P query_row_def a by simp
  qed
  moreover have "mk \<in> set (published_ids hid su t) \<longleftrightarrow>
      list_ex (\<lambda>g. sg_HostID g = hid \<and> sg_SSHUser g = su \<and> sg_GrantID g = mk) (authorized_keys_snapshot_grants t)"
    by (auto simp: published_ids_def list_ex_iff)
  ultimately show ?thesis using ids snap by (auto simp: bump_snapshot_def split: option.splits)
qed

definition live_grant_ids :: "string \<Rightarrow> string \<Rightarrow> int \<Rightarrow> tables \<Rightarrow> string list" where
  "live_grant_ids hid su now t = sort (remdups (map ag_ID (live_grant_rows hid su now t)))"

lemma publish_snapshot:
  assumes "sql_conn view c" "PublishAuthorizedKeysSnapshot c hash ok now1 now2 hid su w = (Inr (body, dg, gen), w')"
  shows "renderAuthorizedKeysBody (key_entries (live_key_rows hid su now1 (view w))) = Inr body \<and> dg = hash body \<and>
    snapshot_of hid su (view w') = Some \<lparr>sn_HostID = hid, sn_SSHUser = su, sn_Generation = gen, sn_Digest = dg\<rparr> \<and>
    published_ids hid su (view w') = snapshotMarker hash (live_grant_ids hid su now2 (view w)) # live_grant_ids hid su now2 (view w) \<and>
    gen = (case snapshot_of hid su (view w) of None \<Rightarrow> 1
      | Some r \<Rightarrow> if sn_Digest r = dg \<and> snapshotMarker hash (live_grant_ids hid su now2 (view w)) \<in> set (published_ids hid su (view w)) then sn_Generation r else sn_Generation r + 1)"
proof -
  define gs where "gs = live_grant_ids hid su now2 (view w)"
  have body: "renderAuthorizedKeysBody (key_entries (live_key_rows hid su now1 (view w))) = Inr body" "dg = hash body"
    and pub: "publishAuthorizedKeysGeneration c hash hid su dg gs w = (Inr gen, w')"
    using assms(2) unfolding PublishAuthorizedKeysSnapshot_def authorizedKeysSnapshotForHost_def locked_Inr Let_def gs_def live_grant_ids_def
    by (auto simp: fail_Inr map_result_def split: sum.splits prod.splits dest!: with_query_Inr [OF assms(1)])
  obtain w1 ns where tx: "run_tx (publish_tx hid su dg (snapshotMarker hash gs) gs) (view w) = Inr (view w1, ns)"
    and get: "with_query c (\<lambda>t. case query_row (\<lambda>r. sn_HostID r = hid \<and> sn_SSHUser r = su \<and> sn_Digest r = dg) (authorized_keys_snapshots t) of
        None \<Rightarrow> fail NoRows | Some r \<Rightarrow> return (sn_Generation r)) w1 = (Inr gen, w')"
    using pub unfolding publishAuthorizedKeysGeneration_def by (elim with_tx_Inr [OF assms(1)]) auto
  obtain r where r: "query_row (\<lambda>r. sn_HostID r = hid \<and> sn_SSHUser r = su \<and> sn_Digest r = dg) (authorized_keys_snapshots (view w1)) = Some r"
    "sn_Generation r = gen" "w' = w1"
    using with_query_Inr [OF assms(1) get] by (auto simp: fail_Inr return_Inr split: option.splits)
  note eff = publish_tx_effect [OF tx]
  obtain s where s: "snapshot_of hid su (view w1) = Some s" "sn_Digest s = dg" using eff by (cases "snapshot_of hid su (view w)") auto
  then have "find (\<lambda>r. (sn_HostID r = hid \<and> sn_SSHUser r = su) \<and> sn_Digest r = dg) (authorized_keys_snapshots (view w1)) = Some s"
    unfolding snapshot_of_def query_row_def by (rule find_conj)
  then have "s = r" using r(1) by (simp add: query_row_def conj_assoc)
  moreover have "sn_HostID s = hid" "sn_SSHUser s = su" using query_row_Some s(1) by (fastforce simp: snapshot_of_def)+
  ultimately have "snapshot_of hid su (view w') = Some \<lparr>sn_HostID = hid, sn_SSHUser = su, sn_Generation = gen, sn_Digest = dg\<rparr>"
    using s r by (cases s) auto
  moreover have "gen = (case snapshot_of hid su (view w) of None \<Rightarrow> 1
      | Some r \<Rightarrow> if sn_Digest r = dg \<and> snapshotMarker hash gs \<in> set (published_ids hid su (view w)) then sn_Generation r else sn_Generation r + 1)"
    using eff s(1) r(2) \<open>s = r\<close> by (cases "snapshot_of hid su (view w)") auto
  ultimately show ?thesis using body eff r(3) unfolding gs_def [symmetric] by simp
qed

lemma acknowledge_tx_grants:
  assumes "run_tx (acknowledge_tx now hid su gen dg) t = Inr (t', ns)"
  shows "t' = access_grants_update (map (\<lambda>g. if list_ex (\<lambda>s. sg_HostID s = hid \<and> sg_SSHUser s = su \<and> sg_GrantID s = ag_ID g)
             (authorized_keys_snapshot_grants t) \<and> ag_HostID g = hid \<and> ag_SSHUser g = su \<and> ag_ExpiresAt g > now \<and>
           list_ex (\<lambda>k. k_UserID k = ag_UserID g) (ssh_keys t) \<and>
           list_ex (\<lambda>r. sn_HostID r = hid \<and> sn_SSHUser r = su \<and> sn_Generation r = gen \<and> sn_Digest r = dg) (authorized_keys_snapshots t)
         then g\<lparr>ag_KeyInstalled := True\<rparr> else g)) t"
proof -
  have "authorized_keys_snapshots_update (\<lambda>xs. xs) t = t" by (cases t) simp
  then show ?thesis using assms by (auto simp: acknowledge_tx_def run_tx_Cons_Inr update_rows_def)
qed

text \<open>An acknowledgement installs only what was published.  When \<^verbatim>\<open>AcknowledgeAuthorizedKeys\<close> succeeds, the
  current snapshot of the account has the acknowledged generation and digest, and the only change is
  that the unexpired grants recorded in that snapshot, whose user has a key, are marked installed.\<close>

lemma acknowledge_effect:
  assumes "sql_conn view c" "AcknowledgeAuthorizedKeys c ok now hid su gen dg w = (Inr (), w')"
  shows "(\<exists>r \<in> set (authorized_keys_snapshots (view w)). sn_HostID r = hid \<and> sn_SSHUser r = su \<and> sn_Generation r = gen \<and> sn_Digest r = dg) \<and>
    view w' = (view w)\<lparr>access_grants := map (\<lambda>g. if ag_ID g \<in> set (published_ids hid su (view w)) \<and> ag_HostID g = hid \<and> ag_SSHUser g = su \<and>
        ag_ExpiresAt g > now \<and> (\<exists>k \<in> set (ssh_keys (view w)). k_UserID k = ag_UserID g) then g\<lparr>ag_KeyInstalled := True\<rparr> else g) (access_grants (view w))\<rparr>"
proof -
  obtain ns where tx: "run_tx (acknowledge_tx now hid su gen dg) (view w) = Inr (view w', ns)" and n: "sum_list ns \<noteq> 0"
    using assms(2) unfolding AcknowledgeAuthorizedKeys_def locked_Inr
    by (auto simp: fail_Inr return_Inr simp del: sum_list_eq_0_iff split: if_splits elim!: with_tx_Inr [OF assms(1)])
  define cur where "cur t \<longleftrightarrow> list_ex (\<lambda>r. sn_HostID r = hid \<and> sn_SSHUser r = su \<and> sn_Generation r = gen \<and> sn_Digest r = dg) (authorized_keys_snapshots t)" for t :: tables
  have w': "view w' = access_grants_update (map (\<lambda>g. if list_ex (\<lambda>s. sg_HostID s = hid \<and> sg_SSHUser s = su \<and> sg_GrantID s = ag_ID g)
             (authorized_keys_snapshot_grants (view w)) \<and> ag_HostID g = hid \<and> ag_SSHUser g = su \<and> ag_ExpiresAt g > now \<and>
           list_ex (\<lambda>k. k_UserID k = ag_UserID g) (ssh_keys (view w)) \<and> cur (view w) then g\<lparr>ag_KeyInstalled := True\<rparr> else g)) (view w)"
    using acknowledge_tx_grants [OF tx] by (simp add: cur_def)
  have "cur (view w)"
  proof (rule ccontr)
    assume "\<not> cur (view w)"
    then have "sum_list ns = 0" using tx
      by (auto simp: acknowledge_tx_def run_tx_Cons_Inr update_rows_def cur_def list_ex_iff filter_empty_conv)
    then show False using n by simp
  qed
  moreover have "list_ex (\<lambda>s. sg_HostID s = hid \<and> sg_SSHUser s = su \<and> sg_GrantID s = i) (authorized_keys_snapshot_grants (view w)) \<longleftrightarrow>
      i \<in> set (published_ids hid su (view w))" for i
    by (auto simp: published_ids_def list_ex_iff)
  ultimately show ?thesis unfolding w' by (simp add: cur_def list_ex_iff)
qed

subsection \<open>Session revocation\<close>

lemma filter_unique_one:
  assumes "unique clash rs" "r \<in> set rs" "P r" "\<And>x y. P x \<Longrightarrow> P y \<Longrightarrow> clash x y"
  shows "length (filter P rs) = 1"
proof -
  have "length (filter P rs) \<le> 1" by (rule unique_length_filter [OF assms(1)]) (rule assms(4))
  moreover have "filter P rs \<noteq> []" using assms(2,3) by (auto simp: filter_empty_conv)
  ultimately show ?thesis by (cases "filter P rs") auto
qed

lemma revoke_session_tx_row:
  "run_tx (revoke_session_tx h e) t = Inr (t', ns) \<Longrightarrow> \<lparr>rs_CookieHash = h, rs_ExpiresAt = e\<rparr> \<in> set (revoked_sessions t')"
  by (auto simp: revoke_session_tx_def run_tx_Cons_Inr replace_row_def)

lemma cleanup_keeps_session:
  assumes "run_tx (cleanup_sessions_tx cutoff) t = Inr (t', ns)" "keys_ok t"
    and "r \<in> set (revoked_sessions t)" "cutoff < rs_ExpiresAt r"
  shows "r \<in> set (revoked_sessions t')"
proof -
  have u: "unique session_clash (revoked_sessions t)" using assms(2) by (simp add: keys_ok_def)
  have "rs_CookieHash r \<notin> set (expired_sessions cutoff t)"
  proof
    assume "rs_CookieHash r \<in> set (expired_sessions cutoff t)"
    then obtain x where "x \<in> set (revoked_sessions t)" "rs_ExpiresAt x \<le> cutoff" "rs_CookieHash x = rs_CookieHash r"
      by (auto simp: expired_sessions_def dest!: in_set_takeD)
    then show False using unique_find [OF u _ assms(3), of x] assms(4) by (auto simp: session_clash_def)
  qed
  then show ?thesis using assms(1,3) by (auto simp: cleanup_sessions_tx_def run_tx_Cons_Inr delete_rows_def)
qed

text \<open>A revoked session is refused at once.  After \<^verbatim>\<open>RevokeSession\<close> succeeded, whatever became of the
  clean-up it attempts, \<^verbatim>\<open>SessionRevoked\<close> answers true for the cookie at every time before the session's
  own expiry (the clean-up's clock may run ahead by less than the retention of ten minutes).\<close>

lemma RevokeSession_effective:
  assumes "sql_conn view c" "db_ok (view w)"
    and "RevokeSession c hash ok now now2 cookie e w = (Inr (), w1)"
    and "now2 < e + sessionRevocationRetention" "now3 < e"
    and "SessionRevoked c hash now3 cookie w1 = (Inr b, w2)"
  shows "b"
proof -
  let ?r = "\<lparr>rs_CookieHash = hash cookie, rs_ExpiresAt = e\<rparr>"
  obtain w0 ns where tx: "run_tx (revoke_session_tx (hash cookie) e) (view w) = Inr (view w0, ns)" and cookie: "cookie \<noteq> ''''"
    and w1: "w1 = snd (c_exec c (cleanup_sessions_tx (sessionRevocationCleanupCutoff now2)) w0)"
    using assms(3) by (auto simp: RevokeSession_def locked_Inr fail_Inr return_Inr Let_def split: if_splits elim!: with_tx_Inr [OF assms(1)])
  have ok0: "db_ok (view w0)" using store_tx_db_ok [OF tx_revoke_session assms(2) tx] .
  have r0: "?r \<in> set (revoked_sessions (view w0))" using revoke_session_tx_row [OF tx] .
  obtain q where q: "c_exec c (cleanup_sessions_tx (sessionRevocationCleanupCutoff now2)) w0 = (q, w1)"
    using w1 by (cases "c_exec c (cleanup_sessions_tx (sessionRevocationCleanupCutoff now2)) w0") simp
  have cut: "sessionRevocationCleanupCutoff now2 < rs_ExpiresAt ?r" using assms(4) by (simp add: sessionRevocationCleanupCutoff_def)
  have "?r \<in> set (revoked_sessions (view w1)) \<and> db_ok (view w1)"
    using sql_conn.exec_outcome [OF assms(1) q]
  proof (elim disjE exE)
    fix ns assume "run_tx (cleanup_sessions_tx (sessionRevocationCleanupCutoff now2)) (view w0) = Inr (view w1, ns)"
    then show ?thesis
      using cleanup_keeps_session [OF _ _ r0 cut] store_tx_db_ok [OF tx_cleanup_sessions ok0] ok0 by (simp add: db_ok_def)
  qed (use r0 ok0 in simp)
  then have "length (filter (\<lambda>r. rs_CookieHash r = hash cookie \<and> rs_ExpiresAt r > now3) (revoked_sessions (view w1))) = 1"
    using assms(5) by (intro filter_unique_one [of session_clash _ ?r]) (auto simp: db_ok_def keys_ok_def session_clash_def)
  then show ?thesis using assms(6) cookie
    by (auto simp: SessionRevoked_def return_Inr dest!: with_query_Inr [OF assms(1)])
qed

definition world_revoked :: world where
  "world_revoked = snd (RevokeSession sample_conn sample_hash True 100 100 ''cookie'' 900 world0)"

end
