(* ===== verification/Device_Properties.thy ===== *)
theory Device_Properties
  imports Store_Properties
begin

section \<open>Enrolment and heartbeats\<close>

text \<open>
  What a successful enrolment has consumed and stored, that a repeated enrolment with the same device
  key returns the same device and consumes nothing, and what the
  store method of a heartbeat answers and stores, on every branch.
\<close>

subsection \<open>Enrolment\<close>

text \<open>The token's meaning, as \<^verbatim>\<open>EnrollDevice\<close> reads it: a standalone token, a token bound to a batch, or the
  token of a batch.\<close>

definition enroll_source :: "string \<Rightarrow> tables \<Rightarrow> ManufacturingToken option \<Rightarrow> ManufacturingBatch option \<Rightarrow> bool" where
  "enroll_source h t mt batch \<longleftrightarrow> mt = token_by_hash h t \<and>
     (case mt of
        Some m \<Rightarrow> if tk_BatchID m \<noteq> '''' then batch \<noteq> None \<and> batch = batch_by_id (tk_BatchID m) t else batch = None
      | None \<Rightarrow> batch = batch_by_hash h t)"

lemma enroll_commit_Inr:
  assumes "sql_conn view c"
    and "enroll_commit c now i hid consume serial ep model fp dpk su port tags w = (Inr d, w')"
  obtains h ns where "ValidHostName serial" "\<forall>x \<in> set (devices (view w)). d_SerialNumber x \<noteq> serial"
    "d = enroll_device_row now i hid ep fp dpk serial model" "h_ID h = hid" "h_Name h = serial"
    "h_Status h = ''manufactured''" "ValidSSHUser (h_SSHUser h)" "h_SSHPort h \<noteq> 0"
    "run_tx (enroll_tx consume h d) (view w) = Inr (view w', ns)"
proof -
  let ?su = "if su = '''' then ''root'' else su" and ?port = "if port = 0 then 22 else port"
  let ?h = "enroll_host now hid serial ep ?su tags ?port" and ?d = "enroll_device_row now i hid ep fp dpk serial model"
  have v: "ValidHostName serial" and n: "query_row (\<lambda>d. d_SerialNumber d = serial) (devices (view w)) = None" and su: "ValidSSHUser ?su"
    and tx: "with_tx c (enroll_tx consume ?h ?d) (\<lambda>_. return ?d) w = (Inr d, w')"
    using assms(2) unfolding enroll_commit_def Let_def
    by (auto simp: fail_Inr split: if_splits option.splits dest!: with_query_Inr [OF assms(1)])
  obtain ns where "run_tx (enroll_tx consume ?h ?d) (view w) = Inr (view w', ns)" "d = ?d"
    using tx by (auto simp: return_Inr elim!: with_tx_Inr [OF assms(1)])
  then show ?thesis using that [of ?h ns] v n su by (auto simp: enroll_host_def query_row_None)
qed

lemma EnrollDevice_cases:
  assumes "sql_conn view c"
    and "EnrollDevice c hash ok now1 now i hid token ep sn model fp dpk su port tags w = (Inr d, w')"
  obtains (replay) "query_row (\<lambda>x. d_DevicePublicKey x = dpk) (devices (view w)) = Some d" "fp = d_SSHHostKeyFingerprint d"
      "sn = '''' \<or> sn = d_SerialNumber d" "w' = w"
    | (enrolled) mt batch consume serial where "query_row (\<lambda>x. d_DevicePublicKey x = dpk) (devices (view w)) = None"
      "enroll_source (hash token) (view w) mt batch"
      "enroll_consume hash now token sn mt batch = Inr (consume, serial)"
      "enroll_commit c now i hid consume serial ep model fp dpk su port tags w = (Inr d, w')"
proof (cases "query_row (\<lambda>x. d_DevicePublicKey x = dpk) (devices (view w))")
  case (Some r)
  then show ?thesis using assms(2) replay unfolding EnrollDevice_def locked_Inr
    by (auto simp: fail_Inr return_Inr split: if_splits dest!: with_query_Inr [OF assms(1)])
next
  case None
  let ?mt = "token_by_hash (hash token) (view w)"
  have "\<exists>batch consume serial. enroll_source (hash token) (view w) ?mt batch \<and>
      enroll_consume hash now token sn ?mt batch = Inr (consume, serial) \<and>
      enroll_commit c now i hid consume serial ep model fp dpk su port tags w = (Inr d, w')"
    using assms(2) None unfolding EnrollDevice_def locked_Inr Let_def enroll_source_def
    by (auto simp: fail_Inr split: if_splits option.splits sum.splits prod.splits dest!: with_query_Inr [OF assms(1)])
  then show ?thesis using enrolled [OF None] by blast
qed

lemma consume_token_effect:
  assumes "st_run (consume_token now i h) t = Inr (t', 1)" "unique token_clash (manufacturing_tokens t)"
  shows "hosts t' = hosts t \<and> devices t' = devices t \<and> manufacturing_batches t' = manufacturing_batches t \<and>
    (\<forall>r \<in> set (manufacturing_tokens t'). mt_TokenHash r \<noteq> h)"
proof -
  let ?P = "\<lambda>r. mt_ID r = i \<and> mt_TokenHash r = h \<and> (case mt_ExpiresAt r of None \<Rightarrow> True | Some e \<Rightarrow> e > now)"
  have t': "t' = manufacturing_tokens_update (filter (\<lambda>r. \<not> ?P r)) t" and one: "length (filter ?P (manufacturing_tokens t)) = 1"
    using assms(1) by (auto simp: consume_token_def delete_rows_def)
  then obtain r where r: "r \<in> set (manufacturing_tokens t)" "?P r"
    using filter_empty_conv [of ?P "manufacturing_tokens t"] by (cases "filter ?P (manufacturing_tokens t)") auto
  have "mt_TokenHash x \<noteq> h" if "x \<in> set (manufacturing_tokens t)" "\<not> ?P x" for x
    using unique_find [OF assms(2) that(1) r(1)] r(2) that(2) by (auto simp: token_clash_def)
  then show ?thesis by (auto simp: t')
qed

lemma consume_batch_effect:
  assumes "st_run (consume_batch now i used) t = Inr (t', 1)"
  shows "hosts t' = hosts t \<and> devices t' = devices t \<and> manufacturing_tokens t' = manufacturing_tokens t \<and>
    (\<exists>b \<in> set (manufacturing_batches t). mb_ID b = i \<and> mb_Status b = ''open'' \<and> mb_ExpiresAt b > now \<and> mb_UsedCount b = used \<and>
       used < mb_MaxDevices b \<and> use_slot now b \<in> set (manufacturing_batches t'))"
proof -
  let ?P = "\<lambda>b. mb_ID b = i \<and> mb_Status b = ''open'' \<and> mb_ExpiresAt b > now \<and> mb_UsedCount b = used \<and> mb_UsedCount b < mb_MaxDevices b"
  have t': "t' = manufacturing_batches_update (map (\<lambda>b. if ?P b then use_slot now b else b)) t"
    and "length (filter ?P (manufacturing_batches t)) = 1"
    using assms by (auto simp: consume_batch_def update_rows_def)
  then obtain b where "b \<in> set (manufacturing_batches t)" "?P b"
    using filter_empty_conv [of ?P "manufacturing_batches t"] by (cases "filter ?P (manufacturing_batches t)") auto
  then show ?thesis by (force simp: t')
qed

lemma enroll_tx_split:
  assumes "run_tx (enroll_tx consume h d) t = Inr (t', ns)"
  obtains t1 n1 where "run_tx consume t = Inr (t1, n1)" "hosts t' = hosts t1 @ [h]" "devices t' = devices t1 @ [d]"
    "manufacturing_tokens t' = manufacturing_tokens t1" "manufacturing_batches t' = manufacturing_batches t1"
  using assms
  by (auto simp: enroll_tx_def run_tx_append_Inr run_tx_Cons_Inr insert_row_def split: if_splits)

lemma run_one: "run_tx [s] t = Inr (t', ns) \<Longrightarrow> st_expected s = Some 1 \<Longrightarrow> st_run s t = Inr (t', 1)"
  by (auto simp: run_tx_Cons_Inr)

lemma run_two: "run_tx [s, s'] t = Inr (t', ns) \<Longrightarrow> st_expected s = Some 1 \<Longrightarrow> st_expected s' = Some 1 \<Longrightarrow>
    \<exists>t1. st_run s t = Inr (t1, 1) \<and> st_run s' t1 = Inr (t', 1)"
  by (auto simp: run_tx_Cons_Inr)

lemma consume_expected [simp]: "st_expected (consume_token now i h) = Some 1" "st_expected (consume_batch now i u) = Some 1"
  by (simp_all add: consume_token_def consume_batch_def)

text \<open>What a batch slot is: an open, unexpired batch of the table with the serial number of its next slot.\<close>

definition took_slot :: "int \<Rightarrow> string \<Rightarrow> tables \<Rightarrow> tables \<Rightarrow> bool" where
  "took_slot now serial t t' \<longleftrightarrow> (\<exists>b \<in> set (manufacturing_batches t). mb_Status b = ''open'' \<and> mb_ExpiresAt b > now \<and>
     mb_UsedCount b < mb_MaxDevices b \<and> use_slot now b \<in> set (manufacturing_batches t') \<and>
     serial = batch_serial (mb_SerialPrefix b) (mb_UsedCount b + 1))"

lemma batch_lookup_row:
  "batch_by_id i t = Some b \<Longrightarrow> \<exists>r \<in> set (manufacturing_batches t). b = batch_of_row r"
  "batch_by_hash h t = Some b \<Longrightarrow> \<exists>r \<in> set (manufacturing_batches t). b = batch_of_row r"
  using query_row_Some by (fastforce simp: batch_by_id_def batch_by_hash_def)+

lemma enroll_source_batch: "enroll_source h t mt (Some b) \<Longrightarrow> \<exists>r \<in> set (manufacturing_batches t). b = batch_of_row r"
  using batch_lookup_row by (auto simp: enroll_source_def split: option.splits if_splits)

lemma enroll_effect:
  assumes "keys_ok t" "enroll_source (hash token) t mt batch"
    and "enroll_consume hash now token sn mt batch = Inr (consume, serial)"
    and "run_tx (enroll_tx consume h d) t = Inr (t', ns)"
  shows "hosts t' = hosts t @ [h] \<and> devices t' = devices t @ [d] \<and>
    (\<forall>r \<in> set (manufacturing_tokens t'). mt_TokenHash r \<noteq> hash token) \<and>
    (case batch of None \<Rightarrow> mt \<noteq> None \<and> serial = sn | Some _ \<Rightarrow> took_slot now serial t t')"
proof -
  have tok: "unique token_clash (manufacturing_tokens t)" and bat: "unique batch_clash (manufacturing_batches t)"
    using assms(1) by (simp_all add: keys_ok_def)
  obtain t1 n1 where t1: "run_tx consume t = Inr (t1, n1)" and t': "hosts t' = hosts t1 @ [h]" "devices t' = devices t1 @ [d]"
    "manufacturing_tokens t' = manufacturing_tokens t1" "manufacturing_batches t' = manufacturing_batches t1"
    using assms(4) by (rule enroll_tx_split)
  have none: "\<forall>r \<in> set (manufacturing_tokens t). mt_TokenHash r \<noteq> hash token" if "mt = None"
    using assms(2) that by (auto simp: enroll_source_def token_by_hash_def query_row_None)
  show ?thesis
  proof (cases batch)
    case None
    then obtain m where "mt = Some m" "consume = [consume_token now (tk_ID m) (hash token)]" "serial = sn"
      using assms(3) by (auto simp: enroll_consume_def split: option.splits if_splits)
    then show ?thesis using consume_token_effect [OF run_one tok] t1 t' None by auto
  next
    case (Some b)
    obtain r where r: "r \<in> set (manufacturing_batches t)" "b = batch_of_row r" using enroll_source_batch assms(2) Some by blast
    have serial: "serial = batch_serial (mb_SerialPrefix r) (mb_UsedCount r + 1)"
      using assms(3) Some r(2) by (auto simp: enroll_consume_def Let_def batch_of_row_def split: if_splits)
    have slot: "took_slot now serial t t'" if run: "st_run (consume_batch now (mb_ID r) (mb_UsedCount r)) t = Inr (t2, 1)"
      and same: "manufacturing_batches t2 = manufacturing_batches t'" for t2
    proof -
      obtain b1 where b1: "b1 \<in> set (manufacturing_batches t)" "mb_ID b1 = mb_ID r" "mb_Status b1 = ''open''" "mb_ExpiresAt b1 > now"
        "mb_UsedCount b1 < mb_MaxDevices b1" "use_slot now b1 \<in> set (manufacturing_batches t2)"
        using consume_batch_effect [OF run] by auto
      then have "b1 = r" using unique_find [OF bat _ r(1), of b1] by (simp add: batch_clash_def)
      then show ?thesis using b1 same serial unfolding took_slot_def by auto
    qed
    show ?thesis
    proof (cases mt)
      case None
      then have "consume = [consume_batch now (mb_ID r) (mb_UsedCount r)]"
        using assms(3) Some r(2) by (auto simp: enroll_consume_def Let_def batch_of_row_def split: if_splits)
      then have "st_run (consume_batch now (mb_ID r) (mb_UsedCount r)) t = Inr (t1, 1)" using t1 run_one by simp
      then show ?thesis using consume_batch_effect slot [of t1] t' none [OF None] Some by auto
    next
      case m: (Some m)
      then have "consume = [consume_batch now (mb_ID r) (mb_UsedCount r), consume_token now (tk_ID m) (hash token)]"
        using assms(3) Some r(2) by (auto simp: enroll_consume_def Let_def batch_of_row_def split: if_splits)
      then obtain t2 where t2: "st_run (consume_batch now (mb_ID r) (mb_UsedCount r)) t = Inr (t2, 1)"
        "st_run (consume_token now (tk_ID m) (hash token)) t2 = Inr (t1, 1)" using t1 run_two by fastforce
      have e2: "hosts t2 = hosts t \<and> devices t2 = devices t \<and> manufacturing_tokens t2 = manufacturing_tokens t"
        using consume_batch_effect [OF t2(1)] by simp
      have "unique token_clash (manufacturing_tokens t2)" using tok e2 by simp
      from consume_token_effect [OF t2(2) this] show ?thesis using slot [OF t2(1)] e2 t' Some by auto
    qed
  qed
qed

text \<open>C25. Enrolment is all or nothing and consumes its authority.  When \<^verbatim>\<open>EnrollDevice\<close> succeeds for a device key
  that is not enrolled yet, exactly one host and one device were added, bound to each other and named
  by a valid serial number; afterwards no token with the presented secret exists any more; and unless
  a standalone token paid for it, it took one slot of an open, unexpired batch with a free slot, and
  the serial number is that slot's.\<close>

theorem EnrollDevice_consumes:
  assumes "sql_conn view c" "db_ok (view w)"
    and "EnrollDevice c hash ok now1 now i hid token ep sn model fp dpk su port tags w = (Inr d, w')"
    and "\<forall>x \<in> set (devices (view w)). d_DevicePublicKey x \<noteq> dpk"
  shows "(\<exists>h. hosts (view w') = hosts (view w) @ [h] \<and> h_ID h = d_HostID d \<and> h_Name h = d_SerialNumber d \<and> ValidHostName (h_Name h)) \<and>
    devices (view w') = devices (view w) @ [d] \<and> d_DevicePublicKey d = dpk \<and> d_HostID d = hid \<and> d_State d = ''manufactured'' \<and>
    (\<forall>r \<in> set (manufacturing_tokens (view w')). mt_TokenHash r \<noteq> hash token) \<and>
    ((\<exists>m \<in> set (manufacturing_tokens (view w)). mt_TokenHash m = hash token \<and> mt_BatchID m = '''') \<or>
     took_slot now (d_SerialNumber d) (view w) (view w'))"
  using assms(1,3)
proof (cases rule: EnrollDevice_cases)
  case replay
  then show ?thesis using assms(4) query_row_Some [of _ "devices (view w)" d] by auto
next
  case (enrolled mt batch consume serial)
  from assms(1) enrolled(4) obtain h ns where v: "ValidHostName serial"
    and d: "d = enroll_device_row now i hid ep fp dpk serial model" and h: "h_ID h = hid" "h_Name h = serial"
    and tx: "run_tx (enroll_tx consume h d) (view w) = Inr (view w', ns)" by (rule enroll_commit_Inr)
  have keys: "keys_ok (view w)" using assms(2) by (simp add: db_ok_def)
  have src: "\<exists>m \<in> set (manufacturing_tokens (view w)). mt_TokenHash m = hash token \<and> mt_BatchID m = ''''"
    if none: "batch = None" and tok: "mt \<noteq> None"
  proof -
    obtain r where r: "query_row (\<lambda>r. mt_TokenHash r = hash token) (manufacturing_tokens (view w)) = Some r" "mt = Some (token_of_row r)"
      using enrolled(2) tok by (auto simp: enroll_source_def token_by_hash_def)
    then have "mt_BatchID r = ''''"
      using enrolled(2) none by (auto simp: enroll_source_def token_of_row_def split: if_splits)
    then show ?thesis using query_row_Some [OF r(1)] by blast
  qed
  show ?thesis using enroll_effect [OF keys enrolled(2,3) tx] v h d src
    by (cases batch) (auto simp: enroll_device_row_def)
qed

lemma world1_ok: "db_ok (wo_tables world1)"
proof -
  have "(store_call (\<lambda>_. True) sample_conn)\<^sup>*\<^sup>* world0 world1"
    unfolding world1_def by (rule r_into_rtranclp) (rule call_CreateManufacturingToken)
  then show ?thesis using store_calls_db_ok [OF sample_contract] sample_start db_ok_empty by metis
qed

definition fresh_device :: Device where
  "fresh_device = enroll_device_row 101 ''dev1'' ''host1'' ''ep1'' ''SHA256:x'' ''pk1'' ''edge-1'' ''m''"

lemma sample_enrol:
  "EnrollDevice sample_conn sample_hash True 101 101 ''dev1'' ''host1'' ''secret'' ''ep1'' ''edge-1'' ''m'' ''SHA256:x'' ''pk1'' ''root'' 22 None world1 =
    (Inr fresh_device, world2)"
proof -
  have "fst (EnrollDevice sample_conn sample_hash True 101 101 ''dev1'' ''host1'' ''secret'' ''ep1'' ''edge-1'' ''m'' ''SHA256:x'' ''pk1'' ''root'' 22 None world1) =
    Inr fresh_device" by code_simp
  then show ?thesis by (simp add: prod_eq_iff world2_def)
qed

theorem EnrollDevice_consumes_witness:
  "manufacturing_tokens (wo_tables world1) \<noteq> [] \<and>
   sample_hash ''secret'' \<notin> mt_TokenHash ` set (manufacturing_tokens (wo_tables world2))"
proof
  show "manufacturing_tokens (wo_tables world1) \<noteq> []" by code_simp
  have "devices (wo_tables world1) = []" by code_simp
  then show "sample_hash ''secret'' \<notin> mt_TokenHash ` set (manufacturing_tokens (wo_tables world2))"
    using EnrollDevice_consumes [OF sample_contract world1_ok sample_enrol] by auto
qed

text \<open>Enrolment is idempotent.  A device that repeats a successful enrolment with the same key and
  fingerprint, with whatever token, gets the same device back, and nothing is consumed or stored.\<close>

lemma EnrollDevice_replay:
  assumes "sql_conn view c"
    and "EnrollDevice c hash ok now1 now i hid token ep sn model fp dpk su port tags w = (Inr d, w1)"
    and "EnrollDevice c hash ok' now1' now' i' hid' token' ep' sn model' fp dpk su' port' tags' w1 = (Inr d', w2)"
  shows "d' = d \<and> w2 = w1"
proof -
  have found: "query_row (\<lambda>x. d_DevicePublicKey x = dpk) (devices (view w1)) = Some d"
    using assms(1,2)
  proof (cases rule: EnrollDevice_cases)
    case (enrolled mt batch consume serial)
    from assms(1) enrolled(4) obtain h ns where d: "d = enroll_device_row now i hid ep fp dpk serial model"
      and tx: "run_tx (enroll_tx consume h d) (view w) = Inr (view w1, ns)" by (rule enroll_commit_Inr)
    obtain t1 n1 where t1: "run_tx consume (view w) = Inr (t1, n1)" and dev: "devices (view w1) = devices t1 @ [d]"
      using tx by (rule enroll_tx_split)
    have "keeps (\<lambda>t. devices t = devices (view w)) (st_run s)" if "s \<in> set consume" for s
      using enroll_consume_shape [OF enrolled(3)] that
      by (auto simp: enroll_consumes.simps part_defs keeps_def update_rows_def delete_rows_def)
    then have "devices t1 = devices (view w)"
      using run_tx_keeps [of consume "\<lambda>t. devices t = devices (view w)" "view w" t1 n1] t1 by blast
    then show ?thesis using enrolled(1) dev d
      by (auto simp: query_row_def find_None_iff find_Some_iff nth_append enroll_device_row_def intro!: exI [of _ "length (devices (view w))"])
  qed simp
  show ?thesis using assms(1,3)
    by (cases rule: EnrollDevice_cases) (use found in auto)
qed

subsection \<open>Heartbeats\<close>

lemma device_active_touched:
  "device_active i hid (devices_update (map (\<lambda>d. if P d then d\<lparr>d_LastSeenAt := x\<rparr> else d)) t) \<longleftrightarrow> device_active i hid t"
proof -
  have "list_ex (\<lambda>d. d_ID d = i \<and> d_HostID d = hid \<and> d_State d \<noteq> ''revoked'') (map (\<lambda>d. if P d then d\<lparr>d_LastSeenAt := x\<rparr> else d) ds) =
    list_ex (\<lambda>d. d_ID d = i \<and> d_HostID d = hid \<and> d_State d \<noteq> ''revoked'') ds" for ds
    by (induction ds) auto
  then show ?thesis by (simp add: device_active_def)
qed

lemma upsert_discovery_stores:
  assumes "upsert_discovery r t = Inr (t', n)"
  shows "n = 1 \<and> hosts t' = hosts t \<and> devices t' = devices t \<and> (\<exists>x \<in> set (endpoint_discovery t'). ed_HostID x = ed_HostID r \<and>
    ed_DirectAddresses x = ed_DirectAddresses r \<and> ed_RelayURLs x = ed_RelayURLs r)"
proof (cases "list_ex (\<lambda>x. discovery_clash x r) (endpoint_discovery t)")
  case True
  then obtain x where "x \<in> set (endpoint_discovery t)" "discovery_clash x r" by (auto simp: list_ex_iff)
  moreover have "n = 1 \<and> t' = endpoint_discovery_update (map (\<lambda>x. if discovery_clash x r then
      x\<lparr>ed_DirectAddresses := ed_DirectAddresses r, ed_RelayURLs := ed_RelayURLs r, ed_UpdatedAt := ed_UpdatedAt r\<rparr> else x)) t"
    using assms True by (simp add: upsert_discovery_def upsert_row_def)
  ultimately show ?thesis by (force simp: discovery_clash_def)
next
  case False
  then show ?thesis using assms by (auto simp: upsert_discovery_def upsert_row_def)
qed

text \<open>The rows that the three statements of a heartbeat write.\<close>

abbreviation touched_device :: "string \<Rightarrow> string \<Rightarrow> string \<Rightarrow> string \<Rightarrow> Device \<Rightarrow> bool" where
  "touched_device i hid ep fp d \<equiv> d_ID d = i \<and> d_HostID d = hid \<and> d_EndpointID d = ep \<and> d_SSHHostKeyFingerprint d = fp \<and> d_State d \<noteq> ''revoked''"

lemma touch_tx_active:
  assumes "run_tx (touch_tx now i hid ep fp status addrs relays) t = Inr (t', ns)" "device_active i hid t"
  shows "sum_list ns = length (filter (touched_device i hid ep fp) (devices t)) + length (filter (\<lambda>h. h_ID h = hid) (hosts t)) + 1 \<and>
    devices t' = map (\<lambda>d. if touched_device i hid ep fp d then d\<lparr>d_LastSeenAt := Some now\<rparr> else d) (devices t) \<and>
    hosts t' = map (\<lambda>h. if h_ID h = hid then h\<lparr>h_Status := status, h_LastSeen := Some now, h_updated_at := now\<rparr> else h) (hosts t) \<and>
    (\<exists>x \<in> set (endpoint_discovery t'). ed_HostID x = hid \<and> ed_DirectAddresses x = addrs \<and> ed_RelayURLs x = relays)"
proof -
  define t1 where "t1 = devices_update (map (\<lambda>d. if touched_device i hid ep fp d then d\<lparr>d_LastSeenAt := Some now\<rparr> else d)) t"
  define t2 where "t2 = hosts_update (map (\<lambda>h. if h_ID h = hid then h\<lparr>h_Status := status, h_LastSeen := Some now, h_updated_at := now\<rparr> else h)) t1"
  have a1: "device_active i hid t1" unfolding t1_def device_active_touched by (fact assms(2))
  then have a2: "device_active i hid t2" by (simp add: t2_def device_active_def)
  obtain n where up: "upsert_discovery (discovery_row hid addrs relays now) t2 = Inr (t', n)"
    and ns: "ns = [length (filter (touched_device i hid ep fp) (devices t)), length (filter (\<lambda>h. h_ID h = hid) (hosts t1)), n]"
    using assms(1) a1 a2 unfolding touch_tx_def
    by (auto simp: run_tx_Cons_Inr update_rows_def insert_when_def simp flip: t1_def) (simp add: t2_def)
  have "hosts t1 = hosts t" "devices t2 = devices t1" by (simp_all add: t1_def t2_def)
  then show ?thesis using upsert_discovery_stores [OF up] ns by (simp add: t1_def t2_def discovery_row_def)
qed

lemma touch_tx_inactive:
  assumes "run_tx (touch_tx now i hid ep fp status addrs relays) t = Inr (t', ns)" "\<not> device_active i hid t"
  shows "sum_list ns = 0 \<and> t' = t"
proof -
  have none: "filter (touched_device i hid ep fp) (devices t) = []"
    using assms(2) by (auto simp: device_active_def list_ex_iff filter_empty_conv)
  then have "map (\<lambda>d. if touched_device i hid ep fp d then d\<lparr>d_LastSeenAt := Some now\<rparr> else d) (devices t) = devices t"
    by (intro map_idI) (auto simp: filter_empty_conv)
  then have id: "devices_update (map (\<lambda>d. if touched_device i hid ep fp d then d\<lparr>d_LastSeenAt := Some now\<rparr> else d)) t = t" by simp
  have same: "hosts_update (\<lambda>xs. xs) t = t" by (cases t) simp
  have id': "hosts_update (map (\<lambda>h. if h_ID h = hid \<and> device_active i hid t
      then h\<lparr>h_Status := status, h_LastSeen := Some now, h_updated_at := now\<rparr> else h)) t = t" using assms(2) same by simp
  show ?thesis using assms none unfolding touch_tx_def
    by (simp add: run_tx_Cons_Inr update_rows_def insert_when_def id id' same split: if_splits)
qed

text \<open>A well-formed database has one device per host and one host per device, so a heartbeat of an active device
  writes two rows, and three exactly if it names the enrolled endpoint and fingerprint.\<close>

lemma filter_distinct_key: "distinct (map f xs) \<Longrightarrow> x \<in> set xs \<Longrightarrow> filter (\<lambda>y. f y = f x) xs = [x]"
  by (induction xs) (auto simp: filter_empty_conv rev_image_eqI)

lemma touch_rows:
  assumes "db_ok t" "d \<in> set (devices t)"
  shows "length (filter (touched_device (d_ID d) (d_HostID d) ep fp) (devices t)) =
      of_bool (d_EndpointID d = ep \<and> d_SSHHostKeyFingerprint d = fp \<and> d_State d \<noteq> ''revoked'')"
    and "length (filter (\<lambda>h. h_ID h = d_HostID d) (hosts t)) = 1"
proof -
  have "filter (touched_device (d_ID d) (d_HostID d) ep fp) (devices t) =
      filter (touched_device (d_ID d) (d_HostID d) ep fp) (filter (\<lambda>y. d_HostID y = d_HostID d) (devices t))"
    by (simp add: conj_ac cong: conj_cong)
  also have "filter (\<lambda>y. d_HostID y = d_HostID d) (devices t) = [d]"
    using assms by (intro filter_distinct_key) (simp_all add: db_ok_def fleet_ok_def)
  finally show "length (filter (touched_device (d_ID d) (d_HostID d) ep fp) (devices t)) =
      of_bool (d_EndpointID d = ep \<and> d_SSHHostKeyFingerprint d = fp \<and> d_State d \<noteq> ''revoked'')" by simp
  have "length (filter (\<lambda>h. h_ID h = d_HostID d) (hosts t)) \<le> 1"
    using assms(1) by (intro unique_length_filter [of host_clash]) (simp_all add: db_ok_def keys_ok_def host_clash_def)
  moreover have "d_HostID d \<in> h_ID ` set (hosts t)" using assms by (auto simp: db_ok_def fleet_ok_def)
  then have "filter (\<lambda>h. h_ID h = d_HostID d) (hosts t) \<noteq> []" by (auto simp: filter_empty_conv)
  ultimately show "length (filter (\<lambda>h. h_ID h = d_HostID d) (hosts t)) = 1" by (simp add: le_Suc_eq)
qed

text \<open>C26. What \<^verbatim>\<open>TouchDevice\<close> answers and stores, once the database has run its transaction.  For an active device of
  that host with the enrolled endpoint and fingerprint it succeeds, and the device's and the host's last-seen time, the host's
  status and the endpoint discovery are stored.  For an active device whose endpoint or fingerprint differs it answers
  "device identity mismatch", leaves the devices as they are, but the host's status and last-seen time and the
  discovery have been stored all the same: the number of rows is compared after the transaction has
  committed.  When no active device has that identifier and host the answer is the same error and nothing
  has changed.  The heartbeat handler checks the identity before it calls the method (\<^verbatim>\<open>verifyDevice\<close>), so through the
  API the second case needs an identity that changes between the two.\<close>

theorem TouchDevice_outcome:
  assumes "sql_conn view c" "db_ok (view w)" "c_exec c (touch_tx now i hid ep fp status addrs relays) w = (Inr n, w')"
  shows "(\<forall>d \<in> set (devices (view w)). d_ID d = i \<and> d_HostID d = hid \<and> d_State d \<noteq> ''revoked'' \<longrightarrow>
      TouchDevice c True now i hid ep fp status addrs relays w =
        (if d_EndpointID d = ep \<and> d_SSHHostKeyFingerprint d = fp then Inr () else Inl DeviceMismatch, w') \<and>
      (if d_EndpointID d = ep \<and> d_SSHHostKeyFingerprint d = fp then d\<lparr>d_LastSeenAt := Some now\<rparr> \<in> set (devices (view w'))
       else devices (view w') = devices (view w)) \<and>
      (\<exists>h \<in> set (hosts (view w')). h_ID h = hid \<and> h_Status h = status \<and> h_LastSeen h = Some now) \<and>
      (\<exists>x \<in> set (endpoint_discovery (view w')). ed_HostID x = hid \<and> ed_DirectAddresses x = addrs \<and> ed_RelayURLs x = relays)) \<and>
    (\<not> device_active i hid (view w) \<longrightarrow>
      TouchDevice c True now i hid ep fp status addrs relays w = (Inl DeviceMismatch, w') \<and> view w' = view w)"
proof (intro conjI ballI impI)
  obtain ns where tx: "run_tx (touch_tx now i hid ep fp status addrs relays) (view w) = Inr (view w', ns)" and n: "n = sum_list ns"
    using sql_conn.exec_ok [OF assms(1,3)] by blast
  have touch: "TouchDevice c True now i hid ep fp status addrs relays w = (if n = 3 then Inr () else Inl DeviceMismatch, w')"
    using assms(3) by (simp add: TouchDevice_def store_monad)
  fix d assume d: "d \<in> set (devices (view w))" and "d_ID d = i \<and> d_HostID d = hid \<and> d_State d \<noteq> ''revoked''"
  then have ids: "d_ID d = i" "d_HostID d = hid" "d_State d \<noteq> ''revoked''" by simp_all
  then have active: "device_active i hid (view w)" using d by (auto simp: device_active_def list_ex_iff)
  note stored = touch_tx_active [OF tx active] and rows = touch_rows(1) [OF assms(2) d, of ep fp, unfolded ids(1,2)] touch_rows(2) [OF assms(2) d, unfolded ids(2)]
  show "TouchDevice c True now i hid ep fp status addrs relays w =
      (if d_EndpointID d = ep \<and> d_SSHHostKeyFingerprint d = fp then Inr () else Inl DeviceMismatch, w')"
    using touch n stored rows ids(3) by simp
  show "if d_EndpointID d = ep \<and> d_SSHHostKeyFingerprint d = fp then d\<lparr>d_LastSeenAt := Some now\<rparr> \<in> set (devices (view w'))
      else devices (view w') = devices (view w)"
    using stored rows(1) ids d by (auto simp: filter_empty_conv intro!: map_idI image_eqI [of _ _ d])
  have "filter (\<lambda>h. h_ID h = hid) (hosts (view w)) \<noteq> []" using rows(2) by fastforce
  then obtain h where h: "h \<in> set (hosts (view w))" "h_ID h = hid" by (auto simp: filter_empty_conv)
  then have "h\<lparr>h_Status := status, h_LastSeen := Some now, h_updated_at := now\<rparr> \<in> set (hosts (view w'))" using stored by force
  then show "\<exists>h \<in> set (hosts (view w')). h_ID h = hid \<and> h_Status h = status \<and> h_LastSeen h = Some now"
    using h(2) by (intro bexI [of _ "h\<lparr>h_Status := status, h_LastSeen := Some now, h_updated_at := now\<rparr>"]) simp_all
  show "\<exists>x \<in> set (endpoint_discovery (view w')). ed_HostID x = hid \<and> ed_DirectAddresses x = addrs \<and> ed_RelayURLs x = relays"
    using stored by blast
next
  assume "\<not> device_active i hid (view w)"
  moreover obtain ns where "run_tx (touch_tx now i hid ep fp status addrs relays) (view w) = Inr (view w', ns)" "n = sum_list ns"
    using sql_conn.exec_ok [OF assms(1,3)] by blast
  ultimately have "n = 0 \<and> view w' = view w" using touch_tx_inactive by metis
  then show "TouchDevice c True now i hid ep fp status addrs relays w = (Inl DeviceMismatch, w')" "view w' = view w"
    using assms(3) by (simp_all add: TouchDevice_def store_monad)
qed

lemma world2_ok: "db_ok (wo_tables world2)"
proof -
  have "store_call (\<lambda>_. True) sample_conn world0 world1" unfolding world1_def by (rule call_CreateManufacturingToken)
  moreover have "store_call (\<lambda>_. True) sample_conn world1 world2" unfolding world2_def by (rule call_EnrollDevice) simp
  ultimately have "(store_call (\<lambda>_. True) sample_conn)\<^sup>*\<^sup>* world0 world2" by (meson converse_rtranclp_into_rtranclp rtranclp.rtrancl_refl)
  from store_calls_db_ok [OF sample_contract this] show ?thesis using sample_start db_ok_empty by simp
qed

theorem TouchDevice_outcome_witness:
  "\<exists>w. TouchDevice sample_conn True 150 ''dev1'' ''host1'' ''wrong'' ''SHA256:x'' ''online'' [''10.0.0.1:22''] [] world2 = (Inl DeviceMismatch, w) \<and>
     (\<exists>x \<in> set (endpoint_discovery (wo_tables w)). ed_DirectAddresses x = [''10.0.0.1:22''])"
proof -
  let ?tx = "touch_tx 150 ''dev1'' ''host1'' ''wrong'' ''SHA256:x'' ''online'' [''10.0.0.1:22''] []"
  have "\<not> isl (fst (c_exec sample_conn ?tx world2))" by code_simp
  then obtain n w where e: "c_exec sample_conn ?tx world2 = (Inr n, w)" by (metis isl_def prod.collapse sum.exhaust_sel)
  have "list_ex (\<lambda>d. d_ID d = ''dev1'' \<and> d_HostID d = ''host1'' \<and> d_State d \<noteq> ''revoked'' \<and> d_EndpointID d \<noteq> ''wrong'') (devices (wo_tables world2))"
    by code_simp
  then obtain d where d: "d \<in> set (devices (wo_tables world2))" "d_ID d = ''dev1'' \<and> d_HostID d = ''host1'' \<and> d_State d \<noteq> ''revoked''" "d_EndpointID d \<noteq> ''wrong''"
    unfolding list_ex_iff by blast
  from mp [OF bspec [OF conjunct1 [OF TouchDevice_outcome [OF sample_contract world2_ok e]] d(1)] d(2)] d(3) show ?thesis by auto
qed

end
