(* ===== verification/Fence_Properties.thy ===== *)
theory Fence_Properties
  imports Store_Properties
begin

section \<open>The trust fence\<close>

text \<open>
  The properties of the fenced connection, for every environment that meets \<open>fence_env\<close>: a fenced write
  refines the abstract write of \<open>fenced_write\<close>; the database's pair never leaves the two pairs that the
  anchor names; nothing is read unless the database is on the anchor's pair.
\<close>

text \<open>The database carries the anchor's pair or, while a fence is up, the pending one.\<close>

definition pair_ok :: "('tr, 'rc) fstate \<Rightarrow> bool" where
  "pair_ok s = (case s of (t, p, r) \<Rightarrow> p = Some (anchor_pair r) \<or> (pending_pair r \<noteq> None \<and> p = pending_pair r))"

definition fence_epoch :: "('tr, 'rc) fstate \<Rightarrow> int" where
  "fence_epoch s = (case s of (t, p, r) \<Rightarrow> ta_Epoch r)"

lemma fenced_write_pair:
  assumes "fenced_write ss s q s'" "pair_ok s"
  shows "pair_ok s' \<and> fence_epoch s \<le> fence_epoch s' \<and> fence_epoch s' \<le> fence_epoch s + 1 \<and>
    (\<forall>n. q = Inr n \<longrightarrow> settled s' \<and> fence_epoch s' = fence_epoch s + 1)"
  using assms
  by (induction rule: fenced_write.induct)
     (auto simp: pair_ok_def fence_epoch_def settled_def reserve_def finalize_def anchor_pair_def pending_pair_def)

text \<open>C10. A fenced write is the abstract write.  Whatever the anchor's store and the database answer,
  \<^verbatim>\<open>execute\<close> leaves tables, database pair and anchor in one of four ways: untouched; reserved; reserved with
  the statements and the new pair stored; or published, with the statements and the new pair stored
  and the anchor on that pair.  It reports success only in the last case, with the number of rows of
  the original statements.\<close>

theorem fenced_execute_refines:
  assumes "fence_env env v_tables v_trust v_anchor v_rv"
    and "ExecTransactionResult env \<lparr>rz_trust = Some b, rz_trustRequired = req\<rparr> ss x = (q, x')"
  shows "fenced_write ss (v_tables x, v_trust x, v_anchor x) q (v_tables x', v_trust x', v_anchor x')"
proof (cases "ss = []")
  case True
  then show ?thesis using assms(2) by (auto simp: ExecTransactionResult_def intro: fenced_write.untouched)
next
  case False
  then have "execute_fenced env b ss x = (q, x')" using assms(2) by (simp add: ExecTransactionResult_def)
  from fence_env.execute_fenced_refines [OF assms(1) this] show ?thesis by (simp add: fence_env.fstate_def [OF assms(1)])
qed

definition sample_rz :: rhizaSQL where
  "sample_rz = \<lparr>rz_trust = Some sample_binding, rz_trustRequired = True\<rparr>"

definition sample_write :: "fault list \<Rightarrow> (db_error + nat) \<times> world" where
  "sample_write script = ExecTransactionResult ref_env sample_rz (audit_tx (audit_row ''e1'' ''x'' ''host'' ''h'' ''alice'' None 100)) (world0\<lparr>wo_script := script\<rparr>)"

theorem fenced_execute_refines_witness:
  "fenced_write (audit_tx (audit_row ''e1'' ''x'' ''host'' ''h'' ''alice'' None 100))
     (wo_tables world0, wo_trust world0, wo_anchor world0) (fst (sample_write [Served, ResponseLost]))
     (wo_tables (snd (sample_write [Served, ResponseLost])), wo_trust (snd (sample_write [Served, ResponseLost])),
      wo_anchor (snd (sample_write [Served, ResponseLost]))) \<and>
   fst (sample_write [Served, ResponseLost]) = Inl ErrCommitUnknown"
proof
  have "ExecTransactionResult ref_env \<lparr>rz_trust = Some sample_binding, rz_trustRequired = True\<rparr>
      (audit_tx (audit_row ''e1'' ''x'' ''host'' ''h'' ''alice'' None 100)) (world0\<lparr>wo_script := [Served, ResponseLost]\<rparr>) =
      (fst (sample_write [Served, ResponseLost]), snd (sample_write [Served, ResponseLost]))"
    by (simp add: sample_write_def sample_rz_def)
  from fenced_execute_refines [OF ref.fence_env_axioms this]
  show "fenced_write (audit_tx (audit_row ''e1'' ''x'' ''host'' ''h'' ''alice'' None 100))
     (wo_tables world0, wo_trust world0, wo_anchor world0) (fst (sample_write [Served, ResponseLost]))
     (wo_tables (snd (sample_write [Served, ResponseLost])), wo_trust (snd (sample_write [Served, ResponseLost])),
      wo_anchor (snd (sample_write [Served, ResponseLost])))" by simp
  show "fst (sample_write [Served, ResponseLost]) = Inl ErrCommitUnknown" by code_simp
qed

text \<open>The pair never diverges.  If the database is on the anchor's pair or on the pending one before a
  fenced write, it is so afterwards, whatever the outcome; the anchor's epoch never falls and moves by
  at most one; and a write that reports success has left no fence, the database on the anchor's pair
  and the epoch moved by exactly one.\<close>

lemma fence_pair_invariant:
  assumes "fence_env env v_tables v_trust v_anchor v_rv"
    and "pair_ok (v_tables x, v_trust x, v_anchor x)"
    and "ExecTransactionResult env \<lparr>rz_trust = Some b, rz_trustRequired = req\<rparr> ss x = (q, x')"
  shows "pair_ok (v_tables x', v_trust x', v_anchor x') \<and>
    ta_Epoch (v_anchor x) \<le> ta_Epoch (v_anchor x') \<and> ta_Epoch (v_anchor x') \<le> ta_Epoch (v_anchor x) + 1 \<and>
    (\<forall>n. q = Inr n \<longrightarrow> settled (v_tables x', v_trust x', v_anchor x') \<and> ta_Epoch (v_anchor x') = ta_Epoch (v_anchor x) + 1)"
proof (cases "ss = []")
  case True
  then show ?thesis using assms(2,3) by (auto simp: ExecTransactionResult_def)
next
  case False
  then have "execute_fenced env b ss x = (q, x')" using assms(3) by (simp add: ExecTransactionResult_def)
  from fenced_write_pair [OF fence_env.execute_fenced_refines [OF assms(1) this]] assms(2)
  show ?thesis by (simp add: fence_env.fstate_def [OF assms(1)] fence_epoch_def)
qed

text \<open>C14. Reads fail closed.  A store that needs an anchor and has not settled it returns no rows.  A fenced
  read returns rows only if, although other nodes may have acted between its four steps, the anchor had
  no fence and the same version, epoch and token at both its reads, and the database was on exactly
  that pair when it was checked.\<close>

theorem QueryContext_fails_closed:
  assumes "fence_env env v_tables v_trust v_anchor v_rv"
    and "QueryContext env d x x1 x2 x3 = Inr t" "rz_trustRequired d \<or> rz_trust d \<noteq> None"
  shows "rz_trust d \<noteq> None \<and> t = v_tables x1 \<and> v_trust x2 = Some (anchor_pair (v_anchor x)) \<and>
    ta_PendingEpoch (v_anchor x) = None \<and> ta_PendingEpoch (v_anchor x3) = None \<and>
    anchor_pair (v_anchor x3) = anchor_pair (v_anchor x) \<and> v_rv x3 = v_rv x"
proof -
  obtain b where b: "rz_trust d = Some b" using assms(2,3) by (auto simp: QueryContext_def split: option.splits if_splits)
  then have "query_fenced env b x x1 x2 x3 = Inr t" using assms(2) by (simp add: QueryContext_def)
  then obtain r rv r2 where "anchor_get env b x = Inr (r, rv)" "ta_PendingEpoch r = None" "e_query env x1 = Inr t"
    "verifyDBTrust env (ta_Epoch r) (ta_Token r) x2 = None" "anchor_get env b x3 = Inr (r2, rv)"
    "ta_PendingEpoch r2 = None" "ta_Epoch r2 = ta_Epoch r" "ta_Token r2 = ta_Token r"
    by (auto simp: query_fenced_def split: sum.splits if_splits option.splits)
  then show ?thesis
    using b fence_env.anchor_get_Inr [OF assms(1)] fence_env.get_ok [OF assms(1)] fence_env.query_current [OF assms(1)]
      fence_env.verifyDBTrust_None [OF assms(1)]
    by (auto simp: anchor_pair_def)
qed

theorem QueryContext_fails_closed_witness:
  "QueryContext ref_env sample_rz world0 world0 world0 world0 = Inr empty_tables \<and>
   wo_trust world0 = Some (anchor_pair (wo_anchor world0)) \<and>
   QueryContext ref_env sample_rz world0 world0 (world0\<lparr>wo_trust := Some (3, ref_uuid 9)\<rparr>) world0 = Inl ErrTrustMismatch"
proof -
  have q: "QueryContext ref_env sample_rz world0 world0 world0 world0 = Inr empty_tables" by code_simp
  moreover have "wo_trust world0 = Some (anchor_pair (wo_anchor world0))"
    using QueryContext_fails_closed [OF ref.fence_env_axioms q] by (simp add: sample_rz_def)
  moreover have "QueryContext ref_env sample_rz world0 world0 (world0\<lparr>wo_trust := Some (3, ref_uuid 9)\<rparr>) world0 = Inl ErrTrustMismatch"
    by code_simp
  ultimately show ?thesis by blast
qed

end
