(* ===== verification/Fleet_Protocol.thy ===== *)
theory Fleet_Protocol
  imports Trust_Fence
begin

section \<open>The trust anchor among several nodes\<close>

text \<open>
  What the nodes of a deployment can do to the state they share: the anchor with its version, the
  database's pair, the requests the database knows, and the marker of the schema migration.  A
  compare-and-swap or a request whose answer was lost stays in flight and may take effect later.
  \<open>fleet_step\<close> is one atomic effect; its parameter says which identifiers the acting process has drawn.
  \<open>fleet_ok\<close> is the invariant that all nodes together keep.  That the program's operations make only such
  steps is shown in \<open>Fleet_Guarantee\<close>.
\<close>

datatype request_state = Open "int \<times> string" "int \<times> string" | Committed | Rejected

record ('tr, 'rc) fleet =
  fl_pair :: "(int \<times> string) option"
  fl_anchor :: "('tr, 'rc) trustAnchorRecord"
  fl_version :: nat
  fl_flight :: "(nat \<times> ('tr, 'rc) trustAnchorRecord) set"
  fl_request :: "string \<rightharpoonup> request_state"
  fl_boot :: "(int \<times> string) set"
  fl_migrated :: bool

text \<open>What a compare-and-swap of the current version may write: a reservation for a request that the
  database does not know yet, the pending pair once the database carries it, or the record without the
  pending pair once the database has rejected the request.\<close>

definition legal :: "(string \<Rightarrow> bool) \<Rightarrow> ('tr, 'rc) fleet \<Rightarrow> ('tr, 'rc) trustAnchorRecord \<Rightarrow> bool" where
  "legal U s r' \<longleftrightarrow>
     (ta_PendingEpoch (fl_anchor s) = None \<and>
        (\<exists>uid. U uid \<and> fl_request s uid = None \<and> r' = reserve (ta_Epoch (fl_anchor s) + 1) uid (fl_anchor s))) \<or>
     (\<exists>e uid. pending_pair (fl_anchor s) = Some (e, uid) \<and>
        ((fl_pair s = Some (e, uid) \<and> r' = finalize e uid (fl_anchor s)) \<or>
         (fl_request s uid = Some Rejected \<and> r' = clear_pending (fl_anchor s))))"

inductive fleet_step :: "(string \<Rightarrow> bool) \<Rightarrow> ('tr, 'rc) fleet \<Rightarrow> ('tr, 'rc) fleet \<Rightarrow> bool" for U s where
  send: "n \<le> fl_version s \<Longrightarrow> (n = fl_version s \<Longrightarrow> legal U s r) \<Longrightarrow> fleet_step U s (s\<lparr>fl_flight := insert (n, r) (fl_flight s)\<rparr>)"
| land: "(fl_version s, r) \<in> fl_flight s \<Longrightarrow> fleet_step U s (s\<lparr>fl_anchor := r, fl_version := Suc (fl_version s)\<rparr>)"
| submit: "U uid \<Longrightarrow> fl_request s uid = None \<Longrightarrow> pending_pair (fl_anchor s) = Some (e, uid) \<Longrightarrow> fl_migrated s \<Longrightarrow> fl_pair s \<noteq> None \<Longrightarrow>
    fleet_step U s (s\<lparr>fl_request := (fl_request s)(uid \<mapsto> Open (anchor_pair (fl_anchor s)) (e, uid))\<rparr>)"
| commit: "fl_request s uid = Some (Open old new) \<Longrightarrow> fl_pair s = Some old \<Longrightarrow>
    fleet_step U s (s\<lparr>fl_pair := Some new, fl_request := (fl_request s)(uid \<mapsto> Committed)\<rparr>)"
| reject: "fl_request s uid = Some (Open old new) \<Longrightarrow> fleet_step U s (s\<lparr>fl_request := (fl_request s)(uid \<mapsto> Rejected)\<rparr>)"
| boot_submit: "ta_Bootstrap (fl_anchor s) \<Longrightarrow> fleet_step U s (s\<lparr>fl_boot := insert (anchor_pair (fl_anchor s)) (fl_boot s)\<rparr>)"
| boot_commit: "q \<in> fl_boot s \<Longrightarrow> fl_pair s = None \<Longrightarrow> fleet_step U s (s\<lparr>fl_pair := Some q\<rparr>)"
| migrate: "fleet_step U s (s\<lparr>fl_migrated := True\<rparr>)"

subsection \<open>The invariant\<close>

definition on_pair :: "('tr, 'rc) fleet \<Rightarrow> bool" where
  "on_pair s \<longleftrightarrow> fl_pair s = Some (anchor_pair (fl_anchor s)) \<or> (pending_pair (fl_anchor s) \<noteq> None \<and> fl_pair s = pending_pair (fl_anchor s)) \<or>
     (fl_pair s = None \<and> ta_Bootstrap (fl_anchor s))"

definition requests_ok :: "('tr, 'rc) fleet \<Rightarrow> bool" where
  "requests_ok s \<longleftrightarrow>
     (\<forall>uid old new. fl_request s uid = Some (Open old new) \<longrightarrow>
        pending_pair (fl_anchor s) = Some new \<and> old = anchor_pair (fl_anchor s) \<and> snd new = uid) \<and>
     (\<forall>e uid. pending_pair (fl_anchor s) = Some (e, uid) \<longrightarrow>
        e = ta_Epoch (fl_anchor s) + 1 \<and> (fl_pair s = Some (e, uid) \<longleftrightarrow> fl_request s uid = Some Committed)) \<and>
     (fl_request s \<noteq> Map.empty \<longrightarrow> fl_migrated s \<and> fl_pair s \<noteq> None)"

definition flight_ok :: "('tr, 'rc) fleet \<Rightarrow> bool" where
  "flight_ok s \<longleftrightarrow>
     (\<forall>n r. (n, r) \<in> fl_flight s \<longrightarrow> n \<le> fl_version s \<and> (n = fl_version s \<longrightarrow> legal (\<lambda>_. True) s r)) \<and>
     (\<forall>q \<in> fl_boot s. fl_pair s = None \<longrightarrow> q = anchor_pair (fl_anchor s))"

definition fleet_ok :: "('tr, 'rc) fleet \<Rightarrow> bool" where
  "fleet_ok s \<longleftrightarrow> on_pair s \<and> requests_ok s \<and> flight_ok s"

lemmas fleet_ok_defs = fleet_ok_def on_pair_def requests_ok_def flight_ok_def

lemma record_moves [simp]:
  "pending_pair (reserve e uid r) = Some (e, uid)" "anchor_pair (reserve e uid r) = anchor_pair r" "ta_Epoch (reserve e uid r) = ta_Epoch r"
  "ta_Bootstrap (reserve e uid r) = ta_Bootstrap r"
  "pending_pair (finalize e uid r) = None" "anchor_pair (finalize e uid r) = (e, uid)" "ta_Bootstrap (finalize e uid r) = False"
  "pending_pair (clear_pending r) = None" "anchor_pair (clear_pending r) = anchor_pair r" "ta_Bootstrap (clear_pending r) = ta_Bootstrap r"
  "ta_Epoch (clear_pending r) = ta_Epoch r" "ta_Epoch (finalize e uid r) = e"
  by (simp_all add: reserve_def finalize_def clear_pending_def pending_pair_def anchor_pair_def)

lemma pending_None: "pending_pair r = None \<longleftrightarrow> ta_PendingEpoch r = None"
  by (simp add: pending_pair_def)

lemma fst_anchor_pair [simp]: "fst (anchor_pair r) = ta_Epoch r"
  by (simp add: anchor_pair_def)

lemma legal_mono: "legal U s r \<Longrightarrow> (\<And>u. U u \<Longrightarrow> V u) \<Longrightarrow> legal V s r"
  by (auto simp: legal_def)

lemma pending_not_anchor: "requests_ok s \<Longrightarrow> pending_pair (fl_anchor s) = Some q \<Longrightarrow> q \<noteq> anchor_pair (fl_anchor s)"
  by (cases q) (auto simp: requests_ok_def anchor_pair_def)

lemma open_pending:
  "requests_ok s \<Longrightarrow> fl_request s u = Some (Open old new) \<Longrightarrow>
    pending_pair (fl_anchor s) = Some new \<and> old = anchor_pair (fl_anchor s) \<and> snd new = u"
  unfolding requests_ok_def by blast

lemma pending_facts:
  "requests_ok s \<Longrightarrow> pending_pair (fl_anchor s) = Some (e, uid) \<Longrightarrow>
    e = ta_Epoch (fl_anchor s) + 1 \<and> (fl_pair s = Some (e, uid) \<longleftrightarrow> fl_request s uid = Some Committed)"
  unfolding requests_ok_def by blast

lemma no_open:
  assumes "requests_ok s" "pending_pair (fl_anchor s) = None \<or> (\<exists>e uid. pending_pair (fl_anchor s) = Some (e, uid) \<and> fl_request s uid \<in> {Some Committed, Some Rejected})"
  shows "fl_request s u \<noteq> Some (Open old new)"
proof
  assume o: "fl_request s u = Some (Open old new)"
  from open_pending [OF assms(1) o] show False using assms(2) o by (cases new) auto
qed

text \<open>A legal record keeps the invariant when it lands.\<close>

lemma land_legal:
  assumes "fleet_ok s" "legal (\<lambda>_. True) s r"
  shows "fleet_ok (s\<lparr>fl_anchor := r, fl_version := Suc (fl_version s)\<rparr>)"
proof -
  let ?s = "s\<lparr>fl_anchor := r, fl_version := Suc (fl_version s)\<rparr>"
  have pair: "on_pair s" using assms(1) by (simp add: fleet_ok_def)
  have reqs: "requests_ok s" using assms(1) by (simp add: fleet_ok_def)
  then have mig: "fl_request s \<noteq> Map.empty \<longrightarrow> fl_migrated s \<and> fl_pair s \<noteq> None" by (simp add: requests_ok_def)
  consider (res) uid where "pending_pair (fl_anchor s) = None" "fl_request s uid = None" "r = reserve (ta_Epoch (fl_anchor s) + 1) uid (fl_anchor s)"
    | (fin) e uid where "pending_pair (fl_anchor s) = Some (e, uid)" "fl_pair s = Some (e, uid)" "r = finalize e uid (fl_anchor s)"
    | (clr) e uid where "pending_pair (fl_anchor s) = Some (e, uid)" "fl_request s uid = Some Rejected" "r = clear_pending (fl_anchor s)"
    using assms(2) by (auto simp: legal_def pending_None)
  then have "on_pair ?s \<and> requests_ok ?s"
  proof cases
    case res
    have "fl_pair s \<noteq> Some (ta_Epoch (fl_anchor s) + 1, uid)"
      using pair res(1) by (auto simp: on_pair_def anchor_pair_def)
    moreover have "fl_request s u \<noteq> Some (Open old new)" for u old new using no_open [OF reqs] res(1) by blast
    ultimately show ?thesis using pair mig res by (simp add: on_pair_def requests_ok_def)
  next
    case fin
    then have "fl_request s uid = Some Committed" using pending_facts [OF reqs] by blast
    then have "fl_request s u \<noteq> Some (Open old new)" for u old new using no_open [OF reqs] fin(1) by blast
    then show ?thesis using mig fin by (simp add: on_pair_def requests_ok_def)
  next
    case clr
    then have "fl_request s u \<noteq> Some (Open old new)" for u old new using no_open [OF reqs] by blast
    moreover have "fl_pair s \<noteq> Some (e, uid)" using pending_facts [OF reqs clr(1)] clr(2) by auto
    ultimately show ?thesis using pair mig clr by (simp add: on_pair_def requests_ok_def)
  qed
  moreover have "flight_ok ?s"
  proof -
    have "n \<le> fl_version s" if "(n, x) \<in> fl_flight s" for n x using assms(1) that unfolding fleet_ok_def flight_ok_def by blast
    moreover have "q = anchor_pair r" if "q \<in> fl_boot s" "fl_pair s = None" for q
      using assms that unfolding fleet_ok_def flight_ok_def legal_def by auto
    ultimately show ?thesis unfolding flight_ok_def by (fastforce simp: less_Suc_eq_le)
  qed
  ultimately show ?thesis by (simp add: fleet_ok_def)
qed

subsection \<open>Preservation\<close>

lemma legal_cong: "fl_anchor s' = fl_anchor s \<Longrightarrow> fl_pair s' = fl_pair s \<Longrightarrow> fl_request s' = fl_request s \<Longrightarrow> legal U s' = legal U s"
  by (simp add: legal_def fun_eq_iff)

lemma flight_keeps:
  assumes "flight_ok s" "fl_flight s' = fl_flight s" "fl_version s' = fl_version s" "fl_anchor s' = fl_anchor s"
    and "\<And>r. legal (\<lambda>_. True) s r \<Longrightarrow> legal (\<lambda>_. True) s' r"
    and "fl_boot s' = fl_boot s" "fl_pair s' = None \<Longrightarrow> fl_pair s = None"
  shows "flight_ok s'"
  using assms unfolding flight_ok_def by metis

lemma submit_ok:
  assumes "fleet_ok s" "fl_request s uid = None" "pending_pair (fl_anchor s) = Some (e, uid)" "fl_migrated s" "fl_pair s \<noteq> None"
  shows "fleet_ok (s\<lparr>fl_request := (fl_request s)(uid \<mapsto> Open (anchor_pair (fl_anchor s)) (e, uid))\<rparr>)"
proof -
  have reqs: "requests_ok s" and fl: "flight_ok s" using assms(1) by (simp_all add: fleet_ok_def)
  note p = pending_facts [OF reqs assms(3)]
  have "requests_ok (s\<lparr>fl_request := (fl_request s)(uid \<mapsto> Open (anchor_pair (fl_anchor s)) (e, uid))\<rparr>)"
    using p assms(2-5) open_pending [OF reqs] by (auto simp: requests_ok_def)
  moreover have "flight_ok (s\<lparr>fl_request := (fl_request s)(uid \<mapsto> Open (anchor_pair (fl_anchor s)) (e, uid))\<rparr>)"
  proof (rule flight_keeps [OF fl])
    fix r assume "legal (\<lambda>_. True) s r"
    then show "legal (\<lambda>_. True) (s\<lparr>fl_request := (fl_request s)(uid \<mapsto> Open (anchor_pair (fl_anchor s)) (e, uid))\<rparr>) r"
      using assms(2,3) by (auto simp: legal_def pending_None [symmetric])
  qed simp_all
  ultimately show ?thesis using assms(1) by (simp add: fleet_ok_def on_pair_def)
qed

lemma commit_ok:
  assumes "fleet_ok s" "fl_request s uid = Some (Open old new)" "fl_pair s = Some old"
  shows "fleet_ok (s\<lparr>fl_pair := Some new, fl_request := (fl_request s)(uid \<mapsto> Committed)\<rparr>)"
proof -
  have reqs: "requests_ok s" and fl: "flight_ok s" using assms(1) by (simp_all add: fleet_ok_def)
  have o: "pending_pair (fl_anchor s) = Some new" "old = anchor_pair (fl_anchor s)" "snd new = uid"
    using open_pending [OF reqs assms(2)] by simp_all
  obtain e where new: "new = (e, uid)" using o(3) by (cases new) auto
  have e: "e = ta_Epoch (fl_anchor s) + 1" using pending_facts [OF reqs] o(1) new by blast
  have only: "fl_request s u = Some (Open a b) \<Longrightarrow> u = uid" for u a b
    using open_pending [OF reqs, of u a b] o(1,3) by auto
  have mig: "fl_migrated s" using reqs assms(2) unfolding requests_ok_def by auto
  let ?s = "s\<lparr>fl_pair := Some new, fl_request := (fl_request s)(uid \<mapsto> Committed)\<rparr>"
  have "requests_ok ?s" using only o(1) e mig new by (auto simp: requests_ok_def)
  moreover have "on_pair ?s" using o(1) by (simp add: on_pair_def)
  moreover have "flight_ok ?s"
  proof (rule flight_keeps [OF fl])
    fix r assume "legal (\<lambda>_. True) s r"
    then show "legal (\<lambda>_. True) ?s r"
      using o(1,2) assms(2,3) new e by (auto simp: legal_def pending_None [symmetric] anchor_pair_def)
  qed simp_all
  ultimately show ?thesis by (simp add: fleet_ok_def)
qed

lemma reject_ok:
  assumes "fleet_ok s" "fl_request s uid = Some (Open old new)"
  shows "fleet_ok (s\<lparr>fl_request := (fl_request s)(uid \<mapsto> Rejected)\<rparr>)"
proof -
  have reqs: "requests_ok s" and fl: "flight_ok s" using assms(1) by (simp_all add: fleet_ok_def)
  have o: "pending_pair (fl_anchor s) = Some new" "snd new = uid" using open_pending [OF reqs assms(2)] by simp_all
  have only: "fl_request s u = Some (Open a b) \<Longrightarrow> u = uid" for u a b
    using open_pending [OF reqs, of u a b] o by auto
  have mig: "fl_migrated s" "fl_pair s \<noteq> None" using reqs assms(2) unfolding requests_ok_def by auto
  obtain e where new: "new = (e, uid)" using o(2) by (cases new) auto
  let ?s = "s\<lparr>fl_request := (fl_request s)(uid \<mapsto> Rejected)\<rparr>"
  have e: "e = ta_Epoch (fl_anchor s) + 1" "fl_pair s \<noteq> Some (e, uid)" using pending_facts [OF reqs] o(1) new assms(2) by auto
  have "requests_ok ?s" using o(1) mig new e by (auto simp: requests_ok_def dest: only)
  moreover have "flight_ok ?s"
  proof (rule flight_keeps [OF fl])
    fix r assume "legal (\<lambda>_. True) s r"
    then show "legal (\<lambda>_. True) ?s r"
      using o(1) new by (auto simp: legal_def pending_None [symmetric])
  qed simp_all
  ultimately show ?thesis using assms(1) by (simp add: fleet_ok_def on_pair_def)
qed

lemma boot_commit_ok:
  assumes "fleet_ok s" "q \<in> fl_boot s" "fl_pair s = None"
  shows "fleet_ok (s\<lparr>fl_pair := Some q\<rparr>)"
proof -
  have reqs: "requests_ok s" and fl: "flight_ok s" using assms(1) by (simp_all add: fleet_ok_def)
  have q: "q = anchor_pair (fl_anchor s)" using fl assms(2,3) by (simp add: flight_ok_def)
  have "requests_ok (s\<lparr>fl_pair := Some q\<rparr>)"
    unfolding requests_ok_def
  proof (intro conjI allI impI)
    fix e uid assume "pending_pair (fl_anchor (s\<lparr>fl_pair := Some q\<rparr>)) = Some (e, uid)"
    then have "e = ta_Epoch (fl_anchor s) + 1 \<and> fl_request s uid \<noteq> Some Committed" using pending_facts [OF reqs, of e uid] assms(3) by simp
    then show "e = ta_Epoch (fl_anchor (s\<lparr>fl_pair := Some q\<rparr>)) + 1"
      "(fl_pair (s\<lparr>fl_pair := Some q\<rparr>) = Some (e, uid)) = (fl_request (s\<lparr>fl_pair := Some q\<rparr>) uid = Some Committed)"
      using q by (simp_all add: anchor_pair_def)
  qed (use open_pending [OF reqs] reqs in \<open>auto simp: requests_ok_def\<close>)
  moreover have "flight_ok (s\<lparr>fl_pair := Some q\<rparr>)"
    by (rule flight_keeps [OF fl]) (use assms(3) in \<open>auto simp: legal_def\<close>)
  ultimately show ?thesis using q by (simp add: fleet_ok_def on_pair_def)
qed

lemma frame_ok:
  assumes "fleet_ok s" "fl_anchor s' = fl_anchor s" "fl_pair s' = fl_pair s" "fl_request s' = fl_request s" "fl_version s' = fl_version s"
    and "fl_migrated s \<Longrightarrow> fl_migrated s'" "flight_ok s'"
  shows "fleet_ok s'"
  using assms by (simp add: fleet_ok_def on_pair_def requests_ok_def)

lemma send_ok:
  assumes "fleet_ok s" "n \<le> fl_version s" "n = fl_version s \<Longrightarrow> legal (\<lambda>_. True) s r"
  shows "fleet_ok (s\<lparr>fl_flight := insert (n, r) (fl_flight s)\<rparr>)"
proof (rule frame_ok [OF assms(1)])
  have l: "legal (\<lambda>_. True) (s\<lparr>fl_flight := insert (n, r) (fl_flight s)\<rparr>) = legal (\<lambda>_. True) s" by (rule legal_cong) simp_all
  show "flight_ok (s\<lparr>fl_flight := insert (n, r) (fl_flight s)\<rparr>)"
    using assms unfolding fleet_ok_def flight_ok_def l by simp
qed simp_all

lemma boot_submit_ok: "fleet_ok s \<Longrightarrow> fleet_ok (s\<lparr>fl_boot := insert (anchor_pair (fl_anchor s)) (fl_boot s)\<rparr>)"
proof (rule frame_ok, assumption)
  assume "fleet_ok s"
  moreover have l: "legal (\<lambda>_. True) (s\<lparr>fl_boot := insert (anchor_pair (fl_anchor s)) (fl_boot s)\<rparr>) = legal (\<lambda>_. True) s" by (rule legal_cong) simp_all
  ultimately show "flight_ok (s\<lparr>fl_boot := insert (anchor_pair (fl_anchor s)) (fl_boot s)\<rparr>)"
    unfolding fleet_ok_def flight_ok_def l by simp
qed simp_all

lemma migrate_ok: "fleet_ok s \<Longrightarrow> fleet_ok (s\<lparr>fl_migrated := True\<rparr>)"
proof (rule frame_ok, assumption)
  assume "fleet_ok s"
  moreover have l: "legal (\<lambda>_. True) (s\<lparr>fl_migrated := True\<rparr>) = legal (\<lambda>_. True) s" by (rule legal_cong) simp_all
  ultimately show "flight_ok (s\<lparr>fl_migrated := True\<rparr>)" unfolding fleet_ok_def flight_ok_def l by simp
qed simp_all

lemma fleet_step_ok: "fleet_step U s s' \<Longrightarrow> fleet_ok s \<Longrightarrow> fleet_ok s'"
proof (induction rule: fleet_step.cases)
  case (send n r)
  have "legal (\<lambda>_. True) s r" if "n = fl_version s" by (rule legal_mono [OF send(3) [OF that]]) simp
  then show ?case using send_ok [OF send(4,2)] send(1) by simp
next
  case (land r)
  then have "legal (\<lambda>_. True) s r" by (simp add: fleet_ok_def flight_ok_def)
  then show ?case using land land_legal by simp
qed (simp_all add: submit_ok commit_ok reject_ok boot_commit_ok boot_submit_ok migrate_ok)

lemma fleet_steps_ok: "(fleet_step U)\<^sup>*\<^sup>* s s' \<Longrightarrow> fleet_ok s \<Longrightarrow> fleet_ok s'"
  by (induction rule: rtranclp_induct) (auto intro: fleet_step_ok)

subsection \<open>What other nodes cannot undo\<close>

lemma step_version: "fleet_step U s s' \<Longrightarrow> fl_version s \<le> fl_version s' \<and> (fl_version s' = fl_version s \<longrightarrow> fl_anchor s' = fl_anchor s)"
  by (induction rule: fleet_step.cases) simp_all

lemma steps_version: "(fleet_step U)\<^sup>*\<^sup>* s s' \<Longrightarrow> fl_version s \<le> fl_version s' \<and> (fl_version s' = fl_version s \<longrightarrow> fl_anchor s' = fl_anchor s)"
proof (induction rule: rtranclp_induct)
  case (step y z)
  then show ?case using step_version [OF step(2)] by auto
qed simp

definition grows :: "('tr, 'rc) fleet \<Rightarrow> ('tr, 'rc) fleet \<Rightarrow> bool" where
  "grows s s' \<longleftrightarrow> (fl_migrated s \<longrightarrow> fl_migrated s') \<and> (fl_pair s \<noteq> None \<longrightarrow> fl_pair s' \<noteq> None) \<and>
     (\<forall>u. (fl_request s u \<noteq> None \<longrightarrow> fl_request s' u \<noteq> None) \<and>
       (fl_request s u \<in> {Some Committed, Some Rejected} \<longrightarrow> fl_request s' u = fl_request s u))"

lemma growsD:
  "grows s s' \<Longrightarrow> fl_migrated s \<Longrightarrow> fl_migrated s'"
  "grows s s' \<Longrightarrow> fl_pair s \<noteq> None \<Longrightarrow> fl_pair s' \<noteq> None"
  "grows s s' \<Longrightarrow> fl_request s u \<noteq> None \<Longrightarrow> fl_request s' u \<noteq> None"
  "grows s s' \<Longrightarrow> fl_request s u = Some Committed \<Longrightarrow> fl_request s' u = Some Committed"
  "grows s s' \<Longrightarrow> fl_request s u = Some Rejected \<Longrightarrow> fl_request s' u = Some Rejected"
  by (simp_all add: grows_def)

lemma grows_refl: "grows s s" by (simp add: grows_def)

lemma grows_trans: "grows s s' \<Longrightarrow> grows s' s'' \<Longrightarrow> grows s s''"
  unfolding grows_def by metis

lemma step_grows: "fleet_step U s s' \<Longrightarrow> grows s s'"
  by (induction rule: fleet_step.cases) (auto simp: grows_def)

lemma steps_grows: "(fleet_step U)\<^sup>*\<^sup>* s s' \<Longrightarrow> grows s s'"
  by (induction rule: rtranclp_induct) (blast intro: grows_refl grows_trans step_grows)+

lemma step_unused: "fleet_step U s s' \<Longrightarrow> \<not> U u \<Longrightarrow> fl_request s u = None \<Longrightarrow> fl_request s' u = None"
  by (induction rule: fleet_step.cases) auto

lemma steps_unused: "(fleet_step U)\<^sup>*\<^sup>* s s' \<Longrightarrow> \<not> U u \<Longrightarrow> fl_request s u = None \<Longrightarrow> fl_request s' u = None"
  by (induction rule: rtranclp_induct) (auto dest: step_unused)

text \<open>The database stays on the pending pair until the anchor moves.\<close>

lemma step_published:
  assumes "fleet_step U s s'" "fleet_ok s" "pending_pair (fl_anchor s) = Some q" "fl_pair s = Some q" "fl_version s' = fl_version s"
  shows "fl_pair s' = Some q"
  using assms(1)
proof (induction rule: fleet_step.cases)
  case (commit uid old new)
  have reqs: "requests_ok s" using assms(2) by (simp add: fleet_ok_def)
  from open_pending [OF reqs commit(2)] pending_not_anchor [OF reqs assms(3)] commit(3) assms(4) have False by simp
  then show ?case ..
qed (use assms in simp_all)

lemma steps_published:
  assumes "(fleet_step U)\<^sup>*\<^sup>* s s'" "fleet_ok s" "pending_pair (fl_anchor s) = Some q" "fl_pair s = Some q" "fl_version s' = fl_version s"
  shows "fl_pair s' = Some q"
  using assms(1,5)
proof (induction rule: rtranclp_induct)
  case (step y z)
  have y: "fl_version y = fl_version s" using steps_version [OF step(1)] step_version [OF step(2)] step(4) by simp
  then have "fl_anchor y = fl_anchor s" using steps_version [OF step(1)] by simp
  then show ?case using step_published [OF step(2) fleet_steps_ok [OF step(1) assms(2)]] step(3) [OF y] assms(3) step(4) y by simp
qed (use assms(4) in simp)

text \<open>A fence whose request was not submitted yet stays, if only its owner can submit it.\<close>

definition held :: "('tr, 'rc) trustAnchorRecord \<Rightarrow> ('tr, 'rc) fleet \<Rightarrow> bool" where
  "held r s \<longleftrightarrow> (fl_request s (ta_PendingID r) = None \<longrightarrow> fl_anchor s = r)"

lemma step_held:
  assumes "fleet_step U s s'" "fleet_ok s" "held r s" "\<not> U (ta_PendingID r)" "ta_PendingEpoch r \<noteq> None"
  shows "held r s'"
proof (cases "fl_request s (ta_PendingID r)")
  case (Some x)
  then have "fl_request s' (ta_PendingID r) \<noteq> None" using step_grows [OF assms(1)] by (simp add: grows_def)
  then show ?thesis by (auto simp: held_def)
next
  case None
  then have r: "fl_anchor s = r" using assms(3) by (simp add: held_def)
  obtain e where p: "pending_pair r = Some (e, ta_PendingID r)" using assms(5) by (auto simp: pending_pair_def)
  have "fl_pair s \<noteq> Some (e, ta_PendingID r)" using assms(2) pending_facts [of s e "ta_PendingID r"] r p None by (auto simp: fleet_ok_def)
  then have "\<not> legal V s r'" for V r' using p None r by (auto simp: legal_def pending_None [symmetric])
  then have "(fl_version s, r') \<notin> fl_flight s" for r' using assms(2) by (auto simp: fleet_ok_def flight_ok_def)
  with assms(1) have "fl_anchor s' = fl_anchor s" by (induction rule: fleet_step.cases) simp_all
  then show ?thesis using r by (simp add: held_def)
qed

lemma steps_held: "(fleet_step U)\<^sup>*\<^sup>* s s' \<Longrightarrow> fleet_ok s \<Longrightarrow> held r s \<Longrightarrow> \<not> U (ta_PendingID r) \<Longrightarrow> ta_PendingEpoch r \<noteq> None \<Longrightarrow> held r s'"
  by (induction rule: rtranclp_induct) (blast intro: step_held fleet_steps_ok)+

lemma steps_mono: "(fleet_step U)\<^sup>*\<^sup>* s s' \<Longrightarrow> (\<And>u. U u \<Longrightarrow> V u) \<Longrightarrow> (fleet_step V)\<^sup>*\<^sup>* s s'"
proof (induction rule: rtranclp_induct)
  case (step y z)
  have "fleet_step V y z" using step(2)
  proof (induction rule: fleet_step.cases)
    case (send n r)
    then show ?case using fleet_step.send [of n y V r] legal_mono [of U y r V] step(4) by blast
  next
    case (submit uid e)
    then show ?case using fleet_step.submit [of V uid y e] step(4) by blast
  qed (auto intro: fleet_step.intros)
  then show ?case using step(3) [OF step(4)] by (rule rtranclp.rtrancl_into_rtrancl [rotated])
qed simp

end
