(* ===== verification/Trust_Startup.thy ===== *)
theory Trust_Startup
  imports Trust_Fence
begin

section \<open>Settling the trust anchor at start-up (internal/store/store.go)\<close>

text \<open>
  Before a node serves, it proves that its database carries the anchor's pair: it migrates a fresh
  database under a fence of its own, follows or finishes the fence of a peer, or clears the fence of a
  write that the database has rejected.  The environment of \<open>Trust_Fence\<close> is extended by what start-up uses
  of the database: the names of its tables, the rows of the schema marker, the migration, the creation
  of \<^verbatim>\<open>trust_state\<close> and the status of a request.  After every call the other nodes may act (\<open>e_peers\<close>).
\<close>

record ('x, 'tr, 'rc) startup_env =
  su_env :: "('x, 'tr, 'rc) env"
  su_tables :: "'x \<Rightarrow> db_error + string list"
  su_versions :: "'x \<Rightarrow> db_error + int list"
  su_migrate :: "'x \<Rightarrow> db_error option \<times> 'x"
  su_retries :: nat
  su_bootstrap_valid :: "string \<Rightarrow> bool"
  su_bootstrap :: "string \<Rightarrow> int \<times> string \<Rightarrow> 'x \<Rightarrow> exec_response \<times> 'x"
  su_status :: "string \<Rightarrow> 'x \<Rightarrow> db_error + mutation_status"

datatype startup_error =
    SDb db_error | SPendingWrite | SFenceMissing | SFenceChanged | SBootstrapConsumed | STrustStateMissing
  | SSchemaVersion | SLegacySchema | SMigration | SStatus | SInvalidRequest | SContextDone

type_synonym ('a, 'x) startup = "(startup_error + 'a) \<times> 'x"

definition seq :: "('a, 'x) startup \<Rightarrow> ('a \<Rightarrow> 'x \<Rightarrow> ('b, 'x) startup) \<Rightarrow> ('b, 'x) startup" where
  "seq m k = (case m of (Inl e, x) \<Rightarrow> (Inl e, x) | (Inr a, x) \<Rightarrow> k a x)"

definition schemaVersion :: int where
  "schemaVersion = 1"

record trustStartup =
  ts_attempted :: string
  ts_reserved :: bool
  ts_pendingID :: string

subsection \<open>Calls\<close>

abbreviation peers :: "('x, 'tr, 'rc) startup_env \<Rightarrow> 'x \<Rightarrow> 'x" where
  "peers su \<equiv> e_peers (su_env su)"

definition db_read :: "('x, 'tr, 'rc) startup_env \<Rightarrow> ('x \<Rightarrow> db_error + 'a) \<Rightarrow> 'x \<Rightarrow> ('a, 'x) startup" where
  "db_read su f x = (map_sum SDb id (f x), peers su x)"

definition anchor_read ::
    "('x, 'tr, 'rc) startup_env \<Rightarrow> binding \<Rightarrow> 'x \<Rightarrow> (('tr, 'rc) trustAnchorRecord \<times> string, 'x) startup" where
  "anchor_read su b x = db_read su (anchor_get (su_env su) b) x"

definition anchor_write ::
    "('x, 'tr, 'rc) startup_env \<Rightarrow> binding \<Rightarrow> string \<Rightarrow> ('tr, 'rc) trustAnchorRecord \<Rightarrow> 'x \<Rightarrow> (unit, 'x) startup" where
  "anchor_write su b rv r x = (case anchor_cas (su_env su) b rv r x of (q, x') \<Rightarrow> (map_sum SDb (\<lambda>_. ()) q, peers su x'))"

definition check_trust :: "('x, 'tr, 'rc) startup_env \<Rightarrow> int \<Rightarrow> string \<Rightarrow> 'x \<Rightarrow> (unit, 'x) startup" where
  "check_trust su epoch token x =
     ((case verifyDBTrust (su_env su) epoch token x of None \<Rightarrow> Inr () | Some e \<Rightarrow> Inl (SDb e)), peers su x)"

subsection \<open>The schema marker\<close>

definition countTables :: "('x, 'tr, 'rc) startup_env \<Rightarrow> string list \<Rightarrow> 'x \<Rightarrow> (nat, 'x) startup" where
  "countTables su names x = seq (db_read su (su_tables su) x) (\<lambda>ts x. (Inr (length (filter (\<lambda>t. t \<in> set names) ts)), x))"

definition tableExists :: "('x, 'tr, 'rc) startup_env \<Rightarrow> string \<Rightarrow> 'x \<Rightarrow> (bool, 'x) startup" where
  "tableExists su name x = seq (countTables su [name] x) (\<lambda>count x. (Inr (count = 1), x))"

definition trustStateExists :: "('x, 'tr, 'rc) startup_env \<Rightarrow> 'x \<Rightarrow> (bool, 'x) startup" where
  "trustStateExists su = tableExists su ''trust_state''"

definition schemaMarker :: "('x, 'tr, 'rc) startup_env \<Rightarrow> 'x \<Rightarrow> (nat \<times> int, 'x) startup" where
  "schemaMarker su x = seq (tableExists su ''ternal_schema'' x) (\<lambda>ex x.
     if \<not> ex then (Inr (0, 0), x)
     else seq (db_read su (su_versions su) x) (\<lambda>vs x. (Inr (length vs, if vs = [] then 0 else foldr max (tl vs) (hd vs)), x)))"

definition migrationPending :: "('x, 'tr, 'rc) startup_env \<Rightarrow> 'x \<Rightarrow> (bool, 'x) startup" where
  "migrationPending su x = seq (schemaMarker su x) (\<lambda>(count, version) x. (Inr (count \<noteq> 1 \<or> version \<noteq> schemaVersion), x))"

definition requireMigrated :: "('x, 'tr, 'rc) startup_env \<Rightarrow> 'x \<Rightarrow> (unit, 'x) startup" where
  "requireMigrated su x = seq (schemaMarker su x) (\<lambda>(count, version) x.
     (if count \<noteq> 1 \<or> version \<noteq> schemaVersion then Inl SSchemaVersion else Inr (), x))"

definition legacy_tables :: "string list" where
  "legacy_tables = [''hosts'', ''policies'', ''access_grants'', ''devices'', ''relay_access_grants'']"

text \<open>The retry loop around a database operation; \<open>n\<close> is the number of retries before the context is done.\<close>

definition retryable :: "db_error \<Rightarrow> bool" where
  "retryable e \<longleftrightarrow> e = ErrNotReady \<or> e = ErrQuorumUnavailable"

fun retryRhizaStartup :: "('x \<Rightarrow> 'x) \<Rightarrow> nat \<Rightarrow> ('x \<Rightarrow> db_error option \<times> 'x) \<Rightarrow> 'x \<Rightarrow> db_error option \<times> 'x" where
  "retryRhizaStartup others n operation x =
     (case operation x of
        (None, x') \<Rightarrow> (None, others x')
      | (Some e, x') \<Rightarrow>
          if \<not> retryable e then (Some e, others x')
          else (case n of 0 \<Rightarrow> (Some ErrCtx, others x') | Suc m \<Rightarrow> retryRhizaStartup others m operation (others x')))"

declare retryRhizaStartup.simps [simp del]

definition Migrate :: "('x, 'tr, 'rc) startup_env \<Rightarrow> 'x \<Rightarrow> db_error option \<times> 'x" where
  "Migrate su = retryRhizaStartup (peers su) (su_retries su) (su_migrate su)"

definition migrate :: "('x, 'tr, 'rc) startup_env \<Rightarrow> 'x \<Rightarrow> (unit, 'x) startup" where
  "migrate su x = seq (countTables su [''ternal_schema''] x) (\<lambda>schemaTables x.
     seq (countTables su legacy_tables x) (\<lambda>legacyTables x.
       if schemaTables = 0 \<and> legacyTables \<noteq> 0 then (Inl SLegacySchema, x)
       else case Migrate su x of
         (Some e, x') \<Rightarrow> (Inl SMigration, x')
       | (None, x') \<Rightarrow> requireMigrated su x'))"

definition catchUpMigration :: "('x, 'tr, 'rc) startup_env \<Rightarrow> 'x \<Rightarrow> (unit, 'x) startup" where
  "catchUpMigration su x = seq (migrationPending su x) (\<lambda>behind x.
     if behind then seq (migrate su x) (\<lambda>_. requireMigrated su) else requireMigrated su x)"

subsection \<open>Fences\<close>

definition finishTrustStartup :: "('x, 'tr, 'rc) startup_env \<Rightarrow> binding \<Rightarrow> 'x \<Rightarrow> (unit, 'x) startup" where
  "finishTrustStartup su b x = seq (anchor_read su b x) (\<lambda>(record, _) x.
     if ta_PendingEpoch record \<noteq> None then (Inl SPendingWrite, x)
     else check_trust su (ta_Epoch record) (ta_Token record) x)"

definition prepareMigrationTrustState ::
    "('x, 'tr, 'rc) startup_env \<Rightarrow> ('tr, 'rc) trustAnchorRecord \<Rightarrow> 'x \<Rightarrow> (unit, 'x) startup" where
  "prepareMigrationTrustState su pending x = seq (trustStateExists su x) (\<lambda>ex x.
     if ex then check_trust su (ta_Epoch pending) (ta_Token pending) x
     else if \<not> ta_Bootstrap pending then (Inl STrustStateMissing, x)
     else (case e_uuid (su_env su) x of (uid, x1) \<Rightarrow>
       if \<not> su_bootstrap_valid su uid then (Inl SInvalidRequest, x1)
       else case su_bootstrap su uid (anchor_pair pending) x1 of (response, x2) \<Rightarrow>
         (case committedResponse response of
            Inl e \<Rightarrow> (Inl (SDb e), peers su x2)
          | Inr _ \<Rightarrow> check_trust su (ta_Epoch pending) (ta_Token pending) (peers su x2))))"

definition finalizeTrustFence ::
    "('x, 'tr, 'rc) startup_env \<Rightarrow> binding \<Rightarrow> int \<Rightarrow> string \<Rightarrow> 'x \<Rightarrow> (unit, 'x) startup" where
  "finalizeTrustFence su b pendingEpoch pendingID x = seq (anchor_read su b x) (\<lambda>(current, rv) x.
     if ta_PendingEpoch current \<noteq> Some pendingEpoch \<or> ta_PendingID current \<noteq> pendingID then (Inl SFenceChanged, x)
     else seq (check_trust su pendingEpoch pendingID x) (\<lambda>_ x.
       seq (requireMigrated su x) (\<lambda>_ x. anchor_write su b rv (finalize pendingEpoch pendingID current) x)))"

definition convergeFence :: "('x, 'tr, 'rc) startup_env \<Rightarrow> binding \<Rightarrow> int \<Rightarrow> string \<Rightarrow> 'x \<Rightarrow> (unit, 'x) startup" where
  "convergeFence su b pendingEpoch pendingID x =
     seq (catchUpMigration su x) (\<lambda>_. finalizeTrustFence su b pendingEpoch pendingID)"

definition fence_request :: "('tr, 'rc) trustAnchorRecord \<Rightarrow> int \<Rightarrow> string \<Rightarrow> exec_request" where
  "fence_request pending pendingEpoch pendingID =
     \<lparr>rq_ID = pendingID, rq_Statements = [], rq_Tail = Some (anchor_pair pending, (pendingEpoch, pendingID))\<rparr>"

definition completeMigrationFence ::
    "('x, 'tr, 'rc) startup_env \<Rightarrow> binding \<Rightarrow> ('tr, 'rc) trustAnchorRecord \<Rightarrow> 'x \<Rightarrow> (unit, 'x) startup" where
  "completeMigrationFence su b pending x =
     (case ta_PendingEpoch pending of
        None \<Rightarrow> (Inl SFenceMissing, x)
      | Some pe \<Rightarrow>
          let request = fence_request pending pe (ta_PendingID pending) in
          if \<not> e_validate (su_env su) request then (Inl SInvalidRequest, x)
          else (case execRaw (su_env su) request x of
                  (Inl e, x') \<Rightarrow> (Inl (SDb e), peers su x')
                | (Inr _, x') \<Rightarrow> finalizeTrustFence su b pe (ta_PendingID pending) (peers su x')))"

definition finishMigrationFence ::
    "('x, 'tr, 'rc) startup_env \<Rightarrow> binding \<Rightarrow> ('tr, 'rc) trustAnchorRecord \<Rightarrow> 'x \<Rightarrow> (unit, 'x) startup" where
  "finishMigrationFence su b pending x =
     (case ta_PendingEpoch pending of
        None \<Rightarrow> (Inl SFenceMissing, x)
      | Some pe \<Rightarrow>
          (case check_trust su pe (ta_PendingID pending) x of
             (Inr _, x1) \<Rightarrow> convergeFence su b pe (ta_PendingID pending) x1
           | (Inl _, x1) \<Rightarrow>
               seq (prepareMigrationTrustState su pending x1) (\<lambda>_ x.
                 seq (migrate su x) (\<lambda>_. completeMigrationFence su b pending))))"

definition beginMigrationFence ::
    "('x, 'tr, 'rc) startup_env \<Rightarrow> binding \<Rightarrow> ('tr, 'rc) trustAnchorRecord \<Rightarrow> string \<Rightarrow> trustStartup \<Rightarrow> 'x \<Rightarrow>
     (startup_error + ('tr, 'rc) trustAnchorRecord) \<times> trustStartup \<times> 'x" where
  "beginMigrationFence su b record rv st x =
     (if ta_PendingEpoch record \<noteq> None then (Inl SPendingWrite, st, x)
      else if \<not> ta_Bootstrap record then (Inl SBootstrapConsumed, st, x)
      else case seq (trustStateExists su x) (\<lambda>ex x. if ex then check_trust su (ta_Epoch record) (ta_Token record) x else (Inr (), x)) of
        (Inl e, x1) \<Rightarrow> (Inl e, st, x1)
      | (Inr _, x1) \<Rightarrow>
          (case (if ts_attempted st = '''' then e_uuid (su_env su) x1 else (ts_attempted st, x1)) of (uid, x2) \<Rightarrow>
             let st1 = st\<lparr>ts_attempted := uid\<rparr>; next = ta_Epoch record + 1; pending = reserve next uid record in
             if \<not> e_validate (su_env su) (fence_request record next uid) then (Inl SInvalidRequest, st1, x2)
             else (case anchor_write su b rv pending x2 of
                     (Inl e, x3) \<Rightarrow> (Inl e, st1, x3)
                   | (Inr _, x3) \<Rightarrow> (Inr pending, st1\<lparr>ts_reserved := True, ts_pendingID := uid\<rparr>, x3))))"

definition recoverPendingTrust ::
    "('x, 'tr, 'rc) startup_env \<Rightarrow> binding \<Rightarrow> ('tr, 'rc) trustAnchorRecord \<Rightarrow> int \<Rightarrow> string \<Rightarrow> 'x \<Rightarrow> (unit, 'x) startup" where
  "recoverPendingTrust su b pending pendingEpoch rv x =
     (case db_read su (su_status su (ta_PendingID pending)) x of
        (Inl e, x1) \<Rightarrow> (Inl SStatus, x1)
      | (Inr status, x1) \<Rightarrow>
          if status = MutationCommitted then
            (case check_trust su pendingEpoch (ta_PendingID pending) x1 of
               (Inr _, x2) \<Rightarrow> anchor_write su b rv (finalize pendingEpoch (ta_PendingID pending) pending) x2
             | (Inl _, x2) \<Rightarrow> (Inl SPendingWrite, x2))
          else if status = MutationRejected then
            (case check_trust su (ta_Epoch pending) (ta_Token pending) x1 of
               (Inr _, x2) \<Rightarrow> anchor_write su b rv (clear_pending pending) x2
             | (Inl _, x2) \<Rightarrow> (Inl SPendingWrite, x2))
          else (Inl SPendingWrite, x1))"

subsection \<open>Settlement\<close>

definition settleTrustAnchorOnce ::
    "('x, 'tr, 'rc) startup_env \<Rightarrow> binding \<Rightarrow> trustStartup \<Rightarrow> 'x \<Rightarrow> (startup_error + unit) \<times> trustStartup \<times> 'x" where
  "settleTrustAnchorOnce su b st x =
     (case anchor_read su b x of
        (Inl e, x1) \<Rightarrow> (Inl e, st, x1)
      | (Inr (record, rv), x1) \<Rightarrow>
          (case ta_PendingEpoch record of
             Some pe \<Rightarrow>
               if ts_attempted st \<noteq> '''' \<and> ta_PendingID record = ts_attempted st then
                 (case finishMigrationFence su b record x1 of
                    (q, x2) \<Rightarrow> (q, st\<lparr>ts_reserved := True, ts_pendingID := ta_PendingID record\<rparr>, x2))
               else (case check_trust su pe (ta_PendingID record) x1 of
                       (Inr _, x2) \<Rightarrow> (case convergeFence su b pe (ta_PendingID record) x2 of (q, x3) \<Rightarrow> (q, st, x3))
                     | (Inl _, x2) \<Rightarrow> (case recoverPendingTrust su b record pe rv x2 of (q, x3) \<Rightarrow> (q, st, x3)))
           | None \<Rightarrow>
               if ts_reserved st then (case finishTrustStartup su b x1 of (q, x2) \<Rightarrow> (q, st, x2))
               else (case migrationPending su x1 of
                       (Inl e, x2) \<Rightarrow> (Inl e, st, x2)
                     | (Inr behind, x2) \<Rightarrow>
                         if behind \<and> ta_Bootstrap record then
                           (case beginMigrationFence su b record rv st x2 of
                              (Inl e, st', x3) \<Rightarrow> (Inl e, st', x3)
                            | (Inr reserved, st', x3) \<Rightarrow> (case finishMigrationFence su b reserved x3 of (q, x4) \<Rightarrow> (q, st', x4)))
                         else (case (if behind then seq (catchUpMigration su x2) (\<lambda>_. finishTrustStartup su b)
                                     else finishTrustStartup su b x2) of (q, x3) \<Rightarrow> (q, st, x3)))))"

text \<open>\<open>n\<close> is the number of retries before the context is done.\<close>

fun settleTrustAnchor ::
    "('x, 'tr, 'rc) startup_env \<Rightarrow> binding \<Rightarrow> nat \<Rightarrow> trustStartup \<Rightarrow> 'x \<Rightarrow> (startup_error + unit) \<times> trustStartup \<times> 'x" where
  "settleTrustAnchor su b n st x =
     (case settleTrustAnchorOnce su b st x of
        (Inr _, st', x') \<Rightarrow> (Inr (), st', x')
      | (Inl e, st', x') \<Rightarrow>
          (case n of 0 \<Rightarrow> (Inl SContextDone, st', x') | Suc m \<Rightarrow> settleTrustAnchor su b m st' (peers su x')))"

declare settleTrustAnchor.simps [simp del]

subsection \<open>Opening the store\<close>

record open_store =
  os_db :: rhizaSQL
  os_trustNeeded :: bool
  os_trustSettled :: bool

definition trustReady :: "open_store \<Rightarrow> bool" where
  "trustReady s \<longleftrightarrow> \<not> (os_trustNeeded s \<and> \<not> os_trustSettled s)"

text \<open>The part of \<^verbatim>\<open>Open\<close> that follows the database's readiness; \<open>Inr\<close> carries the store and, when settlement
  goes on in the background, the state it goes on with.\<close>

definition open_trust ::
    "('x, 'tr, 'rc) startup_env \<Rightarrow> binding option \<Rightarrow> nat \<Rightarrow> 'x \<Rightarrow> (startup_error + open_store \<times> trustStartup option) \<times> 'x" where
  "open_trust su anchor n x =
     (case anchor of
        None \<Rightarrow>
          (case migrate su x of
             (Inl e, x') \<Rightarrow> (Inl e, x')
           | (Inr _, x') \<Rightarrow> (Inr (\<lparr>os_db = \<lparr>rz_trust = None, rz_trustRequired = False\<rparr>, os_trustNeeded = False, os_trustSettled = False\<rparr>, None), x'))
      | Some b \<Rightarrow>
          (case settleTrustAnchor su b n \<lparr>ts_attempted = '''', ts_reserved = False, ts_pendingID = ''''\<rparr> x of
             (Inr _, st, x') \<Rightarrow>
               (Inr (\<lparr>os_db = \<lparr>rz_trust = Some b, rz_trustRequired = True\<rparr>, os_trustNeeded = False, os_trustSettled = False\<rparr>, None), x')
           | (Inl e, st, x') \<Rightarrow>
               (Inr (\<lparr>os_db = \<lparr>rz_trust = None, rz_trustRequired = True\<rparr>, os_trustNeeded = True, os_trustSettled = False\<rparr>, Some st), x')))"

definition settleInBackground ::
    "('x, 'tr, 'rc) startup_env \<Rightarrow> binding \<Rightarrow> nat \<Rightarrow> trustStartup \<Rightarrow> open_store \<Rightarrow> 'x \<Rightarrow> open_store \<times> 'x" where
  "settleInBackground su b n st s x =
     (case settleTrustAnchor su b n st x of
        (Inr _, st', x') \<Rightarrow> (s\<lparr>os_db := (os_db s)\<lparr>rz_trust := Some b\<rparr>, os_trustSettled := True\<rparr>, x')
      | (Inl e, st', x') \<Rightarrow> (s, x'))"

end
