(* ===== verification/Fleet_Guarantee.thy ===== *)
theory Fleet_Guarantee
  imports Fleet_Protocol Trust_Startup
begin

section \<open>The program among its peers\<close>

text \<open>
  The interface between one process and the fleet: what is documented of the anchor's store and of the
  database when other nodes act between the calls of this one (\<open>fleet_env\<close>).  Reads return the current
  state; a compare-and-swap lands now, later or never, and only on the version it names; a request is
  decided at most once.  The other nodes make only steps of the protocol and never use an identifier
  that this process draws (\<open>me\<close>).  Under these assumptions every operation of the program makes only
  steps of the protocol.
\<close>

definition sent :: "nat \<Rightarrow> ('tr, 'rc) trustAnchorRecord \<Rightarrow> ('tr, 'rc) fleet \<Rightarrow> ('tr, 'rc) fleet" where
  "sent n r s = s\<lparr>fl_flight := insert (n, r) (fl_flight s)\<rparr>"

definition landed :: "('tr, 'rc) trustAnchorRecord \<Rightarrow> ('tr, 'rc) fleet \<Rightarrow> ('tr, 'rc) fleet" where
  "landed r s = s\<lparr>fl_anchor := r, fl_version := Suc (fl_version s)\<rparr>"

inductive db_step :: "string \<Rightarrow> int \<times> string \<Rightarrow> int \<times> string \<Rightarrow> ('tr, 'rc) fleet \<Rightarrow> ('tr, 'rc) fleet \<Rightarrow> bool" for uid old new s where
  opened: "fl_request s uid = None \<Longrightarrow> db_step uid old new s (s\<lparr>fl_request := (fl_request s)(uid \<mapsto> Open old new)\<rparr>)"
| committed: "fl_request s uid = Some (Open a b) \<Longrightarrow> fl_pair s = Some a \<Longrightarrow>
    db_step uid old new s (s\<lparr>fl_pair := Some b, fl_request := (fl_request s)(uid \<mapsto> Committed)\<rparr>)"
| rejected: "fl_request s uid = Some (Open a b) \<Longrightarrow> db_step uid old new s (s\<lparr>fl_request := (fl_request s)(uid \<mapsto> Rejected)\<rparr>)"

locale fleet_env =
  fixes env :: "('x, 'tr, 'rc) env" and v :: "'x \<Rightarrow> ('tr, 'rc) fleet" and rv_of :: "nat \<Rightarrow> string" and me :: "string \<Rightarrow> bool"
  assumes rv_inj: "rv_of m = rv_of n \<Longrightarrow> m = n"
    and get_ok: "e_get env x = Inr (r, rv) \<Longrightarrow> r = fl_anchor (v x) \<and> rv = rv_of (fl_version (v x))"
    and cas_ok: "e_cas env (rv_of n) r x = (q, x') \<Longrightarrow>
      (v x' \<in> {v x, sent n r (v x)} \<and> (\<exists>e. q = Inl e)) \<or>
      (n = fl_version (v x) \<and> v x' = landed r (sent n r (v x)) \<and> (q = Inr (rv_of (fl_version (v x'))) \<or> (\<exists>e. q = Inl e)))"
    and exec_ok: "e_exec env \<lparr>rq_ID = uid, rq_Statements = ss, rq_Tail = Some (old, new)\<rparr> x = (p, x') \<Longrightarrow>
      (db_step uid old new)\<^sup>*\<^sup>* (v x) (v x') \<and>
      (rs_Err p = None \<longrightarrow> rs_Status p = MutationCommitted \<longrightarrow> fl_request (v x') uid = Some Committed) \<and>
      (rs_Status p = MutationRejected \<longrightarrow> fl_request (v x') uid = Some Rejected)"
    and trust_current: "e_query_trust env x = Inr ps \<Longrightarrow> ps = (case fl_pair (v x) of None \<Rightarrow> [] | Some p \<Rightarrow> [p])"
    and uuid_ok: "e_uuid env x = (uid, x') \<Longrightarrow> me uid \<and> uid \<noteq> '''' \<and> fl_request (v x) uid = None \<and> v x' = v x"
    and peers_ok: "(fleet_step (\<lambda>u. \<not> me u))\<^sup>*\<^sup>* (v x) (v (e_peers env x))"

lemma record_again [simp]:
  "finalize e uid (reserve e' uid' r) = finalize e uid r" "clear_pending (reserve e' uid' r) = clear_pending r"
  by (simp_all add: finalize_def reserve_def clear_pending_def)

lemma view_sent [simp]: "fl_anchor (sent n r s) = fl_anchor s" "fl_version (sent n r s) = fl_version s" "fl_request (sent n r s) = fl_request s"
  "fl_pair (sent n r s) = fl_pair s" "fl_migrated (sent n r s) = fl_migrated s"
  by (simp_all add: sent_def)

lemma view_landed [simp]: "fl_anchor (landed r s) = r" "fl_version (landed r s) = Suc (fl_version s)" "fl_request (landed r s) = fl_request s"
  "fl_pair (landed r s) = fl_pair s" "fl_migrated (landed r s) = fl_migrated s"
  by (simp_all add: landed_def)

context fleet_env
begin

definition reach :: "'x \<Rightarrow> 'x \<Rightarrow> bool" where
  "reach x y \<longleftrightarrow> (fleet_step (\<lambda>_. True))\<^sup>*\<^sup>* (v x) (v y)"

lemma reach_refl [simp]: "reach x x" by (simp add: reach_def)

lemma reach_same: "v y = v x \<Longrightarrow> reach x y" by (simp add: reach_def)

lemma reach_trans [trans]: "reach x y \<Longrightarrow> reach y z \<Longrightarrow> reach x z"
  unfolding reach_def by (rule rtranclp_trans)

lemma reach_peers [simp]: "reach x (e_peers env x)"
  unfolding reach_def by (rule steps_mono [OF peers_ok]) simp

lemma reach_ok: "reach x y \<Longrightarrow> fleet_ok (v x) \<Longrightarrow> fleet_ok (v y)"
  unfolding reach_def by (rule fleet_steps_ok)

lemma reach_version: "reach x y \<Longrightarrow> fl_version (v x) \<le> fl_version (v y) \<and> (fl_version (v y) = fl_version (v x) \<longrightarrow> fl_anchor (v y) = fl_anchor (v x))"
  unfolding reach_def by (rule steps_version)

lemma reach_grows: "reach x y \<Longrightarrow> grows (v x) (v y)"
  unfolding reach_def by (rule steps_grows)

lemma peers_unused: "me u \<Longrightarrow> fl_request (v x) u = None \<Longrightarrow> fl_request (v (e_peers env x)) u = None"
  using steps_unused [OF peers_ok] by blast

lemma peers_held: "me (ta_PendingID r) \<Longrightarrow> fleet_ok (v x) \<Longrightarrow> held r (v x) \<Longrightarrow> ta_PendingEpoch r \<noteq> None \<Longrightarrow> held r (v (e_peers env x))"
  using steps_held [OF peers_ok] by blast

lemma verify_pair: "verifyDBTrust env e tok x = None \<Longrightarrow> fl_pair (v x) = Some (e, tok)"
  using trust_current [of x] by (auto simp: verifyDBTrust_def split: sum.splits list.splits if_splits option.splits)

lemma anchor_get_now: "anchor_get env b x = Inr (r, rv) \<Longrightarrow> r = fl_anchor (v x) \<and> rv = rv_of (fl_version (v x)) \<and> validate (e_ops env) b r"
  using get_ok [of x r rv] by (auto simp: anchor_get_def split: sum.splits if_splits)

text \<open>A compare-and-swap of a version that was read is a step, if it would be legal now.\<close>

lemma cas_steps:
  assumes "anchor_cas env b (rv_of n) r x = (q, x')" "n \<le> fl_version (v x)" "n = fl_version (v x) \<Longrightarrow> legal U (v x) r"
  shows "(fleet_step U)\<^sup>*\<^sup>* (v x) (v x') \<and> fl_request (v x') = fl_request (v x) \<and> fl_pair (v x') = fl_pair (v x) \<and> fl_migrated (v x') = fl_migrated (v x) \<and>
    (\<forall>rv'. q = Inr rv' \<longrightarrow> n = fl_version (v x) \<and> fl_anchor (v x') = r \<and> rv' = rv_of (fl_version (v x')))"
proof (cases "validate (e_ops env) b r")
  case True
  obtain q0 where c: "e_cas env (rv_of n) r x = (q0, x')" and q: "q = (case q0 of Inl e \<Rightarrow> Inl ErrAnchorUpdate | Inr rv' \<Rightarrow> Inr rv')"
    using assms(1) True by (auto simp: anchor_cas_def split: prod.splits sum.splits)
  have s: "fleet_step U (v x) (sent n r (v x))" unfolding sent_def using assms(2,3) by (rule fleet_step.send)
  have l: "fleet_step U (sent n r (v x)) (landed r (sent n r (v x)))" if "n = fl_version (v x)"
    unfolding landed_def by (rule fleet_step.land) (simp add: that sent_def)
  from cas_ok [OF c] show ?thesis
  proof
    assume a: "v x' \<in> {v x, sent n r (v x)} \<and> (\<exists>e. q0 = Inl e)"
    then have "(fleet_step U)\<^sup>*\<^sup>* (v x) (v x')" using s by auto
    then show ?thesis using a q by auto
  next
    assume a: "n = fl_version (v x) \<and> v x' = landed r (sent n r (v x)) \<and> (q0 = Inr (rv_of (fl_version (v x'))) \<or> (\<exists>e. q0 = Inl e))"
    then have "(fleet_step U)\<^sup>*\<^sup>* (v x) (v x')" using s l by simp
    then show ?thesis using a q by auto
  qed
qed (use assms(1) in \<open>auto simp: anchor_cas_def\<close>)

lemmas cas_reach = cas_steps [where U = "\<lambda>_. True", folded reach_def]

text \<open>The request of a fence that this process holds.\<close>

lemma db_steps_reach:
  assumes "(db_step uid (anchor_pair r) (e, uid))\<^sup>*\<^sup>* s s'" "fleet_ok s" "fl_migrated s" "fl_pair s \<noteq> None" "held r s"
    and "pending_pair r = Some (e, uid)"
  shows "(fleet_step (\<lambda>_. True))\<^sup>*\<^sup>* s s' \<and> held r s' \<and> fl_version s' = fl_version s \<and> fl_anchor s' = fl_anchor s"
  using assms(1)
proof (induction rule: rtranclp_induct)
  case (step y z)
  have id: "ta_PendingID r = uid" using assms(6) by (auto simp: pending_pair_def)
  have y: "fleet_ok y" "fl_migrated y" "fl_pair y \<noteq> None"
    using fleet_steps_ok [of "\<lambda>_. True" s y] growsD(1,2) [OF steps_grows [of "\<lambda>_. True" s y]] step(3) assms(2-4) by blast+
  have "fleet_step (\<lambda>_. True) y z \<and> held r z \<and> fl_version z = fl_version y \<and> fl_anchor z = fl_anchor y" using step(2)
  proof (induction rule: db_step.cases)
    case opened
    have "fl_anchor y = r" using step(3) opened(2) id by (auto simp: held_def)
    then show ?case using fleet_step.submit [of "\<lambda>_. True" uid y e] y opened assms(6) id by (simp add: held_def)
  next
    case (committed a b)
    then show ?case using fleet_step.commit [of y uid a b] id by (simp add: held_def)
  next
    case (rejected a b)
    then show ?case using fleet_step.reject [of y uid a b] id by (simp add: held_def)
  qed
  then show ?case using step(3) by (auto intro: rtranclp.rtrancl_into_rtrancl)
qed (use assms(5) in simp)

lemma exec_reach:
  assumes "e_exec env \<lparr>rq_ID = uid, rq_Statements = ss, rq_Tail = Some (anchor_pair r, (e, uid))\<rparr> x = (p, x')"
    and "fleet_ok (v x)" "fl_migrated (v x)" "fl_pair (v x) \<noteq> None" "held r (v x)" "pending_pair r = Some (e, uid)"
  shows "reach x x' \<and> held r (v x') \<and> fl_version (v x') = fl_version (v x) \<and> fl_anchor (v x') = fl_anchor (v x)"
  using db_steps_reach [OF exec_ok [OF assms(1), THEN conjunct1] assms(2-6)] by (simp add: reach_def)

text \<open>Writes the anchor may receive for a decided request.\<close>

lemma legal_publish:
  assumes "fleet_ok s" "pending_pair (fl_anchor s) = Some (e, uid)" "fl_request s uid = Some Committed"
  shows "legal U s (finalize e uid (fl_anchor s))"
  using assms pending_facts [of s e uid] by (auto simp: legal_def fleet_ok_def)

lemma legal_clear: "pending_pair (fl_anchor s) = Some (e, uid) \<Longrightarrow> fl_request s uid = Some Rejected \<Longrightarrow> legal U s (clear_pending (fl_anchor s))"
  by (auto simp: legal_def)

subsection \<open>Fenced writes\<close>

lemma settle_reach:
  assumes "settle_fenced env b r (rv_of n) (ta_Epoch r + 1) uid k p x = (q, x')" "fleet_ok (v x)" "n \<le> fl_version (v x)"
    and "n = fl_version (v x) \<Longrightarrow> fl_anchor (v x) = reserve (ta_Epoch r + 1) uid r"
    and "rs_Err p = None \<Longrightarrow> rs_Status p = MutationCommitted \<Longrightarrow> fl_request (v x) uid = Some Committed"
    and "rs_Status p = MutationRejected \<Longrightarrow> fl_request (v x) uid = Some Rejected"
  shows "reach x x'"
proof (cases "rs_Err p = None \<and> rs_Status p = MutationCommitted")
  case True
  obtain q1 x1 where c: "anchor_cas env b (rv_of n) (finalize (ta_Epoch r + 1) uid r) x = (q1, x1)" by fastforce
  then have "x' = x1" using assms(1) True by (auto simp: settle_fenced_def split: sum.splits if_splits)
  moreover have "legal (\<lambda>_. True) (v x) (finalize (ta_Epoch r + 1) uid r)" if "n = fl_version (v x)"
    using legal_publish [OF assms(2), of "ta_Epoch r + 1" uid] assms(4) [OF that] assms(5) True by simp
  ultimately show ?thesis using cas_reach [OF c assms(3)] by blast
next
  case False
  let ?y = "e_peers env x"
  show ?thesis
  proof (cases "rs_Status p = MutationRejected \<and> verifyDBTrust env (ta_Epoch r) (ta_Token r) x = None")
    case True
    obtain q1 x1 where c: "anchor_cas env b (rv_of n) (clear_pending r) ?y = (q1, x1)" by fastforce
    then have x': "x' = x1" using assms(1) True False by (auto simp: settle_fenced_def Let_def split: sum.splits)
    note later = reach_version [OF reach_peers, of x]
    have "legal (\<lambda>_. True) (v ?y) (clear_pending r)" if "n = fl_version (v ?y)"
    proof -
      have n: "n = fl_version (v x)" using later assms(3) that by simp
      then have "fl_anchor (v ?y) = reserve (ta_Epoch r + 1) uid r" using later assms(4) that by simp
      moreover have "fl_request (v ?y) uid = Some Rejected" using growsD(5) [OF reach_grows [OF reach_peers]] assms(6) True by blast
      ultimately show ?thesis using legal_clear [of "v ?y" "ta_Epoch r + 1" uid] by simp
    qed
    then have "reach ?y x'" using cas_reach [OF c] later assms(3) x' by auto
    then show ?thesis using reach_trans [OF reach_peers] by blast
  qed (use assms(1) False in \<open>auto simp: settle_fenced_def Let_def\<close>)
qed

lemma execute_reach:
  assumes "execute_fenced env b ss x0 = (q, x')" "fleet_ok (v x0)" "fl_migrated (v x0)"
  shows "reach x0 x'"
proof (cases "\<exists>r rv. e_lock env x0 \<and> e_ctx env x0 \<and> anchor_get env b x0 = Inr (r, rv) \<and> ta_PendingEpoch r = None \<and>
    verifyDBTrust env (ta_Epoch r) (ta_Token r) (e_peers env x0) = None")
  case False
  then show ?thesis using assms(1) by (auto simp: execute_fenced_def split: sum.splits if_splits option.splits)
next
  case True
  then obtain r rv where gate: "e_lock env x0" "e_ctx env x0" "anchor_get env b x0 = Inr (r, rv)" "ta_PendingEpoch r = None"
    "verifyDBTrust env (ta_Epoch r) (ta_Token r) (e_peers env x0) = None" by auto
  have r: "r = fl_anchor (v x0)" "rv = rv_of (fl_version (v x0))" using anchor_get_now [OF gate(3)] by simp_all
  obtain uid x1 where u: "e_uuid env (e_peers env (e_peers env x0)) = (uid, x1)" by fastforce
  note uid = uuid_ok [OF u]
  have x1: "reach x0 x1" using reach_trans [OF reach_trans [OF reach_peers reach_peers] reach_same] uid by metis
  let ?e = "ta_Epoch r + 1" and ?old = "anchor_pair r"
  let ?req = "\<lparr>rq_ID = uid, rq_Statements = ss, rq_Tail = Some (?old, (?e, uid))\<rparr>"
  obtain q2 x2 where c: "anchor_cas env b rv (reserve ?e uid r) x1 = (q2, x2)" by fastforce
  have leg: "legal (\<lambda>_. True) (v x1) (reserve ?e uid r)" if "fl_version (v x0) = fl_version (v x1)"
    using reach_version [OF x1] that r gate(4) uid by (auto simp: legal_def)
  note x2 = cas_reach [OF c [unfolded r(2)] reach_version [OF x1, THEN conjunct1] leg]
  have r02: "reach x0 x2" using x1 x2 by (blast intro: reach_trans)
  show ?thesis
  proof (cases "e_validate env ?req \<and> \<not> isl q2")
    case False
    then have "x' = x1 \<or> x' = x2" using assms(1) gate u c by (auto simp: execute_fenced_def Let_def split: if_splits sum.splits)
    then show ?thesis using x1 r02 by blast
  next
    case True
    then obtain prv where q2: "q2 = Inr prv" by (cases q2) auto
    then have anchor2: "fl_anchor (v x2) = reserve ?e uid r" "prv = rv_of (fl_version (v x2))" using x2 by auto
    let ?y = "e_peers env x2"
    have y: "reach x0 ?y" using r02 reach_peers by (rule reach_trans)
    let ?r = "reserve ?e uid r"
    have pr: "pending_pair ?r = Some (?e, uid)" "ta_PendingID ?r = uid" "ta_PendingEpoch ?r \<noteq> None" "anchor_pair ?r = ?old"
      by (simp_all add: reserve_def pending_pair_def anchor_pair_def)
    have "held ?r (v x2)" using anchor2(1) by (simp add: held_def)
    then have held: "held ?r (v ?y)" using peers_held [of ?r] uid reach_ok [OF r02 assms(2)] pr by simp
    have pair: "fl_pair (v ?y) \<noteq> None"
    proof -
      have "fl_pair (v (e_peers env x0)) \<noteq> None" using verify_pair [OF gate(5)] by simp
      moreover have "reach (e_peers env x0) ?y" using u uid x2 by (metis reach_trans reach_peers reach_same)
      ultimately show ?thesis using growsD(2) reach_grows by blast
    qed
    obtain p x3 where ex: "e_exec env ?req ?y = (p, x3)" by fastforce
    have x3: "reach ?y x3" "fl_version (v x3) = fl_version (v ?y)" "fl_anchor (v x3) = fl_anchor (v ?y)"
      using exec_reach [of uid ss ?r, unfolded pr(4), OF ex reach_ok [OF y assms(2)] growsD(1) [OF reach_grows [OF y] assms(3)] pair held pr(1)] pr(4) by simp_all
    let ?z = "e_peers env x3"
    have z: "reach x0 ?z" "reach x2 ?z" using y x3(1) by (blast intro: reach_trans reach_peers)+
    have run: "settle_fenced env b r prv ?e uid (length ss) p ?z = (q, x')"
      using assms(1) gate u c True q2 ex by (auto simp: execute_fenced_def Let_def)
    have decided: "rs_Err p = None \<Longrightarrow> rs_Status p = MutationCommitted \<Longrightarrow> fl_request (v ?z) uid = Some Committed"
      "rs_Status p = MutationRejected \<Longrightarrow> fl_request (v ?z) uid = Some Rejected"
      using exec_ok [OF ex] growsD(4,5) [OF reach_grows [OF reach_peers]] by blast+
    have "reach ?z x'"
      by (rule settle_reach [OF run [unfolded anchor2(2)] reach_ok [OF z(1) assms(2)]])
         (use reach_version [OF z(2)] anchor2(1) decided in auto)
    then show ?thesis using z(1) by (rule reach_trans [rotated])
  qed
qed

end

end
