(* ===== verification/Fleet_Startup.thy ===== *)
theory Fleet_Startup
  imports Fleet_Guarantee
begin

section \<open>Start-up among peers\<close>

text \<open>
  Settlement makes only steps of the protocol, and it reports success only when the migration is stored
  and the database carries a pair.  \<open>startup_fleet\<close> adds to \<open>fleet_env\<close> what start-up relies on: the table
  \<^verbatim>\<open>trust_state\<close> exists exactly when the database has a pair, the schema marker is truthful, and the status
  of a request is the decision on it.
\<close>

definition booted :: "int \<times> string \<Rightarrow> ('tr, 'rc) fleet \<Rightarrow> ('tr, 'rc) fleet" where
  "booted q s = s\<lparr>fl_boot := insert q (fl_boot s)\<rparr>"

locale startup_fleet = fleet_env "su_env su" v rv_of me
  for su :: "('x, 'tr, 'rc) startup_env" and v :: "'x \<Rightarrow> ('tr, 'rc) fleet" and rv_of :: "nat \<Rightarrow> string" and me :: "string \<Rightarrow> bool" +
  assumes tables_ok: "su_tables su x = Inr ts \<Longrightarrow> length (filter (\<lambda>t. t \<in> set [''trust_state'']) ts) = 1 \<longleftrightarrow> fl_pair (v x) \<noteq> None"
    and versions_ok: "su_versions su x = Inr [schemaVersion] \<Longrightarrow> fl_migrated (v x)"
    and migrate_ok: "su_migrate su x = (q, x') \<Longrightarrow> v x' \<in> {v x, (v x)\<lparr>fl_migrated := True\<rparr>}"
    and bootstrap_ok: "su_bootstrap su uid p x = (res, x') \<Longrightarrow> v x' \<in> {v x, booted p (v x)} \<or>
      (fl_pair (v x) = None \<and> v x' = (booted p (v x))\<lparr>fl_pair := Some p\<rparr>)"
    and status_ok: "su_status su uid x = Inr MutationCommitted \<Longrightarrow> fl_request (v x) uid = Some Committed"
      "su_status su uid x = Inr MutationRejected \<Longrightarrow> fl_request (v x) uid = Some Rejected"

text \<open>What this process knows of its own reservation.\<close>

definition node_ok :: "(string \<Rightarrow> bool) \<Rightarrow> trustStartup \<Rightarrow> ('tr, 'rc) fleet \<Rightarrow> bool" where
  "node_ok me st s \<longleftrightarrow> (ts_attempted st \<noteq> '''' \<longrightarrow> me (ts_attempted st)) \<and>
     (\<not> ts_reserved st \<and> ts_attempted st \<noteq> '''' \<longrightarrow> fl_request s (ts_attempted st) = None) \<and>
     (ts_reserved st \<longrightarrow> ts_attempted st \<noteq> '''' \<and>
        (\<exists>r. ta_PendingID r = ts_attempted st \<and> ta_PendingEpoch r \<noteq> None \<and> held r s))"

context startup_fleet
begin

text \<open>Steps that need no identifier of this process.\<close>

definition apart :: "'x \<Rightarrow> 'x \<Rightarrow> bool" where
  "apart x y \<longleftrightarrow> (fleet_step (\<lambda>u. \<not> me u))\<^sup>*\<^sup>* (v x) (v y)"

lemma apart_refl [simp]: "apart x x" by (simp add: apart_def)

lemma apart_trans [trans]: "apart x y \<Longrightarrow> apart y z \<Longrightarrow> apart x z"
  unfolding apart_def by (rule rtranclp_trans)

lemma apart_peers [simp]: "apart x (peers su x)" unfolding apart_def by (rule peers_ok)

lemma apart_then_peers: "apart x y \<Longrightarrow> apart x (peers su y)" by (rule apart_trans [OF _ apart_peers])

lemma apart_reach: "apart x y \<Longrightarrow> reach x y"
  unfolding apart_def reach_def by (rule steps_mono) simp_all

lemma apart_ok: "apart x y \<Longrightarrow> fleet_ok (v x) \<Longrightarrow> fleet_ok (v y)"
  by (rule reach_ok [OF apart_reach])

lemma apart_grows: "apart x y \<Longrightarrow> grows (v x) (v y)" by (rule reach_grows [OF apart_reach])

lemma apart_held: "apart x y \<Longrightarrow> fleet_ok (v x) \<Longrightarrow> held r (v x) \<Longrightarrow> me (ta_PendingID r) \<Longrightarrow> ta_PendingEpoch r \<noteq> None \<Longrightarrow> held r (v y)"
  unfolding apart_def using steps_held by blast

lemma apart_unused: "apart x y \<Longrightarrow> me u \<Longrightarrow> fl_request (v x) u = None \<Longrightarrow> fl_request (v y) u = None"
  unfolding apart_def using steps_unused by blast

lemma apart_node: "apart x y \<Longrightarrow> fleet_ok (v x) \<Longrightarrow> node_ok me st (v x) \<Longrightarrow> node_ok me st (v y)"
  unfolding node_ok_def using apart_held apart_unused by metis

subsection \<open>Reads and the migration\<close>

lemma seq_apart:
  assumes "apart x (snd m)" "\<And>a. m = (Inr a, snd m) \<Longrightarrow> apart (snd m) (snd (k a (snd m)))"
  shows "apart x (snd (seq m k))"
proof (cases m)
  case (Pair q y)
  then show ?thesis using assms by (cases q) (auto simp: seq_def intro: apart_trans)
qed

lemma seq_Inr: "seq m k = (Inr b, y) \<longleftrightarrow> (\<exists>a x. m = (Inr a, x) \<and> k a x = (Inr b, y))"
  by (cases m; cases "fst m") (auto simp: seq_def)

lemma db_read_apart: "apart x (snd (db_read su f x))" by (simp add: db_read_def)

lemma db_read_Inr: "db_read su f x = (Inr a, y) \<longleftrightarrow> f x = Inr a \<and> y = peers su x"
  by (cases "f x") (auto simp: db_read_def)

lemma check_apart: "apart x (snd (check_trust su e tok x))" by (simp add: check_trust_def)

lemma check_pair: "check_trust su e tok x = (Inr a, y) \<Longrightarrow> fl_pair (v x) = Some (e, tok) \<and> y = peers su x"
  using verify_pair [of e tok x] by (auto simp: check_trust_def split: option.splits)

lemma count_apart: "apart x (snd (countTables su names x))"
  unfolding countTables_def by (auto intro!: seq_apart db_read_apart)

lemma exists_apart: "apart x (snd (tableExists su name x))" "apart x (snd (trustStateExists su x))"
  unfolding tableExists_def trustStateExists_def by (auto intro!: seq_apart count_apart)

lemma marker_apart: "apart x (snd (schemaMarker su x))"
  unfolding schemaMarker_def by (auto intro!: seq_apart db_read_apart exists_apart)

lemma pending_apart: "apart x (snd (migrationPending su x))"
  unfolding migrationPending_def by (auto intro!: seq_apart marker_apart)

lemma require_apart: "apart x (snd (requireMigrated su x))"
  unfolding requireMigrated_def by (auto intro!: seq_apart marker_apart)

lemma retry_apart:
  assumes "\<And>y. apart y (snd (f y))"
  shows "apart x (snd (retryRhizaStartup (peers su) n f x))"
proof (induction n arbitrary: x)
  case 0
  then show ?case using assms [of x] unfolding retryRhizaStartup.simps [of _ 0]
    by (auto split: prod.split option.split intro: apart_then_peers)
next
  case (Suc n)
  then show ?case using assms [of x] unfolding retryRhizaStartup.simps [of _ "Suc n"]
    by (auto split: prod.split option.split intro: apart_then_peers apart_trans)
qed

lemma op_apart: "apart x (snd (su_migrate su x))"
proof -
  obtain q x' where m: "su_migrate su x = (q, x')" by fastforce
  from migrate_ok [OF this] have "v x' = v x \<or> v x' = (v x)\<lparr>fl_migrated := True\<rparr>" by simp
  then have "apart x x'" unfolding apart_def using fleet_step.migrate [of "\<lambda>u. \<not> me u" "v x"] by fastforce
  then show ?thesis using m by simp
qed

lemma migrate_apart: "apart x (snd (migrate su x))"
proof -
  have M: "apart y (snd (Migrate su y))" for y unfolding Migrate_def by (rule retry_apart [OF op_apart])
  have "apart y (snd (case Migrate su y of (Some e, x') \<Rightarrow> (Inl SMigration, x') | (None, x') \<Rightarrow> requireMigrated su x'))" for y
    using M [of y] require_apart by (auto split: prod.split option.split intro: apart_trans)
  then show ?thesis unfolding migrate_def by (auto intro!: seq_apart count_apart)
qed

lemma catchUp_apart: "apart x (snd (catchUpMigration su x))"
  unfolding catchUpMigration_def by (auto intro!: seq_apart pending_apart migrate_apart require_apart)

lemma marker_done:
  assumes "schemaMarker su x = (Inr (1, schemaVersion), y)"
  shows "fl_migrated (v y)"
proof -
  obtain z where "(if False then (Inr (0, 0), z) else seq (db_read su (su_versions su) z) (\<lambda>vs x. (Inr (length vs, if vs = [] then 0 else foldr max (tl vs) (hd vs)), x))) = (Inr (1, schemaVersion), y)"
    using assms unfolding schemaMarker_def seq_Inr by (auto split: if_splits)
  then obtain vs where vs: "su_versions su z = Inr vs" "y = peers su z" "length vs = 1" "(if vs = [] then 0 else foldr max (tl vs) (hd vs)) = schemaVersion"
    by (auto simp: seq_Inr db_read_Inr split: if_splits)
  then have "vs = [schemaVersion]" by (cases vs) auto
  then show ?thesis using versions_ok [of z] vs(1,2) growsD(1) [OF apart_grows [OF apart_peers]] by blast
qed

lemma pending_done: "migrationPending su x = (Inr False, y) \<Longrightarrow> fl_migrated (v y)"
  using marker_done by (auto simp: migrationPending_def seq_Inr)

lemma require_done: "requireMigrated su x = (Inr a, y) \<Longrightarrow> fl_migrated (v y)"
  using marker_done by (auto simp: requireMigrated_def seq_Inr split: if_splits)

lemma migrate_done: "migrate su x = (Inr a, y) \<Longrightarrow> fl_migrated (v y)"
  by (auto simp: migrate_def seq_Inr split: if_splits prod.splits option.splits dest: require_done)

lemma catchUp_done: "catchUpMigration su x = (Inr a, y) \<Longrightarrow> fl_migrated (v y)"
  by (auto simp: catchUpMigration_def seq_Inr split: if_splits dest: require_done)

subsection \<open>Fences\<close>

lemma write_apart:
  assumes "anchor_write su b (rv_of n) r x = (q, x')" "n \<le> fl_version (v x)" "n = fl_version (v x) \<Longrightarrow> legal (\<lambda>u. \<not> me u) (v x) r"
  shows "apart x x'"
proof -
  obtain q0 y where c: "anchor_cas (su_env su) b (rv_of n) r x = (q0, y)" by fastforce
  then have "apart x y" unfolding apart_def using cas_steps [OF c assms(2,3)] by blast
  then show ?thesis using assms(1) c by (auto simp: anchor_write_def intro: apart_then_peers)
qed

text \<open>The record was read before the pair was seen in the database; whatever happened since, publishing it is
  a step.\<close>

lemma publish_apart:
  assumes "fleet_ok (v x)" "apart x y" "apart y z" "pending_pair (fl_anchor (v x)) = Some (e, uid)" "fl_pair (v y) = Some (e, uid)"
    and "anchor_write su b (rv_of (fl_version (v x))) (finalize e uid (fl_anchor (v x))) z = (q, x')"
  shows "apart z x'"
proof (rule write_apart [OF assms(6)])
  note xy = reach_version [OF apart_reach [OF assms(2)]] and yz = reach_version [OF apart_reach [OF assms(3)]]
  show "fl_version (v x) \<le> fl_version (v z)" using xy yz by simp
  assume n: "fl_version (v x) = fl_version (v z)"
  then have same: "fl_version (v z) = fl_version (v y)" "fl_anchor (v y) = fl_anchor (v x)" "fl_anchor (v z) = fl_anchor (v x)" using xy yz by auto
  have "fl_pair (v z) = Some (e, uid)"
    using steps_published [OF assms(3) [unfolded apart_def] apart_ok [OF assms(2,1)] _ assms(5)] same assms(4) by simp
  then show "legal (\<lambda>u. \<not> me u) (v z) (finalize e uid (fl_anchor (v x)))"
    using same assms(4) by (auto simp: legal_def)
qed

lemma anchor_read_Inr:
  "anchor_read su b x = (Inr (r, rv), y) \<Longrightarrow> r = fl_anchor (v x) \<and> rv = rv_of (fl_version (v x)) \<and> y = peers su x"
  using anchor_get_now [of b x r rv] by (auto simp: anchor_read_def db_read_Inr)

lemma anchor_read_apart: "apart x (snd (anchor_read su b x))"
  unfolding anchor_read_def by (rule db_read_apart)

definition settled_here :: "'x \<Rightarrow> bool" where
  "settled_here x \<longleftrightarrow> fl_migrated (v x) \<and> fl_pair (v x) \<noteq> None"

lemma settled_later: "reach x y \<Longrightarrow> settled_here x \<Longrightarrow> settled_here y"
  using reach_grows [of x y] growsD(1,2) unfolding settled_here_def by blast

lemma pair_later: "apart x y \<Longrightarrow> fl_pair (v x) = Some q \<Longrightarrow> fl_pair (v y) \<noteq> None"
  using growsD(2) [OF apart_grows, of x y] by simp

lemma finalize_apart:
  assumes "finalizeTrustFence su b e uid x = (q, x')" "fleet_ok (v x)"
  shows "apart x x' \<and> (q = Inr () \<longrightarrow> settled_here x')"
proof -
  obtain q1 y1 where g: "anchor_read su b x = (q1, y1)" by fastforce
  have y1: "apart x y1" using anchor_read_apart [of x b] g by simp
  show ?thesis
  proof (cases q1)
    case (Inl e)
    then show ?thesis using assms(1) g y1 by (auto simp: finalizeTrustFence_def seq_def)
  next
    case (Inr cr)
    then obtain current rv where cr: "q1 = Inr (current, rv)" by (cases cr) auto
    note now = anchor_read_Inr [OF g [unfolded cr]]
    let ?rest = "\<lambda>x. seq (requireMigrated su x) (\<lambda>_ x. anchor_write su b rv (finalize e uid current) x)"
    have run: "(if ta_PendingEpoch current \<noteq> Some e \<or> ta_PendingID current \<noteq> uid then (Inl SFenceChanged, y1)
        else seq (check_trust su e uid y1) (\<lambda>_ x. ?rest x)) = (q, x')"
      using assms(1) g cr by (simp add: finalizeTrustFence_def seq_def)
    show ?thesis
    proof (cases "ta_PendingEpoch current = Some e \<and> ta_PendingID current = uid \<and> (\<exists>a y2. check_trust su e uid y1 = (Inr a, y2))")
      case False
      obtain c y2 where ch: "check_trust su e uid y1 = (c, y2)" by fastforce
      then have "(x' = y1 \<or> x' = y2) \<and> q \<noteq> Inr ()" using False run by (cases c) (auto simp: seq_def split: if_splits)
      moreover have "apart y1 y2" using check_apart [of y1 e uid] ch by simp
      ultimately show ?thesis using y1 apart_trans by blast
    next
      case True
      then obtain y2 where ch: "check_trust su e uid y1 = (Inr (), y2)" by auto
      have p: "pending_pair current = Some (e, uid)" using True by (simp add: pending_pair_def)
      have pair: "fl_pair (v y1) = Some (e, uid)" and y2: "apart y1 y2" using check_pair [OF ch] by auto
      obtain m y3 where rq: "requireMigrated su y2 = (m, y3)" by fastforce
      have y3: "apart y1 y3" using y2 require_apart [of y2] rq by (auto intro: apart_trans)
      have rest: "?rest y2 = (q, x')" using run True ch by (simp add: seq_def)
      show ?thesis
      proof (cases m)
        case (Inl e)
        then show ?thesis using rest rq y1 y3 by (auto simp: seq_def intro: apart_trans)
      next
        case (Inr u)
        then have w: "anchor_write su b rv (finalize e uid current) y3 = (q, x')" using rest rq by (simp add: seq_def)
        have "apart y3 x'" using publish_apart [OF assms(2) y1 y3 _ pair, of b q x'] p w now by simp
        moreover have "fl_migrated (v y3)" "fl_pair (v y3) \<noteq> None" using require_done rq Inr pair_later [OF y3 pair] by auto
        ultimately show ?thesis using y1 y3 settled_later [OF apart_reach, of y3 x'] by (auto simp: settled_here_def intro: apart_trans)
      qed
    qed
  qed
qed

lemma converge_apart:
  assumes "convergeFence su b e uid x = (q, x')" "fleet_ok (v x)"
  shows "apart x x' \<and> (q = Inr () \<longrightarrow> settled_here x')"
proof -
  obtain c y where y: "catchUpMigration su x = (c, y)" by fastforce
  have xy: "apart x y" using catchUp_apart [of x] y by simp
  show ?thesis
  proof (cases c)
    case (Inr u)
    then have "finalizeTrustFence su b e uid y = (q, x')" using assms(1) y by (simp add: convergeFence_def seq_def)
    from finalize_apart [OF this apart_ok [OF xy assms(2)]] show ?thesis using xy by (blast intro: apart_trans)
  qed (use assms(1) y xy in \<open>auto simp: convergeFence_def seq_def\<close>)
qed

lemma exists_pair:
  assumes "trustStateExists su x = (Inr ex, y)"
  shows "(ex \<longleftrightarrow> fl_pair (v x) \<noteq> None) \<and> y = peers su x"
proof -
  obtain ts where ts: "su_tables su x = Inr ts" "ex \<longleftrightarrow> length (filter (\<lambda>t. t \<in> set [''trust_state'']) ts) = 1" "y = peers su x"
    using assms by (auto simp: trustStateExists_def tableExists_def countTables_def seq_Inr db_read_Inr)
  then show ?thesis using tables_ok [OF ts(1)] by simp
qed

lemma bootstrap_apart:
  assumes "su_bootstrap su uid (anchor_pair r) x = (p, x')" "fl_anchor (v x) = r" "ta_Bootstrap r"
  shows "apart x x'"
proof -
  have "fleet_step (\<lambda>u. \<not> me u) (v x) (booted (anchor_pair r) (v x))"
    unfolding booted_def using fleet_step.boot_submit [of "v x"] assms(2,3) by simp
  moreover have "fleet_step (\<lambda>u. \<not> me u) (booted (anchor_pair r) (v x)) ((booted (anchor_pair r) (v x))\<lparr>fl_pair := Some (anchor_pair r)\<rparr>)"
    if "fl_pair (v x) = None"
    by (rule fleet_step.boot_commit) (simp_all add: booted_def that)
  ultimately show ?thesis using bootstrap_ok [OF assms(1)] unfolding apart_def
    by (auto intro: converse_rtranclp_into_rtranclp)
qed

lemma unused_if_no_pair: "fleet_ok s \<Longrightarrow> fl_pair s = None \<Longrightarrow> fl_request s u = None"
  unfolding fleet_ok_def requests_ok_def by fastforce

lemma prepare_apart:
  assumes "prepareMigrationTrustState su r x = (q, x')" "fleet_ok (v x)" "held r (v x)" "me (ta_PendingID r)" "ta_PendingEpoch r \<noteq> None"
  shows "apart x x' \<and> (q = Inr () \<longrightarrow> fl_pair (v x') \<noteq> None)"
proof -
  obtain e y where y: "trustStateExists su x = (e, y)" by fastforce
  have xy: "apart x y" using exists_apart(2) [of x] y by simp
  have check: "apart z x' \<and> (q = Inr () \<longrightarrow> fl_pair (v x') \<noteq> None)" if "check_trust su (ta_Epoch r) (ta_Token r) z = (q, x')" for z
    using that check_apart [of z] check_pair [of "ta_Epoch r" "ta_Token r" z "()" x'] pair_later [OF apart_peers] by (cases q) (auto, metis snd_conv)
  consider (err) f where "e = Inl f" | (there) "e = Inr True" | (old) "e = Inr False" "\<not> ta_Bootstrap r" | (boot) "e = Inr False" "ta_Bootstrap r"
    by (metis (full_types) sum.exhaust)
  then show ?thesis
  proof cases
    case err
    then show ?thesis using assms(1) y xy by (auto simp: prepareMigrationTrustState_def seq_def)
  next
    case there
    then have "check_trust su (ta_Epoch r) (ta_Token r) y = (q, x')" using assms(1) y by (simp add: prepareMigrationTrustState_def seq_def)
    from check [OF this] show ?thesis using xy by (blast intro: apart_trans)
  next
    case old
    then show ?thesis using assms(1) y xy by (auto simp: prepareMigrationTrustState_def seq_def)
  next
    case boot
    have "fl_request (v x) (ta_PendingID r) = None" using unused_if_no_pair [OF assms(2)] exists_pair y boot(1) by blast
    then have "fl_request (v y) (ta_PendingID r) = None" using apart_unused [OF xy assms(4)] by blast
    then have anchor: "fl_anchor (v y) = r" using apart_held [OF xy assms(2,3,4,5)] by (simp add: held_def)
    obtain uid x1 where u: "e_uuid (su_env su) y = (uid, x1)" by fastforce
    have x1: "v x1 = v y" using uuid_ok [OF u] by simp
    obtain p x2 where bo: "su_bootstrap su uid (anchor_pair r) x1 = (p, x2)" by fastforce
    have y2: "apart y x2" using bootstrap_apart [OF bo] anchor x1 boot(2) by (simp add: apart_def)
    show ?thesis
    proof (cases "su_bootstrap_valid su uid \<and> \<not> isl (committedResponse p)")
      case True
      then have "check_trust su (ta_Epoch r) (ta_Token r) (peers su x2) = (q, x')"
        using assms(1) y boot u bo by (auto simp: prepareMigrationTrustState_def seq_def split: sum.splits)
      from check [OF this] show ?thesis using xy y2 by (blast intro: apart_trans apart_then_peers)
    next
      case False
      then have "x' = x1 \<or> x' = peers su x2" "q \<noteq> Inr ()"
        using assms(1) y boot u bo by (auto simp: prepareMigrationTrustState_def seq_def split: if_splits sum.splits)
      moreover have "apart y x1" using x1 by (simp add: apart_def)
      ultimately show ?thesis using xy y2 by (blast intro: apart_trans apart_then_peers)
    qed
  qed
qed

lemma complete_reach:
  assumes "completeMigrationFence su b r x = (q, x')" "fleet_ok (v x)" "fl_migrated (v x)" "fl_pair (v x) \<noteq> None"
    and "held r (v x)" "me (ta_PendingID r)" "ta_PendingEpoch r \<noteq> None"
  shows "reach x x' \<and> held r (v x') \<and> (q = Inr () \<longrightarrow> settled_here x')"
proof -
  obtain e where e: "ta_PendingEpoch r = Some e" using assms(7) by auto
  let ?req = "fence_request r e (ta_PendingID r)"
  obtain p y where ex: "e_exec (su_env su) ?req x = (p, y)" by fastforce
  have xy: "reach x y" "held r (v y)"
    using exec_reach [OF ex [unfolded fence_request_def] assms(2-5)] e by (simp_all add: pending_pair_def)
  have oky: "fleet_ok (v y)" by (rule reach_ok [OF xy(1) assms(2)])
  let ?z = "peers su y"
  have z: "reach x ?z" "held r (v ?z)" "fleet_ok (v ?z)"
    using reach_trans [OF xy(1) reach_peers] apart_held [OF apart_peers oky xy(2) assms(6,7)] apart_ok [OF apart_peers oky] by simp_all
  show ?thesis
  proof (cases "e_validate (su_env su) ?req \<and> \<not> isl (committedResponse p)")
    case True
    then have "finalizeTrustFence su b e (ta_PendingID r) ?z = (q, x')"
      using assms(1) e ex by (auto simp: completeMigrationFence_def execRaw_def Let_def split: sum.splits)
    from finalize_apart [OF this z(3)] have f: "apart ?z x'" "q = Inr () \<longrightarrow> settled_here x'" by simp_all
    then show ?thesis using reach_trans [OF z(1) apart_reach [OF f(1)]] apart_held [OF f(1) z(3,2) assms(6,7)] by blast
  next
    case False
    then have "x' = x \<or> x' = ?z" "q \<noteq> Inr ()"
      using assms(1) e ex by (auto simp: completeMigrationFence_def execRaw_def Let_def split: if_splits sum.splits)
    then show ?thesis using z assms(5) by auto
  qed
qed

lemma finish_reach:
  assumes "finishMigrationFence su b r x = (q, x')" "fleet_ok (v x)" "held r (v x)" "me (ta_PendingID r)" "ta_PendingEpoch r \<noteq> None"
  shows "reach x x' \<and> held r (v x') \<and> (q = Inr () \<longrightarrow> settled_here x')"
proof -
  obtain e where e: "ta_PendingEpoch r = Some e" using assms(5) by auto
  obtain c y where ch: "check_trust su e (ta_PendingID r) x = (c, y)" by fastforce
  have xy: "apart x y" using check_apart [of x e] ch by (metis snd_conv)
  have y: "fleet_ok (v y)" "held r (v y)" using apart_ok [OF xy assms(2)] apart_held [OF xy assms(2-5)] by simp_all
  have via: "reach x x' \<and> held r (v x')" if "apart x x'" using apart_reach [OF that] apart_held [OF that assms(2-5)] by blast
  show ?thesis
  proof (cases c)
    case (Inr u)
    then have "convergeFence su b e (ta_PendingID r) y = (q, x')" using assms(1) e ch by (simp add: finishMigrationFence_def)
    from converge_apart [OF this y(1)] show ?thesis using via xy by (blast intro: apart_trans)
  next
    case (Inl f)
    obtain c2 z where pr: "prepareMigrationTrustState su r y = (c2, z)" by fastforce
    note yz = prepare_apart [OF pr y assms(4,5)]
    have z: "apart x z" using xy yz by (blast intro: apart_trans)
    obtain c3 w where mi: "migrate su z = (c3, w)" by fastforce
    have w: "apart z w" using migrate_apart [of z] mi by simp
    have run: "seq (c2, z) (\<lambda>_ x. seq (migrate su x) (\<lambda>_. completeMigrationFence su b r)) = (q, x')"
      using assms(1) e ch Inl pr by (simp add: finishMigrationFence_def)
    show ?thesis
    proof (cases "\<not> isl c2 \<and> \<not> isl c3")
      case False
      then have "x' = z \<or> x' = w" "q \<noteq> Inr ()" using run mi by (auto simp: seq_def split: sum.splits)
      then show ?thesis using via z w by (blast intro: apart_trans)
    next
      case True
      then have final: "completeMigrationFence su b r w = (q, x')" using run mi by (auto simp: seq_def split: sum.splits)
      have xw: "apart x w" using z w by (rule apart_trans)
      have "fl_migrated (v w)" using True mi migrate_done [of z "()" w] by (cases c3) auto
      moreover have "fl_pair (v w) \<noteq> None" using True yz growsD(2) [OF apart_grows [OF w]] by (cases c2) auto
      ultimately have "reach w x' \<and> held r (v x') \<and> (q = Inr () \<longrightarrow> settled_here x')"
        using complete_reach [OF final apart_ok [OF xw assms(2)] _ _ apart_held [OF xw assms(2-5)] assms(4,5)] by blast
      then show ?thesis using reach_trans [OF apart_reach [OF xw]] by blast
    qed
  qed
qed

lemma used_settled: "fleet_ok (v x) \<Longrightarrow> fl_request (v x) u \<noteq> None \<Longrightarrow> settled_here x"
  unfolding fleet_ok_def requests_ok_def settled_here_def by auto

lemma recover_apart:
  assumes "recoverPendingTrust su b (fl_anchor (v x)) e (rv_of (fl_version (v x))) y = (q, x')" "apart x y" "fleet_ok (v x)"
    and "ta_PendingEpoch (fl_anchor (v x)) = Some e"
  shows "apart y x' \<and> (q = Inr () \<longrightarrow> settled_here x')"
proof -
  let ?r = "fl_anchor (v x)" and ?n = "fl_version (v x)"
  let ?u = "ta_PendingID ?r" and ?z = "peers su y"
  have pend: "pending_pair ?r = Some (e, ?u)" using assms(4) by (simp add: pending_pair_def)
  have oky: "fleet_ok (v y)" by (rule apart_ok [OF assms(2,3)])
  have xz: "apart x ?z" using assms(2) by (rule apart_then_peers)
  have later: "settled_here x'" if "fl_request (v y) ?u \<noteq> None" "apart y x'"
    using settled_later [OF apart_reach [OF that(2)] used_settled [OF oky that(1)]] .
  consider (com) w where "su_status su ?u y = Inr MutationCommitted" "check_trust su e ?u ?z = (Inr (), w)"
      "anchor_write su b (rv_of ?n) (finalize e ?u ?r) w = (q, x')"
    | (rej) w where "su_status su ?u y = Inr MutationRejected" "check_trust su (ta_Epoch ?r) (ta_Token ?r) ?z = (Inr (), w)"
      "anchor_write su b (rv_of ?n) (clear_pending ?r) w = (q, x')"
    | (none) "apart y x'" "q \<noteq> Inr ()"
  proof -
    obtain c1 c2 where ch: "check_trust su e ?u ?z = (c1, peers su ?z)" "check_trust su (ta_Epoch ?r) (ta_Token ?r) ?z = (c2, peers su ?z)"
      by (simp add: check_trust_def)
    have none': "apart y ?z" "apart y (peers su ?z)" by (simp_all add: apart_then_peers)
    show thesis
    proof (cases "su_status su ?u y")
      case (Inl f)
      then show thesis using assms(1) none none' by (auto simp: recoverPendingTrust_def db_read_def)
    next
      case (Inr status)
      note run = assms(1) [unfolded recoverPendingTrust_def db_read_def Inr ch]
      show thesis
      proof (cases status)
        case MutationCommitted
        then show thesis using run Inr ch com [of "peers su ?z"] none none' by (cases c1) auto
      next
        case MutationRejected
        then show thesis using run Inr ch rej [of "peers su ?z"] none none' by (cases c2) auto
      next
        case MutationOther
        then show thesis using run none none' by auto
      qed
    qed
  qed
  then show ?thesis
  proof cases
    case com
    have w: "w = peers su ?z" "fl_pair (v ?z) = Some (e, ?u)" using check_pair [OF com(2)] by simp_all
    have "apart w x'" using publish_apart [OF assms(3) xz _ pend w(2) com(3)] w(1) by simp
    then have "apart y x'" using w(1) by (blast intro: apart_trans apart_peers)
    then show ?thesis using later status_ok(1) [OF com(1)] by simp
  next
    case rej
    have w: "w = peers su ?z" using check_pair [OF rej(2)] by simp
    have yw: "apart y w" unfolding w by (blast intro: apart_trans apart_peers)
    have xw: "apart x w" using assms(2) yw by (rule apart_trans)
    note ver = reach_version [OF apart_reach [OF xw]]
    have "apart w x'"
    proof (rule write_apart [OF rej(3)])
      show "?n \<le> fl_version (v w)" using ver by simp
      assume "?n = fl_version (v w)"
      then have "fl_anchor (v w) = ?r" using ver by simp
      moreover have "fl_request (v w) ?u = Some Rejected" using growsD(5) [OF apart_grows [OF yw]] status_ok(2) [OF rej(1)] by simp
      ultimately show "legal (\<lambda>u. \<not> me u) (v w) (clear_pending ?r)" using legal_clear [of "v w" e ?u] pend by simp
    qed
    then have "apart y x'" using yw by (rule apart_trans [rotated])
    then show ?thesis using later status_ok(2) [OF rej(1)] by simp
  qed simp
qed

lemma finishStartup_apart: "apart x (snd (finishTrustStartup su b x))"
  unfolding finishTrustStartup_def by (auto intro!: seq_apart anchor_read_apart check_apart)

lemma finishStartup_pair:
  assumes "finishTrustStartup su b x = (Inr a, y)"
  shows "ta_PendingEpoch (fl_anchor (v x)) = None \<and> fl_pair (v y) \<noteq> None"
proof -
  obtain r rv z where r: "anchor_read su b x = (Inr (r, rv), z)" "ta_PendingEpoch r = None" "check_trust su (ta_Epoch r) (ta_Token r) z = (Inr a, y)"
    using assms by (auto simp: finishTrustStartup_def seq_Inr split: if_splits)
  from check_pair [OF r(3)] pair_later [OF apart_peers] have "fl_pair (v y) \<noteq> None" by blast
  then show ?thesis using anchor_read_Inr [OF r(1)] r(2) by simp
qed

lemma begin_reach:
  assumes "beginMigrationFence su b (fl_anchor (v x)) (rv_of (fl_version (v x))) st y = (q, st', x')" "apart x y" "fleet_ok (v x)"
    and "node_ok me st (v x)" "\<not> ts_reserved st"
  shows "reach y x' \<and> node_ok me st' (v x') \<and> (\<forall>r. q = Inr r \<longrightarrow> me (ta_PendingID r) \<and> ta_PendingEpoch r \<noteq> None \<and> held r (v x'))"
proof -
  let ?r = "fl_anchor (v x)" and ?n = "fl_version (v x)"
  let ?m = "seq (trustStateExists su y) (\<lambda>ex x. if ex then check_trust su (ta_Epoch ?r) (ta_Token ?r) x else (Inr (), x))"
  obtain c x1 where m: "?m = (c, x1)" by fastforce
  have "apart y (snd ?m)" by (rule seq_apart [OF exists_apart(2)]) (simp add: check_apart)
  then have y1: "apart y x1" using m by simp
  have x1: "apart x x1" using assms(2) y1 by (rule apart_trans)
  have ny: "node_ok me st (v y)" and n1: "node_ok me st (v x1)" using apart_node [OF _ assms(3,4)] assms(2) x1 by simp_all
  obtain uid x2 where u: "(if ts_attempted st = '''' then e_uuid (su_env su) x1 else (ts_attempted st, x1)) = (uid, x2)" by fastforce
  have uid: "me uid" "uid \<noteq> ''''" "fl_request (v x2) uid = None" "v x2 = v x1"
    using u uuid_ok [of x1 uid x2] n1 assms(5) by (auto simp: node_ok_def split: if_splits)
  let ?p = "reserve (ta_Epoch ?r + 1) uid ?r" and ?st = "st\<lparr>ts_attempted := uid\<rparr>"
  have fresh: "node_ok me ?st s" if "fl_request s uid = None" for s :: "('tr, 'rc) fleet" using that uid assms(5) by (simp add: node_ok_def)
  have idp: "ta_PendingID ?p = uid" "ta_PendingEpoch ?p \<noteq> None" by (simp_all add: reserve_def)
  show ?thesis
  proof (cases "ta_PendingEpoch ?r = None \<and> ta_Bootstrap ?r \<and> \<not> isl c \<and> e_validate (su_env su) (fence_request ?r (ta_Epoch ?r + 1) uid)")
    case False
    then have "(x' = y \<and> st' = st \<or> x' = x1 \<and> st' = st \<or> x' = x2 \<and> st' = ?st) \<and> isl q"
      using assms(1) m u by (auto simp: beginMigrationFence_def Let_def split: if_splits sum.splits)
    moreover have "reach y x1" "reach y x2" using apart_reach [OF y1] uid(4) by (auto simp: reach_def)
    ultimately show ?thesis using ny n1 fresh uid(3) by auto
  next
    case True
    obtain c0 x3 where c: "anchor_cas (su_env su) b (rv_of ?n) ?p x2 = (c0, x3)" by fastforce
    have ver: "?n \<le> fl_version (v x2)" "?n = fl_version (v x2) \<longrightarrow> fl_anchor (v x2) = ?r"
      using reach_version [OF apart_reach [OF x1]] uid(4) by auto
    have "legal (\<lambda>_. True) (v x2) ?p" if "?n = fl_version (v x2)" using ver that True uid(3) by (auto simp: legal_def)
    note cas = cas_reach [OF c ver(1) this]
    have run: "x' = peers su x3" "(isl c0 \<and> isl q \<and> st' = ?st) \<or> (\<not> isl c0 \<and> q = Inr ?p \<and> st' = ?st\<lparr>ts_reserved := True, ts_pendingID := uid\<rparr>)"
      using assms(1) m u True c by (cases c0; auto simp: beginMigrationFence_def Let_def anchor_write_def split: sum.splits)+
    have ok3: "fleet_ok (v x3)" using reach_ok [OF _ apart_ok [OF x1 assms(3)], of x3] cas uid(4) by (simp add: reach_def)
    have "reach y x3" using apart_reach [OF y1] cas uid(4) by (auto simp: reach_def intro: rtranclp_trans)
    then have yx: "reach y x'" using run(1) reach_trans [OF _ reach_peers] by simp
    have r3: "fl_request (v x3) uid = None" using cas uid(3) by simp
    have un: "fl_request (v x') uid = None" using apart_unused [OF apart_peers uid(1) r3] run(1) by simp
    have "held ?p (v x')" if "\<not> isl c0"
    proof -
      have "held ?p (v x3)" using cas that by (cases c0) (auto simp: held_def)
      then show ?thesis using apart_held [OF apart_peers ok3 _ _ idp(2)] idp(1) uid(1) run(1) by simp
    qed
    then show ?thesis using run(2) yx fresh [OF un] uid idp by (auto simp: node_ok_def)
  qed
qed

lemma begin_node:
  assumes "beginMigrationFence su b r rv st y = (Inr res, st', x)" "node_ok me st' (v x)" "held res (v x')"
  shows "node_ok me st' (v x')"
proof -
  have "ts_reserved st'" "ta_PendingID res = ts_attempted st'" "ta_PendingEpoch res \<noteq> None"
    using assms(1) by (auto simp: beginMigrationFence_def Let_def reserve_def split: if_splits sum.splits prod.splits)
  then show ?thesis using assms(2,3) unfolding node_ok_def by blast
qed

subsection \<open>Settlement\<close>

lemma via_apart: "apart x y \<Longrightarrow> fleet_ok (v x) \<Longrightarrow> node_ok me st (v x) \<Longrightarrow> reach x y \<and> node_ok me st (v y)"
  using apart_reach apart_node by blast

lemma settleOnce_own:
  assumes "finishMigrationFence su b (fl_anchor (v x)) (peers su x) = (q, x')" "fleet_ok (v x)" "me (ta_PendingID (fl_anchor (v x)))"
    and "ta_PendingEpoch (fl_anchor (v x)) \<noteq> None" "ta_PendingID (fl_anchor (v x)) = ts_attempted st" "ts_attempted st \<noteq> ''''"
  shows "reach x x' \<and> node_ok me (st\<lparr>ts_reserved := True, ts_pendingID := i\<rparr>) (v x') \<and> (q = Inr () \<longrightarrow> settled_here x')"
proof -
  let ?r = "fl_anchor (v x)"
  have "held ?r (v (peers su x))" by (rule apart_held [OF apart_peers assms(2) _ assms(3,4)]) (simp add: held_def)
  note f = finish_reach [OF assms(1) apart_ok [OF apart_peers assms(2)] this assms(3,4)]
  then have "node_ok me (st\<lparr>ts_reserved := True, ts_pendingID := i\<rparr>) (v x')"
    using assms(3-6) unfolding node_ok_def by (auto intro!: exI [of _ ?r])
  then show ?thesis using f reach_trans [OF reach_peers] by blast
qed

lemma settleOnce_peer:
  assumes "ta_PendingEpoch (fl_anchor (v x)) = Some e" "fleet_ok (v x)"
    and "(case check_trust su e (ta_PendingID (fl_anchor (v x))) (peers su x) of
        (Inr _, x2) \<Rightarrow> convergeFence su b e (ta_PendingID (fl_anchor (v x))) x2
      | (Inl _, x2) \<Rightarrow> recoverPendingTrust su b (fl_anchor (v x)) e (rv_of (fl_version (v x))) x2) = (q, x')"
  shows "apart x x' \<and> (q = Inr () \<longrightarrow> settled_here x')"
proof -
  obtain c y where ch: "check_trust su e (ta_PendingID (fl_anchor (v x))) (peers su x) = (c, y)" by fastforce
  have y: "apart x y" using check_apart [of "peers su x" e] ch by (metis apart_peers apart_trans snd_conv)
  show ?thesis
  proof (cases c)
    case (Inr u)
    then have "convergeFence su b e (ta_PendingID (fl_anchor (v x))) y = (q, x')" using assms(3) ch by simp
    from converge_apart [OF this apart_ok [OF y assms(2)]] show ?thesis using y by (blast intro: apart_trans)
  next
    case (Inl f)
    then have "recoverPendingTrust su b (fl_anchor (v x)) e (rv_of (fl_version (v x))) y = (q, x')" using assms(3) ch by simp
    from recover_apart [OF this y assms(2,1)] show ?thesis using y by (blast intro: apart_trans)
  qed
qed

lemma settleOnce_reserved:
  assumes "finishTrustStartup su b (peers su x) = (q, x')" "fleet_ok (v x)" "node_ok me st (v x)" "ts_reserved st"
  shows "apart x x' \<and> (q = Inr () \<longrightarrow> settled_here x')"
proof -
  have ap: "apart (peers su x) x'" using finishStartup_apart [of "peers su x" b] assms(1) by simp
  have "settled_here x'" if "q = Inr ()"
  proof -
    have n: "node_ok me st (v (peers su x))" and ok: "fleet_ok (v (peers su x))" using apart_node [OF apart_peers assms(2,3)] apart_ok [OF apart_peers assms(2)] by simp_all
    note f = finishStartup_pair [OF assms(1) [unfolded that]]
    obtain r where r: "ta_PendingID r = ts_attempted st" "ta_PendingEpoch r \<noteq> None" "held r (v (peers su x))"
      using n assms(4) by (auto simp: node_ok_def)
    then have "fl_request (v (peers su x)) (ts_attempted st) \<noteq> None" using f by (auto simp: held_def)
    from settled_later [OF apart_reach [OF ap] used_settled [OF ok this]] show ?thesis .
  qed
  then show ?thesis using apart_trans [OF apart_peers ap] by blast
qed

lemma settleOnce_follow:
  assumes "(if behind then seq (catchUpMigration su y) (\<lambda>_. finishTrustStartup su b) else finishTrustStartup su b y) = (q, x')"
    and "migrationPending su x = (Inr behind, y)"
  shows "apart x x' \<and> (q = Inr () \<longrightarrow> settled_here x')"
proof -
  have y: "apart x y" using pending_apart [of x] assms(2) by simp
  have main: "apart x x' \<and> (q = Inr () \<longrightarrow> settled_here x')" if "finishTrustStartup su b z = (q, x')" "apart x z" "fl_migrated (v z)" for z
  proof -
    have ap: "apart z x'" using finishStartup_apart [of z b] that(1) by simp
    then have "fl_migrated (v x')" using growsD(1) [OF apart_grows] that(3) by blast
    then show ?thesis using apart_trans [OF that(2) ap] finishStartup_pair [of b z "()" x'] that(1) by (auto simp: settled_here_def)
  qed
  show ?thesis
  proof (cases behind)
    case False
    then show ?thesis using assms y main [of y] pending_done [of x y] by auto
  next
    case True
    obtain c z where c: "catchUpMigration su y = (c, z)" by fastforce
    have z: "apart x z" using y catchUp_apart [of y] c by (auto intro: apart_trans)
    show ?thesis
    proof (cases c)
      case (Inr u)
      then show ?thesis using assms(1) True c main [OF _ z] catchUp_done [of y u z] by (simp add: seq_def)
    qed (use assms(1) True c z in \<open>auto simp: seq_def\<close>)
  qed
qed

lemma settleOnce_reach:
  assumes "settleTrustAnchorOnce su b st x = (q, st', x')" "fleet_ok (v x)" "node_ok me st (v x)"
  shows "reach x x' \<and> node_ok me st' (v x') \<and> (q = Inr () \<longrightarrow> settled_here x')"
proof -
  obtain g x1 where g: "anchor_read su b x = (g, x1)" by fastforce
  note run = assms(1) [unfolded settleTrustAnchorOnce_def g]
  show ?thesis
  proof (cases g)
    case (Inl e)
    then show ?thesis using run via_apart [OF _ assms(2,3)] anchor_read_apart [of x b] g by auto
  next
    case (Inr cr)
    then obtain r rv where gr: "g = Inr (r, rv)" by (cases cr) auto
    have now: "r = fl_anchor (v x)" "rv = rv_of (fl_version (v x))" "x1 = peers su x" using anchor_read_Inr g gr by auto
    have ok1: "fleet_ok (v x1)" and n1: "node_ok me st (v x1)" using now(3) apart_ok [OF apart_peers assms(2)] apart_node [OF apart_peers assms(2,3)] by simp_all
    show ?thesis
    proof (cases "ta_PendingEpoch r")
      case (Some e)
      show ?thesis
      proof (cases "ts_attempted st \<noteq> '''' \<and> ta_PendingID r = ts_attempted st")
        case True
        then have "finishMigrationFence su b (fl_anchor (v x)) (peers su x) = (q, x')" "st' = st\<lparr>ts_reserved := True, ts_pendingID := ta_PendingID r\<rparr>"
          using run gr Some now by (auto split: prod.splits)
        moreover have "me (ta_PendingID (fl_anchor (v x)))" using True assms(3) now by (simp add: node_ok_def)
        ultimately show ?thesis using settleOnce_own [OF _ assms(2), of b q x' st] True Some now by simp
      next
        case False
        then have s: "st' = st" "(case check_trust su e (ta_PendingID (fl_anchor (v x))) (peers su x) of
            (Inr _, x2) \<Rightarrow> convergeFence su b e (ta_PendingID (fl_anchor (v x))) x2
          | (Inl _, x2) \<Rightarrow> recoverPendingTrust su b (fl_anchor (v x)) e (rv_of (fl_version (v x))) x2) = (q, x')"
          using run gr Some now by (auto split: prod.splits sum.splits)
        have "ta_PendingEpoch (fl_anchor (v x)) = Some e" using Some now by simp
        from settleOnce_peer [OF this assms(2) s(2)] show ?thesis using s(1) via_apart [OF _ assms(2,3)] by blast
      qed
    next
      case None
      show ?thesis
      proof (cases "ts_reserved st")
        case True
        then have "finishTrustStartup su b (peers su x) = (q, x')" "st' = st" using run gr None now by (auto split: prod.splits)
        then show ?thesis using settleOnce_reserved [OF _ assms(2,3) True] via_apart [OF _ assms(2,3)] by blast
      next
        case False
        obtain c x2 where mp: "migrationPending su x1 = (c, x2)" by fastforce
        have x2: "apart x x2" using pending_apart [of x1] mp now(3) by (metis apart_peers apart_trans snd_conv)
        show ?thesis
        proof (cases c)
          case (Inl e)
          then show ?thesis using run gr None False mp via_apart [OF x2 assms(2,3)] by auto
        next
          case (Inr behind)
          show ?thesis
          proof (cases "behind \<and> ta_Bootstrap r")
            case True
            obtain cb st1 x3 where be: "beginMigrationFence su b r rv st x2 = (cb, st1, x3)" by (metis prod_cases3)
            note b = begin_reach [OF be [unfolded now(1,2)] x2 assms(2,3) False]
            have x3: "reach x x3" using reach_trans [OF apart_reach [OF x2]] b by blast
            show ?thesis
            proof (cases cb)
              case (Inl e)
              then show ?thesis using run gr None False mp Inr True be x3 b by auto
            next
              case (Inr res)
              then have fi: "finishMigrationFence su b res x3 = (q, x')" "st' = st1"
                using run gr None False mp \<open>c = Inr behind\<close> True be by (auto split: prod.splits)
              have res: "me (ta_PendingID res)" "ta_PendingEpoch res \<noteq> None" "held res (v x3)" using b Inr by auto
              note f = finish_reach [OF fi(1) reach_ok [OF x3 assms(2)] res(3,1,2)]
              have "node_ok me st1 (v x')" using begin_node [OF be [unfolded Inr]] b f by blast
              then show ?thesis using f fi(2) reach_trans [OF x3] by blast
            qed
          next
            case nb: False
            then have s: "st' = st" "(if behind then seq (catchUpMigration su x2) (\<lambda>_. finishTrustStartup su b) else finishTrustStartup su b x2) = (q, x')"
              using run gr None False mp Inr by (auto split: prod.splits if_splits)
            from settleOnce_follow [OF s(2) mp [unfolded Inr]] have "apart x1 x' \<and> (q = Inr () \<longrightarrow> settled_here x')" .
            then show ?thesis using s(1) now(3) via_apart [OF _ assms(2,3)] apart_trans [OF apart_peers] by blast
          qed
        qed
      qed
    qed
  qed
qed

lemma settle_reach_loop:
  assumes "settleTrustAnchor su b n st x = (q, st', x')" "fleet_ok (v x)" "node_ok me st (v x)"
  shows "reach x x' \<and> node_ok me st' (v x') \<and> (q = Inr () \<longrightarrow> settled_here x')"
  using assms
proof (induction n arbitrary: st x)
  case 0
  obtain c st1 x1 where o: "settleTrustAnchorOnce su b st x = (c, st1, x1)" by (metis prod_cases3)
  have "st' = st1" "x' = x1" "q = Inr () \<longrightarrow> c = Inr ()"
    using 0(1) unfolding settleTrustAnchor.simps [of su b 0] o by (auto split: sum.splits)
  then show ?case using settleOnce_reach [OF o 0(2,3)] by blast
next
  case (Suc n)
  obtain c st1 x1 where o: "settleTrustAnchorOnce su b st x = (c, st1, x1)" by (metis prod_cases3)
  note once = settleOnce_reach [OF o Suc(3,4)]
  show ?case
  proof (cases c)
    case (Inr u)
    then show ?thesis using Suc(2) o once unfolding settleTrustAnchor.simps [of su b "Suc n"] by auto
  next
    case (Inl e)
    then have run: "settleTrustAnchor su b n st1 (peers su x1) = (q, st', x')"
      using Suc(2) o unfolding settleTrustAnchor.simps [of su b "Suc n"] by simp
    have ok1: "fleet_ok (v x1)" using reach_ok once Suc(3) by blast
    from Suc(1) [OF run apart_ok [OF apart_peers ok1] apart_node [OF apart_peers ok1]] once
    show ?thesis using reach_trans reach_peers by blast
  qed
qed

end

end
