(* ===== verification/Fleet_Responsive.thy ===== *)
theory Fleet_Responsive
  imports Fleet_Startup
begin

section \<open>Settlement when the services answer\<close>

text \<open>
  \<open>startup_fleet\<close> bounds what a call may do; here is what it does when the services answer and the other nodes
  rest (\<open>calm\<close>).  Then one attempt of settlement returns successfully, from every state of the fleet except the
  one where the database has not decided the pending request: there settlement waits.
\<close>

locale responsive_fleet = startup_fleet su v rv_of me
  for su :: "('x, 'tr, 'rc) startup_env" and v :: "'x \<Rightarrow> ('tr, 'rc) fleet" and rv_of :: "nat \<Rightarrow> string" and me :: "string \<Rightarrow> bool" +
  fixes calm :: "'x \<Rightarrow> bool"
  assumes calm_peers: "calm x \<Longrightarrow> peers su x = x"
    and calm_get: "calm x \<Longrightarrow> e_get (su_env su) x = Inr (fl_anchor (v x), rv_of (fl_version (v x)))"
    and calm_cas: "calm x \<Longrightarrow> \<exists>x'. e_cas (su_env su) (rv_of (fl_version (v x))) r x = (Inr (rv_of (Suc (fl_version (v x)))), x') \<and>
      v x' = landed r (sent (fl_version (v x)) r (v x)) \<and> calm x'"
    and calm_trust: "calm x \<Longrightarrow> e_query_trust (su_env su) x = Inr (case fl_pair (v x) of None \<Rightarrow> [] | Some p \<Rightarrow> [p])"
    and calm_tables: "calm x \<Longrightarrow> \<exists>ts. su_tables su x = Inr ts \<and>
      length (filter (\<lambda>t. t \<in> set [''ternal_schema'']) ts) = (if fl_migrated (v x) then 1 else 0) \<and>
      (\<not> fl_migrated (v x) \<longrightarrow> length (filter (\<lambda>t. t \<in> set legacy_tables) ts) = 0)"
    and calm_versions: "calm x \<Longrightarrow> fl_migrated (v x) \<Longrightarrow> su_versions su x = Inr [schemaVersion]"
    and calm_migrate: "calm x \<Longrightarrow> \<exists>x'. su_migrate su x = (None, x') \<and> v x' = (v x)\<lparr>fl_migrated := True\<rparr> \<and> calm x'"
    and calm_uuid: "calm x \<Longrightarrow> e_uuid (su_env su) x = (uid, x') \<Longrightarrow> calm x'"
    and calm_valid: "e_validate (su_env su) req" "su_bootstrap_valid su uid"
    and calm_boot: "calm x \<Longrightarrow> fl_pair (v x) = None \<Longrightarrow> \<exists>p x'. su_bootstrap su uid q x = (p, x') \<and> committedResponse p = Inr p \<and>
      v x' = (booted q (v x))\<lparr>fl_pair := Some q\<rparr> \<and> calm x'"
    and calm_status: "calm x \<Longrightarrow> su_status su uid x =
      Inr (case fl_request (v x) uid of Some Committed \<Rightarrow> MutationCommitted | Some Rejected \<Rightarrow> MutationRejected | _ \<Rightarrow> MutationOther)"
    and calm_exec: "calm x \<Longrightarrow> fl_request (v x) uid = None \<Longrightarrow> fl_pair (v x) = Some old \<Longrightarrow>
      \<exists>p x'. e_exec (su_env su) \<lparr>rq_ID = uid, rq_Statements = [], rq_Tail = Some (old, new)\<rparr> x = (p, x') \<and> committedResponse p = Inr p \<and>
        v x' = (v x)\<lparr>fl_pair := Some new, fl_request := (fl_request (v x))(uid \<mapsto> Committed)\<rparr> \<and> calm x'"
begin

lemma seq_done [simp]: "seq (Inr a, x) k = k a x" "seq (Inl e, x) k = (Inl e, x)"
  by (simp_all add: seq_def)

lemma check_now:
  assumes "calm x"
  shows "check_trust su e tok x = (if fl_pair (v x) = Some (e, tok) then Inr () else case fl_pair (v x) of None \<Rightarrow> Inl (SDb ErrTrustMissing) | Some _ \<Rightarrow> Inl (SDb ErrTrustMismatch), x)"
  using calm_trust [OF assms] calm_peers [OF assms]
  by (cases "fl_pair (v x)") (auto simp: check_trust_def verifyDBTrust_def split: prod.splits)

lemma read_now:
  assumes "calm x" "validate (e_ops (su_env su)) b (fl_anchor (v x))"
  shows "anchor_read su b x = (Inr (fl_anchor (v x), rv_of (fl_version (v x))), x)"
  using assms calm_get calm_peers by (simp add: anchor_read_def db_read_def anchor_get_def)

lemma write_now:
  assumes "calm x" "validate (e_ops (su_env su)) b r"
  shows "\<exists>x'. anchor_write su b (rv_of (fl_version (v x))) r x = (Inr (), x') \<and> v x' = landed r (sent (fl_version (v x)) r (v x)) \<and> calm x'"
proof -
  obtain x' where "e_cas (su_env su) (rv_of (fl_version (v x))) r x = (Inr (rv_of (Suc (fl_version (v x)))), x')"
      "v x' = landed r (sent (fl_version (v x)) r (v x))" "calm x'" using calm_cas [OF assms(1)] by blast
  then show ?thesis using assms(2) calm_peers [of x'] by (simp add: anchor_write_def anchor_cas_def)
qed

lemma exists_now:
  assumes "calm x"
  shows "trustStateExists su x = (Inr (fl_pair (v x) \<noteq> None), x)"
    "tableExists su ''ternal_schema'' x = (Inr (fl_migrated (v x)), x)"
    "countTables su [''ternal_schema''] x = (Inr (if fl_migrated (v x) then 1 else 0), x)"
    "\<exists>n. countTables su legacy_tables x = (Inr n, x) \<and> (\<not> fl_migrated (v x) \<longrightarrow> n = 0)"
proof -
  obtain ts where ts: "su_tables su x = Inr ts" "length (filter (\<lambda>t. t \<in> set [''ternal_schema'']) ts) = (if fl_migrated (v x) then 1 else 0)"
    "\<not> fl_migrated (v x) \<longrightarrow> length (filter (\<lambda>t. t \<in> set legacy_tables) ts) = 0" using calm_tables [OF assms] by blast
  note p = calm_peers [OF assms]
  show "trustStateExists su x = (Inr (fl_pair (v x) \<noteq> None), x)"
    using ts(1) p tables_ok [OF ts(1)] by (simp add: trustStateExists_def tableExists_def countTables_def db_read_def)
  show c: "countTables su [''ternal_schema''] x = (Inr (if fl_migrated (v x) then 1 else 0), x)"
    using ts(1,2) p by (simp add: countTables_def db_read_def)
  then show "tableExists su ''ternal_schema'' x = (Inr (fl_migrated (v x)), x)" by (simp add: tableExists_def)
  show "\<exists>n. countTables su legacy_tables x = (Inr n, x) \<and> (\<not> fl_migrated (v x) \<longrightarrow> n = 0)"
    using ts(1,3) p by (simp add: countTables_def db_read_def)
qed

lemma marker_now:
  assumes "calm x"
  shows "migrationPending su x = (Inr (\<not> fl_migrated (v x)), x)"
    "fl_migrated (v x) \<Longrightarrow> requireMigrated su x = (Inr (), x)"
  using exists_now(2) [OF assms] calm_versions [OF assms] calm_peers [OF assms]
  by (auto simp: migrationPending_def requireMigrated_def schemaMarker_def db_read_def schemaVersion_def)

lemma migrate_now:
  assumes "calm x"
  shows "\<exists>x'. migrate su x = (Inr (), x') \<and> v x' = (v x)\<lparr>fl_migrated := True\<rparr> \<and> calm x'"
proof -
  obtain x' where m: "su_migrate su x = (None, x')" "v x' = (v x)\<lparr>fl_migrated := True\<rparr>" "calm x'" using calm_migrate [OF assms] by blast
  have mi: "Migrate su x = (None, x')" using m calm_peers [OF m(3)] by (simp add: Migrate_def retryRhizaStartup.simps)
  obtain n where "countTables su legacy_tables x = (Inr n, x)" "\<not> fl_migrated (v x) \<longrightarrow> n = 0" using exists_now(4) [OF assms] by blast
  then have "migrate su x = requireMigrated su x'" using exists_now(3) [OF assms] mi by (auto simp: migrate_def)
  then show ?thesis using marker_now(2) [OF m(3)] m by simp
qed

lemma catchUp_now:
  assumes "calm x"
  shows "\<exists>x'. catchUpMigration su x = (Inr (), x') \<and> v x' = (v x)\<lparr>fl_migrated := True\<rparr> \<and> calm x'"
proof (cases "fl_migrated (v x)")
  case True
  then show ?thesis using marker_now [OF assms] assms by (auto simp: catchUpMigration_def)
next
  case False
  obtain x' where m: "migrate su x = (Inr (), x')" "v x' = (v x)\<lparr>fl_migrated := True\<rparr>" "calm x'" using migrate_now [OF assms] by blast
  then show ?thesis using marker_now(1) [OF assms] marker_now(2) [OF m(3)] False by (simp add: catchUpMigration_def)
qed

text \<open>What settlement establishes: nothing is pending, and the database carries the anchor's pair.\<close>

definition settled :: "binding \<Rightarrow> 'x \<Rightarrow> bool" where
  "settled b x \<longleftrightarrow> calm x \<and> validate (e_ops (su_env su)) b (fl_anchor (v x)) \<and> fl_migrated (v x) \<and>
     ta_PendingEpoch (fl_anchor (v x)) = None \<and> fl_pair (v x) = Some (anchor_pair (fl_anchor (v x)))"

lemma finishStartup_now:
  assumes "settled b x"
  shows "finishTrustStartup su b x = (Inr (), x)"
  using assms read_now [of x b] check_now [of x] by (simp add: settled_def finishTrustStartup_def anchor_pair_def)

lemma pending_uuid: "validate ops b r \<Longrightarrow> ta_PendingEpoch r = Some e \<Longrightarrow> validUUID (ta_PendingID r) \<and> e = ta_Epoch r + 1 \<and> 0 \<le> e"
  by (auto simp: validate_def validateStructure_def)

lemma finalize_pending: "pending_pair (finalize e uid r) = None" "ta_PendingEpoch (finalize e uid r) = None" "ta_PendingEpoch (clear_pending r) = None"
  by (simp_all add: finalize_def clear_pending_def pending_pair_def)

lemma finalizeFence_now:
  assumes "calm x" "validate (e_ops (su_env su)) b (fl_anchor (v x))" "ta_PendingEpoch (fl_anchor (v x)) = Some e"
    and "fl_pair (v x) = Some (e, ta_PendingID (fl_anchor (v x)))" "fl_migrated (v x)"
  shows "\<exists>x'. finalizeTrustFence su b e (ta_PendingID (fl_anchor (v x))) x = (Inr (), x') \<and> settled b x'"
proof -
  let ?r = "fl_anchor (v x)"
  let ?f = "finalize e (ta_PendingID ?r) ?r"
  have val: "validate (e_ops (su_env su)) b ?f"
    using validate_finalize [OF assms(2), of "ta_PendingID ?r" e] pending_uuid [OF assms(2,3)] by simp
  obtain x' where w: "anchor_write su b (rv_of (fl_version (v x))) ?f x = (Inr (), x')" "v x' = landed ?f (sent (fl_version (v x)) ?f (v x))" "calm x'"
    using write_now [OF assms(1) val] by blast
  have "settled b x'" using w val assms(4,5) by (simp add: settled_def finalize_pending)
  then show ?thesis using w read_now [OF assms(1,2)] check_now [OF assms(1)] marker_now(2) [OF assms(1,5)] assms(3,4)
    by (simp add: finalizeTrustFence_def)
qed

lemma converge_now:
  assumes "calm x" "validate (e_ops (su_env su)) b (fl_anchor (v x))" "ta_PendingEpoch (fl_anchor (v x)) = Some e"
    and "fl_pair (v x) = Some (e, ta_PendingID (fl_anchor (v x)))"
  shows "\<exists>x'. convergeFence su b e (ta_PendingID (fl_anchor (v x))) x = (Inr (), x') \<and> settled b x'"
proof -
  obtain y where c: "catchUpMigration su x = (Inr (), y)" "v y = (v x)\<lparr>fl_migrated := True\<rparr>" "calm y" using catchUp_now [OF assms(1)] by blast
  then show ?thesis using finalizeFence_now [OF c(3), of b e] assms(2-4) by (simp add: convergeFence_def)
qed

lemma recover_now:
  assumes "calm x" "validate (e_ops (su_env su)) b (fl_anchor (v x))" "ta_PendingEpoch (fl_anchor (v x)) = Some e"
    and "fl_request (v x) (ta_PendingID (fl_anchor (v x))) = Some Rejected" "fl_pair (v x) = Some (anchor_pair (fl_anchor (v x)))" "fl_migrated (v x)"
  shows "\<exists>x'. recoverPendingTrust su b (fl_anchor (v x)) e (rv_of (fl_version (v x))) x = (Inr (), x') \<and> settled b x'"
proof -
  let ?f = "clear_pending (fl_anchor (v x))"
  have val: "validate (e_ops (su_env su)) b ?f" by (rule validate_clear [OF assms(2)])
  obtain x' where w: "anchor_write su b (rv_of (fl_version (v x))) ?f x = (Inr (), x')" "v x' = landed ?f (sent (fl_version (v x)) ?f (v x))" "calm x'"
    using write_now [OF assms(1) val] by blast
  have "settled b x'" using w val assms(5,6) by (simp add: settled_def finalize_pending)
  then show ?thesis using w check_now [OF assms(1)] calm_status [OF assms(1)] calm_peers [OF assms(1)] assms(4,5)
    by (simp add: recoverPendingTrust_def db_read_def anchor_pair_def)
qed

text \<open>A pending request that the database has not decided is left alone.\<close>

lemma recover_waits:
  assumes "calm x" "fl_request (v x) (ta_PendingID r) \<notin> {Some Committed, Some Rejected}"
  shows "recoverPendingTrust su b r e rv x = (Inl SPendingWrite, x)"
proof -
  have "su_status su (ta_PendingID r) x = Inr MutationOther"
    using assms calm_status [OF assms(1)] by (auto split: option.splits request_state.splits)
  then show ?thesis using calm_peers [OF assms(1)] by (simp add: recoverPendingTrust_def db_read_def)
qed

text \<open>The fence of a migration.\<close>

lemma prepare_now:
  assumes "calm x" "fl_pair (v x) = Some (anchor_pair r) \<or> (fl_pair (v x) = None \<and> ta_Bootstrap r)"
  shows "\<exists>x'. prepareMigrationTrustState su r x = (Inr (), x') \<and> calm x' \<and> fl_pair (v x') = Some (anchor_pair r) \<and>
    fl_anchor (v x') = fl_anchor (v x) \<and> fl_request (v x') = fl_request (v x)"
proof (cases "fl_pair (v x)")
  case (Some p)
  then show ?thesis using assms exists_now(1) [OF assms(1)] check_now [OF assms(1)]
    by (simp add: prepareMigrationTrustState_def anchor_pair_def)
next
  case None
  obtain uid x1 where u: "e_uuid (su_env su) x = (uid, x1)" by fastforce
  have c1: "calm x1" and v1: "v x1 = v x" using calm_uuid [OF assms(1) u] uuid_ok [OF u] by auto
  obtain p x2 where b: "su_bootstrap su uid (anchor_pair r) x1 = (p, x2)" "committedResponse p = Inr p"
      "v x2 = (booted (anchor_pair r) (v x1))\<lparr>fl_pair := Some (anchor_pair r)\<rparr>" "calm x2"
    using calm_boot [OF c1, of uid "anchor_pair r"] None v1 by auto
  then show ?thesis using None assms(2) exists_now(1) [OF assms(1)] u v1 calm_valid(2) calm_peers [OF b(4)] check_now [OF b(4)]
    by (simp add: prepareMigrationTrustState_def booted_def anchor_pair_def)
qed

lemma complete_now:
  assumes "calm x" "validate (e_ops (su_env su)) b (fl_anchor (v x))" "ta_PendingEpoch (fl_anchor (v x)) = Some e"
    and "fl_request (v x) (ta_PendingID (fl_anchor (v x))) = None" "fl_pair (v x) = Some (anchor_pair (fl_anchor (v x)))" "fl_migrated (v x)"
  shows "\<exists>x'. completeMigrationFence su b (fl_anchor (v x)) x = (Inr (), x') \<and> settled b x'"
proof -
  let ?id = "ta_PendingID (fl_anchor (v x))"
  obtain p y where ex: "e_exec (su_env su) (fence_request (fl_anchor (v x)) e ?id) x = (p, y)" "committedResponse p = Inr p"
      and y: "v y = (v x)\<lparr>fl_pair := Some (e, ?id), fl_request := (fl_request (v x))(?id \<mapsto> Committed)\<rparr>" "calm y"
    using calm_exec [OF assms(1,4,5), of "(e, ?id)"] unfolding fence_request_def by blast
  have "\<exists>x'. finalizeTrustFence su b e ?id y = (Inr (), x') \<and> settled b x'"
    using finalizeFence_now [OF y(2), of b e] y(1) assms(2,3,6) by simp
  then show ?thesis using ex assms(3) calm_valid(1) calm_peers [OF y(2)] by (simp add: completeMigrationFence_def execRaw_def Let_def)
qed

lemma finish_now:
  assumes "calm x" "validate (e_ops (su_env su)) b (fl_anchor (v x))" "ta_PendingEpoch (fl_anchor (v x)) = Some e"
    and "fl_request (v x) (ta_PendingID (fl_anchor (v x))) = None"
    and "fl_pair (v x) = Some (anchor_pair (fl_anchor (v x))) \<or> (fl_pair (v x) = None \<and> ta_Bootstrap (fl_anchor (v x)))"
  shows "\<exists>x'. finishMigrationFence su b (fl_anchor (v x)) x = (Inr (), x') \<and> settled b x'"
proof -
  let ?r = "fl_anchor (v x)"
  obtain x1 where p: "prepareMigrationTrustState su ?r x = (Inr (), x1)" "calm x1" "fl_pair (v x1) = Some (anchor_pair ?r)"
    "fl_anchor (v x1) = ?r" "fl_request (v x1) = fl_request (v x)" using prepare_now [OF assms(1,5)] by blast
  obtain x2 where m: "migrate su x1 = (Inr (), x2)" "v x2 = (v x1)\<lparr>fl_migrated := True\<rparr>" "calm x2" using migrate_now [OF p(2)] by blast
  have "\<exists>x'. completeMigrationFence su b ?r x2 = (Inr (), x') \<and> settled b x'"
    using complete_now [OF m(3), of b e] m(2) p assms(2-4) by simp
  moreover have "fl_pair (v x) \<noteq> Some (e, ta_PendingID ?r)" using assms(5) pending_uuid [OF assms(2,3)] by (auto simp: anchor_pair_def)
  then have "\<exists>err. check_trust su e (ta_PendingID ?r) x = (Inl err, x)" using check_now [OF assms(1)] by (cases "fl_pair (v x)") auto
  ultimately show ?thesis using assms(3) p(1) m(1) by (auto simp: finishMigrationFence_def)
qed

lemma begin_now:
  assumes "calm x" "validate (e_ops (su_env su)) b (fl_anchor (v x))" "ta_PendingEpoch (fl_anchor (v x)) = None" "ta_Bootstrap (fl_anchor (v x))"
    and "fl_pair (v x) \<in> {None, Some (anchor_pair (fl_anchor (v x)))}" "ts_attempted st = ''''" "validUUID (fst (e_uuid (su_env su) x))"
  shows "\<exists>st' x'. beginMigrationFence su b (fl_anchor (v x)) (rv_of (fl_version (v x))) st x = (Inr (fl_anchor (v x')), st', x') \<and> calm x' \<and>
    validate (e_ops (su_env su)) b (fl_anchor (v x')) \<and> ta_PendingEpoch (fl_anchor (v x')) = Some (ta_Epoch (fl_anchor (v x)) + 1) \<and>
    fl_request (v x') (ta_PendingID (fl_anchor (v x'))) = None \<and> anchor_pair (fl_anchor (v x')) = anchor_pair (fl_anchor (v x)) \<and>
    fl_pair (v x') = fl_pair (v x) \<and> ta_Bootstrap (fl_anchor (v x'))"
proof -
  let ?r = "fl_anchor (v x)"
  obtain uid x1 where u: "e_uuid (su_env su) x = (uid, x1)" by fastforce
  have c1: "calm x1" "validUUID uid" and v1: "v x1 = v x" and f: "fl_request (v x) uid = None" using calm_uuid [OF assms(1) u] uuid_ok [OF u] assms(7) u by auto
  let ?p = "reserve (ta_Epoch ?r + 1) uid ?r"
  have val: "validate (e_ops (su_env su)) b ?p" by (rule validate_reserve [OF assms(2) c1(2)])
  obtain x2 where w: "anchor_write su b (rv_of (fl_version (v x))) ?p x1 = (Inr (), x2)" "v x2 = landed ?p (sent (fl_version (v x)) ?p (v x))" "calm x2"
    using write_now [OF c1(1) val] v1 by auto
  have "seq (trustStateExists su x) (\<lambda>ex x. if ex then check_trust su (ta_Epoch ?r) (ta_Token ?r) x else (Inr (), x)) = (Inr (), x)"
    using exists_now(1) [OF assms(1)] check_now [OF assms(1)] assms(5) by (auto simp: anchor_pair_def)
  then have "beginMigrationFence su b ?r (rv_of (fl_version (v x))) st x = (Inr ?p, st\<lparr>ts_attempted := uid, ts_reserved := True, ts_pendingID := uid\<rparr>, x2)"
    using assms(3,4,6) u w(1) calm_valid(1) by (simp add: beginMigrationFence_def Let_def)
  then show ?thesis using w(2,3) val f assms(4) by (auto simp: reserve_def anchor_pair_def)
qed

text \<open>One attempt settles.\<close>

definition decided :: "'x \<Rightarrow> bool" where
  "decided x \<longleftrightarrow> ta_PendingEpoch (fl_anchor (v x)) = None \<or> fl_request (v x) (ta_PendingID (fl_anchor (v x))) \<in> {Some Committed, Some Rejected}"

lemma pending_now: "ta_PendingEpoch r = Some e \<Longrightarrow> pending_pair r = Some (e, ta_PendingID r)"
  by (simp add: pending_pair_def)

lemma once_pending:
  assumes "calm x" "validate (e_ops (su_env su)) b (fl_anchor (v x))" "fleet_ok (v x)" "ta_PendingEpoch (fl_anchor (v x)) = Some e" "decided x" "ts_attempted st = ''''"
  shows "\<exists>x'. settleTrustAnchorOnce su b st x = (Inr (), st, x') \<and> settled b x'"
proof -
  let ?r = "fl_anchor (v x)"
  note pf = pending_facts [OF _ pending_now [OF assms(4)]] and rd = read_now [OF assms(1,2)]
  have ok: "requests_ok (v x)" "on_pair (v x)" using assms(3) by (simp_all add: fleet_ok_def)
  show ?thesis
  proof (cases "fl_pair (v x) = Some (e, ta_PendingID ?r)")
    case True
    then show ?thesis using converge_now [OF assms(1,2,4)] check_now [OF assms(1)] rd assms(4,6) by (auto simp: settleTrustAnchorOnce_def)
  next
    case False
    then have rej: "fl_request (v x) (ta_PendingID ?r) = Some Rejected" using assms(4,5) pf [OF ok(1)] by (auto simp: decided_def)
    then have "fl_request (v x) \<noteq> Map.empty" by auto
    then have mig: "fl_migrated (v x)" "fl_pair (v x) \<noteq> None" using ok(1) unfolding requests_ok_def by blast+
    then have pair: "fl_pair (v x) = Some (anchor_pair ?r)" using ok(2) False pending_now [OF assms(4)] by (auto simp: on_pair_def)
    have "\<exists>err. check_trust su e (ta_PendingID ?r) x = (Inl err, x)" using check_now [OF assms(1)] False by (cases "fl_pair (v x)") auto
    then show ?thesis using recover_now [OF assms(1,2,4) rej pair mig(1)] rd assms(4,6) by (auto simp: settleTrustAnchorOnce_def)
  qed
qed

lemma once_idle:
  assumes "calm x" "validate (e_ops (su_env su)) b (fl_anchor (v x))" "fleet_ok (v x)" "ta_PendingEpoch (fl_anchor (v x)) = None"
    and "fl_pair (v x) = None \<Longrightarrow> \<not> fl_migrated (v x)" "ts_attempted st = ''''" "\<not> ts_reserved st" "validUUID (fst (e_uuid (su_env su) x))"
  shows "\<exists>st' x'. settleTrustAnchorOnce su b st x = (Inr (), st', x') \<and> settled b x'"
proof -
  let ?r = "fl_anchor (v x)"
  have on: "fl_pair (v x) = Some (anchor_pair ?r) \<or> fl_pair (v x) = None \<and> ta_Bootstrap ?r"
    using assms(3,4) by (auto simp: fleet_ok_def on_pair_def pending_None)
  note rd = read_now [OF assms(1,2)] and mk = marker_now(1) [OF assms(1)]
  show ?thesis
  proof (cases "fl_migrated (v x)")
    case True
    then have "settled b x" using assms on by (auto simp: settled_def)
    then show ?thesis using finishStartup_now [of b x] rd mk True assms(4,6,7) by (simp add: settleTrustAnchorOnce_def)
  next
    case behind: False
    show ?thesis
    proof (cases "ta_Bootstrap ?r")
      case True
      obtain st1 x1 where b: "beginMigrationFence su b ?r (rv_of (fl_version (v x))) st x = (Inr (fl_anchor (v x1)), st1, x1)" "calm x1"
          "validate (e_ops (su_env su)) b (fl_anchor (v x1))" "ta_PendingEpoch (fl_anchor (v x1)) = Some (ta_Epoch ?r + 1)"
          "fl_request (v x1) (ta_PendingID (fl_anchor (v x1))) = None" "anchor_pair (fl_anchor (v x1)) = anchor_pair ?r"
          "fl_pair (v x1) = fl_pair (v x)" "ta_Bootstrap (fl_anchor (v x1))"
        using begin_now [OF assms(1,2,4) True _ assms(6,8)] on by auto
      then show ?thesis using finish_now [OF b(2-5)] on rd mk behind True assms(4,7) by (auto simp: settleTrustAnchorOnce_def)
    next
      case False
      obtain y where c: "catchUpMigration su x = (Inr (), y)" "v y = (v x)\<lparr>fl_migrated := True\<rparr>" "calm y" using catchUp_now [OF assms(1)] by blast
      then have "settled b y" using assms(2,4) on False by (auto simp: settled_def)
      then show ?thesis using finishStartup_now [of b y] c rd mk behind False assms(4,7) by (auto simp: settleTrustAnchorOnce_def)
    qed
  qed
qed

lemma once_settles:
  assumes "calm x" "validate (e_ops (su_env su)) b (fl_anchor (v x))" "fleet_ok (v x)" "decided x"
    and "fl_pair (v x) = None \<Longrightarrow> \<not> fl_migrated (v x)" "ts_attempted st = ''''" "\<not> ts_reserved st" "validUUID (fst (e_uuid (su_env su) x))"
  shows "\<exists>st' x'. settleTrustAnchor su b n st x = (Inr (), st', x') \<and> settled b x'"
proof -
  obtain st' x' where "settleTrustAnchorOnce su b st x = (Inr (), st', x')" "settled b x'"
    using once_pending [OF assms(1-3) _ assms(4,6)] once_idle [OF assms(1-3) _ assms(5-8)] by (cases "ta_PendingEpoch (fl_anchor (v x))") blast+
  then show ?thesis by (simp add: settleTrustAnchor.simps [of su b n])
qed

text \<open>With an undecided request every attempt fails and changes nothing, however often it is made.\<close>

lemma settle_waits_for:
  assumes "calm x" "validate (e_ops (su_env su)) b (fl_anchor (v x))" "fleet_ok (v x)" "\<not> decided x" "ts_attempted st = ''''"
  shows "settleTrustAnchor su b n st x = (Inl SContextDone, st, x)"
proof -
  let ?r = "fl_anchor (v x)"
  obtain e where e: "ta_PendingEpoch ?r = Some e" using assms(4) by (auto simp: decided_def)
  have un: "fl_request (v x) (ta_PendingID ?r) \<notin> {Some Committed, Some Rejected}" using assms(4) by (simp add: decided_def)
  then have "fl_pair (v x) \<noteq> Some (e, ta_PendingID ?r)"
    using pending_facts [OF _ pending_now [OF e]] assms(3) by (auto simp: fleet_ok_def)
  then have "\<exists>err. check_trust su e (ta_PendingID ?r) x = (Inl err, x)" using check_now [OF assms(1)] by (cases "fl_pair (v x)") auto
  then have once: "settleTrustAnchorOnce su b st x = (Inl SPendingWrite, st, x)"
    using read_now [OF assms(1,2)] e assms(5) recover_waits [OF assms(1) un] by (auto simp: settleTrustAnchorOnce_def)
  show ?thesis by (induction n) (simp_all add: settleTrustAnchor.simps [of su b] once calm_peers [OF assms(1)])
qed

end

end
