(* ===== verification/Fleet_Process.thy ===== *)
theory Fleet_Process
  imports Fleet_Startup
begin

section \<open>A process of the fleet\<close>

text \<open>
  The life of one server process: it opens its store, settlement may go on in the background, requests
  write through the store's connection, the other nodes act, and at any moment the process may stop and
  start again without its memory.  A stop in the middle of an operation needs no rule of its own: the
  calls that it still had to make are calls without an effect, which the contract of the environment allows.
\<close>

datatype node = Down | Up open_store "trustStartup option"

inductive node_step ::
    "('x, 'tr, 'rc) startup_env \<Rightarrow> binding \<Rightarrow> node \<times> 'x \<Rightarrow> node \<times> 'x \<Rightarrow> bool" for su b where
  start: "open_trust su (Some b) n x = (Inr (s, bg), x') \<Longrightarrow> node_step su b (Down, x) (Up s bg, x')"
| start_fails: "open_trust su (Some b) n x = (Inl e, x') \<Longrightarrow> node_step su b (Down, x) (Down, x')"
| background: "settleInBackground su b n st s x = (s', x') \<Longrightarrow> node_step su b (Up s (Some st), x) (Up s' None, x')"
| write_tx: "ExecTransactionResult (su_env su) (os_db s) ss x = (q, x') \<Longrightarrow> node_step su b (Up s bg, x) (Up s bg, x')"
| others: "node_step su b (nd, x) (nd, peers su x)"
| stop: "node_step su b (nd, x) (Down, x)"

definition fresh_startup :: trustStartup where
  "fresh_startup = \<lparr>ts_attempted = '''', ts_reserved = False, ts_pendingID = ''''\<rparr>"

lemma step_epoch: "fleet_step U s s' \<Longrightarrow> fleet_ok s \<Longrightarrow> ta_Epoch (fl_anchor s) \<le> ta_Epoch (fl_anchor s')"
proof (induction rule: fleet_step.induct)
  case (land r)
  then have "legal (\<lambda>_. True) s r" and r: "requests_ok s" by (auto simp: fleet_ok_def flight_ok_def)
  then show ?case using pending_facts [OF r] by (auto simp: legal_def)
qed simp_all

lemma steps_epoch: "(fleet_step U)\<^sup>*\<^sup>* s s' \<Longrightarrow> fleet_ok s \<Longrightarrow> ta_Epoch (fl_anchor s) \<le> ta_Epoch (fl_anchor s')"
proof (induction rule: rtranclp_induct)
  case (step y z)
  then show ?case using step_epoch [OF step(2)] fleet_steps_ok [OF step(1)] by fastforce
qed simp

text \<open>A fresh \<^verbatim>\<open>Open\<close>, in terms of settlement.\<close>

lemma open_trust_anchor:
  "open_trust su (Some b) n x =
     (case settleTrustAnchor su b n fresh_startup x of
        (Inr _, st, x') \<Rightarrow> (Inr (\<lparr>os_db = \<lparr>rz_trust = Some b, rz_trustRequired = True\<rparr>, os_trustNeeded = False, os_trustSettled = False\<rparr>, None), x')
      | (Inl e, st, x') \<Rightarrow> (Inr (\<lparr>os_db = \<lparr>rz_trust = None, rz_trustRequired = True\<rparr>, os_trustNeeded = True, os_trustSettled = False\<rparr>, Some st), x'))"
  by (simp add: open_trust_def fresh_startup_def)

definition store_ok :: "binding \<Rightarrow> open_store \<Rightarrow> bool" where
  "store_ok b s \<longleftrightarrow> rz_trustRequired (os_db s) \<and> rz_trust (os_db s) \<in> {None, Some b} \<and> (trustReady s \<longleftrightarrow> rz_trust (os_db s) = Some b)"

context startup_fleet
begin

definition proc_ok :: "binding \<Rightarrow> node \<times> 'x \<Rightarrow> bool" where
  "proc_ok b c \<longleftrightarrow> fleet_ok (v (snd c)) \<and>
     (case fst c of
        Down \<Rightarrow> True
      | Up s bg \<Rightarrow> store_ok b s \<and> (trustReady s \<longrightarrow> settled_here (snd c)) \<and>
          (case bg of None \<Rightarrow> True | Some st \<Rightarrow> \<not> trustReady s \<and> os_trustNeeded s \<and> node_ok me st (v (snd c))))"

lemma node_fresh: "node_ok me fresh_startup s"
  by (simp add: node_ok_def fresh_startup_def)

lemma proc_start:
  assumes "open_trust su (Some b) n x = (r, x')" "fleet_ok (v x)"
  shows "reach x x' \<and> (\<exists>s bg. r = Inr (s, bg) \<and> proc_ok b (Up s bg, x'))"
proof -
  obtain q st y where s: "settleTrustAnchor su b n fresh_startup x = (q, st, y)" by (metis prod_cases3)
  note f = settle_reach_loop [OF s assms(2) node_fresh]
  have ok: "fleet_ok (v y)" using f reach_ok assms(2) by blast
  show ?thesis using assms(1) s f ok
    by (cases q) (auto simp: open_trust_anchor proc_ok_def store_ok_def trustReady_def)
qed

lemma proc_background:
  assumes "settleInBackground su b n st s x = (s', x')" "proc_ok b (Up s (Some st), x)"
  shows "reach x x' \<and> proc_ok b (Up s' None, x')"
proof -
  obtain q st' y where r: "settleTrustAnchor su b n st x = (q, st', y)" by (metis prod_cases3)
  have "fleet_ok (v x)" "node_ok me st (v x)" using assms(2) by (simp_all add: proc_ok_def)
  note f = settle_reach_loop [OF r this]
  have ok: "fleet_ok (v y)" using f reach_ok assms(2) by (auto simp: proc_ok_def)
  show ?thesis using assms r f ok
    by (cases q) (auto simp: settleInBackground_def proc_ok_def store_ok_def trustReady_def)
qed

lemma proc_write:
  assumes "ExecTransactionResult (su_env su) (os_db s) ss x = (q, x')" "proc_ok b (Up s bg, x)"
  shows "reach x x' \<and> proc_ok b (Up s bg, x')"
proof (cases "ss = [] \<or> rz_trust (os_db s) = None")
  case True
  then show ?thesis using assms by (auto simp: ExecTransactionResult_def proc_ok_def store_ok_def split: if_splits option.splits)
next
  case False
  then have b: "rz_trust (os_db s) = Some b" and ready: "trustReady s" using assms(2) by (auto simp: proc_ok_def store_ok_def)
  have "reach x x'"
    using execute_reach [of b ss x q x'] assms False b ready by (auto simp: ExecTransactionResult_def proc_ok_def settled_here_def)
  then show ?thesis using assms(2) ready reach_ok settled_later by (auto simp: proc_ok_def split: option.splits)
qed

lemma proc_others:
  assumes "proc_ok b (nd, x)"
  shows "proc_ok b (nd, peers su x)"
  using assms apart_ok [OF apart_peers] apart_node [OF apart_peers] settled_later [OF apart_reach [OF apart_peers]]
  by (auto simp: proc_ok_def split: node.splits option.splits)

lemma proc_step:
  assumes "node_step su b c c'" "proc_ok b c"
  shows "reach (snd c) (snd c') \<and> proc_ok b c'"
  using assms
proof (induction rule: node_step.induct)
  case (start n x s bg x')
  then show ?case using proc_start [OF start(1)] by (simp add: proc_ok_def)
next
  case (start_fails n x e x')
  then show ?case using proc_start [OF start_fails(1)] by (simp add: proc_ok_def)
next
  case (background n st s x s' x')
  then show ?case using proc_background by simp
next
  case (write_tx s ss x q x' bg)
  then show ?case using proc_write by simp
next
  case (others nd x)
  then show ?case using proc_others by simp
next
  case (stop nd x)
  then show ?case by (simp add: proc_ok_def)
qed

lemma proc_steps:
  assumes "(node_step su b)\<^sup>*\<^sup>* c c'" "proc_ok b c"
  shows "reach (snd c) (snd c') \<and> proc_ok b c'"
  using assms(1)
proof (induction rule: rtranclp_induct)
  case base
  then show ?case using assms(2) by simp
next
  case (step y z)
  then show ?case using proc_step [OF step(2)] reach_trans by blast
qed

end

end
