(* ===== verification/Reference_Fleet.thy ===== *)
theory Reference_Fleet
  imports Fleet_Responsive Fleet_Process Reference_Env "HOL-Library.AList"
begin

section \<open>A reference fleet\<close>

text \<open>
  A concrete anchor store and database for \<open>startup_fleet\<close>: scripts decide which calls are served, lost or
  refused, and what a peer does between the calls of this process: nothing, decide the open request, or
  publish the pending pair once the database carries it.
\<close>

datatype peer = Idle | Decide | Publish

record fworld =
  fw_pair :: "(int \<times> string) option"
  fw_anchor :: "(nat, nat) trustAnchorRecord"
  fw_version :: nat
  fw_flight :: "(nat \<times> (nat, nat) trustAnchorRecord) list"
  fw_requests :: "(string \<times> request_state) list"
  fw_boot :: "(int \<times> string) list"
  fw_migrated :: bool
  fw_ids :: nat
  fw_script :: "fault list"
  fw_peers :: "peer list"

definition fview :: "fworld \<Rightarrow> (nat, nat) fleet" where
  "fview x = \<lparr>fl_pair = fw_pair x, fl_anchor = fw_anchor x, fl_version = fw_version x, fl_flight = set (fw_flight x),
     fl_request = map_of (fw_requests x), fl_boot = set (fw_boot x), fl_migrated = fw_migrated x\<rparr>"

lemma fview_simps [simp]:
  "fl_pair (fview x) = fw_pair x" "fl_anchor (fview x) = fw_anchor x" "fl_version (fview x) = fw_version x"
  "fl_flight (fview x) = set (fw_flight x)" "fl_request (fview x) = map_of (fw_requests x)"
  "fl_boot (fview x) = set (fw_boot x)" "fl_migrated (fview x) = fw_migrated x"
  by (simp_all add: fview_def)

lemma fview_update [simp]:
  "fview (x\<lparr>fw_pair := a\<rparr>) = (fview x)\<lparr>fl_pair := a\<rparr>"
  "fview (x\<lparr>fw_anchor := r\<rparr>) = (fview x)\<lparr>fl_anchor := r\<rparr>"
  "fview (x\<lparr>fw_version := n\<rparr>) = (fview x)\<lparr>fl_version := n\<rparr>"
  "fview (x\<lparr>fw_flight := fs\<rparr>) = (fview x)\<lparr>fl_flight := set fs\<rparr>"
  "fview (x\<lparr>fw_requests := rs\<rparr>) = (fview x)\<lparr>fl_request := map_of rs\<rparr>"
  "fview (x\<lparr>fw_boot := bs\<rparr>) = (fview x)\<lparr>fl_boot := set bs\<rparr>"
  "fview (x\<lparr>fw_migrated := m\<rparr>) = (fview x)\<lparr>fl_migrated := m\<rparr>"
  "fview (x\<lparr>fw_ids := i\<rparr>) = fview x" "fview (x\<lparr>fw_script := sc\<rparr>) = fview x" "fview (x\<lparr>fw_peers := ps\<rparr>) = fview x"
  by (simp_all add: fview_def)

definition pop_fault :: "fworld \<Rightarrow> fault \<times> fworld" where
  "pop_fault x = (case fw_script x of [] \<Rightarrow> (Served, x) | f # fs \<Rightarrow> (f, x\<lparr>fw_script := fs\<rparr>))"

text \<open>The decision on a request: it commits when its expected pair is the database's.\<close>

definition decide :: "string \<Rightarrow> fworld \<Rightarrow> fworld" where
  "decide uid x =
     (case map_of (fw_requests x) uid of
        Some (Open a b) \<Rightarrow>
          if fw_pair x = Some a then x\<lparr>fw_pair := Some b, fw_requests := AList.update uid Committed (fw_requests x)\<rparr>
          else x\<lparr>fw_requests := AList.update uid Rejected (fw_requests x)\<rparr>
      | _ \<Rightarrow> x)"

definition fcas :: "string \<Rightarrow> (nat, nat) trustAnchorRecord \<Rightarrow> fworld \<Rightarrow> (db_error + string) \<times> fworld" where
  "fcas rv r x0 =
     (case pop_fault x0 of (f, x) \<Rightarrow>
        if f = Refused \<or> rv \<noteq> FormatUint (fw_version x) then (Inl ErrAnchorUpdate, x)
        else let x' = x\<lparr>fw_flight := (fw_version x, r) # fw_flight x, fw_anchor := r, fw_version := Suc (fw_version x)\<rparr> in
          if f = Served then (Inr (FormatUint (fw_version x')), x') else (Inl ErrAnchorUpdate, x'))"

definition no_answer :: exec_response where
  "no_answer = \<lparr>rs_Status = MutationOther, rs_Err = Some ErrCommitUnknown, rs_RowsAffected = 0, rs_Statements = []\<rparr>"

definition fexec :: "exec_request \<Rightarrow> fworld \<Rightarrow> exec_response \<times> fworld" where
  "fexec req x0 =
     (case pop_fault x0 of (f, x) \<Rightarrow>
        (case rq_Tail req of
           None \<Rightarrow> (no_answer, x)
         | Some (old, new) \<Rightarrow>
             if f = Refused then (no_answer, x)
             else let x1 = (if map_of (fw_requests x) (rq_ID req) = None then x\<lparr>fw_requests := AList.update (rq_ID req) (Open old new) (fw_requests x)\<rparr> else x);
                      x2 = decide (rq_ID req) x1 in
               (if f = ResponseLost then no_answer
                else case map_of (fw_requests x2) (rq_ID req) of
                  Some Committed \<Rightarrow> \<lparr>rs_Status = MutationCommitted, rs_Err = None, rs_RowsAffected = 1, rs_Statements = [1]\<rparr>
                | Some Rejected \<Rightarrow> \<lparr>rs_Status = MutationRejected, rs_Err = None, rs_RowsAffected = 0, rs_Statements = []\<rparr>
                | _ \<Rightarrow> no_answer, x2)))"

text \<open>A fresh identifier; the second one is longer than all the used ones.\<close>

definition fuuid :: "fworld \<Rightarrow> string \<times> fworld" where
  "fuuid x = ((let u = ref_uuid (fw_ids x) in if map_of (fw_requests x) u = None then u else ''x'' @ concat (map fst (fw_requests x))),
     x\<lparr>fw_ids := Suc (fw_ids x)\<rparr>)"

definition fpeers :: "fworld \<Rightarrow> fworld" where
  "fpeers x =
     (case fw_peers x of
        [] \<Rightarrow> x
      | p # ps \<Rightarrow>
          let y = x\<lparr>fw_peers := ps\<rparr> in
          (case (p, ta_PendingEpoch (fw_anchor x)) of
             (Decide, Some e) \<Rightarrow> decide (ta_PendingID (fw_anchor x)) y
           | (Publish, Some e) \<Rightarrow>
               let r = finalize e (ta_PendingID (fw_anchor x)) (fw_anchor x) in
               if fw_pair x = Some (e, ta_PendingID (fw_anchor x))
               then y\<lparr>fw_flight := (fw_version x, r) # fw_flight x, fw_anchor := r, fw_version := Suc (fw_version x)\<rparr> else y
           | _ \<Rightarrow> y))"

definition fleet_base :: "(fworld, nat, nat) env" where
  "fleet_base = \<lparr>e_get = (\<lambda>x. Inr (fw_anchor x, FormatUint (fw_version x))), e_cas = fcas, e_exec = fexec,
     e_query = (\<lambda>x. Inl ErrEngine), e_query_trust = (\<lambda>x. Inr (case fw_pair x of None \<Rightarrow> [] | Some p \<Rightarrow> [p])),
     e_validate = (\<lambda>_. True), e_uuid = fuuid, e_lock = (\<lambda>_. True), e_ctx = (\<lambda>_. True), e_peers = fpeers,
     e_ops = \<lparr>tr_Generation = id, tr_AnchorID = (\<lambda>_. ''anchor''), rc_Generation = id\<rparr>\<rparr>"

definition fmigrate :: "fworld \<Rightarrow> db_error option \<times> fworld" where
  "fmigrate x0 = (case pop_fault x0 of (f, x) \<Rightarrow>
     if f = Refused then (Some ErrQuorumUnavailable, x)
     else (if f = Served then None else Some ErrCommitUnknown, x\<lparr>fw_migrated := True\<rparr>))"

definition fbootstrap :: "string \<Rightarrow> int \<times> string \<Rightarrow> fworld \<Rightarrow> exec_response \<times> fworld" where
  "fbootstrap uid p x =
     (if fw_pair x = None then
        (\<lparr>rs_Status = MutationCommitted, rs_Err = None, rs_RowsAffected = 1, rs_Statements = [0, 1]\<rparr>, x\<lparr>fw_boot := p # fw_boot x, fw_pair := Some p\<rparr>)
      else (\<lparr>rs_Status = MutationRejected, rs_Err = None, rs_RowsAffected = 0, rs_Statements = []\<rparr>, x\<lparr>fw_boot := p # fw_boot x\<rparr>))"

definition fstatus :: "string \<Rightarrow> fworld \<Rightarrow> db_error + mutation_status" where
  "fstatus uid x = Inr (case map_of (fw_requests x) uid of Some Committed \<Rightarrow> MutationCommitted | Some Rejected \<Rightarrow> MutationRejected | _ \<Rightarrow> MutationOther)"

definition fleet_ref :: "(fworld, nat, nat) startup_env" where
  "fleet_ref = \<lparr>su_env = fleet_base,
     su_tables = (\<lambda>x. Inr ((if fw_pair x \<noteq> None then [''trust_state''] else []) @ (if fw_migrated x then [''ternal_schema'', ''hosts''] else []))),
     su_versions = (\<lambda>x. Inr (if fw_migrated x then [1] else [])), su_migrate = fmigrate, su_retries = 3,
     su_bootstrap_valid = (\<lambda>_. True), su_bootstrap = fbootstrap, su_status = fstatus\<rparr>"

subsection \<open>It meets the contract\<close>

lemma pop_fault_view: "pop_fault x = (f, y) \<Longrightarrow> fview y = fview x \<and> fw_version y = fw_version x \<and> fw_requests y = fw_requests x \<and> fw_pair y = fw_pair x \<and> fw_flight y = fw_flight x"
  by (auto simp: pop_fault_def split: list.splits)

lemma map_of_update [simp]: "map_of (AList.update k a al) = (map_of al)(k \<mapsto> a)"
  by (simp add: update_conv')

lemma decide_step: "decide uid x = x \<or> db_step uid old new (fview x) (fview (decide uid x))"
proof (cases "map_of (fw_requests x) uid")
  case (Some r)
  then show ?thesis
  proof (cases r)
    case (Open a b)
    then have o: "fl_request (fview x) uid = Some (Open a b)" using Some by simp
    show ?thesis using db_step.committed [OF o] db_step.rejected [OF o] Open Some by (auto simp: decide_def)
  qed (use Some in \<open>auto simp: decide_def\<close>)
qed (auto simp: decide_def)

lemma decided: "map_of (fw_requests x) uid \<noteq> None \<Longrightarrow> map_of (fw_requests (decide uid x)) uid \<in> {Some Committed, Some Rejected}"
  by (auto simp: decide_def split: request_state.split)

lemma fexec_spec:
  assumes "fexec \<lparr>rq_ID = uid, rq_Statements = ss, rq_Tail = Some (old, new)\<rparr> x0 = (p, x')"
  shows "(db_step uid old new)\<^sup>*\<^sup>* (fview x0) (fview x') \<and>
    (rs_Err p = None \<longrightarrow> rs_Status p = MutationCommitted \<longrightarrow> fl_request (fview x') uid = Some Committed) \<and>
    (rs_Status p = MutationRejected \<longrightarrow> fl_request (fview x') uid = Some Rejected)"
proof -
  obtain f x where f: "pop_fault x0 = (f, x)" by fastforce
  note v = pop_fault_view [OF f]
  let ?x1 = "if map_of (fw_requests x) uid = None then x\<lparr>fw_requests := AList.update uid (Open old new) (fw_requests x)\<rparr> else x"
  show ?thesis
  proof (cases "f = Refused")
    case True
    then show ?thesis using assms f v by (auto simp: fexec_def no_answer_def)
  next
    case False
    then have x': "x' = decide uid ?x1"
      and p: "p = (if f = ResponseLost then no_answer
        else case map_of (fw_requests x') uid of
               Some Committed \<Rightarrow> \<lparr>rs_Status = MutationCommitted, rs_Err = None, rs_RowsAffected = 1, rs_Statements = [1]\<rparr>
             | Some Rejected \<Rightarrow> \<lparr>rs_Status = MutationRejected, rs_Err = None, rs_RowsAffected = 0, rs_Statements = []\<rparr>
             | _ \<Rightarrow> no_answer)"
      using assms f by (auto simp: fexec_def Let_def cong: if_cong)
    have "(db_step uid old new)\<^sup>*\<^sup>* (fview x) (fview ?x1)"
      using db_step.opened [of "fview x" uid old new] by (auto intro!: r_into_rtranclp)
    also have "(db_step uid old new)\<^sup>*\<^sup>* (fview ?x1) (fview (decide uid ?x1))"
      using decide_step [of uid ?x1 old new] by (rule disjE) (simp only: rtranclp.rtrancl_refl, rule r_into_rtranclp)
    finally have steps: "(db_step uid old new)\<^sup>*\<^sup>* (fview x) (fview x')" unfolding x' .
    have "map_of (fw_requests x') uid \<in> {Some Committed, Some Rejected}" unfolding x' by (rule decided) simp
    then consider "map_of (fw_requests x') uid = Some Committed" | "map_of (fw_requests x') uid = Some Rejected" by blast
    then have "(rs_Err p = None \<longrightarrow> rs_Status p = MutationCommitted \<longrightarrow> fl_request (fview x') uid = Some Committed) \<and>
      (rs_Status p = MutationRejected \<longrightarrow> fl_request (fview x') uid = Some Rejected)"
      by cases (simp_all add: p no_answer_def)
    then show ?thesis using steps v by metis
  qed
qed

lemma fcas_spec:
  assumes "fcas (FormatUint n) r x = (q, x')"
  shows "(fview x' \<in> {fview x, sent n r (fview x)} \<and> (\<exists>e. q = Inl e)) \<or>
    (n = fl_version (fview x) \<and> fview x' = landed r (sent n r (fview x)) \<and> (q = Inr (FormatUint (fl_version (fview x'))) \<or> (\<exists>e. q = Inl e)))"
proof -
  obtain f y where f: "pop_fault x = (f, y)" by fastforce
  note v = pop_fault_view [OF f]
  have n: "FormatUint n = FormatUint (fw_version y) \<longleftrightarrow> n = fw_version y" using FormatUint_inj by blast
  show ?thesis
  proof (cases "f = Refused \<or> n \<noteq> fw_version y")
    case True
    then show ?thesis using assms f v n by (auto simp: fcas_def)
  next
    case False
    then show ?thesis using assms f v n by (auto simp: fcas_def Let_def landed_def sent_def split: if_splits)
  qed
qed

lemma fuuid_spec: "fuuid x = (uid, x') \<Longrightarrow> uid \<noteq> '''' \<and> fl_request (fview x) uid = None \<and> fview x' = fview x"
proof -
  have "map_of rs (''x'' @ concat (map fst rs)) = None" for rs :: "(string \<times> request_state) list"
  proof -
    have "length k \<le> length (concat (map fst rs))" if "k \<in> fst ` set rs" for k
      using that by (induction rs) (force simp: trans_le_add2)+
    then show ?thesis by (force simp: map_of_eq_None_iff)
  qed
  moreover have "ref_uuid (fw_ids x) \<noteq> ''''" by (simp add: ref_uuid_def)
  moreover assume "fuuid x = (uid, x')"
  ultimately show "uid \<noteq> '''' \<and> fl_request (fview x) uid = None \<and> fview x' = fview x"
    by (cases "map_of (fw_requests x) (ref_uuid (fw_ids x))") (auto simp: fuuid_def Let_def)
qed

lemma fpeers_spec:
  shows "(fleet_step (\<lambda>u. False))\<^sup>*\<^sup>* (fview x) (fview (fpeers x))"
proof -
  have d: "(fleet_step (\<lambda>u. False))\<^sup>*\<^sup>* (fview y) (fview (decide u y))" for u y
  proof (cases "map_of (fw_requests y) u")
    case (Some r)
    then show ?thesis
    proof (cases r)
      case (Open a b)
      then have o: "fl_request (fview y) u = Some (Open a b)" using Some by simp
      show ?thesis using fleet_step.commit [OF o] fleet_step.reject [OF o] Open Some by (auto simp: decide_def intro!: r_into_rtranclp)
    qed (use Some in \<open>auto simp: decide_def\<close>)
  qed (auto simp: decide_def)
  have p: "(fleet_step (\<lambda>u. False))\<^sup>*\<^sup>* (fview x) (landed r (sent (fw_version x) r (fview x)))"
    if "r = finalize e (ta_PendingID (fw_anchor x)) (fw_anchor x)" "ta_PendingEpoch (fw_anchor x) = Some e" "fw_pair x = Some (e, ta_PendingID (fw_anchor x))" for r e
  proof -
    have "legal (\<lambda>u. False) (fview x) r" using that by (auto simp: legal_def pending_pair_def)
    then have "fleet_step (\<lambda>u. False) (fview x) (sent (fw_version x) r (fview x))"
      unfolding sent_def by (intro fleet_step.send) (simp_all add:)
    moreover have "fleet_step (\<lambda>u. False) (sent (fw_version x) r (fview x)) (landed r (sent (fw_version x) r (fview x)))"
      unfolding landed_def by (rule fleet_step.land) (simp add: sent_def)
    ultimately show ?thesis by simp
  qed
  show ?thesis
  proof (cases "fw_peers x")
    case Nil
    then show ?thesis by (simp add: fpeers_def)
  next
    case (Cons m ps)
    let ?y = "x\<lparr>fw_peers := ps\<rparr>"
    have y: "fview ?y = fview x" by simp
    show ?thesis
    proof (cases "ta_PendingEpoch (fw_anchor x)")
      case None
      then show ?thesis using Cons y by (cases m) (simp_all add: fpeers_def Let_def)
    next
      case (Some e)
      show ?thesis
      proof (cases m)
        case Decide
        then show ?thesis using Cons Some d [of ?y "ta_PendingID (fw_anchor x)"] y by (simp add: fpeers_def Let_def)
      next
        case Publish
        then show ?thesis using Cons Some y p [OF refl Some] by (auto simp: fpeers_def Let_def landed_def sent_def)
      qed (use Cons Some y in \<open>simp add: fpeers_def Let_def\<close>)
    qed
  qed
qed

interpretation rf: startup_fleet fleet_ref fview FormatUint "\<lambda>_. True"
proof unfold_locales
  show "FormatUint m = FormatUint n \<Longrightarrow> m = n" for m n by (rule FormatUint_inj)
  show "e_get (su_env fleet_ref) x = Inr (r, rv) \<Longrightarrow> r = fl_anchor (fview x) \<and> rv = FormatUint (fl_version (fview x))" for x r rv
    by (auto simp: fleet_ref_def fleet_base_def)
  show "e_cas (su_env fleet_ref) (FormatUint n) r x = (q, x') \<Longrightarrow> (fview x' \<in> {fview x, sent n r (fview x)} \<and> (\<exists>e. q = Inl e)) \<or>
      (n = fl_version (fview x) \<and> fview x' = landed r (sent n r (fview x)) \<and> (q = Inr (FormatUint (fl_version (fview x'))) \<or> (\<exists>e. q = Inl e)))" for n r x q x'
    by (rule fcas_spec) (simp add: fleet_ref_def fleet_base_def)
  show "e_exec (su_env fleet_ref) \<lparr>rq_ID = uid, rq_Statements = ss, rq_Tail = Some (old, new)\<rparr> x = (p, x') \<Longrightarrow>
      (db_step uid old new)\<^sup>*\<^sup>* (fview x) (fview x') \<and>
      (rs_Err p = None \<longrightarrow> rs_Status p = MutationCommitted \<longrightarrow> fl_request (fview x') uid = Some Committed) \<and>
      (rs_Status p = MutationRejected \<longrightarrow> fl_request (fview x') uid = Some Rejected)" for uid ss old new x p x'
    by (rule fexec_spec) (simp add: fleet_ref_def fleet_base_def)
  show "e_query_trust (su_env fleet_ref) x = Inr ps \<Longrightarrow> ps = (case fl_pair (fview x) of None \<Rightarrow> [] | Some p \<Rightarrow> [p])" for x ps
    by (simp add: fleet_ref_def fleet_base_def)
  show "e_uuid (su_env fleet_ref) x = (uid, x') \<Longrightarrow> True \<and> uid \<noteq> '''' \<and> fl_request (fview x) uid = None \<and> fview x' = fview x" for x uid x'
    using fuuid_spec [of x uid x'] by (simp add: fleet_ref_def fleet_base_def)
  show "(fleet_step (\<lambda>u. \<not> True))\<^sup>*\<^sup>* (fview x) (fview (e_peers (su_env fleet_ref) x))" for x
    using fpeers_spec [of x] by (simp add: fleet_ref_def fleet_base_def)
  show "su_tables fleet_ref x = Inr ts \<Longrightarrow> length (filter (\<lambda>t. t \<in> set [''trust_state'']) ts) = 1 \<longleftrightarrow> fl_pair (fview x) \<noteq> None" for x ts
    by (auto simp: fleet_ref_def split: if_splits)
  show "su_versions fleet_ref x = Inr [schemaVersion] \<Longrightarrow> fl_migrated (fview x)" for x
    by (auto simp: fleet_ref_def split: if_splits)
  show "su_migrate fleet_ref x = (q, x') \<Longrightarrow> fview x' \<in> {fview x, (fview x)\<lparr>fl_migrated := True\<rparr>}" for x q x'
    by (auto simp: fleet_ref_def fmigrate_def pop_fault_def split: list.splits if_splits prod.splits)
  show "su_bootstrap fleet_ref uid p x = (res, x') \<Longrightarrow> fview x' \<in> {fview x, booted p (fview x)} \<or>
      (fl_pair (fview x) = None \<and> fview x' = (booted p (fview x))\<lparr>fl_pair := Some p\<rparr>)" for uid p x res x'
    by (auto simp: fleet_ref_def fbootstrap_def booted_def split: if_splits)
  show "su_status fleet_ref uid x = Inr MutationCommitted \<Longrightarrow> fl_request (fview x) uid = Some Committed" for uid x
    by (auto simp: fleet_ref_def fstatus_def split: option.splits request_state.splits)
  show "su_status fleet_ref uid x = Inr MutationRejected \<Longrightarrow> fl_request (fview x) uid = Some Rejected" for uid x
    by (auto simp: fleet_ref_def fstatus_def split: option.splits request_state.splits)
qed

subsection \<open>When its scripts are over\<close>

definition fcalm :: "fworld \<Rightarrow> bool" where
  "fcalm x \<longleftrightarrow> fw_script x = [] \<and> fw_peers x = []"

lemma pop_calm: "fcalm x \<Longrightarrow> pop_fault x = (Served, x)"
  by (simp add: fcalm_def pop_fault_def)

lemma fcalm_update [simp]: "fcalm (x\<lparr>fw_pair := a\<rparr>) = fcalm x" "fcalm (x\<lparr>fw_anchor := r\<rparr>) = fcalm x" "fcalm (x\<lparr>fw_version := n\<rparr>) = fcalm x"
  "fcalm (x\<lparr>fw_flight := fl\<rparr>) = fcalm x" "fcalm (x\<lparr>fw_requests := rs\<rparr>) = fcalm x" "fcalm (x\<lparr>fw_boot := bs\<rparr>) = fcalm x"
  "fcalm (x\<lparr>fw_migrated := m\<rparr>) = fcalm x" "fcalm (x\<lparr>fw_ids := i\<rparr>) = fcalm x"
  by (simp_all add: fcalm_def)

lemma fexec_calm:
  assumes "fcalm x" "fl_request (fview x) uid = None" "fl_pair (fview x) = Some old"
  shows "fexec \<lparr>rq_ID = uid, rq_Statements = [], rq_Tail = Some (old, new)\<rparr> x =
    (\<lparr>rs_Status = MutationCommitted, rs_Err = None, rs_RowsAffected = 1, rs_Statements = [1]\<rparr>,
     x\<lparr>fw_requests := AList.update uid Committed (AList.update uid (Open old new) (fw_requests x)), fw_pair := Some new\<rparr>)"
  using assms pop_calm [OF assms(1)] by (simp add: fexec_def decide_def Let_def)

interpretation rc: responsive_fleet fleet_ref fview FormatUint "\<lambda>_. True" fcalm
proof unfold_locales
  show "fcalm x \<Longrightarrow> peers fleet_ref x = x" for x by (simp add: fcalm_def fleet_ref_def fleet_base_def fpeers_def)
  show "fcalm x \<Longrightarrow> e_get (su_env fleet_ref) x = Inr (fl_anchor (fview x), FormatUint (fl_version (fview x)))" for x
    by (simp add: fleet_ref_def fleet_base_def)
  show "fcalm x \<Longrightarrow> \<exists>x'. e_cas (su_env fleet_ref) (FormatUint (fl_version (fview x))) r x = (Inr (FormatUint (Suc (fl_version (fview x)))), x') \<and>
      fview x' = landed r (sent (fl_version (fview x)) r (fview x)) \<and> fcalm x'" for x r
    using pop_calm [of x] by (simp add: fleet_ref_def fleet_base_def fcas_def Let_def landed_def sent_def)
  show "fcalm x \<Longrightarrow> e_query_trust (su_env fleet_ref) x = Inr (case fl_pair (fview x) of None \<Rightarrow> [] | Some p \<Rightarrow> [p])" for x
    by (simp add: fleet_ref_def fleet_base_def)
  show "fcalm x \<Longrightarrow> \<exists>ts. su_tables fleet_ref x = Inr ts \<and>
      length (filter (\<lambda>t. t \<in> set [''ternal_schema'']) ts) = (if fl_migrated (fview x) then 1 else 0) \<and>
      (\<not> fl_migrated (fview x) \<longrightarrow> length (filter (\<lambda>t. t \<in> set legacy_tables) ts) = 0)" for x
    by (simp add: fleet_ref_def legacy_tables_def)
  show "fcalm x \<Longrightarrow> fl_migrated (fview x) \<Longrightarrow> su_versions fleet_ref x = Inr [schemaVersion]" for x
    by (simp add: fleet_ref_def schemaVersion_def)
  show "fcalm x \<Longrightarrow> \<exists>x'. su_migrate fleet_ref x = (None, x') \<and> fview x' = (fview x)\<lparr>fl_migrated := True\<rparr> \<and> fcalm x'" for x
    using pop_calm [of x] by (simp add: fleet_ref_def fmigrate_def)
  show "fcalm x \<Longrightarrow> e_uuid (su_env fleet_ref) x = (uid, x') \<Longrightarrow> fcalm x'" for x uid x'
    by (auto simp: fleet_ref_def fleet_base_def fuuid_def)
  show "e_validate (su_env fleet_ref) req" "su_bootstrap_valid fleet_ref uid" for req uid
    by (simp_all add: fleet_ref_def fleet_base_def)
  show "fcalm x \<Longrightarrow> fl_pair (fview x) = None \<Longrightarrow> \<exists>p x'. su_bootstrap fleet_ref uid q x = (p, x') \<and> committedResponse p = Inr p \<and>
      fview x' = (booted q (fview x))\<lparr>fl_pair := Some q\<rparr> \<and> fcalm x'" for x uid q
    by (simp add: fleet_ref_def fbootstrap_def booted_def committedResponse_def)
  show "fcalm x \<Longrightarrow> su_status fleet_ref uid x =
      Inr (case fl_request (fview x) uid of Some Committed \<Rightarrow> MutationCommitted | Some Rejected \<Rightarrow> MutationRejected | _ \<Rightarrow> MutationOther)" for x uid
    by (simp add: fleet_ref_def fstatus_def)
  show "fcalm x \<Longrightarrow> fl_request (fview x) uid = None \<Longrightarrow> fl_pair (fview x) = Some old \<Longrightarrow>
      \<exists>p x'. e_exec (su_env fleet_ref) \<lparr>rq_ID = uid, rq_Statements = [], rq_Tail = Some (old, new)\<rparr> x = (p, x') \<and> committedResponse p = Inr p \<and>
        fview x' = (fview x)\<lparr>fl_pair := Some new, fl_request := (fl_request (fview x))(uid \<mapsto> Committed)\<rparr> \<and> fcalm x'" for x uid old new
    using fexec_calm [of x uid old new] by (simp add: fleet_ref_def fleet_base_def committedResponse_def)
qed

end
