(* ===== verification/Fleet_Properties.thy ===== *)
theory Fleet_Properties
  imports Reference_Fleet
begin

section \<open>The fleet of servers: properties\<close>

text \<open>
  What holds of a server process among its peers: nothing that it does, from its first start through any
  number of restarts, takes the database off the anchor's pair; settlement succeeds at once when the
  services answer and the database has decided the pending request; and as long as the database has not,
  settlement waits and the store answers nothing.
\<close>

subsection \<open>Safety\<close>

text \<open>C7. A server process starts, settles in the background, writes and restarts any number of times, while
  its peers do anything that the protocol of the anchor allows and answers of the anchor store and of the
  database get lost.  Then the database always carries the anchor's pair or its pending pair (or nothing yet,
  before the first migration), every open request is the pending one, the anchor's epoch never falls, and a
  store that accepts requests has its schema migrated.\<close>

theorem fleet_safety:
  assumes "startup_fleet su v rv_of me" and "(node_step su b)\<^sup>*\<^sup>* (Down, x) (nd, x')" and "fleet_ok (v x)"
  shows "on_pair (v x') \<and> requests_ok (v x') \<and> flight_ok (v x') \<and> ta_Epoch (fl_anchor (v x)) \<le> ta_Epoch (fl_anchor (v x')) \<and>
    (case nd of Down \<Rightarrow> True | Up s bg \<Rightarrow> trustReady s \<longrightarrow> fl_migrated (v x') \<and> fl_pair (v x') \<noteq> None)"
proof -
  note sf = assms(1)
  have "startup_fleet.proc_ok v me b (Down, x)" using assms(3) by (simp add: startup_fleet.proc_ok_def [OF sf])
  then have "fleet_env.reach v x x' \<and> startup_fleet.proc_ok v me b (nd, x')"
    using startup_fleet.proc_steps [OF sf assms(2)] by simp
  moreover have fe: "fleet_env (su_env su) v rv_of me" by (rule startup_fleet.axioms(1) [OF sf])
  ultimately show ?thesis using steps_epoch assms(3)
    by (auto simp: startup_fleet.proc_ok_def [OF sf] startup_fleet.settled_here_def [OF sf] fleet_env.reach_def [OF fe] fleet_ok_def split: node.splits)
qed

text \<open>A fresh deployment whose first start loses the answer of its first compare-and-swap while a peer rests,
  and a migrated one.\<close>

definition ref_binding :: binding where
  "ref_binding = \<lparr>bi_ClusterID = ''c'', bi_StorageID = ''s''\<rparr>"

definition new_anchor :: "(nat, nat) trustAnchorRecord" where
  "new_anchor = \<lparr>ta_Format = ''1'', ta_ClusterID = ''c'', ta_StorageID = ''s'', ta_Epoch = 0, ta_Token = ref_uuid 1,
     ta_PendingEpoch = None, ta_PendingID = '''', ta_Bootstrap = True, ta_Generation = 0, ta_Transition = None, ta_Receipt = None\<rparr>"

definition new_fleet :: "fault list \<Rightarrow> fworld" where
  "new_fleet fs = \<lparr>fw_pair = None, fw_anchor = new_anchor, fw_version = 0, fw_flight = [], fw_requests = [], fw_boot = [],
     fw_migrated = False, fw_ids = 2, fw_script = fs, fw_peers = []\<rparr>"

lemma new_fleet_ok: "fleet_ok (fview (new_fleet fs))"
  by (simp add: fleet_ok_defs new_fleet_def new_anchor_def pending_pair_def)

definition first_open :: "(startup_error + open_store \<times> trustStartup option) \<times> fworld" where
  "first_open = open_trust fleet_ref (Some ref_binding) 2 (new_fleet [ResponseLost])"

lemma first_open_ready: "fst first_open =
    Inr (\<lparr>os_db = \<lparr>rz_trust = Some ref_binding, rz_trustRequired = True\<rparr>, os_trustNeeded = False, os_trustSettled = False\<rparr>, None)"
  by code_simp

lemma first_open_epoch: "ta_Epoch (fl_anchor (fview (snd first_open))) = 1 \<and> fl_pair (fview (snd first_open)) = Some (1, ref_uuid 2)"
  by code_simp

lemma first_open_step: "(node_step fleet_ref ref_binding)\<^sup>*\<^sup>* (Down, new_fleet [ResponseLost])
    (Up \<lparr>os_db = \<lparr>rz_trust = Some ref_binding, rz_trustRequired = True\<rparr>, os_trustNeeded = False, os_trustSettled = False\<rparr> None, snd first_open)"
  by (rule r_into_rtranclp, rule node_step.start [of _ _ 2]) (metis first_open_def first_open_ready prod.collapse)

theorem fleet_safety_witness:
  "on_pair (fview (snd first_open)) \<and> fl_migrated (fview (snd first_open)) \<and>
   fl_pair (fview (snd first_open)) = Some (1, ref_uuid 2)"
  using fleet_safety [OF rf.startup_fleet_axioms first_open_step new_fleet_ok] first_open_epoch
  by (simp add: trustReady_def)

subsection \<open>Recovery\<close>

text \<open>C8. When the anchor store and the database answer, the other nodes rest, the database has decided the
  pending request and the fresh request identifier is a valid one, settlement returns successfully at its first attempt
  from every well-formed state of the fleet with a valid anchor, except a database that was migrated
  without ever getting a trust row: a fresh database is migrated under a fence of its own, a fence that a peer
  left behind is finished when its write was committed and cleared when it was rejected.  Afterwards nothing is
  pending, the schema is migrated and the database carries the anchor's pair.  Settlement itself writes
  the trust row before it migrates; the excluded state is that of a database migrated by a process that ran
  without an anchor, whose trust row settlement misses.\<close>

theorem settle_recovers:
  assumes "responsive_fleet su v rv_of me calm" and "calm x" and "validate (e_ops (su_env su)) b (fl_anchor (v x))" and "fleet_ok (v x)"
    and "ta_PendingEpoch (fl_anchor (v x)) = None \<or> fl_request (v x) (ta_PendingID (fl_anchor (v x))) \<in> {Some Committed, Some Rejected}"
    and "fl_pair (v x) = None \<Longrightarrow> \<not> fl_migrated (v x)" and "validUUID (fst (e_uuid (su_env su) x))"
  shows "\<exists>st x'. settleTrustAnchor su b n fresh_startup x = (Inr (), st, x') \<and> ta_PendingEpoch (fl_anchor (v x')) = None \<and>
    fl_migrated (v x') \<and> fl_pair (v x') = Some (anchor_pair (fl_anchor (v x')))"
proof -
  have "responsive_fleet.decided v x" using assms(5) by (simp add: responsive_fleet.decided_def [OF assms(1)])
  then show ?thesis
    using responsive_fleet.once_settles [OF assms(1-4) _ assms(6) _ _ assms(7), of fresh_startup n]
    by (auto simp: responsive_fleet.settled_def [OF assms(1)] fresh_startup_def)
qed

lemma new_fleet_start: "fcalm (new_fleet [])" "validate (e_ops (su_env fleet_ref)) ref_binding (fl_anchor (fview (new_fleet [])))"
  "ta_PendingEpoch (fl_anchor (fview (new_fleet []))) = None" "\<not> fl_migrated (fview (new_fleet []))"
  "validUUID (fst (e_uuid (su_env fleet_ref) (new_fleet [])))"
  by code_simp+

theorem settle_recovers_witness:
  "\<exists>st x'. settleTrustAnchor fleet_ref ref_binding 0 fresh_startup (new_fleet []) = (Inr (), st, x') \<and> fl_migrated (fview x') \<and>
    ta_PendingEpoch (fl_anchor (fview x')) = None"
  using settle_recovers [OF rc.responsive_fleet_axioms new_fleet_start(1,2) new_fleet_ok _ _ new_fleet_start(5), of 0] new_fleet_start(3,4)
  by blast

text \<open>C9. As long as the database has not decided the pending request of another process, settlement fails at
  every attempt and changes nothing, however often it retries.  The store that \<^verbatim>\<open>Open\<close> returns then is not
  ready: every transaction and every query is answered with an error, and no call reaches the database.\<close>

theorem unsettled_fails_closed:
  assumes "responsive_fleet su v rv_of me calm" and "calm x" and "validate (e_ops (su_env su)) b (fl_anchor (v x))" and "fleet_ok (v x)"
    and "ta_PendingEpoch (fl_anchor (v x)) \<noteq> None" and "fl_request (v x) (ta_PendingID (fl_anchor (v x))) \<notin> {Some Committed, Some Rejected}"
  shows "settleTrustAnchor su b n fresh_startup x = (Inl SContextDone, fresh_startup, x) \<and>
    (\<exists>s. open_trust su (Some b) n x = (Inr (s, Some fresh_startup), x) \<and> \<not> trustReady s \<and>
      ExecTransactionResult (su_env su) (os_db s) ss y = (Inl (if ss = [] then ErrEmptyTransaction else ErrTrustUnsettled), y) \<and>
      QueryContext (su_env su) (os_db s) y y1 y2 y3 = Inl ErrTrustUnsettled)"
proof -
  have "\<not> responsive_fleet.decided v x" using assms(5,6) by (simp add: responsive_fleet.decided_def [OF assms(1)])
  then have st: "settleTrustAnchor su b n fresh_startup x = (Inl SContextDone, fresh_startup, x)"
    using responsive_fleet.settle_waits_for [OF assms(1-4), of fresh_startup n] by (simp add: fresh_startup_def)
  then show ?thesis
    by (simp add: open_trust_anchor trustReady_def ExecTransactionResult_def QueryContext_def)
qed

definition peer_fence :: fworld where
  "peer_fence = \<lparr>fw_pair = Some (4, ref_uuid 1), fw_anchor = new_anchor\<lparr>ta_Epoch := 4, ta_PendingEpoch := Some 5, ta_PendingID := ref_uuid 3, ta_Bootstrap := False\<rparr>,
     fw_version = 9, fw_flight = [], fw_requests = [(ref_uuid 3, Open (4, ref_uuid 1) (5, ref_uuid 3))], fw_boot = [],
     fw_migrated = True, fw_ids = 4, fw_script = [], fw_peers = []\<rparr>"

lemma peer_fence_start: "fcalm peer_fence" "validate (e_ops (su_env fleet_ref)) ref_binding (fl_anchor (fview peer_fence))"
  "ta_PendingEpoch (fl_anchor (fview peer_fence)) \<noteq> None"
  "fl_request (fview peer_fence) (ta_PendingID (fl_anchor (fview peer_fence))) \<notin> {Some Committed, Some Rejected}"
  by code_simp+

lemma peer_fence_ok: "fleet_ok (fview peer_fence)"
  by (auto simp: fleet_ok_defs peer_fence_def new_anchor_def pending_pair_def anchor_pair_def split: if_splits)

theorem unsettled_fails_closed_witness:
  "settleTrustAnchor fleet_ref ref_binding 100 fresh_startup peer_fence = (Inl SContextDone, fresh_startup, peer_fence)"
  using unsettled_fails_closed [OF rc.responsive_fleet_axioms peer_fence_start(1,2) peer_fence_ok peer_fence_start(3,4), of 100]
  by blast

end
