(* ===== verification/Go_Base64.thy ===== *)
theory Go_Base64
  imports Prelude
begin

section \<open>Base64 as in Go's encoding/base64\<close>

text \<open>
  The two encodings the program uses: \<^verbatim>\<open>StdEncoding\<close> (padded) for keys and signatures of devices and
  \<^verbatim>\<open>RawURLEncoding\<close> (unpadded) for session cookies and principal identifiers.  The decoder is Go's:
  carriage returns and line feeds are skipped wherever they stand, the unused bits of the last group
  are ignored, everything else that the encoder cannot produce is refused.
\<close>

datatype b64 = StdEncoding | RawURLEncoding

definition b64_alphabet :: "b64 \<Rightarrow> string" where
  "b64_alphabet e = ''ABCDEFGHIJKLMNOPQRSTUVWXYZabcdefghijklmnopqrstuvwxyz0123456789'' @
     (case e of StdEncoding \<Rightarrow> ''+/'' | RawURLEncoding \<Rightarrow> ''-_'')"

definition b64_char :: "b64 \<Rightarrow> nat \<Rightarrow> char" where
  "b64_char e n = b64_alphabet e ! n"

definition b64_val :: "b64 \<Rightarrow> char \<Rightarrow> nat option" where
  "b64_val e c = map_of (zip (b64_alphabet e) [0..<64]) c"

definition b64_pad :: "b64 \<Rightarrow> nat \<Rightarrow> string" where
  "b64_pad e n = (case e of StdEncoding \<Rightarrow> replicate n CHR ''='' | RawURLEncoding \<Rightarrow> [])"

text \<open>Three bytes as four six-bit groups, and back.\<close>

definition sextets :: "char \<Rightarrow> char \<Rightarrow> char \<Rightarrow> nat \<times> nat \<times> nat \<times> nat" where
  "sextets a b c =
     (of_char a div 4, of_char a mod 4 * 16 + of_char b div 16, of_char b mod 16 * 4 + of_char c div 64, of_char c mod 64)"

definition octets :: "nat \<Rightarrow> nat \<Rightarrow> nat \<Rightarrow> nat \<Rightarrow> char \<times> char \<times> char" where
  "octets p q r t = (char_of (p * 4 + q div 16), char_of (q mod 16 * 16 + r div 4), char_of (r mod 4 * 64 + t))"

fun b64_encode :: "b64 \<Rightarrow> string \<Rightarrow> string" where
  "b64_encode e [] = []"
| "b64_encode e [a] = (case sextets a (CHR 0x00) (CHR 0x00) of (p, q, _, _) \<Rightarrow> [b64_char e p, b64_char e q] @ b64_pad e 2)"
| "b64_encode e [a, b] = (case sextets a b (CHR 0x00) of (p, q, r, _) \<Rightarrow> [b64_char e p, b64_char e q, b64_char e r] @ b64_pad e 1)"
| "b64_encode e (a # b # c # s) =
     (case sextets a b c of (p, q, r, t) \<Rightarrow> [b64_char e p, b64_char e q, b64_char e r, b64_char e t] @ b64_encode e s)"

definition decode2 :: "b64 \<Rightarrow> char \<Rightarrow> char \<Rightarrow> string option" where
  "decode2 e x y = (case (b64_val e x, b64_val e y) of
     (Some p, Some q) \<Rightarrow> (case octets p q 0 0 of (a, _, _) \<Rightarrow> Some [a]) | _ \<Rightarrow> None)"

definition decode3 :: "b64 \<Rightarrow> char \<Rightarrow> char \<Rightarrow> char \<Rightarrow> string option" where
  "decode3 e x y z = (case (b64_val e x, b64_val e y, b64_val e z) of
     (Some p, Some q, Some r) \<Rightarrow> (case octets p q r 0 of (a, b, _) \<Rightarrow> Some [a, b]) | _ \<Rightarrow> None)"

definition decode4 :: "b64 \<Rightarrow> char \<Rightarrow> char \<Rightarrow> char \<Rightarrow> char \<Rightarrow> string option" where
  "decode4 e w x y z = (case (b64_val e w, b64_val e x, b64_val e y, b64_val e z) of
     (Some p, Some q, Some r, Some t) \<Rightarrow> (case octets p q r t of (a, b, c) \<Rightarrow> Some [a, b, c]) | _ \<Rightarrow> None)"

fun b64_groups :: "b64 \<Rightarrow> string \<Rightarrow> string option" where
  "b64_groups e [] = Some []"
| "b64_groups e [w] = None"
| "b64_groups e [w, x] = (if e = RawURLEncoding then decode2 e w x else None)"
| "b64_groups e [w, x, y] = (if e = RawURLEncoding then decode3 e w x y else None)"
| "b64_groups e (w # x # y # z # s) =
     (if e = StdEncoding \<and> s = [] \<and> z = CHR ''='' then
        (if y = CHR ''='' then decode2 e w x else decode3 e w x y)
      else case decode4 e w x y z of
        None \<Rightarrow> None
      | Some bs \<Rightarrow> map_option (append bs) (b64_groups e s))"

definition b64_decode :: "b64 \<Rightarrow> string \<Rightarrow> string option" where
  "b64_decode e s = b64_groups e (filter (\<lambda>c. c \<noteq> CHR 0x0A \<and> c \<noteq> CHR 0x0D) s)"

subsection \<open>Round trip\<close>

lemma b64_alphabet_length [simp]: "length (b64_alphabet e) = 64"
  by (cases e) (simp_all add: b64_alphabet_def)

lemma b64_alphabet_distinct: "distinct (b64_alphabet e)"
  by (cases e) (simp_all only:, code_simp+)

lemma b64_val_char [simp]: "n < 64 \<Longrightarrow> b64_val e (b64_char e n) = Some n"
  using map_of_zip_nth [of "b64_alphabet e" "[0..<64]" n] b64_alphabet_distinct [of e]
  by (simp add: b64_val_def b64_char_def)

lemma b64_char_in: "n < 64 \<Longrightarrow> b64_char e n \<in> set (b64_alphabet e)"
  by (simp add: b64_char_def)

lemma b64_alphabet_plain: "set (b64_alphabet e) \<inter> {CHR ''='', CHR 0x0A, CHR 0x0D, CHR ''.''} = {}"
  by (cases e) (simp_all add: b64_alphabet_def)

lemma b64_char_plain [simp]:
  assumes "n < 64"
  shows "b64_char e n \<noteq> CHR ''=''" "b64_char e n \<noteq> CHR 0x0A" "b64_char e n \<noteq> CHR 0x0D" "b64_char e n \<noteq> CHR ''.''"
  using b64_char_in [OF assms, of e] b64_alphabet_plain [of e] by auto

lemma of_char_bound [simp]: "(of_char c :: nat) < 256"
  using of_char_mod_256 [of c, where 'a = nat] by (metis mod_less_divisor zero_less_numeral)

lemma sextets_bound:
  "sextets a b c = (p, q, r, t) \<Longrightarrow> p < 64 \<and> q < 64 \<and> r < 64 \<and> t < 64"
  using of_char_bound [of a] of_char_bound [of b] of_char_bound [of c]
  by (auto simp: sextets_def simp del: of_char_bound)

lemma sextet_sum: "(n :: nat) < 16 \<Longrightarrow> (m * 16 + n) div 16 = m \<and> (m * 16 + n) mod 16 = n"
  "(n :: nat) < 4 \<Longrightarrow> (m * 4 + n) div 4 = m \<and> (m * 4 + n) mod 4 = n"
  by simp_all

lemma octets_sextets: "sextets a b c = (p, q, r, t) \<Longrightarrow> octets p q r t = (a, b, c)"
proof -
  assume s: "sextets a b c = (p, q, r, t)"
  have lt: "(of_char b :: nat) div 16 < 16" "(of_char c :: nat) div 64 < 4"
    using of_char_bound [of b] of_char_bound [of c] by linarith+
  have eqs: "p = of_char a div 4" "q = of_char a mod 4 * 16 + of_char b div 16"
    "r = of_char b mod 16 * 4 + of_char c div 64" "t = of_char c mod 64" using s by (auto simp: sextets_def)
  have d: "q div 16 = of_char a mod 4" "q mod 16 = of_char b div 16" "r div 4 = of_char b mod 16" "r mod 4 = of_char c div 64"
    unfolding eqs using sextet_sum(1) [OF lt(1), of "of_char a mod 4"] sextet_sum(2) [OF lt(2), of "of_char b mod 16"] by blast+
  have e: "x div 4 * 4 + x mod 4 = x" "x div 16 * 16 + x mod 16 = x" "x div 64 * 64 + x mod 64 = x" for x :: nat
    by presburger+
  show ?thesis unfolding octets_def d eqs(1,4) e by simp
qed

lemma octets_last [simp]: "fst (octets p q r t) = fst (octets p q r' t')"
  "fst (snd (octets p q r t)) = fst (snd (octets p q r t'))"
  by (simp_all add: octets_def)

lemma b64_groups_encode: "b64_groups e (b64_encode e s) = Some s"
proof (induction e s rule: b64_encode.induct)
  case (2 e a)
  obtain p q r t where s: "sextets a (CHR 0x00) (CHR 0x00) = (p, q, r, t)" by (metis prod_cases4)
  have "fst (octets p q 0 0) = a" using octets_sextets [OF s] octets_last(1) [of p q 0 0 r t] by simp
  then show ?case using s sextets_bound [OF s]
    by (cases e) (auto simp: b64_pad_def decode2_def numeral_2_eq_2 split: prod.splits)
next
  case (3 e a b)
  obtain p q r t where s: "sextets a b (CHR 0x00) = (p, q, r, t)" by (metis prod_cases4)
  have "octets p q r 0 = (a, b, snd (snd (octets p q r 0)))"
    using octets_sextets [OF s] octets_last(1) [of p q r 0 r t] octets_last(2) [of p q r 0 t]
    by (metis fst_conv snd_conv prod.collapse)
  then show ?case using s sextets_bound [OF s]
    by (cases e) (auto simp: b64_pad_def decode3_def split: prod.splits)
next
  case (4 e a b c s)
  obtain p q r t where x: "sextets a b c = (p, q, r, t)" by (metis prod_cases4)
  then show ?case using 4 sextets_bound [OF x] octets_sextets [OF x] by (auto simp: decode4_def)
qed simp_all

lemma b64_encode_bytes: "c \<in> set (b64_encode e s) \<Longrightarrow> c \<in> set (b64_alphabet e) \<or> c = CHR ''=''"
proof (induction e s rule: b64_encode.induct)
  case (4 e a b d s)
  obtain p q r t where x: "sextets a b d = (p, q, r, t)" by (metis prod_cases4)
  then show ?case using 4 sextets_bound [OF x] by (auto simp: b64_char_in)
qed (auto simp: b64_pad_def intro: b64_char_in dest!: sextets_bound [OF sym] split: prod.splits b64.splits)

lemma b64_encode_plain: "CHR 0x0A \<notin> set (b64_encode e s)" "CHR 0x0D \<notin> set (b64_encode e s)" "CHR ''.'' \<notin> set (b64_encode e s)"
  using b64_encode_bytes [of _ e s] b64_alphabet_plain [of e] by fastforce+

lemma b64_decode_encode [simp]: "b64_decode e (b64_encode e s) = Some s"
proof -
  have "filter (\<lambda>c. c \<noteq> CHR 0x0A \<and> c \<noteq> CHR 0x0D) (b64_encode e s) = b64_encode e s"
    using b64_encode_plain [of e s] by (intro filter_True) auto
  then show ?thesis by (simp add: b64_decode_def b64_groups_encode)
qed

lemma b64_encode_inj: "b64_encode e s = b64_encode e s' \<Longrightarrow> s = s'"
  using b64_decode_encode by (metis option.inject)

lemma b64_encode_Nil_iff [simp]: "b64_encode e s = [] \<longleftrightarrow> s = []"
  by (metis b64_encode.simps(1) b64_encode_inj)

end
