(* ===== verification/Device_Auth.thy ===== *)
theory Device_Auth
  imports Go_Base64
begin

section \<open>Device keys, signatures and identity files (internal/deviceauth/deviceauth.go)\<close>

text \<open>
  A device signs its requests with an Ed25519 key that it keeps in a file.  The signature functions
  are an argument \<open>ed\<close>, the JSON text of a value is given by an argument \<open>marshal\<close>; timestamps are 64-bit
  words with Go's signed comparison.  Files are a map from paths to contents; every system call of an
  atomic write takes its outcome from a script, and the write returns all the states the file system
  goes through, so that a crash between two calls is a prefix of that list.
\<close>

record Discovery =
  dc_DirectAddresses :: go_slice
  dc_RelayURLs :: go_slice

record Identity =
  id_Serial :: string
  id_HostKeyFingerprint :: string

record ed25519 =
  ed_public :: "string \<Rightarrow> string"
  ed_sign :: "string \<Rightarrow> string \<Rightarrow> string"
  ed_verify :: "string \<Rightarrow> string \<Rightarrow> string \<Rightarrow> bool"

datatype device_error =
    KeyPathRequired | KeyExists | FileError | InvalidPrivateKey | InvalidPublicKey | InvalidSignature | InvalidIdentity

subsection \<open>Signatures\<close>

definition PublicKey :: "ed25519 \<Rightarrow> string \<Rightarrow> string" where
  "PublicKey ed private = b64_encode StdEncoding (ed_public ed private)"

definition Sign :: "ed25519 \<Rightarrow> string \<Rightarrow> string \<Rightarrow> string" where
  "Sign ed private payload = b64_encode StdEncoding (ed_sign ed private payload)"

definition Verify :: "ed25519 \<Rightarrow> string \<Rightarrow> string \<Rightarrow> string \<Rightarrow> device_error + unit" where
  "Verify ed publicKey payload signature =
     (case b64_decode StdEncoding publicKey of
        None \<Rightarrow> Inl InvalidPublicKey
      | Some public \<Rightarrow>
          if length public \<noteq> 32 then Inl InvalidPublicKey
          else (case b64_decode StdEncoding signature of
                  None \<Rightarrow> Inl InvalidSignature
                | Some sig \<Rightarrow>
                    if length sig \<noteq> 64 \<or> \<not> ed_verify ed public payload sig then Inl InvalidSignature else Inr ()))"

subsection \<open>Freshness\<close>

definition MaxClockSkew :: int64 where
  "MaxClockSkew = 300"

definition Fresh :: "int64 \<Rightarrow> int64 \<Rightarrow> bool" where
  "Fresh timestamp current \<longleftrightarrow>
     word_sle (current - MaxClockSkew) timestamp \<and> word_sle timestamp (current + MaxClockSkew)"

subsection \<open>Signed payloads\<close>

definition newline :: char where "newline = CHR 0x0A"

definition HeartbeatPayload ::
    "(Discovery \<Rightarrow> string) \<Rightarrow> string \<Rightarrow> string \<Rightarrow> string \<Rightarrow> int64 \<Rightarrow> string \<Rightarrow> Discovery option \<Rightarrow> string" where
  "HeartbeatPayload marshal serial endpointID fingerprint timestamp status discovery =
     (let base = Join [''heartbeat'', serial, endpointID, fingerprint, FormatInt (sint timestamp), status] [newline] in
      case discovery of None \<Rightarrow> base | Some d \<Rightarrow> base @ [newline] @ marshal d)"

definition AuthorizedKeysPayload :: "string \<Rightarrow> string \<Rightarrow> string \<Rightarrow> int64 \<Rightarrow> string \<Rightarrow> string" where
  "AuthorizedKeysPayload serial endpointID fingerprint timestamp sshUser =
     Join [''authorized-keys'', serial, endpointID, fingerprint, FormatInt (sint timestamp), sshUser] [newline]"

definition AuthorizedKeysAckPayload ::
    "string \<Rightarrow> string \<Rightarrow> string \<Rightarrow> int64 \<Rightarrow> string \<Rightarrow> int64 \<Rightarrow> string \<Rightarrow> string" where
  "AuthorizedKeysAckPayload serial endpointID fingerprint timestamp sshUser generation digest =
     Join [''authorized-keys-ack'', serial, endpointID, fingerprint, FormatInt (sint timestamp), sshUser,
           FormatInt (sint generation), digest] [newline]"

subsection \<open>Files\<close>

record stored_file =
  fl_data :: string
  fl_mode :: nat

definition mode_0600 :: nat where "mode_0600 = 384"

type_synonym fs = "string \<Rightarrow> stored_file option"

text \<open>The outcomes of the system calls of one atomic write: \<open>io_temp\<close> is the name that \<^verbatim>\<open>CreateTemp\<close>
  chose, \<open>io_written\<close> the number of bytes that \<^verbatim>\<open>Write\<close> wrote (all of them on success).\<close>

record io_script =
  io_mkdir :: bool
  io_temp :: "string option"
  io_chmod :: bool
  io_written :: nat
  io_sync :: bool
  io_close :: bool
  io_rename :: bool
  io_remove :: bool
  io_fsync_dir :: bool

definition remove_file :: "io_script \<Rightarrow> string \<Rightarrow> fs \<Rightarrow> fs" where
  "remove_file io p f = (if io_remove io then f(p := None) else f)"

definition AtomicWriteFile :: "io_script \<Rightarrow> string \<Rightarrow> string \<Rightarrow> nat \<Rightarrow> fs \<Rightarrow> device_error option \<times> fs list" where
  "AtomicWriteFile io path data mode f =
     (if \<not> io_mkdir io then (Some FileError, [f])
      else case io_temp io of
        None \<Rightarrow> (Some FileError, [f])
      | Some temp \<Rightarrow>
          let f1 = f(temp \<mapsto> \<lparr>fl_data = '''', fl_mode = mode_0600\<rparr>);
              f2 = f(temp \<mapsto> \<lparr>fl_data = '''', fl_mode = mode\<rparr>);
              f3 = f(temp \<mapsto> \<lparr>fl_data = take (io_written io) data, fl_mode = mode\<rparr>);
              f4 = f3(path := f3 temp, temp := None) in
          if \<not> io_chmod io then (Some FileError, [f, f1, remove_file io temp f1])
          else if io_written io < length data then (Some FileError, [f, f1, f2, f3, remove_file io temp f3])
          else if \<not> io_sync io \<or> \<not> io_close io \<or> \<not> io_rename io then (Some FileError, [f, f1, f2, f3, remove_file io temp f3])
          else (if io_fsync_dir io then None else Some FileError, [f, f1, f2, f3, f4]))"

definition writePrivate :: "io_script \<Rightarrow> string \<Rightarrow> string \<Rightarrow> fs \<Rightarrow> device_error option \<times> fs list" where
  "writePrivate io path private f = AtomicWriteFile io path (b64_encode StdEncoding private) mode_0600 f"

text \<open>\<open>lstat\<close> is false when \<^verbatim>\<open>Lstat\<close> failed for another reason than a missing file; \<open>keypair\<close> is what
  \<^verbatim>\<open>ed25519.GenerateKey\<close> returned.\<close>

definition GenerateKey ::
    "io_script \<Rightarrow> bool \<Rightarrow> (string \<times> string) option \<Rightarrow> string \<Rightarrow> fs \<Rightarrow> (device_error + string) \<times> fs" where
  "GenerateKey io lstat keypair path f =
     (if path = '''' then (Inl KeyPathRequired, f)
      else if f path \<noteq> None then (Inl KeyExists, f)
      else if \<not> lstat then (Inl FileError, f)
      else case keypair of
        None \<Rightarrow> (Inl FileError, f)
      | Some (public, private) \<Rightarrow>
          (case writePrivate io path private f of
             (Some e, trace) \<Rightarrow> (Inl e, last trace)
           | (None, trace) \<Rightarrow> (Inr (b64_encode StdEncoding public), last trace)))"

definition LoadPrivate :: "string \<Rightarrow> fs \<Rightarrow> device_error + string" where
  "LoadPrivate path f =
     (case f path of
        None \<Rightarrow> Inl FileError
      | Some x \<Rightarrow>
          (case b64_decode StdEncoding (fl_data x) of
             None \<Rightarrow> Inl InvalidPrivateKey
           | Some decoded \<Rightarrow> if length decoded \<noteq> 64 then Inl InvalidPrivateKey else Inr decoded))"

definition IdentityPath :: "string \<Rightarrow> string" where
  "IdentityPath keyPath = keyPath @ ''.identity.json''"

definition WriteIdentity ::
    "(Identity \<Rightarrow> string option) \<Rightarrow> io_script \<Rightarrow> string \<Rightarrow> Identity \<Rightarrow> fs \<Rightarrow> device_error option \<times> fs list" where
  "WriteIdentity marshal io path identity f =
     (if id_Serial identity = '''' \<or> id_HostKeyFingerprint identity = '''' then (Some InvalidIdentity, [f])
      else case marshal identity of
        None \<Rightarrow> (Some InvalidIdentity, [f])
      | Some data \<Rightarrow> AtomicWriteFile io path (data @ [newline]) mode_0600 f)"

definition ReadIdentity :: "(string \<Rightarrow> Identity option) \<Rightarrow> string \<Rightarrow> fs \<Rightarrow> device_error + Identity" where
  "ReadIdentity unmarshal path f =
     (case f path of
        None \<Rightarrow> Inl FileError
      | Some x \<Rightarrow>
          (case unmarshal (fl_data x) of
             None \<Rightarrow> Inl InvalidIdentity
           | Some identity \<Rightarrow>
               if id_Serial identity = '''' \<or> id_HostKeyFingerprint identity = '''' then Inl InvalidIdentity else Inr identity))"

end
