(* ===== verification/Signature_Properties.thy ===== *)
theory Signature_Properties
  imports Device_Auth
begin

section \<open>What a device signature establishes\<close>

text \<open>
  The window of accepted timestamps on the whole range of 64-bit values, the binding between a signed
  payload and the request it stands for, and the files that hold the key and the identity.
\<close>

subsection \<open>Freshness\<close>

text \<open>C28. The freshness window has no holes and no wrap-around.  For a clock reading at least the skew away from
  the ends of the 64-bit range, every timestamp, the extreme ones included, is accepted exactly when
  it differs from the clock by at most 300 seconds.\<close>

theorem Fresh_window:
  assumes "- (2 ^ 63) + 300 \<le> sint current" "sint current < 2 ^ 63 - 300"
  shows "Fresh timestamp current \<longleftrightarrow> \<bar>sint timestamp - sint current\<bar> \<le> 300"
proof -
  have "sint (current - 300) = sint current - 300" "sint (current + 300) = sint current + 300"
    using assms by (simp_all add: sint_word_ariths signed_take_bit_int_eq_self)
  then show ?thesis by (auto simp: Fresh_def MaxClockSkew_def word_sle_eq)
qed

theorem Fresh_window_witness:
  "Fresh 1784021100 1784021400 \<and> \<not> Fresh 1784021099 1784021400 \<and> \<not> Fresh 0x8000000000000000 1784021400"
proof -
  have "sint (1784021400 :: int64) = 1784021400" "sint (1784021100 :: int64) = 1784021100"
    "sint (1784021099 :: int64) = 1784021099" "sint (0x8000000000000000 :: int64) = - (2 ^ 63)" by simp_all
  then show ?thesis using Fresh_window [of "1784021400"] by simp
qed

subsection \<open>Payloads\<close>

text \<open>The requests a device signs.\<close>

datatype device_request =
    Heartbeat string "Discovery option"
  | FetchKeys string
  | AckKeys string int64 string

definition request_payload ::
    "(Discovery \<Rightarrow> string) \<Rightarrow> string \<Rightarrow> string \<Rightarrow> string \<Rightarrow> int64 \<Rightarrow> device_request \<Rightarrow> string" where
  "request_payload marshal serial ep fp ts req =
     (case req of
        Heartbeat status d \<Rightarrow> HeartbeatPayload marshal serial ep fp ts status d
      | FetchKeys sshUser \<Rightarrow> AuthorizedKeysPayload serial ep fp ts sshUser
      | AckKeys sshUser generation digest \<Rightarrow> AuthorizedKeysAckPayload serial ep fp ts sshUser generation digest)"

definition one_line :: "string \<Rightarrow> bool" where
  "one_line s \<longleftrightarrow> newline \<notin> set s"

fun one_line_request :: "device_request \<Rightarrow> bool" where
  "one_line_request (Heartbeat status d) = one_line status"
| "one_line_request (FetchKeys sshUser) = one_line sshUser"
| "one_line_request (AckKeys sshUser generation digest) = (one_line sshUser \<and> one_line digest)"

fun same_request :: "(Discovery \<Rightarrow> string) \<Rightarrow> device_request \<Rightarrow> device_request \<Rightarrow> bool" where
  "same_request marshal (Heartbeat s d) (Heartbeat s' d') = (s = s' \<and> map_option marshal d = map_option marshal d')"
| "same_request marshal (FetchKeys u) (FetchKeys u') = (u = u')"
| "same_request marshal (AckKeys u g x) (AckKeys u' g' x') = (u = u' \<and> g = g' \<and> x = x')"
| "same_request marshal _ _ = False"

lemma one_line_FormatInt [simp]: "one_line (FormatInt i)"
  using FormatUint_bytes by (fastforce simp: one_line_def FormatInt_def newline_def is_digit_nat)

lemma Split_line: "one_line p \<Longrightarrow> Split (p @ newline # s) newline = p # Split s newline"
  by (simp add: one_line_def Split_append_sep)

lemma Split_one_line: "one_line p \<Longrightarrow> Split p newline = [p]"
  by (simp add: one_line_def Split_notin)

lemma Nil_neq_Split [simp]: "[] \<noteq> Split s b"
  using Split_nonempty by metis

lemma Split_eq: "Split s b = Split s' b \<Longrightarrow> s = s'"
  by (metis Join_Split)

fun request_lines :: "(Discovery \<Rightarrow> string) \<Rightarrow> device_request \<Rightarrow> string list" where
  "request_lines marshal (Heartbeat s d) = s # (case d of None \<Rightarrow> [] | Some x \<Rightarrow> Split (marshal x) newline)"
| "request_lines marshal (FetchKeys u) = [u]"
| "request_lines marshal (AckKeys u g x) = [u, FormatInt (sint g), x]"

fun request_tag :: "device_request \<Rightarrow> string" where
  "request_tag (Heartbeat s d) = ''heartbeat''"
| "request_tag (FetchKeys u) = ''authorized-keys''"
| "request_tag (AckKeys u g x) = ''authorized-keys-ack''"

lemma request_payload_lines:
  assumes "one_line serial" "one_line ep" "one_line fp" "one_line_request req"
  shows "Split (request_payload marshal serial ep fp ts req) newline =
    [request_tag req, serial, ep, fp, FormatInt (sint ts)] @ request_lines marshal req"
  using assms
  by (cases req)
     (auto simp: request_payload_def HeartbeatPayload_def AuthorizedKeysPayload_def AuthorizedKeysAckPayload_def newline_def
        Split_line [unfolded newline_def] Split_one_line [unfolded newline_def] Let_def split: option.split)

lemma sint_eq_word: "sint (a :: int64) = sint b \<Longrightarrow> a = b"
  by (rule signed_word_eqI)

text \<open>C29. A signature binds its request.  If the fields are free of line breaks (which the enrolled
  identity always is), two requests with the same signed bytes are the same request of the same
  device at the same time; in particular a signature for one kind of request is never one for another.\<close>

theorem payload_binds_request:
  assumes "one_line serial" "one_line ep" "one_line fp" "one_line_request req"
    and "one_line serial'" "one_line ep'" "one_line fp'" "one_line_request req'"
    and "request_payload marshal serial ep fp ts req = request_payload marshal serial' ep' fp' ts' req'"
  shows "serial = serial' \<and> ep = ep' \<and> fp = fp' \<and> ts = ts' \<and> same_request marshal req req'"
proof -
  have "[request_tag req, serial, ep, fp, FormatInt (sint ts)] @ request_lines marshal req =
      [request_tag req', serial', ep', fp', FormatInt (sint ts')] @ request_lines marshal req'"
    using request_payload_lines [OF assms(1-4), of marshal ts] request_payload_lines [OF assms(5-8), of marshal ts'] assms(9) by metis
  then have eq: "request_tag req = request_tag req'" "serial = serial'" "ep = ep'" "fp = fp'"
      "FormatInt (sint ts) = FormatInt (sint ts')" "request_lines marshal req = request_lines marshal req'" by simp_all
  have "same_request marshal req req'" using eq(1,6)
    by (cases req; cases req') (auto split: option.splits dest: Split_eq FormatInt_inj sint_eq_word)
  with eq show ?thesis by (auto dest: FormatInt_inj sint_eq_word)
qed

definition sample_marshal :: "Discovery \<Rightarrow> string" where
  "sample_marshal d = ''{}''"

theorem payload_binds_request_witness:
  "request_payload sample_marshal ''edge-1'' ''ab'' ''SHA256:x'' 7 (Heartbeat ''healthy'' None) \<noteq>
   request_payload sample_marshal ''edge-1'' ''ab'' ''SHA256:x'' 7 (FetchKeys ''healthy'')"
proof
  assume "request_payload sample_marshal ''edge-1'' ''ab'' ''SHA256:x'' 7 (Heartbeat ''healthy'' None) =
    request_payload sample_marshal ''edge-1'' ''ab'' ''SHA256:x'' 7 (FetchKeys ''healthy'')"
  from payload_binds_request [OF _ _ _ _ _ _ _ _ this] show False by (simp add: one_line_def newline_def)
qed

text \<open>What a heartbeat signature does not bind.  The status is not checked for line breaks, so the bytes
  signed for a status with an endpoint discovery are also the signed bytes of a heartbeat without
  discovery whose status ends in the discovery's text.\<close>

lemma HeartbeatPayload_collision:
  "HeartbeatPayload marshal serial ep fp ts status (Some d) =
   HeartbeatPayload marshal serial ep fp ts (status @ [newline] @ marshal d) None"
  by (simp add: HeartbeatPayload_def)

subsection \<open>Signing\<close>

text \<open>Every signature a device makes with its key verifies under the public key it enrolled.  The
  hypotheses are the documented sizes and correctness of Ed25519.\<close>

lemma Verify_Sign:
  assumes "length (ed_public ed private) = 32" "length (ed_sign ed private payload) = 64"
    and "ed_verify ed (ed_public ed private) payload (ed_sign ed private payload)"
  shows "Verify ed (PublicKey ed private) payload (Sign ed private payload) = Inr ()"
  using assms by (simp add: Verify_def PublicKey_def Sign_def)

definition sample_ed :: ed25519 where
  "sample_ed = \<lparr>ed_public = take 32, ed_sign = (\<lambda>k m. take 32 k @ take 32 (m @ replicate 32 CHR 0x00)),
     ed_verify = (\<lambda>p m s. s = p @ take 32 (m @ replicate 32 CHR 0x00))\<rparr>"

lemma Verify_Sign_witness:
  "Verify sample_ed (PublicKey sample_ed (replicate 64 CHR ''k'')) ''payload'' (Sign sample_ed (replicate 64 CHR ''k'') ''payload'') = Inr ()"
  by (rule Verify_Sign) (simp_all add: sample_ed_def)

subsection \<open>Files\<close>

lemma AtomicWriteFile_success:
  "AtomicWriteFile io path data mode f = (None, trace) \<Longrightarrow> io_temp io = Some temp \<Longrightarrow> temp \<noteq> path \<Longrightarrow> f temp = None \<Longrightarrow>
    last trace = f(path \<mapsto> \<lparr>fl_data = data, fl_mode = mode\<rparr>)"
  by (auto simp: AtomicWriteFile_def Let_def fun_upd_twist split: if_splits)

text \<open>Files are replaced atomically.  Whatever the system calls answer and wherever a crash cuts the
  sequence of states, the file at the path is either the old one or complete with its mode; no file
  other than it and the temporary one changes; and success means that it is the new one and the
  temporary file is gone.\<close>

lemma AtomicWriteFile_atomic:
  assumes "AtomicWriteFile io path data mode f = (r, trace)"
    and "io_temp io = Some temp" "temp \<noteq> path" "f temp = None"
  shows "list_all (\<lambda>g. (g path = f path \<or> g path = Some \<lparr>fl_data = data, fl_mode = mode\<rparr>) \<and>
      (\<forall>p. \<not> (p = path \<or> p = temp) \<longrightarrow> g p = f p)) trace \<and> trace \<noteq> [] \<and> hd trace = f \<and>
    (r = None \<longrightarrow> last trace = f(path \<mapsto> \<lparr>fl_data = data, fl_mode = mode\<rparr>))"
  using assms by (auto simp: AtomicWriteFile_def remove_file_def Let_def fun_upd_twist split: if_splits)

definition sample_io :: io_script where
  "sample_io = \<lparr>io_mkdir = True, io_temp = Some ''.ternal-1'', io_chmod = True, io_written = 100, io_sync = True, io_close = True,
     io_rename = True, io_remove = True, io_fsync_dir = True\<rparr>"

text \<open>A device key is created once and read back.  \<^verbatim>\<open>GenerateKey\<close> never touches an existing file, and after it
  succeeded \<^verbatim>\<open>LoadPrivate\<close> returns the generated private key, whose public half was reported.\<close>

lemma GenerateKey_roundtrip:
  assumes "GenerateKey io lstat (Some (public, private)) path f = (r, g)"
    and "io_temp io = Some temp" "temp \<noteq> path" "f temp = None" "length private = 64"
  shows "(f path \<noteq> None \<longrightarrow> r = Inl (if path = '''' then KeyPathRequired else KeyExists) \<and> g = f) \<and>
    (\<forall>key. r = Inr key \<longrightarrow> f path = None \<and> b64_decode StdEncoding key = Some public \<and> LoadPrivate path g = Inr private)"
proof -
  obtain e trace where w: "writePrivate io path private f = (e, trace)" by (metis surj_pair)
  have "LoadPrivate path (last trace) = Inr private" if "e = None"
  proof -
    have "last trace = f(path \<mapsto> \<lparr>fl_data = b64_encode StdEncoding private, fl_mode = mode_0600\<rparr>)"
      using AtomicWriteFile_success [of io path _ _ f, OF _ assms(2-4)] w that unfolding writePrivate_def by blast
    then show ?thesis using assms(5) by (simp add: LoadPrivate_def)
  qed
  then show ?thesis using assms(1) w by (auto simp: GenerateKey_def split: if_splits option.splits)
qed

end
