(* ===== verification/Auth_Session.thy ===== *)
theory Auth_Session
  imports Go_Base64 Store_Base
begin

section \<open>Sessions and request guards (internal/auth/auth.go)\<close>

text \<open>
  The signed session cookie, the middleware that turns it into an authentication context, and the
  guards that a route puts in front of its handler.  HMAC-SHA256, SHA-256, the JSON text of a value
  and the parser of URLs are arguments; the clock readings are arguments, one per reading.
\<close>

datatype auth_error =
    InvalidIssuer | InsecureIssuer | ClientCredentials | InvalidRedirect | InsecureRedirect | GroupConfiguration
  | TooManyClaims | InvalidClaim | ClaimIsGroups | ClaimReserved | ClaimDuplicate
  | EndpointOutsideIssuer
  | KeyTooShort | MarshalFailed | SessionTooLarge | InvalidSignedValue | InvalidFormat | InvalidSignature_auth | InvalidEncoding
  | InvalidData | SessionExpired | NoSessionCookie | IssuerMismatch

subsection \<open>Configuration\<close>

record OIDCConfig =
  oc_Issuer :: string
  oc_ClientID :: string
  oc_ClientSecret :: string
  oc_RedirectURL :: string
  oc_AdminGroup :: string
  oc_GroupsClaim :: string
  oc_PolicyClaims :: "string list"

record URL =
  u_Scheme :: string
  u_Host :: string
  u_Hostname :: string
  u_RawQuery :: string
  u_Fragment :: string
  u_User :: bool

text \<open>The functions of \<^verbatim>\<open>net/url\<close> and \<^verbatim>\<open>strings\<close> whose Unicode and escaping rules are not modelled.\<close>

record url_lib =
  ul_Parse :: "string \<Rightarrow> URL option"
  ul_EqualFold :: "string \<Rightarrow> string \<Rightarrow> bool"

definition maxPolicyClaims :: nat where "maxPolicyClaims = 16"
definition maxPolicyClaimNameBytes :: nat where "maxPolicyClaimNameBytes = 128"
definition maxPolicyClaimValues :: nat where "maxPolicyClaimValues = 16"
definition maxPolicyClaimValueBytes :: nat where "maxPolicyClaimValueBytes = 256"
definition maxPolicyClaimsJSONBytes :: nat where "maxPolicyClaimsJSONBytes = 1024"
definition maxSessionCookieBytes :: nat where "maxSessionCookieBytes = 3800"

definition reservedPolicyClaims :: "string list" where
  "reservedPolicyClaims =
     [''iss'', ''sub'', ''aud'', ''exp'', ''nbf'', ''iat'', ''jti'', ''groups'',
      ''azp'', ''nonce'', ''auth_time'', ''acr'', ''amr'', ''at_hash'',
      ''c_hash'', ''s_hash'', ''sid'', ''scope'', ''client_id'', ''cnf'',
      ''act'', ''may_act'']"

definition isLoopbackHost :: "string \<Rightarrow> bool" where
  "isLoopbackHost host \<longleftrightarrow> host = ''localhost'' \<or> host = ''127.0.0.1'' \<or> host = ''::1''"

text \<open>Bytes at or above 0x80 belong to runes that are no control characters of the tested range.\<close>

definition containsControl :: "string \<Rightarrow> bool" where
  "containsControl s = list_ex (\<lambda>c. (of_char c :: nat) < 32 \<or> c = CHR 0x7F) s"

text \<open>\<^verbatim>\<open>utf8.ValidString\<close>: the well-formed byte sequences of UTF-8, surrogates and overlong forms excluded.\<close>

definition byte_in :: "nat \<Rightarrow> nat \<Rightarrow> char \<Rightarrow> bool" where
  "byte_in lo hi c \<longleftrightarrow> lo \<le> of_char c \<and> of_char c \<le> hi"

definition utf8_cont :: "char \<Rightarrow> bool" where
  "utf8_cont = byte_in 0x80 0xBF"

fun ValidString :: "string \<Rightarrow> bool" where
  "ValidString [] = True"
| "ValidString (a # s) =
     (if byte_in 0 0x7F a then ValidString s
      else if byte_in 0xC2 0xDF a then (case s of b # s' \<Rightarrow> utf8_cont b \<and> ValidString s' | _ \<Rightarrow> False)
      else if byte_in 0xE0 0xEF a then
        (case s of
           b # c # s' \<Rightarrow> utf8_cont b \<and> (of_char a = (0xE0 :: nat) \<longrightarrow> byte_in 0xA0 0xBF b) \<and>
             (of_char a = (0xED :: nat) \<longrightarrow> byte_in 0x80 0x9F b) \<and> utf8_cont c \<and> ValidString s'
         | _ \<Rightarrow> False)
      else if byte_in 0xF0 0xF4 a then
        (case s of
           b # c # d # s' \<Rightarrow> utf8_cont b \<and> (of_char a = (0xF0 :: nat) \<longrightarrow> byte_in 0x90 0xBF b) \<and>
             (of_char a = (0xF4 :: nat) \<longrightarrow> byte_in 0x80 0x8F b) \<and> utf8_cont c \<and> utf8_cont d \<and> ValidString s'
         | _ \<Rightarrow> False)
      else False)"

fun validate_claims :: "string \<Rightarrow> string list \<Rightarrow> string list \<Rightarrow> auth_error option" where
  "validate_claims groupsClaim seen [] = None"
| "validate_claims groupsClaim seen (claim # claims) =
     (if claim = '''' \<or> TrimSpace claim \<noteq> claim \<or> length claim > maxPolicyClaimNameBytes \<or> \<not> ValidString claim \<or>
         ContainsAny claim '',='' \<or> containsControl claim then Some InvalidClaim
      else if claim = groupsClaim then Some ClaimIsGroups
      else if claim \<in> set reservedPolicyClaims then Some ClaimReserved
      else if claim \<in> set seen then Some ClaimDuplicate
      else validate_claims groupsClaim (claim # seen) claims)"

definition validatePolicyClaims :: "OIDCConfig \<Rightarrow> auth_error option" where
  "validatePolicyClaims c =
     (if length (oc_PolicyClaims c) > maxPolicyClaims then Some TooManyClaims
      else validate_claims (oc_GroupsClaim c) [] (oc_PolicyClaims c))"

definition bad_url :: "URL option \<Rightarrow> bool" where
  "bad_url u = (case u of None \<Rightarrow> True
     | Some x \<Rightarrow> u_Scheme x = '''' \<or> u_Host x = '''' \<or> u_RawQuery x \<noteq> '''' \<or> u_Fragment x \<noteq> '''')"

definition secure_url :: "URL \<Rightarrow> bool" where
  "secure_url u \<longleftrightarrow> u_Scheme u = ''https'' \<or> (u_Scheme u = ''http'' \<and> isLoopbackHost (u_Hostname u))"

definition OIDCConfig_Validate :: "url_lib \<Rightarrow> OIDCConfig \<Rightarrow> auth_error option" where
  "OIDCConfig_Validate L c =
     (let issuer = ul_Parse L (oc_Issuer c); redirect = ul_Parse L (oc_RedirectURL c) in
      if bad_url issuer then Some InvalidIssuer
      else if \<not> secure_url (the issuer) then Some InsecureIssuer
      else if oc_ClientID c = '''' \<or> length (oc_ClientID c) > 256 \<or> oc_ClientSecret c = '''' \<or> length (oc_ClientSecret c) > 4096
        then Some ClientCredentials
      else if bad_url redirect then Some InvalidRedirect
      else if \<not> secure_url (the redirect) then Some InsecureRedirect
      else if oc_AdminGroup c = '''' \<or> oc_GroupsClaim c = '''' then Some GroupConfiguration
      else validatePolicyClaims c)"

text \<open>\<^verbatim>\<open>NewOIDCClient\<close> has validated the issuer, so it parses here.\<close>

definition validateProviderEndpoint :: "url_lib \<Rightarrow> OIDCConfig \<Rightarrow> string \<Rightarrow> auth_error option" where
  "validateProviderEndpoint L c raw =
     (case (ul_Parse L (oc_Issuer c), ul_Parse L raw) of
        (Some issuer, Some endpoint) \<Rightarrow>
          if u_Scheme endpoint \<noteq> u_Scheme issuer \<or> u_Host endpoint \<noteq> u_Host issuer \<or> u_User endpoint \<or> u_Fragment endpoint \<noteq> ''''
          then Some EndpointOutsideIssuer else None
      | _ \<Rightarrow> Some EndpointOutsideIssuer)"

definition SecureCookies :: "url_lib \<Rightarrow> OIDCConfig \<Rightarrow> bool" where
  "SecureCookies L c = (case ul_Parse L (oc_RedirectURL c) of None \<Rightarrow> False | Some u \<Rightarrow> u_Scheme u = ''https'')"

text \<open>\<open>env\<close> is \<^verbatim>\<open>os.Getenv\<close>: the empty string for an unset variable.\<close>

definition getEnv :: "(string \<Rightarrow> string) \<Rightarrow> string \<Rightarrow> string \<Rightarrow> string" where
  "getEnv env k def = (if env k \<noteq> '''' then env k else def)"

definition policyClaimsFromEnv :: "string \<Rightarrow> string list" where
  "policyClaimsFromEnv v = (if v = '''' then [] else map TrimSpace (Split v (CHR '','')))"

definition OIDCConfigFromEnv :: "(string \<Rightarrow> string) \<Rightarrow> OIDCConfig" where
  "OIDCConfigFromEnv env =
     \<lparr>oc_Issuer = getEnv env ''TERNAL_OIDC_ISSUER'' ''http://localhost:8080/auth/v1/'',
      oc_ClientID = getEnv env ''TERNAL_OIDC_CLIENT_ID'' ''ternal'',
      oc_ClientSecret = env ''TERNAL_OIDC_CLIENT_SECRET'',
      oc_RedirectURL = getEnv env ''TERNAL_OIDC_REDIRECT_URL'' ''http://127.0.0.1:3000/auth/callback'',
      oc_AdminGroup = getEnv env ''TERNAL_OIDC_ADMIN_GROUP'' ''ternal-admins'',
      oc_GroupsClaim = getEnv env ''TERNAL_OIDC_GROUPS_CLAIM'' ''groups'',
      oc_PolicyClaims = policyClaimsFromEnv (env ''TERNAL_OIDC_POLICY_CLAIMS'')\<rparr>"

subsection \<open>Sessions\<close>

record AuthClaims =
  au_Issuer :: string
  au_Subject :: string
  au_Groups :: "string list"
  au_CustomClaims :: "(string \<times> string list) list"

definition PrincipalID :: "(string \<Rightarrow> string) \<Rightarrow> AuthClaims \<Rightarrow> string" where
  "PrincipalID sha256 c =
     (if au_Issuer c = '''' then au_Subject c
      else ''oidc:'' @ b64_encode RawURLEncoding (sha256 (au_Issuer c @ [CHR 0x00] @ au_Subject c)))"

record SessionData =
  se_User :: AuthClaims
  se_CSRFToken :: string
  se_ExpiresAt :: int

record AuthContext =
  ac_User :: AuthClaims
  ac_IsAdmin :: bool
  ac_CSRFToken :: string

definition signValue :: "('d \<Rightarrow> string option) \<Rightarrow> (string \<Rightarrow> string \<Rightarrow> string) \<Rightarrow> 'd \<Rightarrow> string \<Rightarrow> auth_error + string" where
  "signValue marshal hmac data key =
     (if length key < 32 then Inl KeyTooShort
      else case marshal data of
        None \<Rightarrow> Inl MarshalFailed
      | Some payload \<Rightarrow>
          let encoded = b64_encode RawURLEncoding payload in
          Inr (''v1.'' @ encoded @ ''.'' @ b64_encode RawURLEncoding (hmac key encoded)))"

definition SignSession ::
    "(SessionData \<Rightarrow> string option) \<Rightarrow> (string \<Rightarrow> string \<Rightarrow> string) \<Rightarrow> SessionData \<Rightarrow> string \<Rightarrow> auth_error + string" where
  "SignSession marshal hmac data key =
     (case signValue marshal hmac data key of
        Inl e \<Rightarrow> Inl e
      | Inr cookie \<Rightarrow> if length cookie > maxSessionCookieBytes then Inl SessionTooLarge else Inr cookie)"

definition verifyValue :: "(string \<Rightarrow> 'd option) \<Rightarrow> (string \<Rightarrow> string \<Rightarrow> string) \<Rightarrow> string \<Rightarrow> string \<Rightarrow> auth_error + 'd" where
  "verifyValue unmarshal hmac v key =
     (if length key < 32 \<or> length v > 32 * 1024 then Inl InvalidSignedValue
      else case SplitN 3 v (CHR ''.'') of
        [version, encoded, sig] \<Rightarrow>
          if version \<noteq> ''v1'' then Inl InvalidFormat
          else if sig \<noteq> b64_encode RawURLEncoding (hmac key encoded) then Inl InvalidSignature_auth
          else (case b64_decode RawURLEncoding encoded of
                  None \<Rightarrow> Inl InvalidEncoding
                | Some payload \<Rightarrow> (case unmarshal payload of None \<Rightarrow> Inl InvalidData | Some d \<Rightarrow> Inr d))
      | _ \<Rightarrow> Inl InvalidFormat)"

definition verifySessionAt ::
    "(string \<Rightarrow> SessionData option) \<Rightarrow> (string \<Rightarrow> string \<Rightarrow> string) \<Rightarrow> string \<Rightarrow> string \<Rightarrow> int \<Rightarrow> auth_error + SessionData" where
  "verifySessionAt unmarshal hmac cookie key now =
     (case verifyValue unmarshal hmac cookie key of
        Inl e \<Rightarrow> Inl e
      | Inr d \<Rightarrow> if se_ExpiresAt d \<le> now then Inl SessionExpired else Inr d)"

subsection \<open>Requests and the authentication middleware\<close>

record http_request =
  hr_Method :: string
  hr_Host :: string
  hr_Header :: "string \<Rightarrow> string"
  hr_Cookie :: "string \<Rightarrow> string option"
  hr_FormValue :: "string \<Rightarrow> string"

definition SessionCookie :: string where "SessionCookie = ''ternal_session''"
definition OIDCStateCookie :: string where "OIDCStateCookie = ''ternal_oidc_state''"
definition CSRFHeader :: string where "CSRFHeader = ''X-CSRF-Token''"

definition GetSessionFromRequest ::
    "(string \<Rightarrow> SessionData option) \<Rightarrow> (string \<Rightarrow> string \<Rightarrow> string) \<Rightarrow> http_request \<Rightarrow> string \<Rightarrow> int \<Rightarrow> auth_error + SessionData" where
  "GetSessionFromRequest unmarshal hmac r key now =
     (case hr_Cookie r SessionCookie of None \<Rightarrow> Inl NoSessionCookie | Some v \<Rightarrow> verifySessionAt unmarshal hmac v key now)"

record auth_config =
  am_sessionKey :: string
  am_devHeaders :: bool
  am_adminGroup :: string
  am_expectedIssuer :: string

datatype auth_result = Unavailable | Next "AuthContext option"

text \<open>The claims of the request: those of the development headers, else those of a valid session.
  \<open>revoked\<close> asks the store; \<open>now1\<close> is the clock at the verification, \<open>now2\<close> after the store has answered.\<close>

definition dev_claims :: "auth_config \<Rightarrow> http_request \<Rightarrow> AuthClaims option" where
  "dev_claims a r =
     (let user = hr_Header r ''X-Ternal-User'' in
      if am_devHeaders a \<and> user \<noteq> '''' then
        Some \<lparr>au_Issuer = '''', au_Subject = user, au_Groups = Split (hr_Header r ''X-Ternal-Groups'') (CHR '',''), au_CustomClaims = []\<rparr>
      else None)"

definition auth_context :: "auth_config \<Rightarrow> AuthClaims \<Rightarrow> string \<Rightarrow> AuthContext" where
  "auth_context a claims csrf =
     \<lparr>ac_User = claims, ac_IsAdmin = list_ex (\<lambda>group. group = am_adminGroup a) (au_Groups claims), ac_CSRFToken = csrf\<rparr>"

definition session_ok ::
    "(string \<Rightarrow> SessionData option) \<Rightarrow> (string \<Rightarrow> string \<Rightarrow> string) \<Rightarrow> auth_config \<Rightarrow> int \<Rightarrow> string \<Rightarrow> auth_error + SessionData" where
  "session_ok unmarshal hmac a now1 cookie =
     (case verifySessionAt unmarshal hmac cookie (am_sessionKey a) now1 of
        Inl e \<Rightarrow> Inl e
      | Inr s \<Rightarrow> if am_expectedIssuer a \<noteq> '''' \<and> au_Issuer (se_User s) \<noteq> am_expectedIssuer a then Inl IssuerMismatch else Inr s)"

definition authMiddleware ::
    "(string \<Rightarrow> SessionData option) \<Rightarrow> (string \<Rightarrow> string \<Rightarrow> string) \<Rightarrow> auth_config \<Rightarrow>
     (string \<Rightarrow> 'w \<Rightarrow> (bool, 'w) outcome) option \<Rightarrow> int \<Rightarrow> int \<Rightarrow> http_request \<Rightarrow> 'w \<Rightarrow> auth_result \<times> 'w" where
  "authMiddleware unmarshal hmac a revoked now1 now2 r w =
     (case dev_claims a r of
        Some claims \<Rightarrow> (Next (Some (auth_context a claims ''dev-csrf'')), w)
      | None \<Rightarrow>
          (case hr_Cookie r SessionCookie of
             None \<Rightarrow> (Next None, w)
           | Some cookie \<Rightarrow>
               (case session_ok unmarshal hmac a now1 cookie of
                  Inl e \<Rightarrow> (Next None, w)
                | Inr s \<Rightarrow>
                    let accept = Next (if se_ExpiresAt s \<le> now2 then None
                                       else Some (auth_context a (se_User s) (se_CSRFToken s))) in
                    (case revoked of
                       None \<Rightarrow> (accept, w)
                     | Some f \<Rightarrow>
                         (case f cookie w of
                            (Inl e, w') \<Rightarrow> (Unavailable, w')
                          | (Inr blocked, w') \<Rightarrow> if blocked then (Next None, w') else (accept, w'))))))"

subsection \<open>Guards\<close>

text \<open>A guard answers \<open>None\<close> to pass the request on, or the status and message of its refusal.\<close>

type_synonym guard = "http_request \<Rightarrow> AuthContext option \<Rightarrow> (nat \<times> string) option"

definition RequireAuth :: guard where
  "RequireAuth r auth = (if auth = None then Some (401, ''unauthorized'') else None)"

definition RequireAdmin :: guard where
  "RequireAdmin r auth =
     (case auth of
        None \<Rightarrow> Some (403, ''administrator access required'')
      | Some identity \<Rightarrow> if \<not> ac_IsAdmin identity then Some (403, ''administrator access required'') else None)"

definition browserRequestOriginAllowed :: "url_lib \<Rightarrow> http_request \<Rightarrow> bool" where
  "browserRequestOriginAllowed L r =
     (let source = (if hr_Header r ''Origin'' = '''' then hr_Header r ''Referer'' else hr_Header r ''Origin'') in
      if source = '''' then True
      else case ul_Parse L source of
        None \<Rightarrow> False
      | Some parsed \<Rightarrow>
          if u_Host parsed = '''' \<or> \<not> ul_EqualFold L (u_Host parsed) (hr_Host r) then False
          else secure_url parsed)"

definition RequireCSRF :: "url_lib \<Rightarrow> guard" where
  "RequireCSRF L r auth =
     (case auth of
        None \<Rightarrow> Some (401, ''unauthorized'')
      | Some a \<Rightarrow>
          if hr_Method r = ''POST'' \<or> hr_Method r = ''PUT'' \<or> hr_Method r = ''DELETE'' then
            (if \<not> browserRequestOriginAllowed L r then Some (403, ''invalid request origin'')
             else let csrf = (if hr_Header r CSRFHeader = '''' then hr_FormValue r ''_csrf'' else hr_Header r CSRFHeader) in
               if csrf \<noteq> ac_CSRFToken a then Some (403, ''invalid csrf token'') else None)
          else None)"

subsection \<open>Cookies\<close>

datatype same_site = SameSiteLax

record cookie =
  ck_Name :: string
  ck_Value :: string
  ck_Path :: string
  ck_HttpOnly :: bool
  ck_Secure :: bool
  ck_SameSite :: same_site
  ck_MaxAge :: int

definition SetSessionCookie :: "string \<Rightarrow> int \<Rightarrow> bool \<Rightarrow> cookie" where
  "SetSessionCookie v ttlSeconds secure =
     \<lparr>ck_Name = SessionCookie, ck_Value = v, ck_Path = ''/'', ck_HttpOnly = True, ck_Secure = secure, ck_SameSite = SameSiteLax, ck_MaxAge = ttlSeconds\<rparr>"

definition SetOIDCStateCookie :: "string \<Rightarrow> bool \<Rightarrow> cookie" where
  "SetOIDCStateCookie v secure =
     \<lparr>ck_Name = OIDCStateCookie, ck_Value = v, ck_Path = ''/auth/callback'', ck_HttpOnly = True, ck_Secure = secure, ck_SameSite = SameSiteLax, ck_MaxAge = 300\<rparr>"

definition ClearOIDCStateCookie :: "bool \<Rightarrow> cookie" where
  "ClearOIDCStateCookie secure =
     \<lparr>ck_Name = OIDCStateCookie, ck_Value = '''', ck_Path = ''/auth/callback'', ck_HttpOnly = True, ck_Secure = secure, ck_SameSite = SameSiteLax, ck_MaxAge = -1\<rparr>"

definition ClearSessionCookie :: "bool \<Rightarrow> cookie" where
  "ClearSessionCookie secure =
     \<lparr>ck_Name = SessionCookie, ck_Value = '''', ck_Path = ''/'', ck_HttpOnly = True, ck_Secure = secure, ck_SameSite = SameSiteLax, ck_MaxAge = -1\<rparr>"

end
