(* ===== verification/Auth_OIDC.thy ===== *)
theory Auth_OIDC
  imports Auth_Session "HOL-Library.AList"
begin

section \<open>OIDC login (internal/auth/oidc.go)\<close>

text \<open>
  The login state that travels through the browser, the checks of the provider's metadata and of an
  ID token, and the extraction of the claims that policies may name.  The OIDC library (discovery,
  the signature and expiry check of a token, the code exchange) is the record \<open>provider_lib\<close> of
  functions; decoded JSON is a value of \<open>json\<close>, and \<^verbatim>\<open>json.Unmarshal\<close> into a string or a slice of strings is
  modelled on it: \<^verbatim>\<open>null\<close> is accepted and leaves the zero value.
\<close>

datatype json = JNull | JBool bool | JNumber string | JString string | JArray "json list" | JObject "(string \<times> json) list"

fun json_string :: "json \<Rightarrow> string option" where
  "json_string JNull = Some ''''"
| "json_string (JString s) = Some s"
| "json_string _ = None"

fun json_strings :: "json \<Rightarrow> string list option" where
  "json_strings JNull = Some []"
| "json_strings (JArray xs) = those (map json_string xs)"
| "json_strings _ = None"

type_synonym raw_claims = "(string \<times> json) list"

text \<open>A missing claim is an empty raw message, which does not unmarshal.\<close>

definition claim_string :: "raw_claims \<Rightarrow> string \<Rightarrow> string option" where
  "claim_string raw k = Option.bind (map_of raw k) json_string"

datatype oidc_error =
    DiscoveryFailed | InvalidMetadata | OutsideIssuer | InvalidState | ExchangeFailed | OmittedIDToken | InvalidIDToken
  | InvalidTokenClaims | InvalidAudience | InvalidAuthorizedParty | InvalidNonce | InvalidSubject | InvalidGroups
  | InvalidPolicyClaim string | PolicyClaimsTooLarge | InvalidPolicyValue | InvalidPolicyValues
  | InvalidDeviceCode | TokenRequestFailed | InvalidTokenResponse | ProviderErr string | DeviceTokenFailed
  | NoDeviceAuthorization | InvalidTokenSize | RandomFailed | StateNotSigned auth_error

record providerMetadata =
  pm_Issuer :: string
  pm_AuthorizationEndpoint :: string
  pm_TokenEndpoint :: string
  pm_DeviceAuthorizationEndpoint :: string

record loginState =
  ls_State :: string
  ls_Nonce :: string
  ls_CodeVerifier :: string
  ls_ExpiresAt :: int

record token_response =
  tr_Status :: nat
  tr_IDToken :: string
  tr_ExpiresIn :: int
  tr_Error :: string

text \<open>\<open>pl_metadata\<close>: the discovery document, \<open>None\<close> inside for one that does not decode; \<open>pl_exchange\<close>: the
  ID token that the code exchange returned; \<open>pl_verify\<close>: the library's check of a token.\<close>

record provider_lib =
  pl_metadata :: "providerMetadata option option"
  pl_exchange :: "string \<Rightarrow> string \<Rightarrow> string option"
  pl_verify :: "string \<Rightarrow> bool"
  pl_claims :: "string \<Rightarrow> raw_claims option"
  pl_token_request :: "string \<Rightarrow> token_response option option"

subsection \<open>Policy claims\<close>

definition validPolicyClaimValue :: "string \<Rightarrow> bool" where
  "validPolicyClaimValue v \<longleftrightarrow> v \<noteq> '''' \<and> TrimSpace v = v \<and> length v \<le> maxPolicyClaimValueBytes \<and> ValidString v \<and> \<not> containsControl v"

definition policyClaimValues :: "json \<Rightarrow> oidc_error + string list" where
  "policyClaimValues raw =
     (case json_string raw of
        Some one \<Rightarrow> if \<not> validPolicyClaimValue one then Inl InvalidPolicyValue else Inr [one]
      | None \<Rightarrow>
          (case json_strings raw of
             None \<Rightarrow> Inl InvalidPolicyValues
           | Some many \<Rightarrow>
               if many = [] \<or> length many > maxPolicyClaimValues then Inl InvalidPolicyValues
               else if \<not> list_all validPolicyClaimValue many then Inl InvalidPolicyValue
               else Inr many))"

text \<open>The loop over the configured names; \<open>marshal\<close> is the JSON text of the claims collected so far.\<close>

fun extract_claims ::
    "((string \<times> string list) list \<Rightarrow> string option) \<Rightarrow> raw_claims \<Rightarrow> string list \<Rightarrow> (string \<times> string list) list \<Rightarrow>
     oidc_error + (string \<times> string list) list" where
  "extract_claims marshal raw [] custom = Inr custom"
| "extract_claims marshal raw (name # names) custom =
     (case map_of raw name of
        None \<Rightarrow> extract_claims marshal raw names custom
      | Some claim \<Rightarrow>
          (case policyClaimValues claim of
             Inl e \<Rightarrow> Inl (InvalidPolicyClaim name)
           | Inr values \<Rightarrow>
               let custom' = AList.update name values custom in
               (case marshal custom' of
                  None \<Rightarrow> Inl PolicyClaimsTooLarge
                | Some encoded \<Rightarrow>
                    if length encoded > maxPolicyClaimsJSONBytes then Inl PolicyClaimsTooLarge
                    else extract_claims marshal raw names custom')))"

definition extractPolicyClaims ::
    "((string \<times> string list) list \<Rightarrow> string option) \<Rightarrow> OIDCConfig \<Rightarrow> raw_claims \<Rightarrow> oidc_error + (string \<times> string list) list" where
  "extractPolicyClaims marshal c raw = extract_claims marshal raw (oc_PolicyClaims c) []"

subsection \<open>ID tokens\<close>

definition token_audiences :: "raw_claims \<Rightarrow> string list option" where
  "token_audiences raw =
     (case map_of raw ''aud'' of
        None \<Rightarrow> Some []
      | Some claim \<Rightarrow> (case json_string claim of Some one \<Rightarrow> Some [one] | None \<Rightarrow> json_strings claim))"

definition validateAudienceAndAuthorizedParty :: "raw_claims \<Rightarrow> string \<Rightarrow> oidc_error option" where
  "validateAudienceAndAuthorizedParty raw clientID =
     (case token_audiences raw of
        None \<Rightarrow> Some InvalidAudience
      | Some audiences \<Rightarrow>
          if \<not> list_ex (\<lambda>a. a = clientID) audiences then Some InvalidAudience
          else (case (case map_of raw ''azp'' of None \<Rightarrow> Some '''' | Some claim \<Rightarrow> json_string claim) of
                  None \<Rightarrow> Some InvalidAuthorizedParty
                | Some authorizedParty \<Rightarrow>
                    if (length audiences > 1 \<or> authorizedParty \<noteq> '''') \<and> authorizedParty \<noteq> clientID
                    then Some InvalidAuthorizedParty else None))"

definition token_groups :: "OIDCConfig \<Rightarrow> raw_claims \<Rightarrow> string list option" where
  "token_groups c raw =
     (case map_of raw (oc_GroupsClaim c) of
        None \<Rightarrow> Some []
      | Some claim \<Rightarrow>
          (case json_strings claim of
             None \<Rightarrow> None
           | Some groups \<Rightarrow> if length groups > 128 then None else Some groups))"

definition verifyToken ::
    "provider_lib \<Rightarrow> ((string \<times> string list) list \<Rightarrow> string option) \<Rightarrow> OIDCConfig \<Rightarrow> string \<Rightarrow> string \<Rightarrow> oidc_error + AuthClaims" where
  "verifyToken L marshal c rawIDToken expectedNonce =
     (if rawIDToken = '''' then Inl OmittedIDToken
      else if \<not> pl_verify L rawIDToken then Inl InvalidIDToken
      else case pl_claims L rawIDToken of
        None \<Rightarrow> Inl InvalidTokenClaims
      | Some raw \<Rightarrow>
          (case validateAudienceAndAuthorizedParty raw (oc_ClientID c) of
             Some e \<Rightarrow> Inl e
           | None \<Rightarrow>
               if expectedNonce \<noteq> '''' \<and> (case claim_string raw ''nonce'' of None \<Rightarrow> '''' | Some n \<Rightarrow> n) \<noteq> expectedNonce
               then Inl InvalidNonce
               else (case claim_string raw ''sub'' of
                  None \<Rightarrow> Inl InvalidSubject
                | Some subject \<Rightarrow>
                    if subject = '''' \<or> length subject > 512 then Inl InvalidSubject
                    else (case token_groups c raw of
                       None \<Rightarrow> Inl InvalidGroups
                     | Some groups \<Rightarrow>
                         if list_ex (\<lambda>g. g = '''' \<or> length g > 256) groups then Inl InvalidGroups
                         else (case extractPolicyClaims marshal c raw of
                            Inl e \<Rightarrow> Inl e
                          | Inr custom \<Rightarrow>
                              Inr \<lparr>au_Issuer = oc_Issuer c, au_Subject = subject, au_Groups = groups, au_CustomClaims = custom\<rparr>)))))"

subsection \<open>Login\<close>

definition provider :: "url_lib \<Rightarrow> provider_lib \<Rightarrow> OIDCConfig \<Rightarrow> oidc_error + providerMetadata" where
  "provider U L c =
     (case pl_metadata L of
        None \<Rightarrow> Inl DiscoveryFailed
      | Some None \<Rightarrow> Inl InvalidMetadata
      | Some (Some metadata) \<Rightarrow>
          if list_ex (\<lambda>endpoint. endpoint \<noteq> '''' \<and> validateProviderEndpoint U c endpoint \<noteq> None)
               [pm_AuthorizationEndpoint metadata, pm_TokenEndpoint metadata, pm_DeviceAuthorizationEndpoint metadata]
          then Inl OutsideIssuer else Inr metadata)"

definition pkceChallenge :: "(string \<Rightarrow> string) \<Rightarrow> string \<Rightarrow> string" where
  "pkceChallenge sha256 verifier = b64_encode RawURLEncoding (sha256 verifier)"

text \<open>\<open>bytes\<close> is what \<^verbatim>\<open>rand.Read\<close> delivered.\<close>

definition randomToken :: "string option \<Rightarrow> oidc_error + string" where
  "randomToken bytes = (case bytes of None \<Rightarrow> Inl RandomFailed | Some b \<Rightarrow> Inr (b64_encode RawURLEncoding b))"

definition NewRandomToken :: "string option \<Rightarrow> nat \<Rightarrow> oidc_error + string" where
  "NewRandomToken bytes n = (if n < 16 \<or> n > 128 then Inl InvalidTokenSize else randomToken bytes)"

text \<open>The state, nonce and verifier are fresh random tokens; \<open>url\<close> builds the authorization URL from the
  metadata, state, nonce and challenge.\<close>

definition BeginLogin ::
    "url_lib \<Rightarrow> provider_lib \<Rightarrow> (loginState \<Rightarrow> string option) \<Rightarrow> (string \<Rightarrow> string \<Rightarrow> string) \<Rightarrow> (string \<Rightarrow> string) \<Rightarrow>
     (providerMetadata \<Rightarrow> string \<Rightarrow> string \<Rightarrow> string \<Rightarrow> string) \<Rightarrow> OIDCConfig \<Rightarrow> int \<Rightarrow> string \<Rightarrow>
     string option \<Rightarrow> string option \<Rightarrow> string option \<Rightarrow> oidc_error + (string \<times> string)" where
  "BeginLogin U L marshal hmac sha256 url c now signingKey b1 b2 b3 =
     (case (randomToken b1, randomToken b2, randomToken b3) of
        (Inr state, Inr nonce, Inr codeVerifier) \<Rightarrow>
          (case signValue marshal hmac
              \<lparr>ls_State = state, ls_Nonce = nonce, ls_CodeVerifier = codeVerifier, ls_ExpiresAt = now + 300\<rparr> signingKey of
             Inl e \<Rightarrow> Inl (StateNotSigned e)
           | Inr signedState \<Rightarrow>
               (case provider U L c of
                  Inl e \<Rightarrow> Inl e
                | Inr metadata \<Rightarrow> Inr (url metadata state nonce (pkceChallenge sha256 codeVerifier), signedState)))
      | _ \<Rightarrow> Inl RandomFailed)"

definition CompleteLogin ::
    "url_lib \<Rightarrow> provider_lib \<Rightarrow> (string \<Rightarrow> loginState option) \<Rightarrow> (string \<Rightarrow> string \<Rightarrow> string) \<Rightarrow> ((string \<times> string list) list \<Rightarrow> string option) \<Rightarrow>
     OIDCConfig \<Rightarrow> int \<Rightarrow> string \<Rightarrow> string \<Rightarrow> string \<Rightarrow> string \<Rightarrow> oidc_error + AuthClaims" where
  "CompleteLogin U L unmarshal hmac marshal c now code state signedState signingKey =
     (case verifyValue unmarshal hmac signedState signingKey of
        Inl e \<Rightarrow> Inl InvalidState
      | Inr saved \<Rightarrow>
          if ls_ExpiresAt saved \<le> now \<or> ls_State saved \<noteq> state \<or> length (ls_CodeVerifier saved) < 43 \<or> length (ls_CodeVerifier saved) > 128
          then Inl InvalidState
          else (case provider U L c of
             Inl e \<Rightarrow> Inl e
           | Inr metadata \<Rightarrow>
               (case pl_exchange L code (ls_CodeVerifier saved) of
                  None \<Rightarrow> Inl ExchangeFailed
                | Some idToken \<Rightarrow> verifyToken L marshal c idToken (ls_Nonce saved))))"

text \<open>The provider's answer while the user has not decided, and the expiry \<^verbatim>\<open>time.Now().Add(time.Duration(n) *
  time.Second)\<close> in nanoseconds, whose product wraps at 64 bits.\<close>

definition provider_codes :: "string list" where
  "provider_codes = [''authorization_pending'', ''slow_down'', ''access_denied'', ''expired_token'']"

definition token_expiry :: "int \<Rightarrow> int \<Rightarrow> int" where
  "token_expiry now_ns expiresIn = now_ns + signed_take_bit 63 (expiresIn * 1000000000)"

definition PollDevice ::
    "url_lib \<Rightarrow> provider_lib \<Rightarrow> ((string \<times> string list) list \<Rightarrow> string option) \<Rightarrow> OIDCConfig \<Rightarrow> int \<Rightarrow> string \<Rightarrow>
     oidc_error + (AuthClaims \<times> int)" where
  "PollDevice U L marshal c now_ns deviceCode =
     (if deviceCode = '''' \<or> length deviceCode > 2048 then Inl InvalidDeviceCode
      else case provider U L c of
        Inl e \<Rightarrow> Inl e
      | Inr metadata \<Rightarrow>
          (case pl_token_request L deviceCode of
             None \<Rightarrow> Inl TokenRequestFailed
           | Some None \<Rightarrow> Inl InvalidTokenResponse
           | Some (Some p) \<Rightarrow>
               if tr_Status p < 200 \<or> tr_Status p \<ge> 300 then
                 (if tr_Error p \<in> set provider_codes then Inl (ProviderErr (tr_Error p)) else Inl DeviceTokenFailed)
               else (case verifyToken L marshal c (tr_IDToken p) '''' of
                  Inl e \<Rightarrow> Inl e
                | Inr claims \<Rightarrow> Inr (claims, token_expiry now_ns (tr_ExpiresIn p)))))"

definition StartDevice :: "url_lib \<Rightarrow> provider_lib \<Rightarrow> (providerMetadata \<Rightarrow> oidc_error + 'r) \<Rightarrow> OIDCConfig \<Rightarrow> oidc_error + 'r" where
  "StartDevice U L deviceAuth c =
     (case provider U L c of
        Inl e \<Rightarrow> Inl e
      | Inr metadata \<Rightarrow>
          if pm_DeviceAuthorizationEndpoint metadata = '''' then Inl NoDeviceAuthorization else deviceAuth metadata)"

end
