(* ===== verification/Auth_Properties.thy ===== *)
theory Auth_Properties
  imports Auth_OIDC
begin

section \<open>Sessions, guards and login: properties\<close>

text \<open>
  A cookie that the server signed comes back as the session it stands for; a context is only ever
  attached to a request with such a cookie (or, in development mode, with the header); what the CSRF guard
  and the check of an ID token establish.
\<close>

subsection \<open>Signed values\<close>

lemma Index_first: "b \<notin> set p \<Longrightarrow> Index (p @ b # s) [b] = Some (length p)"
  by (induction p) auto

lemma SplitN_sep: "b \<notin> set p \<Longrightarrow> SplitN (Suc (Suc n)) (p @ b # s) b = p # SplitN (Suc n) s b"
  by (simp add: Index_first)

lemma Index_single_split: "Index s [b] = Some i \<Longrightarrow> s = take i s @ b # drop (Suc i) s"
  using Index_Some_split [of s "[b]" i] by simp

lemma SplitN_parts: "SplitN 3 v b = [x, y, z] \<Longrightarrow> v = x @ b # y @ b # z"
  by (auto simp: numeral_3_eq_3 split: option.splits dest!: Index_single_split)

text \<open>The form of a value that carries a valid code under the key.\<close>

definition mac_valid :: "(string \<Rightarrow> 'd option) \<Rightarrow> (string \<Rightarrow> string \<Rightarrow> string) \<Rightarrow> string \<Rightarrow> string \<Rightarrow> 'd \<Rightarrow> bool" where
  "mac_valid unmarshal hmac key v d \<longleftrightarrow> 32 \<le> length key \<and>
     (\<exists>enc payload. v = ''v1.'' @ enc @ ''.'' @ b64_encode RawURLEncoding (hmac key enc) \<and>
        b64_decode RawURLEncoding enc = Some payload \<and> unmarshal payload = Some d)"

lemma verifyValue_mac: "verifyValue unmarshal hmac v key = Inr d \<Longrightarrow> mac_valid unmarshal hmac key v d"
  by (auto simp: verifyValue_def mac_valid_def split: if_splits list.splits option.splits dest!: SplitN_parts)

lemma verifyValue_sign:
  assumes "signValue marshal hmac d key = Inr v" "length v \<le> 32 * 1024" "marshal d = Some payload" "unmarshal payload = Some d"
  shows "verifyValue unmarshal hmac v key = Inr d"
proof -
  let ?enc = "b64_encode RawURLEncoding payload"
  have v: "v = ''v1'' @ CHR ''.'' # ?enc @ CHR ''.'' # b64_encode RawURLEncoding (hmac key ?enc)" and k: "32 \<le> length key"
    using assms(1,3) by (auto simp: signValue_def Let_def split: if_splits)
  have "SplitN 3 v (CHR ''.'') = [''v1'', ?enc, b64_encode RawURLEncoding (hmac key ?enc)]"
    unfolding v numeral_3_eq_3 using SplitN_sep [of "CHR ''.''" "''v1''" 1] SplitN_sep [of "CHR ''.''" ?enc 0] b64_encode_plain(3)
    by simp
  then show ?thesis using k assms(2,4) by (simp add: verifyValue_def)
qed

text \<open>Sessions round-trip.  A cookie that \<^verbatim>\<open>SignSession\<close> produced fits its bound and, under the same key, verifies
  to exactly the signed session until its expiry, and to an expiry error from then on.  The hypothesis
  is that the JSON decoder reads back the encoder's text of this session.\<close>

lemma session_roundtrip:
  assumes "SignSession marshal hmac d key = Inr cookie"
    and "\<forall>payload. marshal d = Some payload \<longrightarrow> unmarshal payload = Some d"
  shows "length cookie \<le> maxSessionCookieBytes \<and>
    verifySessionAt unmarshal hmac cookie key now = (if se_ExpiresAt d \<le> now then Inl SessionExpired else Inr d)"
proof -
  have c: "signValue marshal hmac d key = Inr cookie" "length cookie \<le> maxSessionCookieBytes"
    using assms(1) by (auto simp: SignSession_def split: sum.splits if_splits)
  then obtain payload where "marshal d = Some payload" by (auto simp: signValue_def split: if_splits option.splits)
  then have "verifyValue unmarshal hmac cookie key = Inr d"
    using verifyValue_sign [OF c(1)] c(2) assms(2) by (simp add: maxSessionCookieBytes_def)
  then show ?thesis using c(2) by (simp add: verifySessionAt_def)
qed

definition sample_session :: SessionData where
  "sample_session = \<lparr>se_User = \<lparr>au_Issuer = '''', au_Subject = ''bob'', au_Groups = [''ternal-admins''], au_CustomClaims = []\<rparr>,
     se_CSRFToken = ''csrf'', se_ExpiresAt = 1000\<rparr>"

definition sample_hmac :: "string \<Rightarrow> string \<Rightarrow> string" where
  "sample_hmac key m = [char_of (length m + length key)]"

definition sample_key :: string where "sample_key = replicate 32 CHR ''k''"

definition marshal_sample :: "SessionData \<Rightarrow> string option" where
  "marshal_sample d = Some ''session''"

definition unmarshal_sample :: "string \<Rightarrow> SessionData option" where
  "unmarshal_sample s = (if s = ''session'' then Some sample_session else None)"

definition sample_cookie :: string where
  "sample_cookie = (case SignSession marshal_sample sample_hmac sample_session sample_key of Inr c \<Rightarrow> c | Inl _ \<Rightarrow> '''')"

lemma sample_signed: "SignSession marshal_sample sample_hmac sample_session sample_key = Inr sample_cookie"
  by code_simp

subsection \<open>The middleware\<close>

text \<open>C15. No context without proof.  A request leaves the middleware with an authentication context only in
  development mode with the user header, or with a session cookie whose code is valid under the
  server's key, that names the expected issuer, is not revoked according to the store, and is
  unexpired both before and after the store was asked; the context is that session's, and it is an
  administrator's exactly if the session's groups contain the administrator group.  When the store
  cannot tell, the request is refused.\<close>

theorem authMiddleware_sound:
  assumes "authMiddleware unmarshal hmac a revoked now1 now2 r w = (Next (Some ctx), w')"
  shows "(ac_IsAdmin ctx \<longleftrightarrow> am_adminGroup a \<in> set (au_Groups (ac_User ctx))) \<and>
    ((am_devHeaders a \<and> hr_Header r ''X-Ternal-User'' \<noteq> '''' \<and> au_Subject (ac_User ctx) = hr_Header r ''X-Ternal-User'') \<or>
     (\<exists>cookie s. hr_Cookie r SessionCookie = Some cookie \<and> mac_valid unmarshal hmac (am_sessionKey a) cookie s \<and>
        now1 < se_ExpiresAt s \<and> now2 < se_ExpiresAt s \<and> (am_expectedIssuer a = '''' \<or> au_Issuer (se_User s) = am_expectedIssuer a) \<and>
        (case revoked of None \<Rightarrow> True | Some f \<Rightarrow> f cookie w = (Inr False, w')) \<and>
        ac_User ctx = se_User s \<and> ac_CSRFToken ctx = se_CSRFToken s))"
proof (cases "dev_claims a r")
  case (Some claims)
  then show ?thesis using assms by (auto simp: authMiddleware_def dev_claims_def auth_context_def list_ex_iff Let_def split: if_splits)
next
  case None
  then obtain cookie s where c: "hr_Cookie r SessionCookie = Some cookie" "session_ok unmarshal hmac a now1 cookie = Inr s"
    "now2 < se_ExpiresAt s" "ctx = auth_context a (se_User s) (se_CSRFToken s)"
    "case revoked of None \<Rightarrow> True | Some f \<Rightarrow> f cookie w = (Inr False, w')"
    using assms by (auto simp: authMiddleware_def Let_def split: option.splits sum.splits if_splits prod.splits)
  then have "mac_valid unmarshal hmac (am_sessionKey a) cookie s" "now1 < se_ExpiresAt s"
    "am_expectedIssuer a = '''' \<or> au_Issuer (se_User s) = am_expectedIssuer a"
    by (auto simp: session_ok_def verifySessionAt_def split: sum.splits if_splits dest: verifyValue_mac)
  with c show ?thesis by (auto simp: auth_context_def list_ex_iff)
qed

definition sample_auth :: auth_config where
  "sample_auth = \<lparr>am_sessionKey = sample_key, am_devHeaders = False, am_adminGroup = ''ternal-admins'', am_expectedIssuer = ''''\<rparr>"

definition sample_request :: http_request where
  "sample_request = \<lparr>hr_Method = ''POST'', hr_Host = ''ternal'', hr_Header = (\<lambda>k. if k = ''X-CSRF-Token'' then ''csrf'' else ''''),
     hr_Cookie = (\<lambda>k. if k = ''ternal_session'' then Some sample_cookie else None), hr_FormValue = (\<lambda>_. '''')\<rparr>"

definition sample_context :: AuthContext where
  "sample_context = auth_context sample_auth (se_User sample_session) (se_CSRFToken sample_session)"

definition never_revoked :: "string \<Rightarrow> unit \<Rightarrow> (bool, unit) outcome" where
  "never_revoked cookie = return False"

lemma sample_authenticated:
  "authMiddleware unmarshal_sample sample_hmac sample_auth (Some never_revoked) 500 501 sample_request () = (Next (Some sample_context), ())"
  by code_simp

theorem authMiddleware_sound_witness:
  "ac_IsAdmin sample_context \<and>
   (\<exists>cookie s. hr_Cookie sample_request SessionCookie = Some cookie \<and> mac_valid unmarshal_sample sample_hmac sample_key cookie s \<and> 501 < se_ExpiresAt s)"
proof
  show "ac_IsAdmin sample_context" by code_simp
  show "\<exists>cookie s. hr_Cookie sample_request SessionCookie = Some cookie \<and> mac_valid unmarshal_sample sample_hmac sample_key cookie s \<and> 501 < se_ExpiresAt s"
    using authMiddleware_sound [OF sample_authenticated] by (auto simp: sample_auth_def)
qed

text \<open>C17. Cross-site requests cannot change state.  A POST, PUT or DELETE passes the guard only for an
  authenticated request that carries its session's CSRF token and whose \<^verbatim>\<open>Origin\<close>, or in its absence
  \<^verbatim>\<open>Referer\<close>, is missing or names this host over HTTPS or a loopback address.\<close>

theorem RequireCSRF_sound:
  assumes "RequireCSRF L r auth = None" "hr_Method r \<in> {''POST'', ''PUT'', ''DELETE''}"
  shows "\<exists>a. auth = Some a \<and>
    (hr_Header r CSRFHeader = ac_CSRFToken a \<or> (hr_Header r CSRFHeader = '''' \<and> hr_FormValue r ''_csrf'' = ac_CSRFToken a)) \<and>
    ((hr_Header r ''Origin'' = '''' \<and> hr_Header r ''Referer'' = '''') \<or>
     (\<exists>u. ul_Parse L (if hr_Header r ''Origin'' = '''' then hr_Header r ''Referer'' else hr_Header r ''Origin'') = Some u \<and>
        ul_EqualFold L (u_Host u) (hr_Host r) \<and>
        (u_Scheme u = ''https'' \<or> (u_Scheme u = ''http'' \<and> isLoopbackHost (u_Hostname u)))))"
  using assms
  by (auto simp: RequireCSRF_def browserRequestOriginAllowed_def secure_url_def Let_def split: option.splits if_splits)

definition sample_url :: url_lib where
  "sample_url = \<lparr>ul_Parse = (\<lambda>s. Some \<lparr>u_Scheme = ''https'', u_Host = s, u_Hostname = s, u_RawQuery = '''', u_Fragment = '''', u_User = False\<rparr>),
     ul_EqualFold = (=)\<rparr>"

theorem RequireCSRF_sound_witness:
  "\<exists>a. Some sample_context = Some a \<and> hr_Header sample_request CSRFHeader = ac_CSRFToken a"
proof -
  have "RequireCSRF sample_url sample_request (Some sample_context) = None" by code_simp
  from RequireCSRF_sound [OF this] show ?thesis by (auto simp: sample_request_def CSRFHeader_def)
qed

subsection \<open>Login\<close>

text \<open>Every policy claim has a configured name, and its values are those of the token's claim of that name, which were
  few enough, and each a trimmed, non-empty, valid text without control characters.\<close>

definition claims_bounded :: "raw_claims \<Rightarrow> string list \<Rightarrow> (string \<times> string list) list \<Rightarrow> bool" where
  "claims_bounded raw names custom \<longleftrightarrow> (\<forall>(n, vs) \<in> set custom. n \<in> set names \<and>
     (\<exists>claim. map_of raw n = Some claim \<and> (json_string claim = Some (hd vs) \<and> length vs = 1 \<or> json_strings claim = Some vs)) \<and>
     vs \<noteq> [] \<and> length vs \<le> maxPolicyClaimValues \<and> (\<forall>v \<in> set vs. validPolicyClaimValue v))"

lemma policyClaimValues_bounded:
  "policyClaimValues raw = Inr vs \<Longrightarrow> vs \<noteq> [] \<and> length vs \<le> maxPolicyClaimValues \<and> (\<forall>v \<in> set vs. validPolicyClaimValue v) \<and>
     (json_string raw = Some (hd vs) \<and> length vs = 1 \<or> json_strings raw = Some vs)"
  by (auto simp: policyClaimValues_def maxPolicyClaimValues_def list_all_iff split: option.splits if_splits)

lemma alist_update_subset: "set (AList.update k v xs) \<subseteq> insert (k, v) (set xs)"
  by (induction xs) auto

lemma claims_bounded_update:
  assumes "claims_bounded raw names custom" "map_of raw n = Some claim" "policyClaimValues claim = Inr vs" "n \<in> set names"
  shows "claims_bounded raw names (AList.update n vs custom)"
proof -
  have "claims_bounded raw names ((n, vs) # custom)"
    using assms(1,2,4) policyClaimValues_bounded [OF assms(3)] by (simp add: claims_bounded_def)
  then show ?thesis using alist_update_subset [of n vs custom] unfolding claims_bounded_def list.set by (meson subset_eq)
qed

text \<open>The JSON text of the claims is bounded after every claim that is added, and so in the end.\<close>

definition claims_json_bounded :: "((string \<times> string list) list \<Rightarrow> string option) \<Rightarrow> (string \<times> string list) list \<Rightarrow> bool" where
  "claims_json_bounded marshal custom \<longleftrightarrow>
     custom = [] \<or> (\<exists>encoded. marshal custom = Some encoded \<and> length encoded \<le> maxPolicyClaimsJSONBytes)"

lemma extract_claims_bounded:
  "extract_claims marshal raw names custom = Inr c \<Longrightarrow> set names \<subseteq> set all \<Longrightarrow> claims_bounded raw all custom \<Longrightarrow>
   claims_json_bounded marshal custom \<Longrightarrow> claims_bounded raw all c \<and> claims_json_bounded marshal c"
proof (induction marshal raw names custom rule: extract_claims.induct)
  case (2 marshal raw name names custom)
  show ?case
  proof (cases "map_of raw name")
    case (Some claim)
    then obtain vs where vs: "policyClaimValues claim = Inr vs" and rest: "extract_claims marshal raw names (AList.update name vs custom) = Inr c"
      using 2(3) by (auto simp: Let_def split: sum.splits option.splits if_splits)
    have "claims_bounded raw all (AList.update name vs custom)"
      using 2(4,5) by (intro claims_bounded_update [OF _ Some vs]) simp_all
    moreover obtain enc where enc: "marshal (AList.update name vs custom) = Some enc" "\<not> maxPolicyClaimsJSONBytes < length enc"
      using 2(3) Some vs by (auto simp: Let_def split: option.splits if_splits)
    moreover have "claims_json_bounded marshal (AList.update name vs custom)" using enc by (simp add: claims_json_bounded_def)
    ultimately show ?thesis using 2(2) [OF Some vs refl] rest 2(4) by auto
  qed (use 2 in simp)
qed simp

text \<open>The token is for this client: it is among the audiences, and the authorized party, which several audiences require,
  is this client wherever the token names one.\<close>

definition issued_for :: "raw_claims \<Rightarrow> string \<Rightarrow> bool" where
  "issued_for raw clientID \<longleftrightarrow>
     (\<exists>auds azp. token_audiences raw = Some auds \<and> clientID \<in> set auds \<and>
        (case map_of raw ''azp'' of None \<Rightarrow> azp = '''' | Some claim \<Rightarrow> json_string claim = Some azp) \<and>
        (length auds > 1 \<or> azp \<noteq> '''' \<longrightarrow> azp = clientID))"

lemma audience_ok: "validateAudienceAndAuthorizedParty raw clientID = None \<Longrightarrow> issued_for raw clientID"
  by (auto simp: validateAudienceAndAuthorizedParty_def issued_for_def list_ex_iff split: option.splits if_splits)

lemma verifyToken_ok:
  assumes "verifyToken L marshal c tok nonce = Inr claims"
  obtains raw where "tok \<noteq> ''''" "pl_verify L tok" "pl_claims L tok = Some raw" "issued_for raw (oc_ClientID c)"
    "nonce = '''' \<or> claim_string raw ''nonce'' = Some nonce" "claim_string raw ''sub'' = Some (au_Subject claims)"
    "au_Issuer claims = oc_Issuer c" "au_Subject claims \<noteq> ''''" "length (au_Subject claims) \<le> 512"
    "token_groups c raw = Some (au_Groups claims)" "length (au_Groups claims) \<le> 128"
    "\<forall>g \<in> set (au_Groups claims). g \<noteq> '''' \<and> length g \<le> 256"
    "claims_bounded raw (oc_PolicyClaims c) (au_CustomClaims claims)" "claims_json_bounded marshal (au_CustomClaims claims)"
proof -
  obtain raw groups custom where raw: "tok \<noteq> ''''" "pl_verify L tok" "pl_claims L tok = Some raw" "issued_for raw (oc_ClientID c)"
    "nonce = '''' \<or> claim_string raw ''nonce'' = Some nonce" "claim_string raw ''sub'' = Some (au_Subject claims)"
    "au_Issuer claims = oc_Issuer c" "au_Subject claims \<noteq> ''''" "length (au_Subject claims) \<le> 512"
    and groups: "token_groups c raw = Some groups" "\<not> list_ex (\<lambda>g. g = '''' \<or> length g > 256) groups" "au_Groups claims = groups"
    and custom: "extractPolicyClaims marshal c raw = Inr custom" "au_CustomClaims claims = custom"
    using assms by (auto simp: verifyToken_def split: if_splits option.splits sum.splits dest: audience_ok)
  have "length groups \<le> 128" using groups(1) by (auto simp: token_groups_def split: option.splits if_splits)
  moreover have "\<forall>g \<in> set groups. g \<noteq> '''' \<and> length g \<le> 256" using groups(2) by (auto simp: list_ex_iff)
  moreover have "claims_bounded raw (oc_PolicyClaims c) custom \<and> claims_json_bounded marshal custom"
    using extract_claims_bounded [of marshal raw "oc_PolicyClaims c" "[]" custom "oc_PolicyClaims c"] custom(1)
    by (simp add: extractPolicyClaims_def claims_bounded_def claims_json_bounded_def)
  ultimately show thesis using that raw groups(1,3) custom(2) by blast
qed

text \<open>C27. What a completed login means.  The state cookie carries a valid code, is unexpired, names the
  \<^verbatim>\<open>state\<close> of the callback and has a code verifier of 43 to 128 bytes; the provider's metadata was accepted; the ID token is the one
  exchanged for the code and that verifier, it passed the library's check, was issued for this client (audience and
  authorized party) and carries the nonce of the state.  The claims come from this token under the configured
  issuer: a subject of 1 to 512 bytes; the token's groups, at most 128, each of 1 to 256 bytes; policy claims only
  of the configured names, with the token's values, each a valid one, whose JSON text together is within
  its bound.\<close>

theorem CompleteLogin_sound:
  assumes "CompleteLogin U L unmarshal hmac marshal c now code state signedState key = Inr claims"
  shows "\<exists>saved metadata tok raw. mac_valid unmarshal hmac key signedState saved \<and> now < ls_ExpiresAt saved \<and> ls_State saved = state \<and>
    43 \<le> length (ls_CodeVerifier saved) \<and> length (ls_CodeVerifier saved) \<le> 128 \<and> provider U L c = Inr metadata \<and>
    pl_exchange L code (ls_CodeVerifier saved) = Some tok \<and> tok \<noteq> '''' \<and> pl_verify L tok \<and> pl_claims L tok = Some raw \<and>
    issued_for raw (oc_ClientID c) \<and> (ls_Nonce saved = '''' \<or> claim_string raw ''nonce'' = Some (ls_Nonce saved)) \<and>
    au_Issuer claims = oc_Issuer c \<and> claim_string raw ''sub'' = Some (au_Subject claims) \<and> au_Subject claims \<noteq> '''' \<and>
    length (au_Subject claims) \<le> 512 \<and> token_groups c raw = Some (au_Groups claims) \<and> length (au_Groups claims) \<le> 128 \<and>
    (\<forall>g \<in> set (au_Groups claims). g \<noteq> '''' \<and> length g \<le> 256) \<and>
    claims_bounded raw (oc_PolicyClaims c) (au_CustomClaims claims) \<and> claims_json_bounded marshal (au_CustomClaims claims)"
proof -
  obtain saved metadata tok where s: "verifyValue unmarshal hmac signedState key = Inr saved" "now < ls_ExpiresAt saved" "ls_State saved = state"
    "43 \<le> length (ls_CodeVerifier saved)" "length (ls_CodeVerifier saved) \<le> 128" "provider U L c = Inr metadata"
    "pl_exchange L code (ls_CodeVerifier saved) = Some tok" and t: "verifyToken L marshal c tok (ls_Nonce saved) = Inr claims"
    using assms by (auto simp: CompleteLogin_def not_le not_less split: sum.splits if_splits option.splits)
  from t obtain raw where r: "tok \<noteq> ''''" "pl_verify L tok" "pl_claims L tok = Some raw" "issued_for raw (oc_ClientID c)"
    "ls_Nonce saved = '''' \<or> claim_string raw ''nonce'' = Some (ls_Nonce saved)" "claim_string raw ''sub'' = Some (au_Subject claims)"
    "au_Issuer claims = oc_Issuer c" "au_Subject claims \<noteq> ''''" "length (au_Subject claims) \<le> 512"
    "token_groups c raw = Some (au_Groups claims)" "length (au_Groups claims) \<le> 128"
    "\<forall>g \<in> set (au_Groups claims). g \<noteq> '''' \<and> length g \<le> 256"
    "claims_bounded raw (oc_PolicyClaims c) (au_CustomClaims claims)" "claims_json_bounded marshal (au_CustomClaims claims)"
    by (rule verifyToken_ok)
  show ?thesis
    by (intro exI [of _ saved] exI [of _ metadata] exI [of _ tok] exI [of _ raw] conjI) (fact s r verifyValue_mac [OF s(1)])+
qed

definition sample_oidc :: OIDCConfig where
  "sample_oidc = \<lparr>oc_Issuer = ''iss'', oc_ClientID = ''ternal'', oc_ClientSecret = ''s'', oc_RedirectURL = ''r'', oc_AdminGroup = ''ternal-admins'',
     oc_GroupsClaim = ''groups'', oc_PolicyClaims = [''team'']\<rparr>"

definition sample_state :: loginState where
  "sample_state = \<lparr>ls_State = ''st'', ls_Nonce = ''n'', ls_CodeVerifier = replicate 43 CHR ''v'', ls_ExpiresAt = 900\<rparr>"

definition sample_raw :: raw_claims where
  "sample_raw = [(''aud'', JString ''ternal''), (''sub'', JString ''bob''), (''nonce'', JString ''n''), (''team'', JArray [JString ''infra''])]"

definition sample_provider :: provider_lib where
  "sample_provider = \<lparr>pl_metadata = Some (Some \<lparr>pm_Issuer = ''iss'', pm_AuthorizationEndpoint = '''', pm_TokenEndpoint = '''', pm_DeviceAuthorizationEndpoint = ''''\<rparr>),
     pl_exchange = (\<lambda>_ _. Some ''tok''), pl_verify = (\<lambda>_. True), pl_claims = (\<lambda>_. Some sample_raw), pl_token_request = (\<lambda>_. None)\<rparr>"

definition unmarshal_state :: "string \<Rightarrow> loginState option" where
  "unmarshal_state s = (if s = ''state'' then Some sample_state else None)"

definition sample_state_cookie :: string where
  "sample_state_cookie = (case signValue (\<lambda>_. Some ''state'') sample_hmac sample_state sample_key of Inr c \<Rightarrow> c | Inl _ \<Rightarrow> '''')"

definition sample_claims :: AuthClaims where
  "sample_claims = \<lparr>au_Issuer = ''iss'', au_Subject = ''bob'', au_Groups = [], au_CustomClaims = [(''team'', [''infra''])]\<rparr>"

theorem CompleteLogin_sound_witness:
  "\<exists>saved. mac_valid unmarshal_state sample_hmac sample_key sample_state_cookie saved \<and> ls_State saved = ''st'' \<and>
     au_Issuer sample_claims = ''iss''"
proof -
  have "CompleteLogin sample_url sample_provider unmarshal_state sample_hmac (\<lambda>_. Some '''') sample_oidc 800 ''code'' ''st'' sample_state_cookie sample_key =
      Inr sample_claims" by code_simp
  from CompleteLogin_sound [OF this] show ?thesis by (auto simp: sample_oidc_def)
qed

end
