(* ===== verification/Api_Base.thy ===== *)
theory Api_Base
  imports Auth_OIDC Device_Auth Store_Devices
begin

section \<open>HTTP API: responses, configuration, shared checks (internal/api/api.go)\<close>

text \<open>
  A handler is a function of the server's configuration, the connection, the decoded request and the
  world; it returns the response and the new world.  A request body that does not decode is \<open>None\<close>.
  Every call a handler makes to the store has its own \<open>tick\<close>: whether the wait for the store's lock
  succeeded, the clock readings and the fresh identifiers the call uses; \<open>t 0\<close>, \<open>t 1\<close>, ... in the order of
  the calls in the source.  A loop over policies reads the clock once.
\<close>

record tick =
  ti_ok :: bool
  ti_now :: int
  ti_now2 :: int
  ti_id1 :: string
  ti_id2 :: string
  ti_id3 :: string

type_synonym ticks = "nat \<Rightarrow> tick"

record publicHost =
  ph_ID :: string
  ph_Name :: string
  ph_SSHUser :: string
  ph_Tags :: go_map
  ph_SSHPort :: uint16
  ph_Status :: string
  ph_Owner :: string
  ph_LastSeen :: "int option"

text \<open>The values the handlers write; the last two errors carry the text of an error value.\<close>

datatype body =
    BStatus string | BHosts "publicHost list" | BHost Host | BPolicies "Policy list" | BPolicy Policy
  | BCommand SshCommand string | BConfigs "string list" | BRelayGrant RelayAccessGrant | BDiscovery EndpointDiscovery
  | BInstalled bool | BGrants "AccessGrant list" | BRequests "AccessRequest list" | BKeys "SshKey list" | BKey SshKey
  | BTokens "ManufacturingToken list" | BToken ManufacturingToken | BBatches "ManufacturingBatch list"
  | BBatch ManufacturingBatch string | BDevice Device | BDevices "Device list" | BKeysText string string int
  | BSession "AuthContext option" | BDeviceSession string string int | BDecision bool | BRedirect string | BMetrics | BEmpty
  | BError string | BStoreError store_error | BCommandError CommandError

record response =
  rp_Status :: nat
  rp_Body :: body
  rp_Cookies :: "cookie list"

definition writeJSON :: "nat \<Rightarrow> body \<Rightarrow> response" where
  "writeJSON status b = \<lparr>rp_Status = status, rp_Body = b, rp_Cookies = []\<rparr>"

definition writeError :: "nat \<Rightarrow> string \<Rightarrow> response" where
  "writeError status msg = writeJSON status (BError (if status = 500 then ''internal server error'' else msg))"

text \<open>\<^verbatim>\<open>writeError(w, status, err.Error())\<close>: the text of an internal error is not sent.\<close>

definition writeStoreError :: "nat \<Rightarrow> store_error \<Rightarrow> response" where
  "writeStoreError status e = (if status = 500 then writeError 500 '''' else writeJSON status (BStoreError e))"

definition writeRelayDecision :: "nat \<Rightarrow> bool \<Rightarrow> response" where
  "writeRelayDecision status allowed = writeJSON status (BDecision allowed)"

text \<open>A call to the store, and what the handler does with an error and with a result.\<close>

definition call ::
    "('a, 'w) outcome \<Rightarrow> (store_error \<Rightarrow> 'w \<Rightarrow> response \<times> 'w) \<Rightarrow> ('a \<Rightarrow> 'w \<Rightarrow> response \<times> 'w) \<Rightarrow> response \<times> 'w" where
  "call r onErr k = (case r of (Inl e, w) \<Rightarrow> onErr e w | (Inr a, w) \<Rightarrow> k a w)"

definition answer :: "response \<Rightarrow> 'w \<Rightarrow> response \<times> 'w" where
  "answer r w = (r, w)"

abbreviation internal :: "store_error \<Rightarrow> 'w \<Rightarrow> response \<times> 'w" where
  "internal e \<equiv> answer (writeStoreError 500 e)"

abbreviation ok_status :: response where
  "ok_status \<equiv> writeJSON 200 (BStatus ''ok'')"

definition badRequest :: response where
  "badRequest = writeError 400 ''invalid request body''"

subsection \<open>The server\<close>

text \<open>\<open>sv_parse_key\<close> is \<^verbatim>\<open>ssh.ParseAuthorizedKey\<close>: the canonical text of the key, its comment, what follows it in
  the input, and its fingerprint.\<close>

record parsed_key =
  pk_canonical :: string
  pk_comment :: string
  pk_rest :: string
  pk_fingerprint :: string

record server =
  sv_sha256 :: "string \<Rightarrow> string"
  sv_hash :: "string \<Rightarrow> string"
  sv_hmac :: "string \<Rightarrow> string \<Rightarrow> string"
  sv_marshal :: "SessionData \<Rightarrow> string option"
  sv_unmarshal :: "string \<Rightarrow> SessionData option"
  sv_marshal_discovery :: "Discovery \<Rightarrow> string"
  sv_ed :: ed25519
  sv_url :: url_lib
  sv_parse_key :: "string \<Rightarrow> parsed_key option"
  sv_auth :: OIDCConfig
  sv_oidcErr :: bool
  sv_sessionKey :: string
  sv_relayToken :: string
  sv_sessionTTL :: int
  sv_devHeaders :: bool
  sv_configErr :: bool

datatype config_error = SessionKeyShort | SessionTTLRange

text \<open>The part of \<^verbatim>\<open>NewServer\<close> that reads the session settings: key and lifetime in seconds; \<open>random\<close> is the
  generated key.\<close>

definition session_settings :: "(string \<Rightarrow> string) \<Rightarrow> string \<Rightarrow> string \<times> int \<times> config_error option" where
  "session_settings env random =
     (let key = env ''TERNAL_SESSION_KEY''; raw = env ''TERNAL_SESSION_TTL_SECONDS'';
          sessionKey = (if key = '''' then random else key);
          keyErr = (if key \<noteq> '''' \<and> length key < 32 then Some SessionKeyShort else None) in
      if raw = '''' then (sessionKey, 3600, keyErr)
      else case ParseInt raw 32 of
        None \<Rightarrow> (sessionKey, 3600, Some SessionTTLRange)
      | Some seconds \<Rightarrow>
          if seconds < 60 \<or> seconds > 3600 then (sessionKey, 3600, Some SessionTTLRange) else (sessionKey, seconds, keyErr))"

datatype runtime_error = ConfigErr | InvalidBind | DevHeadersBind | SessionKeyRequired | OIDCInvalid | RelayTokenShort

definition ValidateRuntime :: "server \<Rightarrow> (string \<Rightarrow> string) \<Rightarrow> string \<Rightarrow> runtime_error option" where
  "ValidateRuntime s env bind =
     (if sv_configErr s then Some ConfigErr
      else case SplitHostPort bind of
        None \<Rightarrow> Some InvalidBind
      | Some (host, _) \<Rightarrow>
          let loopback = (host = ''localhost'' \<or> host = ''127.0.0.1'' \<or> host = ''::1'') in
          if sv_devHeaders s \<and> \<not> loopback then Some DevHeadersBind
          else if \<not> sv_devHeaders s \<and> env ''TERNAL_SESSION_KEY'' = '''' then Some SessionKeyRequired
          else if \<not> sv_devHeaders s \<and> sv_oidcErr s then Some OIDCInvalid
          else if env ''TERNAL_RELAY_BIND'' \<noteq> '''' \<and> length (sv_relayToken s) < 32 then Some RelayTokenShort
          else None)"

subsection \<open>Identity and policy\<close>

definition principal_of :: "server \<Rightarrow> AuthContext \<Rightarrow> string" where
  "principal_of s identity = PrincipalID (sv_sha256 s) (ac_User identity)"

definition authClaims :: "server \<Rightarrow> AuthContext \<Rightarrow> UserClaims" where
  "authClaims s identity =
     \<lparr>uc_Subject = principal_of s identity, uc_Groups = au_Groups (ac_User identity), uc_CustomClaims = au_CustomClaims (ac_User identity)\<rparr>"

definition account_allowed :: "server \<Rightarrow> AuthContext \<Rightarrow> int \<Rightarrow> Host \<Rightarrow> Policy list \<Rightarrow> string \<Rightarrow> bool" where
  "account_allowed s identity now host ps sshUser =
     list_ex (\<lambda>p. PolicyAllowsSSHUser now (authClaims s identity) host p sshUser) ps"

definition isHex :: "string \<Rightarrow> bool" where
  "isHex v = list_all is_hex_digit v"

text \<open>\<^verbatim>\<open>strings.ToLower\<close> of an ASCII string.\<close>

definition ToLower :: "string \<Rightarrow> string" where
  "ToLower = map ascii_lower"

definition publicHosts :: "Host list \<Rightarrow> publicHost list" where
  "publicHosts hs = map (\<lambda>h. \<lparr>ph_ID = h_ID h, ph_Name = h_Name h, ph_SSHUser = h_SSHUser h, ph_Tags = h_Tags h,
     ph_SSHPort = h_SSHPort h, ph_Status = h_Status h, ph_Owner = h_Owner h, ph_LastSeen = h_LastSeen h\<rparr>) hs"

definition canAccessHost :: "server \<Rightarrow> 'w conn \<Rightarrow> tick \<Rightarrow> AuthContext option \<Rightarrow> Host \<Rightarrow> string \<Rightarrow> 'w \<Rightarrow> bool" where
  "canAccessHost s c ti auth host sshUser w =
     (case auth of
        None \<Rightarrow> False
      | Some identity \<Rightarrow>
          if ac_IsAdmin identity then True
          else case ListPolicies c (ti_ok ti) w of
            (Inl e, _) \<Rightarrow> False
          | (Inr ps, _) \<Rightarrow> account_allowed s identity (ti_now2 ti) host ps sshUser)"

end
