(* ===== verification/Api_Access.thy ===== *)
theory Api_Access
  imports Api_Base
begin

section \<open>HTTP API: hosts, policies, access, SSH keys (internal/api/api.go)\<close>

text \<open>
  The handlers that users and administrators call.  A handler behind \<^verbatim>\<open>RequireAuth\<close> takes the
  authentication context itself; the ones that check for its absence take an option.
\<close>

subsection \<open>Hosts\<close>

definition handleListHosts :: "server \<Rightarrow> 'w conn \<Rightarrow> ticks \<Rightarrow> AuthContext \<Rightarrow> 'w \<Rightarrow> response \<times> 'w" where
  "handleListHosts s c t identity w =
     call (ListHosts c (ti_ok (t 0)) w) internal (\<lambda>hs w.
       if ac_IsAdmin identity then answer (writeJSON 200 (BHosts (publicHosts hs))) w
       else call (ListPolicies c (ti_ok (t 1)) w) internal (\<lambda>ps.
         answer (writeJSON 200 (BHosts (publicHosts (FilterVisibleHosts (ti_now2 (t 1)) (authClaims s identity) hs ps))))))"

definition handleCreateHost :: "server \<Rightarrow> 'w conn \<Rightarrow> ticks \<Rightarrow> AuthContext \<Rightarrow> NewHost option \<Rightarrow> 'w \<Rightarrow> response \<times> 'w" where
  "handleCreateHost s c t identity b w =
     (case b of
        None \<Rightarrow> (badRequest, w)
      | Some h \<Rightarrow>
          call (CreateHost c (ti_ok (t 0)) (ti_id1 (t 0)) (ti_id2 (t 0)) (ti_now (t 0)) h (principal_of s identity) w) internal
            (\<lambda>created. answer (writeJSON 201 (BHost created))))"

definition handleGetHost :: "server \<Rightarrow> 'w conn \<Rightarrow> ticks \<Rightarrow> AuthContext \<Rightarrow> string \<Rightarrow> 'w \<Rightarrow> response \<times> 'w" where
  "handleGetHost s c t identity i w =
     call (GetHost c (ti_ok (t 0)) i w) internal (\<lambda>h w.
       case h of
         None \<Rightarrow> (writeError 404 ''host not found'', w)
       | Some host \<Rightarrow>
           if ac_IsAdmin identity then (writeJSON 200 (BHost host), w)
           else call (ListPolicies c (ti_ok (t 1)) w) internal (\<lambda>ps.
             if \<not> account_allowed s identity (ti_now2 (t 1)) host ps (h_SSHUser host) then answer (writeError 404 ''host not found'')
             else answer (writeJSON 200 (BHost host))))"

definition handleUpdateHost :: "server \<Rightarrow> 'w conn \<Rightarrow> ticks \<Rightarrow> AuthContext \<Rightarrow> string \<Rightarrow> NewHost option \<Rightarrow> 'w \<Rightarrow> response \<times> 'w" where
  "handleUpdateHost s c t identity i b w =
     (case b of
        None \<Rightarrow> (badRequest, w)
      | Some h \<Rightarrow>
          call (UpdateHost c (ti_ok (t 0)) (ti_id1 (t 0)) (ti_now (t 0)) i h (principal_of s identity) w) internal (\<lambda>_. answer ok_status))"

definition handleDeleteHost :: "server \<Rightarrow> 'w conn \<Rightarrow> ticks \<Rightarrow> AuthContext \<Rightarrow> string \<Rightarrow> 'w \<Rightarrow> response \<times> 'w" where
  "handleDeleteHost s c t identity i w =
     call (DeleteHost c (ti_ok (t 0)) (ti_id1 (t 0)) (ti_now (t 0)) i (principal_of s identity) w) internal (\<lambda>_. answer ok_status)"

subsection \<open>Policies\<close>

definition handleListPolicies :: "'w conn \<Rightarrow> ticks \<Rightarrow> 'w \<Rightarrow> response \<times> 'w" where
  "handleListPolicies c t w = call (ListPolicies c (ti_ok (t 0)) w) internal (\<lambda>ps. answer (writeJSON 200 (BPolicies ps)))"

definition handleCreatePolicy :: "server \<Rightarrow> 'w conn \<Rightarrow> ticks \<Rightarrow> AuthContext \<Rightarrow> NewPolicy option \<Rightarrow> 'w \<Rightarrow> response \<times> 'w" where
  "handleCreatePolicy s c t identity b w =
     (case b of
        None \<Rightarrow> (badRequest, w)
      | Some p \<Rightarrow>
          call (CreatePolicy c (ti_ok (t 0)) (ti_id1 (t 0)) (ti_id2 (t 0)) (ti_now (t 0)) p (principal_of s identity) w) internal
            (\<lambda>created. answer (writeJSON 201 (BPolicy created))))"

definition handleUpdatePolicy :: "server \<Rightarrow> 'w conn \<Rightarrow> ticks \<Rightarrow> AuthContext \<Rightarrow> string \<Rightarrow> NewPolicy option \<Rightarrow> 'w \<Rightarrow> response \<times> 'w" where
  "handleUpdatePolicy s c t identity i b w =
     (case b of
        None \<Rightarrow> (badRequest, w)
      | Some p \<Rightarrow>
          call (UpdatePolicy c (ti_ok (t 0)) (ti_id1 (t 0)) (ti_now (t 0)) i p (principal_of s identity) w) internal (\<lambda>_. answer ok_status))"

definition handleDeletePolicy :: "server \<Rightarrow> 'w conn \<Rightarrow> ticks \<Rightarrow> AuthContext \<Rightarrow> string \<Rightarrow> 'w \<Rightarrow> response \<times> 'w" where
  "handleDeletePolicy s c t identity i w =
     call (DeletePolicy c (ti_ok (t 0)) (ti_id1 (t 0)) (ti_now (t 0)) i (principal_of s identity) w) internal (\<lambda>_. answer ok_status)"

subsection \<open>SSH access\<close>

record issue_request =
  is_HostID :: string
  is_SSHUser :: string

text \<open>The decision: administrators pass, others need a policy for the account; a denial is recorded.\<close>

definition authorize_account ::
    "server \<Rightarrow> 'w conn \<Rightarrow> tick \<Rightarrow> tick \<Rightarrow> string \<Rightarrow> AuthContext \<Rightarrow> Host \<Rightarrow> string \<Rightarrow> ('w \<Rightarrow> response \<times> 'w) \<Rightarrow> 'w \<Rightarrow> response \<times> 'w" where
  "authorize_account s c t1 t2 action identity host sshUser k w =
     (if ac_IsAdmin identity then k w
      else call (ListPolicies c (ti_ok t1) w) internal (\<lambda>ps w.
        if \<not> account_allowed s identity (ti_now2 t1) host ps sshUser then
          call (RecordPolicyDenied c (ti_ok t2) (ti_id1 t2) (ti_now t2) action (h_ID host) (principal_of s identity) w) internal
            (\<lambda>_. answer (writeError 404 ''host not found''))
        else k w))"

definition issue_command :: "Host \<Rightarrow> Device \<Rightarrow> EndpointDiscovery \<Rightarrow> string \<Rightarrow> CommandError + SshCommand" where
  "issue_command host device discovery sshUser =
     BuildStrictGrantAwareSSHCommand ''ternalctl'' (h_ID host) (h_EndpointID host) sshUser (h_SSHPort host)
       (d_SSHHostKeyFingerprint device) \<lparr>rc_RelayURLs = ed_RelayURLs discovery, rc_ExtraRelayURLs = []\<rparr> (ed_DirectAddresses discovery)"

definition issue_grant ::
    "server \<Rightarrow> 'w conn \<Rightarrow> ticks \<Rightarrow> AuthContext \<Rightarrow> Host \<Rightarrow> string \<Rightarrow> SshCommand \<Rightarrow> 'w \<Rightarrow> response \<times> 'w" where
  "issue_grant s c t identity host sshUser cmd w =
     (let principalID = principal_of s identity in
      call (ListSSHKeys c (ti_ok (t 5)) principalID w) internal (\<lambda>ks w.
        if ks = [] then (writeError 409 ''register an SSH public key before requesting access'', w)
        else call (IssueSSHAccess c (ti_ok (t 6)) (ti_id1 (t 6)) (ti_id2 (t 6)) (ti_id3 (t 6)) (ti_now (t 6)) principalID (h_ID host) sshUser
                     (ti_now2 (t 6) + 300) w)
               internal (\<lambda>grantID. answer (writeJSON 200 (BCommand cmd grantID)))))"

text \<open>What follows the decision: device, host key, routes, command, grant.\<close>

definition issue_authorized ::
    "server \<Rightarrow> 'w conn \<Rightarrow> ticks \<Rightarrow> AuthContext \<Rightarrow> Host \<Rightarrow> string \<Rightarrow> 'w \<Rightarrow> response \<times> 'w" where
  "issue_authorized s c t identity host sshUser w =
     call (GetDeviceByHostID c (ti_ok (t 3)) (h_ID host) w) internal (\<lambda>dv w.
       case dv of
         None \<Rightarrow> (writeError 404 ''host not found'', w)
       | Some device \<Rightarrow>
           if d_State device = ''revoked'' then (writeError 404 ''host not found'', w)
           else if \<not> ValidHostKeyFingerprint (d_SSHHostKeyFingerprint device) then
             (writeError 409 ''host has no verified SSH host-key fingerprint'', w)
           else call (GetEndpointDiscovery c (ti_ok (t 4)) (h_ID host) w) internal (\<lambda>dc w.
             case dc of
               None \<Rightarrow> (writeError 409 ''host has no explicit relay or direct route'', w)
             | Some discovery \<Rightarrow>
                 (case issue_command host device discovery sshUser of
                    Inl e \<Rightarrow> (writeJSON 400 (BCommandError e), w)
                  | Inr cmd \<Rightarrow> issue_grant s c t identity host sshUser cmd w)))"

definition handleIssueSSHCommand ::
    "server \<Rightarrow> 'w conn \<Rightarrow> ticks \<Rightarrow> AuthContext \<Rightarrow> issue_request option \<Rightarrow> 'w \<Rightarrow> response \<times> 'w" where
  "handleIssueSSHCommand s c t identity b w =
     (case b of
        None \<Rightarrow> (badRequest, w)
      | Some req \<Rightarrow>
          call (GetHost c (ti_ok (t 0)) (is_HostID req) w) internal (\<lambda>h w.
            case h of
              None \<Rightarrow> (writeError 404 ''host not found'', w)
            | Some host \<Rightarrow>
                let sshUser = (if is_SSHUser req = '''' then h_SSHUser host else is_SSHUser req) in
                authorize_account s c (t 1) (t 2) ''access.ssh.denied'' identity host sshUser
                  (issue_authorized s c t identity host sshUser) w))"

text \<open>\<^verbatim>\<open>strings.Replace(v, "=", " ", 1)\<close>, and the options of a command.\<close>

fun replace_first_eq :: "string \<Rightarrow> string" where
  "replace_first_eq [] = []"
| "replace_first_eq (x # xs) = (if x = CHR ''='' then CHR '' '' # xs else x # replace_first_eq xs)"

fun ssh_options :: "string list \<Rightarrow> string list" where
  "ssh_options (x # y # rest) = (if x = ''-o'' then [''  '' @ replace_first_eq y] else []) @ ssh_options (y # rest)"
| "ssh_options _ = []"

definition sshConfigEntry :: "string \<Rightarrow> string \<Rightarrow> uint16 \<Rightarrow> string \<Rightarrow> string list \<Rightarrow> string option" where
  "sshConfigEntry name endpointID sshPort sshUser options =
     (if \<not> ValidHostName name \<or> \<not> ValidSSHUser sshUser then None
      else Some (Join [''Host '' @ name, ''  HostName '' @ endpointID, ''  Port '' @ FormatUint (unat sshPort), ''  User '' @ sshUser,
                       Join options [newline]] [newline]))"

definition ssh_config_host :: "'w conn \<Rightarrow> tick \<Rightarrow> tick \<Rightarrow> Host \<Rightarrow> 'w \<Rightarrow> string option" where
  "ssh_config_host c t1 t2 h w =
     (case (fst (GetDeviceByHostID c (ti_ok t1) (h_ID h) w), fst (GetEndpointDiscovery c (ti_ok t2) (h_ID h) w)) of
        (Inr (Some device), Inr (Some discovery)) \<Rightarrow>
          if d_State device = ''revoked'' then None
          else (case issue_command h device discovery (h_SSHUser h) of
             Inl e \<Rightarrow> None
           | Inr cmd \<Rightarrow> sshConfigEntry (h_Name h) (h_EndpointID h) (h_SSHPort h) (h_SSHUser h) (ssh_options (cmd_Args cmd)))
      | _ \<Rightarrow> None)"

text \<open>The \<open>i\<close>-th visible host uses the ticks \<open>2 + 2 i\<close> and \<open>3 + 2 i\<close>.\<close>

definition ssh_configs :: "'w conn \<Rightarrow> ticks \<Rightarrow> Host list \<Rightarrow> 'w \<Rightarrow> string list" where
  "ssh_configs c t visible w =
     List.map_filter (\<lambda>(i, h). ssh_config_host c (t (2 + 2 * i)) (t (3 + 2 * i)) h w) (zip [0..<length visible] visible)"

definition handleSSHConfig :: "server \<Rightarrow> 'w conn \<Rightarrow> ticks \<Rightarrow> AuthContext option \<Rightarrow> 'w \<Rightarrow> response \<times> 'w" where
  "handleSSHConfig s c t auth w =
     (case auth of
        None \<Rightarrow> (writeError 401 ''unauthorized'', w)
      | Some a \<Rightarrow>
          call (ListHosts c (ti_ok (t 0)) w) internal (\<lambda>hs w.
            call (ListPolicies c (ti_ok (t 1)) w) internal (\<lambda>ps w.
              let visible = (if ac_IsAdmin a then hs else FilterVisibleHosts (ti_now2 (t 1)) (authClaims s a) hs ps) in
              (writeJSON 200 (BConfigs (ssh_configs c t visible w)), w))))"

subsection \<open>Relay grants, discovery, history\<close>

record relay_request =
  rl_HostID :: string
  rl_ClientEndpointID :: string
  rl_SSHUser :: string
  rl_TTL :: int

definition handleIssueRelayGrant ::
    "server \<Rightarrow> 'w conn \<Rightarrow> ticks \<Rightarrow> AuthContext \<Rightarrow> relay_request option \<Rightarrow> 'w \<Rightarrow> response \<times> 'w" where
  "handleIssueRelayGrant s c t identity b w =
     (case b of
        None \<Rightarrow> (badRequest, w)
      | Some req \<Rightarrow>
          if rl_TTL req \<noteq> 0 \<and> rl_TTL req \<noteq> 300 then (writeError 400 ''relay grants are fixed at 300 seconds'', w)
          else if length (rl_ClientEndpointID req) \<noteq> 64 \<or> \<not> isHex (rl_ClientEndpointID req) then (writeError 400 ''invalid client endpoint id'', w)
          else call (GetHost c (ti_ok (t 0)) (rl_HostID req) w) internal (\<lambda>h w.
            case h of
              None \<Rightarrow> (writeError 404 ''host not found'', w)
            | Some host \<Rightarrow>
                call (GetDeviceByHostID c (ti_ok (t 1)) (h_ID host) w) internal (\<lambda>dv w.
                  case dv of
                    None \<Rightarrow> (writeError 404 ''host not found'', w)
                  | Some device \<Rightarrow>
                      if d_State device = ''revoked'' then (writeError 404 ''host not found'', w)
                      else authorize_account s c (t 2) (t 3) ''relay.grant.denied'' identity host
                        (if rl_SSHUser req = '''' then h_SSHUser host else rl_SSHUser req) (\<lambda>w.
                        call (CreateRelayAccessGrant c (ti_ok (t 4)) (ti_id1 (t 4)) (ti_id2 (t 4)) (ti_now (t 4)) (rl_HostID req)
                                (ToLower (rl_ClientEndpointID req)) (principal_of s identity) 300 w)
                          internal (\<lambda>grant. answer (writeJSON 201 (BRelayGrant grant)))) w)))"

definition handleGetEndpointDiscovery :: "server \<Rightarrow> 'w conn \<Rightarrow> ticks \<Rightarrow> AuthContext \<Rightarrow> string \<Rightarrow> 'w \<Rightarrow> response \<times> 'w" where
  "handleGetEndpointDiscovery s c t identity hostID w =
     call (GetHost c (ti_ok (t 0)) hostID w) internal (\<lambda>h w.
       case h of
         None \<Rightarrow> (writeError 404 ''discovery not found'', w)
       | Some host \<Rightarrow>
           if \<not> canAccessHost s c (t 1) (Some identity) host (h_SSHUser host) w then (writeError 404 ''discovery not found'', w)
           else call (GetDeviceByHostID c (ti_ok (t 2)) (h_ID host) w) internal (\<lambda>dv w.
             case dv of
               None \<Rightarrow> (writeError 404 ''discovery not found'', w)
             | Some device \<Rightarrow>
                 if d_State device = ''revoked'' then (writeError 404 ''discovery not found'', w)
                 else call (GetEndpointDiscovery c (ti_ok (t 3)) hostID w) internal (\<lambda>dc w.
                   case dc of
                     None \<Rightarrow> (writeError 404 ''discovery not found'', w)
                   | Some discovery \<Rightarrow> (writeJSON 200 (BDiscovery discovery), w))))"

definition handleKeyStatus :: "server \<Rightarrow> 'w conn \<Rightarrow> ticks \<Rightarrow> AuthContext \<Rightarrow> string \<Rightarrow> 'w \<Rightarrow> response \<times> 'w" where
  "handleKeyStatus s c t identity i w =
     call (GetAccessGrant c (ti_ok (t 0)) i w) internal (\<lambda>g w.
       case g of
         None \<Rightarrow> (writeError 404 ''grant not found'', w)
       | Some grant \<Rightarrow>
           if \<not> ac_IsAdmin identity \<and> ag_UserID grant \<noteq> principal_of s identity then (writeError 404 ''grant not found'', w)
           else (writeJSON 200 (BInstalled (ag_KeyInstalled grant)), w))"

definition handleListAccessGrants :: "server \<Rightarrow> 'w conn \<Rightarrow> ticks \<Rightarrow> AuthContext \<Rightarrow> 'w \<Rightarrow> response \<times> 'w" where
  "handleListAccessGrants s c t identity w =
     call (if ac_IsAdmin identity then ListAccessGrants c (ti_ok (t 0)) w else ListUserAccessGrants c (ti_ok (t 0)) (principal_of s identity) w)
       internal (\<lambda>gs. answer (writeJSON 200 (BGrants gs)))"

definition handleListAccessRequests :: "server \<Rightarrow> 'w conn \<Rightarrow> ticks \<Rightarrow> AuthContext \<Rightarrow> 'w \<Rightarrow> response \<times> 'w" where
  "handleListAccessRequests s c t identity w =
     call (if ac_IsAdmin identity then ListAccessRequests c (ti_ok (t 0)) w else ListUserAccessRequests c (ti_ok (t 0)) (principal_of s identity) w)
       internal (\<lambda>rs. answer (writeJSON 200 (BRequests rs)))"

subsection \<open>SSH keys\<close>

definition handleListSSHKeys :: "server \<Rightarrow> 'w conn \<Rightarrow> ticks \<Rightarrow> AuthContext option \<Rightarrow> 'w \<Rightarrow> response \<times> 'w" where
  "handleListSSHKeys s c t auth w =
     (case auth of
        None \<Rightarrow> (writeError 401 ''unauthorized'', w)
      | Some a \<Rightarrow> call (ListSSHKeys c (ti_ok (t 0)) (principal_of s a) w) internal (\<lambda>ks. answer (writeJSON 200 (BKeys ks))))"

definition canonical_key :: "parsed_key \<Rightarrow> string" where
  "canonical_key p = pk_canonical p @ (if TrimSpace (pk_comment p) \<noteq> '''' then '' '' @ TrimSpace (pk_comment p) else '''')"

definition handleCreateSSHKey :: "server \<Rightarrow> 'w conn \<Rightarrow> ticks \<Rightarrow> AuthContext option \<Rightarrow> string option \<Rightarrow> 'w \<Rightarrow> response \<times> 'w" where
  "handleCreateSSHKey s c t auth b w =
     (case auth of
        None \<Rightarrow> (writeError 401 ''unauthorized'', w)
      | Some a \<Rightarrow>
          (case b of
             None \<Rightarrow> (badRequest, w)
           | Some publicKey \<Rightarrow>
               (case sv_parse_key s (TrimSpace publicKey) of
                  None \<Rightarrow> (writeError 400 ''invalid SSH public key'', w)
                | Some p \<Rightarrow>
                    if TrimSpace (pk_rest p) \<noteq> '''' then (writeError 400 ''invalid SSH public key'', w)
                    else call (CreateSSHKey c (ti_ok (t 0)) (ti_id1 (t 0)) (ti_now (t 0)) (principal_of s a) (canonical_key p) (pk_fingerprint p) w)
                           internal (\<lambda>k. answer (writeJSON 201 (BKey k))))))"

definition handleDeleteSSHKey :: "server \<Rightarrow> 'w conn \<Rightarrow> ticks \<Rightarrow> AuthContext \<Rightarrow> string \<Rightarrow> 'w \<Rightarrow> response \<times> 'w" where
  "handleDeleteSSHKey s c t identity i w =
     call (DeleteSSHKeyForUser c (ti_ok (t 0)) (ti_id1 (t 0)) (ti_now (t 0)) i (principal_of s identity) (ac_IsAdmin identity) w) internal
       (\<lambda>deleted. if \<not> deleted then answer (writeError 404 ''SSH key not found'') else answer ok_status)"

end
