(* ===== verification/Api_Device.thy ===== *)
theory Api_Device
  imports Api_Access
begin

section \<open>HTTP API: manufacturing, devices, agents, relay, sessions (internal/api/api.go)\<close>

text \<open>
  The handlers of the manufacturing line and of the devices, the relay's admission question, and the
  handlers that create and end sessions.
\<close>

subsection \<open>Manufacturing\<close>

record token_request =
  tq_BatchID :: string
  tq_ExpiresAt :: "int option"

record batch_request =
  bq_Name :: string
  bq_SerialPrefix :: string
  bq_ExpiresAt :: int
  bq_MaxDevices :: int

record enroll_request =
  en_Token :: string
  en_EndpointID :: string
  en_SerialNumber :: string
  en_Model :: string
  en_Fingerprint :: string
  en_DevicePublicKey :: string
  en_SSHUser :: string
  en_SSHPort :: uint16
  en_Tags :: go_map

definition handleListManufacturingTokens :: "'w conn \<Rightarrow> ticks \<Rightarrow> 'w \<Rightarrow> response \<times> 'w" where
  "handleListManufacturingTokens c t w =
     call (ListManufacturingTokens c (ti_ok (t 0)) w) internal (\<lambda>ts. answer (writeJSON 200 (BTokens ts)))"

text \<open>The secret of a new token or batch is \<open>ti_id3\<close>.\<close>

definition handleCreateManufacturingToken ::
    "server \<Rightarrow> 'w conn \<Rightarrow> ticks \<Rightarrow> AuthContext \<Rightarrow> token_request option \<Rightarrow> 'w \<Rightarrow> response \<times> 'w" where
  "handleCreateManufacturingToken s c t identity b w =
     (case b of
        None \<Rightarrow> (badRequest, w)
      | Some req \<Rightarrow>
          call (CreateManufacturingToken c (sv_hash s) (ti_ok (t 0)) (ti_now (t 0)) (ti_id1 (t 0)) (ti_id3 (t 0)) (ti_id2 (t 0))
                  (tq_BatchID req) (tq_ExpiresAt req) (principal_of s identity) w)
            internal (\<lambda>tok. answer (writeJSON 201 (BToken tok))))"

definition handleListManufacturingBatches :: "'w conn \<Rightarrow> ticks \<Rightarrow> 'w \<Rightarrow> response \<times> 'w" where
  "handleListManufacturingBatches c t w =
     call (ListManufacturingBatches c (ti_ok (t 0)) w) internal (\<lambda>bs. answer (writeJSON 200 (BBatches bs)))"

definition handleCreateManufacturingBatch ::
    "server \<Rightarrow> 'w conn \<Rightarrow> ticks \<Rightarrow> AuthContext \<Rightarrow> batch_request option \<Rightarrow> 'w \<Rightarrow> response \<times> 'w" where
  "handleCreateManufacturingBatch s c t identity b w =
     (case b of
        None \<Rightarrow> (badRequest, w)
      | Some req \<Rightarrow>
          call (CreateManufacturingBatch c (sv_hash s) (ti_ok (t 0)) (ti_now (t 0)) (ti_id1 (t 0)) (ti_now2 (t 0)) (ti_id3 (t 0)) (ti_id2 (t 0))
                  (bq_Name req) (bq_SerialPrefix req) (bq_ExpiresAt req) (bq_MaxDevices req) (principal_of s identity) w)
            internal (\<lambda>(batch, tok). answer (writeJSON 201 (BBatch batch tok))))"

definition handleCloseManufacturingBatch :: "server \<Rightarrow> 'w conn \<Rightarrow> ticks \<Rightarrow> AuthContext \<Rightarrow> string \<Rightarrow> 'w \<Rightarrow> response \<times> 'w" where
  "handleCloseManufacturingBatch s c t identity i w =
     call (CloseManufacturingBatch c (ti_ok (t 0)) (ti_id1 (t 0)) (ti_now (t 0)) i (principal_of s identity) w) internal (\<lambda>_. answer ok_status)"

definition enroll_request_ok :: "enroll_request \<Rightarrow> bool" where
  "enroll_request_ok req \<longleftrightarrow>
     \<not> (length (en_EndpointID req) \<noteq> 64 \<or> \<not> isHex (en_EndpointID req) \<or> \<not> ValidHostKeyFingerprint (en_Fingerprint req) \<or>
        (case b64_decode StdEncoding (en_DevicePublicKey req) of None \<Rightarrow> True | Some k \<Rightarrow> length k \<noteq> 32))"

definition handleEnrollDevice :: "server \<Rightarrow> 'w conn \<Rightarrow> ticks \<Rightarrow> enroll_request option \<Rightarrow> 'w \<Rightarrow> response \<times> 'w" where
  "handleEnrollDevice s c t b w =
     (case b of
        None \<Rightarrow> (badRequest, w)
      | Some req \<Rightarrow>
          if \<not> enroll_request_ok req then (writeError 400 ''invalid enrollment request'', w)
          else call (EnrollDevice c (sv_hash s) (ti_ok (t 0)) (ti_now (t 0)) (ti_now2 (t 0)) (ti_id1 (t 0)) (ti_id2 (t 0)) (en_Token req)
                       (ToLower (en_EndpointID req)) (en_SerialNumber req) (en_Model req) (en_Fingerprint req) (en_DevicePublicKey req)
                       (en_SSHUser req) (en_SSHPort req) (en_Tags req) w)
                 (\<lambda>e. answer (writeStoreError 400 e)) (\<lambda>d. answer (writeJSON 201 (BDevice d))))"

definition handleListDevices :: "'w conn \<Rightarrow> ticks \<Rightarrow> 'w \<Rightarrow> response \<times> 'w" where
  "handleListDevices c t w = call (ListDevices c (ti_ok (t 0)) w) internal (\<lambda>ds. answer (writeJSON 200 (BDevices ds)))"

definition handleDeleteDevice :: "server \<Rightarrow> 'w conn \<Rightarrow> ticks \<Rightarrow> AuthContext \<Rightarrow> string \<Rightarrow> 'w \<Rightarrow> response \<times> 'w" where
  "handleDeleteDevice s c t identity i w =
     call (DeleteDevice c (ti_ok (t 0)) (ti_id1 (t 0)) (ti_now (t 0)) i (principal_of s identity) w) internal (\<lambda>_. answer ok_status)"

subsection \<open>Agents\<close>

datatype verify_error = DeviceStoreUnavailable | DeviceRejected

definition writeDeviceVerificationError :: "verify_error \<Rightarrow> response" where
  "writeDeviceVerificationError e =
     (case e of
        DeviceStoreUnavailable \<Rightarrow> writeError 503 ''device state unavailable''
      | DeviceRejected \<Rightarrow> writeError 401 ''device authentication failed'')"

definition verifyDevice ::
    "server \<Rightarrow> 'w conn \<Rightarrow> tick \<Rightarrow> string \<Rightarrow> string \<Rightarrow> string \<Rightarrow> int64 \<Rightarrow> string \<Rightarrow> string \<Rightarrow> 'w \<Rightarrow> verify_error + Device" where
  "verifyDevice s c ti serial endpointID fingerprint timestamp signature payload w =
     (if \<not> Fresh timestamp (word_of_int (ti_now ti)) then Inl DeviceRejected
      else case fst (GetDeviceBySerial c (ti_ok ti) serial w) of
        Inl e \<Rightarrow> Inl DeviceStoreUnavailable
      | Inr None \<Rightarrow> Inl DeviceRejected
      | Inr (Some device) \<Rightarrow>
          if d_State device = ''revoked'' \<or> d_EndpointID device \<noteq> endpointID \<or> d_SSHHostKeyFingerprint device \<noteq> fingerprint
          then Inl DeviceRejected
          else (case Verify (sv_ed s) (d_DevicePublicKey device) payload signature of
                  Inl e \<Rightarrow> Inl DeviceRejected
                | Inr _ \<Rightarrow> Inr device))"

definition parseTimestamp :: "string \<Rightarrow> int64 option" where
  "parseTimestamp v = map_option word_of_int (ParseInt v 64)"

record heartbeat_request =
  hb_Status :: string
  hb_Serial :: string
  hb_EndpointID :: string
  hb_Fingerprint :: string
  hb_Timestamp :: int64
  hb_Signature :: string
  hb_Discovery :: "Discovery option"

definition discovery_routes :: "Discovery option \<Rightarrow> string list \<times> string list" where
  "discovery_routes d = (case d of None \<Rightarrow> ([], []) | Some x \<Rightarrow> (elems (dc_DirectAddresses x), elems (dc_RelayURLs x)))"

definition handleHeartbeat :: "server \<Rightarrow> 'w conn \<Rightarrow> ticks \<Rightarrow> heartbeat_request option \<Rightarrow> 'w \<Rightarrow> response \<times> 'w" where
  "handleHeartbeat s c t b w =
     (case b of
        None \<Rightarrow> (badRequest, w)
      | Some req \<Rightarrow>
          (case verifyDevice s c (t 0) (hb_Serial req) (hb_EndpointID req) (hb_Fingerprint req) (hb_Timestamp req) (hb_Signature req)
              (HeartbeatPayload (sv_marshal_discovery s) (hb_Serial req) (hb_EndpointID req) (hb_Fingerprint req) (hb_Timestamp req)
                 (hb_Status req) (hb_Discovery req)) w of
             Inl e \<Rightarrow> (writeDeviceVerificationError e, w)
           | Inr device \<Rightarrow>
               call (TouchDevice c (ti_ok (t 1)) (ti_now (t 1)) (d_ID device) (d_HostID device) (hb_EndpointID req) (hb_Fingerprint req)
                       (hb_Status req) (fst (discovery_routes (hb_Discovery req))) (snd (discovery_routes (hb_Discovery req))) w)
                 (\<lambda>e. answer (writeError 503 ''device state unavailable''))
                 (\<lambda>_ w.
                    if hb_Status req = ''healthy'' then
                      call (RenewRelayAccessGrant c (ti_ok (t 2)) (ti_id1 (t 2)) (ti_id2 (t 2)) (ti_now (t 2)) (d_HostID device)
                              (ToLower (hb_EndpointID req)) (''device:'' @ d_SerialNumber device) 300 w)
                        internal (\<lambda>_. answer ok_status)
                    else (ok_status, w))))"

text \<open>The identity that an agent sends in its headers.\<close>

record device_headers =
  dh_Serial :: string
  dh_EndpointID :: string
  dh_Fingerprint :: string
  dh_Timestamp :: string
  dh_Signature :: string

definition handleAgentAuthorizedKeys :: "server \<Rightarrow> 'w conn \<Rightarrow> ticks \<Rightarrow> device_headers \<Rightarrow> string \<Rightarrow> 'w \<Rightarrow> response \<times> 'w" where
  "handleAgentAuthorizedKeys s c t h sshUser w =
     (case parseTimestamp (dh_Timestamp h) of
        None \<Rightarrow> (writeError 401 ''device authentication failed'', w)
      | Some timestamp \<Rightarrow>
          (case verifyDevice s c (t 0) (dh_Serial h) (dh_EndpointID h) (dh_Fingerprint h) timestamp (dh_Signature h)
              (AuthorizedKeysPayload (dh_Serial h) (dh_EndpointID h) (dh_Fingerprint h) timestamp sshUser) w of
             Inl e \<Rightarrow> (writeDeviceVerificationError e, w)
           | Inr device \<Rightarrow>
               call (PublishAuthorizedKeysSnapshot c (sv_hash s) (ti_ok (t 1)) (ti_now (t 1)) (ti_now2 (t 1)) (d_HostID device) sshUser w)
                 internal (\<lambda>(text, digest, generation). answer (writeJSON 200 (BKeysText text digest generation)))))"

record ack_request =
  ak_SSHUser :: string
  ak_Generation :: int64
  ak_SHA256 :: string

definition handleAgentAuthorizedKeysAck ::
    "server \<Rightarrow> 'w conn \<Rightarrow> ticks \<Rightarrow> device_headers \<Rightarrow> ack_request option \<Rightarrow> 'w \<Rightarrow> response \<times> 'w" where
  "handleAgentAuthorizedKeysAck s c t h b w =
     (case b of
        None \<Rightarrow> (writeError 400 ''invalid acknowledgement'', w)
      | Some req \<Rightarrow>
          (case parseTimestamp (dh_Timestamp h) of
             None \<Rightarrow> (writeError 401 ''device authentication failed'', w)
           | Some timestamp \<Rightarrow>
               (case verifyDevice s c (t 0) (dh_Serial h) (dh_EndpointID h) (dh_Fingerprint h) timestamp (dh_Signature h)
                   (AuthorizedKeysAckPayload (dh_Serial h) (dh_EndpointID h) (dh_Fingerprint h) timestamp (ak_SSHUser req)
                      (ak_Generation req) (ak_SHA256 req)) w of
                  Inl e \<Rightarrow> (writeDeviceVerificationError e, w)
                | Inr device \<Rightarrow>
                    call (AcknowledgeAuthorizedKeys c (ti_ok (t 1)) (ti_now (t 1)) (d_HostID device) (ak_SSHUser req) (sint (ak_Generation req))
                            (ak_SHA256 req) w)
                      (\<lambda>e. answer (writeError 409 ''authorized_keys acknowledgement rejected'')) (\<lambda>_. answer (writeJSON 204 BEmpty)))))"

subsection \<open>Relay admission\<close>

definition relaySecretMatches :: "(string \<Rightarrow> string) \<Rightarrow> string \<Rightarrow> string \<Rightarrow> bool" where
  "relaySecretMatches sha256 expected presented \<longleftrightarrow> sha256 expected = sha256 presented"

definition handleRelayAccess :: "server \<Rightarrow> 'w conn \<Rightarrow> tick \<Rightarrow> string \<Rightarrow> string \<Rightarrow> 'w \<Rightarrow> response \<times> 'w" where
  "handleRelayAccess s c ti authHeader endpointID w =
     (if sv_relayToken s = '''' then (writeRelayDecision 503 False, w)
      else let tok = TrimPrefix authHeader ''Bearer '' in
        if tok = authHeader \<or> \<not> relaySecretMatches (sv_sha256 s) (sv_relayToken s) tok then (writeRelayDecision 401 False, w)
        else if length endpointID \<noteq> 64 \<or> \<not> isHex endpointID then (writeRelayDecision 400 False, w)
        else call (RelayEndpointAllowed c (ti_ok ti) (ti_now ti) (ToLower endpointID) w)
               (\<lambda>e. answer (writeRelayDecision 500 False))
               (\<lambda>allowed. answer (if allowed then writeRelayDecision 200 True else writeRelayDecision 403 False)))"

subsection \<open>Sessions\<close>

text \<open>\<open>csrf\<close> is the random token of \<^verbatim>\<open>NewRandomToken(32)\<close>; times are in nanoseconds, \<open>now_ns\<close> is the clock when the
  cookie is set.\<close>

definition issueSession ::
    "server \<Rightarrow> bool \<Rightarrow> oidc_error + string \<Rightarrow> AuthClaims \<Rightarrow> int \<Rightarrow> int \<Rightarrow> (string \<times> string \<times> cookie list) option" where
  "issueSession s withCookie csrf claims expiry_ns now_ns =
     (case csrf of
        Inl e \<Rightarrow> None
      | Inr csrfToken \<Rightarrow>
          (case SignSession (sv_marshal s) (sv_hmac s)
              \<lparr>se_User = claims, se_CSRFToken = csrfToken, se_ExpiresAt = expiry_ns div 1000000000\<rparr> (sv_sessionKey s) of
             Inl e \<Rightarrow> None
           | Inr cookie \<Rightarrow>
               if withCookie then
                 let ttl = (expiry_ns - now_ns) div 1000000000 in
                 if ttl < 1 then None
                 else Some (cookie, csrfToken, [SetSessionCookie cookie ttl (SecureCookies (sv_url s) (sv_auth s))])
               else Some (cookie, csrfToken, [])))"

definition handleAuthLogin :: "server \<Rightarrow> oidc_error + (string \<times> string) \<Rightarrow> response" where
  "handleAuthLogin s login =
     (if sv_oidcErr s then writeError 503 ''OIDC is not configured''
      else case login of
        Inl e \<Rightarrow> writeError 502 ''OIDC provider unavailable''
      | Inr (url, signedState) \<Rightarrow>
          (writeJSON 302 (BRedirect url))\<lparr>rp_Cookies := [SetOIDCStateCookie signedState (SecureCookies (sv_url s) (sv_auth s))]\<rparr>)"

text \<open>\<open>complete\<close> is \<^verbatim>\<open>CompleteLogin\<close> on code, state and state cookie.\<close>

definition handleAuthCallback ::
    "server \<Rightarrow> (string \<Rightarrow> string \<Rightarrow> string \<Rightarrow> oidc_error + AuthClaims) \<Rightarrow> oidc_error + string \<Rightarrow> int \<Rightarrow> int \<Rightarrow> string \<Rightarrow> string \<Rightarrow>
     string option \<Rightarrow> response" where
  "handleAuthCallback s complete csrf now_ns now2_ns code state stateCookie =
     (if sv_oidcErr s then writeError 503 ''OIDC is not configured''
      else if code = '''' \<or> state = '''' then writeError 400 ''invalid OIDC callback''
      else case stateCookie of
        None \<Rightarrow> writeError 400 ''invalid OIDC callback''
      | Some v \<Rightarrow>
          let clear = ClearOIDCStateCookie (SecureCookies (sv_url s) (sv_auth s)) in
          (case complete code state v of
             Inl e \<Rightarrow> (writeError 401 ''OIDC login failed'')\<lparr>rp_Cookies := [clear]\<rparr>
           | Inr claims \<Rightarrow>
               (case issueSession s True csrf claims (now_ns + sv_sessionTTL s * 1000000000) now2_ns of
                  None \<Rightarrow> (writeError 500 ''session creation failed'')\<lparr>rp_Cookies := [clear]\<rparr>
                | Some (_, _, cookies) \<Rightarrow> (writeJSON 302 (BRedirect ''/''))\<lparr>rp_Cookies := clear # cookies\<rparr>)))"

definition handleDeviceToken ::
    "server \<Rightarrow> (string \<Rightarrow> oidc_error + (AuthClaims \<times> int)) \<Rightarrow> oidc_error + string \<Rightarrow> int \<Rightarrow> string option \<Rightarrow> response" where
  "handleDeviceToken s poll csrf now_ns b =
     (if sv_oidcErr s then writeError 503 ''OIDC is not configured''
      else case b of
        None \<Rightarrow> writeError 400 ''invalid device token request''
      | Some deviceCode \<Rightarrow>
          (case poll deviceCode of
             Inl (ProviderErr code) \<Rightarrow> writeJSON 400 (BError code)
           | Inl e \<Rightarrow> writeError 502 ''device token exchange failed''
           | Inr (claims, providerExpiry) \<Rightarrow>
               let expiry = min (now_ns + sv_sessionTTL s * 1000000000) providerExpiry in
               (case issueSession s False csrf claims expiry now_ns of
                  None \<Rightarrow> writeError 500 ''session creation failed''
                | Some (cookie, csrfToken, _) \<Rightarrow> writeJSON 200 (BDeviceSession cookie csrfToken (expiry div 1000000000)))))"

definition handleLogout :: "server \<Rightarrow> 'w conn \<Rightarrow> int \<Rightarrow> ticks \<Rightarrow> string option \<Rightarrow> 'w \<Rightarrow> response \<times> 'w" where
  "handleLogout s c now t ck w =
     (case ck of
        None \<Rightarrow> (writeError 401 ''unauthorized'', w)
      | Some v \<Rightarrow>
          (case verifySessionAt (sv_unmarshal s) (sv_hmac s) v (sv_sessionKey s) now of
             Inl e \<Rightarrow> (writeError 401 ''unauthorized'', w)
           | Inr session \<Rightarrow>
               call (RevokeSession c (sv_hash s) (ti_ok (t 0)) (ti_now (t 0)) (ti_now2 (t 0)) v (se_ExpiresAt session) w) internal
                 (\<lambda>_. answer (ok_status\<lparr>rp_Cookies := [ClearSessionCookie (SecureCookies (sv_url s) (sv_auth s))]\<rparr>))))"

definition handleSession :: "AuthContext option \<Rightarrow> response" where
  "handleSession auth = writeJSON 200 (BSession auth)"

definition handleReady :: "bool \<Rightarrow> response" where
  "handleReady ready = (if \<not> ready then writeError 503 ''store unavailable'' else writeJSON 200 (BStatus ''ready''))"

end
