(* ===== verification/Api_Router.thy ===== *)
theory Api_Router
  imports Api_Device Store_Machine
begin

section \<open>HTTP API: routes and requests (internal/api/api.go)\<close>

text \<open>
  The routes of \<^verbatim>\<open>Router\<close> that read or write the store: an \<open>endpoint\<close> is a route together with what the
  router and the JSON decoder extract for its handler.  \<open>route_of\<close> gives the method, the path pattern and
  the guards in the order in which they are installed; \<open>serve\<close> runs the authentication middleware, the
  guards and the handler.  Which route matches a request is decided by the routing library.
\<close>

datatype endpoint =
    GetReady bool | GetSession | PostLogout
  | GetHosts | PostHosts "NewHost option" | GetHostByID string | PutHost string "NewHost option" | DeleteHostByID string
  | GetPolicies | PostPolicies "NewPolicy option" | PutPolicy string "NewPolicy option" | DeletePolicyByID string
  | PostAccessSSH "issue_request option" | GetSSHConfig | PostRelayGrants "relay_request option" | GetDiscovery string
  | GetKeyStatus string | GetGrants | GetRequests
  | GetSSHKeys | PostSSHKeys "string option" | DeleteSSHKeyByID string
  | GetTokens | PostTokens "token_request option" | GetBatches | PostBatches "batch_request option" | PostCloseBatch string
  | PostEnroll "enroll_request option" | GetDevices | DeleteDeviceByID string
  | PostHeartbeat "heartbeat_request option" | GetAuthorizedKeys device_headers string | PostAck device_headers "ack_request option"

datatype guard_kind = GAuth | GAdmin | GCSRF

definition run_guard :: "server \<Rightarrow> guard_kind \<Rightarrow> guard" where
  "run_guard s g = (case g of GAuth \<Rightarrow> RequireAuth | GAdmin \<Rightarrow> RequireAdmin | GCSRF \<Rightarrow> RequireCSRF (sv_url s))"

fun run_guards :: "server \<Rightarrow> guard_kind list \<Rightarrow> guard" where
  "run_guards s [] r auth = None"
| "run_guards s (g # gs) r auth = (case run_guard s g r auth of Some refusal \<Rightarrow> Some refusal | None \<Rightarrow> run_guards s gs r auth)"

fun route_of :: "endpoint \<Rightarrow> string \<times> string \<times> guard_kind list" where
  "route_of (GetReady _) = (''GET'', ''/ready'', [])"
| "route_of GetSession = (''GET'', ''/auth/session'', [])"
| "route_of PostLogout = (''POST'', ''/auth/logout'', [GAuth, GCSRF])"
| "route_of GetHosts = (''GET'', ''/hosts/'', [GAuth])"
| "route_of (PostHosts _) = (''POST'', ''/hosts/'', [GAuth, GAdmin, GCSRF])"
| "route_of (GetHostByID _) = (''GET'', ''/hosts/{id}'', [GAuth])"
| "route_of (PutHost _ _) = (''PUT'', ''/hosts/{id}'', [GAuth, GAdmin, GCSRF])"
| "route_of (DeleteHostByID _) = (''DELETE'', ''/hosts/{id}'', [GAuth, GAdmin, GCSRF])"
| "route_of GetPolicies = (''GET'', ''/policies/'', [GAuth, GAdmin])"
| "route_of (PostPolicies _) = (''POST'', ''/policies/'', [GAuth, GAdmin, GCSRF])"
| "route_of (PutPolicy _ _) = (''PUT'', ''/policies/{id}'', [GAuth, GAdmin, GCSRF])"
| "route_of (DeletePolicyByID _) = (''DELETE'', ''/policies/{id}'', [GAuth, GAdmin, GCSRF])"
| "route_of (PostAccessSSH _) = (''POST'', ''/access/ssh'', [GAuth, GCSRF])"
| "route_of GetSSHConfig = (''GET'', ''/access/ssh-config'', [GAuth])"
| "route_of (PostRelayGrants _) = (''POST'', ''/access/relay-grants'', [GAuth, GCSRF])"
| "route_of (GetDiscovery _) = (''GET'', ''/access/discovery/{host}'', [GAuth])"
| "route_of (GetKeyStatus _) = (''GET'', ''/access/grants/{id}/key-status'', [GAuth])"
| "route_of GetGrants = (''GET'', ''/access/grants'', [GAuth])"
| "route_of GetRequests = (''GET'', ''/access/requests'', [GAuth])"
| "route_of GetSSHKeys = (''GET'', ''/ssh-keys/'', [GAuth])"
| "route_of (PostSSHKeys _) = (''POST'', ''/ssh-keys/'', [GAuth, GCSRF])"
| "route_of (DeleteSSHKeyByID _) = (''DELETE'', ''/ssh-keys/{id}'', [GAuth, GCSRF])"
| "route_of GetTokens = (''GET'', ''/manufacturing/tokens'', [GAuth, GAdmin])"
| "route_of (PostTokens _) = (''POST'', ''/manufacturing/tokens'', [GAuth, GAdmin, GCSRF])"
| "route_of GetBatches = (''GET'', ''/manufacturing/batches'', [GAuth, GAdmin])"
| "route_of (PostBatches _) = (''POST'', ''/manufacturing/batches'', [GAuth, GAdmin, GCSRF])"
| "route_of (PostCloseBatch _) = (''POST'', ''/manufacturing/batches/{id}/close'', [GAuth, GAdmin, GCSRF])"
| "route_of (PostEnroll _) = (''POST'', ''/manufacturing/enroll'', [])"
| "route_of GetDevices = (''GET'', ''/devices/'', [GAuth, GAdmin])"
| "route_of (DeleteDeviceByID _) = (''DELETE'', ''/devices/{id}'', [GAuth, GAdmin, GCSRF])"
| "route_of (PostHeartbeat _) = (''POST'', ''/agents/heartbeat'', [])"
| "route_of (GetAuthorizedKeys _ _) = (''GET'', ''/agents/authorized-keys'', [])"
| "route_of (PostAck _ _) = (''POST'', ''/agents/authorized-keys/ack'', [])"

text \<open>A handler that dereferences a missing context would panic; the recovery middleware answers 500.\<close>

definition with_auth :: "AuthContext option \<Rightarrow> (AuthContext \<Rightarrow> 'w \<Rightarrow> response \<times> 'w) \<Rightarrow> 'w \<Rightarrow> response \<times> 'w" where
  "with_auth auth k w = (case auth of None \<Rightarrow> (writeError 500 '''', w) | Some a \<Rightarrow> k a w)"

text \<open>\<open>now\<close> is the clock reading of the logout handler.\<close>

fun handle :: "server \<Rightarrow> 'w conn \<Rightarrow> int \<Rightarrow> ticks \<Rightarrow> http_request \<Rightarrow> AuthContext option \<Rightarrow> endpoint \<Rightarrow> 'w \<Rightarrow> response \<times> 'w" where
  "handle s c now t r auth (GetReady ready) = answer (handleReady ready)"
| "handle s c now t r auth GetSession = answer (handleSession auth)"
| "handle s c now t r auth PostLogout = handleLogout s c now t (hr_Cookie r SessionCookie)"
| "handle s c now t r auth GetHosts = with_auth auth (handleListHosts s c t)"
| "handle s c now t r auth (PostHosts b) = with_auth auth (\<lambda>a. handleCreateHost s c t a b)"
| "handle s c now t r auth (GetHostByID i) = with_auth auth (\<lambda>a. handleGetHost s c t a i)"
| "handle s c now t r auth (PutHost i b) = with_auth auth (\<lambda>a. handleUpdateHost s c t a i b)"
| "handle s c now t r auth (DeleteHostByID i) = with_auth auth (\<lambda>a. handleDeleteHost s c t a i)"
| "handle s c now t r auth GetPolicies = handleListPolicies c t"
| "handle s c now t r auth (PostPolicies b) = with_auth auth (\<lambda>a. handleCreatePolicy s c t a b)"
| "handle s c now t r auth (PutPolicy i b) = with_auth auth (\<lambda>a. handleUpdatePolicy s c t a i b)"
| "handle s c now t r auth (DeletePolicyByID i) = with_auth auth (\<lambda>a. handleDeletePolicy s c t a i)"
| "handle s c now t r auth (PostAccessSSH b) = with_auth auth (\<lambda>a. handleIssueSSHCommand s c t a b)"
| "handle s c now t r auth GetSSHConfig = handleSSHConfig s c t auth"
| "handle s c now t r auth (PostRelayGrants b) = with_auth auth (\<lambda>a. handleIssueRelayGrant s c t a b)"
| "handle s c now t r auth (GetDiscovery i) = with_auth auth (\<lambda>a. handleGetEndpointDiscovery s c t a i)"
| "handle s c now t r auth (GetKeyStatus i) = with_auth auth (\<lambda>a. handleKeyStatus s c t a i)"
| "handle s c now t r auth GetGrants = with_auth auth (handleListAccessGrants s c t)"
| "handle s c now t r auth GetRequests = with_auth auth (handleListAccessRequests s c t)"
| "handle s c now t r auth GetSSHKeys = handleListSSHKeys s c t auth"
| "handle s c now t r auth (PostSSHKeys b) = handleCreateSSHKey s c t auth b"
| "handle s c now t r auth (DeleteSSHKeyByID i) = with_auth auth (\<lambda>a. handleDeleteSSHKey s c t a i)"
| "handle s c now t r auth GetTokens = handleListManufacturingTokens c t"
| "handle s c now t r auth (PostTokens b) = with_auth auth (\<lambda>a. handleCreateManufacturingToken s c t a b)"
| "handle s c now t r auth GetBatches = handleListManufacturingBatches c t"
| "handle s c now t r auth (PostBatches b) = with_auth auth (\<lambda>a. handleCreateManufacturingBatch s c t a b)"
| "handle s c now t r auth (PostCloseBatch i) = with_auth auth (\<lambda>a. handleCloseManufacturingBatch s c t a i)"
| "handle s c now t r auth (PostEnroll b) = handleEnrollDevice s c t b"
| "handle s c now t r auth GetDevices = handleListDevices c t"
| "handle s c now t r auth (DeleteDeviceByID i) = with_auth auth (\<lambda>a. handleDeleteDevice s c t a i)"
| "handle s c now t r auth (PostHeartbeat b) = handleHeartbeat s c t b"
| "handle s c now t r auth (GetAuthorizedKeys h u) = handleAgentAuthorizedKeys s c t h u"
| "handle s c now t r auth (PostAck h b) = handleAgentAuthorizedKeysAck s c t h b"

text \<open>The clock readings of a request outside the store: at the session check, for the revocation query,
  after it, and in the handler.\<close>

record clock =
  cl_verify :: int
  cl_revoked :: int
  cl_after :: int
  cl_handler :: int

definition server_auth :: "server \<Rightarrow> auth_config" where
  "server_auth s = \<lparr>am_sessionKey = sv_sessionKey s, am_devHeaders = sv_devHeaders s,
     am_adminGroup = (if oc_AdminGroup (sv_auth s) = '''' then ''ternal-admins'' else oc_AdminGroup (sv_auth s)),
     am_expectedIssuer = oc_Issuer (sv_auth s)\<rparr>"

definition authenticate :: "server \<Rightarrow> 'w conn \<Rightarrow> clock \<Rightarrow> http_request \<Rightarrow> 'w \<Rightarrow> auth_result \<times> 'w" where
  "authenticate s c cl r w =
     authMiddleware (sv_unmarshal s) (sv_hmac s) (server_auth s) (Some (SessionRevoked c (sv_hash s) (cl_revoked cl))) (cl_verify cl) (cl_after cl) r w"

definition serve :: "server \<Rightarrow> 'w conn \<Rightarrow> clock \<Rightarrow> ticks \<Rightarrow> http_request \<Rightarrow> endpoint \<Rightarrow> 'w \<Rightarrow> response \<times> 'w" where
  "serve s c cl t r e w =
     (case authenticate s c cl r w of
        (Unavailable, w') \<Rightarrow> (writeError 503 ''Session validation unavailable.'', w')
      | (Next auth, w') \<Rightarrow>
          (case route_of e of (method, pattern, gs) \<Rightarrow>
             if hr_Method r \<noteq> method then (writeError 405 '''', w')
             else case run_guards s gs r auth of
               Some (status, msg) \<Rightarrow> (writeError status msg, w')
             | None \<Rightarrow> handle s c (cl_handler cl) t r auth e w'))"

end
