(* ===== verification/Api_Properties.thy ===== *)
theory Api_Properties
  imports Api_Router Access_Properties Auth_Properties
begin

section \<open>What the HTTP API guarantees\<close>

text \<open>
  The handlers composed with the store: which requests can change anything at all, that every request
  is a sequence of store calls (so the store's invariants hold for the running service), and what the
  access decisions and the device endpoints establish.
\<close>

subsection \<open>Store calls that only read\<close>

lemma read_same: "snd (locked ok (with_query c (\<lambda>t. return (f t))) w) = w"
  by (simp add: store_monad split: sum.split)

lemma reads [simp]:
  "snd (ListHosts c ok w) = w" "snd (GetHost c ok i w) = w" "snd (ListPolicies c ok w) = w" "snd (ListSSHKeys c ok u w) = w"
  "snd (GetDeviceByHostID c ok i w) = w" "snd (GetDeviceBySerial c ok i w) = w" "snd (ListDevices c ok w) = w"
  "snd (GetEndpointDiscovery c ok i w) = w" "snd (GetAccessGrant c ok i w) = w" "snd (ListAccessGrants c ok w) = w"
  "snd (ListUserAccessGrants c ok u w) = w" "snd (ListAccessRequests c ok w) = w" "snd (ListUserAccessRequests c ok u w) = w"
  "snd (ListManufacturingTokens c ok w) = w" "snd (ListManufacturingBatches c ok w) = w"
  unfolding ListHosts_def GetHost_def ListPolicies_def ListSSHKeys_def GetDeviceByHostID_def GetDeviceBySerial_def ListDevices_def
    GetEndpointDiscovery_def GetAccessGrant_def ListAccessGrants_def ListUserAccessGrants_def ListAccessRequests_def
    ListUserAccessRequests_def ListManufacturingTokens_def ListManufacturingBatches_def
  by (rule read_same)+

lemma SessionRevoked_read [simp]: "snd (SessionRevoked c hash now cookie w) = w"
  by (simp add: SessionRevoked_def store_monad split: sum.split)

lemma answer_snd [simp]: "snd (answer r w) = w" "fst (answer r w) = r"
  by (simp_all add: answer_def)

lemma call_read: "snd q = w \<Longrightarrow> call q onErr k = (case fst q of Inl e \<Rightarrow> onErr e w | Inr a \<Rightarrow> k a w)"
  by (cases q) (auto simp: call_def split: sum.split)

lemma call_read_same:
  "snd q = w \<Longrightarrow> (\<And>e. snd (onErr e w) = w) \<Longrightarrow> (\<And>a. snd (k a w) = w) \<Longrightarrow> snd (call q onErr k) = w"
  by (auto simp: call_read split: sum.split)

lemma call_Pair: "call q onErr k = (r, w') \<longleftrightarrow>
    (\<exists>e w1. q = (Inl e, w1) \<and> onErr e w1 = (r, w')) \<or> (\<exists>a w1. q = (Inr a, w1) \<and> k a w1 = (r, w'))"
  by (cases q; cases "fst q") (auto simp: call_def)

lemma SessionRevoked_world: "SessionRevoked c hash now cookie w = (q, w') \<Longrightarrow> w' = w"
  using SessionRevoked_read [of c hash now cookie w] by simp

lemma authenticate_same [simp]: "snd (authenticate s c cl r w) = w"
  unfolding authenticate_def authMiddleware_def Let_def
  by (auto split: option.split sum.split prod.split dest: SessionRevoked_world)

subsection \<open>Requests that change something\<close>

text \<open>The endpoints of devices, which authenticate by token or signature, and the administrator's endpoints.\<close>

fun device_endpoint :: "endpoint \<Rightarrow> bool" where
  "device_endpoint (PostEnroll _) = True"
| "device_endpoint (PostHeartbeat _) = True"
| "device_endpoint (GetAuthorizedKeys _ _) = True"
| "device_endpoint (PostAck _ _) = True"
| "device_endpoint _ = False"

fun admin_endpoint :: "endpoint \<Rightarrow> bool" where
  "admin_endpoint (PostHosts _) = True"
| "admin_endpoint (PutHost _ _) = True"
| "admin_endpoint (DeleteHostByID _) = True"
| "admin_endpoint (PostPolicies _) = True"
| "admin_endpoint (PutPolicy _ _) = True"
| "admin_endpoint (DeletePolicyByID _) = True"
| "admin_endpoint (PostTokens _) = True"
| "admin_endpoint (PostBatches _) = True"
| "admin_endpoint (PostCloseBatch _) = True"
| "admin_endpoint (DeleteDeviceByID _) = True"
| "admin_endpoint _ = False"

lemma with_auth_same: "(\<And>a. snd (k a w) = w) \<Longrightarrow> snd (with_auth auth k w) = w"
  by (simp add: with_auth_def split: option.split)

lemma get_handlers_same:
  "snd (handleListHosts s c t a w) = w" "snd (handleGetHost s c t a i w) = w" "snd (handleListPolicies c t w) = w"
  "snd (handleGetEndpointDiscovery s c t a i w) = w" "snd (handleKeyStatus s c t a i w) = w" "snd (handleListAccessGrants s c t a w) = w"
  "snd (handleListAccessRequests s c t a w) = w" "snd (handleListManufacturingTokens c t w) = w"
  "snd (handleListManufacturingBatches c t w) = w" "snd (handleListDevices c t w) = w"
  "snd (handleSSHConfig s c t auth w) = w" "snd (handleListSSHKeys s c t auth w) = w"
  unfolding handleListHosts_def handleGetHost_def handleListPolicies_def handleGetEndpointDiscovery_def handleKeyStatus_def
    handleListAccessGrants_def handleListAccessRequests_def handleListManufacturingTokens_def handleListManufacturingBatches_def
    handleListDevices_def handleSSHConfig_def handleListSSHKeys_def
  by (auto simp: call_read Let_def split: sum.split option.split)

lemma get_handle_same:
  "fst (route_of e) = ''GET'' \<Longrightarrow> \<not> device_endpoint e \<Longrightarrow> snd (handle s c now t r auth e w) = w"
  by (cases e) (auto simp: get_handlers_same intro!: with_auth_same)

lemma run_guards_pass: "run_guards s gs r auth = None \<longleftrightarrow> (\<forall>g \<in> set gs. run_guard s g r auth = None)"
  by (induction gs) (auto split: option.split)

lemma route_guards:
  assumes "fst (route_of e) \<noteq> ''GET''" "\<not> device_endpoint e"
  shows "GAuth \<in> set (snd (snd (route_of e)))" "GCSRF \<in> set (snd (snd (route_of e)))"
    "admin_endpoint e \<Longrightarrow> GAdmin \<in> set (snd (snd (route_of e)))"
    "fst (route_of e) \<in> {''POST'', ''PUT'', ''DELETE''}"
  using assms by (cases e; simp)+

text \<open>C2. Only authenticated, same-site requests change anything.  If serving a request changes the world at
  all, it is a device endpoint, or it is a POST, PUT or DELETE of an authenticated user that passed the CSRF
  guard, and an administrator's for every endpoint on hosts, policies, devices and manufacturing.\<close>

theorem Router_protects:
  assumes "serve s c cl t r e w = (resp, w')" "w' \<noteq> w"
  shows "device_endpoint e \<or>
    (\<exists>a. authenticate s c cl r w = (Next (Some a), w) \<and> RequireCSRF (sv_url s) r (Some a) = None \<and>
       hr_Method r \<in> {''POST'', ''PUT'', ''DELETE''} \<and> (admin_endpoint e \<longrightarrow> ac_IsAdmin a))"
proof (cases "device_endpoint e")
  case False
  obtain auth where a: "authenticate s c cl r w = (Next auth, w)" "hr_Method r = fst (route_of e)"
    "run_guards s (snd (snd (route_of e))) r auth = None" "handle s c (cl_handler cl) t r auth e w = (resp, w')"
    using assms authenticate_same [of s c cl r w]
    by (cases "authenticate s c cl r w"; cases "route_of e") (auto simp: serve_def split: auth_result.splits if_splits option.splits)
  have m: "fst (route_of e) \<noteq> ''GET''" using get_handle_same [OF _ False, of s c "cl_handler cl" t r auth w] a(4) assms(2) by auto
  note g = route_guards [OF m False]
  have "run_guard s GAuth r auth = None" "run_guard s GCSRF r auth = None" "admin_endpoint e \<Longrightarrow> run_guard s GAdmin r auth = None"
    using a(3) g unfolding run_guards_pass by blast+
  then show ?thesis using a g(4)
    by (cases auth) (auto simp: run_guard_def RequireAuth_def RequireAdmin_def split: if_splits)
qed simp

subsection \<open>Requests are sequences of store calls\<close>

lemma calls_step:
  assumes "(store_call F c)\<^sup>*\<^sup>* w (snd q)" "\<And>e w'. (store_call F c)\<^sup>*\<^sup>* w' (snd (onErr e w'))" "\<And>a w'. (store_call F c)\<^sup>*\<^sup>* w' (snd (k a w'))"
  shows "(store_call F c)\<^sup>*\<^sup>* w (snd (call q onErr k))"
proof -
  have "(store_call F c)\<^sup>*\<^sup>* (snd q) (snd (call q onErr k))"
    using assms(2,3) by (cases q; cases "fst q") (auto simp: call_def)
  then show ?thesis using assms(1) by (rule rtranclp_trans [rotated])
qed

lemma store_call_star: "store_call F c w w' \<Longrightarrow> (store_call F c)\<^sup>*\<^sup>* w w'" by blast

lemmas one_call = store_call.intros [THEN store_call_star]

lemma calls_answer: "(store_call F c)\<^sup>*\<^sup>* w (snd (answer r w))" by simp

lemma calls_authorize:
  assumes "\<And>w'. (store_call F c)\<^sup>*\<^sup>* w' (snd (k w'))"
  shows "(store_call F c)\<^sup>*\<^sup>* w (snd (authorize_account s c t1 t2 action a host u k w))"
  unfolding authorize_account_def
  by (auto intro!: calls_step calls_answer one_call assms)

lemma calls_issue:
  "(store_call F c)\<^sup>*\<^sup>* w (snd (handleIssueSSHCommand s c t a b w))"
  unfolding handleIssueSSHCommand_def issue_authorized_def issue_grant_def Let_def
  by (auto split: option.split sum.split intro!: calls_step calls_answer one_call calls_authorize)

lemma calls_relay:
  "(store_call F c)\<^sup>*\<^sup>* w (snd (handleIssueRelayGrant s c t a b w))"
  unfolding handleIssueRelayGrant_def
  by (auto split: option.split intro!: calls_step calls_answer one_call calls_authorize)

lemma calls_heartbeat: "(store_call F c)\<^sup>*\<^sup>* w (snd (handleHeartbeat s c t b w))"
  unfolding handleHeartbeat_def
  by (auto split: option.split sum.split intro!: calls_step calls_answer one_call)

lemma calls_agent:
  "(store_call F c)\<^sup>*\<^sup>* w (snd (handleAgentAuthorizedKeys s c t h u w))"
  "(store_call F c)\<^sup>*\<^sup>* w (snd (handleAgentAuthorizedKeysAck s c t h b w))"
  unfolding handleAgentAuthorizedKeys_def handleAgentAuthorizedKeysAck_def
  by (auto split: option.split sum.split prod.split intro!: calls_step calls_answer one_call)

lemma calls_enroll: "F (ti_id2 (t 0)) \<Longrightarrow> (store_call F c)\<^sup>*\<^sup>* w (snd (handleEnrollDevice s c t b w))"
  unfolding handleEnrollDevice_def by (auto split: option.split intro!: calls_step calls_answer one_call)

lemma calls_logout: "(store_call F c)\<^sup>*\<^sup>* w (snd (handleLogout s c now t ck w))"
  unfolding handleLogout_def by (auto split: option.split sum.split intro!: calls_step calls_answer one_call)

lemma calls_admin:
  "(store_call F c)\<^sup>*\<^sup>* w (snd (handleCreateHost s c t a nh w))" "(store_call F c)\<^sup>*\<^sup>* w (snd (handleUpdateHost s c t a i nh w))"
  "(store_call F c)\<^sup>*\<^sup>* w (snd (handleDeleteHost s c t a i w))" "(store_call F c)\<^sup>*\<^sup>* w (snd (handleCreatePolicy s c t a np w))"
  "(store_call F c)\<^sup>*\<^sup>* w (snd (handleUpdatePolicy s c t a i np w))" "(store_call F c)\<^sup>*\<^sup>* w (snd (handleDeletePolicy s c t a i w))"
  "(store_call F c)\<^sup>*\<^sup>* w (snd (handleCreateManufacturingToken s c t a tq w))"
  "(store_call F c)\<^sup>*\<^sup>* w (snd (handleCreateManufacturingBatch s c t a bq w))"
  "(store_call F c)\<^sup>*\<^sup>* w (snd (handleCloseManufacturingBatch s c t a i w))" "(store_call F c)\<^sup>*\<^sup>* w (snd (handleDeleteDevice s c t a i w))"
  "(store_call F c)\<^sup>*\<^sup>* w (snd (handleCreateSSHKey s c t auth sk w))" "(store_call F c)\<^sup>*\<^sup>* w (snd (handleDeleteSSHKey s c t a i w))"
  unfolding handleCreateHost_def handleUpdateHost_def handleDeleteHost_def handleCreatePolicy_def handleUpdatePolicy_def handleDeletePolicy_def
    handleCreateManufacturingToken_def handleCreateManufacturingBatch_def handleCloseManufacturingBatch_def handleDeleteDevice_def
    handleCreateSSHKey_def handleDeleteSSHKey_def
  by (auto split: option.split prod.split intro!: calls_step calls_answer one_call)

lemma calls_with_auth: "(\<And>a. (store_call F c)\<^sup>*\<^sup>* w (snd (k a w))) \<Longrightarrow> (store_call F c)\<^sup>*\<^sup>* w (snd (with_auth auth k w))"
  by (simp add: with_auth_def split: option.split)

lemma handle_calls:
  assumes "F (ti_id2 (t 0))"
  shows "(store_call F c)\<^sup>*\<^sup>* w (snd (handle s c now t r auth e w))"
  by (cases e)
     (auto simp: get_handlers_same intro!: calls_with_auth calls_issue calls_relay calls_heartbeat calls_agent calls_enroll calls_logout
        calls_admin assms)

lemma serve_calls:
  assumes "F (ti_id2 (t 0))"
  shows "(store_call F c)\<^sup>*\<^sup>* w (snd (serve s c cl t r e w))"
proof -
  obtain q where q: "authenticate s c cl r w = (q, w)" using authenticate_same [of s c cl r w] by (metis prod.collapse)
  then show ?thesis using handle_calls [of F t, OF assms]
    by (cases q; cases "route_of e") (auto simp: serve_def split: option.split)
qed

text \<open>One served request; \<open>F\<close> holds for the fresh host identifiers of enrolments.\<close>

inductive api_step :: "(string \<Rightarrow> bool) \<Rightarrow> server \<Rightarrow> 'w conn \<Rightarrow> 'w \<Rightarrow> 'w \<Rightarrow> bool" for F s c where
  request: "F (ti_id2 (t 0)) \<Longrightarrow> api_step F s c w (snd (serve s c cl t r e w))"

lemma api_steps_calls: "(api_step F s c)\<^sup>*\<^sup>* w w' \<Longrightarrow> (store_call F c)\<^sup>*\<^sup>* w w'"
  by (induction rule: rtranclp_induct) (auto elim!: api_step.cases dest: serve_calls [of F] intro: rtranclp_trans)

text \<open>C18. The running service keeps its data well-formed.  However requests arrive, with whatever clock readings,
  identifiers and database outcomes, the tables keep all their keys, references and quotas, and the audit
  log only grows.\<close>

theorem api_invariant:
  assumes "sql_conn view c" "(api_step F s c)\<^sup>*\<^sup>* w w'" "db_ok (view w)"
  shows "db_ok (view w') \<and> (\<exists>es. audit_events (view w') = audit_events (view w) @ es)"
proof -
  note calls = api_steps_calls [OF assms(2)]
  have "take (length (audit_events (view w))) (audit_events (view w')) = audit_events (view w)"
    using store_calls_audit [OF assms(1) calls] by (simp add: audit_from_def)
  then show ?thesis using store_calls_db_ok [OF assms(1) calls assms(3)] by (metis append_take_drop_id)
qed

subsection \<open>Results of reads\<close>

lemma read_Inr:
  assumes "sql_conn view c" "fst (locked ok (with_query c (\<lambda>t. return (f t))) w) = Inr a"
  shows "a = f (view w)"
  using with_query_Inr [OF assms(1), of "\<lambda>t. return (f t)" w a w] assms(2)
  by (auto simp: locked_def with_query_def return_def split: if_splits sum.splits)

lemma set_newest_first [simp]: "set (newest_first key rs) = set rs"
  by (simp add: newest_first_def)

lemma GetHost_Inr:
  "sql_conn view c \<Longrightarrow> fst (GetHost c ok i w) = Inr h \<Longrightarrow> h = map_option host_of_row (query_row (\<lambda>r. h_ID r = i) (hosts (view w)))"
  unfolding GetHost_def by (rule read_Inr)

lemma found_id: "Some host = map_option host_of_row (query_row (\<lambda>r. h_ID r = i) rs) \<Longrightarrow> h_ID host = i"
  by (cases "query_row (\<lambda>r. h_ID r = i) rs") (auto simp: host_of_row_def Host.truncate_def dest: query_row_Some)

lemma ListPolicies_Inr:
  "sql_conn view c \<Longrightarrow> fst (ListPolicies c ok w) = Inr ps \<Longrightarrow> ps = map policy_of_row (sort_key p_Name (policies (view w)))"
  unfolding ListPolicies_def by (rule read_Inr)

lemma ListSSHKeys_Inr:
  assumes "sql_conn view c" "fst (ListSSHKeys c ok u w) = Inr ks"
  shows "set ks = {k \<in> set (ssh_keys (view w)). k_UserID k = u}"
proof -
  have "ks = newest_first k_CreatedAt (filter (\<lambda>k. k_UserID k = u) (ssh_keys (view w)))"
    using assms unfolding ListSSHKeys_def by (rule read_Inr)
  then show ?thesis by auto
qed

lemma GetDeviceByHostID_Inr:
  assumes "sql_conn view c" "fst (GetDeviceByHostID c ok i w) = Inr (Some x)"
  shows "x \<in> set (devices (view w)) \<and> d_HostID x = i"
proof -
  have "Some x = query_row (\<lambda>_. True) (newest_first d_EnrolledAt (filter (\<lambda>d. d_HostID d = i) (devices (view w))))"
    using assms unfolding GetDeviceByHostID_def by (rule read_Inr)
  from query_row_Some [OF this [symmetric]] show ?thesis by simp
qed

lemma GetDeviceBySerial_Inr:
  assumes "sql_conn view c" "fst (GetDeviceBySerial c ok i w) = Inr (Some d)"
  shows "d \<in> set (devices (view w)) \<and> d_SerialNumber d = i"
proof -
  have "Some d = query_row (\<lambda>d. d_SerialNumber d = i) (devices (view w))"
    using assms unfolding GetDeviceBySerial_def by (rule read_Inr)
  from query_row_Some [OF this [symmetric]] show ?thesis by simp
qed

lemma GetEndpointDiscovery_Inr:
  assumes "sql_conn view c" "fst (GetEndpointDiscovery c ok i w) = Inr (Some d)"
  shows "d \<in> set (endpoint_discovery (view w)) \<and> ed_HostID d = i \<and> host_live i (view w)"
proof -
  have "Some d = query_row (\<lambda>d. ed_HostID d = i \<and> host_live (ed_HostID d) (view w)) (endpoint_discovery (view w))"
    using assms unfolding GetEndpointDiscovery_def by (rule read_Inr)
  from query_row_Some [OF this [symmetric]] show ?thesis by auto
qed

lemma issue_success:
  assumes "sql_conn view c" "IssueSSHAccess c ok rid gid aid now u hid su e w = (Inr g, w')"
  shows "g = gid \<and> host_live hid (view w) \<and> view w' = issued rid gid aid now u hid su e (view w)"
proof -
  obtain ns where tx: "run_tx (issue_access_tx rid gid aid now u hid su e) (view w) = Inr (view w', ns)" and n: "sum_list ns = 3" and g: "g = gid"
    using assms(2) unfolding IssueSSHAccess_def locked_Inr
    by (auto simp: fail_Inr return_Inr split: if_splits elim!: with_tx_Inr [OF assms(1)])
  have "host_live hid (view w)"
  proof (rule ccontr)
    assume "\<not> host_live hid (view w)"
    then show False using tx n by (auto simp: issue_access_tx_def run_tx_Cons_Inr insert_when_def insert_row_def insert_audit_def split: if_splits)
  qed
  then show ?thesis using issue_tx_live [OF tx] g by blast
qed

lemma audit_append: "audit_events_update (\<lambda>rows. rows @ es) t = t\<lparr>audit_events := audit_events t @ es\<rparr>"
  by simp

lemma denied_record:
  assumes "sql_conn view c" "RecordPolicyDenied c ok aid now action rid u w = (q, w')"
  shows "view w' = view w \<or> view w' = (view w)\<lparr>audit_events := audit_events (view w) @ [audit_row aid action ''host'' rid u (Some denied_json) now]\<rparr>"
proof (cases "ok \<and> u \<noteq> ''''")
  case True
  let ?tx = "audit_tx (audit_row aid action ''host'' rid u (Some denied_json) now)"
  have "w' = snd (c_exec c ?tx w)"
    using assms(2) True by (cases "c_exec c ?tx w") (auto simp: RecordPolicyDenied_def store_monad split: sum.splits)
  then have "view w' = view w \<or> (\<exists>ns. run_tx ?tx (view w) = Inr (view w', ns))"
    using sql_conn.exec_outcome [OF assms(1), of ?tx w "fst (c_exec c ?tx w)" w'] by simp
  then show ?thesis by (auto simp: audit_tx_def run_tx_Cons_Inr insert_audit_def insert_row_def audit_append split: if_splits)
qed (use assms(2) in \<open>auto simp: RecordPolicyDenied_def store_monad split: if_splits\<close>)

subsection \<open>Access decisions\<close>

lemma status_simps [simp]:
  "rp_Status (writeError st m) = st" "rp_Status (writeJSON st b) = st" "rp_Status (writeStoreError st e) = st"
  by (simp_all add: writeError_def writeJSON_def writeStoreError_def)

definition requested_account :: "issue_request \<Rightarrow> Host \<Rightarrow> string" where
  "requested_account req host = (if is_SSHUser req = '''' then h_SSHUser host else is_SSHUser req)"

lemma authorize_passes:
  assumes "sql_conn view c" "authorize_account s c t1 t2 action a host u k w = (resp, w')" "rp_Status resp \<notin> {404, 500}"
  shows "(ac_IsAdmin a \<or> account_allowed s a (ti_now2 t1) host (map policy_of_row (sort_key p_Name (policies (view w)))) u) \<and> k w = (resp, w')"
proof (cases "ac_IsAdmin a")
  case False
  then obtain ps where ps: "fst (ListPolicies c (ti_ok t1) w) = Inr ps" "account_allowed s a (ti_now2 t1) host ps u" "k w = (resp, w')"
    using assms(2,3) by (auto simp: authorize_account_def call_read answer_def call_Pair split: if_splits sum.splits)
  then show ?thesis using ListPolicies_Inr [OF assms(1) ps(1)] by simp
qed (use assms(2) in \<open>simp add: authorize_account_def\<close>)

lemma issue_authorized_ok:
  assumes "sql_conn view c" "issue_authorized s c t a host u w = (resp, w')" "rp_Status resp = 200"
  obtains device discovery cmd where "device \<in> set (devices (view w))" "d_HostID device = h_ID host" "d_State device \<noteq> ''revoked''"
    "discovery \<in> set (endpoint_discovery (view w))" "issue_command host device discovery u = Inr cmd"
    "issue_grant s c t a host u cmd w = (resp, w')"
proof -
  obtain device discovery cmd where d: "fst (GetDeviceByHostID c (ti_ok (t 3)) (h_ID host) w) = Inr (Some device)" "d_State device \<noteq> ''revoked''"
    and e: "fst (GetEndpointDiscovery c (ti_ok (t 4)) (h_ID host) w) = Inr (Some discovery)"
    and cmd: "issue_command host device discovery u = Inr cmd" "issue_grant s c t a host u cmd w = (resp, w')"
    using assms(2,3) by (auto simp: issue_authorized_def call_read answer_def split: if_splits option.splits sum.splits)
  then show thesis using that GetDeviceByHostID_Inr [OF assms(1) d(1)] GetEndpointDiscovery_Inr [OF assms(1) e] by blast
qed

lemma issue_grant_ok:
  assumes "sql_conn view c" "issue_grant s c t a host u cmd w = (resp, w')" "rp_Status resp = 200"
  shows "(\<exists>k \<in> set (ssh_keys (view w)). k_UserID k = principal_of s a) \<and> rp_Body resp = BCommand cmd (ti_id2 (t 6)) \<and>
    host_live (h_ID host) (view w) \<and>
    view w' = issued (ti_id1 (t 6)) (ti_id2 (t 6)) (ti_id3 (t 6)) (ti_now (t 6)) (principal_of s a) (h_ID host) u (ti_now2 (t 6) + 300) (view w)"
proof -
  obtain ks where k: "fst (ListSSHKeys c (ti_ok (t 5)) (principal_of s a) w) = Inr ks" "ks \<noteq> []"
    using assms(2,3) unfolding issue_grant_def Let_def call_read [where q = "ListSSHKeys c (ti_ok (t 5)) (principal_of s a) w", OF reads(4)]
    by (cases "fst (ListSSHKeys c (ti_ok (t 5)) (principal_of s a) w)") (auto simp: answer_def split: if_splits)
  then obtain g where i: "IssueSSHAccess c (ti_ok (t 6)) (ti_id1 (t 6)) (ti_id2 (t 6)) (ti_id3 (t 6)) (ti_now (t 6)) (principal_of s a) (h_ID host) u
      (ti_now2 (t 6) + 300) w = (Inr g, w')" and r: "resp = writeJSON 200 (BCommand cmd g)"
    using assms(2,3) unfolding issue_grant_def Let_def call_read [where q = "ListSSHKeys c (ti_ok (t 5)) (principal_of s a) w", OF reads(4)]
    by (auto simp: call_Pair answer_def split: if_splits)
  have "\<exists>k \<in> set (ssh_keys (view w)). k_UserID k = principal_of s a"
    using k(2) ListSSHKeys_Inr [OF assms(1) k(1)] by (cases ks) auto
  then show ?thesis using issue_success [OF assms(1) i] r by (simp add: writeJSON_def)
qed

lemma issue_passes:
  assumes "sql_conn view c" "handleIssueSSHCommand s c t a (Some req) w = (resp, w')" "rp_Status resp = 200"
  obtains host where "Some host = map_option host_of_row (query_row (\<lambda>r. h_ID r = is_HostID req) (hosts (view w)))"
    "ac_IsAdmin a \<or> account_allowed s a (ti_now2 (t 1)) host (map policy_of_row (sort_key p_Name (policies (view w)))) (requested_account req host)"
    "issue_authorized s c t a host (requested_account req host) w = (resp, w')"
proof -
  obtain host where h: "fst (GetHost c (ti_ok (t 0)) (is_HostID req) w) = Inr (Some host)"
    and h2: "authorize_account s c (t 1) (t 2) ''access.ssh.denied'' a host (requested_account req host)
      (issue_authorized s c t a host (requested_account req host)) w = (resp, w')"
    using assms(2,3) by (auto simp: handleIssueSSHCommand_def call_read answer_def Let_def requested_account_def [abs_def] split: option.splits sum.splits)
  then show thesis using that authorize_passes [OF assms(1) h2] assms(3) GetHost_Inr [OF assms(1) h] by simp
qed

text \<open>C6. What an SSH command in a response stands for.  A success means: the host exists; the user is an
  administrator or a stored policy allows the account that was asked for; the host's device is enrolled
  and neither is revoked; the user has a registered key; the command is the strict one that pins the
  device's host key; and the approved request, a grant of 300 seconds and the audit event were stored,
  nothing else.\<close>

theorem handleIssueSSHCommand_sound:
  assumes "sql_conn view c" "handleIssueSSHCommand s c t a (Some req) w = (resp, w')" "rp_Status resp = 200"
  shows "\<exists>host device discovery cmd.
    Some host = map_option host_of_row (query_row (\<lambda>r. h_ID r = is_HostID req) (hosts (view w))) \<and>
    (ac_IsAdmin a \<or> account_allowed s a (ti_now2 (t 1)) host (map policy_of_row (sort_key p_Name (policies (view w)))) (requested_account req host)) \<and>
    device \<in> set (devices (view w)) \<and> d_HostID device = h_ID host \<and> d_State device \<noteq> ''revoked'' \<and> host_live (h_ID host) (view w) \<and>
    discovery \<in> set (endpoint_discovery (view w)) \<and> (\<exists>k \<in> set (ssh_keys (view w)). k_UserID k = principal_of s a) \<and>
    issue_command host device discovery (requested_account req host) = Inr cmd \<and> rp_Body resp = BCommand cmd (ti_id2 (t 6)) \<and>
    view w' = issued (ti_id1 (t 6)) (ti_id2 (t 6)) (ti_id3 (t 6)) (ti_now (t 6)) (principal_of s a) (h_ID host) (requested_account req host)
      (ti_now2 (t 6) + 300) (view w)"
proof -
  obtain host where h: "Some host = map_option host_of_row (query_row (\<lambda>r. h_ID r = is_HostID req) (hosts (view w)))"
    and auth: "ac_IsAdmin a \<or> account_allowed s a (ti_now2 (t 1)) host (map policy_of_row (sort_key p_Name (policies (view w)))) (requested_account req host)"
    and k: "issue_authorized s c t a host (requested_account req host) w = (resp, w')"
    using issue_passes [OF assms] .
  obtain device discovery cmd where d: "device \<in> set (devices (view w))" "d_HostID device = h_ID host" "d_State device \<noteq> ''revoked''"
    "discovery \<in> set (endpoint_discovery (view w))" "issue_command host device discovery (requested_account req host) = Inr cmd"
    and g: "issue_grant s c t a host (requested_account req host) cmd w = (resp, w')"
    using issue_authorized_ok [OF assms(1) k assms(3)] .
  show ?thesis using h auth d issue_grant_ok [OF assms(1) g assms(3)]
    by (intro exI [of _ host] exI [of _ device] exI [of _ discovery] exI [of _ cmd] conjI) simp_all
qed

lemma authorize_denied:
  assumes "\<not> ac_IsAdmin a" "\<And>ps. fst (ListPolicies c (ti_ok t1) w) = Inr ps \<Longrightarrow> \<not> account_allowed s a (ti_now2 t1) host ps u"
    and "authorize_account s c t1 t2 action a host u k w = (resp, w')"
  shows "(resp, w') = (writeError 500 '''', w) \<or> (resp \<in> {writeError 404 ''host not found'', writeError 500 ''''} \<and>
    w' = snd (RecordPolicyDenied c (ti_ok t2) (ti_id1 t2) (ti_now t2) action (h_ID host) (principal_of s a) w))"
proof -
  note read = call_read [where q = "ListPolicies c (ti_ok t1) w", OF reads(3)]
  let ?q = "RecordPolicyDenied c (ti_ok t2) (ti_id1 t2) (ti_now t2) action (h_ID host) (principal_of s a) w"
  show ?thesis
  proof (cases "fst (ListPolicies c (ti_ok t1) w)")
    case (Inr ps)
    then have "call ?q internal (\<lambda>_. answer (writeError 404 ''host not found'')) = (resp, w')"
      using assms(1,3) assms(2) [OF Inr] by (simp add: authorize_account_def read)
    then show ?thesis by (auto simp: call_Pair answer_def writeStoreError_def)
  qed (use assms(1,3) in \<open>auto simp: authorize_account_def read answer_def writeStoreError_def\<close>)
qed

text \<open>Denials do not tell hosts apart.  A user who is no administrator and whom no policy allows the account
  gets the answer of a missing host, or an internal error, and the only possible trace is one audit
  event that names the user and the host.\<close>

lemma handleIssueSSHCommand_denied:
  assumes "sql_conn view c" "handleIssueSSHCommand s c t a (Some req) w = (resp, w')" "\<not> ac_IsAdmin a"
    and "\<And>host. Some host = map_option host_of_row (query_row (\<lambda>r. h_ID r = is_HostID req) (hosts (view w))) \<Longrightarrow>
      \<not> account_allowed s a (ti_now2 (t 1)) host (map policy_of_row (sort_key p_Name (policies (view w)))) (requested_account req host)"
  shows "(resp = writeError 404 ''host not found'' \<or> resp = writeError 500 '''') \<and>
    (view w' = view w \<or> view w' = (view w)\<lparr>audit_events := audit_events (view w) @
       [audit_row (ti_id1 (t 2)) ''access.ssh.denied'' ''host'' (is_HostID req) (principal_of s a) (Some denied_json) (ti_now (t 2))]\<rparr>)"
proof (cases "fst (GetHost c (ti_ok (t 0)) (is_HostID req) w)")
  case (Inr h)
  show ?thesis
  proof (cases h)
    case (Some host)
    let ?q = "RecordPolicyDenied c (ti_ok (t 2)) (ti_id1 (t 2)) (ti_now (t 2)) ''access.ssh.denied'' (h_ID host) (principal_of s a) w"
    have h: "Some host = map_option host_of_row (query_row (\<lambda>r. h_ID r = is_HostID req) (hosts (view w)))"
      using GetHost_Inr [OF assms(1) Inr] Some by simp
    note i = found_id [OF h]
    have no: "\<not> account_allowed s a (ti_now2 (t 1)) host ps (requested_account req host)" if "fst (ListPolicies c (ti_ok (t 1)) w) = Inr ps" for ps
      using assms(4) [OF h] ListPolicies_Inr [OF assms(1) that] by simp
    have "authorize_account s c (t 1) (t 2) ''access.ssh.denied'' a host (requested_account req host)
        (issue_authorized s c t a host (requested_account req host)) w = (resp, w')"
      using assms(2) Inr Some by (simp add: handleIssueSSHCommand_def call_read Let_def requested_account_def)
    from authorize_denied [OF assms(3) _ this] no
    have "(resp, w') = (writeError 500 '''', w) \<or> (resp \<in> {writeError 404 ''host not found'', writeError 500 ''''} \<and> w' = snd ?q)" by blast
    then show ?thesis using denied_record [OF assms(1), of "ti_ok (t 2)" "ti_id1 (t 2)" "ti_now (t 2)" _ _ _ w "fst ?q" "snd ?q"] i by auto
  qed (use assms(2) Inr in \<open>auto simp: handleIssueSSHCommand_def call_read\<close>)
qed (use assms(2) in \<open>auto simp: handleIssueSSHCommand_def call_read answer_def writeStoreError_def\<close>)


subsection \<open>Revocation through the API\<close>

lemma serve_handled:
  assumes "serve s c cl t r e w = (resp, w')" "rp_Status resp \<notin> {401, 403, 405, 503}"
  obtains auth where "handle s c (cl_handler cl) t r auth e w = (resp, w')"
proof -
  obtain q where q: "authenticate s c cl r w = (q, w)" using authenticate_same [of s c cl r w] by (metis prod.collapse)
  have refuse: "fst x \<in> {401, 403}" if "run_guards s gs r auth = Some x" for gs auth x
    using that by (induction gs) (auto simp: run_guard_def RequireAuth_def RequireAdmin_def RequireCSRF_def Let_def split: option.splits guard_kind.splits if_splits)
  show thesis using that q assms refuse
    by (cases q; cases "route_of e") (force simp: serve_def split: if_splits option.splits)+
qed

lemma dead_issue_handler:
  assumes "sql_conn view c" "host_dead (is_HostID req) (view w)" "handleIssueSSHCommand s c t a (Some req) w = (resp, w')"
  shows "rp_Status resp \<noteq> 200"
proof
  assume ok: "rp_Status resp = 200"
  obtain host where h: "Some host = map_option host_of_row (query_row (\<lambda>r. h_ID r = is_HostID req) (hosts (view w)))"
    and k: "issue_authorized s c t a host (requested_account req host) w = (resp, w')"
    using issue_passes [OF assms(1,3) ok] by blast
  obtain cmd where "issue_grant s c t a host (requested_account req host) cmd w = (resp, w')"
    using issue_authorized_ok [OF assms(1) k ok] by blast
  from issue_grant_ok [OF assms(1) this ok] have "host_live (is_HostID req) (view w)" by (simp add: found_id [OF h])
  then show False using host_dead_not_live [OF assms(2)] by blast
qed

lemma dead_relay_handler:
  assumes "sql_conn view c" "host_dead (rl_HostID req) (view w)" "handleIssueRelayGrant s c t a (Some req) w = (resp, w')"
  shows "rp_Status resp \<noteq> 201"
proof
  assume ok: "rp_Status resp = 201"
  let ?k = "\<lambda>w. call (CreateRelayAccessGrant c (ti_ok (t 4)) (ti_id1 (t 4)) (ti_id2 (t 4)) (ti_now (t 4)) (rl_HostID req)
      (ToLower (rl_ClientEndpointID req)) (principal_of s a) 300 w) internal (\<lambda>grant. answer (writeJSON 201 (BRelayGrant grant)))"
  obtain host u where "authorize_account s c (t 2) (t 3) ''relay.grant.denied'' a host u ?k w = (resp, w')"
    using assms(3) ok by (auto simp: handleIssueRelayGrant_def call_read answer_def split: if_splits option.splits sum.splits)
  from authorize_passes [OF assms(1) this] ok have "?k w = (resp, w')" by simp
  then show False using ok dead_relay(1) [OF assms(1,2)] unfolding call_Pair by (auto simp: answer_def)
qed

lemma dead_discovery_handler:
  assumes "sql_conn view c" "host_dead i (view w)" "handleGetEndpointDiscovery s c t a i w = (resp, w')"
  shows "rp_Status resp \<noteq> 200"
proof
  assume ok: "rp_Status resp = 200"
  then obtain d where d: "fst (GetEndpointDiscovery c (ti_ok (t 3)) i w) = Inr (Some d)"
    using assms(3) by (auto simp: handleGetEndpointDiscovery_def call_read answer_def split: if_splits option.splits sum.splits)
  then have "GetEndpointDiscovery c (ti_ok (t 3)) i w = (Inr (Some d), w)" by (simp add: prod_eq_iff)
  from dead_discovery [OF assms(1,2) this] show False by simp
qed

lemma delete_served:
  assumes "serve s c cl t r (DeleteDeviceByID i) w = (resp, w')" "rp_Status resp = 200"
  obtains actor where "DeleteDevice c (ti_ok (t 0)) (ti_id1 (t 0)) (ti_now (t 0)) i actor w = (Inr (), w')"
proof -
  obtain auth where "handle s c (cl_handler cl) t r auth (DeleteDeviceByID i) w = (resp, w')"
    using serve_handled [OF assms(1)] assms(2) by auto
  then show thesis using that assms(2)
    by (cases auth) (auto simp: with_auth_def handleDeleteDevice_def call_Pair answer_def)
qed

lemma dead_api:
  assumes "sql_conn view c" "host_dead hid (view w)"
  shows "is_HostID req = hid \<Longrightarrow> rp_Status (fst (serve s c cl t r (PostAccessSSH (Some req)) w)) \<noteq> 200"
    and "rl_HostID rreq = hid \<Longrightarrow> rp_Status (fst (serve s c cl t r (PostRelayGrants (Some rreq)) w)) \<noteq> 201"
    and "rp_Status (fst (serve s c cl t r (GetDiscovery hid) w)) \<noteq> 200"
proof -
  have handled: "\<exists>auth. handle s c (cl_handler cl) t r auth e w = serve s c cl t r e w" if "rp_Status (fst (serve s c cl t r e w)) \<in> {200, 201}" for e
    using serve_handled [of s c cl t r e w "fst (serve s c cl t r e w)" "snd (serve s c cl t r e w)"] that by fastforce
  have no: "rp_Status (fst (with_auth auth k w)) \<noteq> n" if "n \<in> {200, 201}" "\<And>a. rp_Status (fst (k a w)) \<noteq> n" for auth k n
    using that by (auto simp: with_auth_def split: option.split)
  show "rp_Status (fst (serve s c cl t r (PostAccessSSH (Some req)) w)) \<noteq> 200" if "is_HostID req = hid"
    using handled [of "PostAccessSSH (Some req)"] no [of 200 "\<lambda>a. handleIssueSSHCommand s c t a (Some req)"]
      dead_issue_handler [OF assms(1), of req w s t] assms(2) that by (metis handle.simps(13) insertI1 prod.collapse)
  show "rp_Status (fst (serve s c cl t r (PostRelayGrants (Some rreq)) w)) \<noteq> 201" if "rl_HostID rreq = hid"
    using handled [of "PostRelayGrants (Some rreq)"] no [of 201 "\<lambda>a. handleIssueRelayGrant s c t a (Some rreq)"]
      dead_relay_handler [OF assms(1), of rreq w s t] assms(2) that by (metis handle.simps(15) insertI1 insertI2 prod.collapse)
  show "rp_Status (fst (serve s c cl t r (GetDiscovery hid) w)) \<noteq> 200"
    using handled [of "GetDiscovery hid"] no [of 200 "\<lambda>a. handleGetEndpointDiscovery s c t a hid"]
      dead_discovery_handler [OF assms] by (metis handle.simps(16) insertI1 prod.collapse)
qed

text \<open>C3. Revocation holds for the whole service.  Once an administrator's DELETE of a device was answered with
  success, then after any further requests (only an enrolment that draws the same fresh host identifier
  is excluded) every request for SSH access, for a relay grant or for the routes of its host fails.\<close>

theorem api_revocation:
  assumes "sql_conn view c" "db_ok (view w)" "d \<in> set (devices (view w))"
    and "serve s c cl t r (DeleteDeviceByID (d_ID d)) w = (resp, w1)" "rp_Status resp = 200"
    and "(api_step (\<lambda>x. x \<noteq> d_HostID d) s c)\<^sup>*\<^sup>* w1 w2" "is_HostID req = d_HostID d" "rl_HostID rreq = d_HostID d"
  shows "rp_Status (fst (serve s c cl' t' r' (PostAccessSSH (Some req)) w2)) \<noteq> 200 \<and>
    rp_Status (fst (serve s c cl' t' r' (PostRelayGrants (Some rreq)) w2)) \<noteq> 201 \<and>
    rp_Status (fst (serve s c cl' t' r' (GetDiscovery (d_HostID d)) w2)) \<noteq> 200"
proof -
  obtain actor where del: "DeleteDevice c (ti_ok (t 0)) (ti_id1 (t 0)) (ti_now (t 0)) (d_ID d) actor w = (Inr (), w1)"
    using delete_served [OF assms(4,5)] .
  have "host_dead (d_HostID d) (view w2)"
    using store_calls_dead [OF assms(1) api_steps_calls [OF assms(6)] DeleteDevice_dead [OF assms(1,2) del assms(3) refl]] .
  from dead_api [OF assms(1) this] assms(7,8) show ?thesis by blast
qed

subsection \<open>Device endpoints\<close>

text \<open>A request that is as recent as the clock skew allows and that the enrolled, unrevoked device signed.\<close>

definition device_signed :: "server \<Rightarrow> tables \<Rightarrow> int \<Rightarrow> string \<Rightarrow> string \<Rightarrow> string \<Rightarrow> int64 \<Rightarrow> string \<Rightarrow> string \<Rightarrow> bool" where
  "device_signed s db now serial endpointID fingerprint timestamp signature payload \<longleftrightarrow>
     Fresh timestamp (word_of_int now) \<and>
     (\<exists>d \<in> set (devices db). d_SerialNumber d = serial \<and> d_State d \<noteq> ''revoked'' \<and> d_EndpointID d = endpointID \<and>
        d_SSHHostKeyFingerprint d = fingerprint \<and> Verify (sv_ed s) (d_DevicePublicKey d) payload signature = Inr ())"

lemma verifyDevice_sound:
  assumes "sql_conn view c" "verifyDevice s c ti serial ep fp ts sig p w = Inr d"
  shows "device_signed s (view w) (ti_now ti) serial ep fp ts sig p"
proof -
  have "fst (GetDeviceBySerial c (ti_ok ti) serial w) = Inr (Some d)" and f: "Fresh ts (word_of_int (ti_now ti))"
    and d: "d_State d \<noteq> ''revoked''" "d_EndpointID d = ep" "d_SSHHostKeyFingerprint d = fp" "Verify (sv_ed s) (d_DevicePublicKey d) p sig = Inr ()"
    using assms(2) by (auto simp: verifyDevice_def split: if_splits sum.splits option.splits)
  from GetDeviceBySerial_Inr [OF assms(1) this(1)] f d show ?thesis by (auto simp: device_signed_def)
qed

text \<open>C16. Devices act only for themselves.  A heartbeat, a fetch of the authorized keys or an acknowledgement that
  changes anything carries a timestamp within the clock skew and a valid signature, over its own contents,
  under the key with which a device of that serial number, endpoint and host key was enrolled, and that
  device is not revoked.\<close>

theorem device_writes_authenticated:
  assumes "sql_conn view c"
  shows "(snd (handleHeartbeat s c t (Some hb) w) \<noteq> w \<longrightarrow>
      device_signed s (view w) (ti_now (t 0)) (hb_Serial hb) (hb_EndpointID hb) (hb_Fingerprint hb) (hb_Timestamp hb) (hb_Signature hb)
        (HeartbeatPayload (sv_marshal_discovery s) (hb_Serial hb) (hb_EndpointID hb) (hb_Fingerprint hb) (hb_Timestamp hb) (hb_Status hb) (hb_Discovery hb))) \<and>
    (snd (handleAgentAuthorizedKeys s c t h u w) \<noteq> w \<longrightarrow>
      (\<exists>ts. parseTimestamp (dh_Timestamp h) = Some ts \<and>
        device_signed s (view w) (ti_now (t 0)) (dh_Serial h) (dh_EndpointID h) (dh_Fingerprint h) ts (dh_Signature h)
          (AuthorizedKeysPayload (dh_Serial h) (dh_EndpointID h) (dh_Fingerprint h) ts u))) \<and>
    (snd (handleAgentAuthorizedKeysAck s c t h (Some ak) w) \<noteq> w \<longrightarrow>
      (\<exists>ts. parseTimestamp (dh_Timestamp h) = Some ts \<and>
        device_signed s (view w) (ti_now (t 0)) (dh_Serial h) (dh_EndpointID h) (dh_Fingerprint h) ts (dh_Signature h)
          (AuthorizedKeysAckPayload (dh_Serial h) (dh_EndpointID h) (dh_Fingerprint h) ts (ak_SSHUser ak) (ak_Generation ak) (ak_SHA256 ak))))"
  by (auto simp: handleHeartbeat_def handleAgentAuthorizedKeys_def handleAgentAuthorizedKeysAck_def
      split: option.splits sum.splits intro: verifyDevice_sound [OF assms])

end
