(* ===== verification/Api_Witness.thy ===== *)
theory Api_Witness
  imports Api_Properties Signature_Properties
begin

section \<open>A sample run of the service\<close>

text \<open>
  The service on the reference database, and the requests on which its theorems are evaluated: a device
  that was enrolled and has reported a relay route sends a signed heartbeat; the administrator, whose key
  is registered, is given an SSH command, and a user without a policy is not; the administrator revokes a
  device, through the middleware and the guards.
\<close>

definition sample_server :: server where
  "sample_server = \<lparr>sv_sha256 = sample_hash, sv_hash = sample_hash, sv_hmac = sample_hmac, sv_marshal = marshal_sample,
     sv_unmarshal = unmarshal_sample, sv_marshal_discovery = (\<lambda>_. ''{}''), sv_ed = sample_ed, sv_url = sample_url,
     sv_parse_key = (\<lambda>s. Some \<lparr>pk_canonical = s, pk_comment = '''', pk_rest = '''', pk_fingerprint = ''fp''\<rparr>),
     sv_auth = \<lparr>oc_Issuer = '''', oc_ClientID = '''', oc_ClientSecret = '''', oc_RedirectURL = '''', oc_AdminGroup = '''', oc_GroupsClaim = '''', oc_PolicyClaims = []\<rparr>,
     sv_oidcErr = False, sv_sessionKey = sample_key, sv_relayToken = '''', sv_sessionTTL = 3600, sv_devHeaders = False, sv_configErr = False\<rparr>"

definition sample_clock :: clock where
  "sample_clock = \<lparr>cl_verify = 500, cl_revoked = 500, cl_after = 501, cl_handler = 501\<rparr>"

definition sample_ticks :: "string \<Rightarrow> ticks" where
  "sample_ticks i n = \<lparr>ti_ok = True, ti_now = 502, ti_now2 = 502, ti_id1 = ''a'' @ i, ti_id2 = ''b'' @ i, ti_id3 = ''c'' @ i\<rparr>"

abbreviation run :: "string \<Rightarrow> http_request \<Rightarrow> endpoint \<Rightarrow> world \<Rightarrow> response \<times> world" where
  "run i \<equiv> serve sample_server sample_conn sample_clock (sample_ticks i)"

definition sample_endpoint :: string where "sample_endpoint = replicate 64 CHR ''a''"

definition sample_fingerprint :: string where "sample_fingerprint = ''SHA256:'' @ replicate 43 CHR ''A''"

definition sample_private :: string where "sample_private = replicate 64 CHR ''k''"

definition sample_routes :: Discovery where
  "sample_routes = \<lparr>dc_DirectAddresses = None, dc_RelayURLs = Some [''https://relay.example'']\<rparr>"

definition sample_heartbeat :: heartbeat_request where
  "sample_heartbeat = \<lparr>hb_Status = ''online'', hb_Serial = ''edge-1'', hb_EndpointID = sample_endpoint, hb_Fingerprint = sample_fingerprint, hb_Timestamp = 500,
     hb_Signature = Sign sample_ed sample_private (HeartbeatPayload (\<lambda>_. ''{}'') ''edge-1'' sample_endpoint sample_fingerprint 500 ''online'' (Some sample_routes)),
     hb_Discovery = Some sample_routes\<rparr>"

text \<open>A database with an enrolled device, its route, and the administrator's key.\<close>

definition ready_tables :: tables where
  "ready_tables = empty_tables
     \<lparr>hosts := [\<lparr>h_ID = ''host1'', h_Name = ''edge-1'', h_EndpointID = sample_endpoint, h_SSHUser = ''root'', h_Tags = None, h_SSHPort = 22,
        h_Status = ''online'', h_Owner = '''', h_LastSeen = None, h_created_at = 100, h_updated_at = 100\<rparr>],
      devices := [enroll_device_row 101 ''dev1'' ''host1'' sample_endpoint sample_fingerprint (PublicKey sample_ed sample_private) ''edge-1'' ''m''],
      endpoint_discovery := [\<lparr>ed_HostID = ''host1'', ed_DirectAddresses = [], ed_RelayURLs = [''https://relay.example''], ed_UpdatedAt = 102\<rparr>],
      ssh_keys := [\<lparr>k_ID = ''k1'', k_UserID = ''bob'', k_PublicKey = ''ssh-ed25519 AAAA'', k_Fingerprint = ''fp'', k_CreatedAt = 100\<rparr>]\<rparr>"

definition ready :: world where
  "ready = world0\<lparr>wo_tables := ready_tables\<rparr>"

definition sample_issue :: issue_request where "sample_issue = \<lparr>is_HostID = ''host1'', is_SSHUser = ''''\<rparr>"

lemma issue_evaluates:
  "rp_Status (fst (handleIssueSSHCommand sample_server sample_conn (sample_ticks ''5'') sample_context (Some sample_issue) ready)) = 200"
  by code_simp

text \<open>The administrator's revocation of the device of the store's sample run.\<close>

definition delete_request :: http_request where
  "delete_request = sample_request\<lparr>hr_Method := ''DELETE''\<rparr>"

definition revoke_run :: "response \<times> world" where
  "revoke_run = run ''8'' delete_request (DeleteDeviceByID ''dev1'') world3"

lemma heartbeat_evaluates:
  "map d_LastSeenAt (devices (wo_tables (snd (handleHeartbeat sample_server sample_conn (sample_ticks ''6'') (Some sample_heartbeat) ready)))) = [Some 502]"
  by code_simp

lemma revoke_evaluates: "(case revoke_run of (resp, w) \<Rightarrow> rp_Status resp = 200 \<and> map d_State (devices (wo_tables w)) = [''revoked''])"
  by code_simp

lemma revoke_answer: "rp_Status (fst revoke_run) = 200"
  and revoke_state: "map d_State (devices (wo_tables (snd revoke_run))) = [''revoked'']"
  using revoke_evaluates by (simp_all add: case_prod_unfold)

subsection \<open>The theorems at work\<close>

theorem Router_protects_witness:
  "\<exists>a. authenticate sample_server sample_conn sample_clock delete_request world3 = (Next (Some a), world3) \<and>
     RequireCSRF sample_url delete_request (Some a) = None \<and> ac_IsAdmin a"
proof -
  have "snd revoke_run \<noteq> world3" using revoke_state world3_devices by auto
  from Router_protects [of sample_server sample_conn sample_clock "sample_ticks ''8''" delete_request "DeleteDeviceByID ''dev1''" world3
      "fst revoke_run" "snd revoke_run", OF _ this]
  show ?thesis by (auto simp: revoke_run_def sample_server_def)
qed

lemma sample_api_step: "(api_step (\<lambda>_. True) sample_server sample_conn)\<^sup>*\<^sup>* world3 (snd revoke_run)"
  unfolding revoke_run_def by (rule r_into_rtranclp) (rule api_step.request, simp)

theorem api_invariant_witness:
  "db_ok (wo_tables (snd revoke_run)) \<and> map d_State (devices (wo_tables (snd revoke_run))) = [''revoked'']"
  using api_invariant [OF sample_contract sample_api_step world3_ok] revoke_state by simp

theorem handleIssueSSHCommand_sound_witness:
  "\<exists>device. device \<in> set (devices ready_tables) \<and> d_State device \<noteq> ''revoked'' \<and> host_live ''host1'' ready_tables \<and>
     rp_Status (fst (handleIssueSSHCommand sample_server sample_conn (sample_ticks ''5'') sample_context (Some sample_issue) ready)) = 200"
proof -
  have h: "Some host = map_option host_of_row (query_row (\<lambda>r. h_ID r = is_HostID sample_issue) (hosts (wo_tables ready))) \<Longrightarrow> h_ID host = ''host1''" for host
    using found_id by (fastforce simp: sample_issue_def)
  from handleIssueSSHCommand_sound [OF sample_contract prod.collapse [symmetric] issue_evaluates] show ?thesis
    by (elim exE conjE) (use h issue_evaluates in \<open>force simp: ready_def\<close>)
qed

theorem api_revocation_witness:
  "rp_Status (fst (run ''9'' sample_request (PostAccessSSH (Some sample_issue)) (snd revoke_run))) \<noteq> 200 \<and> rp_Status (fst revoke_run) = 200"
proof -
  have d: "sample_device \<in> set (devices (wo_tables world3))" by (simp add: sample_device_enrolled)
  have i: "d_ID sample_device = ''dev1''" "d_HostID sample_device = ''host1''" by (simp_all add: sample_device_def enroll_device_row_def)
  have "serve sample_server sample_conn sample_clock (sample_ticks ''8'') delete_request (DeleteDeviceByID (d_ID sample_device)) world3 =
      (fst revoke_run, snd revoke_run)" by (simp add: revoke_run_def i)
  from api_revocation [OF sample_contract world3_ok d this revoke_answer rtranclp.rtrancl_refl, of sample_issue
      "\<lparr>rl_HostID = ''host1'', rl_ClientEndpointID = '''', rl_SSHUser = '''', rl_TTL = 0\<rparr>" sample_clock "sample_ticks ''9''" sample_request]
  show ?thesis using revoke_answer by (simp add: i sample_issue_def)
qed

theorem device_writes_authenticated_witness:
  "device_signed sample_server ready_tables 502 ''edge-1'' sample_endpoint sample_fingerprint 500 (hb_Signature sample_heartbeat)
     (HeartbeatPayload (\<lambda>_. ''{}'') ''edge-1'' sample_endpoint sample_fingerprint 500 ''online'' (Some sample_routes))"
proof -
  have "snd (handleHeartbeat sample_server sample_conn (sample_ticks ''6'') (Some sample_heartbeat) ready) \<noteq> ready"
    using heartbeat_evaluates by (auto simp: ready_def ready_tables_def enroll_device_row_def)
  then show ?thesis
    using device_writes_authenticated [OF sample_contract, of sample_server "sample_ticks ''6''" sample_heartbeat ready]
    by (simp add: sample_heartbeat_def sample_server_def sample_ticks_def ready_def)
qed

end
