(* ===== verification/Go_Path.thy ===== *)
theory Go_Path
  imports Prelude
begin

section \<open>Paths and cuts (Go's path/filepath and strings packages)\<close>

text \<open>
  What the agent, the client and the configuration of the store use of \<^verbatim>\<open>path/filepath\<close> on Unix, and the
  remaining functions of \<^verbatim>\<open>strings\<close>.
\<close>

subsection \<open>Strings\<close>

definition TrimSuffix :: "string \<Rightarrow> string \<Rightarrow> string" where
  "TrimSuffix s p = (if HasSuffix s p then take (length s - length p) s else s)"

text \<open>\<^verbatim>\<open>strings.Cut(s, sep)\<close> for a one-byte separator: \<open>None\<close> when the separator is not found.\<close>

definition Cut :: "string \<Rightarrow> char \<Rightarrow> (string \<times> string) option" where
  "Cut s b = (case Index s [b] of None \<Rightarrow> None | Some i \<Rightarrow> Some (take i s, drop (Suc i) s))"

text \<open>\<^verbatim>\<open>strings.CutPrefix\<close>.\<close>

definition CutPrefix :: "string \<Rightarrow> string \<Rightarrow> string option" where
  "CutPrefix s p = (if HasPrefix s p then Some (drop (length p) s) else None)"

lemma TrimSuffix_append [simp]: "TrimSuffix (s @ p) p = s"
  by (simp add: TrimSuffix_def HasSuffix_def)

lemma CutPrefix_append [simp]: "CutPrefix (p @ s) p = Some s"
  by (simp add: CutPrefix_def)

lemma Index_char: "b \<notin> set u \<Longrightarrow> Index (u @ b # w) [b] = Some (length u)"
  by (induction u) auto

lemma Cut_append: "b \<notin> set u \<Longrightarrow> Cut (u @ b # w) b = Some (u, w)"
  by (simp add: Cut_def Index_char)

lemma Cut_Some: "Cut s b = Some (u, w) \<Longrightarrow> s = u @ b # w \<and> b \<notin> set u"
proof -
  assume "Cut s b = Some (u, w)"
  then obtain i where i: "Index s [b] = Some i" and uw: "u = take i s" "w = drop (Suc i) s" by (auto simp: Cut_def split: option.splits)
  have s: "s = u @ b # w" using Index_Some_split [OF i] uw by simp
  have "b \<notin> set u"
  proof
    assume "b \<in> set u"
    then obtain v v' where v: "u = v @ [b] @ v'" by (metis split_list append_Cons append_Nil)
    then obtain j where "Index s [b] = Some j" "j \<le> length v" using Index_leftmost [of s v "[b]" "v' @ b # w"] s by auto
    moreover have "i = length u" using uw Index_Some_split [OF i] by simp
    ultimately show False using i v by simp
  qed
  with s show ?thesis by blast
qed

subsection \<open>Paths\<close>

definition path_step :: "bool \<Rightarrow> string list \<Rightarrow> string \<Rightarrow> string list" where
  "path_step rooted out seg =
     (if seg = '''' \<or> seg = ''.'' then out
      else if seg = ''..'' then
        (case out of
           p # ps \<Rightarrow> if p = ''..'' then seg # out else ps
         | [] \<Rightarrow> if rooted then [] else [seg])
      else seg # out)"

definition Clean :: "string \<Rightarrow> string" where
  "Clean path =
     (let rooted = HasPrefix path ''/'';
          segs = rev (foldl (path_step rooted) [] (Split path (CHR ''/'')));
          body = Join segs ''/'' in
      if rooted then CHR ''/'' # body else if body = '''' then ''.'' else body)"

definition filepath_Join :: "string list \<Rightarrow> string" where
  "filepath_Join elem = (let parts = dropWhile (\<lambda>s. s = '''') elem in if parts = [] then '''' else Clean (Join parts ''/''))"

definition filepath_Dir :: "string \<Rightarrow> string" where
  "filepath_Dir path = (case LastIndex path (CHR ''/'') of None \<Rightarrow> ''.'' | Some i \<Rightarrow> Clean (take (Suc i) path))"

definition filepath_IsAbs :: "string \<Rightarrow> bool" where
  "filepath_IsAbs path \<longleftrightarrow> HasPrefix path ''/''"

lemma Clean_abs: "filepath_IsAbs path \<Longrightarrow> filepath_IsAbs (Clean path)"
  by (simp add: filepath_IsAbs_def Clean_def Let_def)

end
