(* ===== verification/Agent_Config.thy ===== *)
theory Agent_Config
  imports Api_Device Go_Path
begin

section \<open>The agent: configuration and helpers (cmd/ternal-agent/main.go)\<close>

text \<open>
  The device agent reads its configuration from the environment.  What it asks the operating system for
  (the environment, file metadata, the search path, its own location) is the record \<open>agent_os\<close>.  Durations
  are nanoseconds.
\<close>

datatype agent_error =
    AUsage | AUnknownCommand | AOS | AInvalidPort | AInvalidDuration | AInvalidAPIURL | AInsecureAPIURL | ANoPigeons | AInvalidSSHUser
  | ATokenRequired | AInvalidTokenFile | AInvalidToken | AInvalidEnrollment | ADevice device_error | AInvalidEndpoint
  | ARequest | AStatus int | AInvalidResponse | APathRequired | ALocked | ATooLarge | ADigest | AGeneration | ANoExpiry | AInvalidKeys
  | AInvalidState | ARollback | AOwnership

record agent_config =
  cf_APIURL :: string
  cf_Pigeons :: string
  cf_DeviceKey :: string
  cf_IdentityFile :: string
  cf_AuthorizedKeysPath :: string
  cf_SSHUser :: string
  cf_SSHPort :: uint16
  cf_RelayURLs :: go_slice
  cf_ExtraRelayURLs :: go_slice
  cf_HeartbeatEvery :: int
  cf_RestartBackoff :: int
  cf_StatusFile :: string
  cf_ManufacturingTokenFile :: string

record file_info =
  fi_Regular :: bool
  fi_Perm :: nat
  fi_Size :: int

record agent_os =
  ao_goos :: string
  ao_env :: "string \<Rightarrow> string"
  ao_configHome :: "string option"
  ao_executable :: "string option"
  ao_stat :: "string \<Rightarrow> file_info option"
  ao_lookPath :: "string \<Rightarrow> string option"
  ao_url :: "string \<Rightarrow> URL option"

subsection \<open>Parsers and validators\<close>

definition envOr :: "(string \<Rightarrow> string) \<Rightarrow> string \<Rightarrow> string \<Rightarrow> string" where
  "envOr env key fallback = (if env key \<noteq> '''' then env key else fallback)"

definition isLoopback :: "string \<Rightarrow> bool" where
  "isLoopback host \<longleftrightarrow> host = ''localhost'' \<or> host = ''127.0.0.1'' \<or> host = ''::1''"

definition parsePort :: "string \<Rightarrow> agent_error + uint16" where
  "parsePort val =
     (case ParseUint val 16 of
        None \<Rightarrow> Inl AInvalidPort
      | Some port \<Rightarrow> if port = 0 then Inl AInvalidPort else Inr (of_nat port))"

definition second :: int where "second = 1000000000"

definition parsePositiveDuration :: "(string \<Rightarrow> string) \<Rightarrow> string \<Rightarrow> int \<Rightarrow> agent_error + int" where
  "parsePositiveDuration env key fallback =
     (if env key = '''' then Inr fallback
      else case ParseUint (env key) 32 of
        None \<Rightarrow> Inl AInvalidDuration
      | Some seconds \<Rightarrow> if seconds = 0 then Inl AInvalidDuration else Inr (int seconds * second))"

text \<open>\<^verbatim>\<open>var result []string\<close> stays \<open>nil\<close> when no item is appended.\<close>

definition parseList :: "string \<Rightarrow> go_slice" where
  "parseList val =
     (let items = filter (\<lambda>item. item \<noteq> '''') (map TrimSpace (Split val (CHR '',''))) in if items = [] then None else Some items)"

definition agent_validEndpointID :: "string \<Rightarrow> bool" where
  "agent_validEndpointID val \<longleftrightarrow> length val = 64 \<and> list_all is_hex_digit val"

definition white :: string where "white = [CHR 0x20, CHR 0x09, CHR 0x0D, CHR 0x0A]"

definition validFingerprint :: "string \<Rightarrow> bool" where
  "validFingerprint val \<longleftrightarrow> HasPrefix val ''SHA256:'' \<and> length val \<ge> 47 \<and> length val \<le> 51 \<and> \<not> ContainsAny val white"

definition local_user_char :: "char \<Rightarrow> bool" where
  "local_user_char ch \<longleftrightarrow> is_lower ch \<or> is_upper ch \<or> is_digit ch \<or> ch = CHR ''_'' \<or> ch = CHR ''-''"

definition validLocalUser :: "string \<Rightarrow> bool" where
  "validLocalUser val \<longleftrightarrow> \<not> (val = '''' \<or> length val > 32 \<or> hd val = CHR ''-'') \<and> list_all local_user_char val"

definition exitLabel :: "bool \<Rightarrow> string" where
  "exitLabel failed = (if failed then ''child-exited'' else ''exit-0'')"

subsection \<open>The transport binary\<close>

definition pigeonsFileName :: "string \<Rightarrow> string" where
  "pigeonsFileName goos = (if goos = ''windows'' then ''pigeons.exe'' else ''pigeons'')"

text \<open>The mask \<open>0111\<close> is 73.\<close>

definition isExecutableFile :: "string \<Rightarrow> file_info \<Rightarrow> bool" where
  "isExecutableFile goos info = (if \<not> fi_Regular info then False else if goos = ''windows'' then True else and (fi_Perm info) 73 \<noteq> 0)"

definition executable_at :: "agent_os \<Rightarrow> string \<Rightarrow> bool" where
  "executable_at os path = (case ao_stat os path of None \<Rightarrow> False | Some info \<Rightarrow> isExecutableFile (ao_goos os) info)"

definition findPigeons :: "agent_os \<Rightarrow> agent_error + string" where
  "findPigeons os =
     (let name = pigeonsFileName (ao_goos os); configured = ao_env os ''TERNAL_TRANSPORT_BIN'' in
      if configured \<noteq> '''' then
        (if filepath_IsAbs configured \<and> executable_at os configured then Inr configured else Inl ANoPigeons)
      else
        let found = (case ao_executable os of
                       None \<Rightarrow> None
                     | Some executable \<Rightarrow>
                         let candidate = filepath_Join [filepath_Dir executable, name] in
                         if executable_at os candidate then Some candidate else None) in
        case found of
          Some candidate \<Rightarrow> Inr candidate
        | None \<Rightarrow> (case ao_lookPath os name of None \<Rightarrow> Inl ANoPigeons | Some path \<Rightarrow> Inr path))"

subsection \<open>Configuration\<close>

definition defaultAPIURL :: string where "defaultAPIURL = ''http://127.0.0.1:3000''"

definition bad_api_url :: "URL option \<Rightarrow> bool" where
  "bad_api_url u = (case u of None \<Rightarrow> True
     | Some x \<Rightarrow> u_Scheme x = '''' \<or> u_Host x = '''' \<or> u_User x \<or> u_RawQuery x \<noteq> '''' \<or> u_Fragment x \<noteq> '''')"

definition secure_api_url :: "URL \<Rightarrow> bool" where
  "secure_api_url u \<longleftrightarrow> u_Scheme u = ''https'' \<or> (u_Scheme u = ''http'' \<and> isLoopback (u_Hostname u))"

definition config_values :: "agent_os \<Rightarrow> string \<Rightarrow> string \<Rightarrow> uint16 \<Rightarrow> int \<Rightarrow> int \<Rightarrow> agent_error + agent_config" where
  "config_values os configHome key sshPort heartbeatEvery restartBackoff =
     (let apiURL = TrimSuffix (envOr (ao_env os) ''TERNAL_API_URL'' defaultAPIURL) ''/''; parsedAPI = ao_url os apiURL in
      if bad_api_url parsedAPI then Inl AInvalidAPIURL
      else if \<not> secure_api_url (the parsedAPI) then Inl AInsecureAPIURL
      else case findPigeons os of
        Inl e \<Rightarrow> Inl e
      | Inr pigeons \<Rightarrow>
          let sshUser = envOr (ao_env os) ''TERNAL_AGENT_SSH_USER'' ''root'' in
          if \<not> validLocalUser sshUser then Inl AInvalidSSHUser
          else Inr \<lparr>cf_APIURL = apiURL, cf_Pigeons = pigeons, cf_DeviceKey = key,
                 cf_IdentityFile = envOr (ao_env os) ''TERNAL_DEVICE_IDENTITY_FILE'' (IdentityPath key),
                 cf_AuthorizedKeysPath = ao_env os ''TERNAL_AGENT_AUTHORIZED_KEYS_PATH'',
                 cf_SSHUser = sshUser, cf_SSHPort = sshPort,
                 cf_RelayURLs = parseList (ao_env os ''TERNAL_AGENT_RELAY_URLS''), cf_ExtraRelayURLs = parseList (ao_env os ''TERNAL_AGENT_EXTRA_RELAY_URLS''),
                 cf_HeartbeatEvery = heartbeatEvery, cf_RestartBackoff = restartBackoff,
                 cf_StatusFile = envOr (ao_env os) ''TERNAL_AGENT_STATUS_FILE'' (filepath_Join [configHome, ''ternal'', ''agent-status.json'']),
                 cf_ManufacturingTokenFile = ao_env os ''TERNAL_MANUFACTURING_TOKEN_FILE''\<rparr>)"

definition loadConfig :: "agent_os \<Rightarrow> agent_error + agent_config" where
  "loadConfig os =
     (case ao_configHome os of
        None \<Rightarrow> Inl AOS
      | Some configHome \<Rightarrow>
          let key = envOr (ao_env os) ''TERNAL_DEVICE_KEY_FILE'' (filepath_Join [configHome, ''ternal'', ''device.key'']) in
          (case parsePort (envOr (ao_env os) ''TERNAL_AGENT_SSH_PORT'' ''22'') of
             Inl e \<Rightarrow> Inl e
           | Inr sshPort \<Rightarrow>
               (case parsePositiveDuration (ao_env os) ''TERNAL_AGENT_HEARTBEAT_SECONDS'' (60 * second) of
                  Inl e \<Rightarrow> Inl e
                | Inr heartbeatEvery \<Rightarrow>
                    (case parsePositiveDuration (ao_env os) ''TERNAL_AGENT_RESTART_BACKOFF_SECONDS'' (5 * second) of
                       Inl e \<Rightarrow> Inl e
                     | Inr restartBackoff \<Rightarrow> config_values os configHome key sshPort heartbeatEvery restartBackoff))))"

text \<open>\<open>readable\<close> is false when \<^verbatim>\<open>os.ReadFile\<close> failed after \<^verbatim>\<open>os.Stat\<close> succeeded.\<close>

definition readEnrollmentToken :: "agent_os \<Rightarrow> bool \<Rightarrow> string \<Rightarrow> fs \<Rightarrow> agent_error + string" where
  "readEnrollmentToken os readable path f =
     (if path = '''' then Inl ATokenRequired
      else case ao_stat os path of
        None \<Rightarrow> Inl AOS
      | Some info \<Rightarrow>
          if \<not> fi_Regular info \<or> fi_Size info < 1 \<or> fi_Size info > 4096 then Inl AInvalidTokenFile
          else (case f path of
                  None \<Rightarrow> Inl AOS
                | Some x \<Rightarrow>
                    if \<not> readable then Inl AOS
                    else let tok = TrimSpace (fl_data x) in
                      if tok = '''' \<or> ContainsAny tok white then Inl AInvalidToken else Inr tok))"

definition roostArgs :: "agent_config \<Rightarrow> string list" where
  "roostArgs cfg =
     [''roost'', ''--ssh-port'', FormatUint (unat (cf_SSHPort cfg))] @
     concat (map (\<lambda>val. [''--relay-url'', val]) (elems (cf_RelayURLs cfg))) @
     concat (map (\<lambda>val. [''--relay-url'', val]) (elems (cf_ExtraRelayURLs cfg)))"

definition signedHeaders :: "Identity \<Rightarrow> string \<Rightarrow> int64 \<Rightarrow> string \<Rightarrow> (string \<times> string) list" where
  "signedHeaders identity endpointID timestamp signature =
     [(''X-Ternal-Device-Serial'', id_Serial identity),
      (''X-Ternal-Device-Endpoint-Id'', endpointID),
      (''X-Ternal-Device-Ssh-Host-Key-Fingerprint'', id_HostKeyFingerprint identity),
      (''X-Ternal-Device-Timestamp'', FormatInt (sint timestamp)),
      (''X-Ternal-Device-Signature'', signature)]"

subsection \<open>What a configuration guarantees\<close>

lemma parsePositiveDuration_bounds:
  "parsePositiveDuration env key fallback = Inr d \<Longrightarrow> 0 < fallback \<Longrightarrow> fallback < 2 ^ 63 \<Longrightarrow> 0 < d \<and> d < 2 ^ 63"
  by (auto simp: parsePositiveDuration_def ParseUint_def second_def split: if_splits option.splits)

lemma parsePort_bounds: "parsePort val = Inr p \<Longrightarrow> p \<noteq> 0"
proof -
  assume "parsePort val = Inr p"
  then obtain n where "n < 2 ^ 16" "n \<noteq> 0" "p = of_nat n" by (auto simp: parsePort_def ParseUint_def split: if_splits option.splits)
  then show ?thesis by (auto simp: word_of_nat_eq_0_iff dest: dvd_imp_le)
qed

lemma loadConfig_safe:
  assumes "loadConfig os = Inr cfg"
  shows "(\<exists>u. ao_url os (cf_APIURL cfg) = Some u \<and> secure_api_url u) \<and> cf_SSHPort cfg \<noteq> 0 \<and> validLocalUser (cf_SSHUser cfg) \<and>
    0 < cf_HeartbeatEvery cfg \<and> cf_HeartbeatEvery cfg < 2 ^ 63 \<and> 0 < cf_RestartBackoff cfg \<and> cf_RestartBackoff cfg < 2 ^ 63"
proof -
  obtain home port hb rb where p: "parsePort (envOr (ao_env os) ''TERNAL_AGENT_SSH_PORT'' ''22'') = Inr port"
    "parsePositiveDuration (ao_env os) ''TERNAL_AGENT_HEARTBEAT_SECONDS'' (60 * second) = Inr hb"
    "parsePositiveDuration (ao_env os) ''TERNAL_AGENT_RESTART_BACKOFF_SECONDS'' (5 * second) = Inr rb"
    and c: "config_values os home (envOr (ao_env os) ''TERNAL_DEVICE_KEY_FILE'' (filepath_Join [home, ''ternal'', ''device.key''])) port hb rb = Inr cfg"
    using assms by (auto simp: loadConfig_def Let_def split: option.splits sum.splits)
  have "0 < hb \<and> hb < 2 ^ 63" "0 < rb \<and> rb < 2 ^ 63"
    using parsePositiveDuration_bounds [OF p(2)] parsePositiveDuration_bounds [OF p(3)] by (auto simp: second_def)
  moreover have "(\<exists>u. ao_url os (cf_APIURL cfg) = Some u \<and> secure_api_url u) \<and> cf_SSHPort cfg = port \<and> validLocalUser (cf_SSHUser cfg) \<and>
      cf_HeartbeatEvery cfg = hb \<and> cf_RestartBackoff cfg = rb"
    using c unfolding config_values_def Let_def
    by (cases "ao_url os (TrimSuffix (envOr (ao_env os) ''TERNAL_API_URL'' defaultAPIURL) ''/'')"; cases "findPigeons os")
      (auto simp: bad_api_url_def split: if_splits)
  ultimately show ?thesis using parsePort_bounds [OF p(1)] by blast
qed

end
