(* ===== verification/Agent_Sync.thy ===== *)
theory Agent_Sync
  imports Agent_Config
begin

section \<open>The agent: authorized keys and the control plane (cmd/ternal-agent/main.go)\<close>

text \<open>
  The agent's requests go to an API server, which is a function \<open>api\<close> of the request and of a remote world;
  \<open>None\<close> is a request that could not be made or whose answer did not arrive (a refused redirect and a timeout
  included).  A request body is given by the value whose JSON text is sent.  The local world is the file
  system of \<open>Device_Auth\<close>; synchronization returns all the states that the file system goes through, so
  that a crash is a prefix.  The outcomes of the other system calls and the clock are the record \<open>sync_io\<close>.
\<close>

datatype agent_body = BEnroll enroll_request | BHeartbeat heartbeat_request | BAck ack_request

record agent_request =
  aq_Method :: string
  aq_URL :: string
  aq_Header :: "(string \<times> string) list"
  aq_Body :: "agent_body option"

record agent_response =
  as_Status :: int
  as_Header :: "string \<Rightarrow> string"
  as_Body :: string
  as_Readable :: bool

type_synonym 'x api = "agent_request \<Rightarrow> 'x \<Rightarrow> agent_response option \<times> 'x"

record authorizedKeysState =
  aks_Generation :: int
  aks_SHA256 :: string

record enrollmentResponse =
  er_ID :: string
  er_HostID :: string
  er_SerialNumber :: string

record runtimeStatus =
  rst_Service :: string
  rst_EndpointID :: string
  rst_Child :: string
  rst_LastError :: string
  rst_UpdatedAt :: int

text \<open>The libraries the agent calls.  \<open>gl_parse_key\<close> is \<^verbatim>\<open>ssh.ParseAuthorizedKey\<close>: the rest of the input, or an error.\<close>

record agent_lib =
  gl_ed :: ed25519
  gl_sha256_hex :: "string \<Rightarrow> string"
  gl_query_escape :: "string \<Rightarrow> string"
  gl_parse_key :: "string \<Rightarrow> string option"
  gl_marshal_discovery :: "Discovery \<Rightarrow> string"
  gl_marshal_identity :: "Identity \<Rightarrow> string option"
  gl_unmarshal_identity :: "string \<Rightarrow> Identity option"
  gl_marshal_state :: "authorizedKeysState \<Rightarrow> string"
  gl_unmarshal_state :: "string \<Rightarrow> authorizedKeysState option"
  gl_marshal_status :: "runtimeStatus \<Rightarrow> string"
  gl_decode_enrollment :: "string \<Rightarrow> enrollmentResponse option"

record 'x agent_world =
  aw_fs :: fs
  aw_cache :: "string \<rightharpoonup> string"
  aw_api :: 'x

subsection \<open>Requests\<close>

definition isUnauthorized :: "agent_error option \<Rightarrow> bool" where
  "isUnauthorized e \<longleftrightarrow> e = Some (AStatus 401)"

definition request ::
    "'x api \<Rightarrow> string \<Rightarrow> string \<Rightarrow> string \<Rightarrow> agent_body option \<Rightarrow> (string \<times> string) list \<Rightarrow> 'x \<Rightarrow> (agent_error + agent_response) \<times> 'x" where
  "request api base httpMethod path body headers x =
     (case api \<lparr>aq_Method = httpMethod, aq_URL = base @ path,
                aq_Header = (if body \<noteq> None then [(''Content-Type'', ''application/json'')] else []) @ headers, aq_Body = body\<rparr> x of
        (None, x') \<Rightarrow> (Inl ARequest, x')
      | (Some response, x') \<Rightarrow>
          if as_Status response < 200 \<or> as_Status response \<ge> 300 then (Inl (AStatus (as_Status response)), x')
          else (Inr response, x'))"

definition requestJSON ::
    "'x api \<Rightarrow> string \<Rightarrow> string \<Rightarrow> string \<Rightarrow> agent_body option \<Rightarrow> (string \<times> string) list \<Rightarrow> (string \<Rightarrow> 'a option) option \<Rightarrow> 'x \<Rightarrow>
     (agent_error + 'a option) \<times> 'x" where
  "requestJSON api base httpMethod path body headers destination x =
     (case request api base httpMethod path body headers x of
        (Inl e, x') \<Rightarrow> (Inl e, x')
      | (Inr response, x') \<Rightarrow>
          (case destination of
             None \<Rightarrow> (Inr None, x')
           | Some decode \<Rightarrow>
               if as_Status response = 204 then (Inr None, x')
               else if \<not> as_Readable response then (Inl AInvalidResponse, x')
               else (case decode (take 1048576 (as_Body response)) of
                       None \<Rightarrow> (Inl AInvalidResponse, x')
                     | Some v \<Rightarrow> (Inr (Some v), x'))))"

subsection \<open>The device's identity\<close>

text \<open>What running \<^verbatim>\<open>pigeons endpoint-id\<close> gave.\<close>

record helper_run =
  he_temp :: bool
  he_run :: bool
  he_close :: bool
  he_read :: bool
  he_output :: string

definition roostEndpointID :: "helper_run \<Rightarrow> agent_config \<Rightarrow> (string \<rightharpoonup> string) \<Rightarrow> (agent_error + string) \<times> (string \<rightharpoonup> string)" where
  "roostEndpointID he cfg cache =
     (case cache (cf_Pigeons cfg) of
        Some i \<Rightarrow> (Inr i, cache)
      | None \<Rightarrow>
          if \<not> he_temp he \<or> \<not> he_run he \<or> \<not> he_close he \<or> \<not> he_read he then (Inl AOS, cache)
          else let i = TrimSpace (he_output he) in
            if \<not> agent_validEndpointID i then (Inl AInvalidEndpoint, cache)
            else (Inr (ToLower i), cache(cf_Pigeons cfg \<mapsto> ToLower i)))"

definition loadDevice ::
    "agent_lib \<Rightarrow> helper_run \<Rightarrow> agent_config \<Rightarrow> 'x agent_world \<Rightarrow> (agent_error + string \<times> Identity \<times> string) \<times> 'x agent_world" where
  "loadDevice L he cfg w =
     (case LoadPrivate (cf_DeviceKey cfg) (aw_fs w) of
        Inl e \<Rightarrow> (Inl (ADevice e), w)
      | Inr private \<Rightarrow>
          (case ReadIdentity (gl_unmarshal_identity L) (cf_IdentityFile cfg) (aw_fs w) of
             Inl e \<Rightarrow> (Inl (ADevice e), w)
           | Inr identity \<Rightarrow>
               (case roostEndpointID he cfg (aw_cache w) of
                  (Inl e, cache) \<Rightarrow> (Inl e, w\<lparr>aw_cache := cache\<rparr>)
                | (Inr endpointID, cache) \<Rightarrow> (Inr (private, identity, endpointID), w\<lparr>aw_cache := cache\<rparr>))))"

subsection \<open>Enrollment and heartbeat\<close>

definition enroll ::
    "agent_lib \<Rightarrow> 'x api \<Rightarrow> helper_run \<Rightarrow> io_script \<Rightarrow> agent_config \<Rightarrow> string \<Rightarrow> string \<Rightarrow> string \<Rightarrow> 'x agent_world \<Rightarrow>
     (agent_error + enrollmentResponse) \<times> 'x agent_world" where
  "enroll L api he io cfg serial tok fingerprint w =
     (if tok = '''' \<or> \<not> validFingerprint fingerprint then (Inl AInvalidEnrollment, w)
      else case LoadPrivate (cf_DeviceKey cfg) (aw_fs w) of
        Inl e \<Rightarrow> (Inl (ADevice e), w)
      | Inr private \<Rightarrow>
          (case roostEndpointID he cfg (aw_cache w) of
             (Inl e, cache) \<Rightarrow> (Inl e, w\<lparr>aw_cache := cache\<rparr>)
           | (Inr endpointID, cache) \<Rightarrow>
               let payload = \<lparr>en_Token = tok, en_EndpointID = endpointID, en_SerialNumber = serial, en_Model = '''', en_Fingerprint = fingerprint,
                     en_DevicePublicKey = PublicKey (gl_ed L) private, en_SSHUser = cf_SSHUser cfg, en_SSHPort = cf_SSHPort cfg, en_Tags = None\<rparr> in
               (case requestJSON api (cf_APIURL cfg) ''POST'' ''/manufacturing/enroll'' (Some (BEnroll payload)) [] (Some (gl_decode_enrollment L)) (aw_api w) of
                  (Inl e, x) \<Rightarrow> (Inl e, w\<lparr>aw_cache := cache, aw_api := x\<rparr>)
                | (Inr r, x) \<Rightarrow>
                    let response0 = (case r of None \<Rightarrow> \<lparr>er_ID = '''', er_HostID = '''', er_SerialNumber = ''''\<rparr> | Some r \<Rightarrow> r);
                        response = (if er_SerialNumber response0 = '''' then response0\<lparr>er_SerialNumber := serial\<rparr> else response0) in
                    (case WriteIdentity (gl_marshal_identity L) io (cf_IdentityFile cfg)
                            \<lparr>id_Serial = er_SerialNumber response, id_HostKeyFingerprint = fingerprint\<rparr> (aw_fs w) of
                       (Some e, trace) \<Rightarrow> (Inl (ADevice e), w\<lparr>aw_cache := cache, aw_api := x, aw_fs := last trace\<rparr>)
                     | (None, trace) \<Rightarrow> (Inr response, w\<lparr>aw_cache := cache, aw_api := x, aw_fs := last trace\<rparr>)))))"

definition heartbeat_body ::
    "agent_lib \<Rightarrow> go_slice \<Rightarrow> agent_config \<Rightarrow> string \<Rightarrow> Identity \<Rightarrow> string \<Rightarrow> int64 \<Rightarrow> string \<Rightarrow> heartbeat_request" where
  "heartbeat_body L direct cfg private identity endpointID timestamp status =
     (let discovery = \<lparr>dc_DirectAddresses = direct, dc_RelayURLs = Some (elems (cf_RelayURLs cfg) @ elems (cf_ExtraRelayURLs cfg))\<rparr>;
          payload = HeartbeatPayload (gl_marshal_discovery L) (id_Serial identity) endpointID (id_HostKeyFingerprint identity) timestamp status (Some discovery) in
      \<lparr>hb_Status = status, hb_Serial = id_Serial identity, hb_EndpointID = endpointID, hb_Fingerprint = id_HostKeyFingerprint identity,
       hb_Timestamp = timestamp, hb_Signature = Sign (gl_ed L) private payload, hb_Discovery = Some discovery\<rparr>)"

definition heartbeat ::
    "agent_lib \<Rightarrow> 'x api \<Rightarrow> agent_os \<Rightarrow> helper_run \<Rightarrow> int64 \<Rightarrow> agent_config \<Rightarrow> string \<Rightarrow> 'x agent_world \<Rightarrow> agent_error option \<times> 'x agent_world" where
  "heartbeat L api os he timestamp cfg status w =
     (case loadDevice L he cfg w of
        (Inl e, w1) \<Rightarrow> (Some e, w1)
      | (Inr (private, identity, endpointID), w1) \<Rightarrow>
          (case requestJSON api (cf_APIURL cfg) ''POST'' ''/agents/heartbeat''
                  (Some (BHeartbeat (heartbeat_body L (parseList (ao_env os ''TERNAL_DIRECT_ADDRESSES'')) cfg private identity endpointID timestamp status)))
                  [] (None :: (string \<Rightarrow> unit option) option) (aw_api w1) of
             (Inl e, x) \<Rightarrow> (Some e, w1\<lparr>aw_api := x\<rparr>)
           | (Inr _, x) \<Rightarrow> (None, w1\<lparr>aw_api := x\<rparr>)))"

subsection \<open>Lines of an authorized\_keys file\<close>

definition daysIn :: "nat \<Rightarrow> nat \<Rightarrow> nat" where
  "daysIn m year =
     (if m = 2 then (if year mod 4 = 0 \<and> (year mod 100 \<noteq> 0 \<or> year mod 400 = 0) then 29 else 28)
      else if m = 4 \<or> m = 6 \<or> m = 9 \<or> m = 11 then 30 else 31)"

text \<open>\<^verbatim>\<open>time.Parse("20060102150405", s)\<close> succeeds on a string of fourteen bytes: every field is that many digits, in its range.\<close>

definition parse_compact_time :: "string \<Rightarrow> bool" where
  "parse_compact_time s \<longleftrightarrow>
     (case (parse_digits 0 (take 4 s), parse_digits 0 (take 2 (drop 4 s)), parse_digits 0 (take 2 (drop 6 s)),
            parse_digits 0 (take 2 (drop 8 s)), parse_digits 0 (take 2 (drop 10 s)), parse_digits 0 (take 2 (drop 12 s))) of
        (Some year, Some mo, Some day, Some hour, Some mi, Some sec) \<Rightarrow>
          length s = 14 \<and> 1 \<le> mo \<and> mo \<le> 12 \<and> 1 \<le> day \<and> day \<le> daysIn mo year \<and> hour < 24 \<and> mi < 60 \<and> sec < 60
      | _ \<Rightarrow> False)"

definition validExpiryOption :: "string \<Rightarrow> bool" where
  "validExpiryOption opt =
     (case CutPrefix opt (''expiry-time='' @ [CHR 0x22]) of
        None \<Rightarrow> False
      | Some ts0 \<Rightarrow>
          if \<not> HasSuffix ts0 [CHR 0x22] then False
          else let ts = TrimSuffix ts0 [CHR 0x22] in
            if length ts \<noteq> 15 \<or> \<not> HasSuffix ts ''Z'' then False else parse_compact_time (TrimSuffix ts ''Z''))"

definition key_lines :: "string \<Rightarrow> string list" where
  "key_lines data = filter (\<lambda>line. TrimSpace line \<noteq> '''') (Split (TrimSpace data) newline)"

definition has_expiry :: "string \<Rightarrow> bool" where
  "has_expiry line = (case Cut (TrimSpace line) (CHR '' '') of None \<Rightarrow> False | Some (opt, _) \<Rightarrow> validExpiryOption opt)"

fun validate_lines :: "(string \<Rightarrow> string option) \<Rightarrow> string list \<Rightarrow> agent_error option" where
  "validate_lines parse [] = None"
| "validate_lines parse (line # lines) =
     (case Cut (TrimSpace line) (CHR '' '') of
        None \<Rightarrow> Some ANoExpiry
      | Some (opt, remainder) \<Rightarrow>
          if \<not> validExpiryOption opt then Some ANoExpiry
          else (case parse remainder of
                  None \<Rightarrow> Some AInvalidKeys
                | Some rest \<Rightarrow> if TrimSpace rest \<noteq> '''' then Some AInvalidKeys else validate_lines parse lines))"

definition validateAuthorizedKeys :: "(string \<Rightarrow> string option) \<Rightarrow> string \<Rightarrow> agent_error option" where
  "validateAuthorizedKeys parse body = validate_lines parse (key_lines body)"

text \<open>\<open>readable\<close> is false when \<^verbatim>\<open>os.ReadFile\<close> failed for another reason than a missing file.\<close>

definition purgeLegacyAuthorizedKeys :: "bool \<Rightarrow> io_script \<Rightarrow> string \<Rightarrow> fs \<Rightarrow> (agent_error + bool) \<times> fs list" where
  "purgeLegacyAuthorizedKeys readable io path f =
     (case f path of
        None \<Rightarrow> (if readable then Inr False else Inl AOS, [f])
      | Some x \<Rightarrow>
          if \<not> readable then (Inl AOS, [f])
          else let lines = key_lines (fl_data x); kept = filter has_expiry lines in
            if kept = lines then (Inr False, [f])
            else case AtomicWriteFile io path (if kept \<noteq> [] then Join kept [newline] @ [newline] else '''') mode_0600 f of
              (Some e, trace) \<Rightarrow> (Inl (ADevice e), trace)
            | (None, trace) \<Rightarrow> (Inr True, trace))"

subsection \<open>Synchronization\<close>

definition readAuthorizedKeysState :: "agent_lib \<Rightarrow> bool \<Rightarrow> string \<Rightarrow> fs \<Rightarrow> agent_error + authorizedKeysState option" where
  "readAuthorizedKeysState L readable path f =
     (case f path of
        None \<Rightarrow> if readable then Inr None else Inl AOS
      | Some x \<Rightarrow>
          if \<not> readable then Inl AOS
          else (case gl_unmarshal_state L (fl_data x) of
                  None \<Rightarrow> Inl AInvalidState
                | Some st \<Rightarrow> if aks_Generation st < 1 \<or> length (aks_SHA256 st) \<noteq> 64 then Inl AInvalidState else Inr (Some st)))"

text \<open>The calls of \<^verbatim>\<open>ensureUserOwned\<close>: the effective user, the account's numbers, and what the changes of
  ownership and the final check answered.\<close>

record own_io =
  ow_euid :: int
  ow_lookup :: "(string \<times> string) option"
  ow_chown :: bool
  ow_dir_root :: bool
  ow_chown_dir :: bool
  ow_owned :: bool

definition ensureUserOwned :: "own_io \<Rightarrow> string \<Rightarrow> agent_error option" where
  "ensureUserOwned ow username =
     (if username = '''' \<or> ow_euid ow \<noteq> 0 then None
      else case ow_lookup ow of
        None \<Rightarrow> Some AOS
      | Some (uid, gid) \<Rightarrow>
          if Atoi uid = None \<or> Atoi gid = None \<or> \<not> ow_chown ow then Some AOS
          else if ow_dir_root ow \<and> \<not> ow_chown_dir ow then Some AOS
          else if \<not> ow_owned ow then Some AOwnership else None)"

record sync_io =
  sy_lock :: bool
  sy_read :: bool
  sy_purge :: io_script
  sy_helper :: helper_run
  sy_now :: int64
  sy_read_state :: bool
  sy_keys :: io_script
  sy_keys_own :: own_io
  sy_state :: io_script
  sy_state_own :: own_io
  sy_ack_now :: int64

definition authorizedKeysMaxBytes :: nat where "authorizedKeysMaxBytes = 1048576"

text \<open>The checks of a fetched snapshot against itself and against the recorded state.\<close>

definition check_snapshot :: "agent_lib \<Rightarrow> agent_response \<Rightarrow> agent_error + string \<times> int \<times> string" where
  "check_snapshot L response =
     (if \<not> as_Readable response then Inl ARequest
      else let body = as_Body response in
        if length body > authorizedKeysMaxBytes then Inl ATooLarge
        else let digestHex = gl_sha256_hex L body in
          if as_Header response ''X-Ternal-Authorized-Keys-Sha256'' \<noteq> digestHex then Inl ADigest
          else case ParseInt (as_Header response ''X-Ternal-Authorized-Keys-Generation'') 64 of
            None \<Rightarrow> Inl AGeneration
          | Some generation \<Rightarrow>
              if generation < 0 then Inl AGeneration
              else (case validateAuthorizedKeys (gl_parse_key L) body of
                      Some e \<Rightarrow> Inl e
                    | None \<Rightarrow> Inr (body, generation, digestHex)))"

definition rollback :: "authorizedKeysState option \<Rightarrow> int \<Rightarrow> string \<Rightarrow> bool" where
  "rollback current generation digestHex =
     (case current of
        None \<Rightarrow> False
      | Some st \<Rightarrow> generation < aks_Generation st \<or> (generation = aks_Generation st \<and> digestHex \<noteq> aks_SHA256 st))"

definition statePath :: "string \<Rightarrow> string" where "statePath path = path @ ''.ternal-state''"

text \<open>Installing a checked snapshot: the keys, then the state.\<close>

definition install_snapshot ::
    "agent_lib \<Rightarrow> sync_io \<Rightarrow> agent_config \<Rightarrow> string \<Rightarrow> string \<Rightarrow> int \<Rightarrow> string \<Rightarrow> fs \<Rightarrow> agent_error option \<times> fs list" where
  "install_snapshot L io cfg path body generation digestHex f =
     (case readAuthorizedKeysState L (sy_read_state io) (statePath path) f of
        Inl e \<Rightarrow> (Some e, [f])
      | Inr current \<Rightarrow>
          if rollback current generation digestHex then (Some ARollback, [f])
          else (case AtomicWriteFile (sy_keys io) path body mode_0600 f of
                  (Some e, t1) \<Rightarrow> (Some (ADevice e), t1)
                | (None, t1) \<Rightarrow>
                    (case ensureUserOwned (sy_keys_own io) (cf_SSHUser cfg) of
                       Some e \<Rightarrow> (Some e, t1)
                     | None \<Rightarrow>
                         (case AtomicWriteFile (sy_state io) (statePath path)
                                 (gl_marshal_state L \<lparr>aks_Generation = generation, aks_SHA256 = digestHex\<rparr> @ [newline]) mode_0600 (last t1) of
                            (Some e, t2) \<Rightarrow> (Some (ADevice e), t1 @ t2)
                          | (None, t2) \<Rightarrow> (ensureUserOwned (sy_state_own io) (cf_SSHUser cfg), t1 @ t2)))))"

definition fetch_keys ::
    "agent_lib \<Rightarrow> 'x api \<Rightarrow> int64 \<Rightarrow> agent_config \<Rightarrow> string \<Rightarrow> Identity \<Rightarrow> string \<Rightarrow> 'x \<Rightarrow> (agent_error + agent_response) \<times> 'x" where
  "fetch_keys L api timestamp cfg private identity endpointID x =
     (let payload = AuthorizedKeysPayload (id_Serial identity) endpointID (id_HostKeyFingerprint identity) timestamp (cf_SSHUser cfg) in
      request api (cf_APIURL cfg) ''GET'' (''/agents/authorized-keys?ssh_user='' @ gl_query_escape L (cf_SSHUser cfg)) None
        (signedHeaders identity endpointID timestamp (Sign (gl_ed L) private payload)) x)"

definition acknowledge_keys ::
    "agent_lib \<Rightarrow> 'x api \<Rightarrow> int64 \<Rightarrow> agent_config \<Rightarrow> string \<Rightarrow> Identity \<Rightarrow> string \<Rightarrow> int \<Rightarrow> string \<Rightarrow> 'x \<Rightarrow> agent_error option \<times> 'x" where
  "acknowledge_keys L api ackTime cfg private identity endpointID generation digestHex x =
     (let ackPayload = AuthorizedKeysAckPayload (id_Serial identity) endpointID (id_HostKeyFingerprint identity) ackTime (cf_SSHUser cfg)
            (word_of_int generation) digestHex;
          ack = \<lparr>ak_SSHUser = cf_SSHUser cfg, ak_Generation = word_of_int generation, ak_SHA256 = digestHex\<rparr> in
      case requestJSON api (cf_APIURL cfg) ''POST'' ''/agents/authorized-keys/ack'' (Some (BAck ack))
             (signedHeaders identity endpointID ackTime (Sign (gl_ed L) private ackPayload)) (None :: (string \<Rightarrow> unit option) option) x of
        (Inl e, x') \<Rightarrow> (Some e, x')
      | (Inr _, x') \<Rightarrow> (None, x'))"

definition syncAuthorizedKeys ::
    "agent_lib \<Rightarrow> 'x api \<Rightarrow> sync_io \<Rightarrow> agent_config \<Rightarrow> string \<Rightarrow> 'x agent_world \<Rightarrow> agent_error option \<times> fs list \<times> 'x agent_world" where
  "syncAuthorizedKeys L api io cfg path w =
     (if path = '''' then (Some APathRequired, [aw_fs w], w)
      else if \<not> sy_lock io then (Some ALocked, [aw_fs w], w)
      else case purgeLegacyAuthorizedKeys (sy_read io) (sy_purge io) path (aw_fs w) of
        (Inl e, t0) \<Rightarrow> (Some e, t0, w\<lparr>aw_fs := last t0\<rparr>)
      | (Inr _, t0) \<Rightarrow>
          (case loadDevice L (sy_helper io) cfg (w\<lparr>aw_fs := last t0\<rparr>) of
             (Inl e, w1) \<Rightarrow> (Some e, t0, w1)
           | (Inr (private, identity, endpointID), w1) \<Rightarrow>
               (case fetch_keys L api (sy_now io) cfg private identity endpointID (aw_api w1) of
                  (Inl e, x) \<Rightarrow> (Some e, t0, w1\<lparr>aw_api := x\<rparr>)
                | (Inr response, x) \<Rightarrow>
                    (case check_snapshot L response of
                       Inl e \<Rightarrow> (Some e, t0, w1\<lparr>aw_api := x\<rparr>)
                     | Inr (body, generation, digestHex) \<Rightarrow>
                         (case install_snapshot L io cfg path body generation digestHex (aw_fs w1) of
                            (Some e, t1) \<Rightarrow> (Some e, t0 @ t1, w1\<lparr>aw_api := x, aw_fs := last t1\<rparr>)
                          | (None, t1) \<Rightarrow>
                              (case acknowledge_keys L api (sy_ack_now io) cfg private identity endpointID generation digestHex x of
                                 (r, x2) \<Rightarrow> (r, t0 @ t1, w1\<lparr>aw_api := x2, aw_fs := last t1\<rparr>)))))))"

definition syncControlPlane ::
    "agent_lib \<Rightarrow> 'x api \<Rightarrow> agent_os \<Rightarrow> helper_run \<Rightarrow> int64 \<Rightarrow> sync_io \<Rightarrow> agent_config \<Rightarrow> string \<Rightarrow> 'x agent_world \<Rightarrow>
     agent_error option \<times> fs list \<times> 'x agent_world" where
  "syncControlPlane L api os he timestamp io cfg status w =
     (case heartbeat L api os he timestamp cfg status w of
        (heartbeatErr, w1) \<Rightarrow>
          if cf_AuthorizedKeysPath cfg = '''' then (heartbeatErr, [aw_fs w1], w1)
          else (case syncAuthorizedKeys L api io cfg (cf_AuthorizedKeysPath cfg) w1 of
                  (syncErr, t, w2) \<Rightarrow> (if isUnauthorized syncErr \<or> heartbeatErr = None then syncErr else heartbeatErr, t, w2)))"

definition writeStatus :: "agent_lib \<Rightarrow> io_script \<Rightarrow> string \<Rightarrow> runtimeStatus \<Rightarrow> fs \<Rightarrow> device_error option \<times> fs list" where
  "writeStatus L io path status f = AtomicWriteFile io path (gl_marshal_status L status @ [newline]) mode_0600 f"

end
