(* ===== verification/Go_Trim.thy ===== *)
theory Go_Trim
  imports Prelude
begin

section \<open>Trimming white space from lines\<close>

text \<open>
  \<open>TrimSpace\<close> removes exactly the space runes at both ends, and the lines of a text and of the trimmed text
  are the same up to trimming and blank lines.
\<close>

definition blank :: "string \<Rightarrow> bool" where
  "blank s \<longleftrightarrow> (\<exists>ws. set ws \<subseteq> set space_runes \<and> s = concat ws)"

lemma blank_Nil [simp]: "blank []"
  unfolding blank_def by (intro exI [of _ "[]"]) simp

lemma blank_rune: "r \<in> set space_runes \<Longrightarrow> blank r"
  unfolding blank_def by (intro exI [of _ "[r]"]) simp

lemma blank_append: "blank a \<Longrightarrow> blank b \<Longrightarrow> blank (a @ b)"
proof -
  assume "blank a" "blank b"
  then obtain u v where "set u \<subseteq> set space_runes" "a = concat u" "set v \<subseteq> set space_runes" "b = concat v" unfolding blank_def by blast
  then show ?thesis unfolding blank_def by (intro exI [of _ "u @ v"]) simp
qed

lemma blank_induct [consumes 1, case_names Nil rune]:
  assumes "blank s" "P []" "\<And>r s. r \<in> set space_runes \<Longrightarrow> blank s \<Longrightarrow> P s \<Longrightarrow> P (r @ s)"
  shows "P s"
proof -
  obtain ws where "set ws \<subseteq> set space_runes" "s = concat ws" using assms(1) by (auto simp: blank_def)
  then show ?thesis
  proof (induction ws arbitrary: s)
    case (Cons r ws)
    then have "blank (concat ws)" by (auto simp: blank_def)
    then show ?case using Cons assms(3) [of r "concat ws"] by simp
  qed (simp add: assms(2))
qed

lemma HasSuffix_rev: "HasSuffix s p \<longleftrightarrow> HasPrefix (rev s) (rev p)"
  by (auto simp: HasSuffix_iff HasPrefix_iff) (metis rev_append rev_rev_ident)

lemma leading_rune: "r \<in> set space_runes \<Longrightarrow> leading_space (r @ s) = length r \<and> r \<noteq> []"
  unfolding leading_space_def space_runes_def by (simp only: list.set insert_iff empty_iff) (elim disjE; simp)

lemma trailing_rune: "r \<in> set space_runes \<Longrightarrow> trailing_space (rev (rev r @ s)) = length r"
  unfolding trailing_space_def HasSuffix_rev rev_rev_ident space_runes_def by (simp only: list.set insert_iff empty_iff) (elim disjE; simp)

lemma trim_left_skip: "trim_left (length u) (u @ s) = trim_left 0 s"
  by (induction u) auto

lemma trim_right_skip: "trim_right_rev (length u) (u @ s) = trim_right_rev 0 s"
  by (induction u) auto

lemma trim_left_rune: "r \<in> set space_runes \<Longrightarrow> trim_left 0 (r @ s) = trim_left 0 s"
proof -
  assume r: "r \<in> set space_runes"
  obtain c u where cu: "r = c # u" using leading_rune [OF r] by (metis neq_Nil_conv)
  then show ?thesis using leading_rune [OF r, of s] trim_left_skip [of u s] by simp
qed

lemma trim_right_rune: "r \<in> set space_runes \<Longrightarrow> trim_right_rev 0 (rev r @ s) = trim_right_rev 0 s"
proof -
  assume r: "r \<in> set space_runes"
  obtain c u where cu: "rev r = c # u" using leading_rune [OF r] by (metis neq_Nil_conv rev_is_Nil_conv)
  moreover have "length r = Suc (length u)" using cu by (metis length_Cons length_rev)
  ultimately show ?thesis using trailing_rune [OF r, of s] trim_right_skip [of u s] by simp
qed

lemma trim_left_blank: "blank a \<Longrightarrow> trim_left 0 (a @ s) = trim_left 0 s"
  by (induction rule: blank_induct) (simp_all add: trim_left_rune)

lemma trim_right_blank: "blank a \<Longrightarrow> trim_right_rev 0 (rev a @ s) = trim_right_rev 0 s"
  by (induction arbitrary: s rule: blank_induct) (simp_all add: trim_right_rune)

lemma trim_left_split: "\<exists>a. blank a \<and> s = a @ trim_left 0 s"
proof (induction "length s" arbitrary: s rule: less_induct)
  case less
  show ?case
  proof (cases "find (HasPrefix s) space_runes")
    case None
    then have "leading_space s = 0" by (simp add: leading_space_def)
    then have "trim_left 0 s = s" by (cases s) simp_all
    then show ?thesis by (intro exI [of _ "[]"]) simp
  next
    case (Some r)
    then have r: "r \<in> set space_runes" "HasPrefix s r" by (auto simp: find_Some_iff)
    then obtain t where t: "s = r @ t" by (auto simp: HasPrefix_iff)
    have "length t < length s" using t leading_rune [OF r(1)] by simp
    then obtain a where "blank a" "t = a @ trim_left 0 t" using less by blast
    then show ?thesis using t trim_left_rune [OF r(1), of t] blank_append [OF blank_rune [OF r(1)], of a] by (intro exI [of _ "r @ a"]) simp
  qed
qed

lemma trim_right_split: "\<exists>a. blank a \<and> s = rev a @ trim_right_rev 0 s"
proof (induction "length s" arbitrary: s rule: less_induct)
  case less
  show ?case
  proof (cases "find (HasSuffix (rev s)) space_runes")
    case None
    then have "trailing_space (rev s) = 0" by (simp add: trailing_space_def)
    then have "trim_right_rev 0 s = s" by (cases s) simp_all
    then show ?thesis by (intro exI [of _ "[]"]) simp
  next
    case (Some r)
    then have r: "r \<in> set space_runes" "HasPrefix s (rev r)" by (auto simp: find_Some_iff HasSuffix_rev)
    then obtain t where t: "s = rev r @ t" by (auto simp: HasPrefix_iff)
    have "length t < length s" using t leading_rune [OF r(1)] by simp
    then obtain a where "blank a" "t = rev a @ trim_right_rev 0 t" using less by blast
    then show ?thesis using t trim_right_rune [OF r(1), of t] blank_append [OF _ blank_rune [OF r(1)], of a] by (intro exI [of _ "a @ r"]) simp
  qed
qed

lemma TrimSpace_split: "\<exists>a b. blank a \<and> blank b \<and> s = a @ TrimSpace s @ b"
proof -
  obtain a where a: "blank a" "s = a @ trim_left 0 s" using trim_left_split by blast
  obtain b where b: "blank b" "rev (trim_left 0 s) = rev b @ trim_right_rev 0 (rev (trim_left 0 s))" using trim_right_split by blast
  have "trim_left 0 s = rev (trim_right_rev 0 (rev (trim_left 0 s))) @ b" using b(2) by (metis rev_append rev_rev_ident)
  then show ?thesis using a b(1) unfolding TrimSpace_def by metis
qed

text \<open>Text that does not start with a space rune still does not when blank text follows.\<close>

lemma rune_bytes: "r \<in> set space_runes \<Longrightarrow> hd r \<in> space_lead \<and> set (tl r) \<inter> space_lead = {}"
  unfolding space_runes_def space_lead_def by (simp only: list.set insert_iff empty_iff) (elim disjE; simp)

lemma blank_hd: "blank b \<Longrightarrow> b \<noteq> [] \<Longrightarrow> hd b \<in> space_lead"
proof (induction rule: blank_induct)
  case (rune r s)
  then show ?case using rune_bytes [OF rune(1)] leading_rune [OF rune(1)] by (simp add: hd_append2)
qed simp

lemma leading_pos: "leading_space s \<noteq> 0 \<Longrightarrow> \<exists>r \<in> set space_runes. HasPrefix s r"
  by (auto simp: leading_space_def find_Some_iff split: option.splits)

lemma leading_append:
  assumes "leading_space m = 0" "m \<noteq> []" "blank b"
  shows "leading_space (m @ b) = 0"
proof (rule ccontr)
  assume "leading_space (m @ b) \<noteq> 0"
  then obtain r where r: "r \<in> set space_runes" "HasPrefix (m @ b) r"
    using leading_pos by blast
  then obtain t where t: "m @ b = r @ t" by (auto simp: HasPrefix_iff)
  show False
  proof (cases "length r \<le> length m")
    case True
    then have "m = r @ drop (length r) m" using t by (metis append_eq_append_conv_if append_take_drop_id)
    then show False using assms(1) leading_rune [OF r(1)] by (metis length_0_conv)
  next
    case False
    then obtain u where u: "r = m @ u" "b = u @ t" "u \<noteq> []" using t by (auto simp: append_eq_append_conv2)
    then have "hd b \<in> set (tl r)" using assms(2) by (cases m; cases u) auto
    then show False using rune_bytes [OF r(1)] blank_hd [OF assms(3)] u(2,3) by auto
  qed
qed

lemma trim_left_append:
  assumes "blank b" "trim_left 0 s \<noteq> []"
  shows "trim_left 0 (s @ b) = trim_left 0 s @ b"
proof -
  obtain a where a: "blank a" "s = a @ trim_left 0 s" using trim_left_split by blast
  let ?m = "trim_left 0 s"
  have m: "trim_left 0 ?m = ?m" using a trim_left_blank by metis
  have "leading_space ?m = 0"
  proof (rule ccontr)
    assume "leading_space ?m \<noteq> 0"
    then obtain r where r: "r \<in> set space_runes" "HasPrefix ?m r" using leading_pos by blast
    then obtain t where t: "?m = r @ t" by (auto simp: HasPrefix_iff)
    obtain a' where "t = a' @ trim_left 0 t" using trim_left_split by blast
    then have "length (trim_left 0 t) \<le> length t" by (metis length_append le_add2)
    moreover have "trim_left 0 ?m = trim_left 0 t" using t trim_left_rune [OF r(1)] by simp
    ultimately have "length (r @ t) \<le> length t" using m t by simp
    then show False using leading_rune [OF r(1)] by simp
  qed
  then have "leading_space (?m @ b) = 0" by (rule leading_append [OF _ assms(2,1)])
  then have "trim_left 0 (?m @ b) = ?m @ b" using assms(2) by (cases ?m) auto
  then show ?thesis using a trim_left_blank [OF a(1), of "?m @ b"] by (metis append_assoc)
qed

lemma TrimSpace_blank: "blank s \<Longrightarrow> TrimSpace s = []"
  using trim_left_blank [of s "[]"] by (simp add: TrimSpace_def)

lemma TrimSpace_around:
  assumes "blank a" "blank b"
  shows "TrimSpace (a @ s @ b) = TrimSpace s"
proof (cases "trim_left 0 s = []")
  case True
  then have "blank s" using trim_left_split [of s] by auto
  then show ?thesis using TrimSpace_blank assms by (simp add: blank_append)
next
  case False
  then show ?thesis using trim_left_blank [OF assms(1)] trim_left_append [OF assms(2)] trim_right_blank [OF assms(2)]
    by (simp add: TrimSpace_def)
qed

lemma TrimSpace_idem [simp]: "TrimSpace (TrimSpace s) = TrimSpace s"
  using TrimSpace_split [of s] TrimSpace_around by metis

lemma TrimSpace_Nil_blank: "TrimSpace s = [] \<longleftrightarrow> blank s"
  using TrimSpace_split [of s] TrimSpace_blank blank_append by (metis append_Nil)

subsection \<open>Lines\<close>

definition lf :: char where "lf = CHR 0x0A"

lemma rune_line: "r \<in> set space_runes \<Longrightarrow> r = [lf] \<or> lf \<notin> set r"
  unfolding space_runes_def lf_def by (simp only: list.set insert_iff empty_iff) (elim disjE; simp)

lemma Split_prefix: "b \<notin> set u \<Longrightarrow> Split (u @ s) b = (u @ hd (Split s b)) # tl (Split s b)"
  by (induction u) (auto simp: hd_Cons_tl split: list.splits)

lemma Split_suffix: "b \<notin> set u \<Longrightarrow> Split (s @ u) b = butlast (Split s b) @ [last (Split s b) @ u]"
proof (induction s)
  case Nil
  then show ?case by (simp add: Split_notin)
next
  case (Cons c s)
  then show ?case by (cases "Split s b") (auto split: list.splits)
qed

lemma Split_snoc: "Split (s @ [b]) b = Split s b @ [[]]"
  by (induction s) (auto split: list.splits)

lemma Split_Join: "ls \<noteq> [] \<Longrightarrow> \<forall>l \<in> set ls. b \<notin> set l \<Longrightarrow> Split (Join ls [b]) b = ls"
proof (induction ls rule: induct_list012)
  case (3 x y zs)
  then show ?case using Split_append_sep [of b x "Join (y # zs) [b]"] by simp
qed (simp_all add: Split_notin)

text \<open>The trimmed lines, blank ones aside.\<close>

definition trimmed_lines :: "string \<Rightarrow> string set" where
  "trimmed_lines s = TrimSpace ` set (Split s lf) - {[]}"

lemma trimmed_prefix:
  assumes "blank a"
  shows "trimmed_lines (a @ s) = trimmed_lines s"
  using assms
proof (induction rule: blank_induct)
  case (rune r a)
  show ?case
  proof (cases "r = [lf]")
    case True
    then show ?thesis using rune by (auto simp: trimmed_lines_def TrimSpace_blank)
  next
    case False
    then have "Split (r @ a @ s) lf = (r @ hd (Split (a @ s) lf)) # tl (Split (a @ s) lf)"
      using rune_line [OF rune(1)] by (intro Split_prefix) simp
    moreover have "TrimSpace (r @ hd (Split (a @ s) lf)) = TrimSpace (hd (Split (a @ s) lf))"
      using TrimSpace_around [OF blank_rune [OF rune(1)], of "[]"] by simp
    moreover have "Split (a @ s) lf = hd (Split (a @ s) lf) # tl (Split (a @ s) lf)" by simp
    ultimately have "TrimSpace ` set (Split (r @ a @ s) lf) = TrimSpace ` set (Split (a @ s) lf)" by (metis image_insert list.simps(15))
    then show ?thesis using rune(3) by (simp add: trimmed_lines_def)
  qed
qed simp

lemma trimmed_suffix:
  assumes "blank a"
  shows "trimmed_lines (s @ a) = trimmed_lines s"
  using assms
proof (induction arbitrary: s rule: blank_induct)
  case (rune r a)
  have "trimmed_lines (s @ r) = trimmed_lines s"
  proof (cases "r = [lf]")
    case True
    then show ?thesis by (auto simp: trimmed_lines_def Split_snoc TrimSpace_blank)
  next
    case False
    then have sp: "Split (s @ r) lf = butlast (Split s lf) @ [last (Split s lf) @ r]"
      using rune_line [OF rune(1)] by (intro Split_suffix) simp
    have "Split s lf = butlast (Split s lf) @ [last (Split s lf)]" by simp
    then have "set (Split s lf) = insert (last (Split s lf)) (set (butlast (Split s lf)))" by (metis Un_insert_right list.simps(15) set_append sup_bot.right_neutral empty_set)
    moreover have "TrimSpace (last (Split s lf) @ r) = TrimSpace (last (Split s lf))"
      using TrimSpace_around [OF blank_Nil blank_rune [OF rune(1)]] by simp
    ultimately show ?thesis by (simp add: trimmed_lines_def sp)
  qed
  then show ?case using rune(3) [of "s @ r"] by simp
qed simp

lemma trimmed_TrimSpace: "trimmed_lines (TrimSpace s) = trimmed_lines s"
proof -
  obtain a b where "blank a" "blank b" "s = a @ TrimSpace s @ b" using TrimSpace_split by blast
  then show ?thesis using trimmed_prefix trimmed_suffix by metis
qed

end
