(* ===== verification/Agent_Keys.thy ===== *)
theory Agent_Keys
  imports Agent_Sync Go_Trim
begin

section \<open>The agent: what a key file may hold\<close>

text \<open>
  The lines of a key file that are not blank carry a deadline (\<open>expiring\<close>): after a purge, after the
  installation of a checked snapshot, and for every snapshot that the server renders.
\<close>

subsection \<open>Deadlines as the server writes them\<close>

lemma civil_month_length:
  assumes "civil_from_days z = (y, m, d)" "0 \<le> y"
  shows "nat d \<le> daysIn (nat m) (nat y)"
proof -
  define era where "era = (z + 719468) div 146097"
  define doe where "doe = (z + 719468) mod 146097"
  define yoe where "yoe = (doe - doe div 1460 + doe div 36524 - doe div 146096) div 365"
  define doy where "doy = doe - (365 * yoe + yoe div 4 - yoe div 100)"
  define mp where "mp = (5 * doy + 2) div 153"
  have doe: "0 \<le> doe" "doe < 146097" by (simp_all add: doe_def)
  obtain c q a u :: int where b: "0 \<le> c" "c \<le> 3" "0 \<le> q" "q \<le> 24" "0 \<le> a" "a \<le> 3" "0 \<le> u"
    and u: "u \<le> 364 \<or> (u = 365 \<and> a = 3 \<and> (q \<noteq> 24 \<or> c = 3))" and de: "doe = 36524 * c + 1461 * q + 365 * a + u"
    using day_of_era_split [OF doe] by metis
  have yo: "yoe = 100 * c + 4 * q + a" unfolding yoe_def by (rule year_of_era [OF b u de])
  have "yoe div 4 = 25 * c + q" using yo b by (intro int_div_pos_eq [of _ _ _ a]) auto
  moreover have "yoe div 100 = c" using yo b by (intro int_div_pos_eq [of _ _ _ "4 * q + a"]) auto
  ultimately have doy: "doy = u" by (simp add: doy_def yo de)
  have c: "m = (if mp < 10 then mp + 3 else mp - 9)" "d = doy - (153 * mp + 2) div 5 + 1" "y = yoe + era * 400 + (if m \<le> 2 then 1 else 0)"
    using assms(1) unfolding civil_from_days_def Let_def era_def [symmetric] doe_def [symmetric] yoe_def [symmetric]
      doy_def [symmetric] mp_def [symmetric] by auto
  have mp: "153 * mp \<le> 5 * doy + 2" "5 * doy + 2 < 153 * mp + 153" by (simp_all add: mp_def)
  have leap: "u = 365 \<Longrightarrow> nat (yoe + era * 400 + 1) mod 4 = 0 \<and> (nat (yoe + era * 400 + 1) mod 100 \<noteq> 0 \<or> nat (yoe + era * 400 + 1) mod 400 = 0)"
    if "0 \<le> yoe + era * 400 + 1"
  proof -
    assume "u = 365"
    then have a3: "a = 3" "q \<noteq> 24 \<or> c = 3" using u by auto
    have y4: "yoe + era * 400 + 1 = 4 * (25 * c + q + 1 + 100 * era)" using yo a3 by simp
    have "(yoe + era * 400 + 1) mod 4 = 0" unfolding y4 by simp
    moreover have "(yoe + era * 400 + 1) mod 100 \<noteq> 0 \<or> (yoe + era * 400 + 1) mod 400 = 0"
    proof (cases "q = 24")
      case True
      then have "yoe + era * 400 + 1 = 400 * (era + 1)" using yo a3 by simp
      then show ?thesis by simp
    next
      case False
      then have "0 < 4 * q + 4" "4 * q + 4 < 100" using b by auto
      moreover have "(yoe + era * 400 + 1) mod 100 = 4 * q + 4"
        using yo a3 False b by (intro int_mod_pos_eq [of _ _ "c + 4 * era"]) auto
      ultimately show ?thesis by simp
    qed
    moreover have "nat (yoe + era * 400 + 1) mod k = nat ((yoe + era * 400 + 1) mod int k)" for k using that by (simp add: nat_mod_distrib)
    note this [of 4] this [of 100] this [of 400]
    moreover have "0 \<le> (yoe + era * 400 + 1) mod 100" by simp
    ultimately show ?thesis by auto
  qed
  have mp_cases: "mp = 0 \<or> mp = 1 \<or> mp = 2 \<or> mp = 3 \<or> mp = 4 \<or> mp = 5 \<or> mp = 6 \<or> mp = 7 \<or> mp = 8 \<or> mp = 9 \<or> mp = 10 \<or> mp = 11"
    if "0 \<le> mp" "mp \<le> 11" using that by presburger
  have "0 \<le> mp" "mp \<le> 11" using mp u b(7) doy by linarith+
  then consider "mp = 0" | "mp = 1" | "mp = 2" | "mp = 3" | "mp = 4" | "mp = 5" | "mp = 6" | "mp = 7" | "mp = 8" | "mp = 9" | "mp = 10" | "mp = 11"
    by (metis mp_cases)
  then show ?thesis
  proof cases
    case 12
    then have my: "m = 2" "y = yoe + era * 400 + 1" "d = u - 336" using c doy by auto
    show ?thesis
    proof (cases "u = 365")
      case True
      then show ?thesis using my leap assms(2) by (simp add: daysIn_def)
    next
      case False
      then have "nat d \<le> 28" using my u by auto
      moreover have "28 \<le> daysIn (nat m) (nat y)" by (simp add: daysIn_def)
      ultimately show ?thesis by simp
    qed
  qed (use c mp doy in \<open>auto simp: daysIn_def\<close>)
qed

lemma compact_fields:
  assumes "length a = 4" "length b = 2" "length c = 2" "length d = 2" "length e = 2" "length f = 2"
    and "parse_digits 0 a = Some y" "parse_digits 0 b = Some m" "parse_digits 0 c = Some dd" "parse_digits 0 d = Some h" "parse_digits 0 e = Some mi" "parse_digits 0 f = Some s"
    and "1 \<le> m" "m \<le> 12" "1 \<le> dd" "dd \<le> daysIn m y" "h < 24" "mi < 60" "s < 60"
  shows "parse_compact_time (a @ b @ c @ d @ e @ f)"
  using assms by (simp add: parse_compact_time_def)

lemma parse_digits_all: "parse_digits acc s = Some n \<Longrightarrow> set s \<subseteq> {c. is_digit c}"
  by (induction s arbitrary: acc) (auto split: if_splits)

lemma compact_digits: "length t = 14 \<Longrightarrow> parse_compact_time t \<Longrightarrow> set t \<subseteq> {c. is_digit c}"
proof -
  assume l: "length t = 14" and p: "parse_compact_time t"
  have "drop n t = take 2 (drop n t) @ drop (n + 2) t" for n using append_take_drop_id [of 2 "drop n t"] by simp
  note d = this [of 4] this [of 6] this [of 8] this [of 10] this [of 12]
  have "t = take 4 t @ drop 4 t" by simp
  then have "t = take 4 t @ take 2 (drop 4 t) @ take 2 (drop 6 t) @ take 2 (drop 8 t) @ take 2 (drop 10 t) @ take 2 (drop 12 t)"
    using d l by simp
  moreover have "set (take 4 t) \<subseteq> {c. is_digit c}" "set (take 2 (drop 4 t)) \<subseteq> {c. is_digit c}" "set (take 2 (drop 6 t)) \<subseteq> {c. is_digit c}"
    "set (take 2 (drop 8 t)) \<subseteq> {c. is_digit c}" "set (take 2 (drop 10 t)) \<subseteq> {c. is_digit c}" "set (take 2 (drop 12 t)) \<subseteq> {c. is_digit c}"
    using p by (auto simp: parse_compact_time_def split: option.splits dest!: parse_digits_all)
  ultimately show ?thesis by (metis Un_subset_iff set_append)
qed

lemma format_utc_compact:
  assumes "four_digit_year s"
  shows "\<exists>t. format_utc s = t @ ''Z'' \<and> length t = 14 \<and> parse_compact_time t"
proof -
  obtain y m d where c: "civil_from_days (s div 86400) = (y, m, d)" by (cases "civil_from_days (s div 86400)") auto
  have "-719528 \<le> s div 86400" "s div 86400 < 2932897" using assms by (auto simp: four_digit_year_def)
  then have y: "0 \<le> y \<and> y \<le> 9999" using civil_year_bounds [OF c] by blast
  have md: "1 \<le> m \<and> m \<le> 12 \<and> 1 \<le> d \<and> d \<le> 31" by (rule civil_field_bounds) (fact c)
  have ml: "nat d \<le> daysIn (nat m) (nat y)" using civil_month_length [OF c] y by blast
  define r where "r = s mod 86400"
  have r: "0 \<le> r" "r < 86400" by (simp_all add: r_def)
  have fy: "length (appendInt y 4) = 4 \<and> parse_digits 0 (appendInt y 4) = Some (nat y)"
    using y by (intro appendInt_field) simp_all
  have fm: "length (appendInt m 2) = 2 \<and> parse_digits 0 (appendInt m 2) = Some (nat m)"
    using md by (intro appendInt_field) simp_all
  have fd: "length (appendInt d 2) = 2 \<and> parse_digits 0 (appendInt d 2) = Some (nat d)"
    using md by (intro appendInt_field) simp_all
  define hh mm ss where "hh = r div 3600" and "mm = r mod 3600 div 60" and "ss = r mod 60"
  have h: "0 \<le> hh" "hh < 24" "0 \<le> mm" "mm < 60" "0 \<le> ss" "ss < 60"
    using r by (auto simp: hh_def mm_def ss_def pos_imp_zdiv_nonneg_iff)
  have fh: "length (appendInt hh 2) = 2 \<and> parse_digits 0 (appendInt hh 2) = Some (nat hh)"
    using h(1,2) by (intro appendInt_field) simp_all
  have fmi: "length (appendInt mm 2) = 2 \<and> parse_digits 0 (appendInt mm 2) = Some (nat mm)"
    using h(3,4) by (intro appendInt_field) simp_all
  have fs: "length (appendInt ss 2) = 2 \<and> parse_digits 0 (appendInt ss 2) = Some (nat ss)"
    using h(5,6) by (intro appendInt_field) simp_all
  let ?t = "appendInt y 4 @ appendInt m 2 @ appendInt d 2 @ appendInt hh 2 @ appendInt mm 2 @ appendInt ss 2"
  have "format_utc s = ?t @ ''Z''" by (simp add: format_utc_def c r_def hh_def mm_def ss_def Let_def)
  moreover have "length ?t = 14" using fy fm fd fh fmi fs by simp
  moreover have "1 \<le> nat m" "nat m \<le> 12" "1 \<le> nat d" "nat hh < 24" "nat mm < 60" "nat ss < 60"
    using md h by (simp_all add: nat_le_iff nat_less_iff le_nat_iff)
  then have "parse_compact_time ?t" using compact_fields fy fm fd fh fmi fs ml by blast
  ultimately show ?thesis by blast
qed

lemma validExpiryOption_iff:
  "validExpiryOption ((''expiry-time='' @ [CHR 0x22]) @ ts @ [CHR 0x22]) \<longleftrightarrow> length ts = 15 \<and> HasSuffix ts ''Z'' \<and> parse_compact_time (TrimSuffix ts ''Z'')"
proof -
  have "HasSuffix (ts @ [CHR 0x22]) [CHR 0x22]" by (auto simp: HasSuffix_iff)
  then show ?thesis unfolding validExpiryOption_def CutPrefix_append option.case Let_def TrimSuffix_append by auto
qed

lemma server_expiry:
  assumes "four_digit_year s"
  shows "validExpiryOption (''expiry-time='' @ [CHR 0x22] @ format_utc s @ [CHR 0x22])"
proof -
  obtain t where t: "format_utc s = t @ ''Z''" "length t = 14" "parse_compact_time t" using format_utc_compact [OF assms] by blast
  have "HasSuffix (t @ ''Z'') ''Z''" by (auto simp: HasSuffix_iff)
  then show ?thesis using t validExpiryOption_iff [of "t @ ''Z''"] by (simp only: append_assoc TrimSuffix_append length_append) simp
qed

subsection \<open>Key files\<close>

text \<open>What a trimmed line must be.\<close>

definition expiry_text :: "string \<Rightarrow> bool" where
  "expiry_text t = (case Cut t (CHR '' '') of None \<Rightarrow> False | Some (opt, _) \<Rightarrow> validExpiryOption opt)"

definition expiring :: "string \<Rightarrow> bool" where
  "expiring data \<longleftrightarrow> (\<forall>line \<in> set (Split data newline). TrimSpace line = '''' \<or> has_expiry line)"

lemma has_expiry_text: "has_expiry line = expiry_text (TrimSpace line)"
  by (simp add: has_expiry_def expiry_text_def)

lemma newline_lf: "newline = lf" by (simp add: newline_def lf_def)

lemma expiring_trimmed: "expiring data \<longleftrightarrow> (\<forall>t \<in> trimmed_lines data. expiry_text t)"
  unfolding expiring_def trimmed_lines_def has_expiry_text newline_lf by blast

lemma key_lines_trimmed: "TrimSpace ` set (key_lines data) = trimmed_lines data"
proof -
  have "TrimSpace ` set (key_lines data) = trimmed_lines (TrimSpace data)"
    unfolding key_lines_def trimmed_lines_def newline_lf by auto
  then show ?thesis by (simp add: trimmed_TrimSpace)
qed

lemma expiring_key_lines: "expiring data \<longleftrightarrow> (\<forall>line \<in> set (key_lines data). has_expiry line)"
  unfolding expiring_trimmed key_lines_trimmed [symmetric] has_expiry_text by blast

lemma key_lines_one_line: "line \<in> set (key_lines data) \<Longrightarrow> newline \<notin> set line"
  by (auto simp: key_lines_def dest: Split_no_sep)

lemma expiring_Nil [simp]: "expiring ''''"
  by (simp add: expiring_def TrimSpace_blank)

lemma Split_lines:
  assumes "\<forall>line \<in> set ls. newline \<notin> set line" "ls \<noteq> []"
  shows "Split (Join ls [newline] @ [newline]) newline = ls @ [[]]"
  using assms by (simp add: Split_snoc Split_Join)

lemma expiring_Join:
  assumes "\<forall>line \<in> set ls. has_expiry line \<and> newline \<notin> set line" "ls \<noteq> []"
  shows "expiring (Join ls [newline] @ [newline])"
  using assms Split_lines [of ls] by (auto simp: expiring_def TrimSpace_blank)

text \<open>Validation looks at the trimmed lines only.\<close>

definition line_ok :: "(string \<Rightarrow> string option) \<Rightarrow> string \<Rightarrow> bool" where
  "line_ok parse t = (case Cut t (CHR '' '') of None \<Rightarrow> False
     | Some (opt, remainder) \<Rightarrow> validExpiryOption opt \<and> (case parse remainder of None \<Rightarrow> False | Some rest \<Rightarrow> TrimSpace rest = ''''))"

lemma validate_lines_None: "validate_lines parse ls = None \<longleftrightarrow> (\<forall>l \<in> set ls. line_ok parse (TrimSpace l))"
proof (induction ls)
  case (Cons l ls)
  show ?case
  proof (cases "Cut (TrimSpace l) (CHR '' '')")
    case (Some p)
    obtain o1 rm where p: "p = (o1, rm)" by (cases p)
    show ?thesis using Cons Some p by (cases "parse rm") (auto simp: line_ok_def)
  qed (simp add: line_ok_def)
qed simp

lemma validate_trimmed: "validateAuthorizedKeys parse body = None \<longleftrightarrow> (\<forall>t \<in> trimmed_lines body. line_ok parse t)"
  unfolding validateAuthorizedKeys_def validate_lines_None key_lines_trimmed [symmetric] by blast

lemma validated_expiring: "validateAuthorizedKeys parse body = None \<Longrightarrow> expiring body"
  unfolding validate_trimmed expiring_trimmed line_ok_def expiry_text_def by (fastforce split: option.splits)

subsection \<open>What the server renders\<close>

definition installable :: "(string \<Rightarrow> string option) \<Rightarrow> AuthorizedKeyEntry \<Rightarrow> bool" where
  "installable parse e \<longleftrightarrow> four_digit_year (ak_ExpiresAt e) \<and> TrimSpace (ak_Key e) = ak_Key e \<and> ak_Key e \<noteq> '''' \<and> newline \<notin> set (ak_Key e) \<and>
     (case parse (ak_Key e) of None \<Rightarrow> False | Some rest \<Rightarrow> TrimSpace rest = '''')"

text \<open>A blank text cut at a space byte stays blank.\<close>

lemma rune_space: "r \<in> set space_runes \<Longrightarrow> CHR '' '' \<in> set r \<Longrightarrow> r = '' ''"
  unfolding space_runes_def by (simp only: list.set insert_iff empty_iff) (elim disjE; simp)

lemma blank_cut: "blank s \<Longrightarrow> s = x @ CHR '' '' # k \<Longrightarrow> blank k"
proof (induction arbitrary: x rule: blank_induct)
  case (rune r s)
  show ?case
  proof (cases "length r \<le> length x")
    case True
    then obtain x' where "x = r @ x'" "s = x' @ CHR '' '' # k" using rune(4) by (auto simp: append_eq_append_conv2)
    then show ?thesis using rune(3) by blast
  next
    case False
    then obtain u where u: "r = x @ u" "u @ s = CHR '' '' # k" "u \<noteq> []" using rune(4) by (auto simp: append_eq_append_conv2)
    then have "CHR '' '' \<in> set r" by (cases u) auto
    then have "r = '' ''" using rune_space rune(1) by blast
    then have "u = '' ''" using u by (cases x) auto
    then show ?thesis using u(2) rune(2) by simp
  qed
qed simp

lemma suffix_cases: "(w :: string) @ k = t @ b \<Longrightarrow> (\<exists>k'. k = k' @ b) \<or> (\<exists>x. x \<noteq> [] \<and> b = x @ k \<and> w = t @ x)"
  by (auto simp: append_eq_append_conv2)

lemma TrimSpace_line:
  assumes "c \<notin> space_lead" "TrimSpace k = k" "k \<noteq> ''''"
  shows "TrimSpace (c # u @ CHR '' '' # k) = c # u @ CHR '' '' # k"
proof -
  let ?l = "c # u @ CHR '' '' # k"
  have left: "trim_left 0 ?l = ?l" using assms(1) by (simp add: leading_space_lead)
  obtain b where b: "blank b" "rev ?l = rev b @ trim_right_rev 0 (rev ?l)" using trim_right_split by blast
  let ?t = "rev (trim_right_rev 0 (rev ?l))"
  have tb: "?l = ?t @ b" using b(2) by (metis rev_append rev_rev_ident)
  have "b = []"
  proof -
    have "(c # u @ '' '') @ k = ?t @ b" using tb by (simp only: append_Cons append_assoc append_Nil)
    then consider k' where "k = k' @ b" | x where "x \<noteq> []" "b = x @ k" "c # u @ '' '' = ?t @ x"
      using suffix_cases [of "c # u @ '' ''" k ?t b] by blast
    then show ?thesis
    proof cases
      case 1
      have "TrimSpace k = TrimSpace k'" using TrimSpace_around [OF blank_Nil b(1), of k'] 1 by simp
      moreover obtain a d where "k' = a @ TrimSpace k' @ d" using TrimSpace_split by blast
      then have "length (TrimSpace k') \<le> length k'" by (metis length_append le_add1 le_add2 le_trans)
      ultimately show ?thesis using assms(2) 1 by simp
    next
      case 2
      then have "last x = CHR '' ''" by (metis last_appendR last_snoc append_Cons)
      then have "b = butlast x @ CHR '' '' # k" using 2(1,2) by (metis append_Cons append_Nil append_assoc append_butlast_last_id)
      then have "blank k" using blank_cut [OF b(1)] by blast
      then show ?thesis using TrimSpace_blank assms(2,3) by simp
    qed
  qed
  then have "?t = ?l" using tb by (metis append_Nil2)
  then show ?thesis unfolding TrimSpace_def left .
qed

lemma server_line_ok:
  assumes "installable parse e"
  shows "TrimSpace (authorized_key_line e) = authorized_key_line e \<and> line_ok parse (authorized_key_line e) \<and> newline \<notin> set (authorized_key_line e)"
proof -
  let ?o = "''expiry-time='' @ [CHR 0x22] @ format_utc (ak_ExpiresAt e) @ [CHR 0x22]"
  have f: "four_digit_year (ak_ExpiresAt e)" using assms by (simp add: installable_def)
  obtain t where t: "format_utc (ak_ExpiresAt e) = t @ ''Z''" "length t = 14" "parse_compact_time t" using format_utc_compact [OF f] by blast
  have dig: "set t \<subseteq> {c. is_digit c}" using t(2,3) by (rule compact_digits)
  have clean: "CHR '' '' \<notin> set ?o" "newline \<notin> set ?o" using dig by (auto simp: t(1) newline_def is_digit_def)
  have line: "authorized_key_line e = ?o @ CHR '' '' # ak_Key e" by (simp add: authorized_key_line_def)
  have "TrimSpace (CHR ''e'' # tl ?o @ CHR '' '' # ak_Key e) = CHR ''e'' # tl ?o @ CHR '' '' # ak_Key e"
    using assms by (intro TrimSpace_line) (auto simp: space_lead_def installable_def)
  then have "TrimSpace (authorized_key_line e) = authorized_key_line e" by (simp add: line)
  moreover have "Cut (authorized_key_line e) (CHR '' '') = Some (?o, ak_Key e)" unfolding line by (rule Cut_append) (fact clean(1))
  then have "line_ok parse (authorized_key_line e)" using assms server_expiry [OF f] by (simp add: line_ok_def installable_def)
  moreover have "newline \<notin> set (authorized_key_line e)" using clean(2) assms by (auto simp: line installable_def newline_def)
  ultimately show ?thesis by blast
qed

lemma rendered_lines:
  assumes "\<forall>e \<in> set entries. installable parse e"
  shows "validateAuthorizedKeys parse (with_newline (Join (FormatAuthorizedKeys entries) [newline])) = None"
proof (cases "entries = []")
  case True
  then show ?thesis by (simp add: FormatAuthorizedKeys_def with_newline_def validateAuthorizedKeys_def key_lines_def TrimSpace_blank)
next
  case False
  let ?ls = "FormatAuthorizedKeys entries"
  have ne: "?ls \<noteq> []" using False by (simp add: FormatAuthorizedKeys_def)
  have ok: "\<forall>l \<in> set ?ls. TrimSpace l = l \<and> line_ok parse l \<and> newline \<notin> set l"
    using assms server_line_ok by (auto simp: FormatAuthorizedKeys_def)
  have "Join ?ls [newline] \<noteq> ''''"
    using False by (cases entries; cases "tl ?ls") (auto simp: FormatAuthorizedKeys_def authorized_key_line_def)
  then have "with_newline (Join ?ls [newline]) = Join ?ls [newline] @ [newline]" by (simp add: with_newline_def newline_def)
  moreover have "trimmed_lines (Join ?ls [newline] @ [newline]) \<subseteq> set ?ls"
    using Split_lines [of ?ls] ok ne by (auto simp: trimmed_lines_def newline_lf TrimSpace_blank)
  ultimately show ?thesis using ok by (auto simp: validate_trimmed)
qed

end
