(* ===== verification/Agent_Machine.thy ===== *)
theory Agent_Machine
  imports Agent_Keys
begin

section \<open>The agent: synchronization as a machine\<close>

text \<open>
  Every state that the files go through during synchronization, so also after a crash: the key file is the
  old one or carries a deadline on every line, and the recorded generation never falls.
\<close>

definition temp_avoids :: "io_script \<Rightarrow> string set \<Rightarrow> bool" where
  "temp_avoids io ps = (case io_temp io of None \<Rightarrow> True | Some t \<Rightarrow> t \<notin> ps)"

lemma atomic_spec:
  assumes "AtomicWriteFile io p data mode f = (r, trace)" "temp_avoids io {p, q}" "p \<noteq> q"
  shows "trace \<noteq> [] \<and> (\<forall>g \<in> set trace. (g p = f p \<or> g p = Some \<lparr>fl_data = data, fl_mode = mode\<rparr>) \<and> g q = f q) \<and>
    (r = None \<longrightarrow> last trace p = Some \<lparr>fl_data = data, fl_mode = mode\<rparr>)"
  using assms by (auto simp: AtomicWriteFile_def remove_file_def temp_avoids_def Let_def split: if_splits option.splits)

definition temps_ok :: "sync_io \<Rightarrow> string \<Rightarrow> bool" where
  "temps_ok io path \<longleftrightarrow> temp_avoids (sy_purge io) {path, statePath path} \<and> temp_avoids (sy_keys io) {path, statePath path} \<and>
     temp_avoids (sy_state io) {path, statePath path}"

lemma statePath_neq [simp]: "path \<noteq> statePath path" "statePath path \<noteq> path"
  by (simp_all add: statePath_def)

definition file_expiring :: "stored_file option \<Rightarrow> bool" where
  "file_expiring x = (case x of None \<Rightarrow> True | Some y \<Rightarrow> expiring (fl_data y))"

subsection \<open>Purging\<close>

lemma purge_spec:
  assumes "purgeLegacyAuthorizedKeys readable io path f = (r, trace)" "temp_avoids io {path, statePath path}"
  shows "trace \<noteq> [] \<and> (\<forall>g \<in> set trace. (g path = f path \<or> file_expiring (g path)) \<and> g (statePath path) = f (statePath path)) \<and>
    (\<forall>b. r = Inr b \<longrightarrow> file_expiring (last trace path))"
proof (cases "f path")
  case None
  then show ?thesis using assms(1) by (auto simp: purgeLegacyAuthorizedKeys_def file_expiring_def)
next
  case (Some x)
  let ?ls = "key_lines (fl_data x)"
  let ?kept = "filter has_expiry ?ls"
  let ?body = "if ?kept \<noteq> [] then Join ?kept [newline] @ [newline] else ''''"
  have body: "expiring ?body"
    using expiring_Join [of ?kept] key_lines_one_line by (cases "?kept = []") auto
  show ?thesis
  proof (cases "readable \<and> ?kept \<noteq> ?ls")
    case True
    obtain e t where a: "AtomicWriteFile io path ?body mode_0600 f = (e, t)" by fastforce
    have "trace = t" "\<forall>b. r = Inr b \<longrightarrow> e = None"
      using assms(1) Some True a by (auto simp: purgeLegacyAuthorizedKeys_def Let_def split: option.splits)
    then show ?thesis using atomic_spec [OF a assms(2)] body by (auto simp: file_expiring_def)
  next
    case False
    have "file_expiring (f path)" if "readable"
      using False that Some expiring_key_lines [of "fl_data x"] by (auto simp: file_expiring_def filter_id_conv)
    moreover have "trace = [f] \<and> (\<forall>b. r = Inr b \<longrightarrow> readable)"
      using assms(1) Some False by (cases readable) (auto simp: purgeLegacyAuthorizedKeys_def Let_def)
    ultimately show ?thesis using Some by auto
  qed
qed

subsection \<open>Installing\<close>

text \<open>The recorded state, when it is one that the agent accepts.\<close>

definition recorded :: "agent_lib \<Rightarrow> string \<Rightarrow> fs \<Rightarrow> authorizedKeysState option" where
  "recorded L path f = (case readAuthorizedKeysState L True (statePath path) f of Inr st \<Rightarrow> st | Inl _ \<Rightarrow> None)"

definition newer :: "authorizedKeysState option \<Rightarrow> authorizedKeysState option \<Rightarrow> bool" where
  "newer a b = (case a of None \<Rightarrow> True | Some st \<Rightarrow> (case b of None \<Rightarrow> False | Some st' \<Rightarrow> aks_Generation st < aks_Generation st' \<or> st = st'))"

lemma newer_refl [simp]: "newer a a" by (simp add: newer_def split: option.splits)

lemma newer_trans: "newer a b \<Longrightarrow> newer b c \<Longrightarrow> newer a c"
  by (auto simp: newer_def split: option.splits)

lemma recorded_cong: "g (statePath path) = f (statePath path) \<Longrightarrow> recorded L path g = recorded L path f"
  by (simp add: recorded_def readAuthorizedKeysState_def)

text \<open>The JSON text of a state reads back, and hexadecimal SHA-256 has 64 digits.\<close>

definition hex_digest :: "string \<Rightarrow> bool" where
  "hex_digest s \<longleftrightarrow> length s = 64 \<and> list_all is_hex_digit s"

definition lib_ok :: "agent_lib \<Rightarrow> bool" where
  "lib_ok L \<longleftrightarrow> (\<forall>st. 0 \<le> aks_Generation st \<and> aks_Generation st < 2 ^ 63 \<and> hex_digest (aks_SHA256 st) \<longrightarrow>
       gl_unmarshal_state L (gl_marshal_state L st @ [newline]) = Some st) \<and> (\<forall>s. hex_digest (gl_sha256_hex L s))"

lemma recorded_new:
  assumes "lib_ok L" "f (statePath path) = Some \<lparr>fl_data = gl_marshal_state L st @ [newline], fl_mode = m\<rparr>" "1 \<le> aks_Generation st" "aks_Generation st < 2 ^ 63"
    and "hex_digest (aks_SHA256 st)"
  shows "recorded L path f = Some st"
proof -
  have "gl_unmarshal_state L (gl_marshal_state L st @ [newline]) = Some st" using assms(1,3-5) by (simp add: lib_ok_def)
  then show ?thesis using assms(2,3,5) by (simp add: recorded_def readAuthorizedKeysState_def hex_digest_def)
qed

lemma install_spec:
  assumes "install_snapshot L io cfg path body generation digest f = (r, trace)" "temps_ok io path" "lib_ok L"
    and "expiring body" "0 \<le> generation" "generation < 2 ^ 63" "hex_digest digest"
  shows "trace \<noteq> [] \<and> (\<forall>g \<in> set trace. (g path = f path \<or> g path = Some \<lparr>fl_data = body, fl_mode = mode_0600\<rparr>) \<and> newer (recorded L path f) (recorded L path g)) \<and>
    (r = None \<longrightarrow> last trace path = Some \<lparr>fl_data = body, fl_mode = mode_0600\<rparr> \<and>
       last trace (statePath path) = Some \<lparr>fl_data = gl_marshal_state L \<lparr>aks_Generation = generation, aks_SHA256 = digest\<rparr> @ [newline], fl_mode = mode_0600\<rparr>)"
proof -
  let ?st = "\<lparr>aks_Generation = generation, aks_SHA256 = digest\<rparr>"
  let ?new = "Some \<lparr>fl_data = gl_marshal_state L ?st @ [newline], fl_mode = mode_0600\<rparr>"
  show ?thesis
  proof (cases "\<exists>cur. readAuthorizedKeysState L (sy_read_state io) (statePath path) f = Inr cur \<and> \<not> rollback cur generation digest")
    case False
    then show ?thesis using assms(1) by (auto simp: install_snapshot_def split: sum.splits if_splits)
  next
    case True
    then obtain cur where cur: "readAuthorizedKeysState L (sy_read_state io) (statePath path) f = Inr cur" "\<not> rollback cur generation digest" by blast
    have rc: "recorded L path f = cur" using cur(1) by (auto simp: recorded_def readAuthorizedKeysState_def split: option.splits if_splits)
    have up: "newer (recorded L path f) (recorded L path g)" if "g (statePath path) = f (statePath path) \<or> g (statePath path) = ?new" for g
      using that
    proof
      assume "g (statePath path) = f (statePath path)"
      then show ?thesis using recorded_cong [of g path f L] by simp
    next
      assume g: "g (statePath path) = ?new"
      show ?thesis
      proof (cases cur)
        case (Some st)
        have "1 \<le> aks_Generation st" using cur(1) Some by (auto simp: readAuthorizedKeysState_def split: option.splits if_splits)
        then have "1 \<le> generation" "generation = aks_Generation st \<longrightarrow> digest = aks_SHA256 st" "aks_Generation st \<le> generation"
          using cur(2) Some by (auto simp: rollback_def)
        moreover from this(1) have "recorded L path g = Some ?st" using recorded_new [of L g path ?st mode_0600] assms(3,6,7) g by simp
        ultimately show ?thesis using rc Some by (cases st) (auto simp: newer_def)
      qed (simp add: rc newer_def)
    qed
    obtain e1 t1 where w1: "AtomicWriteFile (sy_keys io) path body mode_0600 f = (e1, t1)" by fastforce
    have s1: "t1 \<noteq> [] \<and> (\<forall>g \<in> set t1. (g path = f path \<or> g path = Some \<lparr>fl_data = body, fl_mode = mode_0600\<rparr>) \<and> g (statePath path) = f (statePath path)) \<and>
        (e1 = None \<longrightarrow> last t1 path = Some \<lparr>fl_data = body, fl_mode = mode_0600\<rparr>)"
      using atomic_spec [OF w1, of "statePath path"] assms(2) by (simp add: temps_ok_def)
    show ?thesis
    proof (cases "e1 = None \<and> ensureUserOwned (sy_keys_own io) (cf_SSHUser cfg) = None")
      case False
      then have "trace = t1" "r \<noteq> None" using assms(1) cur w1
        by (cases e1; cases "ensureUserOwned (sy_keys_own io) (cf_SSHUser cfg)"; auto simp: install_snapshot_def)+
      then show ?thesis using s1 up by auto
    next
      case True
      obtain e2 t2 where w2: "AtomicWriteFile (sy_state io) (statePath path) (gl_marshal_state L ?st @ [newline]) mode_0600 (last t1) = (e2, t2)" by fastforce
      have s2: "t2 \<noteq> [] \<and> (\<forall>g \<in> set t2. (g (statePath path) = last t1 (statePath path) \<or> g (statePath path) = ?new) \<and> g path = last t1 path) \<and>
          (e2 = None \<longrightarrow> last t2 (statePath path) = ?new)"
        using atomic_spec [OF w2, of path] assms(2) by (simp add: temps_ok_def insert_commute)
      have "trace = t1 @ t2" "r = None \<longrightarrow> e2 = None"
        using assms(1) cur w1 w2 True by (auto simp: install_snapshot_def split: option.splits)
      moreover have "last t1 (statePath path) = f (statePath path)" using s1 last_in_set by blast
      ultimately show ?thesis using s1 s2 up True by (auto simp: last_append)
    qed
  qed
qed

lemma check_spec:
  assumes "check_snapshot L response = Inr (body, generation, digest)"
  shows "body = as_Body response \<and> length body \<le> authorizedKeysMaxBytes \<and> digest = gl_sha256_hex L body \<and> 0 \<le> generation \<and> generation < 2 ^ 63 \<and>
    as_Header response ''X-Ternal-Authorized-Keys-Sha256'' = digest \<and> validateAuthorizedKeys (gl_parse_key L) body = None"
  using assms by (auto simp: check_snapshot_def Let_def ParseInt_def split: if_splits option.splits)

subsection \<open>A whole synchronization\<close>

lemma loadDevice_frame: "loadDevice L he cfg w = (r, w') \<Longrightarrow> aw_fs w' = aw_fs w \<and> aw_api w' = aw_api w"
  by (auto simp: loadDevice_def split: sum.splits prod.splits)

lemma fetch_request: "\<exists>req. aq_Method req = ''GET'' \<and> fetch_keys L api now cfg pk identity endpointID x =
    (case api req x of (None, x') \<Rightarrow> (Inl ARequest, x')
     | (Some response, x') \<Rightarrow> if as_Status response < 200 \<or> as_Status response \<ge> 300 then (Inl (AStatus (as_Status response)), x') else (Inr response, x'))"
  unfolding fetch_keys_def request_def Let_def by (rule exI, rule conjI [rotated], rule refl) simp

text \<open>The installation that a synchronization reached, if it reached one.\<close>

lemma sync_cases:
  assumes "syncAuthorizedKeys L api io cfg path w = (r, trace, w')" "temps_ok io path"
  obtains (unchanged) "trace = [aw_fs w]" "r \<noteq> None" "aw_api w' = aw_api w" "path = '''' \<or> \<not> sy_lock io"
  | (purge_failed) p t0 where "sy_lock io" "purgeLegacyAuthorizedKeys (sy_read io) (sy_purge io) path (aw_fs w) = (Inl p, t0)" "trace = t0" "r \<noteq> None" "aw_api w' = aw_api w"
  | (no_install) p t0 where "sy_lock io" "purgeLegacyAuthorizedKeys (sy_read io) (sy_purge io) path (aw_fs w) = (Inr p, t0)" "trace = t0" "r \<noteq> None"
      "aw_api w' = aw_api w \<or> (\<exists>req. aq_Method req = ''GET'' \<and> aw_api w' = snd (api req (aw_api w)))"
  | (install) p t0 t1 body generation digest q response req where "sy_lock io"
      "purgeLegacyAuthorizedKeys (sy_read io) (sy_purge io) path (aw_fs w) = (Inr p, t0)" "check_snapshot L response = Inr (body, generation, digest)"
      "install_snapshot L io cfg path body generation digest (last t0) = (q, t1)" "trace = t0 @ t1" "q \<noteq> None \<longrightarrow> r \<noteq> None \<and> aw_api w' = snd (api req (aw_api w))"
      "aq_Method req = ''GET''" "fst (api req (aw_api w)) = Some response"
proof -
  note run = assms(1) [unfolded syncAuthorizedKeys_def]
  show thesis
  proof (cases "path = '''' \<or> \<not> sy_lock io")
    case True
    then show thesis using run unchanged by (auto split: if_splits)
  next
    case False
    obtain p0 t0 where pu: "purgeLegacyAuthorizedKeys (sy_read io) (sy_purge io) path (aw_fs w) = (p0, t0)" by fastforce
    show thesis
    proof (cases p0)
      case (Inl e)
      then show thesis using run False pu purge_failed [of e t0] by auto
    next
      case (Inr p)
      obtain d w1 where ld: "loadDevice L (sy_helper io) cfg (w\<lparr>aw_fs := last t0\<rparr>) = (d, w1)" by fastforce
      have w1: "aw_fs w1 = last t0" "aw_api w1 = aw_api w" using loadDevice_frame [OF ld] by simp_all
      show thesis
      proof (cases d)
        case (Inl e)
        then show thesis using run False pu Inr ld w1 no_install [of p t0] by auto
      next
        case d: (Inr dev)
        obtain pk identity endpointID where dev: "dev = (pk, identity, endpointID)" by (metis prod_cases3)
        obtain req where req: "aq_Method req = ''GET''" and fk: "fetch_keys L api (sy_now io) cfg pk identity endpointID (aw_api w1) =
            (case api req (aw_api w) of (None, x') \<Rightarrow> (Inl ARequest, x')
             | (Some response, x') \<Rightarrow> if as_Status response < 200 \<or> as_Status response \<ge> 300 then (Inl (AStatus (as_Status response)), x') else (Inr response, x'))"
          unfolding w1(2) using fetch_request [of L api "sy_now io" cfg pk identity endpointID "aw_api w"] by blast
        show thesis
        proof (cases "fst (fetch_keys L api (sy_now io) cfg pk identity endpointID (aw_api w1))")
          case (Inl e)
          then have "trace = t0" "r \<noteq> None" "aw_api w' = snd (api req (aw_api w))"
            using run False pu Inr ld d dev fk by (auto split: prod.splits option.splits if_splits)
          then show thesis using no_install [of p t0] pu Inr False req by auto
        next
          case (Inr response)
          then have f: "fetch_keys L api (sy_now io) cfg pk identity endpointID (aw_api w1) = (Inr response, snd (api req (aw_api w)))"
            and ap: "fst (api req (aw_api w)) = Some response" using fk by (auto split: prod.splits option.splits if_splits)
          show thesis
          proof (cases "check_snapshot L response")
            case (Inl e)
            then have "trace = t0" "r \<noteq> None" "aw_api w' = snd (api req (aw_api w))"
              using run False pu \<open>p0 = Inr p\<close> ld d dev f by auto
            then show thesis using no_install [of p t0] pu \<open>p0 = Inr p\<close> False req by auto
          next
            case c: (Inr snap)
            obtain body generation digest where sn: "snap = (body, generation, digest)" by (metis prod_cases3)
            obtain q t1 where ins: "install_snapshot L io cfg path body generation digest (last t0) = (q, t1)" by fastforce
            have "trace = t0 @ t1" "q \<noteq> None \<longrightarrow> r \<noteq> None \<and> aw_api w' = snd (api req (aw_api w))"
              using run False pu \<open>p0 = Inr p\<close> ld d dev f c sn ins w1 by (auto split: option.splits prod.splits)
            then show thesis using install [of p t0 response body generation digest q t1 req] pu \<open>p0 = Inr p\<close> c sn ins False req ap by auto
          qed
        qed
      qed
    qed
  qed
qed

end
