(* ===== verification/Agent_Server.thy ===== *)
theory Agent_Server
  imports Agent_Machine Api_Properties Access_Properties
begin

section \<open>The agent against the server\<close>

text \<open>
  The agent's API calls answered by the server's own router and handlers: \<open>server_api\<close> gives a request of
  the agent to \<open>serve\<close> and turns its response into what the agent reads.  The request and response bodies
  are passed as values, so that JSON is not part of the model; the text and headers of the key snapshot
  are.
\<close>

subsection \<open>The wire\<close>

definition header_of :: "(string \<times> string) list \<Rightarrow> string \<Rightarrow> string" where
  "header_of hs k = (case map_of hs k of None \<Rightarrow> '''' | Some v \<Rightarrow> v)"

definition device_headers_of :: "(string \<times> string) list \<Rightarrow> device_headers" where
  "device_headers_of hs =
     \<lparr>dh_Serial = header_of hs ''X-Ternal-Device-Serial'', dh_EndpointID = header_of hs ''X-Ternal-Device-Endpoint-Id'',
      dh_Fingerprint = header_of hs ''X-Ternal-Device-Ssh-Host-Key-Fingerprint'', dh_Timestamp = header_of hs ''X-Ternal-Device-Timestamp'',
      dh_Signature = header_of hs ''X-Ternal-Device-Signature''\<rparr>"

definition endpoint_of :: "(string \<Rightarrow> string) \<Rightarrow> string \<Rightarrow> agent_request \<Rightarrow> endpoint option" where
  "endpoint_of unescape base q =
     (case CutPrefix (aq_URL q) base of
        None \<Rightarrow> None
      | Some path \<Rightarrow>
          (case aq_Body q of
             None \<Rightarrow> (case CutPrefix path ''/agents/authorized-keys?ssh_user='' of
                        None \<Rightarrow> None
                      | Some u \<Rightarrow> Some (GetAuthorizedKeys (device_headers_of (aq_Header q)) (unescape u)))
           | Some (BAck b) \<Rightarrow> (if path = ''/agents/authorized-keys/ack'' then Some (PostAck (device_headers_of (aq_Header q)) (Some b)) else None)
           | Some (BHeartbeat b) \<Rightarrow> (if path = ''/agents/heartbeat'' then Some (PostHeartbeat (Some b)) else None)
           | Some (BEnroll b) \<Rightarrow> (if path = ''/manufacturing/enroll'' then Some (PostEnroll (Some b)) else None)))"

definition http_of :: "agent_request \<Rightarrow> http_request" where
  "http_of q = \<lparr>hr_Method = aq_Method q, hr_Host = '''', hr_Header = header_of (aq_Header q), hr_Cookie = (\<lambda>_. None), hr_FormValue = (\<lambda>_. '''')\<rparr>"

definition agent_sees :: "response \<Rightarrow> agent_response" where
  "agent_sees r =
     (case rp_Body r of
        BKeysText text digest generation \<Rightarrow>
          \<lparr>as_Status = int (rp_Status r),
           as_Header = (\<lambda>k. if k = ''X-Ternal-Authorized-Keys-Generation'' then FormatInt generation
                            else if k = ''X-Ternal-Authorized-Keys-Sha256'' then digest else ''''),
           as_Body = text, as_Readable = True\<rparr>
      | _ \<Rightarrow> \<lparr>as_Status = int (rp_Status r), as_Header = (\<lambda>k. ''''), as_Body = '''', as_Readable = True\<rparr>)"

text \<open>\<open>cl\<close> and \<open>t\<close> are the clocks, identifiers and lock outcomes of each request.\<close>

definition server_api ::
    "server \<Rightarrow> 'w conn \<Rightarrow> (string \<Rightarrow> string) \<Rightarrow> string \<Rightarrow> (agent_request \<Rightarrow> clock) \<Rightarrow> (agent_request \<Rightarrow> ticks) \<Rightarrow> 'w api" where
  "server_api s c unescape base cl t q w =
     (case endpoint_of unescape base q of
        None \<Rightarrow> (Some (agent_sees (writeError 404 '''')), w)
      | Some e \<Rightarrow> (case serve s c (cl q) (t q) (http_of q) e w of (r, w') \<Rightarrow> (Some (agent_sees r), w')))"

lemma agent_sees_status [simp]: "as_Status (agent_sees r) = int (rp_Status r)"
  by (simp add: agent_sees_def split: body.splits)

lemma CutPrefix_self [simp]: "CutPrefix (p @ s) p = Some s"
  by (rule CutPrefix_append)

lemma headers_signed:
  "device_headers_of (signedHeaders identity ep ts sig) =
     \<lparr>dh_Serial = id_Serial identity, dh_EndpointID = ep, dh_Fingerprint = id_HostKeyFingerprint identity, dh_Timestamp = FormatInt (sint ts), dh_Signature = sig\<rparr>"
  "device_headers_of ((''Content-Type'', v) # signedHeaders identity ep ts sig) =
     \<lparr>dh_Serial = id_Serial identity, dh_EndpointID = ep, dh_Fingerprint = id_HostKeyFingerprint identity, dh_Timestamp = FormatInt (sint ts), dh_Signature = sig\<rparr>"
  by (simp_all add: device_headers_of_def header_of_def signedHeaders_def)

lemma parseTimestamp_Format [simp]: "parseTimestamp (FormatInt (sint ts)) = Some (ts :: int64)"
proof -
  have "- (2 ^ 63) \<le> sint ts" "sint ts < 2 ^ 63" using sint_ge [of ts] sint_lt [of ts] by simp_all
  then show ?thesis by (simp add: parseTimestamp_def ParseInt_FormatInt)
qed

text \<open>The agent sends no cookie and its routes have no guards, so that a request reaches its handler.\<close>

lemma serve_agent:
  assumes "route_of e = (aq_Method q, pat, [])"
  shows "\<exists>auth. serve s c cl t (http_of q) e w = handle s c (cl_handler cl) t (http_of q) auth e w"
  using assms by (auto simp: serve_def authenticate_def authMiddleware_def http_of_def split: option.splits)

subsection \<open>Fetching and acknowledging\<close>

definition keys_payload :: "agent_config \<Rightarrow> Identity \<Rightarrow> string \<Rightarrow> int64 \<Rightarrow> string" where
  "keys_payload cfg identity ep now = AuthorizedKeysPayload (id_Serial identity) ep (id_HostKeyFingerprint identity) now (cf_SSHUser cfg)"

definition keys_request :: "agent_lib \<Rightarrow> agent_config \<Rightarrow> string \<Rightarrow> Identity \<Rightarrow> string \<Rightarrow> int64 \<Rightarrow> agent_request" where
  "keys_request L cfg pk identity ep now =
     \<lparr>aq_Method = ''GET'', aq_URL = cf_APIURL cfg @ ''/agents/authorized-keys?ssh_user='' @ gl_query_escape L (cf_SSHUser cfg),
      aq_Header = signedHeaders identity ep now (Sign (gl_ed L) pk (keys_payload cfg identity ep now)), aq_Body = None\<rparr>"

definition ack_payload :: "agent_config \<Rightarrow> Identity \<Rightarrow> string \<Rightarrow> int64 \<Rightarrow> int \<Rightarrow> string \<Rightarrow> string" where
  "ack_payload cfg identity ep now generation dg =
     AuthorizedKeysAckPayload (id_Serial identity) ep (id_HostKeyFingerprint identity) now (cf_SSHUser cfg) (word_of_int generation) dg"

definition ack_body :: "agent_config \<Rightarrow> int \<Rightarrow> string \<Rightarrow> ack_request" where
  "ack_body cfg generation dg = \<lparr>ak_SSHUser = cf_SSHUser cfg, ak_Generation = word_of_int generation, ak_SHA256 = dg\<rparr>"

definition ack_http :: "agent_lib \<Rightarrow> agent_config \<Rightarrow> string \<Rightarrow> Identity \<Rightarrow> string \<Rightarrow> int64 \<Rightarrow> int \<Rightarrow> string \<Rightarrow> agent_request" where
  "ack_http L cfg pk identity ep now generation dg =
     \<lparr>aq_Method = ''POST'', aq_URL = cf_APIURL cfg @ ''/agents/authorized-keys/ack'',
      aq_Header = (''Content-Type'', ''application/json'') # signedHeaders identity ep now (Sign (gl_ed L) pk (ack_payload cfg identity ep now generation dg)),
      aq_Body = Some (BAck (ack_body cfg generation dg))\<rparr>"

definition sent_headers :: "agent_lib \<Rightarrow> string \<Rightarrow> Identity \<Rightarrow> string \<Rightarrow> int64 \<Rightarrow> string \<Rightarrow> device_headers" where
  "sent_headers L pk identity ep now payload =
     \<lparr>dh_Serial = id_Serial identity, dh_EndpointID = ep, dh_Fingerprint = id_HostKeyFingerprint identity, dh_Timestamp = FormatInt (sint now),
      dh_Signature = Sign (gl_ed L) pk payload\<rparr>"

lemma fetch_eq:
  assumes "\<And>u. unescape (gl_query_escape L u) = u"
    and "handleAgentAuthorizedKeys s c (t (keys_request L cfg pk identity ep now)) (sent_headers L pk identity ep now (keys_payload cfg identity ep now)) (cf_SSHUser cfg) x = (r, x')"
  shows "fetch_keys L (server_api s c unescape (cf_APIURL cfg) cl t) now cfg pk identity ep x =
    (if rp_Status r < 200 \<or> rp_Status r \<ge> 300 then (Inl (AStatus (int (rp_Status r))), x') else (Inr (agent_sees r), x'))"
proof -
  let ?q = "keys_request L cfg pk identity ep now"
  let ?e = "GetAuthorizedKeys (sent_headers L pk identity ep now (keys_payload cfg identity ep now)) (cf_SSHUser cfg)"
  have e: "endpoint_of unescape (cf_APIURL cfg) ?q = Some ?e"
    using CutPrefix_self [of "''/agents/authorized-keys?ssh_user=''"] by (simp add: endpoint_of_def keys_request_def sent_headers_def headers_signed assms(1))
  obtain auth where "serve s c (cl ?q) (t ?q) (http_of ?q) ?e x = handle s c (cl_handler (cl ?q)) (t ?q) (http_of ?q) auth ?e x"
    using serve_agent [of ?e ?q "''/agents/authorized-keys''" s c "cl ?q" "t ?q" x] by (auto simp: keys_request_def)
  then have "server_api s c unescape (cf_APIURL cfg) cl t ?q x = (Some (agent_sees r), x')" by (simp add: server_api_def e assms(2))
  then show ?thesis unfolding fetch_keys_def request_def Let_def keys_request_def keys_payload_def by auto
qed

lemma ack_eq:
  assumes "handleAgentAuthorizedKeysAck s c (t (ack_http L cfg pk identity ep now generation dg))
      (sent_headers L pk identity ep now (ack_payload cfg identity ep now generation dg)) (Some (ack_body cfg generation dg)) x = (r, x')"
  shows "acknowledge_keys L (server_api s c unescape (cf_APIURL cfg) cl t) now cfg pk identity ep generation dg x =
    (if rp_Status r < 200 \<or> rp_Status r \<ge> 300 then (Some (AStatus (int (rp_Status r))), x') else (None, x'))"
proof -
  let ?q = "ack_http L cfg pk identity ep now generation dg"
  let ?e = "PostAck (sent_headers L pk identity ep now (ack_payload cfg identity ep now generation dg)) (Some (ack_body cfg generation dg))"
  have e: "endpoint_of unescape (cf_APIURL cfg) ?q = Some ?e"
    by (simp add: endpoint_of_def ack_http_def sent_headers_def headers_signed)
  obtain auth where "serve s c (cl ?q) (t ?q) (http_of ?q) ?e x = handle s c (cl_handler (cl ?q)) (t ?q) (http_of ?q) auth ?e x"
    using serve_agent [of ?e ?q "''/agents/authorized-keys/ack''" s c "cl ?q" "t ?q" x] by (auto simp: ack_http_def)
  then have "server_api s c unescape (cf_APIURL cfg) cl t ?q x = (Some (agent_sees r), x')" by (simp add: server_api_def e assms)
  then show ?thesis unfolding acknowledge_keys_def requestJSON_def request_def Let_def ack_http_def ack_payload_def ack_body_def by auto
qed

lemma fetch_served:
  assumes "fetch_keys L (server_api s c unescape (cf_APIURL cfg) cl t) now cfg pk identity ep x = (Inr response, x')"
    and "\<And>u. unescape (gl_query_escape L u) = u"
  shows "\<exists>q d body dg gen. verifyDevice s c (t q 0) (id_Serial identity) ep (id_HostKeyFingerprint identity) now
        (Sign (gl_ed L) pk (keys_payload cfg identity ep now)) (keys_payload cfg identity ep now) x = Inr d \<and>
      PublishAuthorizedKeysSnapshot c (sv_hash s) (ti_ok (t q 1)) (ti_now (t q 1)) (ti_now2 (t q 1)) (d_HostID d) (cf_SSHUser cfg) x = (Inr (body, dg, gen), x') \<and>
      response = agent_sees (writeJSON 200 (BKeysText body dg gen))"
proof -
  define q where "q = keys_request L cfg pk identity ep now"
  obtain r w1 where h: "handleAgentAuthorizedKeys s c (t q) (sent_headers L pk identity ep now (keys_payload cfg identity ep now)) (cf_SSHUser cfg) x = (r, w1)"
    by fastforce
  then have "rp_Status r \<ge> 200" "rp_Status r < 300" "response = agent_sees r" "x' = w1"
    using assms(1) fetch_eq [OF assms(2), of s c t cfg pk identity ep now x r w1] by (auto simp: q_def split: if_splits)
  then show ?thesis using h
    by (intro exI [of _ q])
      (auto simp: sent_headers_def keys_payload_def handleAgentAuthorizedKeys_def call_def answer_def writeDeviceVerificationError_def writeError_def writeJSON_def
        split: sum.splits prod.splits verify_error.splits)
qed

lemma ack_served:
  assumes "acknowledge_keys L (server_api s c unescape (cf_APIURL cfg) cl t) now cfg pk identity ep generation dg x = (None, x')"
  shows "\<exists>q d p. verifyDevice s c (t q 0) (id_Serial identity) ep (id_HostKeyFingerprint identity) now (Sign (gl_ed L) pk p) p x = Inr d \<and>
      AcknowledgeAuthorizedKeys c (ti_ok (t q 1)) (ti_now (t q 1)) (d_HostID d) (cf_SSHUser cfg) (sint (word_of_int generation :: int64)) dg x = (Inr (), x')"
proof -
  define q where "q = ack_http L cfg pk identity ep now generation dg"
  obtain r w1 where h: "handleAgentAuthorizedKeysAck s c (t q) (sent_headers L pk identity ep now (ack_payload cfg identity ep now generation dg))
      (Some (ack_body cfg generation dg)) x = (r, w1)" by fastforce
  then have "rp_Status r \<ge> 200" "rp_Status r < 300" "x' = w1"
    using assms ack_eq [of s c t L cfg pk identity ep now generation dg x r w1] by (auto simp: q_def split: if_splits)
  then show ?thesis using h
    by (intro exI [of _ q] exI [of _ "ack_payload cfg identity ep now generation dg"])
      (auto simp: sent_headers_def ack_payload_def ack_body_def handleAgentAuthorizedKeysAck_def call_def answer_def writeDeviceVerificationError_def
        writeError_def writeJSON_def split: sum.splits prod.splits verify_error.splits)
qed

text \<open>Publishing writes the snapshot tables only.\<close>

definition registry :: "tables \<Rightarrow> Device list \<times> AccessGrant list \<times> SshKey list \<times> host_row list" where
  "registry t = (devices t, access_grants t, ssh_keys t, hosts t)"

lemma registry_ignores: "ignores authorized_keys_snapshots_update (\<lambda>t. registry t = r)" "ignores authorized_keys_snapshot_grants_update (\<lambda>t. registry t = r)"
  by (simp_all add: ignores_def registry_def)

lemma publish_frame:
  assumes "sql_conn view c" "PublishAuthorizedKeysSnapshot c hash ok now1 now2 hid su w = (Inr out, w')"
  shows "registry (view w') = registry (view w)"
proof -
  obtain gs dg gen where "publishAuthorizedKeysGeneration c hash hid su dg gs w = (Inr gen, w')"
    using assms(2) unfolding PublishAuthorizedKeysSnapshot_def authorizedKeysSnapshotForHost_def locked_Inr Let_def
    by (auto simp: fail_Inr map_result_def split: sum.splits prod.splits dest!: with_query_Inr [OF assms(1)])
  then obtain w1 ns where tx: "run_tx (publish_tx hid su dg (snapshotMarker hash gs) gs) (view w) = Inr (view w1, ns)" and "w' = w1"
    unfolding publishAuthorizedKeysGeneration_def
    by (elim with_tx_Inr [OF assms(1)]) (auto simp: fail_Inr return_Inr split: option.splits dest!: with_query_Inr [OF assms(1)])
  have "\<forall>s \<in> set (publish_tx hid su dg (snapshotMarker hash gs) gs). keeps (\<lambda>t. registry t = registry (view w)) (st_run s)"
    by (auto simp: publish_tx_def insert_sgrant_def intro!: ignores_keeps registry_ignores)
  from run_tx_keeps [OF this _ tx] show ?thesis using \<open>w' = w1\<close> by simp
qed


lemma verifyDevice_row:
  assumes "sql_conn view c" "verifyDevice s c ti serial ep fp ts sig p w = Inr d"
  shows "query_row (\<lambda>d. d_SerialNumber d = serial) (devices (view w)) = Some d \<and> d_State d \<noteq> ''revoked''"
proof -
  have q: "fst (GetDeviceBySerial c (ti_ok ti) serial w) = Inr (Some d)" and d: "d_State d \<noteq> ''revoked''"
    using assms(2) by (auto simp: verifyDevice_def split: if_splits sum.splits option.splits)
  have "Some d = query_row (\<lambda>d. d_SerialNumber d = serial) (devices (view w))"
    using assms(1) q unfolding GetDeviceBySerial_def by (rule read_Inr)
  then show ?thesis using d by simp
qed

lemma sync_success:
  assumes "syncAuthorizedKeys L api io cfg path w = (None, trace, w')"
  obtains p t0 pk identity ep x1 response body generation digest t1 where
    "purgeLegacyAuthorizedKeys (sy_read io) (sy_purge io) path (aw_fs w) = (Inr p, t0)"
    "fetch_keys L api (sy_now io) cfg pk identity ep (aw_api w) = (Inr response, x1)"
    "check_snapshot L response = Inr (body, generation, digest)"
    "install_snapshot L io cfg path body generation digest (last t0) = (None, t1)"
    "acknowledge_keys L api (sy_ack_now io) cfg pk identity ep generation digest x1 = (None, aw_api w')" "aw_fs w' = last t1"
proof -
  obtain p t0 where pu: "purgeLegacyAuthorizedKeys (sy_read io) (sy_purge io) path (aw_fs w) = (Inr p, t0)"
    using assms unfolding syncAuthorizedKeys_def by (auto split: if_splits prod.splits sum.splits)
  obtain pk identity ep w1 where ld: "loadDevice L (sy_helper io) cfg (w\<lparr>aw_fs := last t0\<rparr>) = (Inr (pk, identity, ep), w1)"
    using assms pu unfolding syncAuthorizedKeys_def by (auto split: if_splits prod.splits sum.splits)
  have w1: "aw_api w1 = aw_api w" "aw_fs w1 = last t0" using loadDevice_frame [OF ld] by simp_all
  obtain response x1 where f: "fetch_keys L api (sy_now io) cfg pk identity ep (aw_api w) = (Inr response, x1)"
    using assms pu ld w1 unfolding syncAuthorizedKeys_def by (auto split: if_splits prod.splits sum.splits)
  obtain body generation digest where c: "check_snapshot L response = Inr (body, generation, digest)"
    using assms pu ld w1 f unfolding syncAuthorizedKeys_def by (auto split: if_splits prod.splits sum.splits)
  obtain t1 where i: "install_snapshot L io cfg path body generation digest (last t0) = (None, t1)"
    using assms pu ld w1 f c unfolding syncAuthorizedKeys_def by (auto split: if_splits prod.splits option.splits)
  show thesis using assms pu ld w1 f c i unfolding syncAuthorizedKeys_def
    by (intro that [OF pu f c i]) (auto split: if_splits prod.splits option.splits)
qed

subsection \<open>What the rendered file holds\<close>

definition has_line :: "string \<Rightarrow> string \<Rightarrow> bool" where
  "has_line line data \<longleftrightarrow> (\<exists>a b. data = a @ line @ newline # b \<and> (a = '''' \<or> last a = newline))"

lemma Join_has_line: "line \<in> set ls \<Longrightarrow> has_line line (Join ls [newline] @ [newline])"
proof (induction ls rule: induct_list012)
  case (3 x y zs)
  show ?case
  proof (cases "line = x")
    case True
    then show ?thesis unfolding has_line_def by (intro exI [of _ "''''"] exI [of _ "Join (y # zs) [newline] @ [newline]"]) simp
  next
    case False
    then obtain a b where "Join (y # zs) [newline] @ [newline] = a @ line @ newline # b" "a = '''' \<or> last a = newline"
      using 3 unfolding has_line_def by auto
    then have "Join (x # y # zs) [newline] @ [newline] = (x @ newline # a) @ line @ newline # b \<and> last (x @ newline # a) = newline" by auto
    then show ?thesis unfolding has_line_def by blast
  qed
qed (auto simp: has_line_def intro!: exI [of _ "''''"])

lemma rendered_has_line:
  assumes "renderAuthorizedKeysBody entries = Inr body" "e \<in> set entries"
  shows "has_line (authorized_key_line e) body"
proof -
  have m: "authorized_key_line e \<in> set (FormatAuthorizedKeys entries)" using assms(2) by (simp add: FormatAuthorizedKeys_def)
  have "authorized_key_line e \<noteq> ''''" by (simp add: authorized_key_line_def)
  then have "Join (FormatAuthorizedKeys entries) [newline] \<noteq> ''''"
    using m by (cases "FormatAuthorizedKeys entries"; cases "tl (FormatAuthorizedKeys entries)") (auto simp: newline_def)
  then have "body = Join (FormatAuthorizedKeys entries) [newline] @ [newline]"
    using assms(1) by (auto simp: renderAuthorizedKeysBody_def within_budget_def with_newline_def newline_def split: if_splits)
  then show ?thesis using Join_has_line [OF m] by simp
qed

text \<open>Every key of a user with a live grant is in the rendered body, with a deadline that is not before the grant's.\<close>

lemma live_grant_rendered:
  assumes "renderAuthorizedKeysBody (key_entries (live_key_rows hid su now t)) = Inr body"
    and "g \<in> set (live_grant_rows hid su now t)" "k \<in> set (ssh_keys t)" "k_UserID k = ag_UserID g"
  shows "\<exists>e. ak_Key e = k_PublicKey k \<and> ag_ExpiresAt g \<le> ak_ExpiresAt e \<and> has_line (authorized_key_line e) body"
proof -
  have row: "(k_PublicKey k, ag_ExpiresAt g) \<in> set (live_key_rows hid su now t)" using assms(2-4) unfolding live_key_rows_set by blast
  then have "k_PublicKey k \<in> set (map ak_Key (key_entries (live_key_rows hid su now t)))" unfolding key_entries_keys by force
  then obtain e where e: "e \<in> set (key_entries (live_key_rows hid su now t))" "ak_Key e = k_PublicKey k" by auto
  then show ?thesis using key_entries_deadline [OF e(1)] row rendered_has_line [OF assms(1) e(1)] by metis
qed


subsection \<open>A successful synchronization\<close>

definition clocks_ordered :: "(agent_request \<Rightarrow> ticks) \<Rightarrow> bool" where
  "clocks_ordered t \<longleftrightarrow> (\<forall>q n. ti_now (t q n) \<le> ti_now2 (t q n))"

definition grant_ids_ok :: "tables \<Rightarrow> bool" where
  "grant_ids_ok db \<longleftrightarrow> (\<forall>g \<in> set (access_grants db). \<not> HasPrefix (ag_ID g) ''snapshot:'')"

lemma grant_unique:
  assumes "db_ok t" "g \<in> set (access_grants t)" "h \<in> set (access_grants t)" "ag_ID g = ag_ID h"
  shows "g = h"
proof -
  have "unique grant_clash xs \<Longrightarrow> g \<in> set xs \<Longrightarrow> h \<in> set xs \<Longrightarrow> g = h" for xs
    using assms(4) by (induction xs) (auto simp: list_all_iff grant_clash_def)
  then show ?thesis using assms(1-3) unfolding db_ok_def keys_ok_def by blast
qed

lemma live_rows_registry: "registry t = registry t' \<Longrightarrow> live_grant_rows hid su now t = live_grant_rows hid su now t'"
  by (simp add: registry_def live_grant_rows_def)

lemma live_earlier: "g \<in> set (live_grant_rows hid su now2 t) \<Longrightarrow> now1 \<le> now2 \<Longrightarrow> g \<in> set (live_grant_rows hid su now1 t)"
  by (auto simp: live_grant_rows_set)

text \<open>The grants that an acknowledgement marks, in terms of the tables from before the publication.\<close>

lemma published_then_acked:
  assumes "sql_conn view c" "db_ok (view x)" "grant_ids_ok (view x)"
    and pub: "PublishAuthorizedKeysSnapshot c hash ok now1 now2 hid su x = (Inr (body, dg, gen), x1)"
    and ack: "AcknowledgeAuthorizedKeys c ok' now hid su gen' dg' x1 = (Inr (), x2)"
    and g: "g \<in> set (access_grants (view x2))" "g \<notin> set (access_grants (view x))"
  shows "\<exists>h \<in> set (live_grant_rows hid su now2 (view x)). g = h\<lparr>ag_KeyInstalled := True\<rparr>"
proof -
  have reg: "registry (view x1) = registry (view x)" using assms(1) pub by (rule publish_frame)
  have ids: "set (published_ids hid su (view x1)) = insert (snapshotMarker hash (live_grant_ids hid su now2 (view x))) (set (live_grant_ids hid su now2 (view x)))"
    using publish_snapshot [OF assms(1) pub] by simp
  have v: "view x2 = (view x1)\<lparr>access_grants := map (\<lambda>g. if ag_ID g \<in> set (published_ids hid su (view x1)) \<and> ag_HostID g = hid \<and> ag_SSHUser g = su \<and>
      ag_ExpiresAt g > now \<and> (\<exists>k \<in> set (ssh_keys (view x1)). k_UserID k = ag_UserID g) then g\<lparr>ag_KeyInstalled := True\<rparr> else g) (access_grants (view x1))\<rparr>"
    using acknowledge_effect [OF assms(1) ack] by (rule conjunct2)
  have gs: "access_grants (view x1) = access_grants (view x)" using reg by (simp add: registry_def)
  obtain h where h: "h \<in> set (access_grants (view x))" "ag_ID h \<in> set (published_ids hid su (view x1))" "g = h\<lparr>ag_KeyInstalled := True\<rparr>"
    using g unfolding v by (auto simp: gs split: if_splits)
  have "ag_ID h \<noteq> snapshotMarker hash gs" for gs
  proof
    assume "ag_ID h = snapshotMarker hash gs"
    then have "HasPrefix (ag_ID h) ''snapshot:''" by (auto simp: snapshotMarker_def HasPrefix_def)
    then show False using h(1) assms(3) by (simp add: grant_ids_ok_def)
  qed
  then have "ag_ID h \<in> set (live_grant_ids hid su now2 (view x))" using h(2) ids by auto
  then obtain h' where h': "h' \<in> set (live_grant_rows hid su now2 (view x))" "ag_ID h' = ag_ID h" by (auto simp: live_grant_ids_def)
  then have "h' = h" using grant_unique [OF assms(2)] h(1) by (simp add: live_grant_rows_set)
  then show ?thesis using h' h(3) by blast
qed

text \<open>C1. What an installed grant means.  When a synchronization with the server succeeds, every grant that it made
  the server mark as installed is for the agent's account on the host of an unrevoked device, and the
  device's key file then holds, on a line of its own, each key of the grant's user with a deadline that is
  not before the grant's.  The database is well-formed, no grant has an identifier of a snapshot marker,
  the clock does not run backwards within a request, and no other request comes between.\<close>

theorem installed_grants_honest:
  assumes "sql_conn view c" "db_ok (view (aw_api w))" "grant_ids_ok (view (aw_api w))" "clocks_ordered t"
    and "\<And>u. unescape (gl_query_escape L u) = u" "lib_ok L" "temps_ok io path"
    and "syncAuthorizedKeys L (server_api s c unescape (cf_APIURL cfg) cl t) io cfg path w = (None, trace, w')"
  shows "\<exists>data d. aw_fs w' path = Some \<lparr>fl_data = data, fl_mode = mode_0600\<rparr> \<and> d \<in> set (devices (view (aw_api w))) \<and> d_State d \<noteq> ''revoked'' \<and>
    (\<forall>g. g \<in> set (access_grants (view (aw_api w'))) \<and> g \<notin> set (access_grants (view (aw_api w))) \<longrightarrow>
       ag_KeyInstalled g \<and> ag_HostID g = d_HostID d \<and> ag_SSHUser g = cf_SSHUser cfg \<and>
       (\<forall>k. k \<in> set (ssh_keys (view (aw_api w))) \<and> k_UserID k = ag_UserID g \<longrightarrow>
          (\<exists>e. ak_Key e = k_PublicKey k \<and> ag_ExpiresAt g \<le> ak_ExpiresAt e \<and> has_line (authorized_key_line e) data)))"
proof -
  let ?x = "aw_api w"
  obtain p t0 pk identity ep x1 response body generation digest t1 where
    run: "fetch_keys L (server_api s c unescape (cf_APIURL cfg) cl t) (sy_now io) cfg pk identity ep ?x = (Inr response, x1)"
      "check_snapshot L response = Inr (body, generation, digest)"
      "install_snapshot L io cfg path body generation digest (last t0) = (None, t1)"
      "acknowledge_keys L (server_api s c unescape (cf_APIURL cfg) cl t) (sy_ack_now io) cfg pk identity ep generation digest x1 = (None, aw_api w')"
      "aw_fs w' = last t1"
    using assms(8) by (rule sync_success)
  obtain q d dg gen where d: "verifyDevice s c (t q 0) (id_Serial identity) ep (id_HostKeyFingerprint identity) (sy_now io)
        (Sign (gl_ed L) pk (keys_payload cfg identity ep (sy_now io))) (keys_payload cfg identity ep (sy_now io)) ?x = Inr d"
    and pub: "PublishAuthorizedKeysSnapshot c (sv_hash s) (ti_ok (t q 1)) (ti_now (t q 1)) (ti_now2 (t q 1)) (d_HostID d) (cf_SSHUser cfg) ?x = (Inr (body, dg, gen), x1)"
    using fetch_served [OF run(1) assms(5)] check_spec [OF run(2)] by (auto simp: agent_sees_def writeJSON_def)
  obtain q' d' pl where d': "verifyDevice s c (t q' 0) (id_Serial identity) ep (id_HostKeyFingerprint identity) (sy_ack_now io) (Sign (gl_ed L) pk pl) pl x1 = Inr d'"
    and ack: "AcknowledgeAuthorizedKeys c (ti_ok (t q' 1)) (ti_now (t q' 1)) (d_HostID d') (cf_SSHUser cfg) (sint (word_of_int generation :: int64)) digest x1 = (Inr (), aw_api w')"
    using ack_served [OF run(4)] by blast
  have row: "query_row (\<lambda>d. d_SerialNumber d = id_Serial identity) (devices (view ?x)) = Some d" "d_State d \<noteq> ''revoked''"
    using verifyDevice_row [OF assms(1) d] by simp_all
  have "devices (view x1) = devices (view ?x)" using publish_frame [OF assms(1) pub] by (simp add: registry_def)
  then have "d' = d" using verifyDevice_row [OF assms(1) d'] row by simp
  have mem: "d \<in> set (devices (view ?x))" using query_row_Some [OF row(1)] by simp
  have data: "aw_fs w' path = Some \<lparr>fl_data = body, fl_mode = mode_0600\<rparr>"
    using install_spec [OF run(3) assms(7,6)] check_spec [OF run(2)] validated_expiring assms(6) run(5) by (auto simp: lib_ok_def)
  have render: "renderAuthorizedKeysBody (key_entries (live_key_rows (d_HostID d) (cf_SSHUser cfg) (ti_now (t q 1)) (view ?x))) = Inr body"
    using publish_snapshot [OF assms(1) pub] by simp
  have g: "ag_KeyInstalled g \<and> ag_HostID g = d_HostID d \<and> ag_SSHUser g = cf_SSHUser cfg \<and>
       (\<forall>k. k \<in> set (ssh_keys (view ?x)) \<and> k_UserID k = ag_UserID g \<longrightarrow>
          (\<exists>e. ak_Key e = k_PublicKey k \<and> ag_ExpiresAt g \<le> ak_ExpiresAt e \<and> has_line (authorized_key_line e) body))"
    if "g \<in> set (access_grants (view (aw_api w')))" "g \<notin> set (access_grants (view ?x))" for g
  proof -
    from published_then_acked [OF assms(1-3) pub ack [unfolded \<open>d' = d\<close>] that]
    obtain h where h: "h \<in> set (live_grant_rows (d_HostID d) (cf_SSHUser cfg) (ti_now2 (t q 1)) (view ?x))" "g = h\<lparr>ag_KeyInstalled := True\<rparr>" ..
    then have "h \<in> set (live_grant_rows (d_HostID d) (cf_SSHUser cfg) (ti_now (t q 1)) (view ?x))"
      using live_earlier assms(4) by (auto simp: clocks_ordered_def)
    then show ?thesis using live_grant_rendered [OF render] h by (auto simp: live_grant_rows_set)
  qed
  show ?thesis by (rule exI [of _ body], rule exI [of _ d]) (use data mem row(2) g in blast)
qed


subsection \<open>Acceptance in both directions\<close>

lemma snapshot_accepted:
  assumes "sql_conn view c" "PublishAuthorizedKeysSnapshot c (gl_sha256_hex L) ok now1 now2 hid su w = (Inr (body, dg, gen), w')"
    and "0 \<le> gen" "gen < 2 ^ 63"
    and "list_all (installable (gl_parse_key L)) (key_entries (live_key_rows hid su now1 (view w)))"
  shows "check_snapshot L (agent_sees (writeJSON 200 (BKeysText body dg gen))) = Inr (body, gen, dg) \<and>
    \<not> rollback (map_option (\<lambda>r. \<lparr>aks_Generation = sn_Generation r, aks_SHA256 = sn_Digest r\<rparr>) (snapshot_of hid su (view w))) gen dg"
proof
  note pub = publish_snapshot [OF assms(1,2)]
  have body: "body = with_newline (Join (FormatAuthorizedKeys (key_entries (live_key_rows hid su now1 (view w)))) [newline])"
    and len: "length body \<le> authorizedKeysMaxBytes"
    using pub by (auto simp: renderAuthorizedKeysBody_def within_budget_def MaxAuthorizedKeysBodyBytes_def authorizedKeysMaxBytes_def newline_def split: if_splits)
  have "validateAuthorizedKeys (gl_parse_key L) body = None"
    unfolding body using assms(5) by (intro rendered_lines) (simp add: list_all_iff)
  then show "check_snapshot L (agent_sees (writeJSON 200 (BKeysText body dg gen))) = Inr (body, gen, dg)"
    using pub len assms(3,4) by (simp add: check_snapshot_def agent_sees_def writeJSON_def ParseInt_FormatInt)
  show "\<not> rollback (map_option (\<lambda>r. \<lparr>aks_Generation = sn_Generation r, aks_SHA256 = sn_Digest r\<rparr>) (snapshot_of hid su (view w))) gen dg"
    using pub by (cases "snapshot_of hid su (view w)") (auto simp: rollback_def split: if_splits)
qed

text \<open>The agent accepts what the server publishes.  A published snapshot whose keys are single parsable lines and
  whose deadlines have four-digit years passes every check of the agent, within its size limit, and its
  generation is never refused as a rollback by an agent that installed the server's previous snapshot.\<close>

lemma published_snapshot_accepted:
  assumes "sql_conn view c" "PublishAuthorizedKeysSnapshot c (gl_sha256_hex L) ok now1 now2 hid su w = (Inr (body, dg, gen), w')"
    and "0 \<le> gen" "gen < 2 ^ 63"
    and "list_all (installable (gl_parse_key L)) (key_entries (live_key_rows hid su now1 (view w)))"
  shows "check_snapshot L (agent_sees (writeJSON 200 (BKeysText body dg gen))) = Inr (body, gen, dg) \<and>
    \<not> rollback (map_option (\<lambda>r. \<lparr>aks_Generation = sn_Generation r, aks_SHA256 = sn_Digest r\<rparr>) (snapshot_of hid su (view w))) gen dg"
  using assms by (rule snapshot_accepted)

definition ed_correct :: "ed25519 \<Rightarrow> string \<Rightarrow> bool" where
  "ed_correct ed private \<longleftrightarrow> (\<forall>p. length (ed_public ed private) = 32 \<and> length (ed_sign ed private p) = 64 \<and>
     ed_verify ed (ed_public ed private) p (ed_sign ed private p))"

lemma signed_verifies:
  assumes "fst (GetDeviceBySerial c (ti_ok ti) serial w) = Inr (Some d)" "d_State d \<noteq> ''revoked''" "d_EndpointID d = ep" "d_SSHHostKeyFingerprint d = fp"
    and "d_DevicePublicKey d = PublicKey (sv_ed s) private" "ed_correct (sv_ed s) private" "Fresh ts (word_of_int (ti_now ti))"
  shows "verifyDevice s c ti serial ep fp ts (Sign (sv_ed s) private p) p w = Inr d"
  using assms by (simp add: verifyDevice_def Verify_def PublicKey_def Sign_def ed_correct_def)

text \<open>The server accepts what the agent signs.  The heartbeat, the key fetch and the acknowledgement of a device
  that is enrolled with the agent's key, endpoint and host key and is not revoked authenticate, when they
  arrive within the clock skew: the handlers read from the agent's body and headers exactly the signed
  bytes.\<close>

lemma agent_requests_verify:
  assumes "fst (GetDeviceBySerial c (ti_ok ti) (id_Serial identity) w) = Inr (Some d)" "d_State d \<noteq> ''revoked''" "d_EndpointID d = ep"
    and "d_SSHHostKeyFingerprint d = id_HostKeyFingerprint identity" "d_DevicePublicKey d = PublicKey (gl_ed L) pk"
    and "ed_correct (gl_ed L) pk" "Fresh timestamp (word_of_int (ti_now ti))" "sv_ed s = gl_ed L" "sv_marshal_discovery s = gl_marshal_discovery L"
  shows "(let hb = heartbeat_body L direct cfg pk identity ep timestamp status in
      verifyDevice s c ti (hb_Serial hb) (hb_EndpointID hb) (hb_Fingerprint hb) (hb_Timestamp hb) (hb_Signature hb)
        (HeartbeatPayload (sv_marshal_discovery s) (hb_Serial hb) (hb_EndpointID hb) (hb_Fingerprint hb) (hb_Timestamp hb) (hb_Status hb) (hb_Discovery hb)) w = Inr d) \<and>
    (let dh = device_headers_of (signedHeaders identity ep timestamp (Sign (gl_ed L) pk
         (AuthorizedKeysPayload (id_Serial identity) ep (id_HostKeyFingerprint identity) timestamp user))) in
      parseTimestamp (dh_Timestamp dh) = Some timestamp \<and>
      verifyDevice s c ti (dh_Serial dh) (dh_EndpointID dh) (dh_Fingerprint dh) timestamp (dh_Signature dh)
        (AuthorizedKeysPayload (dh_Serial dh) (dh_EndpointID dh) (dh_Fingerprint dh) timestamp user) w = Inr d) \<and>
    (let dh = device_headers_of (signedHeaders identity ep timestamp (Sign (gl_ed L) pk
         (AuthorizedKeysAckPayload (id_Serial identity) ep (id_HostKeyFingerprint identity) timestamp user gen dg))) in
      parseTimestamp (dh_Timestamp dh) = Some timestamp \<and>
      verifyDevice s c ti (dh_Serial dh) (dh_EndpointID dh) (dh_Fingerprint dh) timestamp (dh_Signature dh)
        (AuthorizedKeysAckPayload (dh_Serial dh) (dh_EndpointID dh) (dh_Fingerprint dh) timestamp user gen dg) w = Inr d)"
  using signed_verifies [OF assms(1-4), of s pk timestamp] assms(5-9)
  by (simp add: headers_signed heartbeat_body_def Let_def)


subsection \<open>A synchronization that completes\<close>

lemma keys_handled:
  assumes "verifyDevice s c (t 0) (id_Serial identity) ep (id_HostKeyFingerprint identity) now
      (Sign (gl_ed L) pk (keys_payload cfg identity ep now)) (keys_payload cfg identity ep now) x = Inr d"
    and "PublishAuthorizedKeysSnapshot c (sv_hash s) (ti_ok (t 1)) (ti_now (t 1)) (ti_now2 (t 1)) (d_HostID d) (cf_SSHUser cfg) x = (Inr (body, dg, gen), x')"
  shows "handleAgentAuthorizedKeys s c t (sent_headers L pk identity ep now (keys_payload cfg identity ep now)) (cf_SSHUser cfg) x =
    (writeJSON 200 (BKeysText body dg gen), x')"
  using assms by (simp add: handleAgentAuthorizedKeys_def sent_headers_def keys_payload_def call_def answer_def)

lemma ack_handled:
  assumes "verifyDevice s c (t 0) (id_Serial identity) ep (id_HostKeyFingerprint identity) now
      (Sign (gl_ed L) pk (ack_payload cfg identity ep now gen dg)) (ack_payload cfg identity ep now gen dg) x = Inr d"
    and "AcknowledgeAuthorizedKeys c (ti_ok (t 1)) (ti_now (t 1)) (d_HostID d) (cf_SSHUser cfg) (sint (word_of_int gen :: int64)) dg x = (Inr (), x')"
  shows "handleAgentAuthorizedKeysAck s c t (sent_headers L pk identity ep now (ack_payload cfg identity ep now gen dg)) (Some (ack_body cfg gen dg)) x =
    (writeJSON 204 BEmpty, x')"
  using assms by (simp add: handleAgentAuthorizedKeysAck_def sent_headers_def ack_payload_def ack_body_def call_def answer_def)

text \<open>The steps of a synchronization that succeeds, in their order.\<close>

lemma sync_completes:
  fixes cfg L pk identity ep io
  defines "q1 \<equiv> keys_request L cfg pk identity ep (sy_now io)"
  assumes esc: "\<And>u. unescape (gl_query_escape L u) = u"
    and start: "path \<noteq> ''''" "sy_lock io" "purgeLegacyAuthorizedKeys (sy_read io) (sy_purge io) path (aw_fs w) = (Inr p, t0)"
      "loadDevice L (sy_helper io) cfg (w\<lparr>aw_fs := last t0\<rparr>) = (Inr (pk, identity, ep), w1)"
    and fetch: "verifyDevice s c (t q1 0) (id_Serial identity) ep (id_HostKeyFingerprint identity) (sy_now io)
        (Sign (gl_ed L) pk (keys_payload cfg identity ep (sy_now io))) (keys_payload cfg identity ep (sy_now io)) (aw_api w) = Inr d"
      "PublishAuthorizedKeysSnapshot c (sv_hash s) (ti_ok (t q1 1)) (ti_now (t q1 1)) (ti_now2 (t q1 1)) (d_HostID d) (cf_SSHUser cfg) (aw_api w) = (Inr (body, dg, gen), x1)"
    and accept: "check_snapshot L (agent_sees (writeJSON 200 (BKeysText body dg gen))) = Inr (body, gen, dg)"
      "install_snapshot L io cfg path body gen dg (last t0) = (None, t1)"
    and ack: "verifyDevice s c (t (ack_http L cfg pk identity ep (sy_ack_now io) gen dg) 0) (id_Serial identity) ep (id_HostKeyFingerprint identity) (sy_ack_now io)
        (Sign (gl_ed L) pk (ack_payload cfg identity ep (sy_ack_now io) gen dg)) (ack_payload cfg identity ep (sy_ack_now io) gen dg) x1 = Inr d'"
      "AcknowledgeAuthorizedKeys c (ti_ok (t (ack_http L cfg pk identity ep (sy_ack_now io) gen dg) 1)) (ti_now (t (ack_http L cfg pk identity ep (sy_ack_now io) gen dg) 1))
        (d_HostID d') (cf_SSHUser cfg) (sint (word_of_int gen :: int64)) dg x1 = (Inr (), x2)"
  shows "syncAuthorizedKeys L (server_api s c unescape (cf_APIURL cfg) cl t) io cfg path w = (None, t0 @ t1, w1\<lparr>aw_api := x2, aw_fs := last t1\<rparr>)"
proof -
  have w1: "aw_api w1 = aw_api w" "aw_fs w1 = last t0" using loadDevice_frame [OF start(4)] by simp_all
  have f: "fetch_keys L (server_api s c unescape (cf_APIURL cfg) cl t) (sy_now io) cfg pk identity ep (aw_api w) =
      (Inr (agent_sees (writeJSON 200 (BKeysText body dg gen))), x1)"
    using fetch_eq [where t = t, OF esc keys_handled [OF fetch [unfolded q1_def]]] by (simp add: writeJSON_def)
  have a: "acknowledge_keys L (server_api s c unescape (cf_APIURL cfg) cl t) (sy_ack_now io) cfg pk identity ep gen dg x1 = (None, x2)"
    using ack_eq [where t = t, OF ack_handled [OF ack]] by (simp add: writeJSON_def)
  show ?thesis using start f a accept w1 by (simp add: syncAuthorizedKeys_def)
qed

end
