(* ===== verification/Agent_Supervise.thy ===== *)
theory Agent_Supervise
  imports Agent_Sync
begin

section \<open>The agent: the supervisor (cmd/ternal-agent/main.go)\<close>

text \<open>
  The supervisor starts the transport as a child process, synchronizes with the control plane at every tick
  and starts the child again when it exits.  Its state is the point it has reached, whether a child is
  running (started and not yet waited for), the signals sent to children, the last status it tried to write and the agent's world; the select statements become the
  alternatives of a step relation.
\<close>

datatype child_signal = Interrupt | Kill

datatype sup_point = Launch | Select | Backoff | Return "agent_error option"

record 'x supervisor =
  sv_point :: sup_point
  sv_children :: nat
  sv_signals :: "child_signal list"
  sv_status :: "runtimeStatus option"
  sv_world :: "'x agent_world"

text \<open>The outcomes of one round with the control plane.\<close>

record round_io =
  rd_helper :: helper_run
  rd_now :: int64
  rd_sync :: sync_io
  rd_status :: io_script
  rd_at :: int

definition put_status :: "agent_lib \<Rightarrow> io_script \<Rightarrow> agent_config \<Rightarrow> runtimeStatus \<Rightarrow> 'x supervisor \<Rightarrow> 'x supervisor" where
  "put_status L io cfg status s =
     s\<lparr>sv_status := Some status,
       sv_world := (sv_world s)\<lparr>aw_fs := last (snd (writeStatus L io (cf_StatusFile cfg) status (aw_fs (sv_world s))))\<rparr>\<rparr>"

definition revoked_status :: "string \<Rightarrow> int \<Rightarrow> runtimeStatus" where
  "revoked_status endpointID at =
     \<lparr>rst_Service = ''revoked'', rst_EndpointID = endpointID, rst_Child = ''stopped'', rst_LastError = ''device authorization revoked'', rst_UpdatedAt = at\<rparr>"

text \<open>\<^verbatim>\<open>stopChild\<close> interrupts the child, kills it after the grace period if it is still there, and returns only when
  the child has exited: \<open>exits\<close> says whether the interrupt was enough.\<close>

definition stopChild :: "bool \<Rightarrow> 'x supervisor \<Rightarrow> 'x supervisor" where
  "stopChild exits s =
     s\<lparr>sv_signals := sv_signals s @ Interrupt # (if exits then [] else [Kill]), sv_children := sv_children s - 1\<rparr>"

definition sync_round ::
    "agent_lib \<Rightarrow> 'x api \<Rightarrow> agent_os \<Rightarrow> round_io \<Rightarrow> agent_config \<Rightarrow> 'x supervisor \<Rightarrow> agent_error option \<times> 'x supervisor" where
  "sync_round L api os rd cfg s =
     (case syncControlPlane L api os (rd_helper rd) (rd_now rd) (rd_sync rd) cfg ''healthy'' (sv_world s) of
        (e, t, w) \<Rightarrow> (e, s\<lparr>sv_world := w\<rparr>))"

text \<open>An unauthorized answer stops the child and returns.\<close>

definition revoke :: "agent_lib \<Rightarrow> round_io \<Rightarrow> bool \<Rightarrow> agent_config \<Rightarrow> string \<Rightarrow> agent_error option \<Rightarrow> 'x supervisor \<Rightarrow> 'x supervisor" where
  "revoke L rd exits cfg endpointID e s =
     (put_status L (rd_status rd) cfg (revoked_status endpointID (rd_at rd)) (stopChild exits s))\<lparr>sv_point := Return e\<rparr>"

text \<open>Up to the first launch.\<close>

definition supervise_start ::
    "agent_lib \<Rightarrow> 'x api \<Rightarrow> agent_os \<Rightarrow> round_io \<Rightarrow> agent_config \<Rightarrow> 'x agent_world \<Rightarrow> (agent_error + string) \<times> 'x supervisor" where
  "supervise_start L api os rd cfg w =
     (case roostEndpointID (rd_helper rd) cfg (aw_cache w) of
        (Inl e, cache) \<Rightarrow> (Inl e, \<lparr>sv_point = Return (Some e), sv_children = 0, sv_signals = [], sv_status = None, sv_world = w\<lparr>aw_cache := cache\<rparr>\<rparr>)
      | (Inr endpointID, cache) \<Rightarrow>
          (case heartbeat L api os (rd_helper rd) (rd_now rd) cfg ''starting'' (w\<lparr>aw_cache := cache\<rparr>) of
             (e, w1) \<Rightarrow>
               let s = \<lparr>sv_point = Launch, sv_children = 0, sv_signals = [], sv_status = None, sv_world = w1\<rparr> in
               if isUnauthorized e then
                 (Inr endpointID, (put_status L (rd_status rd) cfg (revoked_status endpointID (rd_at rd)) s)\<lparr>sv_point := Return e\<rparr>)
               else (Inr endpointID, s)))"

inductive supervise_step ::
    "agent_lib \<Rightarrow> 'x api \<Rightarrow> agent_os \<Rightarrow> agent_config \<Rightarrow> string \<Rightarrow> 'x supervisor \<Rightarrow> 'x supervisor \<Rightarrow> bool"
  for L api os cfg endpointID where
  start_fails: "sv_point s = Launch \<Longrightarrow> supervise_step L api os cfg endpointID s (s\<lparr>sv_point := Return (Some AOS)\<rparr>)"
| launch_revoked: "sv_point s = Launch \<Longrightarrow>
    s1 = put_status L io cfg \<lparr>rst_Service = ''starting'', rst_EndpointID = endpointID, rst_Child = ''running'', rst_LastError = '''', rst_UpdatedAt = at\<rparr>
           (s\<lparr>sv_children := Suc (sv_children s)\<rparr>) \<Longrightarrow>
    sync_round L api os rd cfg s1 = (e, s2) \<Longrightarrow> isUnauthorized e \<Longrightarrow>
    supervise_step L api os cfg endpointID s (revoke L rd exits cfg endpointID e s2)"
| launch: "sv_point s = Launch \<Longrightarrow>
    s1 = put_status L io cfg \<lparr>rst_Service = ''starting'', rst_EndpointID = endpointID, rst_Child = ''running'', rst_LastError = '''', rst_UpdatedAt = at\<rparr>
           (s\<lparr>sv_children := Suc (sv_children s)\<rparr>) \<Longrightarrow>
    sync_round L api os rd cfg s1 = (e, s2) \<Longrightarrow> \<not> isUnauthorized e \<Longrightarrow>
    supervise_step L api os cfg endpointID s (s2\<lparr>sv_point := Select\<rparr>)"
| shutdown: "sv_point s = Select \<Longrightarrow>
    supervise_step L api os cfg endpointID s
      ((put_status L io cfg \<lparr>rst_Service = ''stopped'', rst_EndpointID = endpointID, rst_Child = ''stopped'', rst_LastError = '''', rst_UpdatedAt = at\<rparr>
          (stopChild exits s))\<lparr>sv_point := Return None\<rparr>)"
| child_exit: "sv_point s = Select \<Longrightarrow>
    supervise_step L api os cfg endpointID s
      ((put_status L io cfg \<lparr>rst_Service = ''degraded'', rst_EndpointID = endpointID, rst_Child = ''exited'', rst_LastError = exitLabel failed, rst_UpdatedAt = at\<rparr>
          (s\<lparr>sv_children := sv_children s - 1\<rparr>))\<lparr>sv_point := Backoff\<rparr>)"
| backoff_shutdown: "sv_point s = Backoff \<Longrightarrow> supervise_step L api os cfg endpointID s (s\<lparr>sv_point := Return None\<rparr>)"
| backoff_over: "sv_point s = Backoff \<Longrightarrow> supervise_step L api os cfg endpointID s (s\<lparr>sv_point := Launch\<rparr>)"
| tick_revoked: "sv_point s = Select \<Longrightarrow> sync_round L api os rd cfg s = (e, s1) \<Longrightarrow> isUnauthorized e \<Longrightarrow>
    supervise_step L api os cfg endpointID s (revoke L rd exits cfg endpointID e s1)"
| tick: "sv_point s = Select \<Longrightarrow> sync_round L api os rd cfg s = (e, s1) \<Longrightarrow> \<not> isUnauthorized e \<Longrightarrow>
    supervise_step L api os cfg endpointID s
      (put_status L (rd_status rd) cfg
         \<lparr>rst_Service = (if e = None then ''healthy'' else ''degraded''), rst_EndpointID = endpointID, rst_Child = ''running'',
          rst_LastError = (if e = None then '''' else ''control-plane synchronization failed''), rst_UpdatedAt = rd_at rd\<rparr> s1)"

inductive_cases stepE: "supervise_step L api os cfg endpointID s s'"

subsection \<open>The command line\<close>

datatype agent_command = CKeygen string | CEnroll string string | CHeartbeat | CSync string | CRun | CStatus

definition command :: "agent_config \<Rightarrow> string list \<Rightarrow> agent_error + agent_command" where
  "command cfg args =
     (if hd args = ''device-keygen'' then
        (if length args = 2 then Inr (CKeygen (args ! 1)) else if length args \<noteq> 1 then Inl AUsage else Inr (CKeygen (cf_DeviceKey cfg)))
      else if hd args = ''enroll'' then
        (if length args \<noteq> 2 \<and> length args \<noteq> 3 then Inl AUsage
         else Inr (CEnroll (args ! 1) (if length args = 3 then args ! 2 else '''')))
      else if hd args = ''heartbeat'' then Inr CHeartbeat
      else if hd args = ''sync-authorized-keys'' then
        (if length args = 2 then Inr (CSync (args ! 1)) else if length args \<noteq> 1 then Inl AUsage else Inr (CSync (cf_AuthorizedKeysPath cfg)))
      else if hd args = ''run'' then Inr CRun
      else if hd args = ''status'' then Inr CStatus
      else Inl AUnknownCommand)"

definition run_config :: "agent_os \<Rightarrow> string list \<Rightarrow> agent_error + agent_config \<times> agent_command" where
  "run_config os args =
     (if args = [] then Inl AUsage
      else case loadConfig os of
        Inl e \<Rightarrow> Inl e
      | Inr cfg \<Rightarrow> (case command cfg args of Inl e \<Rightarrow> Inl e | Inr c \<Rightarrow> Inr (cfg, c)))"

text \<open>The commands other than \<^verbatim>\<open>run\<close>; \<^verbatim>\<open>status\<close> only prints a file.\<close>

record run_io =
  ri_key :: io_script
  ri_lstat :: bool
  ri_keypair :: "(string \<times> string) option"
  ri_token :: bool
  ri_helper :: helper_run
  ri_identity :: io_script
  ri_now :: int64
  ri_sync :: sync_io
  ri_status :: bool

definition run_once ::
    "agent_lib \<Rightarrow> 'x api \<Rightarrow> agent_os \<Rightarrow> run_io \<Rightarrow> agent_config \<Rightarrow> agent_command \<Rightarrow> 'x agent_world \<Rightarrow> agent_error option \<times> 'x agent_world" where
  "run_once L api os ri cfg c w =
     (case c of
        CKeygen path \<Rightarrow>
          (case GenerateKey (ri_key ri) (ri_lstat ri) (ri_keypair ri) path (aw_fs w) of
             (Inl e, f) \<Rightarrow> (Some (ADevice e), w\<lparr>aw_fs := f\<rparr>)
           | (Inr public, f) \<Rightarrow> (None, w\<lparr>aw_fs := f\<rparr>))
      | CEnroll fingerprint serial \<Rightarrow>
          (case readEnrollmentToken os (ri_token ri) (cf_ManufacturingTokenFile cfg) (aw_fs w) of
             Inl e \<Rightarrow> (Some e, w)
           | Inr tok \<Rightarrow>
               (case enroll L api (ri_helper ri) (ri_identity ri) cfg serial tok fingerprint w of
                  (Inl e, w') \<Rightarrow> (Some e, w') | (Inr response, w') \<Rightarrow> (None, w')))
      | CHeartbeat \<Rightarrow> heartbeat L api os (ri_helper ri) (ri_now ri) cfg ''healthy'' w
      | CSync path \<Rightarrow> (case syncAuthorizedKeys L api (ri_sync ri) cfg path w of (r, t, w') \<Rightarrow> (r, w'))
      | CRun \<Rightarrow> (None, w)
      | CStatus \<Rightarrow> (if aw_fs w (cf_StatusFile cfg) = None \<or> \<not> ri_status ri then Some AOS else None, w))"

subsection \<open>Children and revocation\<close>

definition sup_ok :: "'x supervisor \<Rightarrow> bool" where
  "sup_ok s \<longleftrightarrow> sv_children s = (if sv_point s = Select then 1 else 0) \<and>
     (\<forall>e. sv_point s = Return e \<longrightarrow> isUnauthorized e \<longrightarrow> (\<exists>st. sv_status s = Some st \<and> rst_Service st = ''revoked''))"

lemma put_status_simps [simp]: "sv_point (put_status L io cfg st s) = sv_point s" "sv_children (put_status L io cfg st s) = sv_children s"
  "sv_status (put_status L io cfg st s) = Some st"
  by (simp_all add: put_status_def)

lemma sync_round_frame: "sync_round L api os rd cfg s = (e, s') \<Longrightarrow> sv_point s' = sv_point s \<and> sv_children s' = sv_children s \<and> sv_status s' = sv_status s"
  by (auto simp: sync_round_def split: prod.splits)

lemma revoke_simps [simp]: "sv_point (revoke L rd exits cfg ep e s) = Return e" "sv_children (revoke L rd exits cfg ep e s) = sv_children s - 1"
  "sv_status (revoke L rd exits cfg ep e s) = Some (revoked_status ep (rd_at rd))"
  by (simp_all add: revoke_def stopChild_def)

lemma start_ok: "supervise_start L api os rd cfg w = (r, s) \<Longrightarrow> (\<exists>e. r = Inl e \<and> e \<noteq> AStatus 401) \<or> sup_ok s"
  by (auto simp: supervise_start_def sup_ok_def Let_def roostEndpointID_def isUnauthorized_def revoked_status_def split: prod.splits sum.splits if_splits option.splits)

lemma step_ok: "supervise_step L api os cfg ep s s' \<Longrightarrow> sup_ok s \<Longrightarrow> sup_ok s'"
  by (induction rule: supervise_step.induct)
    (auto simp: sup_ok_def stopChild_def isUnauthorized_def revoked_status_def dest!: sync_round_frame)

lemma steps_ok: "(supervise_step L api os cfg ep)\<^sup>*\<^sup>* s s' \<Longrightarrow> sup_ok s \<Longrightarrow> sup_ok s'"
  by (induction rule: rtranclp_induct) (auto intro: step_ok)

text \<open>An unauthorized answer to the heartbeat or to the key fetch is never masked by the other outcome.\<close>

lemma control_unauthorized:
  assumes "heartbeat L api os he now cfg status w = (he_err, w1)"
    and "cf_AuthorizedKeysPath cfg \<noteq> '''' \<Longrightarrow> syncAuthorizedKeys L api io cfg (cf_AuthorizedKeysPath cfg) w1 = (sy_err, t, w2)"
    and "syncControlPlane L api os he now io cfg status w = (e, t', w')"
  shows "isUnauthorized e \<longleftrightarrow> isUnauthorized he_err \<or> (cf_AuthorizedKeysPath cfg \<noteq> '''' \<and> isUnauthorized sy_err)"
  using assms by (auto simp: syncControlPlane_def isUnauthorized_def split: if_splits)

end
