(* ===== verification/Agent_Properties.thy ===== *)
theory Agent_Properties
  imports Agent_Machine Agent_Supervise Api_Properties
begin

section \<open>The agent and the server together\<close>

text \<open>
  What the key files of a device can become under any server and any crash, that the agent accepts what
  the server renders and the server accepts what the agent signs, what a grant that the server marks as
  installed says about the device's key file, and the supervisor's handling of its child.
\<close>

subsection \<open>Any server, any crash\<close>

text \<open>One synchronization with an arbitrary API server, cut at any of the states it goes through.\<close>

inductive agent_run :: "agent_lib \<Rightarrow> agent_config \<Rightarrow> string \<Rightarrow> fs \<Rightarrow> fs \<Rightarrow> bool" for L cfg path where
  run: "syncAuthorizedKeys L (api :: unit api) io cfg path w = (r, trace, w') \<Longrightarrow> temps_ok io path \<Longrightarrow> aw_fs w = f \<Longrightarrow> g \<in> set trace \<Longrightarrow>
    agent_run L cfg path f g"

definition keys_kept :: "agent_lib \<Rightarrow> string \<Rightarrow> fs \<Rightarrow> fs \<Rightarrow> bool" where
  "keys_kept L path f g \<longleftrightarrow> newer (recorded L path f) (recorded L path g) \<and> (g path = f path \<or> file_expiring (g path))"

lemma keys_kept_refl [simp]: "keys_kept L path f f" by (simp add: keys_kept_def)

lemma keys_kept_trans: "keys_kept L path f g \<Longrightarrow> keys_kept L path g h \<Longrightarrow> keys_kept L path f h"
  unfolding keys_kept_def using newer_trans by metis

lemma purge_kept:
  assumes "purgeLegacyAuthorizedKeys readable io path f = (r, trace)" "temp_avoids io {path, statePath path}" "g \<in> set trace"
  shows "keys_kept L path f g"
  using purge_spec [OF assms(1,2)] assms(3) recorded_cong [of g path f L] by (auto simp: keys_kept_def)

lemma install_kept:
  assumes "install_snapshot L io cfg path body generation digest f = (r, trace)" "temps_ok io path" "lib_ok L"
    and "check_snapshot L response = Inr (body, generation, digest)" "g \<in> set trace"
  shows "keys_kept L path f g"
proof -
  have c: "expiring body" "0 \<le> generation" "generation < 2 ^ 63" "hex_digest digest"
    using check_spec [OF assms(4)] validated_expiring assms(3) by (auto simp: lib_ok_def)
  show ?thesis using install_spec [OF assms(1-3) c] assms(5) c(1) by (auto simp: keys_kept_def file_expiring_def)
qed

lemma sync_kept:
  assumes "syncAuthorizedKeys L api io cfg path w = (r, trace, w')" "temps_ok io path" "lib_ok L" "g \<in> set trace"
  shows "keys_kept L path (aw_fs w) g"
  using assms(1,2)
proof (cases rule: sync_cases)
  case unchanged
  then show ?thesis using assms(4) by simp
next
  case (purge_failed p t0)
  then show ?thesis using purge_kept [where L = L] assms(2,4) unfolding temps_ok_def by blast
next
  case (no_install p t0)
  then show ?thesis using purge_kept [where L = L] assms(2,4) unfolding temps_ok_def by blast
next
  case (install p t0 t1 body generation digest q response req)
  have pk: "h \<in> set t0 \<Longrightarrow> keys_kept L path (aw_fs w) h" for h
    using purge_kept [OF install(2), where L = L] assms(2) unfolding temps_ok_def by blast
  have "t0 \<noteq> []" using purge_spec [OF install(2)] assms(2) by (simp add: temps_ok_def)
  then have last: "keys_kept L path (aw_fs w) (last t0)" using pk by simp
  have "g \<in> set t0 \<or> g \<in> set t1" using assms(4) install(5) by simp
  then show ?thesis using pk install_kept [OF install(4) assms(2,3) install(3)] keys_kept_trans [OF last] by blast
qed

text \<open>C11. The device's key files under any server and any crash.  However often the agent synchronizes, whatever
  the server answers, whichever system calls fail and wherever a crash cuts a synchronization: the
  recorded generation never falls and a recorded generation never changes its digest, and the key file
  is untouched or carries an expiry time on every line.  The hypotheses are that the state file's JSON
  reads back and that hexadecimal SHA-256 has 64 digits.\<close>

theorem agent_keys_invariant:
  assumes "lib_ok L" "(agent_run L cfg path)\<^sup>*\<^sup>* f g"
  shows "newer (recorded L path f) (recorded L path g) \<and> (g path = f path \<or> file_expiring (g path))"
proof -
  have "keys_kept L path f g"
    using assms(2)
  proof (induction rule: rtranclp_induct)
    case (step g h)
    from step(2) have "keys_kept L path g h" by (cases rule: agent_run.cases) (use sync_kept assms(1) in blast)
    then show ?case using keys_kept_trans step.IH by blast
  qed simp
  then show ?thesis by (simp add: keys_kept_def)
qed

subsection \<open>The supervisor\<close>

text \<open>C30. The transport runs only under supervision.  From the first launch on, there is exactly one child
  while the supervisor waits for events and none otherwise, so none after it has returned; and when it
  has returned because the control plane refused the device, the last status it wrote is revoked.
  An unauthorized answer to the heartbeat or to the key fetch is never masked by the other's outcome.\<close>

theorem supervise_safe:
  assumes "supervise_start L api os rd cfg w = (Inr endpointID, s0)" "(supervise_step L api os cfg endpointID)\<^sup>*\<^sup>* s0 s"
  shows "sv_children s = (if sv_point s = Select then 1 else 0) \<and>
    (\<forall>e. sv_point s = Return e \<and> isUnauthorized e \<longrightarrow> (\<exists>st. sv_status s = Some st \<and> rst_Service st = ''revoked'')) \<and>
    (\<forall>he now io he_err w1 sy_err t w2 e t' w'. heartbeat L api os he now cfg ''healthy'' (sv_world s) = (he_err, w1) \<and>
       syncAuthorizedKeys L api io cfg (cf_AuthorizedKeysPath cfg) w1 = (sy_err, t, w2) \<and>
       syncControlPlane L api os he now io cfg ''healthy'' (sv_world s) = (e, t', w') \<longrightarrow>
       (isUnauthorized e \<longleftrightarrow> isUnauthorized he_err \<or> cf_AuthorizedKeysPath cfg \<noteq> '''' \<and> isUnauthorized sy_err))"
proof -
  have "sup_ok s0" using start_ok [OF assms(1)] by auto
  then have "sup_ok s" using steps_ok assms(2) by blast
  then show ?thesis by (auto simp: sup_ok_def control_unauthorized)
qed

end
