(* ===== verification/Agent_Witness.thy ===== *)
theory Agent_Witness
  imports Agent_Server Agent_Properties Api_Witness
begin

section \<open>A sample run of the agent\<close>

text \<open>
  The agent of the enrolled sample device synchronizes with the sample service: a user holds a live
  grant, the agent fetches and installs the key, and the server marks the grant as installed.  A second
  run meets a server that answers nothing.
\<close>

definition sample_sha :: "string \<Rightarrow> string" where
  "sample_sha s = (if even (length s) then CHR ''a'' else CHR ''b'') # replicate 63 CHR ''0''"

definition sample_lib :: agent_lib where
  "sample_lib = \<lparr>gl_ed = sample_ed, gl_sha256_hex = sample_sha, gl_query_escape = (\<lambda>s. s), gl_parse_key = (\<lambda>_. Some ''''),
     gl_marshal_discovery = (\<lambda>_. ''{}''), gl_marshal_identity = (\<lambda>_. None),
     gl_unmarshal_identity = (\<lambda>_. Some \<lparr>id_Serial = ''edge-1'', id_HostKeyFingerprint = sample_fingerprint\<rparr>),
     gl_marshal_state = (\<lambda>st. FormatInt (aks_Generation st) @ CHR '':'' # aks_SHA256 st),
     gl_unmarshal_state = (\<lambda>s. case Cut s (CHR '':'') of None \<Rightarrow> None
        | Some (g, r) \<Rightarrow> map_option (\<lambda>n. \<lparr>aks_Generation = n, aks_SHA256 = butlast r\<rparr>) (ParseInt g 64)),
     gl_marshal_status = (\<lambda>_. ''''), gl_decode_enrollment = (\<lambda>_. None)\<rparr>"

lemma sample_lib_ok: "lib_ok sample_lib"
proof -
  have hex: "hex_digest (sample_sha s)" for s
    by (simp add: hex_digest_def sample_sha_def is_hex_digit_def is_digit_def list_all_iff)
  have "CHR '':'' \<notin> set (FormatInt g)" if "0 \<le> g" for g
    using that parse_digits_all [of 0 "FormatUint (nat g)" "nat g"] by (auto simp: FormatInt_def parse_digits_FormatUint is_digit_def)
  then have "gl_unmarshal_state sample_lib (gl_marshal_state sample_lib st @ [newline]) = Some st"
    if "0 \<le> aks_Generation st" "aks_Generation st < 2 ^ 63" for st
    using that Cut_append [of "CHR '':''" "FormatInt (aks_Generation st)" "aks_SHA256 st @ [newline]"]
    by (simp add: sample_lib_def ParseInt_FormatInt)
  then show ?thesis using hex by (auto simp: lib_ok_def) (simp add: sample_lib_def)
qed

definition sample_cfg :: agent_config where
  "sample_cfg = \<lparr>cf_APIURL = ''https://t'', cf_Pigeons = ''/p'', cf_DeviceKey = ''/d'', cf_IdentityFile = ''/i'', cf_AuthorizedKeysPath = ''/k'',
     cf_SSHUser = ''root'', cf_SSHPort = 22, cf_RelayURLs = None, cf_ExtraRelayURLs = None, cf_HeartbeatEvery = 30, cf_RestartBackoff = 5,
     cf_StatusFile = ''/s'', cf_ManufacturingTokenFile = ''''\<rparr>"

definition io_fine :: io_script where
  "io_fine = \<lparr>io_mkdir = True, io_temp = Some ''/t'', io_chmod = True, io_written = 1000, io_sync = True, io_close = True, io_rename = True,
     io_remove = True, io_fsync_dir = True\<rparr>"

definition own_fine :: own_io where
  "own_fine = \<lparr>ow_euid = 1000, ow_lookup = None, ow_chown = True, ow_dir_root = False, ow_chown_dir = True, ow_owned = True\<rparr>"

definition helper_fine :: helper_run where
  "helper_fine = \<lparr>he_temp = True, he_run = True, he_close = True, he_read = True, he_output = sample_endpoint\<rparr>"

definition sync_fine :: sync_io where
  "sync_fine = \<lparr>sy_lock = True, sy_read = True, sy_purge = io_fine, sy_helper = helper_fine, sy_now = 500, sy_read_state = True, sy_keys = io_fine,
     sy_keys_own = own_fine, sy_state = io_fine, sy_state_own = own_fine, sy_ack_now = 501\<rparr>"

definition granted :: world where
  "granted = world0\<lparr>wo_tables := ready_tables\<lparr>access_grants := [\<lparr>ag_ID = ''g1'', ag_RequestID = ''r1'', ag_UserID = ''bob'', ag_HostID = ''host1'',
      ag_SSHUser = ''root'', ag_ExpiresAt = 900, ag_EphemeralKey = '''', ag_KeyInstalled = False, ag_CreatedAt = 200\<rparr>]\<rparr>\<rparr>"

definition sample_files :: fs where
  "sample_files = [''/d'' \<mapsto> \<lparr>fl_data = b64_encode StdEncoding sample_private, fl_mode = mode_0600\<rparr>, ''/i'' \<mapsto> \<lparr>fl_data = ''identity'', fl_mode = mode_0600\<rparr>]"

definition sample_agent_world :: "world agent_world" where
  "sample_agent_world = \<lparr>aw_fs = sample_files, aw_cache = [''/p'' \<mapsto> sample_endpoint], aw_api = granted\<rparr>"

definition agent_server :: server where
  "agent_server = sample_server\<lparr>sv_hash := sample_sha\<rparr>"

definition sample_sync :: "agent_error option \<times> fs list \<times> world agent_world" where
  "sample_sync = syncAuthorizedKeys sample_lib (server_api agent_server sample_conn (\<lambda>s. s) ''https://t'' (\<lambda>_. sample_clock) (\<lambda>_. sample_ticks ''5''))
     sync_fine sample_cfg ''/k'' sample_agent_world"


lemma sample_ed_correct: "ed_correct sample_ed sample_private"
  by (auto simp: ed_correct_def sample_ed_def sample_private_def)

definition sample_identity :: Identity where
  "sample_identity = \<lparr>id_Serial = ''edge-1'', id_HostKeyFingerprint = sample_fingerprint\<rparr>"

abbreviation sample_row :: Device where
  "sample_row \<equiv> enroll_device_row 101 ''dev1'' ''host1'' sample_endpoint sample_fingerprint (PublicKey sample_ed sample_private) ''edge-1'' ''m''"

definition keys_published :: "(string \<times> string \<times> int, world) outcome" where
  "keys_published = PublishAuthorizedKeysSnapshot sample_conn sample_sha True 502 502 ''host1'' ''root'' granted"

definition sample_dg :: string where "sample_dg = CHR ''b'' # replicate 63 CHR ''0''"

lemma published_generation: "(case fst keys_published of Inr (body, dg, g) \<Rightarrow> g = 1 \<and> dg = sample_dg \<and> length body \<le> 1000 | Inl _ \<Rightarrow> False)" by code_simp

lemma reads_granted: "(case fst (GetDeviceBySerial sample_conn True ''edge-1'' granted) of Inr (Some _) \<Rightarrow> True | _ \<Rightarrow> False)" by code_simp

lemma reads_published: "(case fst (GetDeviceBySerial sample_conn True ''edge-1'' (snd keys_published)) of Inr (Some _) \<Rightarrow> True | _ \<Rightarrow> False)" by code_simp

definition acked :: "(unit, world) outcome" where
  "acked = AcknowledgeAuthorizedKeys sample_conn True 502 ''host1'' ''root'' 1 sample_dg (snd keys_published)"

lemma acked_grants: "fst acked = Inr () \<and> map (\<lambda>g. (ag_KeyInstalled g, ag_UserID g)) (access_grants (wo_tables (snd acked))) = [(True, ''bob'')]" by code_simp


lemma keys_published_eq: "\<exists>body. keys_published = (Inr (body, sample_dg, 1), snd keys_published) \<and> length body \<le> 1000"
proof (cases "fst keys_published")
  case (Inr b)
  then show ?thesis using published_generation by (cases b) (auto simp: prod_eq_iff)
qed (use published_generation in simp)

lemma sample_verifies:
  assumes "(case fst (GetDeviceBySerial sample_conn True ''edge-1'' x) of Inr (Some _) \<Rightarrow> True | _ \<Rightarrow> False)" "devices (wo_tables x) = [sample_row]" "Fresh ts 502"
  shows "verifyDevice agent_server sample_conn (sample_ticks ''5'' 0) ''edge-1'' sample_endpoint sample_fingerprint ts (Sign sample_ed sample_private p) p x = Inr sample_row"
proof -
  obtain d where d: "fst (GetDeviceBySerial sample_conn True ''edge-1'' x) = Inr (Some d)"
    using assms(1) by (auto split: sum.splits option.splits)
  then have "d = sample_row" using GetDeviceBySerial_Inr [OF sample_contract d] assms(2) by simp
  then show ?thesis using signed_verifies [of sample_conn "sample_ticks ''5'' 0" "''edge-1''" x sample_row sample_endpoint sample_fingerprint agent_server sample_private ts p] d assms(3) sample_ed_correct
    by (simp add: sample_ticks_def enroll_device_row_def agent_server_def sample_server_def)
qed

lemma granted_devices: "devices (wo_tables granted) = [sample_row]"
  by (simp add: granted_def ready_tables_def)

lemma published_devices: "devices (wo_tables (snd keys_published)) = [sample_row]"
proof -
  obtain body where "keys_published = (Inr (body, sample_dg, 1), snd keys_published)" using keys_published_eq by blast
  then have "registry (wo_tables (snd keys_published)) = registry (wo_tables granted)"
    using publish_frame [OF sample_contract] unfolding keys_published_def by metis
  then show ?thesis by (simp add: registry_def granted_devices)
qed

lemma sample_load: "loadDevice sample_lib helper_fine sample_cfg sample_agent_world = (Inr (sample_private, sample_identity, sample_endpoint), sample_agent_world)"
  by (simp add: loadDevice_def LoadPrivate_def ReadIdentity_def sample_agent_world_def sample_files_def sample_cfg_def sample_lib_def roostEndpointID_def
      sample_private_def sample_identity_def sample_fingerprint_def)

lemma sample_fresh: "Fresh 500 502" "Fresh 501 502"
  by code_simp+

lemma sample_entries: "key_entries (live_key_rows ''host1'' ''root'' 502 (wo_tables granted)) = [\<lparr>ak_Key = ''ssh-ed25519 AAAA'', ak_ExpiresAt = 900\<rparr>]"
  by code_simp

lemma sample_installable: "installable (gl_parse_key sample_lib) \<lparr>ak_Key = ''ssh-ed25519 AAAA'', ak_ExpiresAt = 900\<rparr>"
  by code_simp


definition sample_t1 :: "string \<Rightarrow> fs list" where
  "sample_t1 body = snd (install_snapshot sample_lib sync_fine sample_cfg ''/k'' body 1 sample_dg sample_files)"

lemma FormatUint_one: "FormatUint (Suc 0) = ''1''" by code_simp

lemma sample_install: "length body \<le> 1000 \<Longrightarrow> install_snapshot sample_lib sync_fine sample_cfg ''/k'' body 1 sample_dg sample_files = (None, sample_t1 body)"
  by (simp add: sample_t1_def install_snapshot_def readAuthorizedKeysState_def statePath_def sample_files_def sync_fine_def rollback_def AtomicWriteFile_def
      io_fine_def ensureUserOwned_def own_fine_def sample_lib_def sample_dg_def FormatInt_def FormatUint_one Let_def)

definition sample_after :: "string \<Rightarrow> world agent_world" where
  "sample_after body = sample_agent_world\<lparr>aw_api := snd acked, aw_fs := last (sample_t1 body)\<rparr>"

lemma sample_sync:
  "\<exists>body. syncAuthorizedKeys sample_lib (server_api agent_server sample_conn (\<lambda>s. s) (cf_APIURL sample_cfg) (\<lambda>_. sample_clock) (\<lambda>_. sample_ticks ''5''))
     sync_fine sample_cfg ''/k'' sample_agent_world = (None, sample_files # sample_t1 body, sample_after body)"
proof -
  obtain body where k: "keys_published = (Inr (body, sample_dg, 1), snd keys_published)" and len: "length body \<le> 1000" using keys_published_eq by blast
  have sha: "gl_sha256_hex sample_lib = sample_sha" by (simp add: sample_lib_def)
  have "PublishAuthorizedKeysSnapshot sample_conn (gl_sha256_hex sample_lib) True 502 502 ''host1'' ''root'' granted = (Inr (body, sample_dg, 1), snd keys_published)"
    using k by (simp add: keys_published_def sha)
  then have acc: "check_snapshot sample_lib (agent_sees (writeJSON 200 (BKeysText body sample_dg 1))) = Inr (body, 1, sample_dg)"
    using snapshot_accepted [OF sample_contract] sample_entries sample_installable by (simp add: list_all_iff)
  have purge: "purgeLegacyAuthorizedKeys (sy_read sync_fine) (sy_purge sync_fine) ''/k'' (aw_fs sample_agent_world) = (Inr False, [sample_files])"
    by (simp add: purgeLegacyAuthorizedKeys_def sync_fine_def sample_agent_world_def sample_files_def)
  have load: "loadDevice sample_lib (sy_helper sync_fine) sample_cfg (sample_agent_world\<lparr>aw_fs := last [sample_files]\<rparr>) =
      (Inr (sample_private, sample_identity, sample_endpoint), sample_agent_world)"
    using sample_load by (simp add: sync_fine_def sample_agent_world_def)
  have ack: "AcknowledgeAuthorizedKeys sample_conn True 502 ''host1'' ''root'' 1 sample_dg (snd keys_published) = (Inr (), snd acked)"
    using acked_grants by (simp add: acked_def prod_eq_iff)
  show ?thesis
    using sync_completes [where unescape = "\<lambda>s. s" and L = sample_lib and path = "''/k''" and io = sync_fine and t = "\<lambda>_. sample_ticks ''5''" and cfg = sample_cfg
        and w = sample_agent_world and s = agent_server and c = sample_conn and body = body and cl = "\<lambda>_. sample_clock" and d = sample_row and d' = sample_row
        and ?x1.0 = "snd keys_published" and gen = 1 and dg = sample_dg and ?t1.0 = "sample_t1 body", OF _ _ _ purge load]
      sample_verifies [OF reads_granted granted_devices sample_fresh(1)] sample_verifies [OF reads_published published_devices sample_fresh(2)]
      k acc sample_install [OF len] ack
    by (intro exI [of _ body]) (simp add: sample_lib_def sync_fine_def sample_identity_def sample_ticks_def keys_published_def agent_server_def enroll_device_row_def sample_agent_world_def
        sample_cfg_def sample_after_def)
qed


subsection \<open>The theorems at work\<close>

lemma granted_grants: "access_grants (wo_tables granted) = [\<lparr>ag_ID = ''g1'', ag_RequestID = ''r1'', ag_UserID = ''bob'', ag_HostID = ''host1'',
      ag_SSHUser = ''root'', ag_ExpiresAt = 900, ag_EphemeralKey = '''', ag_KeyInstalled = False, ag_CreatedAt = 200\<rparr>]"
  by (simp add: granted_def)

lemma granted_ok: "db_ok (wo_tables granted)" by code_simp

lemma sample_temps: "temps_ok sync_fine ''/k''"
  by (simp add: temps_ok_def temp_avoids_def sync_fine_def io_fine_def statePath_def)

lemma granted_keys: "ssh_keys (wo_tables granted) = [\<lparr>k_ID = ''k1'', k_UserID = ''bob'', k_PublicKey = ''ssh-ed25519 AAAA'', k_Fingerprint = ''fp'', k_CreatedAt = 100\<rparr>]"
  by (simp add: granted_def ready_tables_def)

theorem installed_grants_honest_witness:
  "\<exists>data e g. aw_fs (snd (snd (syncAuthorizedKeys sample_lib
        (server_api agent_server sample_conn (\<lambda>s. s) (cf_APIURL sample_cfg) (\<lambda>_. sample_clock) (\<lambda>_. sample_ticks ''5''))
        sync_fine sample_cfg ''/k'' sample_agent_world))) ''/k'' = Some \<lparr>fl_data = data, fl_mode = mode_0600\<rparr> \<and>
     ag_KeyInstalled g \<and> g \<in> set (access_grants (wo_tables (snd acked))) \<and> ak_Key e = ''ssh-ed25519 AAAA'' \<and> ag_ExpiresAt g \<le> ak_ExpiresAt e \<and>
     has_line (authorized_key_line e) data"
proof -
  obtain body where run: "syncAuthorizedKeys sample_lib (server_api agent_server sample_conn (\<lambda>s. s) (cf_APIURL sample_cfg) (\<lambda>_. sample_clock) (\<lambda>_. sample_ticks ''5''))
     sync_fine sample_cfg ''/k'' sample_agent_world = (None, sample_files # sample_t1 body, sample_after body)" using sample_sync by blast
  obtain g where g: "access_grants (wo_tables (snd acked)) = [g]" "ag_KeyInstalled g" "ag_UserID g = ''bob''"
    using acked_grants by (auto simp: map_eq_Cons_conv)
  have new: "g \<notin> set (access_grants (wo_tables granted))" using g(2) by (auto simp: granted_grants)
  have ids: "grant_ids_ok (wo_tables granted)" by (simp add: grant_ids_ok_def granted_grants HasPrefix_def)
  have clocks: "clocks_ordered (\<lambda>_. sample_ticks ''5'')" by (simp add: clocks_ordered_def sample_ticks_def)
  have esc: "gl_query_escape sample_lib u = u" for u by (simp add: sample_lib_def)
  have w: "aw_api sample_agent_world = granted" "aw_api (sample_after body) = snd acked" by (simp_all add: sample_agent_world_def sample_after_def)
  obtain data and d :: Device where data: "aw_fs (sample_after body) ''/k'' = Some \<lparr>fl_data = data, fl_mode = mode_0600\<rparr>"
    and all: "\<forall>g. g \<in> set (access_grants (wo_tables (snd acked))) \<and> g \<notin> set (access_grants (wo_tables granted)) \<longrightarrow>
       ag_KeyInstalled g \<and> ag_HostID g = d_HostID d \<and> ag_SSHUser g = cf_SSHUser sample_cfg \<and>
       (\<forall>k. k \<in> set (ssh_keys (wo_tables granted)) \<and> k_UserID k = ag_UserID g \<longrightarrow>
          (\<exists>e. ak_Key e = k_PublicKey k \<and> ag_ExpiresAt g \<le> ak_ExpiresAt e \<and> has_line (authorized_key_line e) data))"
    using installed_grants_honest [OF sample_contract _ _ clocks esc sample_lib_ok sample_temps run, unfolded w, OF granted_ok ids] by blast
  then obtain e where "ak_Key e = ''ssh-ed25519 AAAA''" "ag_ExpiresAt g \<le> ak_ExpiresAt e" "has_line (authorized_key_line e) data"
    using g new granted_keys by auto
  then show ?thesis using run data g by auto
qed

text \<open>A device with a key file from before expiry times, and a server that does not answer.\<close>

definition legacy_files :: fs where
  "legacy_files = sample_files(''/k'' \<mapsto> \<lparr>fl_data = ''k'', fl_mode = mode_0600\<rparr>)"

definition silent :: "unit api" where "silent q x = (None, ())"

definition legacy_run :: "agent_error option \<times> fs list \<times> unit agent_world" where
  "legacy_run = syncAuthorizedKeys sample_lib silent sync_fine sample_cfg ''/k'' \<lparr>aw_fs = legacy_files, aw_cache = [''/p'' \<mapsto> sample_endpoint], aw_api = ()\<rparr>"

definition legacy_purge :: "(agent_error + bool) \<times> fs list" where
  "legacy_purge = purgeLegacyAuthorizedKeys True io_fine ''/k'' legacy_files"

lemma legacy_purged: "fst legacy_purge = Inr True \<and> map_option fl_data (last (snd legacy_purge) ''/k'') = Some '''' \<and> snd legacy_purge \<noteq> []"
  by code_simp

lemma legacy_trace: "legacy_run = (fst legacy_run, snd legacy_purge, snd (snd legacy_run))"
proof -
  have "legacy_purge = (Inr True, snd legacy_purge)" using legacy_purged by (simp add: prod_eq_iff)
  then show ?thesis unfolding legacy_run_def legacy_purge_def
    by (auto simp: syncAuthorizedKeys_def sync_fine_def silent_def fetch_keys_def request_def Let_def split: prod.splits sum.splits)
qed

theorem agent_keys_invariant_witness:
  "file_expiring (last (snd legacy_purge) ''/k'') \<and> map_option fl_data (legacy_files ''/k'') = Some ''k''"
proof -
  let ?g = "last (snd legacy_purge)"
  have "agent_run sample_lib sample_cfg ''/k'' legacy_files ?g"
    using agent_run.run [OF legacy_trace [unfolded legacy_run_def] sample_temps] legacy_purged by simp
  then have "?g ''/k'' = legacy_files ''/k'' \<or> file_expiring (?g ''/k'')"
    using agent_keys_invariant [OF sample_lib_ok r_into_rtranclp] by blast
  moreover have "map_option fl_data (legacy_files ''/k'') = Some ''k''" by (simp add: legacy_files_def)
  ultimately show ?thesis using legacy_purged by auto
qed

definition sample_round :: round_io where
  "sample_round = \<lparr>rd_helper = helper_fine, rd_now = 500, rd_sync = sync_fine, rd_status = io_fine, rd_at = 500\<rparr>"

definition unsynced_cfg :: agent_config where
  "unsynced_cfg = sample_cfg\<lparr>cf_AuthorizedKeysPath := ''''\<rparr>"

definition silent_world :: "unit agent_world" where
  "silent_world = \<lparr>aw_fs = sample_files, aw_cache = [''/p'' \<mapsto> sample_endpoint], aw_api = ()\<rparr>"

definition sample_os :: agent_os where
  "sample_os = \<lparr>ao_goos = ''linux'', ao_env = (\<lambda>_. ''''), ao_configHome = None, ao_executable = None, ao_stat = (\<lambda>_. None), ao_lookPath = (\<lambda>_. None), ao_url = (\<lambda>_. None)\<rparr>"

lemma silent_heartbeat:
  assumes "LoadPrivate ''/d'' (aw_fs w) = Inr sample_private" "ReadIdentity (gl_unmarshal_identity sample_lib) ''/i'' (aw_fs w) = Inr sample_identity"
    and "aw_cache w ''/p'' = Some sample_endpoint"
  shows "heartbeat sample_lib silent sample_os helper_fine 500 unsynced_cfg status w = (Some ARequest, w\<lparr>aw_api := ()\<rparr>)"
  using assms by (simp add: heartbeat_def loadDevice_def unsynced_cfg_def sample_cfg_def roostEndpointID_def requestJSON_def request_def silent_def)

definition launching :: "unit supervisor" where
  "launching = \<lparr>sv_point = Launch, sv_children = 0, sv_signals = [], sv_status = None, sv_world = silent_world\<rparr>"

definition launched :: "unit supervisor" where
  "launched = put_status sample_lib io_fine unsynced_cfg
     \<lparr>rst_Service = ''starting'', rst_EndpointID = sample_endpoint, rst_Child = ''running'', rst_LastError = '''', rst_UpdatedAt = 500\<rparr> (launching\<lparr>sv_children := Suc 0\<rparr>)"

lemma silent_identity: "LoadPrivate ''/d'' sample_files = Inr sample_private" "ReadIdentity (gl_unmarshal_identity sample_lib) ''/i'' sample_files = Inr sample_identity"
  by (simp_all add: LoadPrivate_def ReadIdentity_def sample_files_def sample_private_def sample_identity_def sample_lib_def sample_fingerprint_def)

lemma launched_files: "aw_fs (sv_world launched) ''/d'' = sample_files ''/d''" "aw_fs (sv_world launched) ''/i'' = sample_files ''/i''" "aw_cache (sv_world launched) = aw_cache silent_world"
  by (simp_all add: launched_def put_status_def writeStatus_def AtomicWriteFile_def io_fine_def unsynced_cfg_def sample_cfg_def launching_def silent_world_def sample_lib_def Let_def)

lemma launched_round: "sync_round sample_lib silent sample_os sample_round unsynced_cfg launched = (Some ARequest, launched)"
proof -
  have "heartbeat sample_lib silent sample_os helper_fine 500 unsynced_cfg ''healthy'' (sv_world launched) = (Some ARequest, sv_world launched)"
    using silent_heartbeat [of "sv_world launched" "''healthy''"] silent_identity launched_files
    by (simp add: LoadPrivate_def ReadIdentity_def silent_world_def)
  then show ?thesis by (simp add: sync_round_def syncControlPlane_def sample_round_def unsynced_cfg_def)
qed

lemma sample_supervised: "supervise_start sample_lib silent sample_os sample_round unsynced_cfg silent_world = (Inr sample_endpoint, launching)"
proof -
  have "heartbeat sample_lib silent sample_os helper_fine 500 unsynced_cfg ''starting'' silent_world = (Some ARequest, silent_world)"
    using silent_heartbeat [of silent_world "''starting''"] silent_identity by (simp add: silent_world_def)
  then show ?thesis
    by (simp add: supervise_start_def roostEndpointID_def sample_round_def unsynced_cfg_def sample_cfg_def silent_world_def isUnauthorized_def launching_def)
qed

theorem supervise_safe_witness: "\<exists>s. (supervise_step sample_lib silent sample_os unsynced_cfg sample_endpoint)\<^sup>*\<^sup>* launching s \<and> sv_point s = Select \<and> sv_children s = 1"
proof -
  have "supervise_step sample_lib silent sample_os unsynced_cfg sample_endpoint launching (launched\<lparr>sv_point := Select\<rparr>)"
    by (rule supervise_step.launch [OF _ _ launched_round]) (simp_all add: launching_def launched_def isUnauthorized_def)
  then have "(supervise_step sample_lib silent sample_os unsynced_cfg sample_endpoint)\<^sup>*\<^sup>* launching (launched\<lparr>sv_point := Select\<rparr>)" by blast
  with supervise_safe [OF sample_supervised this] show ?thesis by auto
qed

end
