(* ===== verification/Ctl_Session.thy ===== *)
theory Ctl_Session
  imports Agent_Config Auth_OIDC
begin

section \<open>The command line client: sessions (cmd/ternalctl/main.go)\<close>

text \<open>
  \<^verbatim>\<open>ternalctl\<close> keeps one session file per API origin.  The environment of an invocation and the libraries that
  it calls (URL parsing, SHA-256, JSON) are the record \<open>ctl_env\<close>; files are those of \<open>Device_Auth\<close>.  The clock
  reads seconds where the code calls \<^verbatim>\<open>Unix\<close>.
\<close>

datatype ctl_error =
    CUsage | CInvalidAPIURL | CInsecureAPIURL | CDevHeaders | COS | CNotExist | CInvalidSession | CWrongOrigin | CSessionExpired
  | CRequest | CDecode | CStatus int | CMessage int string | CInvalidDevice | CExpired | CInvalidLocalSession
  | CNotLoggedIn | CHostNotFound | CNoGrant | CNotInstalled | CInvalidProxy | CNoPigeons | CInvalidEndpoint
  | CKeyArguments | CKeyInvocation | CKeyMismatch | CKeyInvalid

record Session =
  cs_Cookie :: string
  cs_CSRFToken :: string
  cs_ExpiresAt :: int
  cs_APIURL :: string

record ctl_env =
  ce_env :: "string \<Rightarrow> string"
  ce_configDir :: "string option"
  ce_url :: "string \<Rightarrow> URL option"
  ce_url_path :: "string \<Rightarrow> string"
  ce_sha256_hex :: "string \<Rightarrow> string"
  ce_marshal :: "Session \<Rightarrow> string"
  ce_unmarshal :: "string \<Rightarrow> Session option"

subsection \<open>The API origin\<close>

definition ctl_getEnv :: "ctl_env \<Rightarrow> string \<Rightarrow> string \<Rightarrow> string" where
  "ctl_getEnv E key fallback = (if ce_env E key \<noteq> '''' then ce_env E key else fallback)"

definition ctl_isLoopbackHost :: "string \<Rightarrow> bool" where
  "ctl_isLoopbackHost host \<longleftrightarrow> host = ''localhost'' \<or> host = ''127.0.0.1'' \<or> host = ''::1''"

definition validateAPIURL :: "ctl_env \<Rightarrow> string \<Rightarrow> ctl_error option" where
  "validateAPIURL E raw =
     (case ce_url E raw of
        None \<Rightarrow> Some CInvalidAPIURL
      | Some parsed \<Rightarrow>
          if u_Scheme parsed = '''' \<or> u_Host parsed = '''' \<or> u_User parsed \<or> u_RawQuery parsed \<noteq> '''' \<or> u_Fragment parsed \<noteq> ''''
          then Some CInvalidAPIURL
          else if u_Scheme parsed \<noteq> ''https'' \<and> \<not> (u_Scheme parsed = ''http'' \<and> ctl_isLoopbackHost (u_Hostname parsed)) then Some CInsecureAPIURL
          else None)"

definition developmentHeadersAllowed :: "ctl_env \<Rightarrow> string \<Rightarrow> bool" where
  "developmentHeadersAllowed E apiURL \<longleftrightarrow>
     (case ce_url E apiURL of None \<Rightarrow> False | Some parsed \<Rightarrow> ce_env E ''TERNAL_DEV_HEADERS'' = ''1'' \<and> ctl_isLoopbackHost (u_Hostname parsed))"

text \<open>Whether the client adds the development headers to each request.\<close>

definition newHTTPClient :: "ctl_env \<Rightarrow> string \<Rightarrow> ctl_error + bool" where
  "newHTTPClient E apiURL =
     (if ce_env E ''TERNAL_DEV_HEADERS'' = ''1'' then
        (if \<not> developmentHeadersAllowed E apiURL then Inl CDevHeaders else Inr True)
      else Inr False)"

definition canonicalAPIOrigin :: "ctl_env \<Rightarrow> string \<Rightarrow> string" where
  "canonicalAPIOrigin E raw =
     (case ce_url E (TrimSuffix raw ''/'') of
        None \<Rightarrow> raw
      | Some parsed \<Rightarrow>
          if u_Scheme parsed = '''' \<or> u_Host parsed = '''' then raw
          else ToLower (u_Scheme parsed) @ ''://'' @ ToLower (u_Host parsed) @ ce_url_path E (TrimSuffix raw ''/''))"

definition currentAPIOrigin :: "ctl_env \<Rightarrow> string" where
  "currentAPIOrigin E = canonicalAPIOrigin E (ctl_getEnv E ''TERNAL_API_URL'' defaultAPIURL)"

subsection \<open>The session file\<close>

text \<open>\<^verbatim>\<open>%x\<close> of the first eight bytes is sixteen hexadecimal digits.\<close>

definition sessionPathFor :: "ctl_env \<Rightarrow> string \<Rightarrow> ctl_error + string" where
  "sessionPathFor E origin =
     (let configDir = ce_env E ''TERNAL_CONFIG_DIR'' in
      case (if configDir = '''' then ce_configDir E else Some configDir) of
        None \<Rightarrow> Inl COS
      | Some dir \<Rightarrow> Inr (filepath_Join [dir, ''ternal'', ''session-'' @ take 16 (ce_sha256_hex E origin) @ ''.json'']))"

definition sessionPath :: "ctl_env \<Rightarrow> ctl_error + string" where
  "sessionPath E = sessionPathFor E (currentAPIOrigin E)"

text \<open>Reading a file: \<open>readable\<close> is false when \<^verbatim>\<open>os.ReadFile\<close> failed for another reason than a missing file.\<close>

definition read_file :: "bool \<Rightarrow> string \<Rightarrow> fs \<Rightarrow> ctl_error + string" where
  "read_file readable path f =
     (case f path of None \<Rightarrow> if readable then Inl CNotExist else Inl COS
      | Some x \<Rightarrow> if readable then Inr (fl_data x) else Inl COS)"

definition loadSession :: "ctl_env \<Rightarrow> bool \<Rightarrow> int \<Rightarrow> fs \<Rightarrow> ctl_error + Session" where
  "loadSession E readable now f =
     (let cookie = ce_env E ''TERNAL_SESSION_COOKIE'' in
      if cookie \<noteq> '''' then Inr \<lparr>cs_Cookie = cookie, cs_CSRFToken = ce_env E ''TERNAL_CSRF_TOKEN'', cs_ExpiresAt = now + 60, cs_APIURL = ''''\<rparr>
      else case sessionPath E of
        Inl e \<Rightarrow> Inl e
      | Inr path \<Rightarrow>
          (case read_file readable path f of
             Inl e \<Rightarrow> Inl e
           | Inr data \<Rightarrow>
               (case ce_unmarshal E data of
                  None \<Rightarrow> Inl CInvalidSession
                | Some session \<Rightarrow>
                    if cs_APIURL session = '''' \<or> cs_APIURL session \<noteq> currentAPIOrigin E then Inl CWrongOrigin
                    else if cs_ExpiresAt session < now then Inl CSessionExpired
                    else Inr session)))"

definition loadSessionForLogout :: "ctl_env \<Rightarrow> bool \<Rightarrow> fs \<Rightarrow> ctl_error + Session \<times> bool" where
  "loadSessionForLogout E readable f =
     (let cookie = ce_env E ''TERNAL_SESSION_COOKIE'' in
      if cookie \<noteq> '''' then Inr (\<lparr>cs_Cookie = cookie, cs_CSRFToken = ce_env E ''TERNAL_CSRF_TOKEN'', cs_ExpiresAt = 0, cs_APIURL = ''''\<rparr>, False)
      else case sessionPath E of
        Inl e \<Rightarrow> Inl e
      | Inr path \<Rightarrow>
          (case read_file readable path f of
             Inl e \<Rightarrow> Inl e
           | Inr data \<Rightarrow>
               (case ce_unmarshal E data of
                  None \<Rightarrow> Inl CInvalidSession
                | Some session \<Rightarrow>
                    if cs_APIURL session = '''' \<or> cs_APIURL session \<noteq> currentAPIOrigin E then Inl CWrongOrigin
                    else Inr (session, True))))"

text \<open>\<^verbatim>\<open>os.WriteFile\<close> truncates the file, keeps the mode of an existing one, and may write only a part: the outcome
  says whether the file was opened and how many bytes arrived.\<close>

record write_io =
  wi_mkdir :: bool
  wi_open :: bool
  wi_written :: nat
  wi_close :: bool

definition WriteFile :: "write_io \<Rightarrow> string \<Rightarrow> string \<Rightarrow> nat \<Rightarrow> fs \<Rightarrow> ctl_error option \<times> fs" where
  "WriteFile io path data mode f =
     (if \<not> wi_open io then (Some COS, f)
      else let f' = f(path \<mapsto> \<lparr>fl_data = take (wi_written io) data, fl_mode = (case f path of None \<Rightarrow> mode | Some x \<Rightarrow> fl_mode x)\<rparr>) in
        (if wi_written io < length data \<or> \<not> wi_close io then Some COS else None, f'))"

definition saveSession :: "ctl_env \<Rightarrow> write_io \<Rightarrow> Session \<Rightarrow> fs \<Rightarrow> ctl_error option \<times> fs" where
  "saveSession E io session f =
     (case sessionPath E of
        Inl e \<Rightarrow> (Some e, f)
      | Inr path \<Rightarrow>
          if \<not> wi_mkdir io then (Some COS, f)
          else WriteFile io path (ce_marshal E (session\<lparr>cs_APIURL := currentAPIOrigin E\<rparr>)) mode_0600 f)"

definition removeSession :: "ctl_env \<Rightarrow> bool \<Rightarrow> fs \<Rightarrow> ctl_error option \<times> fs" where
  "removeSession E removable f =
     (case sessionPath E of
        Inl e \<Rightarrow> (Some e, f)
      | Inr path \<Rightarrow> if f path = None then (None, f) else if removable then (None, f(path := None)) else (Some COS, f))"

subsection \<open>Sessions stay with their origin\<close>

text \<open>What the JSON library promises: a session of ASCII strings reads back, and its truncated text does not.\<close>

definition plain_text :: "string \<Rightarrow> bool" where
  "plain_text s \<longleftrightarrow> list_all (\<lambda>c. (of_char c :: nat) < 128) s"

definition plain_session :: "Session \<Rightarrow> bool" where
  "plain_session s \<longleftrightarrow> plain_text (cs_Cookie s) \<and> plain_text (cs_CSRFToken s) \<and> plain_text (cs_APIURL s) \<and> - (2 ^ 63) \<le> cs_ExpiresAt s \<and> cs_ExpiresAt s < 2 ^ 63"

definition session_json_ok :: "(Session \<Rightarrow> string) \<Rightarrow> (string \<Rightarrow> Session option) \<Rightarrow> bool" where
  "session_json_ok marshal unmarshal \<longleftrightarrow>
     (\<forall>s. plain_session s \<longrightarrow> unmarshal (marshal s) = Some s \<and> (\<forall>n < length (marshal s). unmarshal (take n (marshal s)) = None))"

definition same_json :: "ctl_env \<Rightarrow> ctl_env \<Rightarrow> bool" where
  "same_json E E' \<longleftrightarrow> ce_marshal E' = ce_marshal E \<and> ce_unmarshal E' = ce_unmarshal E"

text \<open>One use of the session files, by an invocation with its own environment; \<open>saved\<close> collects what was saved for
  which origin.\<close>

inductive session_step :: "ctl_env \<Rightarrow> fs \<times> (string \<times> Session) set \<Rightarrow> fs \<times> (string \<times> Session) set \<Rightarrow> bool" for E0 where
  save: "same_json E0 E \<Longrightarrow> plain_session (session\<lparr>cs_APIURL := currentAPIOrigin E\<rparr>) \<Longrightarrow> saveSession E io session f = (r, f') \<Longrightarrow>
    session_step E0 (f, S) (f', insert (currentAPIOrigin E, session\<lparr>cs_APIURL := currentAPIOrigin E\<rparr>) S)"
| remove: "same_json E0 E \<Longrightarrow> removeSession E removable f = (r, f') \<Longrightarrow> session_step E0 (f, S) (f', S)"

definition files_saved :: "ctl_env \<Rightarrow> fs \<times> (string \<times> Session) set \<Rightarrow> bool" where
  "files_saved E0 st \<longleftrightarrow> (\<forall>p x s. fst st p = Some x \<longrightarrow> ce_unmarshal E0 (fl_data x) = Some s \<longrightarrow> (cs_APIURL s, s) \<in> snd st)"

lemma write_saved:
  assumes "WriteFile io path (ce_marshal E0 s) mode f = (r, f')" "session_json_ok (ce_marshal E0) (ce_unmarshal E0)" "files_saved E0 (f, S)" "plain_session s"
  shows "files_saved E0 (f', insert (cs_APIURL s, s) S)"
proof (cases "wi_open io")
  case False
  then show ?thesis using assms by (auto simp: WriteFile_def files_saved_def)
next
  case True
  have "ce_unmarshal E0 (take (wi_written io) (ce_marshal E0 s)) \<in> {None, Some s}"
    using assms(2,4) by (cases "wi_written io < length (ce_marshal E0 s)") (auto simp: session_json_ok_def)
  then show ?thesis using assms(1,3) True by (auto simp: WriteFile_def files_saved_def Let_def split: if_splits)
qed

lemma step_saved:
  assumes "session_step E0 st st'" "session_json_ok (ce_marshal E0) (ce_unmarshal E0)" "files_saved E0 st"
  shows "files_saved E0 st'"
  using assms(1)
proof cases
  case (save E session io f r f' S)
  let ?s = "session\<lparr>cs_APIURL := currentAPIOrigin E\<rparr>"
  show ?thesis
  proof (cases "f' = f")
    case True
    then show ?thesis using save assms(3) by (auto simp: files_saved_def)
  next
    case False
    then obtain path where "WriteFile io path (ce_marshal E0 ?s) mode_0600 f = (r, f')"
      using save by (auto simp: saveSession_def same_json_def split: sum.splits if_splits)
    then show ?thesis using write_saved [of io path E0 ?s mode_0600 f r f' S] assms(2,3) save by simp
  qed
next
  case (remove E removable f r f' S)
  then show ?thesis using assms(3) by (auto simp: removeSession_def files_saved_def split: sum.splits if_splits)
qed

lemma steps_saved:
  assumes "(session_step E0)\<^sup>*\<^sup>* st st'" "session_json_ok (ce_marshal E0) (ce_unmarshal E0)" "files_saved E0 st"
  shows "files_saved E0 st'"
  using assms(1) by (induction rule: rtranclp_induct) (use assms(2,3) step_saved in blast)+

lemma load_from_file:
  assumes "loadSession E readable now f = Inr s" "ce_env E ''TERNAL_SESSION_COOKIE'' = ''''"
  shows "\<exists>p x. f p = Some x \<and> ce_unmarshal E (fl_data x) = Some s \<and> cs_APIURL s = currentAPIOrigin E \<and> now \<le> cs_ExpiresAt s"
  using assms by (fastforce simp: loadSession_def read_file_def Let_def split: sum.splits option.splits if_splits)

lemma logout_from_file:
  assumes "loadSessionForLogout E readable f = Inr (s, b)" "ce_env E ''TERNAL_SESSION_COOKIE'' = ''''"
  shows "\<exists>p x. f p = Some x \<and> ce_unmarshal E (fl_data x) = Some s \<and> cs_APIURL s = currentAPIOrigin E"
  using assms by (fastforce simp: loadSessionForLogout_def read_file_def Let_def split: sum.splits option.splits if_splits)

text \<open>A credential in the environment takes precedence over the session files.\<close>

lemma load_from_env:
  assumes "ce_env E ''TERNAL_SESSION_COOKIE'' \<noteq> ''''"
  shows "loadSession E readable now f = Inr s \<Longrightarrow> cs_Cookie s = ce_env E ''TERNAL_SESSION_COOKIE'' \<and> cs_CSRFToken s = ce_env E ''TERNAL_CSRF_TOKEN''"
    and "loadSessionForLogout E readable f = Inr (s, b) \<Longrightarrow>
      cs_Cookie s = ce_env E ''TERNAL_SESSION_COOKIE'' \<and> cs_CSRFToken s = ce_env E ''TERNAL_CSRF_TOKEN'' \<and> \<not> b"
  using assms by (auto simp: loadSession_def loadSessionForLogout_def)

text \<open>C13. A saved credential is never sent to another server.  After any number of invocations of the client, against
  any servers and with interrupted writes, the session that a command loads or a logout revokes is one
  that was saved for the origin of its own API URL, and a loaded one is not past its expiry.  The only exception is
  an invocation that is given a credential in \<^verbatim>\<open>TERNAL_SESSION_COOKIE\<close>: it uses that cookie and
  \<^verbatim>\<open>TERNAL_CSRF_TOKEN\<close> as they are, no saved session, and its logout does not report a stored one.  The
  hypothesis is that JSON texts of sessions of ASCII strings read back and that truncated ones do not.\<close>

theorem session_origin_bound:
  assumes "session_json_ok (ce_marshal E0) (ce_unmarshal E0)" "(session_step E0)\<^sup>*\<^sup>* ((\<lambda>_. None), {}) (f, S)" "same_json E0 E"
  shows "(\<forall>readable now s. loadSession E readable now f = Inr s \<longrightarrow>
      (if ce_env E ''TERNAL_SESSION_COOKIE'' = '''' then (currentAPIOrigin E, s) \<in> S \<and> now \<le> cs_ExpiresAt s
       else cs_Cookie s = ce_env E ''TERNAL_SESSION_COOKIE'' \<and> cs_CSRFToken s = ce_env E ''TERNAL_CSRF_TOKEN'')) \<and>
    (\<forall>readable s b. loadSessionForLogout E readable f = Inr (s, b) \<longrightarrow>
      (if ce_env E ''TERNAL_SESSION_COOKIE'' = '''' then (currentAPIOrigin E, s) \<in> S
       else cs_Cookie s = ce_env E ''TERNAL_SESSION_COOKIE'' \<and> cs_CSRFToken s = ce_env E ''TERNAL_CSRF_TOKEN'' \<and> \<not> b))"
proof (cases "ce_env E ''TERNAL_SESSION_COOKIE'' = ''''")
  case True
  have "files_saved E0 (f, S)" using steps_saved [OF assms(2,1)] by (simp add: files_saved_def)
  then have in_S: "(cs_APIURL s, s) \<in> S" if "f p = Some x" "ce_unmarshal E (fl_data x) = Some s" for p x s
    using that assms(3) by (auto simp: files_saved_def same_json_def)
  show ?thesis unfolding if_P [OF True] using load_from_file [OF _ True] logout_from_file [OF _ True] in_S by metis
next
  case False
  show ?thesis unfolding if_not_P [OF False] using load_from_env [OF False] by blast
qed

text \<open>Logging in and loading.  A session that was saved completely loads back until it expires, bound to the
  origin of the API URL, whatever the other session files hold.\<close>

lemma ctl_session_roundtrip:
  assumes "session_json_ok (ce_marshal E) (ce_unmarshal E)" "saveSession E io session f = (None, f')" "plain_session (session\<lparr>cs_APIURL := currentAPIOrigin E\<rparr>)"
    and "ce_env E ''TERNAL_SESSION_COOKIE'' = ''''" "currentAPIOrigin E \<noteq> ''''" "now \<le> cs_ExpiresAt session"
  shows "loadSession E True now f' = Inr (session\<lparr>cs_APIURL := currentAPIOrigin E\<rparr>) \<and>
    loadSessionForLogout E True f' = Inr (session\<lparr>cs_APIURL := currentAPIOrigin E\<rparr>, True) \<and>
    (\<forall>p. sessionPath E \<noteq> Inr p \<longrightarrow> f' p = f p)"
proof -
  obtain path where p: "sessionPath E = Inr path" and w: "WriteFile io path (ce_marshal E (session\<lparr>cs_APIURL := currentAPIOrigin E\<rparr>)) mode_0600 f = (None, f')"
    using assms(2) by (auto simp: saveSession_def split: sum.splits if_splits)
  have "(\<exists>m. f' path = Some \<lparr>fl_data = ce_marshal E (session\<lparr>cs_APIURL := currentAPIOrigin E\<rparr>), fl_mode = m\<rparr>) \<and> (\<forall>q. q \<noteq> path \<longrightarrow> f' q = f q)"
    using w by (auto simp: WriteFile_def Let_def split: if_splits)
  then show ?thesis using assms(1,3-6) p
    by (auto simp: loadSession_def loadSessionForLogout_def read_file_def session_json_ok_def)
qed

end
