(* ===== verification/Ctl_Client.thy ===== *)
theory Ctl_Client
  imports Complex_Main Ctl_Session
begin

section \<open>The command line client: commands (cmd/ternalctl/main.go)\<close>

text \<open>
  What a command sees of the world outside is the record \<open>outside\<close>: sending a request, the clock in
  nanoseconds, sleeping, and whether files can be read.  Time passes while a request is made and while
  the command sleeps.  A response body is text; the decoders of \<^verbatim>\<open>encoding/json\<close>, \<^verbatim>\<open>fmt.Sprint\<close> and the SSH key
  parser are the record \<open>ctl_lib\<close>; \<open>cb_verb_s\<close> is the verb \<^verbatim>\<open>%s\<close> on an interface value, \<open>cb_pad\<close> the padding of \<^verbatim>\<open>%-20s\<close>, and
  \<open>cb_hosts_left\<close> what the decoder leaves in the list when its error is ignored.  A command that ends the process with an error returns it; \<^verbatim>\<open>ssh\<close> and \<^verbatim>\<open>proxy\<close>
  return the program they start.
\<close>

record ctl_request =
  cq_Method :: string
  cq_URL :: string
  cq_Header :: "(string \<times> string) list"
  cq_Cookie :: "string option"
  cq_Body :: "(string \<times> json) list option"

record ctl_response =
  cr_Status :: int
  cr_Body :: string

record 'x outside =
  out_send :: "ctl_request \<Rightarrow> 'x \<Rightarrow> ctl_response option \<times> 'x"
  out_now :: "'x \<Rightarrow> int"
  out_sleep :: "int \<Rightarrow> 'x \<Rightarrow> 'x"
  out_readable :: "'x \<Rightarrow> bool"

record 'x ctl_world =
  cw_fs :: fs
  cw_out :: 'x

record ctl_host =
  ch_ID :: string
  ch_Name :: string
  ch_EndpointID :: string
  ch_SSHUser :: string
  ch_Tags :: "(string \<times> string) list"
  ch_SSHPort :: uint16
  ch_Status :: string

record ctl_lib =
  cb_object :: "string \<Rightarrow> (string \<times> json) list option"
  cb_hosts :: "string \<Rightarrow> ctl_host list option"
  cb_host :: "string \<Rightarrow> ctl_host option"
  cb_installed :: "string \<Rightarrow> bool option"
  cb_float :: "string \<Rightarrow> rat"
  cb_overflow :: "rat \<Rightarrow> int"
  cb_sprint :: "json \<Rightarrow> string"
  cb_verb_s :: "json option \<Rightarrow> string"
  cb_pad :: "nat \<Rightarrow> string \<Rightarrow> string"
  cb_hosts_left :: "string \<Rightarrow> ctl_host list"
  cb_path_escape :: "string \<Rightarrow> string"
  cb_parse_key :: "string \<Rightarrow> (string \<times> string) option"

subsection \<open>Requests\<close>

definition set_header :: "string \<Rightarrow> string \<Rightarrow> (string \<times> string) list \<Rightarrow> (string \<times> string) list" where
  "set_header k v hs = (k, v) # filter (\<lambda>h. fst h \<noteq> k) hs"

definition RoundTrip :: "ctl_env \<Rightarrow> ctl_request \<Rightarrow> ctl_request" where
  "RoundTrip E q =
     (let hs = set_header ''X-Ternal-Groups'' (ctl_getEnv E ''TERNAL_GROUPS'' ''ternal-admins'')
                 (set_header ''X-Ternal-User'' (ctl_getEnv E ''TERNAL_USER'' ''local-admin'') (cq_Header q)) in
      q\<lparr>cq_Header := (if cq_Method q \<noteq> ''GET'' \<and> cq_Method q \<noteq> ''HEAD'' \<and> cq_Method q \<noteq> ''OPTIONS'' then set_header ''X-CSRF-Token'' ''dev-csrf'' hs else hs)\<rparr>)"

text \<open>\<open>dev\<close> says whether the client's transport adds the development headers.\<close>

definition client_Do :: "'x outside \<Rightarrow> ctl_env \<Rightarrow> bool \<Rightarrow> ctl_request \<Rightarrow> 'x ctl_world \<Rightarrow> (ctl_error + ctl_response) \<times> 'x ctl_world" where
  "client_Do W E dev q w =
     (case out_send W (if dev then RoundTrip E q else q) (cw_out w) of
        (None, x) \<Rightarrow> (Inl CRequest, w\<lparr>cw_out := x\<rparr>)
      | (Some r, x) \<Rightarrow> (Inr r, w\<lparr>cw_out := x\<rparr>))"

definition current_session :: "'x outside \<Rightarrow> ctl_env \<Rightarrow> 'x ctl_world \<Rightarrow> ctl_error + Session" where
  "current_session W E w = loadSession E (out_readable W (cw_out w)) (out_now W (cw_out w) div second) (cw_fs w)"

definition get_request :: "string \<Rightarrow> Session option \<Rightarrow> ctl_request" where
  "get_request url session = \<lparr>cq_Method = ''GET'', cq_URL = url, cq_Header = [], cq_Cookie = map_option cs_Cookie session, cq_Body = None\<rparr>"

definition postJSONResponse ::
    "'x outside \<Rightarrow> ctl_lib \<Rightarrow> ctl_env \<Rightarrow> bool \<Rightarrow> string \<Rightarrow> (string \<times> json) list option \<Rightarrow> 'x ctl_world \<Rightarrow>
     (ctl_error + (string \<times> json) list \<times> int) \<times> 'x ctl_world" where
  "postJSONResponse W B E dev url body w =
     (let base = \<lparr>cq_Method = ''POST'', cq_URL = url, cq_Header = [(''Content-Type'', ''application/json'')], cq_Cookie = None, cq_Body = body\<rparr>;
          q = (case current_session W E w of
                 Inl e \<Rightarrow> base
               | Inr session \<Rightarrow>
                   base\<lparr>cq_Cookie := Some (cs_Cookie session),
                        cq_Header := (if cs_CSRFToken session \<noteq> '''' then set_header ''X-CSRF-Token'' (cs_CSRFToken session) (cq_Header base) else cq_Header base)\<rparr>) in
      case client_Do W E dev q w of
        (Inl e, w') \<Rightarrow> (Inl e, w')
      | (Inr resp, w') \<Rightarrow>
          (case cb_object B (take 65536 (cr_Body resp)) of
             None \<Rightarrow> (Inl CDecode, w')
           | Some result \<Rightarrow> (Inr (result, cr_Status resp), w')))"

definition string_field :: "(string \<times> json) list \<Rightarrow> string \<Rightarrow> string" where
  "string_field m k = (case map_of m k of Some (JString s) \<Rightarrow> s | _ \<Rightarrow> '''')"

definition postJSON ::
    "'x outside \<Rightarrow> ctl_lib \<Rightarrow> ctl_env \<Rightarrow> bool \<Rightarrow> string \<Rightarrow> (string \<times> json) list option \<Rightarrow> 'x ctl_world \<Rightarrow>
     (ctl_error + (string \<times> json) list) \<times> 'x ctl_world" where
  "postJSON W B E dev url body w =
     (case postJSONResponse W B E dev url body w of
        (Inl e, w') \<Rightarrow> (Inl e, w')
      | (Inr (result, status), w') \<Rightarrow>
          if status < 200 \<or> status \<ge> 300 then
            (Inl (if string_field result ''error'' \<noteq> '''' then CMessage status (string_field result ''error'') else CStatus status), w')
          else (Inr result, w'))"

subsection \<open>Logging in\<close>

text \<open>\<^verbatim>\<open>int64(f)\<close> truncates towards zero; outside the range the result is implementation-specific.\<close>

definition int64_of :: "ctl_lib \<Rightarrow> rat \<Rightarrow> int" where
  "int64_of B f = (let n = (if f < 0 then - \<lfloor>- f\<rfloor> else \<lfloor>f\<rfloor>) in if - (2 ^ 63) \<le> n \<and> n < 2 ^ 63 then n else cb_overflow B f)"

definition numberAsInt64 :: "ctl_lib \<Rightarrow> json option \<Rightarrow> int \<Rightarrow> int" where
  "numberAsInt64 B v fallback =
     (case v of
        Some (JNumber t) \<Rightarrow> (let number = cb_float B t in if number = of_int (int64_of B number) then int64_of B number else fallback)
      | _ \<Rightarrow> fallback)"

partial_function (option) login_loop ::
    "'x outside \<Rightarrow> ctl_lib \<Rightarrow> ctl_env \<Rightarrow> bool \<Rightarrow> string \<Rightarrow> string \<Rightarrow> write_io \<Rightarrow> int \<Rightarrow> int \<Rightarrow> 'x ctl_world \<Rightarrow>
     (ctl_error option \<times> 'x ctl_world) option" where
  "login_loop W B E dev apiURL deviceCode io deadline interval w =
     (if out_now W (cw_out w) + interval * second > deadline then Some (Some CExpired, w)
      else
        case postJSONResponse W B E dev (apiURL @ ''/auth/device/token'') (Some [(''device_code'', JString deviceCode)])
               (w\<lparr>cw_out := out_sleep W (interval * second) (cw_out w)\<rparr>) of
          (Inl e, w1) \<Rightarrow> Some (Some e, w1)
        | (Inr (tokenResp, status), w1) \<Rightarrow>
            if status < 200 \<or> status \<ge> 300 then
              (let providerError = string_field tokenResp ''error'' in
               if providerError = ''authorization_pending'' then login_loop W B E dev apiURL deviceCode io deadline interval w1
               else if providerError = ''slow_down'' then
                 login_loop W B E dev apiURL deviceCode io deadline (if interval \<le> 55 then interval + 5 else interval) w1
               else Some (Some (CStatus status), w1))
            else if string_field tokenResp ''session_cookie'' \<noteq> '''' then
              (let session = \<lparr>cs_Cookie = string_field tokenResp ''session_cookie'', cs_CSRFToken = string_field tokenResp ''csrf_token'',
                     cs_ExpiresAt = int64_of B (case map_of tokenResp ''expires_at'' of Some (JNumber t) \<Rightarrow> cb_float B t | _ \<Rightarrow> 0), cs_APIURL = ''''\<rparr> in
               if cs_ExpiresAt session \<le> out_now W (cw_out w1) div second \<or> cs_CSRFToken session = '''' then Some (Some CInvalidLocalSession, w1)
               else case saveSession E io session (cw_fs w1) of (e, f) \<Rightarrow> Some (e, w1\<lparr>cw_fs := f\<rparr>))
            else login_loop W B E dev apiURL deviceCode io deadline interval w1)"

definition cmdLogin ::
    "'x outside \<Rightarrow> ctl_lib \<Rightarrow> ctl_env \<Rightarrow> bool \<Rightarrow> string \<Rightarrow> write_io \<Rightarrow> 'x ctl_world \<Rightarrow> (ctl_error option \<times> 'x ctl_world) option" where
  "cmdLogin W B E dev apiURL io w =
     (case postJSON W B E dev (apiURL @ ''/auth/device/start'') None w of
        (Inl e, w1) \<Rightarrow> Some (Some e, w1)
      | (Inr startResp, w1) \<Rightarrow>
          let deviceCode = string_field startResp ''device_code''; userCode = string_field startResp ''user_code'';
              verificationURI = string_field startResp ''verification_uri'';
              expiresIn = numberAsInt64 B (map_of startResp ''expires_in'') 600; interval = numberAsInt64 B (map_of startResp ''interval'') 5 in
          if deviceCode = '''' \<or> userCode = '''' \<or> verificationURI = '''' \<or> expiresIn < 1 \<or> expiresIn > 3600 \<or> interval < 1 \<or> interval > 60
          then Some (Some CInvalidDevice, w1)
          else login_loop W B E dev apiURL deviceCode io (out_now W (cw_out w1) + expiresIn * second) interval w1)"

definition logout ::
    "'x outside \<Rightarrow> ctl_env \<Rightarrow> bool \<Rightarrow> string \<Rightarrow> bool \<Rightarrow> 'x ctl_world \<Rightarrow> ctl_error option \<times> 'x ctl_world" where
  "logout W E dev apiURL removable w =
     (case loadSessionForLogout E (out_readable W (cw_out w)) (cw_fs w) of
        Inl e \<Rightarrow> (if e = CNotExist then None else Some e, w)
      | Inr (session, persistent) \<Rightarrow>
          (case client_Do W E dev \<lparr>cq_Method = ''POST'', cq_URL = apiURL @ ''/auth/logout'', cq_Header = [(''X-CSRF-Token'', cs_CSRFToken session)],
                  cq_Cookie = Some (cs_Cookie session), cq_Body = None\<rparr> w of
             (Inl e, w1) \<Rightarrow> (Some e, w1)
           | (Inr resp, w1) \<Rightarrow>
               if cr_Status resp \<noteq> 200 then (Some (CStatus (cr_Status resp)), w1)
               else if persistent then (case removeSession E removable (cw_fs w1) of (e, f) \<Rightarrow> (e, w1\<lparr>cw_fs := f\<rparr>))
               else (None, w1)))"

subsection \<open>Hosts and grants\<close>

definition listHosts ::
    "'x outside \<Rightarrow> ctl_lib \<Rightarrow> ctl_env \<Rightarrow> bool \<Rightarrow> string \<Rightarrow> Session \<Rightarrow> 'x ctl_world \<Rightarrow> (ctl_error + ctl_host list) \<times> 'x ctl_world" where
  "listHosts W B E dev apiURL session w =
     (case client_Do W E dev (get_request (apiURL @ ''/hosts'') (Some session)) w of
        (Inl e, w1) \<Rightarrow> (Inl e, w1)
      | (Inr resp, w1) \<Rightarrow>
          if cr_Status resp < 200 \<or> cr_Status resp \<ge> 300 then (Inl (CStatus (cr_Status resp)), w1)
          else (case cb_hosts B (cr_Body resp) of None \<Rightarrow> (Inl CDecode, w1) | Some hs \<Rightarrow> (Inr hs, w1)))"

definition getProxyHost ::
    "'x outside \<Rightarrow> ctl_lib \<Rightarrow> ctl_env \<Rightarrow> bool \<Rightarrow> string \<Rightarrow> Session option \<Rightarrow> string \<Rightarrow> 'x ctl_world \<Rightarrow> (ctl_error + ctl_host) \<times> 'x ctl_world" where
  "getProxyHost W B E dev apiURL session hostID w =
     (case client_Do W E dev (get_request (apiURL @ ''/hosts/'' @ cb_path_escape B hostID) session) w of
        (Inl e, w1) \<Rightarrow> (Inl e, w1)
      | (Inr resp, w1) \<Rightarrow>
          if cr_Status resp < 200 \<or> cr_Status resp \<ge> 300 then (Inl (CStatus (cr_Status resp)), w1)
          else (case cb_host B (cr_Body resp) of None \<Rightarrow> (Inl CDecode, w1) | Some h \<Rightarrow> (Inr h, w1)))"

definition keyGrantPollInterval :: int where "keyGrantPollInterval = 2 * second"
definition keyGrantWaitTimeout :: int where "keyGrantWaitTimeout = 120 * second"

partial_function (option) wait_loop ::
    "'x outside \<Rightarrow> ctl_lib \<Rightarrow> ctl_env \<Rightarrow> bool \<Rightarrow> ctl_request \<Rightarrow> int \<Rightarrow> 'x ctl_world \<Rightarrow> (ctl_error option \<times> 'x ctl_world) option" where
  "wait_loop W B E dev q deadline w =
     (case client_Do W E dev q w of
        (Inl e, w1) \<Rightarrow> Some (Some e, w1)
      | (Inr resp, w1) \<Rightarrow>
          (case cb_installed B (take 65536 (cr_Body resp)) of
             None \<Rightarrow> Some (Some CDecode, w1)
           | Some installed \<Rightarrow>
               if cr_Status resp \<ge> 200 \<and> cr_Status resp < 300 \<and> installed then Some (None, w1)
               else if \<not> out_now W (cw_out w1) < deadline then Some (Some CNotInstalled, w1)
               else wait_loop W B E dev q deadline (w1\<lparr>cw_out := out_sleep W keyGrantPollInterval (cw_out w1)\<rparr>)))"

declare login_loop.simps [code] wait_loop.simps [code]

definition waitForKeyGrant ::
    "'x outside \<Rightarrow> ctl_lib \<Rightarrow> ctl_env \<Rightarrow> bool \<Rightarrow> string \<Rightarrow> Session option \<Rightarrow> string \<Rightarrow> 'x ctl_world \<Rightarrow> (ctl_error option \<times> 'x ctl_world) option" where
  "waitForKeyGrant W B E dev apiURL session grantID w =
     wait_loop W B E dev (get_request (apiURL @ ''/access/grants/'' @ cb_path_escape B grantID @ ''/key-status'') session)
       (out_now W (cw_out w) + keyGrantWaitTimeout) w"

end
