(* ===== verification/Ctl_Command.thy ===== *)
theory Ctl_Command
  imports Ctl_Client
begin

section \<open>The command line client: SSH and the proxy (cmd/ternalctl/main.go)\<close>

text \<open>
  The commands that issue a grant, wait until the agent has installed the key, and start \<^verbatim>\<open>ssh\<close> or the
  transport; the helpers that check and rewrite what they start; and the dispatch of \<^verbatim>\<open>main\<close>.
\<close>

datatype ctl_run = Failed ctl_error | Started string "string list" | Printed "string list"

record helper_out =
  ho_temp :: bool
  ho_run :: bool
  ho_read :: bool
  ho_output :: string

text \<open>What the commands ask of the operating system.  \<open>cx_helper\<close> is the run of \<^verbatim>\<open>pigeons endpoint-id\<close>.\<close>

record ctl_os =
  cx_goos :: string
  cx_executable :: "string option"
  cx_exists :: "string \<Rightarrow> bool"
  cx_lookPath :: "string \<Rightarrow> string option"
  cx_home :: "string option"
  cx_file :: "string \<Rightarrow> string option"
  cx_helper :: helper_out

subsection \<open>Checks and rewriting\<close>

definition space_bytes :: string where "space_bytes = [CHR '' '', CHR 0x09, CHR 0x0D, CHR 0x0A]"

definition bad_word :: "string \<Rightarrow> bool" where
  "bad_word v \<longleftrightarrow> v = '''' \<or> HasPrefix v ''-'' \<or> ContainsAny v space_bytes"

fun valid_routes :: "string list \<Rightarrow> bool" where
  "valid_routes [] = True"
| "valid_routes [flag] = False"
| "valid_routes (flag # v # rest) = ((flag = ''--direct-address'' \<or> flag = ''--relay-url'') \<and> \<not> bad_word v \<and> valid_routes rest)"

definition validateProxyInvocation :: "string \<Rightarrow> string \<Rightarrow> string list \<Rightarrow> ctl_error option" where
  "validateProxyInvocation hostRef endpointPort routeArgs =
     (if bad_word hostRef then Some CInvalidProxy
      else let parts = Split endpointPort (CHR '':'') in
        if length parts \<noteq> 2 \<or> parts ! 0 = '''' \<or> parts ! 1 = '''' then Some CInvalidProxy
        else if routeArgs = [] \<or> odd (length routeArgs) then Some CInvalidProxy
        else if \<not> valid_routes routeArgs then Some CInvalidProxy else None)"

definition ctl_shellQuote :: "string \<Rightarrow> string" where
  "ctl_shellQuote v =
     (if \<not> ContainsAny v [CHR '' '', CHR 0x09, squote, bslash, dquote] then v
      else [squote] @ ReplaceAll v [squote] squote_escape @ [squote])"

definition rewriteCTLPath :: "string \<Rightarrow> string \<Rightarrow> string" where
  "rewriteCTLPath text executable = ReplaceAll text ''=ternalctl '' (''='' @ ctl_shellQuote executable @ '' '')"

text \<open>\<open>cb_parse_key\<close> gives the type and the SHA-256 fingerprint of an authorized key.  The result is what is printed.\<close>

definition writeKnownHostKey :: "ctl_lib \<Rightarrow> string \<Rightarrow> string list \<Rightarrow> ctl_error + string" where
  "writeKnownHostKey B expected args =
     (case args of
        [invocation, actual, keyType, keyData] \<Rightarrow>
          if invocation = ''ORDER'' \<and> actual = ''NONE'' \<and> keyType = ''NONE'' \<and> keyData = ''NONE'' then Inr ''''
          else if invocation \<noteq> ''HOSTNAME'' then Inl CKeyInvocation
          else if expected \<noteq> actual then Inl CKeyMismatch
          else (case cb_parse_key B (keyType @ '' '' @ keyData) of
                  None \<Rightarrow> Inl CKeyInvalid
                | Some (t, fingerprint) \<Rightarrow>
                    if t \<noteq> keyType \<or> fingerprint \<noteq> expected then Inl CKeyMismatch
                    else Inr (''* '' @ keyType @ '' '' @ keyData @ [newline]))
      | _ \<Rightarrow> Inl CKeyArguments)"

definition ctl_findPigeons :: "ctl_os \<Rightarrow> ctl_env \<Rightarrow> string" where
  "ctl_findPigeons os E =
     (let name = pigeonsFileName (cx_goos os); bin = ce_env E ''TERNAL_TRANSPORT_BIN'' in
      if bin \<noteq> '''' \<and> cx_exists os bin then bin
      else case (case cx_executable os of
                   None \<Rightarrow> None
                 | Some execPath \<Rightarrow> let candidate = filepath_Join [filepath_Dir execPath, name] in if cx_exists os candidate then Some candidate else None) of
        Some candidate \<Rightarrow> candidate
      | None \<Rightarrow> (case cx_lookPath os name of Some path \<Rightarrow> path | None \<Rightarrow> ''''))"

definition homeSSHKeyDir :: "ctl_os \<Rightarrow> ctl_error + string" where
  "homeSSHKeyDir os =
     (case cx_home os of
        None \<Rightarrow> Inl COS
      | Some home \<Rightarrow> if \<not> filepath_IsAbs home then Inl COS else Inr (filepath_Join [home, ''.ssh'']))"

definition persistentEndpointID :: "ctl_os \<Rightarrow> ctl_error + string" where
  "persistentEndpointID os =
     (if \<not> ho_temp (cx_helper os) \<or> \<not> ho_run (cx_helper os) \<or> \<not> ho_read (cx_helper os) then Inl COS
      else let endpointID = TrimSpace (ho_output (cx_helper os)) in
        if length endpointID \<noteq> 64 then Inl CInvalidEndpoint
        else if \<not> list_all is_hex_digit endpointID then Inl CInvalidEndpoint
        else Inr (ToLower endpointID))"

subsection \<open>Commands\<close>

definition json_args :: "ctl_lib \<Rightarrow> (string \<times> json) list \<Rightarrow> string list" where
  "json_args B m = (case map_of m ''args'' of Some (JArray xs) \<Rightarrow> map (cb_sprint B) xs | _ \<Rightarrow> [])"

text \<open>Acquiring the grant: the identifier of the grant and the response, after the key was installed.\<close>

definition acquire_grant ::
    "'x outside \<Rightarrow> ctl_lib \<Rightarrow> ctl_env \<Rightarrow> bool \<Rightarrow> string \<Rightarrow> Session option \<Rightarrow> string \<Rightarrow> string \<Rightarrow> 'x ctl_world \<Rightarrow>
     ((ctl_error + (string \<times> json) list) \<times> 'x ctl_world) option" where
  "acquire_grant W B E dev apiURL session hostID sshUser w =
     (case postJSON W B E dev (apiURL @ ''/access/ssh'') (Some [(''host_id'', JString hostID), (''ssh_user'', JString sshUser)]) w of
        (Inl e, w1) \<Rightarrow> Some (Inl e, w1)
      | (Inr resp, w1) \<Rightarrow>
          let grantID = string_field resp ''grant_id'' in
          if grantID = '''' then Some (Inl CNoGrant, w1)
          else (case waitForKeyGrant W B E dev apiURL session grantID w1 of
                  None \<Rightarrow> None
                | Some (Some e, w2) \<Rightarrow> Some (Inl e, w2)
                | Some (None, w2) \<Rightarrow> Some (Inr resp, w2)))"

definition cmdSSH ::
    "'x outside \<Rightarrow> ctl_lib \<Rightarrow> ctl_env \<Rightarrow> ctl_os \<Rightarrow> bool \<Rightarrow> string \<Rightarrow> string \<Rightarrow> 'x ctl_world \<Rightarrow> (ctl_run \<times> 'x ctl_world) option" where
  "cmdSSH W B E os dev apiURL hostName w =
     (case current_session W E w of
        Inl e \<Rightarrow> Some (Failed CNotLoggedIn, w)
      | Inr session \<Rightarrow>
          (case listHosts W B E dev apiURL session w of
             (Inl e, w1) \<Rightarrow> Some (Failed e, w1)
           | (Inr hs, w1) \<Rightarrow>
               (case find (\<lambda>h. ch_Name h = hostName) hs of
                  None \<Rightarrow> Some (Failed CHostNotFound, w1)
                | Some target \<Rightarrow>
                    (case acquire_grant W B E dev apiURL (Some session) (ch_ID target) (ch_SSHUser target) w1 of
                       None \<Rightarrow> None
                     | Some (Inl e, w2) \<Rightarrow> Some (Failed e, w2)
                     | Some (Inr resp, w2) \<Rightarrow>
                         (case cx_executable os of
                            None \<Rightarrow> Some (Failed COS, w2)
                          | Some executable \<Rightarrow>
                              Some (Started (string_field resp ''program'') (map (\<lambda>a. rewriteCTLPath a executable) (json_args B resp)), w2))))))"

definition cmdProxy ::
    "'x outside \<Rightarrow> ctl_lib \<Rightarrow> ctl_env \<Rightarrow> ctl_os \<Rightarrow> bool \<Rightarrow> string \<Rightarrow> string \<Rightarrow> string \<Rightarrow> string list \<Rightarrow> 'x ctl_world \<Rightarrow> (ctl_run \<times> 'x ctl_world) option" where
  "cmdProxy W B E os dev apiURL hostRef endpointPort routeArgs w =
     (let session = (case current_session W E w of Inl e \<Rightarrow> None | Inr s \<Rightarrow> Some s) in
      if session = None \<and> \<not> developmentHeadersAllowed E apiURL then Some (Failed CNotLoggedIn, w)
      else case validateProxyInvocation hostRef endpointPort routeArgs of
        Some e \<Rightarrow> Some (Failed e, w)
      | None \<Rightarrow>
          (case getProxyHost W B E dev apiURL session hostRef w of
             (Inl e, w1) \<Rightarrow> Some (Failed e, w1)
           | (Inr host, w1) \<Rightarrow>
               (case acquire_grant W B E dev apiURL session hostRef (ch_SSHUser host) w1 of
                  None \<Rightarrow> None
                | Some (Inl e, w2) \<Rightarrow> Some (Failed e, w2)
                | Some (Inr resp, w2) \<Rightarrow>
                    if ctl_findPigeons os E = '''' then Some (Failed CNoPigeons, w2)
                    else (case homeSSHKeyDir os of
                       Inl e \<Rightarrow> Some (Failed e, w2)
                     | Inr keyDir \<Rightarrow>
                         (case persistentEndpointID os of
                            Inl e \<Rightarrow> Some (Failed e, w2)
                          | Inr clientEndpointID \<Rightarrow>
                              (case postJSON W B E dev (apiURL @ ''/access/relay-grants'')
                                      (Some [(''host_id'', JString hostRef), (''client_endpoint_id'', JString clientEndpointID),
                                             (''ssh_user'', JString (ch_SSHUser host)), (''ttl'', JNumber ''300'')]) w2 of
                                 (Inl e, w3) \<Rightarrow> Some (Failed e, w3)
                               | (Inr _, w3) \<Rightarrow>
                                   Some (Started (ctl_findPigeons os E)
                                     ([''fly'', ''--stdio'', hd (Split endpointPort (CHR '':'')), ''--key-dir'', keyDir] @ routeArgs), w3)))))))"

definition cmdSSHConfig ::
    "'x outside \<Rightarrow> ctl_lib \<Rightarrow> ctl_env \<Rightarrow> ctl_os \<Rightarrow> bool \<Rightarrow> string \<Rightarrow> 'x ctl_world \<Rightarrow> ctl_run \<times> 'x ctl_world" where
  "cmdSSHConfig W B E os dev apiURL w =
     (case current_session W E w of
        Inl e \<Rightarrow> (Failed CNotLoggedIn, w)
      | Inr session \<Rightarrow>
          (case client_Do W E dev (get_request (apiURL @ ''/access/ssh-config'') (Some session)) w of
             (Inl e, w1) \<Rightarrow> (Failed e, w1)
           | (Inr resp, w1) \<Rightarrow>
               if cr_Status resp < 200 \<or> cr_Status resp \<ge> 300 then (Failed (CStatus (cr_Status resp)), w1)
               else case cx_executable os of
                 None \<Rightarrow> (Failed COS, w1)
               | Some executable \<Rightarrow>
                   (case map_of (elems (cb_object B (cr_Body resp))) ''configs'' of
                      Some (JArray cs) \<Rightarrow> (Printed (concat (map (\<lambda>c. [rewriteCTLPath (cb_sprint B c) executable, '''']) cs)), w1)
                    | _ \<Rightarrow> (Printed [], w1))))"

text \<open>\<^verbatim>\<open>whoami\<close>, \<^verbatim>\<open>hosts\<close> and \<^verbatim>\<open>endpoint\<close> only print; the printed lines are the result.\<close>

definition session_get ::
    "'x outside \<Rightarrow> ctl_env \<Rightarrow> bool \<Rightarrow> string \<Rightarrow> Session \<Rightarrow> (string \<Rightarrow> string list) \<Rightarrow> 'x ctl_world \<Rightarrow> ctl_run \<times> 'x ctl_world" where
  "session_get W E dev url session print w =
     (case client_Do W E dev (get_request url (Some session)) w of
        (Inl e, w1) \<Rightarrow> (Failed e, w1)
      | (Inr resp, w1) \<Rightarrow>
          if cr_Status resp < 200 \<or> cr_Status resp \<ge> 300 then (Failed (CStatus (cr_Status resp)), w1)
          else (Printed (print (cr_Body resp)), w1))"

definition whoami_lines :: "ctl_lib \<Rightarrow> (string \<times> json) list \<Rightarrow> string list" where
  "whoami_lines B result =
     (if map_of result ''authenticated'' = Some (JBool True) then
        (case map_of result ''user'' of
           Some (JObject user) \<Rightarrow>
             (''User: '' @ cb_verb_s B (map_of user ''sub'')) #
             (case map_of user ''groups'' of Some (JArray groups) \<Rightarrow> [''Groups: '' @ cb_sprint B (JArray groups)] | _ \<Rightarrow> [])
         | _ \<Rightarrow> [])
      else [''Not authenticated''])"

definition cmdWhoami :: "'x outside \<Rightarrow> ctl_lib \<Rightarrow> ctl_env \<Rightarrow> bool \<Rightarrow> string \<Rightarrow> 'x ctl_world \<Rightarrow> ctl_run \<times> 'x ctl_world" where
  "cmdWhoami W B E dev apiURL w =
     (case current_session W E w of
        Inl e \<Rightarrow> (Failed CNotLoggedIn, w)
      | Inr session \<Rightarrow> session_get W E dev (apiURL @ ''/auth/session'') session (\<lambda>body. whoami_lines B (elems (cb_object B body))) w)"

definition cmdHosts :: "'x outside \<Rightarrow> ctl_lib \<Rightarrow> ctl_env \<Rightarrow> bool \<Rightarrow> string \<Rightarrow> 'x ctl_world \<Rightarrow> ctl_run \<times> 'x ctl_world" where
  "cmdHosts W B E dev apiURL w =
     (case current_session W E w of
        Inl e \<Rightarrow> (Failed CNotLoggedIn, w)
      | Inr session \<Rightarrow>
          session_get W E dev (apiURL @ ''/hosts'') session
            (\<lambda>body. map (\<lambda>h. cb_pad B 20 (ch_Name h) @ '' '' @ ch_Status h) (case cb_hosts B body of Some hs \<Rightarrow> hs | None \<Rightarrow> cb_hosts_left B body)) w)"

definition endpoint_lines :: "ctl_lib \<Rightarrow> string \<Rightarrow> (string \<times> json) list \<Rightarrow> string list" where
  "endpoint_lines B hostName discovery =
     (''Host: '' @ hostName) #
     (case map_of discovery ''direct_addresses'' of Some (JArray addrs) \<Rightarrow> [''Direct addresses: '' @ cb_sprint B (JArray addrs)] | _ \<Rightarrow> []) @
     (case map_of discovery ''relay_urls'' of Some (JArray relays) \<Rightarrow> [''Relay URLs: '' @ cb_sprint B (JArray relays)] | _ \<Rightarrow> [])"

definition cmdEndpoint :: "'x outside \<Rightarrow> ctl_lib \<Rightarrow> ctl_env \<Rightarrow> bool \<Rightarrow> string \<Rightarrow> string \<Rightarrow> 'x ctl_world \<Rightarrow> ctl_run \<times> 'x ctl_world" where
  "cmdEndpoint W B E dev apiURL hostName w =
     (case current_session W E w of
        Inl e \<Rightarrow> (Failed CNotLoggedIn, w)
      | Inr session \<Rightarrow>
          (case listHosts W B E dev apiURL session w of
             (Inl e, w1) \<Rightarrow> (Failed e, w1)
           | (Inr hs, w1) \<Rightarrow>
               (case find (\<lambda>h. ch_Name h = hostName) hs of
                  None \<Rightarrow> (Failed CHostNotFound, w1)
                | Some target \<Rightarrow>
                    session_get W E dev (apiURL @ ''/access/discovery/'' @ ch_ID target) session
                      (\<lambda>body. endpoint_lines B hostName (elems (cb_object B body))) w1)))"

definition cmdSubmitKey ::
    "'x outside \<Rightarrow> ctl_lib \<Rightarrow> ctl_env \<Rightarrow> ctl_os \<Rightarrow> bool \<Rightarrow> string \<Rightarrow> string \<Rightarrow> 'x ctl_world \<Rightarrow> ctl_run \<times> 'x ctl_world" where
  "cmdSubmitKey W B E os dev apiURL keyPath w =
     (case current_session W E w of
        Inl e \<Rightarrow> (Failed CNotLoggedIn, w)
      | Inr session \<Rightarrow>
          (case cx_file os keyPath of
             None \<Rightarrow> (Failed COS, w)
           | Some keyData \<Rightarrow>
               (case postJSON W B E dev (apiURL @ ''/ssh-keys'') (Some [(''public_key'', JString (TrimSpace keyData))]) w of
                  (Inl e, w1) \<Rightarrow> (Failed e, w1)
                | (Inr _, w1) \<Rightarrow> (Printed [''Key submitted successfully.''], w1))))"

subsection \<open>The entry point\<close>

datatype ctl_command =
    Cmd_prepare string | Cmd_login | Cmd_logout | Cmd_whoami | Cmd_hosts | Cmd_ssh string | Cmd_sshConfig | Cmd_submitKey string | Cmd_endpoint string
  | Cmd_proxy string string "string list" | Cmd_knownHostKey string "string list"

definition api_command :: "string list \<Rightarrow> ctl_error + ctl_command" where
  "api_command args =
     (let c = hd args; n = length args in
      if c = ''login'' then Inr Cmd_login
      else if c = ''logout'' then Inr Cmd_logout
      else if c = ''whoami'' then Inr Cmd_whoami
      else if c = ''hosts'' then Inr Cmd_hosts
      else if c = ''ssh'' then (if n < 2 then Inl CUsage else Inr (Cmd_ssh (args ! 1)))
      else if c = ''ssh-config'' then Inr Cmd_sshConfig
      else if c = ''submit-key'' then (if n < 2 then Inl CUsage else Inr (Cmd_submitKey (args ! 1)))
      else if c = ''endpoint'' then (if n < 2 then Inl CUsage else Inr (Cmd_endpoint (args ! 1)))
      else if c = ''proxy'' then (if n < 3 then Inl CUsage else Inr (Cmd_proxy (args ! 1) (args ! 2) (drop 3 args)))
      else if c = ''known-host-key'' then (if n \<noteq> 6 then Inl CUsage else Inr (Cmd_knownHostKey (args ! 1) (drop 2 args)))
      else Inl CUsage)"

text \<open>The command with the API URL and whether the development headers are sent; \<open>args\<close> are the arguments after the program.\<close>

definition ctl_main :: "ctl_env \<Rightarrow> string list \<Rightarrow> ctl_error + (string \<times> bool) option \<times> ctl_command" where
  "ctl_main E args =
     (if args = [] then Inl CUsage
      else if hd args = ''prepare-members'' then (if length args \<noteq> 2 then Inl CUsage else Inr (None, Cmd_prepare (args ! 1)))
      else let apiURL = ctl_getEnv E ''TERNAL_API_URL'' defaultAPIURL in
        case validateAPIURL E apiURL of
          Some e \<Rightarrow> Inl e
        | None \<Rightarrow>
            (case newHTTPClient E apiURL of
               Inl e \<Rightarrow> Inl e
             | Inr dev \<Rightarrow> (case api_command args of Inl e \<Rightarrow> Inl e | Inr c \<Rightarrow> Inr (Some (apiURL, dev), c))))"

end
