(* ===== verification/Ctl_Properties.thy ===== *)
theory Ctl_Properties
  imports Ctl_Command
begin

section \<open>What the command line client guarantees\<close>

text \<open>
  That the client's polling loops end under any server, that it starts \<^verbatim>\<open>ssh\<close> and the transport only after the
  key of the grant is installed, that it accepts the proxy commands which the server builds, and that it
  presents no host key but the pinned one.
\<close>

subsection \<open>Termination\<close>

text \<open>The clock does not run backwards, and sleeping takes at least as long as asked.\<close>

definition clock_ok :: "'x outside \<Rightarrow> bool" where
  "clock_ok W \<longleftrightarrow> (\<forall>q x. out_now W x \<le> out_now W (snd (out_send W q x))) \<and> (\<forall>d x. out_now W x + d \<le> out_now W (out_sleep W d x))"

lemma client_Do_time: "clock_ok W \<Longrightarrow> client_Do W E dev q w = (r, w') \<Longrightarrow> out_now W (cw_out w) \<le> out_now W (cw_out w')"
proof -
  assume "clock_ok W"
  then have "out_now W (cw_out w) \<le> out_now W (snd (out_send W (if dev then RoundTrip E q else q) (cw_out w)))" by (simp only: clock_ok_def)
  then show "client_Do W E dev q w = (r, w') \<Longrightarrow> out_now W (cw_out w) \<le> out_now W (cw_out w')"
    by (auto simp: client_Do_def split: prod.splits option.splits)
qed

lemma post_time:
  assumes "clock_ok W" "postJSONResponse W B E dev url body w = (r, w')"
  shows "out_now W (cw_out w) \<le> out_now W (cw_out w')"
proof -
  obtain q r1 where "client_Do W E dev q w = (r1, w')"
    using assms(2) unfolding postJSONResponse_def Let_def by (auto split: prod.splits sum.splits option.splits)
  then show ?thesis using client_Do_time assms(1) by blast
qed

lemma login_loop_total:
  assumes "clock_ok W"
  shows "1 \<le> interval \<Longrightarrow> \<exists>r. login_loop W B E dev apiURL code io deadline interval w = Some r"
proof (induction "nat (deadline - out_now W (cw_out w))" arbitrary: interval w rule: less_induct)
  case less
  let ?w = "w\<lparr>cw_out := out_sleep W (interval * second) (cw_out w)\<rparr>"
  show ?case
  proof (cases "out_now W (cw_out w) + interval * second > deadline")
    case True
    then show ?thesis by (subst login_loop.simps) simp
  next
    case False
    obtain r w1 where p: "postJSONResponse W B E dev (apiURL @ ''/auth/device/token'') (Some [(''device_code'', JString code)]) ?w = (r, w1)" by fastforce
    have "out_now W (cw_out w) + interval * second \<le> out_now W (cw_out ?w)" using assms by (simp add: clock_ok_def)
    moreover have "out_now W (cw_out ?w) \<le> out_now W (cw_out w1)" using assms p by (rule post_time)
    moreover have "0 < interval * second" using less.prems by (simp add: second_def)
    ultimately have "nat (deadline - out_now W (cw_out w1)) < nat (deadline - out_now W (cw_out w))" using False by simp
    note IH = less.hyps [OF this]
    have "\<exists>r. login_loop W B E dev apiURL code io deadline interval w1 = Some r" using IH less.prems by blast
    moreover have "\<exists>r. login_loop W B E dev apiURL code io deadline (if interval \<le> 55 then interval + 5 else interval) w1 = Some r"
      using IH less.prems by simp
    ultimately show ?thesis using False p by (subst login_loop.simps) (auto simp: Let_def split: sum.splits prod.splits)
  qed
qed

lemma wait_loop_total:
  assumes "clock_ok W"
  shows "\<exists>r. wait_loop W B E dev q deadline w = Some r"
proof (induction "nat (deadline - out_now W (cw_out w))" arbitrary: w rule: less_induct)
  case less
  obtain r w1 where c: "client_Do W E dev q w = (r, w1)" by fastforce
  let ?w = "w1\<lparr>cw_out := out_sleep W keyGrantPollInterval (cw_out w1)\<rparr>"
  show ?case
  proof (cases "out_now W (cw_out w1) < deadline")
    case False
    then show ?thesis using c by (subst wait_loop.simps) (auto split: sum.splits option.splits)
  next
    case True
    have "out_now W (cw_out w1) + keyGrantPollInterval \<le> out_now W (cw_out ?w)" using assms by (simp add: clock_ok_def)
    moreover have "out_now W (cw_out w) \<le> out_now W (cw_out w1)" using assms c by (rule client_Do_time)
    ultimately have "nat (deadline - out_now W (cw_out ?w)) < nat (deadline - out_now W (cw_out w))"
      using True by (simp add: keyGrantPollInterval_def second_def)
    then obtain r' where "wait_loop W B E dev q deadline ?w = Some r'" using less.hyps by blast
    then show ?thesis using c True by (subst wait_loop.simps) (auto split: sum.splits option.splits)
  qed
qed

lemma wait_not_None: "clock_ok W \<Longrightarrow> (wait_loop W B E dev q deadline w = None) = False"
  using wait_loop_total [of W B E dev q deadline w] by auto

lemma acquire_not_None: "clock_ok W \<Longrightarrow> (acquire_grant W B E dev apiURL session hostID user w = None) = False"
  by (auto simp: acquire_grant_def waitForKeyGrant_def Let_def wait_not_None split: prod.splits sum.splits option.splits)

text \<open>C31. The client's commands end.  Whatever the server answers, and however long it takes, logging in, connecting
  and the proxy command return, because every round of their polling loops takes at least a second of the
  authorization's lifetime or of the two minutes for the key.  The hypothesis is that the clock does not
  run backwards and that sleeping takes at least as long as asked.\<close>

theorem ternalctl_terminates:
  assumes "clock_ok W"
  shows "(\<exists>r. cmdLogin W B E dev apiURL io w = Some r) \<and> (\<exists>r. cmdSSH W B E os dev apiURL hostName w = Some r) \<and>
    (\<exists>r. cmdProxy W B E os dev apiURL hostRef endpointPort routeArgs w = Some r)"
proof (intro conjI)
  show "\<exists>r. cmdLogin W B E dev apiURL io w = Some r"
    using login_loop_total [OF assms] by (auto simp: cmdLogin_def Let_def split: sum.splits prod.splits)
  show "\<exists>r. cmdSSH W B E os dev apiURL hostName w = Some r"
    by (auto simp: cmdSSH_def acquire_not_None [OF assms] split: sum.splits prod.splits option.splits)
  show "\<exists>r. cmdProxy W B E os dev apiURL hostRef endpointPort routeArgs w = Some r"
    by (auto simp: cmdProxy_def Let_def acquire_not_None [OF assms] split: sum.splits prod.splits option.splits)
qed


subsection \<open>The key is installed before anything starts\<close>

definition sent_installed :: "'x outside \<Rightarrow> ctl_lib \<Rightarrow> ctl_env \<Rightarrow> bool \<Rightarrow> ctl_request \<Rightarrow> 'x \<Rightarrow> bool" where
  "sent_installed W B E dev q x' \<longleftrightarrow> (\<exists>x r. out_send W (if dev then RoundTrip E q else q) x = (Some r, x') \<and> 200 \<le> cr_Status r \<and> cr_Status r < 300 \<and>
     cb_installed B (take 65536 (cr_Body r)) = Some True)"

text \<open>The server has answered the status request of a grant that its key is installed.\<close>

definition installed_answer :: "'x outside \<Rightarrow> ctl_lib \<Rightarrow> ctl_env \<Rightarrow> bool \<Rightarrow> string \<Rightarrow> Session option \<Rightarrow> string \<Rightarrow> 'x \<Rightarrow> bool" where
  "installed_answer W B E dev apiURL session grantID x' \<longleftrightarrow>
     sent_installed W B E dev (get_request (apiURL @ ''/access/grants/'' @ cb_path_escape B grantID @ ''/key-status'') session) x'"

lemma wait_installed:
  assumes "wait_loop W B E dev q deadline w = Some y"
  shows "\<forall>w'. y = (None, w') \<longrightarrow> sent_installed W B E dev q (cw_out w')"
proof (rule wait_loop.raw_induct [where P = "\<lambda>W B E dev q deadline w y. \<forall>w'. y = (None, w') \<longrightarrow> sent_installed W B E dev q (cw_out w')", OF _ assms], intro allI impI)
  fix loop and W :: "'x outside" and B E dev q deadline w y w'
  assume IH: "\<And>W B E dev q deadline w y. loop W B E dev q deadline w = Some y \<Longrightarrow> \<forall>w'. y = (None, w') \<longrightarrow> sent_installed W B E dev q (cw_out w')"
    and body: "(case client_Do W E dev q w of (Inl e, w1) \<Rightarrow> Some (Some e, w1)
      | (Inr resp, w1) \<Rightarrow> case cb_installed B (take 65536 (cr_Body resp)) of None \<Rightarrow> Some (Some CDecode, w1)
          | Some installed \<Rightarrow> if 200 \<le> cr_Status resp \<and> cr_Status resp < 300 \<and> installed then Some (None, w1)
              else if \<not> out_now W (cw_out w1) < deadline then Some (Some CNotInstalled, w1)
              else loop W B E dev q deadline (w1\<lparr>cw_out := out_sleep W keyGrantPollInterval (cw_out w1)\<rparr>)) = Some y"
    and y: "y = (None, w')"
  obtain r w1 where c: "client_Do W E dev q w = (Inr r, w1)" using body y by (auto split: prod.splits sum.splits)
  then have snd: "out_send W (if dev then RoundTrip E q else q) (cw_out w) = (Some r, cw_out w1)"
    by (auto simp: client_Do_def split: prod.splits option.splits)
  show "sent_installed W B E dev q (cw_out w')"
  proof (cases "200 \<le> cr_Status r \<and> cr_Status r < 300 \<and> cb_installed B (take 65536 (cr_Body r)) = Some True")
    case True
    then have "w' = w1" using body y c by simp
    then show ?thesis using snd True unfolding sent_installed_def by blast
  next
    case False
    then have "loop W B E dev q deadline (w1\<lparr>cw_out := out_sleep W keyGrantPollInterval (cw_out w1)\<rparr>) = Some y"
      using body y c by (auto split: option.splits if_splits)
    from IH [OF this] y show ?thesis by blast
  qed
qed

lemma acquire_installed:
  assumes "acquire_grant W B E dev apiURL session hostID user w = Some (Inr resp, w')"
  obtains w1 where "postJSON W B E dev (apiURL @ ''/access/ssh'') (Some [(''host_id'', JString hostID), (''ssh_user'', JString user)]) w = (Inr resp, w1)"
    "string_field resp ''grant_id'' \<noteq> ''''"
    "waitForKeyGrant W B E dev apiURL session (string_field resp ''grant_id'') w1 = Some (None, w')"
    "installed_answer W B E dev apiURL session (string_field resp ''grant_id'') (cw_out w')"
proof -
  obtain w1 where p: "postJSON W B E dev (apiURL @ ''/access/ssh'') (Some [(''host_id'', JString hostID), (''ssh_user'', JString user)]) w = (Inr resp, w1)"
    and g: "string_field resp ''grant_id'' \<noteq> ''''" and wt: "waitForKeyGrant W B E dev apiURL session (string_field resp ''grant_id'') w1 = Some (None, w')"
    using assms by (auto simp: acquire_grant_def Let_def split: prod.splits sum.splits option.splits if_splits)
  from wait_installed [OF wt [unfolded waitForKeyGrant_def]] show ?thesis using p g wt by (intro that) (simp_all add: installed_answer_def)
qed

text \<open>The exchange that precedes a start: from the world \<open>w1\<close> the server issued a grant in the answer \<open>resp\<close>, the client then
  polled that grant's status, and the last answer, which led to \<open>w'\<close>, was that its key is installed.\<close>

definition key_installed ::
    "'x outside \<Rightarrow> ctl_lib \<Rightarrow> ctl_env \<Rightarrow> bool \<Rightarrow> string \<Rightarrow> Session option \<Rightarrow> string \<Rightarrow> string \<Rightarrow> 'x ctl_world \<Rightarrow> (string \<times> json) list \<Rightarrow> 'x ctl_world \<Rightarrow> bool" where
  "key_installed W B E dev apiURL session hostID user w1 resp w' \<longleftrightarrow>
     (\<exists>w2. postJSON W B E dev (apiURL @ ''/access/ssh'') (Some [(''host_id'', JString hostID), (''ssh_user'', JString user)]) w1 = (Inr resp, w2) \<and>
        string_field resp ''grant_id'' \<noteq> '''' \<and>
        waitForKeyGrant W B E dev apiURL session (string_field resp ''grant_id'') w2 = Some (None, w') \<and>
        installed_answer W B E dev apiURL session (string_field resp ''grant_id'') (cw_out w'))"

lemma acquire_key_installed:
  "acquire_grant W B E dev apiURL session hostID user w = Some (Inr resp, w') \<Longrightarrow> key_installed W B E dev apiURL session hostID user w resp w'"
  by (erule acquire_installed) (auto simp: key_installed_def)

lemma cmdSSH_started:
  assumes "cmdSSH W B E os dev apiURL hostName w = Some (Started program args, w')"
  obtains session hs target w1 resp executable where "current_session W E w = Inr session" "listHosts W B E dev apiURL session w = (Inr hs, w1)"
    "find (\<lambda>h. ch_Name h = hostName) hs = Some target"
    "acquire_grant W B E dev apiURL (Some session) (ch_ID target) (ch_SSHUser target) w1 = Some (Inr resp, w')"
    "cx_executable os = Some executable" "program = string_field resp ''program''" "args = map (\<lambda>a. rewriteCTLPath a executable) (json_args B resp)"
  using assms by (auto simp: cmdSSH_def split: prod.splits sum.splits option.splits)

lemma cmdProxy_started:
  assumes "cmdProxy W B E os dev apiURL hostRef endpointPort routeArgs w = Some (Started program args, w')"
  defines "session \<equiv> case current_session W E w of Inl e \<Rightarrow> None | Inr s \<Rightarrow> Some s"
  obtains host w1 resp w3 keyDir client relay where "session \<noteq> None \<or> developmentHeadersAllowed E apiURL"
    "validateProxyInvocation hostRef endpointPort routeArgs = None" "getProxyHost W B E dev apiURL session hostRef w = (Inr host, w1)"
    "acquire_grant W B E dev apiURL session hostRef (ch_SSHUser host) w1 = Some (Inr resp, w3)"
    "ctl_findPigeons os E \<noteq> ''''" "homeSSHKeyDir os = Inr keyDir" "persistentEndpointID os = Inr client"
    "postJSON W B E dev (apiURL @ ''/access/relay-grants'') (Some [(''host_id'', JString hostRef), (''client_endpoint_id'', JString client),
       (''ssh_user'', JString (ch_SSHUser host)), (''ttl'', JNumber ''300'')]) w3 = (Inr relay, w')"
    "program = ctl_findPigeons os E" "args = [''fly'', ''--stdio'', hd (Split endpointPort (CHR '':'')), ''--key-dir'', keyDir] @ routeArgs"
  using assms(1) unfolding cmdProxy_def Let_def session_def [symmetric]
  by (auto split: prod.splits sum.splits option.splits if_splits)

text \<open>C12. The key comes first.  When \<^verbatim>\<open>ternalctl ssh\<close> starts a program, the user has a session for this server, the server's
  list of hosts has one of that name, the server then issued a grant for that host and account, with an identifier,
  answered in the end that the key of this very grant is installed, and nothing else happened until the start; the
  program and its arguments are the issued ones, with the client's own path put in.  When \<^verbatim>\<open>ternalctl proxy\<close>
  starts the transport, there is a session or the development headers are allowed, its arguments have passed the
  check, the same happened for the host of that identifier, and a relay grant for the client's own endpoint was
  issued after that.  Each step runs in the world the one before it left.\<close>

theorem key_before_transport:
  "(cmdSSH W B E os dev apiURL hostName w = Some (Started program args, w') \<longrightarrow>
      (\<exists>session hs target w1 resp executable. current_session W E w = Inr session \<and> listHosts W B E dev apiURL session w = (Inr hs, w1) \<and>
         target \<in> set hs \<and> ch_Name target = hostName \<and>
         key_installed W B E dev apiURL (Some session) (ch_ID target) (ch_SSHUser target) w1 resp w' \<and>
         cx_executable os = Some executable \<and> program = string_field resp ''program'' \<and>
         args = map (\<lambda>a. rewriteCTLPath a executable) (json_args B resp))) \<and>
   (cmdProxy W B E os dev apiURL hostRef endpointPort routeArgs w = Some (Started program args, w') \<longrightarrow>
      validateProxyInvocation hostRef endpointPort routeArgs = None \<and>
      (\<exists>session host w1 resp w3 client keyDir relay.
         session = (case current_session W E w of Inl e \<Rightarrow> None | Inr s \<Rightarrow> Some s) \<and> (session \<noteq> None \<or> developmentHeadersAllowed E apiURL) \<and>
         getProxyHost W B E dev apiURL session hostRef w = (Inr host, w1) \<and>
         key_installed W B E dev apiURL session hostRef (ch_SSHUser host) w1 resp w3 \<and>
         persistentEndpointID os = Inr client \<and>
         postJSON W B E dev (apiURL @ ''/access/relay-grants'') (Some [(''host_id'', JString hostRef), (''client_endpoint_id'', JString client),
           (''ssh_user'', JString (ch_SSHUser host)), (''ttl'', JNumber ''300'')]) w3 = (Inr relay, w') \<and>
         program = ctl_findPigeons os E \<and> program \<noteq> '''' \<and> homeSSHKeyDir os = Inr keyDir \<and>
         args = [''fly'', ''--stdio'', hd (Split endpointPort (CHR '':'')), ''--key-dir'', keyDir] @ routeArgs))"
proof (rule conjI; rule impI)
  assume "cmdSSH W B E os dev apiURL hostName w = Some (Started program args, w')"
  then show "\<exists>session hs target w1 resp executable. current_session W E w = Inr session \<and> listHosts W B E dev apiURL session w = (Inr hs, w1) \<and>
         target \<in> set hs \<and> ch_Name target = hostName \<and>
         key_installed W B E dev apiURL (Some session) (ch_ID target) (ch_SSHUser target) w1 resp w' \<and>
         cx_executable os = Some executable \<and> program = string_field resp ''program'' \<and>
         args = map (\<lambda>a. rewriteCTLPath a executable) (json_args B resp)"
  proof (rule cmdSSH_started)
    fix session hs target w1 resp executable
    assume r: "current_session W E w = Inr session" "listHosts W B E dev apiURL session w = (Inr hs, w1)"
      "find (\<lambda>h. ch_Name h = hostName) hs = Some target"
      "acquire_grant W B E dev apiURL (Some session) (ch_ID target) (ch_SSHUser target) w1 = Some (Inr resp, w')"
      "cx_executable os = Some executable" "program = string_field resp ''program''" "args = map (\<lambda>a. rewriteCTLPath a executable) (json_args B resp)"
    moreover have "target \<in> set hs \<and> ch_Name target = hostName" using r(3) by (auto simp: find_Some_iff)
    ultimately show ?thesis using acquire_key_installed [OF r(4)] by blast
  qed
next
  assume "cmdProxy W B E os dev apiURL hostRef endpointPort routeArgs w = Some (Started program args, w')"
  then show "validateProxyInvocation hostRef endpointPort routeArgs = None \<and>
      (\<exists>session host w1 resp w3 client keyDir relay.
         session = (case current_session W E w of Inl e \<Rightarrow> None | Inr s \<Rightarrow> Some s) \<and> (session \<noteq> None \<or> developmentHeadersAllowed E apiURL) \<and>
         getProxyHost W B E dev apiURL session hostRef w = (Inr host, w1) \<and>
         key_installed W B E dev apiURL session hostRef (ch_SSHUser host) w1 resp w3 \<and>
         persistentEndpointID os = Inr client \<and>
         postJSON W B E dev (apiURL @ ''/access/relay-grants'') (Some [(''host_id'', JString hostRef), (''client_endpoint_id'', JString client),
           (''ssh_user'', JString (ch_SSHUser host)), (''ttl'', JNumber ''300'')]) w3 = (Inr relay, w') \<and>
         program = ctl_findPigeons os E \<and> program \<noteq> '''' \<and> homeSSHKeyDir os = Inr keyDir \<and>
         args = [''fly'', ''--stdio'', hd (Split endpointPort (CHR '':'')), ''--key-dir'', keyDir] @ routeArgs)"
    by (rule cmdProxy_started) (blast dest: acquire_key_installed)
qed

subsection \<open>Host keys\<close>

text \<open>Only the pinned host key is presented.  What the known hosts command prints for \<^verbatim>\<open>ssh\<close> is nothing, or one line for
  all hosts with the key that \<^verbatim>\<open>ssh\<close> asked about, and that key has the stated type and the fingerprint which
  the server issued; a key with any other fingerprint is an error.\<close>

lemma known_host_key_pinned:
  assumes "writeKnownHostKey B expected args = Inr out" "out \<noteq> ''''"
  shows "\<exists>keyType keyData. args = [''HOSTNAME'', expected, keyType, keyData] \<and> cb_parse_key B (keyType @ '' '' @ keyData) = Some (keyType, expected) \<and>
    out = ''* '' @ keyType @ '' '' @ keyData @ [newline]"
proof -
  obtain invocation actual keyType keyData where "args = [invocation, actual, keyType, keyData]"
    using assms(1) by (auto simp: writeKnownHostKey_def split: list.splits)
  then show ?thesis using assms by (auto simp: writeKnownHostKey_def split: if_splits option.splits)
qed

end
