(* ===== verification/Ctl_Issued.thy ===== *)
theory Ctl_Issued
  imports Ctl_Properties Api_Access
begin

section \<open>The client runs what the server issues\<close>

text \<open>
  The server builds the SSH command with the bare word \<^verbatim>\<open>ternalctl\<close>; the client replaces it by its own path before
  it starts \<^verbatim>\<open>ssh\<close>, and \<^verbatim>\<open>ssh\<close> calls the client back through \<^verbatim>\<open>ProxyCommand\<close> and \<^verbatim>\<open>KnownHostsCommand\<close>.
\<close>

lemma rewrite_absent: "CHR ''='' \<notin> set s \<Longrightarrow> rewriteCTLPath s executable = s"
proof (induction s)
  case (Cons c s)
  then have "\<not> HasPrefix (c # s) ''=ternalctl ''" by auto
  then show ?case using Cons by (simp add: rewriteCTLPath_def ReplaceAll_nomatch)
qed (simp add: rewriteCTLPath_def)

lemma rewrite_skip: "CHR ''='' \<notin> set s \<Longrightarrow> rewriteCTLPath (s @ t) executable = s @ rewriteCTLPath t executable"
proof (induction s)
  case (Cons c s)
  then have "\<not> HasPrefix (c # s @ t) ''=ternalctl ''" by auto
  then show ?case using Cons by (simp add: rewriteCTLPath_def ReplaceAll_nomatch)
qed simp

lemma rewrite_word:
  assumes "CHR ''='' \<notin> set s" "CHR ''='' \<notin> set t"
  shows "rewriteCTLPath (s @ ''=ternalctl '' @ t) executable = s @ ''='' @ ctl_shellQuote executable @ '' '' @ t"
proof -
  have "rewriteCTLPath (''=ternalctl '' @ t) executable = (''='' @ ctl_shellQuote executable @ '' '') @ rewriteCTLPath t executable"
    unfolding rewriteCTLPath_def by (rule ReplaceAll_match) simp
  then show ?thesis using rewrite_skip [OF assms(1)] rewrite_absent [OF assms(2)] by simp
qed

lemma rewrite_value:
  assumes "CHR ''='' \<notin> set s" "CHR ''='' \<notin> set t" "\<not> HasPrefix t ''ternalctl ''"
  shows "rewriteCTLPath (s @ ''='' @ t) executable = s @ ''='' @ t"
proof -
  have "rewriteCTLPath (CHR ''='' # t) executable = CHR ''='' # rewriteCTLPath t executable"
    using assms(3) by (simp add: rewriteCTLPath_def ReplaceAll_nomatch)
  then show ?thesis using rewrite_skip [OF assms(1), of "CHR ''='' # t"] rewrite_absent [OF assms(2)] by simp
qed

lemma inert_no_eq: "shell_inert c \<Longrightarrow> c \<noteq> CHR ''=''"
  by (auto simp: shell_inert_def isAlphanumeric_def is_lower_def is_upper_def is_digit_def char_le_nat squote_def)

lemma Join_bytes: "c \<in> set (Join ws sep) \<Longrightarrow> c \<in> set sep \<or> (\<exists>w \<in> set ws. c \<in> set w)"
  by (induction ws sep rule: Join.induct) auto

text \<open>The route arguments that the client receives once the shell has removed the quotes.\<close>

definition route_argv :: "RelayConfig \<Rightarrow> string list \<Rightarrow> string list" where
  "route_argv rc addrs = concat (map (\<lambda>a. [''--direct-address'', a]) addrs) @ concat (map (\<lambda>u. [''--relay-url'', u]) (rc_RelayURLs rc @ rc_ExtraRelayURLs rc))"

lemma addr_word: "validDirectAddress a \<Longrightarrow> \<not> bad_word a"
proof -
  assume a: "validDirectAddress a"
  have "c \<noteq> CHR ''-'' \<and> c \<notin> set space_bytes" if "c \<in> set a" for c
    using validDirectAddress_bytes [OF a that]
    by (auto simp: addr_byte_def is_hex_digit_def is_digit_def char_le_nat space_bytes_def)
  then show ?thesis using validDirectAddress_nonempty [OF a] by (cases a) (auto simp: bad_word_def ContainsAny_iff)
qed

lemma inert_no_blank: "shell_inert c \<Longrightarrow> c \<notin> set space_bytes"
  by (auto simp: shell_inert_def isAlphanumeric_def is_lower_def is_upper_def is_digit_def char_le_nat squote_def space_bytes_def)

lemma relay_word: "validRelayURL u \<Longrightarrow> \<not> bad_word u"
proof -
  assume u: "validRelayURL u"
  then have "\<not> HasPrefix u ''-''" by (cases u) (auto simp: validRelayURL_def split: if_splits)
  then show ?thesis using validRelayURL_nonempty [OF u] validRelayURL_bytes [OF u] relay_byte_inert inert_no_blank
    by (auto simp: bad_word_def ContainsAny_iff)
qed

lemma host_word: "validHostReference r \<Longrightarrow> \<not> bad_word r"
proof -
  assume r: "validHostReference r"
  then have "\<not> HasPrefix r ''-''" by (cases r) (auto simp: validHostReference_def split: if_splits)
  then show ?thesis using validHostReference_nonempty [OF r] validHostReference_bytes [OF r] inert_no_blank
    by (auto simp: bad_word_def ContainsAny_iff)
qed

lemma valid_direct_routes: "list_all validDirectAddress addrs \<Longrightarrow> valid_routes (concat (map (\<lambda>a. [''--direct-address'', a]) addrs) @ rest) = valid_routes rest"
  by (induction addrs) (simp_all add: addr_word)

lemma valid_relay_routes: "list_all validRelayURL urls \<Longrightarrow> valid_routes (concat (map (\<lambda>u. [''--relay-url'', u]) urls))"
  by (induction urls) (simp_all add: relay_word)

lemma even_pairs: "even (length (concat (map (\<lambda>a. [f a, g a]) xs)))"
  by (induction xs) auto

lemma proxy_invocation_accepted:
  assumes "validHostReference hostRef" "validEndpointID ep" "routes_ok rc addrs"
  shows "validateProxyInvocation hostRef (ep @ '':'' @ FormatUint (unat (port :: uint16))) (route_argv rc addrs) = None"
proof -
  have "CHR '':'' \<notin> set (FormatUint (unat port))"
    using FormatUint_bytes [of "CHR '':''" "unat port"] by (auto simp: is_digit_def char_le_nat)
  moreover have "CHR '':'' \<notin> set ep" "ep \<noteq> ''''"
    using assms(2) by (auto simp: validEndpointID_def list_all_iff is_hex_digit_def is_digit_def char_le_nat)
  ultimately have "Split (ep @ '':'' @ FormatUint (unat port)) CHR '':'' = [ep, FormatUint (unat port)]" "ep \<noteq> ''''" by (simp_all add: Split_first Split_absent)
  moreover have "valid_routes (route_argv rc addrs)"
    using assms(3) by (simp add: route_argv_def routes_ok_def valid_direct_routes valid_relay_routes del: map_append concat_append)
  moreover have "route_argv rc addrs \<noteq> []" using assms(3) by (auto simp: route_argv_def routes_ok_def)
  moreover have "even (length (route_argv rc addrs))"
    using even_pairs [of "\<lambda>_. ''--direct-address''" id addrs] even_pairs [of "\<lambda>_. ''--relay-url''" id "rc_RelayURLs rc @ rc_ExtraRelayURLs rc"]
    by (simp add: route_argv_def)
  ultimately show ?thesis using host_word [OF assms(1)] by (simp add: validateProxyInvocation_def Let_def)
qed

lemma unquoted_routes:
  assumes "routes_ok rc addrs"
  shows "map unquoteShellArg (route_words rc addrs) = map Some (route_argv rc addrs)"
proof -
  have flags: "unquoteShellArg ''--direct-address'' = Some ''--direct-address''" "unquoteShellArg ''--relay-url'' = Some ''--relay-url''" by code_simp+
  have direct: "list_all validDirectAddress addrs \<Longrightarrow> map unquoteShellArg (concat (map (\<lambda>a. [''--direct-address'', shellQuote a]) addrs)) =
      map Some (concat (map (\<lambda>a. [''--direct-address'', a]) addrs))" for addrs
    by (induction addrs) (simp_all add: flags unquote_addr)
  have relay: "list_all validRelayURL urls \<Longrightarrow> map unquoteShellArg (concat (map (\<lambda>u. [''--relay-url'', u]) urls)) =
      map Some (concat (map (\<lambda>u. [''--relay-url'', u]) urls))" for urls
    by (induction urls) (simp_all add: flags unquote_relay)
  have ok: "list_all validDirectAddress addrs" "list_all validRelayURL (rc_RelayURLs rc @ rc_ExtraRelayURLs rc)" using assms by (simp_all add: routes_ok_def)
  show ?thesis unfolding route_words_def route_argv_def map_append [of unquoteShellArg] map_append [of Some] direct [OF ok(1)] relay [OF ok(2)] by (rule refl)
qed

lemma proxy_text:
  assumes "validHostReference hostRef" "routes_ok rc addrs"
  shows "Join (proxy_words hostRef rc addrs) '' '' = ''ternalctl '' @ Join (tl (proxy_words hostRef rc addrs)) '' ''"
    and "CHR ''='' \<notin> set (Join (tl (proxy_words hostRef rc addrs)) '' '')"
proof -
  show "Join (proxy_words hostRef rc addrs) '' '' = ''ternalctl '' @ Join (tl (proxy_words hostRef rc addrs)) '' ''"
    by (simp add: proxy_words_def)
  have "CHR ''='' \<notin> set w" if "w \<in> set (tl (proxy_words hostRef rc addrs))" for w
    using proxy_words_inert [OF assms list.set_sel(2) [OF _ that]] inert_no_eq by (auto simp: proxy_words_def)
  then show "CHR ''='' \<notin> set (Join (tl (proxy_words hostRef rc addrs)) '' '')" using Join_bytes by fastforce
qed

lemma known_text: "knownHostsCommand ''ternalctl'' fp = ''KnownHostsCommand'' @ ''=ternalctl '' @ ''known-host-key '' @ fp @ '' %I %f %t %K''"
proof -
  have "shellQuote ''ternalctl'' = ''ternalctl''" by code_simp
  then show ?thesis by (simp add: knownHostsCommand_def)
qed

lemma destination_no_eq: "validSSHUser user \<Longrightarrow> validEndpointID ep \<Longrightarrow> CHR ''='' \<notin> set (user @ ''@'' @ ep)"
  by (auto simp: validSSHUser_def validEndpointID_def list_all_iff is_hex_digit_def isAlphanumeric_def is_lower_def is_upper_def is_digit_def char_le_nat split: if_splits)

lemma port_no_eq: "CHR ''='' \<notin> set (FormatUint n)"
  using FormatUint_bytes [of "CHR ''=''" n] by (auto simp: is_digit_def char_le_nat)

lemma rewrite_fixed:
  "rewriteCTLPath ''-p'' e = ''-p''" "rewriteCTLPath ''-o'' e = ''-o''" "rewriteCTLPath ''UserKnownHostsFile=none'' e = ''UserKnownHostsFile=none''"
  "rewriteCTLPath ''GlobalKnownHostsFile=none'' e = ''GlobalKnownHostsFile=none''" "rewriteCTLPath ''StrictHostKeyChecking=yes'' e = ''StrictHostKeyChecking=yes''"
  "rewriteCTLPath ''CheckHostIP=no'' e = ''CheckHostIP=no''" "rewriteCTLPath ''UpdateHostKeys=no'' e = ''UpdateHostKeys=no''"
  using rewrite_absent [of "''-p''" e] rewrite_absent [of "''-o''" e] rewrite_value [of "''UserKnownHostsFile''" "''none''" e]
    rewrite_value [of "''GlobalKnownHostsFile''" "''none''" e] rewrite_value [of "''StrictHostKeyChecking''" "''yes''" e]
    rewrite_value [of "''CheckHostIP''" "''no''" e] rewrite_value [of "''UpdateHostKeys''" "''no''" e] by simp_all

text \<open>C32. The client runs what the server issues.  In the arguments of an issued SSH command the client replaces
  exactly the two places where \<^verbatim>\<open>ssh\<close> would search for \<^verbatim>\<open>ternalctl\<close>, the proxy command and the known hosts command, by
  its own quoted path and leaves everything else as it is; and the proxy invocation that \<^verbatim>\<open>ssh\<close> makes of it,
  with the shell's quotes removed from the routes, passes the client's check.  The fingerprint has no
  equals sign, as in the unpadded encoding of host key fingerprints.\<close>

theorem client_runs_issued:
  assumes "BuildStrictGrantAwareSSHCommand ''ternalctl'' hostRef ep user port fp rc addrs = Inr cmd" "CHR ''='' \<notin> set fp"
  shows "map (\<lambda>a. rewriteCTLPath a executable) (cmd_Args cmd) =
      [''-p'', FormatUint (unat port), ''-o'', ''ProxyCommand='' @ ctl_shellQuote executable @ '' '' @ Join ([''proxy'', hostRef, ''%h:%p''] @ route_words rc addrs) '' '',
       ''-o'', ''UserKnownHostsFile=none'', ''-o'', ''GlobalKnownHostsFile=none'', ''-o'', ''StrictHostKeyChecking=yes'', ''-o'', ''CheckHostIP=no'', ''-o'', ''UpdateHostKeys=no'',
       ''-o'', ''KnownHostsCommand='' @ ctl_shellQuote executable @ '' known-host-key '' @ fp @ '' %I %f %t %K'', user @ ''@'' @ ep] \<and>
    map unquoteShellArg (route_words rc addrs) = map Some (route_argv rc addrs) \<and>
    validateProxyInvocation hostRef (ep @ '':'' @ FormatUint (unat port)) (route_argv rc addrs) = None"
proof -
  have ok: "validHostReference hostRef" "validEndpointID ep" "validSSHUser user" "routes_ok rc addrs" using assms(1) by (auto simp: BuildStrict_iff)
  note pt = proxy_text [OF ok(1,4)]
  let ?t = "Join (tl (proxy_words hostRef rc addrs)) '' ''"
  have tl: "tl (proxy_words hostRef rc addrs) = [''proxy'', hostRef, ''%h:%p''] @ route_words rc addrs" by (simp add: proxy_words_def)
  have p: "rewriteCTLPath (''ProxyCommand='' @ Join (proxy_words hostRef rc addrs) '' '') executable = ''ProxyCommand='' @ ctl_shellQuote executable @ '' '' @ ?t"
    using rewrite_word [of "''ProxyCommand''" ?t executable] pt by simp
  have k: "rewriteCTLPath (knownHostsCommand ''ternalctl'' fp) executable = ''KnownHostsCommand='' @ ctl_shellQuote executable @ '' known-host-key '' @ fp @ '' %I %f %t %K''"
    unfolding known_text using rewrite_word [of "''KnownHostsCommand''" "''known-host-key '' @ fp @ '' %I %f %t %K''" executable] assms(2) by simp
  have args: "cmd_Args cmd = [''-p'', FormatUint (unat port), ''-o'', ''ProxyCommand='' @ Join (proxy_words hostRef rc addrs) '' '',
      ''-o'', ''UserKnownHostsFile=none'', ''-o'', ''GlobalKnownHostsFile=none'', ''-o'', ''StrictHostKeyChecking=yes'', ''-o'', ''CheckHostIP=no'', ''-o'', ''UpdateHostKeys=no'',
      ''-o'', knownHostsCommand ''ternalctl'' fp, user @ ''@'' @ ep]" using assms(1) by (simp add: BuildStrict_iff del: Join.simps)
  show ?thesis using unquoted_routes [OF ok(4)] proxy_invocation_accepted [OF ok(1,2,4)]
    unfolding args list.map p k rewrite_fixed rewrite_absent [OF destination_no_eq [OF ok(3,2)]] rewrite_absent [OF port_no_eq] tl
    by (simp del: Join.simps append.simps)
qed

subsection \<open>The exported configuration\<close>

lemma replace_eq_at: "CHR ''='' \<notin> set s \<Longrightarrow> replace_first_eq (s @ CHR ''='' # t) = s @ CHR '' '' # t"
  by (induction s) auto

lemma ValidHostName_no_eq: "ValidHostName n \<Longrightarrow> CHR ''='' \<notin> set n"
  using validHostReference_bytes inert_no_eq by (auto simp: ValidHostName_def)

lemma option_replace:
  "replace_first_eq ''UserKnownHostsFile=none'' = ''UserKnownHostsFile none''" "replace_first_eq ''GlobalKnownHostsFile=none'' = ''GlobalKnownHostsFile none''"
  "replace_first_eq ''StrictHostKeyChecking=yes'' = ''StrictHostKeyChecking yes''" "replace_first_eq ''CheckHostIP=no'' = ''CheckHostIP no''"
  "replace_first_eq ''UpdateHostKeys=no'' = ''UpdateHostKeys no''"
  by code_simp+

lemma exported_options:
  assumes "BuildStrictGrantAwareSSHCommand ''ternalctl'' hostRef ep user port fp rc addrs = Inr cmd"
  shows "ssh_options (cmd_Args cmd) = [''  ProxyCommand ternalctl '' @ Join (tl (proxy_words hostRef rc addrs)) '' '',
    ''  UserKnownHostsFile none'', ''  GlobalKnownHostsFile none'', ''  StrictHostKeyChecking yes'', ''  CheckHostIP no'', ''  UpdateHostKeys no'',
    ''  KnownHostsCommand ternalctl known-host-key '' @ fp @ '' %I %f %t %K'']"
proof -
  have ok: "validHostReference hostRef" "routes_ok rc addrs" using assms by (auto simp: BuildStrict_iff)
  let ?t = "Join (tl (proxy_words hostRef rc addrs)) '' ''"
  have p: "replace_first_eq (''ProxyCommand='' @ Join (proxy_words hostRef rc addrs) '' '') = ''ProxyCommand ternalctl '' @ ?t"
    using replace_eq_at [of "''ProxyCommand''" "''ternalctl '' @ ?t"] proxy_text(1) [OF ok] by simp
  have k: "replace_first_eq (knownHostsCommand ''ternalctl'' fp) = ''KnownHostsCommand ternalctl known-host-key '' @ fp @ '' %I %f %t %K''"
    unfolding known_text using replace_eq_at [of "''KnownHostsCommand''" "''ternalctl known-host-key '' @ fp @ '' %I %f %t %K''"] by simp
  have port: "FormatUint (unat port) \<noteq> ''-o''" using FormatUint_bytes [of "CHR ''o''" "unat port"] by (auto simp: is_digit_def char_le_nat)
  have long: "''ProxyCommand='' @ s \<noteq> ''-o''" "knownHostsCommand ''ternalctl'' fp \<noteq> ''-o''" for s by (simp_all add: knownHostsCommand_def)
  show ?thesis using assms port long p k by (auto simp: BuildStrict_iff option_replace simp del: Join.simps append.simps replace_first_eq.simps)
qed

text \<open>C33. The exported configuration keeps the bare word.  The server writes each option with a blank in place of its
  first equals sign, and the client looks for the word after an equals sign: in the configuration that
  \<^verbatim>\<open>ternalctl ssh-config\<close> prints, \<^verbatim>\<open>ssh\<close> resolves \<^verbatim>\<open>ternalctl\<close> through its search path.\<close>

theorem exported_config_unrewritten:
  assumes "BuildStrictGrantAwareSSHCommand ''ternalctl'' hostRef ep user port fp rc addrs = Inr cmd" "CHR ''='' \<notin> set fp"
    and "sshConfigEntry name ep port user (ssh_options (cmd_Args cmd)) = Some config"
  shows "rewriteCTLPath config executable = config \<and> Contains config ''  ProxyCommand ternalctl proxy ''"
proof -
  have ok: "validHostReference hostRef" "validEndpointID ep" "validSSHUser user" "routes_ok rc addrs" using assms(1) by (auto simp: BuildStrict_iff)
  note options = exported_options [OF assms(1)]
  have name: "ValidHostName name" and config: "config = Join [''Host '' @ name, ''  HostName '' @ ep, ''  Port '' @ FormatUint (unat port), ''  User '' @ user,
      Join (ssh_options (cmd_Args cmd)) [newline]] [newline]"
    using assms(3) by (auto simp: sshConfigEntry_def split: if_splits)
  have "CHR ''='' \<notin> set w" if "w \<in> set (ssh_options (cmd_Args cmd))" for w
    using that proxy_text(2) [OF ok(1,4)] assms(2) unfolding options by auto
  then have "CHR ''='' \<notin> set (Join (ssh_options (cmd_Args cmd)) [newline])" using Join_bytes by (fastforce simp: newline_def)
  then have "CHR ''='' \<notin> set config"
    using ValidHostName_no_eq [OF name] destination_no_eq [OF ok(3,2)] port_no_eq unfolding config by (auto simp: newline_def)
  moreover have "\<exists>a b. config = a @ ''  ProxyCommand ternalctl proxy '' @ b"
    by (rule exI [of _ "''Host '' @ name @ [newline] @ ''  HostName '' @ ep @ [newline] @ ''  Port '' @ FormatUint (unat port) @ [newline] @ ''  User '' @ user @ [newline]"])
      (simp add: config options proxy_words_def)
  ultimately show ?thesis using rewrite_absent Contains_append by metis
qed

end
