(* ===== verification/Ctl_Witness.thy ===== *)
theory Ctl_Witness
  imports Ctl_Issued
begin

section \<open>The command line client at work\<close>

text \<open>
  Concrete environments, servers and files at which the hypotheses of the client's properties hold.  The
  sample texts of sessions put a byte outside ASCII behind each field.
\<close>

definition field_end :: char where "field_end = CHR 0xFF"

definition session_text :: "Session \<Rightarrow> string" where
  "session_text s = cs_Cookie s @ field_end # cs_CSRFToken s @ field_end # cs_APIURL s @ field_end # FormatInt (cs_ExpiresAt s) @ [field_end]"

definition session_parse :: "string \<Rightarrow> Session option" where
  "session_parse t =
     (case Split t field_end of
        [a, b, c, d, e] \<Rightarrow> (case ParseInt d 64 of None \<Rightarrow> None | Some n \<Rightarrow> Some \<lparr>cs_Cookie = a, cs_CSRFToken = b, cs_ExpiresAt = n, cs_APIURL = c\<rparr>)
      | _ \<Rightarrow> None)"

lemma Split_length: "length (Split t b) = Suc (count_list t b)"
  by (induction t) (auto split: list.splits)

lemma plain_end: "plain_text s \<Longrightarrow> field_end \<notin> set s"
  by (auto simp: plain_text_def list_all_iff field_end_def)

lemma FormatInt_end: "field_end \<notin> set (FormatInt i)"
  using FormatUint_bytes [of field_end] by (auto simp: FormatInt_def field_end_def is_digit_def char_le_nat)

lemma count_absent: "x \<notin> set s \<Longrightarrow> count_list s x = 0"
  by (induction s) auto

lemma sample_json_ok: "session_json_ok session_text session_parse"
  unfolding session_json_ok_def
proof (intro allI impI conjI)
  fix s assume s: "plain_session s"
  then have fields: "field_end \<notin> set (cs_Cookie s)" "field_end \<notin> set (cs_CSRFToken s)" "field_end \<notin> set (cs_APIURL s)" by (auto simp: plain_session_def plain_end)
  have "ParseInt (FormatInt (cs_ExpiresAt s)) 64 = Some (cs_ExpiresAt s)" using s by (intro ParseInt_FormatInt) (auto simp: plain_session_def)
  then show "session_parse (session_text s) = Some s" using fields FormatInt_end by (simp add: session_parse_def session_text_def Split_first)
  fix n assume n: "n < length (session_text s)"
  define u where "u = cs_Cookie s @ field_end # cs_CSRFToken s @ field_end # cs_APIURL s @ field_end # FormatInt (cs_ExpiresAt s)"
  have m: "session_text s = u @ [field_end]" by (simp add: u_def session_text_def)
  then have "take n (session_text s) = take n u" using n by simp
  moreover have "count_list u field_end = 3" using fields FormatInt_end by (simp add: u_def count_absent)
  then have "count_list (take n u) field_end \<le> 3" using count_list_append [of "take n u" "drop n u" field_end] by simp
  ultimately have "length (Split (take n (session_text s)) field_end) \<noteq> 5" by (simp add: Split_length)
  then show "session_parse (take n (session_text s)) = None" unfolding session_parse_def by (auto split: list.splits)
qed

subsection \<open>Sessions\<close>

definition ctl_sample_url :: URL where
  "ctl_sample_url = \<lparr>u_Scheme = ''https'', u_Host = ''ternal.example'', u_Hostname = ''ternal.example'', u_RawQuery = '''', u_Fragment = '''', u_User = False\<rparr>"

definition sample_vars :: "(string \<times> string) list" where
  "sample_vars = [(''TERNAL_API_URL'', ''https://ternal.example''), (''TERNAL_CONFIG_DIR'', ''/c'')]"

definition ctl_sample_env :: "(string \<times> string) list \<Rightarrow> ctl_env" where
  "ctl_sample_env vars = \<lparr>ce_env = (\<lambda>k. case map_of vars k of None \<Rightarrow> '''' | Some v \<Rightarrow> v), ce_configDir = None, ce_url = (\<lambda>_. Some ctl_sample_url), ce_url_path = (\<lambda>_. ''''),
     ce_sha256_hex = (\<lambda>_. replicate 64 CHR ''0''), ce_marshal = session_text, ce_unmarshal = session_parse\<rparr>"

definition ctl_sample_session :: Session where
  "ctl_sample_session = \<lparr>cs_Cookie = ''cookie'', cs_CSRFToken = ''csrf'', cs_ExpiresAt = 100, cs_APIURL = ''https://ternal.example''\<rparr>"

definition full_write :: write_io where
  "full_write = \<lparr>wi_mkdir = True, wi_open = True, wi_written = 1000, wi_close = True\<rparr>"

definition saved_fs :: fs where
  "saved_fs = snd (saveSession (ctl_sample_env sample_vars) full_write ctl_sample_session (\<lambda>_. None))"

lemma saved_loads:
  "currentAPIOrigin (ctl_sample_env sample_vars) = ''https://ternal.example''"
  "loadSession (ctl_sample_env sample_vars) True 7 saved_fs = Inr ctl_sample_session"
  "loadSessionForLogout (ctl_sample_env sample_vars) True saved_fs = Inr (ctl_sample_session, True)"
  by code_simp+

definition cookie_env :: ctl_env where "cookie_env = ctl_sample_env ((''TERNAL_SESSION_COOKIE'', ''c'') # sample_vars)"

theorem session_origin_bound_witness:
  "loadSession (ctl_sample_env sample_vars) True 7 saved_fs = Inr ctl_sample_session \<and> 7 \<le> cs_ExpiresAt ctl_sample_session \<and>
   (currentAPIOrigin (ctl_sample_env sample_vars), ctl_sample_session) \<in> {(''https://ternal.example'', ctl_sample_session)} \<and>
   (\<exists>s. loadSession cookie_env True 7 saved_fs = Inr s \<and> cs_Cookie s = ''c'')"
proof -
  let ?E = "ctl_sample_env sample_vars"
  have self: "ctl_sample_session\<lparr>cs_APIURL := ''https://ternal.example''\<rparr> = ctl_sample_session" by (simp add: ctl_sample_session_def)
  have plain: "plain_session ctl_sample_session" by code_simp
  have "session_step ?E ((\<lambda>_. None), {}) (saved_fs, {(''https://ternal.example'', ctl_sample_session)})"
    using session_step.save [of ?E ?E ctl_sample_session full_write "\<lambda>_. None" _ saved_fs "{}"] plain
    by (simp add: same_json_def self saved_loads(1) saved_fs_def prod_eq_iff)
  then have steps: "(session_step ?E)\<^sup>*\<^sup>* ((\<lambda>_. None), {}) (saved_fs, {(''https://ternal.example'', ctl_sample_session)})" by blast
  have lib: "session_json_ok (ce_marshal ?E) (ce_unmarshal ?E)" "same_json ?E ?E" "same_json ?E cookie_env"
    by (simp_all add: ctl_sample_env_def cookie_env_def sample_json_ok same_json_def)
  have env: "ce_env ?E ''TERNAL_SESSION_COOKIE'' = ''''" "ce_env cookie_env ''TERNAL_SESSION_COOKIE'' = ''c''"
    by (simp_all add: ctl_sample_env_def cookie_env_def sample_vars_def)
  have "\<not> isl (loadSession cookie_env True 7 saved_fs)" by code_simp
  then obtain s where s: "loadSession cookie_env True 7 saved_fs = Inr s" by (metis sum.collapse(2))
  have "cs_Cookie s = ''c''" using conjunct1 [OF session_origin_bound [OF lib(1) steps lib(3)]] s env(2) by simp
  moreover have "(currentAPIOrigin ?E, ctl_sample_session) \<in> {(''https://ternal.example'', ctl_sample_session)} \<and> 7 \<le> cs_ExpiresAt ctl_sample_session"
    using conjunct1 [OF session_origin_bound [OF lib(1) steps lib(2)]] saved_loads(2) unfolding if_P [OF env(1)] by blast
  ultimately show ?thesis using saved_loads(2) s by blast
qed

subsection \<open>A server\<close>

text \<open>Every answer arrives at once; the decoders see the same answer everywhere.\<close>

definition sample_outside :: "int outside" where
  "sample_outside = \<lparr>out_send = (\<lambda>q x. (Some \<lparr>cr_Status = 200, cr_Body = cq_URL q\<rparr>, x + 1)), out_now = (\<lambda>x. x), out_sleep = (\<lambda>d x. x + max 0 d), out_readable = (\<lambda>_. True)\<rparr>"

definition sample_answer :: "(string \<times> json) list" where
  "sample_answer = [(''grant_id'', JString ''g-1''), (''program'', JString ''ssh''), (''args'', JArray [JString ''ProxyCommand=ternalctl proxy h-1''])]"

definition ctl_sample_host :: ctl_host where
  "ctl_sample_host = \<lparr>ch_ID = ''h-1'', ch_Name = ''edge'', ch_EndpointID = ''e'', ch_SSHUser = ''ops'', ch_Tags = [], ch_SSHPort = 22, ch_Status = ''healthy''\<rparr>"

definition ctl_sample_lib :: ctl_lib where
  "ctl_sample_lib = \<lparr>cb_object = (\<lambda>_. Some sample_answer), cb_hosts = (\<lambda>_. Some [ctl_sample_host]),
     cb_host = (\<lambda>_. Some ctl_sample_host), cb_installed = (\<lambda>_. Some True), cb_float = (\<lambda>_. 0), cb_overflow = (\<lambda>_. 0),
     cb_sprint = (\<lambda>v. case v of JString s \<Rightarrow> s | _ \<Rightarrow> ''''), cb_verb_s = (\<lambda>_. ''''),
     cb_pad = (\<lambda>n s. s @ replicate (n - length s) CHR '' ''), cb_hosts_left = (\<lambda>_. []), cb_path_escape = (\<lambda>s. s), cb_parse_key = (\<lambda>_. Some (''ssh-ed25519'', ''SHA256:pinned''))\<rparr>"

definition ctl_sample_os :: ctl_os where
  "ctl_sample_os = \<lparr>cx_goos = ''linux'', cx_executable = Some ''/usr/bin/ternalctl'', cx_exists = (\<lambda>_. True), cx_lookPath = (\<lambda>_. None), cx_home = Some ''/home/u'',
     cx_file = (\<lambda>_. None), cx_helper = \<lparr>ho_temp = True, ho_run = True, ho_read = True, ho_output = replicate 64 CHR ''a''\<rparr>\<rparr>"

definition start_world :: "int ctl_world" where "start_world = \<lparr>cw_fs = (\<lambda>_. None), cw_out = 0\<rparr>"

lemma ctl_sample_clock: "clock_ok sample_outside" by (simp add: clock_ok_def sample_outside_def)

theorem ternalctl_terminates_witness:
  "clock_ok sample_outside \<and> (\<exists>r. cmdLogin sample_outside ctl_sample_lib cookie_env False ''https://ternal.example'' full_write start_world = Some r) \<and>
   (\<exists>r. cmdSSH sample_outside ctl_sample_lib cookie_env ctl_sample_os False ''https://ternal.example'' ''edge'' start_world = Some r)"
  using ternalctl_terminates [OF ctl_sample_clock] ctl_sample_clock by blast

lemma sample_runs:
  "map_option (\<lambda>(r, w). (r, cw_out w)) (cmdSSH sample_outside ctl_sample_lib cookie_env ctl_sample_os False ''https://ternal.example'' ''edge'' start_world) =
     Some (Started ''ssh'' [''ProxyCommand=/usr/bin/ternalctl proxy h-1''], 3)"
  "map_option (\<lambda>(r, w). (r, cw_out w)) (cmdProxy sample_outside ctl_sample_lib cookie_env ctl_sample_os False ''https://ternal.example'' ''h-1'' ''e:22'' [''--relay-url'', ''https://r''] start_world) =
     Some (Started ''/usr/bin/pigeons'' [''fly'', ''--stdio'', ''e'', ''--key-dir'', ''/home/u/.ssh'', ''--relay-url'', ''https://r''], 4)"
  by code_simp+

lemma run_world: "map_option (\<lambda>(r, w). (r, cw_out w)) x = Some (r, n) \<Longrightarrow> \<exists>w. x = Some (r, w) \<and> cw_out w = n"
  by auto

theorem key_before_transport_witness:
  "(\<exists>session w1 resp w. current_session sample_outside cookie_env start_world = Inr session \<and>
      key_installed sample_outside ctl_sample_lib cookie_env False ''https://ternal.example'' (Some session) ''h-1'' ''ops'' w1 resp w \<and> cw_out w = 3) \<and>
   validateProxyInvocation ''h-1'' ''e:22'' [''--relay-url'', ''https://r''] = None"
proof -
  let ?U = "''https://ternal.example''"
  note k = key_before_transport [of sample_outside ctl_sample_lib cookie_env ctl_sample_os False ?U]
  obtain w w' where ssh: "cmdSSH sample_outside ctl_sample_lib cookie_env ctl_sample_os False ?U ''edge'' start_world =
      Some (Started ''ssh'' [''ProxyCommand=/usr/bin/ternalctl proxy h-1''], w)" and out: "cw_out w = 3"
    and proxy: "cmdProxy sample_outside ctl_sample_lib cookie_env ctl_sample_os False ?U ''h-1'' ''e:22'' [''--relay-url'', ''https://r''] start_world =
      Some (Started ''/usr/bin/pigeons'' [''fly'', ''--stdio'', ''e'', ''--key-dir'', ''/home/u/.ssh'', ''--relay-url'', ''https://r''], w')"
    using run_world [OF sample_runs(1)] run_world [OF sample_runs(2)] by blast
  obtain session hs target w1 resp where s: "current_session sample_outside cookie_env start_world = Inr session"
    "listHosts sample_outside ctl_sample_lib cookie_env False ?U session start_world = (Inr hs, w1)" "target \<in> set hs"
    "key_installed sample_outside ctl_sample_lib cookie_env False ?U (Some session) (ch_ID target) (ch_SSHUser target) w1 resp w"
    using mp [OF conjunct1 [OF k] ssh] by blast
  have "target = ctl_sample_host"
    using s(2,3) by (auto simp: listHosts_def client_Do_def sample_outside_def ctl_sample_lib_def get_request_def split: if_splits)
  then have "ch_ID target = ''h-1''" "ch_SSHUser target = ''ops''" by (simp_all add: ctl_sample_host_def)
  then show ?thesis using s(1,4) out conjunct1 [OF mp [OF conjunct2 [OF k] proxy]] by metis
qed

subsection \<open>An issued command\<close>

definition issued_command :: "CommandError + SshCommand" where
  "issued_command = BuildStrictGrantAwareSSHCommand ''ternalctl'' ''host-1'' (replicate 64 CHR ''a'') ''ops'' 22 (''SHA256:'' @ replicate 43 CHR ''A'') sample_relays
     [''127.0.0.1:4444'', ''[2001:db8::1]:443'']"

lemma issued_ok: "\<exists>cmd. issued_command = Inr cmd"
proof -
  have "\<not> isl issued_command" by code_simp
  then show ?thesis by (metis sum.collapse(2))
qed

theorem client_runs_issued_witness:
  "validateProxyInvocation ''host-1'' (replicate 64 CHR ''a'' @ '':'' @ FormatUint (unat (22 :: uint16)))
     (route_argv sample_relays [''127.0.0.1:4444'', ''[2001:db8::1]:443'']) = None"
proof -
  obtain cmd where cmd: "issued_command = Inr cmd" using issued_ok by blast
  have "CHR ''='' \<notin> set (''SHA256:'' @ replicate 43 CHR ''A'')" by simp
  from client_runs_issued [OF cmd [unfolded issued_command_def] this] show ?thesis by blast
qed

theorem exported_config_unrewritten_witness:
  "\<exists>config. rewriteCTLPath config ''/usr/bin/ternalctl'' = config \<and> Contains config ''  ProxyCommand ternalctl proxy ''"
proof -
  obtain cmd where cmd: "issued_command = Inr cmd" using issued_ok by blast
  have fp: "CHR ''='' \<notin> set (''SHA256:'' @ replicate 43 CHR ''A'')" by simp
  have "ValidHostName ''edge'' \<and> ValidSSHUser ''ops''" by code_simp
  then obtain config where "sshConfigEntry ''edge'' (replicate 64 CHR ''a'') 22 ''ops'' (ssh_options (cmd_Args cmd)) = Some config" by (auto simp: sshConfigEntry_def)
  from exported_config_unrewritten [OF cmd [unfolded issued_command_def] fp this] show ?thesis by blast
qed

end
