(* ===== verification/Anchor_Data.thy ===== *)
theory Anchor_Data
  imports Trust_Record Go_Base64
begin

section \<open>The anchor's representation (trust\_anchor.go, trust\_anchor\_composite.go)\<close>

text \<open>
  The anchor record is kept as the data of a ConfigMap, a map of strings: eight flat keys, and since the
  migration four more that carry the record in the form of the recovery library.  A reader accepts a map
  only when the two forms agree.  A Go map is an association list with distinct keys; a missing key reads
  as the empty string.  \<open>anchor_lib\<close> is \<^verbatim>\<open>encoding/json\<close> on the envelope and on the recovery library's types; a
  transition is decoded with unknown fields refused.
\<close>

datatype anchor_error =
    AD_Shape | AD_Epoch | AD_Bootstrap | AD_PendingEpoch | AD_Evidence | AD_NonCanonical | AD_Disagree | AD_Generation
  | AD_Projection | AD_Structure | AD_Unsupported | AD_UnknownAnchor | AD_Request | AD_Status | AD_Decode | AD_Metadata | AD_NoVersion | AD_Conflict

record trustAnchorEvidence =
  ev_Format :: string
  ev_Epoch :: int
  ev_Token :: string
  ev_PendingEpoch :: "int option"
  ev_PendingID :: string
  ev_Bootstrap :: bool

record ('tr, 'rc) anchor_lib =
  al_evidence :: "trustAnchorEvidence \<Rightarrow> string"
  al_read_evidence :: "string \<Rightarrow> trustAnchorEvidence option"
  al_transition :: "'tr \<Rightarrow> string option"
  al_read_transition :: "string \<Rightarrow> 'tr option"
  al_receipt :: "'rc \<Rightarrow> string option"
  al_read_receipt :: "string \<Rightarrow> 'rc option"
  al_ops :: "('tr, 'rc) recovery_ops"

type_synonym data_map = "(string \<times> string) list"

definition data_get :: "data_map \<Rightarrow> string \<Rightarrow> string" where
  "data_get d k = (case map_of d k of None \<Rightarrow> '''' | Some v \<Rightarrow> v)"

subsection \<open>The envelope\<close>

definition evidence :: "('tr, 'rc) trustAnchorRecord \<Rightarrow> trustAnchorEvidence" where
  "evidence r = \<lparr>ev_Format = ta_Format r, ev_Epoch = ta_Epoch r, ev_Token = ta_Token r, ev_PendingEpoch = ta_PendingEpoch r,
     ev_PendingID = ta_PendingID r, ev_Bootstrap = ta_Bootstrap r\<rparr>"

definition agrees :: "trustAnchorEvidence \<Rightarrow> ('tr, 'rc) trustAnchorRecord \<Rightarrow> bool" where
  "agrees e r =
     (if ev_Format e \<noteq> ta_Format r \<or> ev_Epoch e \<noteq> ta_Epoch r \<or> ev_Token e \<noteq> ta_Token r \<or> ev_PendingID e \<noteq> ta_PendingID r \<or> ev_Bootstrap e \<noteq> ta_Bootstrap r
      then False
      else case (ev_PendingEpoch e, ta_PendingEpoch r) of
        (Some p, Some q) \<Rightarrow> p = q
      | (p, q) \<Rightarrow> p = None \<and> q = None)"

definition parseTrustAnchorEvidence :: "('tr, 'rc) anchor_lib \<Rightarrow> string \<Rightarrow> anchor_error + trustAnchorEvidence" where
  "parseTrustAnchorEvidence A raw =
     (case al_read_evidence A raw of
        None \<Rightarrow> Inl AD_Evidence
      | Some e \<Rightarrow> if al_evidence A e \<noteq> raw then Inl AD_NonCanonical else Inr e)"

subsection \<open>Projections of the recovery library\<close>

definition recoveryNull :: string where "recoveryNull = ''null''"

definition recoveryProjection :: "('a \<Rightarrow> string option) \<Rightarrow> 'a option \<Rightarrow> string" where
  "recoveryProjection marshal v =
     (case v of None \<Rightarrow> recoveryNull | Some x \<Rightarrow> (case marshal x of None \<Rightarrow> recoveryNull | Some s \<Rightarrow> s))"

definition parseRecoveryProjection :: "('a \<Rightarrow> string option) \<Rightarrow> (string \<Rightarrow> 'a option) \<Rightarrow> string \<Rightarrow> anchor_error + 'a option" where
  "parseRecoveryProjection marshal decode raw =
     (if raw = recoveryNull then Inr None
      else case decode raw of
        None \<Rightarrow> Inl AD_Projection
      | Some x \<Rightarrow> if recoveryProjection marshal (Some x) \<noteq> raw then Inl AD_NonCanonical else Inr (Some x))"

subsection \<open>The data of the ConfigMap\<close>

definition trustAnchorLegacyKeys :: nat where "trustAnchorLegacyKeys = 8"
definition trustAnchorCompositeKeys :: nat where "trustAnchorCompositeKeys = 12"

definition anchorDataKeys :: "string list" where
  "anchorDataKeys = [''format'', ''clusterID'', ''storageID'', ''epoch'', ''token'', ''pendingEpoch'', ''pendingID'', ''bootstrap'',
     ''recoveryGeneration'', ''recoveryEvidence'', ''recoveryTransition'', ''recoveryReceipt'']"

definition anchorDataShape :: "data_map \<Rightarrow> bool" where
  "anchorDataShape d \<longleftrightarrow>
     list_all (\<lambda>(k, v). k \<in> set anchorDataKeys \<and> \<not> (length d = trustAnchorLegacyKeys \<and> HasPrefix k ''recovery'')) d \<and>
     (length d = trustAnchorLegacyKeys \<or> length d = trustAnchorCompositeKeys)"

definition FormatBool :: "bool \<Rightarrow> string" where "FormatBool b = (if b then ''true'' else ''false'')"

definition anchorData :: "('tr, 'rc) anchor_lib \<Rightarrow> ('tr, 'rc) trustAnchorRecord \<Rightarrow> data_map" where
  "anchorData A r =
     [(''format'', ta_Format r), (''clusterID'', ta_ClusterID r), (''storageID'', ta_StorageID r), (''epoch'', FormatInt (ta_Epoch r)),
      (''token'', ta_Token r), (''pendingEpoch'', case ta_PendingEpoch r of None \<Rightarrow> '''' | Some e \<Rightarrow> FormatInt e), (''pendingID'', ta_PendingID r),
      (''bootstrap'', FormatBool (ta_Bootstrap r)), (''recoveryGeneration'', FormatUint (ta_Generation r)),
      (''recoveryEvidence'', b64_encode StdEncoding (al_evidence A (evidence r))),
      (''recoveryTransition'', recoveryProjection (al_transition A) (ta_Transition r)),
      (''recoveryReceipt'', recoveryProjection (al_receipt A) (ta_Receipt r))]"

definition parseAnchorEpoch :: "string \<Rightarrow> int option" where
  "parseAnchorEpoch raw = (case ParseInt raw 64 of None \<Rightarrow> None | Some n \<Rightarrow> if FormatInt n \<noteq> raw then None else Some n)"

definition parseAnchorGeneration :: "string \<Rightarrow> nat option" where
  "parseAnchorGeneration raw = (case ParseUint raw 64 of None \<Rightarrow> None | Some n \<Rightarrow> if FormatUint n \<noteq> raw then None else Some n)"

text \<open>The flat keys, and the keys of the recovery library on top of them.\<close>

definition parse_flat :: "data_map \<Rightarrow> anchor_error + ('tr, 'rc) trustAnchorRecord" where
  "parse_flat d =
     (case parseAnchorEpoch (data_get d ''epoch'') of
        None \<Rightarrow> Inl AD_Epoch
      | Some epoch \<Rightarrow>
          if data_get d ''bootstrap'' \<noteq> ''true'' \<and> data_get d ''bootstrap'' \<noteq> ''false'' then Inl AD_Bootstrap
          else
            let r = \<lparr>ta_Format = data_get d ''format'', ta_ClusterID = data_get d ''clusterID'', ta_StorageID = data_get d ''storageID'', ta_Epoch = epoch,
                  ta_Token = data_get d ''token'', ta_PendingEpoch = None, ta_PendingID = data_get d ''pendingID'', ta_Bootstrap = (data_get d ''bootstrap'' = ''true''),
                  ta_Generation = 0, ta_Transition = None, ta_Receipt = None\<rparr> in
            if data_get d ''pendingEpoch'' = '''' then Inr r
            else (case parseAnchorEpoch (data_get d ''pendingEpoch'') of None \<Rightarrow> Inl AD_PendingEpoch | Some p \<Rightarrow> Inr (r\<lparr>ta_PendingEpoch := Some p\<rparr>)))"

definition parse_recovery :: "('tr, 'rc) anchor_lib \<Rightarrow> data_map \<Rightarrow> ('tr, 'rc) trustAnchorRecord \<Rightarrow> anchor_error + ('tr, 'rc) trustAnchorRecord" where
  "parse_recovery A d r =
     (case b64_decode StdEncoding (data_get d ''recoveryEvidence'') of
        None \<Rightarrow> Inl AD_Evidence
      | Some raw \<Rightarrow>
          (case parseTrustAnchorEvidence A raw of
             Inl e \<Rightarrow> Inl e
           | Inr ev \<Rightarrow>
               if \<not> agrees ev r then Inl AD_Disagree
               else case parseAnchorGeneration (data_get d ''recoveryGeneration'') of
                 None \<Rightarrow> Inl AD_Generation
               | Some generation \<Rightarrow>
                   (case parseRecoveryProjection (al_transition A) (al_read_transition A) (data_get d ''recoveryTransition'') of
                      Inl e \<Rightarrow> Inl e
                    | Inr transition \<Rightarrow>
                        (case parseRecoveryProjection (al_receipt A) (al_read_receipt A) (data_get d ''recoveryReceipt'') of
                           Inl e \<Rightarrow> Inl e
                         | Inr receipt \<Rightarrow>
                             let r' = r\<lparr>ta_Generation := generation, ta_Transition := transition, ta_Receipt := receipt\<rparr> in
                             if \<not> validateStructure (al_ops A) r' then Inl AD_Structure else Inr r'))))"

definition parseAnchorData :: "('tr, 'rc) anchor_lib \<Rightarrow> data_map \<Rightarrow> anchor_error + ('tr, 'rc) trustAnchorRecord" where
  "parseAnchorData A d =
     (if \<not> anchorDataShape d then Inl AD_Shape
      else case parse_flat d of
        Inl e \<Rightarrow> Inl e
      | Inr r \<Rightarrow> if length d = trustAnchorLegacyKeys then Inr r else parse_recovery A d r)"

subsection \<open>The anchor service's record\<close>

record ('tr, 'rc) recovery_record =
  rr_Version :: int
  rr_EvidenceFormat :: string
  rr_ClusterID :: string
  rr_StorageID :: string
  rr_Evidence :: string
  rr_PendingWrite :: bool
  rr_Generation :: nat
  rr_Transition :: "'tr option"
  rr_LastTransition :: "'rc option"

definition trustAnchorEvidenceFormat :: string where "trustAnchorEvidenceFormat = ''ternal-trust-anchor/v1''"

text \<open>\<open>version1\<close> is the constant of the recovery library.\<close>

definition recoveryRecord :: "('tr, 'rc) anchor_lib \<Rightarrow> int \<Rightarrow> ('tr, 'rc) trustAnchorRecord \<Rightarrow> ('tr, 'rc) recovery_record" where
  "recoveryRecord A version1 r =
     \<lparr>rr_Version = version1, rr_EvidenceFormat = trustAnchorEvidenceFormat, rr_ClusterID = ta_ClusterID r, rr_StorageID = ta_StorageID r,
      rr_Evidence = al_evidence A (evidence r), rr_PendingWrite = (ta_PendingEpoch r \<noteq> None), rr_Generation = ta_Generation r,
      rr_Transition = ta_Transition r, rr_LastTransition = ta_Receipt r\<rparr>"

definition anchorRecordFromRecovery :: "('tr, 'rc) anchor_lib \<Rightarrow> int \<Rightarrow> ('tr, 'rc) recovery_record \<Rightarrow> anchor_error + ('tr, 'rc) trustAnchorRecord" where
  "anchorRecordFromRecovery A version1 r =
     (if rr_Version r \<noteq> version1 \<or> rr_EvidenceFormat r \<noteq> trustAnchorEvidenceFormat then Inl AD_Unsupported
      else case parseTrustAnchorEvidence A (rr_Evidence r) of
        Inl e \<Rightarrow> Inl e
      | Inr ev \<Rightarrow>
          if rr_PendingWrite r \<noteq> (ev_PendingEpoch ev \<noteq> None) then Inl AD_Disagree
          else Inr \<lparr>ta_Format = ev_Format ev, ta_ClusterID = rr_ClusterID r, ta_StorageID = rr_StorageID r, ta_Epoch = ev_Epoch ev, ta_Token = ev_Token ev,
                 ta_PendingEpoch = ev_PendingEpoch ev, ta_PendingID = ev_PendingID ev, ta_Bootstrap = ev_Bootstrap ev,
                 ta_Generation = rr_Generation r, ta_Transition = rr_Transition r, ta_Receipt = rr_LastTransition r\<rparr>)"

subsection \<open>Reading back\<close>

text \<open>What \<^verbatim>\<open>encoding/json\<close> promises: an envelope of ASCII strings reads back.  A record can be stored when it is well-formed
  and its numbers fit; \<open>projectable\<close> says that a value of the recovery library reads back from its text.\<close>

definition ascii :: "string \<Rightarrow> bool" where "ascii s \<longleftrightarrow> list_all (\<lambda>c. (of_char c :: nat) < 128) s"

definition evidence_json_ok :: "('tr, 'rc) anchor_lib \<Rightarrow> bool" where
  "evidence_json_ok A \<longleftrightarrow> (\<forall>e. ascii (ev_Format e) \<and> ascii (ev_Token e) \<and> ascii (ev_PendingID e) \<longrightarrow> al_read_evidence A (al_evidence A e) = Some e)"

definition projectable :: "('a \<Rightarrow> string option) \<Rightarrow> (string \<Rightarrow> 'a option) \<Rightarrow> 'a option \<Rightarrow> bool" where
  "projectable marshal decode v \<longleftrightarrow> (case v of None \<Rightarrow> True | Some x \<Rightarrow> (case marshal x of None \<Rightarrow> False | Some s \<Rightarrow> s \<noteq> recoveryNull \<and> decode s = Some x))"

definition storable :: "('tr, 'rc) anchor_lib \<Rightarrow> ('tr, 'rc) trustAnchorRecord \<Rightarrow> bool" where
  "storable A r \<longleftrightarrow> validateStructure (al_ops A) r \<and> ta_Epoch r < 2 ^ 63 - 1 \<and> ta_Generation r < 2 ^ 64 \<and>
     projectable (al_transition A) (al_read_transition A) (ta_Transition r) \<and> projectable (al_receipt A) (al_read_receipt A) (ta_Receipt r)"

lemma uuid_ascii: "validUUID s \<Longrightarrow> ascii s"
proof -
  assume s: "validUUID s"
  have "of_char (s ! i) < (128 :: nat)" if "i < length s" for i
  proof -
    have "(i, s ! i) \<in> set (zip [0..<36] s)" using s that by (auto simp: validUUID_def in_set_zip simp del: upt_rec_numeral intro!: exI [of _ i])
    then have "s ! i = CHR ''-'' \<or> is_lower_hex (s ! i)" using s by (auto simp: validUUID_def list_all_iff split: if_splits)
    then show ?thesis by (auto simp: is_lower_hex_def is_digit_def char_le_nat)
  qed
  then show ?thesis by (auto simp: ascii_def list_all_length)
qed

lemma evidence_reads:
  assumes "evidence_json_ok A" "validateStructure (al_ops A) r"
  shows "parseTrustAnchorEvidence A (al_evidence A (evidence r)) = Inr (evidence r)"
proof -
  have "ta_Format r = ''1''" "validUUID (ta_Token r)" "ta_PendingID r = '''' \<or> validUUID (ta_PendingID r)"
    using assms(2) by (auto simp: validateStructure_def split: option.splits)
  then have "ascii (ta_Format r) \<and> ascii (ta_Token r) \<and> ascii (ta_PendingID r)" using uuid_ascii by (auto simp: ascii_def)
  then show ?thesis using assms(1) by (simp add: evidence_json_ok_def parseTrustAnchorEvidence_def evidence_def)
qed

lemma epoch_reads: "- (2 ^ 63) \<le> n \<Longrightarrow> n < 2 ^ 63 \<Longrightarrow> parseAnchorEpoch (FormatInt n) = Some n"
  using ParseInt_FormatInt [of 64 n] by (simp add: parseAnchorEpoch_def)

lemma generation_reads: "n < 2 ^ 64 \<Longrightarrow> parseAnchorGeneration (FormatUint n) = Some n"
  using ParseUint_FormatUint [of n 64] by (simp add: parseAnchorGeneration_def)

lemma projection_reads: "projectable marshal decode v \<Longrightarrow> parseRecoveryProjection marshal decode (recoveryProjection marshal v) = Inr v"
  by (auto simp: projectable_def parseRecoveryProjection_def recoveryProjection_def split: option.splits)

lemma agrees_iff: "agrees e r \<longleftrightarrow> e = evidence r"
  by (cases e) (auto simp: agrees_def evidence_def split: option.splits)

lemma anchorData_get:
  "data_get (anchorData A r) ''format'' = ta_Format r" "data_get (anchorData A r) ''clusterID'' = ta_ClusterID r" "data_get (anchorData A r) ''storageID'' = ta_StorageID r"
  "data_get (anchorData A r) ''epoch'' = FormatInt (ta_Epoch r)" "data_get (anchorData A r) ''token'' = ta_Token r"
  "data_get (anchorData A r) ''pendingEpoch'' = (case ta_PendingEpoch r of None \<Rightarrow> '''' | Some e \<Rightarrow> FormatInt e)"
  "data_get (anchorData A r) ''pendingID'' = ta_PendingID r" "data_get (anchorData A r) ''bootstrap'' = FormatBool (ta_Bootstrap r)"
  "data_get (anchorData A r) ''recoveryGeneration'' = FormatUint (ta_Generation r)"
  "data_get (anchorData A r) ''recoveryEvidence'' = b64_encode StdEncoding (al_evidence A (evidence r))"
  "data_get (anchorData A r) ''recoveryTransition'' = recoveryProjection (al_transition A) (ta_Transition r)"
  "data_get (anchorData A r) ''recoveryReceipt'' = recoveryProjection (al_receipt A) (ta_Receipt r)"
  by (simp_all add: data_get_def anchorData_def)

lemma anchorData_keys: "map fst (anchorData A r) = anchorDataKeys"
  by (simp add: anchorData_def anchorDataKeys_def)

lemma keys_distinct: "distinct anchorDataKeys" by code_simp

lemma anchorData_length [simp]: "length (anchorData A r) = trustAnchorCompositeKeys"
  by (simp add: anchorData_def trustAnchorCompositeKeys_def)

lemma anchorData_shape: "anchorDataShape (anchorData A r)"
proof -
  have "fst ` set (anchorData A r) = set anchorDataKeys" using anchorData_keys [of A r] by (metis list.set_map)
  then show ?thesis by (force simp: anchorDataShape_def list_all_iff trustAnchorCompositeKeys_def trustAnchorLegacyKeys_def)
qed

lemma FormatInt_nonempty [simp]: "FormatInt n \<noteq> ''''" by (simp add: FormatInt_def)

lemma stored_reads:
  assumes "evidence_json_ok A" "storable A r"
  shows "parseAnchorData A (anchorData A r) = Inr r"
proof -
  have ok: "validateStructure (al_ops A) r" "ta_Epoch r < 2 ^ 63 - 1" "ta_Generation r < 2 ^ 64" "0 \<le> ta_Epoch r"
    using assms(2) by (auto simp: storable_def validateStructure_def)
  have pending: "0 \<le> p \<and> p < 2 ^ 63" if "ta_PendingEpoch r = Some p" for p
    using ok that by (auto simp: validateStructure_def)
  define flat where "flat = r\<lparr>ta_Generation := 0, ta_Transition := None, ta_Receipt := None\<rparr>"
  have "parse_flat (anchorData A r) = Inr flat"
    using ok pending by (cases r) (auto simp: flat_def parse_flat_def anchorData_get epoch_reads FormatBool_def Let_def split: option.splits)
  moreover have "agrees (evidence r) flat" by (simp add: agrees_iff flat_def evidence_def)
  moreover have "flat\<lparr>ta_Generation := ta_Generation r, ta_Transition := ta_Transition r, ta_Receipt := ta_Receipt r\<rparr> = r" by (simp add: flat_def)
  ultimately show ?thesis
    using assms ok evidence_reads [OF assms(1) ok(1)] projection_reads [of "al_transition A" "al_read_transition A" "ta_Transition r"]
      projection_reads [of "al_receipt A" "al_read_receipt A" "ta_Receipt r"]
    by (simp add: parseAnchorData_def anchorData_shape parse_recovery_def anchorData_get generation_reads storable_def trustAnchorCompositeKeys_def trustAnchorLegacyKeys_def)
qed

subsection \<open>What is read is what was written\<close>

definition flat_keys :: "string list" where
  "flat_keys = [''format'', ''clusterID'', ''storageID'', ''epoch'', ''token'', ''pendingEpoch'', ''pendingID'', ''bootstrap'']"

lemma flat_subset: "k \<in> set anchorDataKeys \<Longrightarrow> HasPrefix k ''recovery'' \<or> k \<in> set flat_keys"
proof -
  have "list_all (\<lambda>k. HasPrefix k ''recovery'' \<or> k \<in> set flat_keys) anchorDataKeys" by code_simp
  then show "k \<in> set anchorDataKeys \<Longrightarrow> HasPrefix k ''recovery'' \<or> k \<in> set flat_keys" unfolding list_all_iff by blast
qed

lemma all_keys_there:
  assumes "distinct (map fst d)" "fst ` set d \<subseteq> set ks" "length d = length ks" "distinct ks" "k \<in> set ks"
  shows "map_of d k = Some (data_get d k)"
proof -
  have "card (fst ` set d) = card (set ks)" using assms(1,3,4) by (metis distinct_card length_map list.set_map)
  then have "fst ` set d = set ks" using assms(2) by (simp add: card_subset_eq)
  then have "map_of d k \<noteq> None" using assms(5) by (metis map_of_eq_None_iff)
  then show ?thesis by (auto simp: data_get_def)
qed

lemma shape_keys:
  assumes "anchorDataShape d"
  shows "length d = trustAnchorLegacyKeys \<Longrightarrow> fst ` set d \<subseteq> set flat_keys" "fst ` set d \<subseteq> set anchorDataKeys"
proof -
  have k: "fst x \<in> set anchorDataKeys" "\<not> (length d = trustAnchorLegacyKeys \<and> HasPrefix (fst x) ''recovery'')" if "x \<in> set d" for x
    using that assms by (auto simp: anchorDataShape_def list_all_iff)
  then show "fst ` set d \<subseteq> set anchorDataKeys" by blast
  assume "length d = trustAnchorLegacyKeys"
  then show "fst ` set d \<subseteq> set flat_keys" using k flat_subset by blast
qed

lemma parse_flat_get:
  assumes "parse_flat d = Inr r"
  shows "\<forall>k \<in> set flat_keys. data_get d k = data_get (anchorData A (r\<lparr>ta_Generation := g, ta_Transition := t, ta_Receipt := c\<rparr>)) k"
  using assms
  by (auto simp: flat_keys_def parse_flat_def parseAnchorEpoch_def anchorData_get FormatBool_def Let_def split: option.splits if_splits)

lemma projection_canonical: "parseRecoveryProjection marshal decode raw = Inr v \<Longrightarrow> recoveryProjection marshal v = raw"
  by (auto simp: parseRecoveryProjection_def recoveryProjection_def split: if_splits option.splits)

lemma parse_recovery_get:
  assumes "parse_recovery A d r0 = Inr r"
  shows "r = r0\<lparr>ta_Generation := ta_Generation r, ta_Transition := ta_Transition r, ta_Receipt := ta_Receipt r\<rparr> \<and>
    data_get d ''recoveryGeneration'' = FormatUint (ta_Generation r) \<and> data_get d ''recoveryTransition'' = recoveryProjection (al_transition A) (ta_Transition r) \<and>
    data_get d ''recoveryReceipt'' = recoveryProjection (al_receipt A) (ta_Receipt r) \<and>
    b64_decode StdEncoding (data_get d ''recoveryEvidence'') = Some (al_evidence A (evidence r)) \<and> validateStructure (al_ops A) r"
  using assms
  by (auto simp: parse_recovery_def parseTrustAnchorEvidence_def parseAnchorGeneration_def agrees_iff evidence_def Let_def
      dest!: projection_canonical split: option.splits sum.splits if_splits)

lemma parsed_canonical:
  assumes "parseAnchorData A d = Inr r" "distinct (map fst d)"
  shows "(\<forall>k \<in> set flat_keys. map_of d k = map_of (anchorData A r) k) \<and>
    (length d = trustAnchorLegacyKeys \<longrightarrow> ta_Generation r = 0 \<and> ta_Transition r = None \<and> ta_Receipt r = None) \<and>
    (length d \<noteq> trustAnchorLegacyKeys \<longrightarrow> validateStructure (al_ops A) r \<and>
       (\<forall>k. k \<noteq> ''recoveryEvidence'' \<longrightarrow> map_of d k = map_of (anchorData A r) k) \<and>
       b64_decode StdEncoding (data_get d ''recoveryEvidence'') = Some (al_evidence A (evidence r)))"
proof -
  have shape: "anchorDataShape d" using assms(1) by (auto simp: parseAnchorData_def split: if_splits)
  obtain r0 where r0: "parse_flat d = Inr r0" and rest: "if length d = trustAnchorLegacyKeys then r = r0 else parse_recovery A d r0 = Inr r"
    using assms(1) by (auto simp: parseAnchorData_def split: if_splits sum.splits)
  have new: "map_of (anchorData A r) k = Some (data_get (anchorData A r) k)" if "k \<in> set anchorDataKeys" for k
    using all_keys_there [of "anchorData A r" anchorDataKeys k] anchorData_keys [of A r] keys_distinct that
    by (metis length_map list.set_map order_refl)
  have flat_all: "set flat_keys \<subseteq> set anchorDataKeys" by (auto simp: flat_keys_def anchorDataKeys_def)
  show ?thesis
  proof (cases "length d = trustAnchorLegacyKeys")
    case True
    then have r: "r = r0" using rest by simp
    have "distinct flat_keys" "length d = length flat_keys" using True by (simp_all add: flat_keys_def trustAnchorLegacyKeys_def)
    then have "map_of d k = Some (data_get d k)" if "k \<in> set flat_keys" for k
      using all_keys_there [OF assms(2) shape_keys(1) [OF shape True]] that by blast
    moreover have zero: "ta_Generation r = 0 \<and> ta_Transition r = None \<and> ta_Receipt r = None"
      using r0 r by (auto simp: parse_flat_def Let_def split: option.splits if_splits)
    moreover have "r0\<lparr>ta_Generation := 0, ta_Transition := None, ta_Receipt := None\<rparr> = r" using zero r by (cases r0) simp
    then have "data_get d k = data_get (anchorData A r) k" if "k \<in> set flat_keys" for k
      using parse_flat_get [OF r0, where A = A and g = 0 and t = None and c = None] that by simp
    ultimately show ?thesis using True new flat_all by auto
  next
    case False
    then have rec: "parse_recovery A d r0 = Inr r" using rest by simp
    note g = parse_recovery_get [OF rec]
    have "length d = length anchorDataKeys" using shape False by (auto simp: anchorDataShape_def trustAnchorCompositeKeys_def anchorDataKeys_def)
    then have old: "map_of d k = Some (data_get d k)" if "k \<in> set anchorDataKeys" for k
      using all_keys_there [OF assms(2) shape_keys(2) [OF shape] _ keys_distinct that] by blast
    have flat: "data_get d k = data_get (anchorData A r) k" if "k \<in> set flat_keys" for k
      using parse_flat_get [OF r0] that g by metis
    have "map_of d k = map_of (anchorData A r) k" if "k \<noteq> ''recoveryEvidence''" for k
    proof (cases "k \<in> set anchorDataKeys")
      case True
      then have "k \<in> set flat_keys \<or> k = ''recoveryGeneration'' \<or> k = ''recoveryTransition'' \<or> k = ''recoveryReceipt''"
        using that by (auto simp: anchorDataKeys_def flat_keys_def)
      then have "data_get d k = data_get (anchorData A r) k" using flat g by (auto simp: anchorData_get)
      then show ?thesis using old new True by simp
    next
      case False
      then have "k \<notin> fst ` set d" "k \<notin> fst ` set (anchorData A r)" using shape_keys(2) [OF shape] anchorData_keys [of A r] by (blast, metis list.set_map)
      then show ?thesis by (metis map_of_eq_None_iff)
    qed
    moreover have "''recoveryEvidence'' \<notin> set flat_keys" by (simp add: flat_keys_def)
    ultimately show ?thesis using False g by metis
  qed
qed

lemma projection_inverse:
  assumes "evidence_json_ok A" "validateStructure (al_ops A) r"
  shows "anchorRecordFromRecovery A version1 (recoveryRecord A version1 r) = Inr r"
  using evidence_reads [OF assms]
  by (cases r) (simp add: anchorRecordFromRecovery_def recoveryRecord_def evidence_def)

end
