(* ===== verification/Anchor_Kubernetes.thy ===== *)
theory Anchor_Kubernetes
  imports Anchor_Data
begin

section \<open>The anchor in Kubernetes (trust\_anchor\_kubernetes.go, trust\_anchor\_composite.go)\<close>

text \<open>
  The API server is the record \<open>kube\<close>: \<open>k_get\<close> and \<open>k_put\<close> answer with a status and the decoded body, or not at
  all, and \<open>k_peers\<close> is what other clients do before the next request.  The metadata of an object holds raw
  JSON values; \<open>k_string\<close> and \<open>k_raw\<close> decode and encode a string.
\<close>

record configMapWire =
  cm_APIVersion :: string
  cm_Kind :: string
  cm_Metadata :: "(string \<times> string) list"
  cm_Data :: data_map

record kube_response =
  kr_Status :: int
  kr_Wire :: "configMapWire option"

record 'x kube =
  k_get :: "'x \<Rightarrow> kube_response option"
  k_put :: "configMapWire \<Rightarrow> 'x \<Rightarrow> kube_response option \<times> 'x"
  k_peers :: "'x \<Rightarrow> 'x"
  k_string :: "string \<Rightarrow> string option"
  k_raw :: "string \<Rightarrow> string"
  k_name :: string
  k_namespace :: string

definition metadataString :: "'x kube \<Rightarrow> configMapWire \<Rightarrow> string \<Rightarrow> string" where
  "metadataString K w key = (case map_of (cm_Metadata w) key of None \<Rightarrow> '''' | Some raw \<Rightarrow> (case k_string K raw of None \<Rightarrow> '''' | Some s \<Rightarrow> s))"

definition setMetadataString :: "'x kube \<Rightarrow> string \<Rightarrow> string \<Rightarrow> configMapWire \<Rightarrow> configMapWire" where
  "setMetadataString K key v w = w\<lparr>cm_Metadata := (key, k_raw K v) # filter (\<lambda>e. fst e \<noteq> key) (cm_Metadata w)\<rparr>"

definition getWire :: "'x kube \<Rightarrow> 'x \<Rightarrow> anchor_error + configMapWire \<times> string" where
  "getWire K x =
     (case k_get K x of
        None \<Rightarrow> Inl AD_Request
      | Some response \<Rightarrow>
          if kr_Status response \<noteq> 200 then Inl AD_Status
          else case kr_Wire response of
            None \<Rightarrow> Inl AD_Decode
          | Some wire \<Rightarrow>
              let rv = metadataString K wire ''resourceVersion'' in
              if rv = '''' \<or> metadataString K wire ''name'' \<noteq> k_name K \<or> metadataString K wire ''namespace'' \<noteq> k_namespace K then Inl AD_Metadata
              else Inr (wire, rv))"

definition kube_Get :: "('tr, 'rc) anchor_lib \<Rightarrow> 'x kube \<Rightarrow> 'x \<Rightarrow> anchor_error + ('tr, 'rc) trustAnchorRecord \<times> string" where
  "kube_Get A K x =
     (case getWire K x of
        Inl e \<Rightarrow> Inl e
      | Inr (wire, rv) \<Rightarrow> (case parseAnchorData A (cm_Data wire) of Inl e \<Rightarrow> Inl e | Inr r \<Rightarrow> Inr (r, rv)))"

definition put_wire :: "('tr, 'rc) anchor_lib \<Rightarrow> 'x kube \<Rightarrow> configMapWire \<Rightarrow> string \<Rightarrow> ('tr, 'rc) trustAnchorRecord \<Rightarrow> configMapWire" where
  "put_wire A K wire rv r =
     setMetadataString K ''namespace'' (k_namespace K) (setMetadataString K ''name'' (k_name K)
       (setMetadataString K ''resourceVersion'' rv (wire\<lparr>cm_Data := anchorData A r\<rparr>)))"

definition put :: "('tr, 'rc) anchor_lib \<Rightarrow> 'x kube \<Rightarrow> configMapWire \<Rightarrow> string \<Rightarrow> ('tr, 'rc) trustAnchorRecord \<Rightarrow> 'x \<Rightarrow> (anchor_error + string) \<times> 'x" where
  "put A K wire rv r x =
     (case k_put K (put_wire A K wire rv r) x of
        (None, x') \<Rightarrow> (Inl AD_Request, x')
      | (Some response, x') \<Rightarrow>
          if kr_Status response \<noteq> 200 then (Inl AD_Status, x')
          else case kr_Wire response of
            None \<Rightarrow> (Inl AD_Decode, x')
          | Some result \<Rightarrow>
              let updated = metadataString K result ''resourceVersion'' in
              if updated = '''' then (Inl AD_NoVersion, x') else (Inr updated, x'))"

definition kube_CAS ::
    "('tr, 'rc) anchor_lib \<Rightarrow> 'x kube \<Rightarrow> string \<Rightarrow> ('tr, 'rc) trustAnchorRecord \<Rightarrow> 'x \<Rightarrow> (anchor_error + string) \<times> 'x" where
  "kube_CAS A K rv next x =
     (if rv = '''' then (Inl AD_NoVersion, x)
      else case getWire K x of
        Inl e \<Rightarrow> (Inl e, x)
      | Inr (wire, actualRV) \<Rightarrow>
          if actualRV \<noteq> rv then (Inl AD_Conflict, x)
          else if length (cm_Data wire) = trustAnchorLegacyKeys then
            (case parseAnchorData A (cm_Data wire) of
               Inl e \<Rightarrow> (Inl e, x)
             | Inr legacy \<Rightarrow>
                 (case put A K wire rv legacy (k_peers K x) of
                    (Inl e, x1) \<Rightarrow> (Inl e, x1)
                  | (Inr rv1, x1) \<Rightarrow> put A K wire rv1 next (k_peers K x1)))
          else put A K wire rv next (k_peers K x))"

subsection \<open>The backend of the anchor service\<close>

definition checkID :: "string \<Rightarrow> string \<Rightarrow> bool" where
  "checkID own i \<longleftrightarrow> i = own"

definition recovery_Read ::
    "('tr, 'rc) anchor_lib \<Rightarrow> 'x kube \<Rightarrow> int \<Rightarrow> string \<Rightarrow> string \<Rightarrow> 'x \<Rightarrow> anchor_error + ('tr, 'rc) recovery_record \<times> string" where
  "recovery_Read A K version1 own i x =
     (if \<not> checkID own i then Inl AD_UnknownAnchor
      else case kube_Get A K x of
        Inl e \<Rightarrow> Inl e
      | Inr (r, rv) \<Rightarrow> if \<not> validateStructure (al_ops A) r then Inl AD_Structure else Inr (recoveryRecord A version1 r, rv))"

definition recovery_CAS ::
    "('tr, 'rc) anchor_lib \<Rightarrow> 'x kube \<Rightarrow> int \<Rightarrow> string \<Rightarrow> string \<Rightarrow> string \<Rightarrow> ('tr, 'rc) recovery_record \<Rightarrow> 'x \<Rightarrow> anchor_error option \<times> 'x" where
  "recovery_CAS A K version1 own i version r x =
     (if \<not> checkID own i then (Some AD_UnknownAnchor, x)
      else case anchorRecordFromRecovery A version1 r of
        Inl e \<Rightarrow> (Some e, x)
      | Inr next \<Rightarrow>
          if \<not> validateStructure (al_ops A) next then (Some AD_Structure, x)
          else (case kube_CAS A K version next x of (Inl e, x') \<Rightarrow> (Some e, x') | (Inr _, x') \<Rightarrow> (None, x')))"

end
