(* ===== verification/Anchor_Properties.thy ===== *)
theory Anchor_Properties
  imports Anchor_Kubernetes
begin

section \<open>The ConfigMap as a compare-and-swap register\<close>

text \<open>
  What is documented of the API server: a read returns the object and its version; a write that names a
  version is applied only to that version, and the answer may be lost; a write that names no version is not
  conditional, so nothing is promised of it; a version is never used for other contents.
\<close>

locale configmap_server =
  fixes K :: "'x kube" and v_data :: "'x \<Rightarrow> data_map" and v_rv :: "'x \<Rightarrow> string"
  assumes string_raw: "k_string K raw = Some s \<Longrightarrow> k_string K (k_raw K s) = Some s"
    and get_ok: "k_get K x = Some r \<Longrightarrow> kr_Status r = 200 \<Longrightarrow> kr_Wire r = Some w \<Longrightarrow>
      cm_Data w = v_data x \<and> metadataString K w ''resourceVersion'' = v_rv x"
    and put_ok: "k_put K w x = (q, x') \<Longrightarrow> metadataString K w ''resourceVersion'' \<noteq> '''' \<Longrightarrow>
      (metadataString K w ''resourceVersion'' = v_rv x \<and> v_data x' = cm_Data w \<and>
         (\<forall>p w'. q = Some p \<and> kr_Status p = 200 \<and> kr_Wire p = Some w' \<longrightarrow> metadataString K w' ''resourceVersion'' = v_rv x')) \<or>
      (v_data x' = v_data x \<and> v_rv x' = v_rv x \<and> (\<forall>p. q = Some p \<longrightarrow> kr_Status p \<noteq> 200))"
    and peers_ok: "v_rv (k_peers K x) = v_rv x \<Longrightarrow> v_data (k_peers K x) = v_data x"
begin

lemma getWire_Inr:
  assumes "getWire K x = Inr (wire, rv)"
  shows "cm_Data wire = v_data x \<and> rv = v_rv x \<and> rv \<noteq> '''' \<and> k_string K (k_raw K rv) = Some rv"
proof -
  obtain r where g: "k_get K x = Some r" "kr_Status r = 200" "kr_Wire r = Some wire" "rv = metadataString K wire ''resourceVersion''" "rv \<noteq> ''''"
    using assms by (auto simp: getWire_def Let_def split: option.splits if_splits)
  then obtain raw where "k_string K raw = Some rv" by (auto simp: metadataString_def split: option.splits)
  then show ?thesis using g get_ok string_raw by auto
qed

lemma put_wire_version:
  assumes "k_string K (k_raw K rv) = Some rv"
  shows "metadataString K (put_wire A K wire rv r) ''resourceVersion'' = rv" "cm_Data (put_wire A K wire rv r) = anchorData A r"
  using assms by (simp_all add: put_wire_def metadataString_def setMetadataString_def)

lemma put_Inr:
  assumes "put A K wire rv r x = (Inr rv', x')" "rv \<noteq> ''''" "k_string K (k_raw K rv) = Some rv"
  shows "rv = v_rv x \<and> v_data x' = anchorData A r \<and> rv' = v_rv x' \<and> rv' \<noteq> '''' \<and> k_string K (k_raw K rv') = Some rv'"
proof -
  obtain p w' where p: "k_put K (put_wire A K wire rv r) x = (Some p, x')" "kr_Status p = 200" "kr_Wire p = Some w'"
    "rv' = metadataString K w' ''resourceVersion''" "rv' \<noteq> ''''"
    using assms(1) by (auto simp: put_def Let_def split: prod.splits option.splits if_splits)
  then obtain raw where "k_string K raw = Some rv'" by (auto simp: metadataString_def split: option.splits)
  moreover have "metadataString K (put_wire A K wire rv r) ''resourceVersion'' \<noteq> ''''" using put_wire_version [OF assms(3), of A wire r] assms(2) by simp
  ultimately show ?thesis using put_ok [OF p(1)] p put_wire_version [OF assms(3), of A wire r] string_raw by auto
qed

lemma put_Inl:
  assumes "put A K wire rv r x = (Inl e, x')" "rv \<noteq> ''''" "k_string K (k_raw K rv) = Some rv"
  shows "(v_data x' = v_data x \<and> v_rv x' = v_rv x) \<or> (rv = v_rv x \<and> v_data x' = anchorData A r)"
proof -
  obtain q where "k_put K (put_wire A K wire rv r) x = (q, x')"
    using assms(1) by (auto simp: put_def Let_def split: prod.splits option.splits if_splits)
  moreover have "metadataString K (put_wire A K wire rv r) ''resourceVersion'' \<noteq> ''''" using put_wire_version [OF assms(3), of A wire r] assms(2) by simp
  ultimately show ?thesis using put_ok [of "put_wire A K wire rv r" x q x'] put_wire_version [OF assms(3), of A wire r] by auto
qed

lemma Get_Inr: "kube_Get A K x = Inr (r, rv) \<Longrightarrow> parseAnchorData A (v_data x) = Inr r \<and> rv = v_rv x"
  using getWire_Inr by (fastforce simp: kube_Get_def split: sum.splits)

lemma put_state: "put A K wire rv r x = (q, x') \<Longrightarrow> x' = snd (k_put K (put_wire A K wire rv r) x)"
  by (auto simp: put_def Let_def split: prod.splits option.splits if_splits)

text \<open>The state that the last write of a successful compare-and-swap replaced.\<close>

lemma CAS_Inr:
  assumes "kube_CAS A K rv next x = (Inr rv', x')"
  shows "rv = v_rv x \<and> v_data x' = anchorData A next \<and> rv' = v_rv x' \<and>
    (\<exists>w y. x' = snd (k_put K w y) \<and> (v_data y = v_data x \<or>
       (\<exists>legacy. parseAnchorData A (v_data x) = Inr legacy \<and> v_data y = anchorData A legacy)))"
proof -
  obtain wire where w: "getWire K x = Inr (wire, rv)" using assms by (auto simp: kube_CAS_def split: if_splits sum.splits)
  note g = getWire_Inr [OF w]
  show ?thesis
  proof (cases "length (cm_Data wire) = trustAnchorLegacyKeys")
    case True
    then obtain legacy rv1 x1 where l: "parseAnchorData A (cm_Data wire) = Inr legacy" "put A K wire rv legacy (k_peers K x) = (Inr rv1, x1)"
      "put A K wire rv1 next (k_peers K x1) = (Inr rv', x')"
      using assms w by (auto simp: kube_CAS_def split: if_splits sum.splits prod.splits)
    have a: "rv = v_rv (k_peers K x) \<and> v_data x1 = anchorData A legacy \<and> rv1 = v_rv x1 \<and> rv1 \<noteq> '''' \<and> k_string K (k_raw K rv1) = Some rv1"
      using put_Inr [OF l(2)] g by blast
    have b: "rv1 = v_rv (k_peers K x1) \<and> v_data x' = anchorData A next \<and> rv' = v_rv x'" using put_Inr [OF l(3)] a by blast
    then have "v_data (k_peers K x1) = anchorData A legacy" using a peers_ok [of x1] by auto
    then show ?thesis using a b g l(1) put_state [OF l(3)] by metis
  next
    case False
    then have p: "put A K wire rv next (k_peers K x) = (Inr rv', x')" using assms w by (auto simp: kube_CAS_def split: if_splits)
    then have q: "rv = v_rv (k_peers K x) \<and> v_data x' = anchorData A next \<and> rv' = v_rv x'" using put_Inr g by blast
    then have "v_data (k_peers K x) = v_data x" using g peers_ok [of x] by auto
    then show ?thesis using q g put_state [OF p] by metis
  qed
qed

lemma CAS_Inl:
  assumes "kube_CAS A K rv next x = (Inl e, x')"
  shows "(\<exists>z \<in> {x, k_peers K x}. v_data x' = v_data z \<and> v_rv x' = v_rv z) \<or> rv = v_rv x \<and> (v_data x' = anchorData A next \<or>
    length (v_data x) = trustAnchorLegacyKeys \<and> (\<exists>legacy x1. parseAnchorData A (v_data x) = Inr legacy \<and> v_data x1 = anchorData A legacy \<and>
      (\<exists>z \<in> {x1, k_peers K x1}. v_data x' = v_data z)))"
proof (cases "x' = x")
  case False
  then obtain wire where w: "getWire K x = Inr (wire, rv)" using assms by (auto simp: kube_CAS_def split: if_splits sum.splits)
  note g = getWire_Inr [OF w]
  show ?thesis
  proof (cases "length (cm_Data wire) = trustAnchorLegacyKeys")
    case True
    then obtain legacy q x1 where l: "parseAnchorData A (cm_Data wire) = Inr legacy" "put A K wire rv legacy (k_peers K x) = (q, x1)"
      "case q of Inl e \<Rightarrow> x' = x1 | Inr rv1 \<Rightarrow> put A K wire rv1 next (k_peers K x1) = (Inl e, x')"
      using assms w False by (auto simp: kube_CAS_def split: if_splits sum.splits prod.splits)
    show ?thesis
    proof (cases q)
      case (Inl e1)
      then show ?thesis using put_Inl [of A wire rv legacy "k_peers K x" e1 x1] l g True by auto
    next
      case (Inr rv1)
      then have a: "v_data x1 = anchorData A legacy \<and> rv1 = v_rv x1 \<and> rv1 \<noteq> '''' \<and> k_string K (k_raw K rv1) = Some rv1"
        using put_Inr [of A wire rv legacy "k_peers K x" rv1 x1] l(2) g by blast
      have "put A K wire rv1 next (k_peers K x1) = (Inl e, x')" using l(3) Inr by simp
      then show ?thesis using put_Inl a l(1) g True by (metis insertI1 insertI2)
    qed
  next
    case False
    then have "put A K wire rv next (k_peers K x) = (Inl e, x')" using assms w g by (auto simp: kube_CAS_def split: if_splits)
    then show ?thesis using put_Inl g by (metis insertI1 insertI2)
  qed
qed simp

end

subsection \<open>The guarantees\<close>

text \<open>C35. The anchor's representation loses nothing.  A well-formed record whose numbers fit reads back from its
  ConfigMap data, and from the form it has in the anchor service; and data that a reader accepts is, key
  by key, what a writer would store for the record that was read: in the old form without the recovery
  keys, in the new one up to the encoding of the envelope.  The hypothesis is that JSON envelopes of
  ASCII strings read back.\<close>

theorem anchor_data_roundtrip:
  assumes "evidence_json_ok A" "storable A r"
  shows "parseAnchorData A (anchorData A r) = Inr r \<and> anchorRecordFromRecovery A version1 (recoveryRecord A version1 r) = Inr r \<and>
    (\<forall>d r'. parseAnchorData A d = Inr r' \<and> distinct (map fst d) \<longrightarrow>
       (\<forall>k. k \<in> set flat_keys \<or> length d \<noteq> trustAnchorLegacyKeys \<and> k \<noteq> ''recoveryEvidence'' \<longrightarrow> map_of d k = map_of (anchorData A r') k) \<and>
       (length d \<noteq> trustAnchorLegacyKeys \<longrightarrow> b64_decode StdEncoding (data_get d ''recoveryEvidence'') = Some (al_evidence A (evidence r'))))"
proof (intro conjI allI impI)
  show "parseAnchorData A (anchorData A r) = Inr r" using assms by (rule stored_reads)
  show "anchorRecordFromRecovery A version1 (recoveryRecord A version1 r) = Inr r" using assms by (intro projection_inverse) (auto simp: storable_def)
qed (use parsed_canonical in blast)+

text \<open>C34. The ConfigMap is a compare-and-swap register.  A read returns the stored record and its version.  A write
  that succeeds was given the version of the state it started from, replaced that same record although other
  clients may have acted since the read, also when it first migrated the old form, and left the new
  record with the new version.  A write that fails has left the record as it was or as other clients made it,
  or was given the current version and has stored the new record.\<close>

theorem kubernetes_register:
  assumes "configmap_server K v_data v_rv" "evidence_json_ok A" "storable A next"
    and "\<And>legacy. parseAnchorData A (v_data x) = Inr legacy \<Longrightarrow> storable A legacy"
  shows "(kube_Get A K x = Inr (r, rv) \<longrightarrow> parseAnchorData A (v_data x) = Inr r \<and> rv = v_rv x) \<and>
    (kube_CAS A K rv next x = (Inr rv', x') \<longrightarrow> rv = v_rv x \<and> rv' = v_rv x' \<and> parseAnchorData A (v_data x') = Inr next \<and>
       (\<exists>w y. x' = snd (k_put K w y) \<and> parseAnchorData A (v_data y) = parseAnchorData A (v_data x))) \<and>
    (kube_CAS A K rv next x = (Inl e, x') \<longrightarrow>
       (\<exists>y z. parseAnchorData A (v_data y) = parseAnchorData A (v_data x) \<and> z \<in> {y, k_peers K y} \<and> parseAnchorData A (v_data x') = parseAnchorData A (v_data z)) \<or>
       rv = v_rv x \<and> parseAnchorData A (v_data x') = Inr next)"
proof (intro conjI impI)
  note srv = assms(1)
  note new = stored_reads [OF assms(2,3)]
  have old: "parseAnchorData A (anchorData A legacy) = Inr legacy" if "parseAnchorData A (v_data x) = Inr legacy" for legacy
    using stored_reads [OF assms(2) assms(4) [OF that]] .
  show "parseAnchorData A (v_data x) = Inr r" "rv = v_rv x" if "kube_Get A K x = Inr (r, rv)"
    using configmap_server.Get_Inr [OF srv that] by simp_all
  assume c: "kube_CAS A K rv next x = (Inr rv', x')"
  note s = configmap_server.CAS_Inr [OF srv c]
  show "rv = v_rv x" "rv' = v_rv x'" "parseAnchorData A (v_data x') = Inr next" using s new by simp_all
  show "\<exists>w y. x' = snd (k_put K w y) \<and> parseAnchorData A (v_data y) = parseAnchorData A (v_data x)" using s old by metis
next
  note new = stored_reads [OF assms(2,3)]
  have old: "parseAnchorData A (anchorData A legacy) = Inr legacy" if "parseAnchorData A (v_data x) = Inr legacy" for legacy
    using stored_reads [OF assms(2) assms(4) [OF that]] .
  assume "kube_CAS A K rv next x = (Inl e, x')"
  from configmap_server.CAS_Inl [OF assms(1) this] consider (same) z where "z \<in> {x, k_peers K x}" "v_data x' = v_data z"
    | (stored) "rv = v_rv x" "v_data x' = anchorData A next"
    | (moved) legacy x1 z where "parseAnchorData A (v_data x) = Inr legacy" "v_data x1 = anchorData A legacy" "z \<in> {x1, k_peers K x1}" "v_data x' = v_data z"
    by blast
  then show "(\<exists>y z. parseAnchorData A (v_data y) = parseAnchorData A (v_data x) \<and> z \<in> {y, k_peers K y} \<and> parseAnchorData A (v_data x') = parseAnchorData A (v_data z)) \<or>
      rv = v_rv x \<and> parseAnchorData A (v_data x') = Inr next"
  proof cases
    case same
    then show ?thesis by metis
  next
    case stored
    then show ?thesis using new by simp
  next
    case moved
    then show ?thesis using old by metis
  qed
qed

end
