(* ===== verification/Azure_Config.thy ===== *)
theory Azure_Config
  imports Core_Net Go_Path Go_Base64
begin

section \<open>Azure object storage (azure\_config.go)\<close>

text \<open>
  The Azure settings are checked and normalized before anything is opened, because the account and the
  endpoint become part of the identity to which the trust anchor is bound.  The environment is a function
  on names; a parsed URL is the record \<open>azure_url\<close>, with the results of its methods \<^verbatim>\<open>Hostname\<close>, \<^verbatim>\<open>Port\<close> and \<^verbatim>\<open>String\<close>.
\<close>

type_synonym env_vars = "string \<Rightarrow> string"

datatype data_error =
    DE_Emulator | DE_Generic | DE_Account | DE_EmulatorEndpoint | DE_Endpoint | DE_Port | DE_Mixed | DE_Tenant | DE_Key | DE_Connection | DE_Suffix | DE_Container
  | DE_Mode | DE_AdminToken | DE_Members | DE_Count | DE_Duplicate | DE_ShortToken | DE_TokenReuse | DE_Expected | DE_Durability | DE_KeyMismatch | DE_Duration
  | DE_Forbidden | DE_Provider | DE_Ack | DE_ClusterID | DE_Prefix | DE_Bucket | DE_Override | DE_ConfigMap | DE_Namespace
  | DE_EmptyCluster | DE_Trailing | DE_EmptyID | DE_Write

record azure_url =
  az_Scheme :: string
  az_Opaque :: string
  az_User :: bool
  az_Host :: string
  az_Path :: string
  az_RawPath :: string
  az_ForceQuery :: bool
  az_RawQuery :: string
  az_Fragment :: string
  az_Hostname :: string
  az_Port :: string
  az_String :: string

record azureStorageConfig =
  as_Account :: string
  as_BlobEndpoint :: string
  as_AccountKey :: string
  as_ConnectionString :: string
  as_TenantID :: string
  as_ClientID :: string
  as_ClientSecret :: string
  as_UserAssignedID :: string
  as_Emulator :: bool

subsection \<open>Names\<close>

definition lower_digit :: "char \<Rightarrow> bool" where "lower_digit c \<longleftrightarrow> is_lower c \<or> is_digit c"

text \<open>The patterns \<^verbatim>\<open>^[a-z0-9]{3,24}$\<close> and \<^verbatim>\<open>^[a-z0-9]+(?:[.-][a-z0-9]+)*$\<close>.\<close>

definition azureAccountName :: "string \<Rightarrow> bool" where
  "azureAccountName s \<longleftrightarrow> 3 \<le> length s \<and> length s \<le> 24 \<and> list_all lower_digit s"

fun dns_rest :: "string \<Rightarrow> bool" where
  "dns_rest [] = True"
| "dns_rest [c] = lower_digit c"
| "dns_rest (c # d # s) = (if lower_digit c then dns_rest (d # s) else (c = CHR ''.'' \<or> c = CHR ''-'') \<and> lower_digit d \<and> dns_rest s)"

definition azureDNSName :: "string \<Rightarrow> bool" where
  "azureDNSName s \<longleftrightarrow> s \<noteq> [] \<and> lower_digit (hd s) \<and> dns_rest s"

definition validAzureAccountKey :: "string \<Rightarrow> bool" where
  "validAzureAccountKey key \<longleftrightarrow>
     (case b64_decode StdEncoding key of None \<Rightarrow> False | Some decoded \<Rightarrow> length decoded > 0 \<and> \<not> ContainsAny key [CHR 0x0D, CHR 0x0A])"

subsection \<open>Connection strings\<close>

definition connectionKeys :: "string list" where
  "connectionKeys = [''AccountName'', ''AccountKey'', ''BlobEndpoint'', ''DefaultEndpointsProtocol'', ''EndpointSuffix'']"

fun connection_fields :: "string list \<Rightarrow> (string \<rightharpoonup> string) \<Rightarrow> (string \<rightharpoonup> string) option" where
  "connection_fields [] vals = Some vals"
| "connection_fields (item # items) vals =
     (case Cut item (CHR ''='') of
        None \<Rightarrow> None
      | Some (key, v) \<Rightarrow>
          if v = '''' \<or> vals key \<noteq> None \<or> key \<notin> set connectionKeys then None
          else connection_fields items (vals(key \<mapsto> v)))"

definition field :: "(string \<rightharpoonup> string) \<Rightarrow> string \<Rightarrow> string" where
  "field vals key = (case vals key of None \<Rightarrow> '''' | Some v \<Rightarrow> v)"

definition connection_endpoint :: "string \<Rightarrow> (string \<rightharpoonup> string) \<Rightarrow> string option" where
  "connection_endpoint account vals =
     (let protocol = (if field vals ''DefaultEndpointsProtocol'' = '''' then ''https'' else field vals ''DefaultEndpointsProtocol'') in
      if protocol \<noteq> ''https'' \<and> protocol \<noteq> ''http'' then None
      else if field vals ''BlobEndpoint'' = '''' then
        (let suffix = (if field vals ''EndpointSuffix'' = '''' then ''core.windows.net'' else field vals ''EndpointSuffix'') in
         if \<not> azureDNSName suffix then None else Some (protocol @ ''://'' @ account @ ''.blob.'' @ suffix))
      else if field vals ''EndpointSuffix'' \<noteq> '''' \<or>
              (field vals ''DefaultEndpointsProtocol'' \<noteq> '''' \<and> \<not> HasPrefix (field vals ''BlobEndpoint'') (protocol @ ''://'')) then None
      else Some (field vals ''BlobEndpoint''))"

definition validateConnectionString :: "azureStorageConfig \<Rightarrow> bool" where
  "validateConnectionString a \<longleftrightarrow>
     (case connection_fields (Split (TrimSuffix (as_ConnectionString a) '';'') (CHR '';'')) Map.empty of
        None \<Rightarrow> False
      | Some vals \<Rightarrow>
          \<not> (field vals ''AccountName'' \<noteq> as_Account a \<or> field vals ''AccountKey'' = '''') \<and> validAzureAccountKey (field vals ''AccountKey'') \<and>
          connection_endpoint (as_Account a) vals = Some (as_BlobEndpoint a))"

subsection \<open>Normalization\<close>

text \<open>\<^verbatim>\<open>IsLoopback\<close>: \<^verbatim>\<open>127.0.0.0/8\<close>, also mapped into IPv6, and \<^verbatim>\<open>::1\<close>.\<close>

definition IsLoopback :: "nat list \<Rightarrow> bool" where
  "IsLoopback ip \<longleftrightarrow> (if is_v4 ip then ip ! 12 = 127 else ip = replicate 15 0 @ [1])"

text \<open>On hosts of ASCII bytes, being equal to the lower-case form is having no upper-case letter; the names accepted
  below are of such bytes.\<close>

definition canonical_url :: "string \<Rightarrow> azure_url option \<Rightarrow> bool" where
  "canonical_url endpoint u \<longleftrightarrow>
     (case u of None \<Rightarrow> False
      | Some u \<Rightarrow> \<not> (az_User u \<or> az_RawQuery u \<noteq> '''' \<or> az_ForceQuery u \<or> az_Fragment u \<noteq> '''' \<or> az_Opaque u \<noteq> '''' \<or> az_Host u = '''' \<or> az_RawPath u \<noteq> '''' \<or>
           list_ex is_upper (az_Host u) \<or> az_String u \<noteq> endpoint \<or>
           ContainsAny endpoint [CHR 0x5C, CHR ''#'', CHR 0x00, CHR 0x0D, CHR 0x0A, CHR 0x09, CHR '' '']))"

definition valid_port :: "string \<Rightarrow> bool" where
  "valid_port port \<longleftrightarrow> port = '''' \<or> (case Atoi port of None \<Rightarrow> False | Some n \<Rightarrow> 1 \<le> n \<and> n \<le> 65535)"

definition credential_forms :: "azureStorageConfig \<Rightarrow> nat" where
  "credential_forms a = length (filter (\<lambda>b. b)
     [as_AccountKey a \<noteq> '''', as_ConnectionString a \<noteq> '''', as_TenantID a \<noteq> '''' \<or> as_ClientID a \<noteq> '''' \<or> as_ClientSecret a \<noteq> '''', as_UserAssignedID a \<noteq> ''''])"

definition check_endpoint :: "azureStorageConfig \<Rightarrow> azure_url \<Rightarrow> data_error option" where
  "check_endpoint a u =
     (if HasSuffix (az_Host u) '':'' then Some DE_Port
      else if \<not> valid_port (az_Port u) then Some DE_Port
      else if as_Emulator a then
        (if az_Scheme u \<noteq> ''http'' \<or> (case ParseIP (az_Hostname u) of None \<Rightarrow> True | Some ip \<Rightarrow> \<not> IsLoopback ip) \<or> az_Port u = '''' \<or>
            az_Path u \<noteq> ''/'' @ as_Account a \<or> as_ConnectionString a = '''' then Some DE_EmulatorEndpoint else None)
      else if az_Scheme u \<noteq> ''https'' \<or> az_Path u \<noteq> '''' \<or> \<not> azureDNSName (az_Hostname u) then Some DE_Endpoint
      else None)"

definition check_credentials :: "azureStorageConfig \<Rightarrow> azure_url \<Rightarrow> data_error option" where
  "check_credentials a u =
     (if credential_forms a > 1 then Some DE_Mixed
      else if (as_TenantID a \<noteq> '''' \<or> as_ClientID a \<noteq> '''' \<or> as_ClientSecret a \<noteq> '''') \<and> (as_TenantID a = '''' \<or> as_ClientID a = '''' \<or> as_ClientSecret a = '''')
      then Some DE_Tenant
      else if as_AccountKey a \<noteq> '''' \<and> \<not> validAzureAccountKey (as_AccountKey a) then Some DE_Key
      else if as_ConnectionString a \<noteq> '''' then (if validateConnectionString a then None else Some DE_Connection)
      else if az_Port u \<noteq> '''' \<or> \<not> HasPrefix (az_Hostname u) (as_Account a @ ''.'') \<or> \<not> azureDNSName (drop (length (as_Account a @ ''.'')) (az_Hostname u))
      then Some DE_Suffix
      else None)"

definition normalized :: "(string \<Rightarrow> azure_url option) \<Rightarrow> azureStorageConfig \<Rightarrow> data_error + azureStorageConfig" where
  "normalized url a0 =
     (if \<not> azureAccountName (as_Account a0) then Inl DE_Account
      else if as_BlobEndpoint a0 = '''' \<and> as_Emulator a0 then Inl DE_EmulatorEndpoint
      else
        let a = (if as_BlobEndpoint a0 = '''' then a0\<lparr>as_BlobEndpoint := ''https://'' @ as_Account a0 @ ''.blob.core.windows.net''\<rparr> else a0) in
        if \<not> canonical_url (as_BlobEndpoint a) (url (as_BlobEndpoint a)) then Inl DE_Endpoint
        else case url (as_BlobEndpoint a) of
          None \<Rightarrow> Inl DE_Endpoint
        | Some u \<Rightarrow>
            (case check_endpoint a u of
               Some e \<Rightarrow> Inl e
             | None \<Rightarrow> (case check_credentials a u of Some e \<Rightarrow> Inl e | None \<Rightarrow> Inr a)))"

definition azureStorageFromEnv :: "(string \<Rightarrow> azure_url option) \<Rightarrow> env_vars \<Rightarrow> data_error + azureStorageConfig" where
  "azureStorageFromEnv url E =
     (let a = \<lparr>as_Account = E ''TERNAL_OBJECT_STORE_AZURE_STORAGE_ACCOUNT'', as_BlobEndpoint = E ''TERNAL_OBJECT_STORE_AZURE_BLOB_ENDPOINT'',
            as_AccountKey = E ''TERNAL_OBJECT_STORE_AZURE_STORAGE_ACCOUNT_KEY'', as_ConnectionString = E ''TERNAL_OBJECT_STORE_AZURE_CONNECTION_STRING'',
            as_TenantID = E ''TERNAL_OBJECT_STORE_AZURE_TENANT_ID'', as_ClientID = E ''TERNAL_OBJECT_STORE_AZURE_CLIENT_ID'',
            as_ClientSecret = E ''TERNAL_OBJECT_STORE_AZURE_CLIENT_SECRET'', as_UserAssignedID = E ''TERNAL_OBJECT_STORE_AZURE_USER_ASSIGNED_ID'',
            as_Emulator = (E ''TERNAL_OBJECT_STORE_AZURE_EMULATOR'' = ''1'')\<rparr>;
          emulator = E ''TERNAL_OBJECT_STORE_AZURE_EMULATOR'' in
      if emulator \<noteq> '''' \<and> emulator \<noteq> ''0'' \<and> emulator \<noteq> ''1'' then Inl DE_Emulator
      else if E ''TERNAL_OBJECT_STORE_ENDPOINT'' \<noteq> '''' \<or> (E ''TERNAL_OBJECT_STORE_INSECURE'' \<noteq> '''' \<and> E ''TERNAL_OBJECT_STORE_INSECURE'' \<noteq> ''false'')
      then Inl DE_Generic
      else normalized url a)"

subsection \<open>The database's configuration\<close>

record 'm rhiza_config =
  rz_Local :: bool
  rz_ClusterID :: string
  rz_NodeID :: string
  rz_DataDir :: string
  rz_BindAddr :: string
  rz_PeerAddr :: string
  rz_AdminToken :: string
  rz_PeerToken :: string
  rz_Members :: "'m list"
  rz_ObjStoreEndpoint :: string
  rz_ObjStoreBucket :: string
  rz_ObjStoreProvider :: string
  rz_ObjStoreDir :: string
  rz_ObjStorePrefix :: string
  rz_ObjStoreRegion :: string
  rz_ObjStoreInsecure :: bool
  rz_ObjStoreAccessKey :: string
  rz_ObjStoreSecretKey :: string
  rz_ObjStoreSessionToken :: string
  rz_ObjStoreDurability :: string
  rz_ObjStoreSyncInterval :: int
  rz_ObjStoreBatchDelay :: int
  rz_CheckpointInterval :: int
  rz_AzureStorageAccount :: string
  rz_AzureStorageAccountKey :: string
  rz_AzureConnectionString :: string
  rz_AzureTenantID :: string
  rz_AzureClientID :: string
  rz_AzureClientSecret :: string
  rz_AzureUserAssignedID :: string

definition sdkEndpoint :: "(string \<Rightarrow> azure_url option) \<Rightarrow> azureStorageConfig \<Rightarrow> string" where
  "sdkEndpoint url a =
     (case url (as_BlobEndpoint a) of
        None \<Rightarrow> as_BlobEndpoint a
      | Some u \<Rightarrow>
          if az_Scheme u = ''https'' \<and> az_Path u = '''' \<and> az_Port u = '''' \<and> HasPrefix (az_Hostname u) (as_Account a @ ''.'')
          then drop (length (as_Account a @ ''.'')) (az_Hostname u) else as_BlobEndpoint a)"

definition azure_apply :: "(string \<Rightarrow> azure_url option) \<Rightarrow> azureStorageConfig \<Rightarrow> 'm rhiza_config \<Rightarrow> 'm rhiza_config" where
  "azure_apply url a c =
     c\<lparr>rz_AzureStorageAccount := as_Account a, rz_AzureStorageAccountKey := as_AccountKey a, rz_AzureConnectionString := as_ConnectionString a,
       rz_AzureTenantID := as_TenantID a, rz_AzureClientID := as_ClientID a, rz_AzureClientSecret := as_ClientSecret a,
       rz_AzureUserAssignedID := as_UserAssignedID a, rz_ObjStoreEndpoint := sdkEndpoint url a\<rparr>"

definition applyAzureStorageFromEnv :: "(string \<Rightarrow> azure_url option) \<Rightarrow> env_vars \<Rightarrow> 'm rhiza_config \<Rightarrow> data_error + 'm rhiza_config" where
  "applyAzureStorageFromEnv url E c =
     (if rz_ObjStoreProvider c \<noteq> ''azure'' then Inr c
      else case azureStorageFromEnv url E of
        Inl e \<Rightarrow> Inl e
      | Inr a \<Rightarrow> if rz_ObjStoreBucket c = '''' then Inl DE_Container else Inr (azure_apply url a c))"

text \<open>The first \<^verbatim>\<open>BlobEndpoint\<close> item; the last value of a key, or the default.\<close>

fun first_value :: "string \<Rightarrow> string list \<Rightarrow> string option" where
  "first_value key [] = None"
| "first_value key (item # items) = (case Cut item (CHR ''='') of Some (k, v) \<Rightarrow> if k = key then Some v else first_value key items | None \<Rightarrow> first_value key items)"

fun last_value :: "string \<Rightarrow> string \<Rightarrow> string list \<Rightarrow> string" where
  "last_value key v [] = v"
| "last_value key v (item # items) =
     (case Cut item (CHR ''='') of
        Some (k, v') \<Rightarrow> last_value key (if k = key then v' else v) items
      | None \<Rightarrow> last_value key (if item = key then '''' else v) items)"

definition azureEndpointFromRhiza :: "'m rhiza_config \<Rightarrow> string" where
  "azureEndpointFromRhiza c =
     (if rz_AzureConnectionString c \<noteq> '''' then
        (let items = Split (rz_AzureConnectionString c) (CHR '';'') in
         case first_value ''BlobEndpoint'' items of
           Some v \<Rightarrow> v
         | None \<Rightarrow> last_value ''DefaultEndpointsProtocol'' ''https'' items @ ''://'' @ rz_AzureStorageAccount c @ ''.blob.'' @
             last_value ''EndpointSuffix'' ''core.windows.net'' items)
      else ''https://'' @ rz_AzureStorageAccount c @ ''.'' @ (if rz_ObjStoreEndpoint c = '''' then ''blob.core.windows.net'' else rz_ObjStoreEndpoint c))"

subsection \<open>The endpoint survives the configuration\<close>

lemma fields_Cons:
  "connection_fields (item # items) f = Some g \<longleftrightarrow>
     (\<exists>k x. Cut item (CHR ''='') = Some (k, x) \<and> x \<noteq> '''' \<and> f k = None \<and> k \<in> set connectionKeys \<and> connection_fields items (f(k \<mapsto> x)) = Some g)"
  by (auto split: option.splits if_splits)

lemma fields_extend: "connection_fields items f = Some g \<Longrightarrow> f key = Some v \<Longrightarrow> g key = Some v"
proof (induction items arbitrary: f)
  case (Cons item items)
  from Cons.prems(1) obtain k x where k: "f k = None" "connection_fields items (f(k \<mapsto> x)) = Some g" unfolding fields_Cons by blast
  then have "(f(k \<mapsto> x)) key = Some v" using Cons.prems(2) by auto
  then show ?case by (rule Cons.IH [OF k(2)])
qed simp

lemma fields_no_more: "connection_fields items f = Some g \<Longrightarrow> f key = Some x \<Longrightarrow> last_value key y items = y"
proof (induction items arbitrary: f)
  case (Cons item items)
  from Cons.prems(1) obtain k v where c: "Cut item (CHR ''='') = Some (k, v)" "f k = None" "connection_fields items (f(k \<mapsto> v)) = Some g"
    unfolding fields_Cons by blast
  then have "k \<noteq> key" using Cons.prems(2) by auto
  then show ?case using Cons.IH [OF c(3)] Cons.prems(2) c(1) by simp
qed simp

lemma fields_first:
  "connection_fields items f = Some g \<Longrightarrow> f key = None \<Longrightarrow> first_value key items = g key \<and> last_value key v items = (case g key of None \<Rightarrow> v | Some x \<Rightarrow> x)"
proof (induction items arbitrary: f)
  case (Cons item items)
  from Cons.prems(1) obtain k x where c: "Cut item (CHR ''='') = Some (k, x)" "connection_fields items (f(k \<mapsto> x)) = Some g"
    unfolding fields_Cons by blast
  show ?case
  proof (cases "k = key")
    case True
    then have "g key = Some x" using fields_extend [OF c(2), of key x] by simp
    then show ?thesis using fields_no_more [OF c(2), of key x x] c(1) True by simp
  next
    case False
    then show ?thesis using Cons.IH [OF c(2)] Cons.prems(2) c(1) by simp
  qed
qed auto

lemma fields_nonempty: "connection_fields items f = Some g \<Longrightarrow> (\<forall>k. f k \<noteq> Some '''') \<Longrightarrow> g key \<noteq> Some ''''"
proof (induction items arbitrary: f)
  case (Cons item items)
  from Cons.prems(1) obtain k x where k: "x \<noteq> ''''" "connection_fields items (f(k \<mapsto> x)) = Some g" unfolding fields_Cons by blast
  then have "\<forall>k'. (f(k \<mapsto> x)) k' \<noteq> Some ''''" using Cons.prems(2) by simp
  then show ?case by (rule Cons.IH [OF k(2)])
qed simp

lemma Split_trailing: "Split (s @ [b]) b = Split s b @ ['''']"
  by (induction s) (auto split: list.splits)

lemma first_value_snoc: "first_value key (items @ ['''']) = first_value key items"
  by (induction items) (auto simp: Cut_def split: option.splits)

lemma last_value_snoc: "key \<noteq> '''' \<Longrightarrow> last_value key v (items @ ['''']) = last_value key v items"
  by (induction items arbitrary: v) (auto simp: Cut_def split: option.splits)

lemma items_trimmed:
  "key \<noteq> '''' \<Longrightarrow> first_value key (Split s CHR '';'') = first_value key (Split (TrimSuffix s '';'') CHR '';'') \<and>
     last_value key v (Split s CHR '';'') = last_value key v (Split (TrimSuffix s '';'') CHR '';'')"
proof (cases "HasSuffix s '';''")
  case True
  then obtain t where "s = t @ [CHR '';'']" by (auto simp: HasSuffix_iff)
  then show "key \<noteq> '''' \<Longrightarrow> ?thesis" by (simp add: Split_trailing first_value_snoc last_value_snoc)
qed (simp add: TrimSuffix_def)

text \<open>What \<^verbatim>\<open>net/url\<close> documents: a URL without user, opaque part, query, fragment and port prints as scheme, host name and path.\<close>

definition url_ok :: "(string \<Rightarrow> azure_url option) \<Rightarrow> bool" where
  "url_ok url \<longleftrightarrow> (\<forall>s u. url s = Some u \<longrightarrow> \<not> az_User u \<longrightarrow> az_Opaque u = '''' \<longrightarrow> az_RawQuery u = '''' \<longrightarrow> \<not> az_ForceQuery u \<longrightarrow> az_Fragment u = '''' \<longrightarrow>
     az_RawPath u = '''' \<longrightarrow> az_Port u = '''' \<longrightarrow> \<not> HasSuffix (az_Host u) '':'' \<longrightarrow> azureDNSName (az_Hostname u) \<longrightarrow>
     az_String u = az_Scheme u @ ''://'' @ az_Hostname u @ az_Path u)"

lemma connection_roundtrip:
  assumes "validateConnectionString a" "as_ConnectionString a \<noteq> ''''"
  shows "azureEndpointFromRhiza (azure_apply url a c) = as_BlobEndpoint a"
proof -
  let ?items = "Split (TrimSuffix (as_ConnectionString a) '';'') (CHR '';'')"
  obtain g where g: "connection_fields ?items Map.empty = Some g" and e: "connection_endpoint (as_Account a) g = Some (as_BlobEndpoint a)"
    using assms(1) by (auto simp: validateConnectionString_def split: option.splits)
  have ne: "g k \<noteq> Some ''''" for k using fields_nonempty [OF g] by simp
  have first: "first_value k ?items = g k" "last_value k v ?items = (case g k of None \<Rightarrow> v | Some x \<Rightarrow> x)" for k v
    using fields_first [OF g] by simp_all
  have items: "first_value k (Split (as_ConnectionString a) CHR '';'') = g k"
    "last_value k v (Split (as_ConnectionString a) CHR '';'') = (case g k of None \<Rightarrow> v | Some x \<Rightarrow> x)" if "k \<noteq> ''''" for k v
    using items_trimmed [OF that, of "as_ConnectionString a" v] first [of k] by simp_all
  have f: "field g k = '''' \<longleftrightarrow> g k = None" for k using ne [of k] by (auto simp: field_def split: option.splits)
  show ?thesis using e assms(2) ne
    by (auto simp: azureEndpointFromRhiza_def azure_apply_def items connection_endpoint_def Let_def f field_def split: option.splits if_splits)
qed

lemma plain_roundtrip:
  assumes "url_ok url" "canonical_url (as_BlobEndpoint a) (url (as_BlobEndpoint a))" "url (as_BlobEndpoint a) = Some u"
    and "check_endpoint a u = None" "check_credentials a u = None" "as_ConnectionString a = ''''"
  shows "azureEndpointFromRhiza (azure_apply url a c) = as_BlobEndpoint a"
proof -
  have u: "\<not> az_User u" "az_Opaque u = ''''" "az_RawQuery u = ''''" "\<not> az_ForceQuery u" "az_Fragment u = ''''" "az_RawPath u = ''''" "az_String u = as_BlobEndpoint a"
    using assms(2,3) by (auto simp: canonical_url_def)
  have e: "az_Scheme u = ''https''" "az_Path u = ''''" "azureDNSName (az_Hostname u)" "\<not> HasSuffix (az_Host u) '':''"
    using assms(4,6) by (auto simp: check_endpoint_def split: if_splits option.splits)
  have c: "az_Port u = ''''" "HasPrefix (az_Hostname u) (as_Account a @ ''.'')" "azureDNSName (drop (length (as_Account a @ ''.'')) (az_Hostname u))"
    using assms(5,6) by (auto simp: check_credentials_def split: if_splits)
  have "as_BlobEndpoint a = ''https://'' @ az_Hostname u" using assms(1,3) u e c(1) by (auto simp: url_ok_def)
  moreover have "az_Hostname u = as_Account a @ ''.'' @ drop (length (as_Account a @ ''.'')) (az_Hostname u)"
    using c(2) by (metis HasPrefix_iff append.assoc append_eq_conv_conj)
  moreover have "drop (length (as_Account a @ ''.'')) (az_Hostname u) \<noteq> ''''" using c(3) by (auto simp: azureDNSName_def)
  ultimately show ?thesis using assms(3,6) e c by (simp add: azureEndpointFromRhiza_def azure_apply_def sdkEndpoint_def)
qed

lemma normalized_Inr:
  assumes "normalized url a0 = Inr a"
  shows "azureAccountName (as_Account a) \<and> as_BlobEndpoint a \<noteq> '''' \<and> canonical_url (as_BlobEndpoint a) (url (as_BlobEndpoint a)) \<and>
    (\<exists>u. url (as_BlobEndpoint a) = Some u \<and> check_endpoint a u = None \<and> check_credentials a u = None)"
proof (cases "as_BlobEndpoint a0 = ''''")
  case True
  define b where "b = a0\<lparr>as_BlobEndpoint := ''https://'' @ as_Account a0 @ ''.blob.core.windows.net''\<rparr>"
  have ne: "as_BlobEndpoint b \<noteq> ''''" "as_Account b = as_Account a0" by (simp_all add: b_def)
  have "normalized url a0 = (if \<not> azureAccountName (as_Account a0) then Inl DE_Account else if as_Emulator a0 then Inl DE_EmulatorEndpoint
      else if \<not> canonical_url (as_BlobEndpoint b) (url (as_BlobEndpoint b)) then Inl DE_Endpoint
      else case url (as_BlobEndpoint b) of None \<Rightarrow> Inl DE_Endpoint
        | Some u \<Rightarrow> (case check_endpoint b u of Some e \<Rightarrow> Inl e | None \<Rightarrow> (case check_credentials b u of Some e \<Rightarrow> Inl e | None \<Rightarrow> Inr b)))"
    by (simp only: normalized_def Let_def True simp_thms if_True b_def [symmetric])
  then show ?thesis using assms ne by (auto split: if_splits option.splits)
next
  case False
  then show ?thesis using assms by (auto simp: normalized_def Let_def split: if_splits option.splits)
qed

lemma normalized_again: "normalized url a0 = Inr a \<Longrightarrow> normalized url a = Inr a"
  using normalized_Inr [of url a0 a] by (auto simp: normalized_def)

lemma azure_endpoint_kept:
  assumes "url_ok url" "normalized url a0 = Inr a"
  shows "azureEndpointFromRhiza (azure_apply url a c) = as_BlobEndpoint a"
proof -
  obtain u where n: "canonical_url (as_BlobEndpoint a) (url (as_BlobEndpoint a))" "url (as_BlobEndpoint a) = Some u" "check_endpoint a u = None" "check_credentials a u = None"
    using normalized_Inr [OF assms(2)] by blast
  show ?thesis
  proof (cases "as_ConnectionString a = ''''")
    case True
    then show ?thesis using plain_roundtrip [OF assms(1) n] by simp
  next
    case False
    then have "validateConnectionString a" using n(4) by (auto simp: check_credentials_def split: if_splits)
    then show ?thesis using connection_roundtrip False by blast
  qed
qed

end
