(* ===== verification/Membership.thy ===== *)
theory Membership
  imports Azure_Config
begin

section \<open>Cluster members (cmd/ternalctl/membership.go, rhiza\_sql.go)\<close>

text \<open>
  \<^verbatim>\<open>ternalctl prepare-members\<close> completes the credentials of a cluster before they are deployed; at start-up each
  node checks them again.  A member's remaining public fields are of any type \<open>'m\<close>.  The key that belongs to
  a token is the function \<open>key\<close> of cluster, node and token: HMAC-SHA-256 and Ed25519 in the client, the database
  library's \<^verbatim>\<open>PeerPublicKey\<close> in the server.
\<close>

record 'm memberCredential =
  mc_ID :: string
  mc_PublicKey :: string
  mc_Token :: string
  mc_rest :: 'm

type_synonym peer_key = "string \<Rightarrow> string \<Rightarrow> string \<Rightarrow> string"

definition zero_key :: string where "zero_key = replicate 32 (CHR 0x00)"

text \<open>The JSON form of a key; \<open>encoded\<close> is the JSON string, when the value is one.\<close>

definition MarshalKey :: "string \<Rightarrow> string" where "MarshalKey key = b64_encode StdEncoding key"

definition UnmarshalKey :: "string option \<Rightarrow> string option" where
  "UnmarshalKey encoded =
     (case encoded of None \<Rightarrow> None
      | Some e \<Rightarrow> (case b64_decode StdEncoding e of None \<Rightarrow> None | Some decoded \<Rightarrow> if length decoded \<noteq> 32 then None else Some decoded))"

lemma UnmarshalKey_Marshal: "UnmarshalKey (Some (MarshalKey key)) = (if length key = 32 then Some key else None)"
  by (simp add: UnmarshalKey_def MarshalKey_def)

text \<open>The message whose code seeds the key.\<close>

definition peer_message :: "string \<Rightarrow> string \<Rightarrow> string" where
  "peer_message clusterID nodeID = ''rhiza-peer-certificate'' @ [CHR 0x00] @ clusterID @ [CHR 0x00] @ nodeID"

definition peerPublicKey :: "(string \<Rightarrow> string \<Rightarrow> string) \<Rightarrow> (string \<Rightarrow> string) \<Rightarrow> peer_key" where
  "peerPublicKey hmac public clusterID nodeID tok = public (hmac tok (peer_message clusterID nodeID))"

subsection \<open>Preparation\<close>

fun prepare_loop :: "peer_key \<Rightarrow> string \<Rightarrow> string set \<Rightarrow> string set \<Rightarrow> 'm memberCredential list \<Rightarrow> data_error + 'm memberCredential list" where
  "prepare_loop key clusterID seen tokenSeen [] = Inr []"
| "prepare_loop key clusterID seen tokenSeen (member # rest) =
     (let i = mc_ID member; derived = key clusterID i (mc_Token member) in
      if i = '''' then Inl DE_EmptyID
      else if i \<in> seen then Inl DE_Duplicate
      else if length (mc_Token member) < 32 then Inl DE_ShortToken
      else if mc_Token member \<in> tokenSeen then Inl DE_TokenReuse
      else if mc_PublicKey member \<noteq> zero_key \<and> mc_PublicKey member \<noteq> derived then Inl DE_KeyMismatch
      else case prepare_loop key clusterID (insert i seen) (insert (mc_Token member) tokenSeen) rest of
        Inl e \<Rightarrow> Inl e
      | Inr out \<Rightarrow> Inr (member\<lparr>mc_PublicKey := derived\<rparr> # out))"

text \<open>\<open>decode\<close> gives the members and whether the input ends there; \<open>write\<close> is whether the output was written.\<close>

definition prepareMembers ::
    "peer_key \<Rightarrow> (string \<Rightarrow> ('m memberCredential list \<times> bool) option) \<Rightarrow> ('m memberCredential list \<Rightarrow> string option) \<Rightarrow> bool \<Rightarrow> string \<Rightarrow> string \<Rightarrow> data_error + string" where
  "prepareMembers key decode marshal write clusterID input =
     (if clusterID = '''' then Inl DE_EmptyCluster
      else case decode input of
        None \<Rightarrow> Inl DE_Members
      | Some (members, ends) \<Rightarrow>
          if \<not> ends then Inl DE_Trailing
          else if members = [] then Inl DE_Count
          else (case prepare_loop key clusterID {} {} members of
                  Inl e \<Rightarrow> Inl e
                | Inr out \<Rightarrow> (case marshal out of None \<Rightarrow> Inl DE_Write | Some text \<Rightarrow> if write then Inr (text @ [CHR 0x0A]) else Inl DE_Write)))"

subsection \<open>Start-up\<close>

fun check_members :: "string \<Rightarrow> string set \<Rightarrow> string set \<Rightarrow> 'm memberCredential list \<Rightarrow> data_error option" where
  "check_members adminToken seenIDs seenTokens [] = None"
| "check_members adminToken seenIDs seenTokens (member # rest) =
     (if mc_ID member \<in> seenIDs then Some DE_Duplicate
      else if length (mc_Token member) < 32 then Some DE_ShortToken
      else if mc_Token member = adminToken then Some DE_AdminToken
      else if mc_Token member \<in> seenTokens then Some DE_TokenReuse
      else check_members adminToken (insert (mc_ID member) seenIDs) (insert (mc_Token member) seenTokens) rest)"

fun check_expected :: "string set \<Rightarrow> string set \<Rightarrow> string list \<Rightarrow> data_error option" where
  "check_expected ids seen [] = None"
| "check_expected ids seen (i # rest) =
     (if i = '''' \<or> i \<in> seen \<or> i \<notin> ids then Some DE_Expected else check_expected ids (insert i seen) rest)"

definition multi_node :: "string \<Rightarrow> string \<Rightarrow> 'm memberCredential list \<Rightarrow> data_error option" where
  "multi_node adminToken expectedMemberIDs members =
     (if length members \<noteq> 3 then Some DE_Count
      else if length adminToken < 32 then Some DE_AdminToken
      else case check_members adminToken {} {} members of
        Some e \<Rightarrow> Some e
      | None \<Rightarrow>
          if expectedMemberIDs = '''' then None
          else let expected = Split expectedMemberIDs (CHR '','') in
            if length expected \<noteq> 3 then Some DE_Expected else check_expected (mc_ID ` set members) {} expected)"

text \<open>\<open>rhizaIdentity\<close>: the projected members and the token of this node; the last member of that name wins.\<close>

fun rhizaIdentity :: "peer_key \<Rightarrow> string \<Rightarrow> string \<Rightarrow> 'm memberCredential list \<Rightarrow> string \<Rightarrow> data_error + (string \<times> string \<times> 'm) list \<times> string" where
  "rhizaIdentity key clusterID nodeID [] peerToken = Inr ([], peerToken)"
| "rhizaIdentity key clusterID nodeID (member # rest) peerToken =
     (let derived = key clusterID (mc_ID member) (mc_Token member) in
      if mc_PublicKey member \<noteq> zero_key \<and> mc_PublicKey member \<noteq> derived then Inl DE_KeyMismatch
      else case rhizaIdentity key clusterID nodeID rest (if mc_ID member = nodeID then mc_Token member else peerToken) of
        Inl e \<Rightarrow> Inl e
      | Inr (projected, tok) \<Rightarrow> Inr ((mc_ID member, derived, mc_rest member) # projected, tok))"

subsection \<open>The two checks agree\<close>

definition member_ok :: "peer_key \<Rightarrow> string \<Rightarrow> 'm memberCredential \<Rightarrow> bool" where
  "member_ok key clusterID m \<longleftrightarrow> mc_ID m \<noteq> '''' \<and> 32 \<le> length (mc_Token m) \<and> mc_PublicKey m \<in> {zero_key, key clusterID (mc_ID m) (mc_Token m)}"

definition completed :: "peer_key \<Rightarrow> string \<Rightarrow> 'm memberCredential \<Rightarrow> 'm memberCredential" where
  "completed key clusterID m = m\<lparr>mc_PublicKey := key clusterID (mc_ID m) (mc_Token m)\<rparr>"

lemma prepare_loop_iff:
  "prepare_loop key clusterID seen tokenSeen members = Inr out \<longleftrightarrow>
     list_all (member_ok key clusterID) members \<and> distinct (map mc_ID members) \<and> distinct (map mc_Token members) \<and>
     set (map mc_ID members) \<inter> seen = {} \<and> set (map mc_Token members) \<inter> tokenSeen = {} \<and> out = map (completed key clusterID) members"
proof (induction members arbitrary: seen tokenSeen out)
  case (Cons m members)
  have "prepare_loop key clusterID seen tokenSeen (m # members) = Inr out \<longleftrightarrow>
      mc_ID m \<notin> seen \<and> mc_Token m \<notin> tokenSeen \<and> member_ok key clusterID m \<and>
      (\<exists>out'. prepare_loop key clusterID (insert (mc_ID m) seen) (insert (mc_Token m) tokenSeen) members = Inr out' \<and> out = completed key clusterID m # out')"
    by (auto simp: Let_def member_ok_def completed_def not_le split: sum.splits)
  then show ?case unfolding Cons.IH by auto
qed auto

lemma check_members_iff:
  "check_members adminToken seenIDs seenTokens members = None \<longleftrightarrow>
     list_all (\<lambda>m. 32 \<le> length (mc_Token m) \<and> mc_Token m \<noteq> adminToken) members \<and> distinct (map mc_ID members) \<and> distinct (map mc_Token members) \<and>
     set (map mc_ID members) \<inter> seenIDs = {} \<and> set (map mc_Token members) \<inter> seenTokens = {}"
proof (induction members arbitrary: seenIDs seenTokens)
  case (Cons m members)
  then show ?case by (auto simp: not_le)
qed simp

lemma rhizaIdentity_iff:
  "rhizaIdentity key clusterID nodeID members tok = Inr (projected, tok') \<longleftrightarrow>
     list_all (\<lambda>m. mc_PublicKey m \<in> {zero_key, key clusterID (mc_ID m) (mc_Token m)}) members \<and>
     projected = map (\<lambda>m. (mc_ID m, key clusterID (mc_ID m) (mc_Token m), mc_rest m)) members \<and>
     tok' = fold (\<lambda>m t. if mc_ID m = nodeID then mc_Token m else t) members tok"
proof (induction members arbitrary: tok projected)
  case (Cons m members)
  have "rhizaIdentity key clusterID nodeID (m # members) tok = Inr (projected, tok') \<longleftrightarrow>
      mc_PublicKey m \<in> {zero_key, key clusterID (mc_ID m) (mc_Token m)} \<and>
      (\<exists>p'. rhizaIdentity key clusterID nodeID members (if mc_ID m = nodeID then mc_Token m else tok) = Inr (p', tok') \<and>
         projected = (mc_ID m, key clusterID (mc_ID m) (mc_Token m), mc_rest m) # p')"
    by (auto simp: Let_def split: sum.splits)
  then show ?case unfolding Cons.IH by auto
qed auto

lemma no_token: "\<forall>x \<in> set members. mc_ID x \<noteq> nodeID \<Longrightarrow> fold (\<lambda>m t. if mc_ID m = nodeID then mc_Token m else t) members t = t"
  by (induction members arbitrary: t) auto

lemma own_token:
  "distinct (map mc_ID members) \<Longrightarrow> m \<in> set members \<Longrightarrow> mc_ID m = nodeID \<Longrightarrow>
   fold (\<lambda>m t. if mc_ID m = nodeID then mc_Token m else t) members tok = mc_Token m"
proof (induction members arbitrary: tok)
  case (Cons a members)
  show ?case
  proof (cases "m = a")
    case True
    then have "\<forall>x \<in> set members. mc_ID x \<noteq> nodeID" using Cons.prems by (metis distinct.simps(2) image_eqI list.set_map list.simps(9))
    from no_token [OF this] show ?thesis using True Cons.prems(3) by simp
  next
    case False
    then show ?thesis using Cons by simp
  qed
qed simp


definition sample_member :: "char \<Rightarrow> unit memberCredential" where
  "sample_member c = \<lparr>mc_ID = [c], mc_PublicKey = zero_key, mc_Token = replicate 32 c, mc_rest = ()\<rparr>"


end
