(* ===== verification/Data_Config.thy ===== *)
theory Data_Config
  imports Membership Trust_Record Go_Trim
begin

section \<open>The data directory's configuration (rhiza\_sql.go, local\_config.go, trust\_anchor.go, recovery\_verifier.go)\<close>

text \<open>
  The configuration of the database from the environment, in clustered and in local mode, and the identity
  of the object store to which the trust anchor is bound.  \<open>data_lib\<close> holds \<^verbatim>\<open>time.ParseDuration\<close> (in nanoseconds), JSON, SHA-256,
  URL parsing and the key derivation.
\<close>

record 'm data_lib =
  dl_duration :: "string \<Rightarrow> int option"
  dl_members :: "string \<Rightarrow> 'm memberCredential list option"
  dl_key :: peer_key
  dl_url :: "string \<Rightarrow> azure_url option"
  dl_marshal :: "string list \<Rightarrow> string"
  dl_sha256_hex :: "string \<Rightarrow> string"

definition data_envOr :: "env_vars \<Rightarrow> string \<Rightarrow> string \<Rightarrow> string" where
  "data_envOr E key fallback = (if E key \<noteq> '''' then E key else fallback)"

definition durationEnv :: "'m data_lib \<Rightarrow> env_vars \<Rightarrow> string \<Rightarrow> int \<Rightarrow> data_error + int" where
  "durationEnv L E key fallback =
     (if E key = '''' then Inr fallback
      else case dl_duration L (E key) of None \<Rightarrow> Inl DE_Duration | Some d \<Rightarrow> if d \<le> 0 then Inl DE_Duration else Inr d)"

definition data_minute :: int where "data_minute = 60000000000"
definition data_millisecond :: int where "data_millisecond = 1000000"

definition intervals :: "'m data_lib \<Rightarrow> env_vars \<Rightarrow> data_error + int \<times> int \<times> int" where
  "intervals L E =
     (case durationEnv L E ''TERNAL_OBJECT_STORE_SYNC_INTERVAL'' data_minute of
        Inl e \<Rightarrow> Inl e
      | Inr syncInterval \<Rightarrow>
          (case durationEnv L E ''TERNAL_OBJECT_STORE_BATCH_DELAY'' (2 * data_millisecond) of
             Inl e \<Rightarrow> Inl e
           | Inr batchDelay \<Rightarrow>
               (case durationEnv L E ''TERNAL_DATA_CHECKPOINT_INTERVAL'' (15 * data_minute) of
                  Inl e \<Rightarrow> Inl e
                | Inr checkpointInterval \<Rightarrow> Inr (syncInterval, batchDelay, checkpointInterval))))"

definition requireTrustAnchor :: "env_vars \<Rightarrow> bool" where
  "requireTrustAnchor E \<longleftrightarrow>
     E ''TERNAL_DATA_REQUIRE_OBJECT_STORE'' = ''true'' \<or> E ''TERNAL_OBJECT_STORE_PROVIDER'' \<noteq> '''' \<or> E ''TERNAL_OBJECT_STORE_ENDPOINT'' \<noteq> '''' \<or>
     E ''TERNAL_OBJECT_STORE_BUCKET'' \<noteq> '''' \<or> E ''TERNAL_OBJECT_STORE_DIR'' \<noteq> ''''"

subsection \<open>Local mode\<close>

definition localRejectedUpstreamEnv :: "string list" where
  "localRejectedUpstreamEnv = [''RHIZA_CLUSTER_ID'', ''RHIZA_NODE_ID'', ''RHIZA_CLUSTER_MEMBERS'', ''RHIZA_PEER_TOKENS'', ''RHIZA_ENABLE_RECONFIGURATION'',
     ''RHIZA_LEARNER'', ''RHIZA_ADMIN_TOKEN'', ''RHIZA_OBJSTORE_DURABILITY'']"

definition local_forbidden :: "string list" where
  "local_forbidden = [''TERNAL_DATA_ADMIN_TOKEN'', ''TERNAL_DATA_BIND_ADDR'', ''TERNAL_DATA_PEER_ADDR'', ''TERNAL_DATA_CLUSTER_MEMBERS'',
     ''TERNAL_DATA_EXPECTED_MEMBER_IDS'', ''TERNAL_OPERATOR_BIND'', ''TERNAL_DATA_ENABLE_RECONFIGURATION'', ''TERNAL_DATA_LEARNER'', ''TERNAL_OBJECT_STORE_DIR'']
     @ localRejectedUpstreamEnv"

definition local_cluster_ok :: "string \<Rightarrow> bool" where
  "local_cluster_ok clusterID \<longleftrightarrow> \<not> (clusterID = '''' \<or> clusterID = ''.'' \<or> clusterID = ''..'' \<or> ContainsAny clusterID [CHR ''/'', CHR 0x5C, CHR 0x00, CHR 0x0D, CHR 0x0A])"

definition local_prefix_ok :: "string \<Rightarrow> bool" where
  "local_prefix_ok objPrefix \<longleftrightarrow>
     \<not> (objPrefix = '''' \<or> filepath_IsAbs objPrefix \<or> Clean objPrefix \<noteq> objPrefix \<or> objPrefix = ''.'' \<or> objPrefix = ''..'' \<or> HasPrefix objPrefix ''../'' \<or>
        ContainsAny objPrefix [CHR 0x5C, CHR 0x00, CHR 0x0D, CHR 0x0A])"

definition localConfigFromEnv :: "'m data_lib \<Rightarrow> env_vars \<Rightarrow> string \<Rightarrow> data_error + (string \<times> string \<times> 'm) rhiza_config" where
  "localConfigFromEnv L E dataDir =
     (let provider = E ''TERNAL_OBJECT_STORE_PROVIDER''; clusterID = E ''TERNAL_DATA_CLUSTER_ID''; objPrefix = E ''TERNAL_OBJECT_STORE_PREFIX'';
          durability = E ''TERNAL_OBJECT_STORE_DURABILITY'' in
      if list_ex (\<lambda>name. E name \<noteq> '''') local_forbidden then Inl DE_Forbidden
      else if list_ex (\<lambda>name. E name \<noteq> '''' \<and> E name \<noteq> ''0'') [''TERNAL_DATA_MULTI_NODE'', ''TERNAL_REQUIRE_DATA_ADMIN_TOKEN''] then Inl DE_Forbidden
      else if provider \<noteq> ''s3'' \<and> provider \<noteq> ''gcs'' \<and> provider \<noteq> ''azure'' then Inl DE_Provider
      else if E ''TERNAL_LOCAL_WRITER_GC_QUIESCENCE_ACK'' \<noteq> ''1'' then Inl DE_Ack
      else if durability \<noteq> '''' \<and> durability \<noteq> ''before-ack'' then Inl DE_Durability
      else if \<not> local_cluster_ok clusterID then Inl DE_ClusterID
      else if \<not> local_prefix_ok objPrefix then Inl DE_Prefix
      else if E ''TERNAL_OBJECT_STORE_BUCKET'' = '''' then Inl DE_Bucket
      else if provider = ''gcs'' \<and> (E ''TERNAL_OBJECT_STORE_ENDPOINT'' \<noteq> '''' \<or> E ''TERNAL_OBJECT_STORE_INSECURE'' = ''true'') then Inl DE_Override
      else (case intervals L E of
         Inl e \<Rightarrow> Inl e
       | Inr (syncInterval, batchDelay, checkpointInterval) \<Rightarrow>
           applyAzureStorageFromEnv (dl_url L) E
             \<lparr>rz_Local = True, rz_ClusterID = clusterID, rz_NodeID = data_envOr E ''TERNAL_DATA_NODE_ID'' ''node-1'', rz_DataDir = dataDir,
              rz_BindAddr = '''', rz_PeerAddr = '''', rz_AdminToken = '''', rz_PeerToken = '''', rz_Members = [],
              rz_ObjStoreEndpoint = E ''TERNAL_OBJECT_STORE_ENDPOINT'', rz_ObjStoreBucket = E ''TERNAL_OBJECT_STORE_BUCKET'',
              rz_ObjStoreProvider = provider, rz_ObjStoreDir = '''', rz_ObjStorePrefix = objPrefix, rz_ObjStoreRegion = E ''TERNAL_OBJECT_STORE_REGION'',
              rz_ObjStoreInsecure = (E ''TERNAL_OBJECT_STORE_INSECURE'' = ''true''), rz_ObjStoreAccessKey = E ''TERNAL_OBJECT_STORE_ACCESS_KEY'',
              rz_ObjStoreSecretKey = E ''TERNAL_OBJECT_STORE_SECRET_KEY'', rz_ObjStoreSessionToken = E ''TERNAL_OBJECT_STORE_SESSION_TOKEN'',
              rz_ObjStoreDurability = ''before-ack'', rz_ObjStoreSyncInterval = syncInterval, rz_ObjStoreBatchDelay = batchDelay,
              rz_CheckpointInterval = checkpointInterval, rz_AzureStorageAccount = '''', rz_AzureStorageAccountKey = '''', rz_AzureConnectionString = '''',
              rz_AzureTenantID = '''', rz_AzureClientID = '''', rz_AzureClientSecret = '''', rz_AzureUserAssignedID = ''''\<rparr>))"

subsection \<open>Clustered and standalone mode\<close>

text \<open>The checks before anything is derived: the members, or an error.\<close>

definition cluster_members :: "'m data_lib \<Rightarrow> env_vars \<Rightarrow> data_error + 'm memberCredential list" where
  "cluster_members L E =
     (let adminToken = E ''TERNAL_DATA_ADMIN_TOKEN''; raw = E ''TERNAL_DATA_CLUSTER_MEMBERS''; multiNode = E ''TERNAL_DATA_MULTI_NODE'';
          expectedMemberIDs = E ''TERNAL_DATA_EXPECTED_MEMBER_IDS'' in
      if E ''TERNAL_REQUIRE_DATA_ADMIN_TOKEN'' = ''1'' \<and> length adminToken < 32 then Inl DE_AdminToken
      else case (if raw = '''' then Some [] else dl_members L raw) of
        None \<Rightarrow> Inl DE_Members
      | Some members \<Rightarrow>
          if multiNode \<noteq> '''' \<and> multiNode \<noteq> ''0'' \<and> multiNode \<noteq> ''1'' then Inl DE_Mode
          else case (if multiNode = ''1'' then multi_node adminToken expectedMemberIDs members
                     else if members \<noteq> [] \<or> expectedMemberIDs \<noteq> '''' then Some DE_Mode else None) of
            Some e \<Rightarrow> Inl e
          | None \<Rightarrow>
              if multiNode \<noteq> ''1'' \<and> requireTrustAnchor E \<and> E ''TERNAL_OBJECT_STORE_DURABILITY'' \<noteq> ''before-ack'' then Inl DE_Durability
              else Inr members)"

text \<open>\<open>async\<close> is the library's constant \<^verbatim>\<open>ObjectStoreDurabilityAsync\<close>.\<close>

definition rhizaConfigFromEnv :: "'m data_lib \<Rightarrow> string \<Rightarrow> env_vars \<Rightarrow> string \<Rightarrow> data_error + (string \<times> string \<times> 'm) rhiza_config" where
  "rhizaConfigFromEnv L async E dataDir =
     (if E ''TERNAL_DATA_LOCAL'' = ''1'' then localConfigFromEnv L E dataDir
      else if E ''TERNAL_DATA_LOCAL'' \<noteq> '''' \<and> E ''TERNAL_DATA_LOCAL'' \<noteq> ''0'' then Inl DE_Mode
      else case cluster_members L E of
        Inl e \<Rightarrow> Inl e
      | Inr members \<Rightarrow>
          let clusterID = data_envOr E ''TERNAL_DATA_CLUSTER_ID'' ''ternal''; nodeID = data_envOr E ''TERNAL_DATA_NODE_ID'' ''node-1'' in
          (case rhizaIdentity (dl_key L) clusterID nodeID members '''' of
             Inl e \<Rightarrow> Inl e
           | Inr (publicMembers, peerToken) \<Rightarrow>
               (case intervals L E of
                  Inl e \<Rightarrow> Inl e
                | Inr (syncInterval, batchDelay, checkpointInterval) \<Rightarrow>
                    applyAzureStorageFromEnv (dl_url L) E
                      \<lparr>rz_Local = False, rz_ClusterID = clusterID, rz_NodeID = nodeID, rz_DataDir = dataDir,
                       rz_BindAddr = data_envOr E ''TERNAL_DATA_BIND_ADDR'' ''127.0.0.1:0'', rz_PeerAddr = data_envOr E ''TERNAL_DATA_PEER_ADDR'' ''127.0.0.1:0'',
                       rz_AdminToken = E ''TERNAL_DATA_ADMIN_TOKEN'', rz_PeerToken = peerToken, rz_Members = publicMembers,
                       rz_ObjStoreEndpoint = E ''TERNAL_OBJECT_STORE_ENDPOINT'', rz_ObjStoreBucket = E ''TERNAL_OBJECT_STORE_BUCKET'',
                       rz_ObjStoreProvider = E ''TERNAL_OBJECT_STORE_PROVIDER'', rz_ObjStoreDir = E ''TERNAL_OBJECT_STORE_DIR'',
                       rz_ObjStorePrefix = E ''TERNAL_OBJECT_STORE_PREFIX'', rz_ObjStoreRegion = E ''TERNAL_OBJECT_STORE_REGION'',
                       rz_ObjStoreInsecure = (E ''TERNAL_OBJECT_STORE_INSECURE'' = ''true''), rz_ObjStoreAccessKey = E ''TERNAL_OBJECT_STORE_ACCESS_KEY'',
                       rz_ObjStoreSecretKey = E ''TERNAL_OBJECT_STORE_SECRET_KEY'', rz_ObjStoreSessionToken = E ''TERNAL_OBJECT_STORE_SESSION_TOKEN'',
                       rz_ObjStoreDurability = data_envOr E ''TERNAL_OBJECT_STORE_DURABILITY'' async, rz_ObjStoreSyncInterval = syncInterval,
                       rz_ObjStoreBatchDelay = batchDelay, rz_CheckpointInterval = checkpointInterval, rz_AzureStorageAccount = '''',
                       rz_AzureStorageAccountKey = '''', rz_AzureConnectionString = '''', rz_AzureTenantID = '''', rz_AzureClientID = '''',
                       rz_AzureClientSecret = '''', rz_AzureUserAssignedID = ''''\<rparr>)))"

subsection \<open>The identity of the object store\<close>

definition tuple_id :: "'m data_lib \<Rightarrow> string list \<Rightarrow> string" where
  "tuple_id L t = dl_sha256_hex L (dl_marshal L t)"

definition AzureTrustAnchorStorageID :: "'m data_lib \<Rightarrow> string \<Rightarrow> string \<Rightarrow> string \<Rightarrow> string \<Rightarrow> string \<Rightarrow> string" where
  "AzureTrustAnchorStorageID L account endpoint container objPrefix clusterID = tuple_id L [''azure'', account, endpoint, container, objPrefix, clusterID]"

definition TrustAnchorStorageID :: "'m data_lib \<Rightarrow> string \<Rightarrow> string \<Rightarrow> string \<Rightarrow> string \<Rightarrow> string \<Rightarrow> string" where
  "TrustAnchorStorageID L provider endpoint bucket objPrefix clusterID = tuple_id L [provider, endpoint, bucket, objPrefix, clusterID]"

definition localStorageDomain :: "'m data_lib \<Rightarrow> string \<Rightarrow> string" where
  "localStorageDomain L legacy = (if legacy = '''' then '''' else dl_sha256_hex L (''ternal-local-v1'' @ [CHR 0x00] @ legacy))"

definition LocalTrustAnchorStorageID :: "'m data_lib \<Rightarrow> string \<Rightarrow> string \<Rightarrow> string \<Rightarrow> string \<Rightarrow> string \<Rightarrow> string" where
  "LocalTrustAnchorStorageID L provider endpoint bucket objPrefix clusterID =
     localStorageDomain L (TrustAnchorStorageID L provider endpoint bucket (filepath_Join [objPrefix, clusterID, ''local/v1'']) clusterID)"

definition localNamespace :: "'c rhiza_config \<Rightarrow> string" where
  "localNamespace c = filepath_Join [rz_ObjStorePrefix c, rz_ClusterID c, ''local/v1'']"

definition localStorageID :: "'m data_lib \<Rightarrow> 'c rhiza_config \<Rightarrow> string" where
  "localStorageID L c =
     (if rz_ObjStoreProvider c = ''azure'' then
        localStorageDomain L (AzureTrustAnchorStorageID L (rz_AzureStorageAccount c) (azureEndpointFromRhiza c) (rz_ObjStoreBucket c)
          (filepath_Join [rz_ObjStorePrefix c, rz_ClusterID c, ''local/v1'']) (rz_ClusterID c))
      else LocalTrustAnchorStorageID L (rz_ObjStoreProvider c) (rz_ObjStoreEndpoint c) (rz_ObjStoreBucket c) (rz_ObjStorePrefix c) (rz_ClusterID c))"

text \<open>The fields of \<^verbatim>\<open>recoveryStorage\<close> that its identity reads; \<open>re_Azure\<close> is \<open>None\<close> when reading the settings failed.\<close>

record recoveryStorage =
  re_Provider :: string
  re_Endpoint :: string
  re_Bucket :: string
  re_Prefix :: string
  re_Azure :: "azureStorageConfig option"

definition recoveryStorageFromEnv :: "'m data_lib \<Rightarrow> env_vars \<Rightarrow> recoveryStorage" where
  "recoveryStorageFromEnv L E =
     \<lparr>re_Provider = E ''TERNAL_OBJECT_STORE_PROVIDER'', re_Endpoint = E ''TERNAL_OBJECT_STORE_ENDPOINT'', re_Bucket = E ''TERNAL_OBJECT_STORE_BUCKET'',
      re_Prefix = E ''TERNAL_OBJECT_STORE_PREFIX'',
      re_Azure = (if E ''TERNAL_OBJECT_STORE_PROVIDER'' = ''azure'' then (case azureStorageFromEnv (dl_url L) E of Inl e \<Rightarrow> None | Inr a \<Rightarrow> Some a) else None)\<rparr>"

definition storage_identity :: "'m data_lib \<Rightarrow> recoveryStorage \<Rightarrow> string \<Rightarrow> string" where
  "storage_identity L s clusterID =
     (if re_Provider s = ''azure'' then
        (case re_Azure s of
           None \<Rightarrow> ''''
         | Some a0 \<Rightarrow> (case normalized (dl_url L) a0 of
               Inl e \<Rightarrow> ''''
             | Inr a \<Rightarrow> AzureTrustAnchorStorageID L (as_Account a) (as_BlobEndpoint a) (re_Bucket s) (re_Prefix s) clusterID))
      else TrustAnchorStorageID L (re_Provider s) (re_Endpoint s) (re_Bucket s) (re_Prefix s) clusterID)"

definition localIdentity :: "'m data_lib \<Rightarrow> recoveryStorage \<Rightarrow> string \<Rightarrow> string" where
  "localIdentity L s clusterID =
     localStorageDomain L (storage_identity L (s\<lparr>re_Prefix := filepath_Join [re_Prefix s, clusterID, ''local/v1'']\<rparr>) clusterID)"

definition storage_prefix :: "recoveryStorage \<Rightarrow> string \<Rightarrow> string" where
  "storage_prefix s clusterID = filepath_Join [re_Prefix s, clusterID]"

definition storageBindingFromEnv :: "'m data_lib \<Rightarrow> env_vars \<Rightarrow> binding" where
  "storageBindingFromEnv L E =
     (let clusterID = data_envOr E ''TERNAL_DATA_CLUSTER_ID'' ''ternal''; storage = recoveryStorageFromEnv L E in
      \<lparr>bi_ClusterID = clusterID,
       bi_StorageID = (if E ''TERNAL_DATA_LOCAL'' = ''1'' then localIdentity L storage clusterID else storage_identity L storage clusterID)\<rparr>)"

text \<open>\<open>namespace_file\<close> is the service account's file; the result names the ConfigMap, its namespace and the binding.\<close>

definition trustAnchorFromEnv :: "'m data_lib \<Rightarrow> string option \<Rightarrow> env_vars \<Rightarrow> data_error + (string \<times> string \<times> binding) option" where
  "trustAnchorFromEnv L namespace_file E =
     (if \<not> requireTrustAnchor E then Inr None
      else case (if E ''TERNAL_OBJECT_STORE_PROVIDER'' = ''azure'' then
                   (case azureStorageFromEnv (dl_url L) E of Inl e \<Rightarrow> Some e | Inr a \<Rightarrow> if E ''TERNAL_OBJECT_STORE_BUCKET'' = '''' then Some DE_Container else None)
                 else None) of
        Some e \<Rightarrow> Inl e
      | None \<Rightarrow>
          let name = E ''TERNAL_TRUST_ANCHOR_CONFIGMAP''; namespace = E ''TERNAL_TRUST_ANCHOR_NAMESPACE'' in
          if name = '''' then Inl DE_ConfigMap
          else case (if namespace \<noteq> '''' then Some namespace else map_option TrimSpace namespace_file) of
            None \<Rightarrow> Inl DE_Namespace
          | Some ns \<Rightarrow> if ns = '''' then Inl DE_Namespace else Inr (Some (name, ns, storageBindingFromEnv L E)))"

subsection \<open>One identity\<close>

lemma apply_Inr:
  assumes "applyAzureStorageFromEnv url E c0 = Inr c"
  shows "(rz_ObjStoreProvider c0 \<noteq> ''azure'' \<and> c = c0) \<or> (rz_ObjStoreProvider c0 = ''azure'' \<and> (\<exists>a. azureStorageFromEnv url E = Inr a \<and> c = azure_apply url a c0))"
  using assms by (auto simp: applyAzureStorageFromEnv_def split: if_splits sum.splits)

lemma env_normalized: "azureStorageFromEnv url E = Inr a \<Longrightarrow> \<exists>a0. normalized url a0 = Inr a"
  by (auto simp: azureStorageFromEnv_def Let_def split: if_splits)

lemma local_config:
  assumes "localConfigFromEnv L E dataDir = Inr c"
  shows "rz_Local c \<and> rz_ClusterID c = E ''TERNAL_DATA_CLUSTER_ID'' \<and> E ''TERNAL_DATA_CLUSTER_ID'' \<noteq> '''' \<and> rz_ObjStoreDurability c = ''before-ack'' \<and> rz_Members c = [] \<and>
    rz_ObjStoreProvider c = E ''TERNAL_OBJECT_STORE_PROVIDER'' \<and> rz_ObjStoreBucket c = E ''TERNAL_OBJECT_STORE_BUCKET'' \<and> rz_ObjStorePrefix c = E ''TERNAL_OBJECT_STORE_PREFIX'' \<and>
    (E ''TERNAL_OBJECT_STORE_PROVIDER'' \<noteq> ''azure'' \<longrightarrow> rz_ObjStoreEndpoint c = E ''TERNAL_OBJECT_STORE_ENDPOINT'') \<and>
    (E ''TERNAL_OBJECT_STORE_PROVIDER'' = ''azure'' \<longrightarrow> (\<exists>a c0. azureStorageFromEnv (dl_url L) E = Inr a \<and> c = azure_apply (dl_url L) a c0))"
proof -
  obtain c0 where c0: "applyAzureStorageFromEnv (dl_url L) E c0 = Inr c" "rz_Local c0" "rz_ClusterID c0 = E ''TERNAL_DATA_CLUSTER_ID''" "rz_ObjStoreDurability c0 = ''before-ack''"
    "rz_Members c0 = []" "rz_ObjStoreProvider c0 = E ''TERNAL_OBJECT_STORE_PROVIDER''" "rz_ObjStoreBucket c0 = E ''TERNAL_OBJECT_STORE_BUCKET''"
    "rz_ObjStorePrefix c0 = E ''TERNAL_OBJECT_STORE_PREFIX''" "rz_ObjStoreEndpoint c0 = E ''TERNAL_OBJECT_STORE_ENDPOINT''"
    and cl: "local_cluster_ok (E ''TERNAL_DATA_CLUSTER_ID'')"
    using assms unfolding localConfigFromEnv_def Let_def by (auto split: if_splits sum.splits prod.splits)
  then show ?thesis using apply_Inr [OF c0(1)] by (auto simp: azure_apply_def local_cluster_ok_def)
qed

lemma local_identity:
  assumes "url_ok (dl_url L)" "localConfigFromEnv L E dataDir = Inr c" "E ''TERNAL_DATA_LOCAL'' = ''1''"
  shows "storageBindingFromEnv L E = \<lparr>bi_ClusterID = rz_ClusterID c, bi_StorageID = localStorageID L c\<rparr>"
proof -
  note c = local_config [OF assms(2)]
  have cl: "data_envOr E ''TERNAL_DATA_CLUSTER_ID'' ''ternal'' = rz_ClusterID c" using c by (simp add: data_envOr_def)
  show ?thesis
  proof (cases "E ''TERNAL_OBJECT_STORE_PROVIDER'' = ''azure''")
    case True
    then obtain a a0 c0 where a: "azureStorageFromEnv (dl_url L) E = Inr a" "c = azure_apply (dl_url L) a c0" "normalized (dl_url L) a0 = Inr a"
      using c env_normalized by blast
    have "normalized (dl_url L) a = Inr a" using normalized_again a(3) by blast
    moreover have "azureEndpointFromRhiza c = as_BlobEndpoint a" using azure_endpoint_kept [OF assms(1) a(3)] a(2) by simp
    moreover have "rz_AzureStorageAccount c = as_Account a" using a(2) by (simp add: azure_apply_def)
    ultimately show ?thesis using True a(1) c cl assms(3)
      by (simp add: storageBindingFromEnv_def localIdentity_def storage_identity_def recoveryStorageFromEnv_def localStorageID_def Let_def)
  next
    case False
    then show ?thesis using c cl assms(3)
      by (simp add: storageBindingFromEnv_def localIdentity_def storage_identity_def recoveryStorageFromEnv_def localStorageID_def LocalTrustAnchorStorageID_def Let_def)
  qed
qed

lemma config_local:
  assumes "rhizaConfigFromEnv L async E dataDir = Inr c" "rz_Local c"
  shows "E ''TERNAL_DATA_LOCAL'' = ''1'' \<and> localConfigFromEnv L E dataDir = Inr c"
proof (rule ccontr)
  assume n: "\<not> ?thesis"
  then have "E ''TERNAL_DATA_LOCAL'' \<noteq> ''1''" using assms(1) by (auto simp: rhizaConfigFromEnv_def)
  then obtain c0 where "applyAzureStorageFromEnv (dl_url L) E c0 = Inr c" "\<not> rz_Local c0"
    using assms(1) unfolding rhizaConfigFromEnv_def Let_def by (auto split: if_splits sum.splits prod.splits)
  then show False using apply_Inr assms(2) by (fastforce simp: azure_apply_def)
qed

lemma cluster_durable:
  assumes "rhizaConfigFromEnv L async E dataDir = Inr c" "E ''TERNAL_DATA_LOCAL'' \<noteq> ''1''" "E ''TERNAL_DATA_MULTI_NODE'' \<noteq> ''1''" "requireTrustAnchor E"
  shows "rz_ObjStoreDurability c = ''before-ack''"
proof -
  obtain members where m: "cluster_members L E = Inr members" using assms(1,2) by (auto simp: rhizaConfigFromEnv_def split: if_splits sum.splits)
  then have d: "E ''TERNAL_OBJECT_STORE_DURABILITY'' = ''before-ack''" using assms(3,4) by (auto simp: cluster_members_def Let_def split: if_splits option.splits)
  obtain c0 where "applyAzureStorageFromEnv (dl_url L) E c0 = Inr c" "rz_ObjStoreDurability c0 = data_envOr E ''TERNAL_OBJECT_STORE_DURABILITY'' async"
    using assms(1,2) m unfolding rhizaConfigFromEnv_def Let_def by (auto split: if_splits sum.splits prod.splits)
  then show ?thesis using d apply_Inr by (fastforce simp: data_envOr_def azure_apply_def)
qed

text \<open>C37. One identity for the object store.  In local mode the storage identity that the preflight computes from the
  database's configuration is the one to which the trust anchor is bound, for every provider, although
  an Azure endpoint reaches the configuration only in the form of the SDK; and a node that runs alone on
  an object store, local or not, acknowledges no write before it is stored there.\<close>

theorem storage_binding_agrees:
  assumes "url_ok (dl_url L)" "rhizaConfigFromEnv L async E dataDir = Inr c"
  shows "(rz_Local c \<longrightarrow> storageBindingFromEnv L E = \<lparr>bi_ClusterID = rz_ClusterID c, bi_StorageID = localStorageID L c\<rparr>) \<and>
    (rz_Local c \<or> E ''TERNAL_DATA_MULTI_NODE'' \<noteq> ''1'' \<and> requireTrustAnchor E \<longrightarrow> rz_ObjStoreDurability c = ''before-ack'')"
proof (cases "rz_Local c")
  case True
  note l = config_local [OF assms(2) True]
  show ?thesis using local_identity [OF assms(1) conjunct2 [OF l] conjunct1 [OF l]] local_config [OF conjunct2 [OF l]] by blast
next
  case False
  then have "E ''TERNAL_DATA_LOCAL'' \<noteq> ''1''" using assms(2) local_config [of L E dataDir c] by (auto simp: rhizaConfigFromEnv_def)
  then show ?thesis using cluster_durable [OF assms(2)] False by blast
qed

end
