(* ===== verification/Recovery_Verifier.thy ===== *)
theory Recovery_Verifier
  imports Data_Config Anchor_Data
begin

section \<open>Proof of a recovered archive (recovery\_verifier.go, anchor\_service.go)\<close>

text \<open>
  The anchor service commits a recovery only when the recovered archive carries the application's pair.
  The request of the recovery library shows only the fields that are read here.  \<open>recovered\<close> stands for
  \<^verbatim>\<open>RecoverApplicationEvidence\<close>: it materializes the archive and hands the rows of \<^verbatim>\<open>trust_state\<close> to the callback, or fails.
\<close>

datatype verify_error =
    VE_Pending | VE_Unsupported | VE_Evidence anchor_error | VE_Bootstrap | VE_Hash | VE_Cluster | VE_Storage | VE_Prefix | VE_Recover | VE_Empty | VE_Many | VE_Unsettled
  | VE_LocalMode | VE_Missing | VE_Token

record recovery_request =
  rreq_SourceClusterID :: string
  rreq_TargetClusterID :: string
  rreq_SourcePrefix :: string
  rreq_TargetPrefix :: string
  rreq_TargetAnchorHash :: string

fun hex_bytes :: "string \<Rightarrow> nat option" where
  "hex_bytes [] = Some 0"
| "hex_bytes [c] = None"
| "hex_bytes (a # b # s) = (if is_hex_digit a \<and> is_hex_digit b then map_option Suc (hex_bytes s) else None)"

text \<open>The callback on the recovered rows; \<open>None\<close> among the rows is a row that did not scan.\<close>

definition recovered_proof :: "('tr, 'rc) anchor_lib \<Rightarrow> string \<Rightarrow> (int \<times> string) option list \<Rightarrow> bool \<Rightarrow> verify_error + string" where
  "recovered_proof A format rows rows_ok =
     (case rows of
        [] \<Rightarrow> Inl VE_Empty
      | None # rest \<Rightarrow> Inl VE_Recover
      | Some (epoch, tok) # rest \<Rightarrow>
          if rest \<noteq> [] then Inl VE_Many
          else if \<not> rows_ok then Inl VE_Recover
          else if epoch < 1 \<or> \<not> validUUID tok then Inl VE_Unsettled
          else Inr (al_evidence A \<lparr>ev_Format = format, ev_Epoch = epoch, ev_Token = tok, ev_PendingEpoch = None, ev_PendingID = '''', ev_Bootstrap = False\<rparr>))"

definition verify ::
    "('tr, 'rc) anchor_lib \<Rightarrow> 'm data_lib \<Rightarrow> int \<Rightarrow> (recovery_request \<Rightarrow> ((int \<times> string) option list \<times> bool) option) \<Rightarrow> recoveryStorage \<Rightarrow>
     recovery_request \<Rightarrow> ('tr, 'rc) recovery_record \<Rightarrow> verify_error + binding \<times> string" where
  "verify A L version1 recovered storage req rec =
     (if rr_PendingWrite rec then Inl VE_Pending
      else if rr_Version rec \<noteq> version1 \<or> rr_EvidenceFormat rec \<noteq> trustAnchorEvidenceFormat then Inl VE_Unsupported
      else case parseTrustAnchorEvidence A (rr_Evidence rec) of
        Inl e \<Rightarrow> Inl (VE_Evidence e)
      | Inr frozen \<Rightarrow>
          if ev_PendingEpoch frozen \<noteq> None \<or> ev_PendingID frozen \<noteq> '''' then Inl VE_Pending
          else if ev_Bootstrap frozen then Inl VE_Bootstrap
          else if hex_bytes (rreq_TargetAnchorHash req) \<noteq> Some 32 then Inl VE_Hash
          else if rr_ClusterID rec \<noteq> rreq_SourceClusterID req then Inl VE_Cluster
          else if rr_StorageID rec \<noteq> storage_identity L storage (rreq_SourceClusterID req) then Inl VE_Storage
          else if rreq_SourcePrefix req \<noteq> storage_prefix storage (rreq_SourceClusterID req) \<or> rreq_TargetPrefix req \<noteq> storage_prefix storage (rreq_TargetClusterID req)
          then Inl VE_Prefix
          else (case recovered req of
                  None \<Rightarrow> Inl VE_Recover
                | Some (rows, rows_ok) \<Rightarrow>
                    (case recovered_proof A (ev_Format frozen) rows rows_ok of
                       Inl e \<Rightarrow> Inl e
                     | Inr proof_bytes \<Rightarrow>
                         Inr (\<lparr>bi_ClusterID = rreq_TargetClusterID req, bi_StorageID = storage_identity L storage (rreq_TargetClusterID req)\<rparr>, proof_bytes))))"

text \<open>\<open>file\<close> is what reading the token file gave.\<close>

definition anchorBearerToken :: "(string \<Rightarrow> string option) \<Rightarrow> string \<Rightarrow> verify_error + string" where
  "anchorBearerToken file path =
     (if path = '''' then Inl VE_Missing
      else case file path of
        None \<Rightarrow> Inl VE_Token
      | Some data \<Rightarrow> if TrimSpace data = '''' then Inl VE_Token else Inr (TrimSpace data))"

text \<open>What the service is assembled from: the anchor's identifier, the ConfigMap and its namespace, the bearer token and the object store.
  \<open>bucket\<close> says whether the object store could be opened.\<close>

definition OpenAnchorService ::
    "'m data_lib \<Rightarrow> (string \<Rightarrow> string option) \<Rightarrow> (recoveryStorage \<Rightarrow> bool) \<Rightarrow> env_vars \<Rightarrow> verify_error + string \<times> string \<times> string \<times> string \<times> recoveryStorage" where
  "OpenAnchorService L file bucket E =
     (let mode = E ''TERNAL_DATA_LOCAL''; anchorID = E ''TERNAL_RECOVERY_ANCHOR_ID''; name = E ''TERNAL_TRUST_ANCHOR_CONFIGMAP'';
          namespace = E ''TERNAL_TRUST_ANCHOR_NAMESPACE'' in
      if mode \<noteq> '''' \<and> mode \<noteq> ''0'' then Inl VE_LocalMode
      else if anchorID = '''' \<or> name = '''' \<or> namespace = '''' then Inl VE_Missing
      else case anchorBearerToken file (E ''TERNAL_ANCHOR_TOKEN_FILE'') of
        Inl e \<Rightarrow> Inl e
      | Inr tok \<Rightarrow>
          let storage = recoveryStorageFromEnv L E in
          if \<not> bucket storage then Inl VE_Storage else Inr (anchorID, name, namespace, tok, storage))"

subsection \<open>What a proof proves\<close>

lemma proof_rows:
  assumes "recovered_proof A format rows rows_ok = Inr p"
  shows "\<exists>epoch tok. rows = [Some (epoch, tok)] \<and> rows_ok \<and> 1 \<le> epoch \<and> validUUID tok \<and>
    p = al_evidence A \<lparr>ev_Format = format, ev_Epoch = epoch, ev_Token = tok, ev_PendingEpoch = None, ev_PendingID = '''', ev_Bootstrap = False\<rparr>"
  using assms by (auto simp: recovered_proof_def split: list.splits option.splits if_splits prod.splits)

text \<open>C36. A recovery proof is the anchor's own pair.  When the verifier returns a proof that equals the frozen
  evidence, the recovered archive holds exactly one trust row, and it is the pair that the anchor froze, with no
  write pending and the bootstrap consumed; the source is the configured storage of the frozen binding, and
  the new binding is that of the target cluster.  An archive with another pair never gives such a proof.  The
  hypothesis is that JSON envelopes of ASCII strings read back.\<close>

theorem recovery_proof_sound:
  assumes "evidence_json_ok A" "validateStructure (al_ops A) r"
    and "verify A L version1 recovered storage req (recoveryRecord A version1 r) = Inr (b, p)"
  shows "(p = al_evidence A (evidence r) \<longleftrightarrow> recovered req = Some ([Some (anchor_pair r)], True)) \<and>
    ta_PendingEpoch r = None \<and> \<not> ta_Bootstrap r \<and> ta_ClusterID r = rreq_SourceClusterID req \<and> ta_StorageID r = storage_identity L storage (rreq_SourceClusterID req) \<and>
    b = \<lparr>bi_ClusterID = rreq_TargetClusterID req, bi_StorageID = storage_identity L storage (rreq_TargetClusterID req)\<rparr>"
proof -
  note ev = evidence_reads [OF assms(1,2)]
  have v: "ta_PendingEpoch r = None" "ta_PendingID r = ''''" "\<not> ta_Bootstrap r" "ta_ClusterID r = rreq_SourceClusterID req"
    "ta_StorageID r = storage_identity L storage (rreq_SourceClusterID req)"
    "b = \<lparr>bi_ClusterID = rreq_TargetClusterID req, bi_StorageID = storage_identity L storage (rreq_TargetClusterID req)\<rparr>"
    using assms(3) ev by (auto simp: verify_def recoveryRecord_def evidence_def split: if_splits sum.splits option.splits prod.splits)
  obtain rows rows_ok where rows: "recovered req = Some (rows, rows_ok)" "recovered_proof A (ta_Format r) rows rows_ok = Inr p"
    using assms(3) ev by (auto simp: verify_def recoveryRecord_def evidence_def split: if_splits sum.splits option.splits prod.splits)
  obtain epoch tok where p: "rows = [Some (epoch, tok)]" "rows_ok" "validUUID tok"
    "p = al_evidence A \<lparr>ev_Format = ta_Format r, ev_Epoch = epoch, ev_Token = tok, ev_PendingEpoch = None, ev_PendingID = '''', ev_Bootstrap = False\<rparr>"
    using proof_rows [OF rows(2)] by blast
  define e where "e = \<lparr>ev_Format = ta_Format r, ev_Epoch = epoch, ev_Token = tok, ev_PendingEpoch = None, ev_PendingID = '''', ev_Bootstrap = False\<rparr>"
  have "ascii (ev_Format e) \<and> ascii (ev_Token e) \<and> ascii (ev_PendingID e)"
    using assms(2) uuid_ascii [OF p(3)] by (auto simp: e_def validateStructure_def ascii_def)
  then have "al_read_evidence A (al_evidence A e) = Some e" using assms(1) unfolding evidence_json_ok_def by blast
  moreover have "al_read_evidence A (al_evidence A (evidence r)) = Some (evidence r)" using ev by (auto simp: parseTrustAnchorEvidence_def split: option.splits if_splits)
  moreover have "p = al_evidence A e" using p(4) by (simp add: e_def)
  ultimately have "p = al_evidence A (evidence r) \<longleftrightarrow> e = evidence r" by (metis option.inject)
  also have "\<dots> \<longleftrightarrow> (epoch, tok) = anchor_pair r" using v by (auto simp: e_def evidence_def anchor_pair_def)
  finally show ?thesis using v rows(1) p(1,2) by auto
qed

end
