(* ===== verification/Anchor_Witness.thy ===== *)
theory Anchor_Witness
  imports Anchor_Properties Recovery_Verifier
begin

section \<open>An API server, and the anchor's guarantees at work\<close>

text \<open>
  A concrete API server: one object, a counter as its version, answers that may be lost, and writes of other
  clients, which are scripted.  It meets the contract \<open>configmap_server\<close>.
\<close>

record kube_state =
  ks_data :: data_map
  ks_version :: nat
  ks_lost :: "bool list"
  ks_others :: "data_map list"

definition ks_rv :: "kube_state \<Rightarrow> string" where "ks_rv s = FormatInt (int (ks_version s))"

definition ks_object :: "kube_state \<Rightarrow> configMapWire" where
  "ks_object s = \<lparr>cm_APIVersion = ''v1'', cm_Kind = ''ConfigMap'', cm_Metadata = [(''name'', ''anchor''), (''namespace'', ''ternal''), (''resourceVersion'', ks_rv s)],
     cm_Data = ks_data s\<rparr>"

definition ks_get :: "kube_state \<Rightarrow> kube_response option" where
  "ks_get s = Some \<lparr>kr_Status = 200, kr_Wire = Some (ks_object s)\<rparr>"

definition named_version :: "configMapWire \<Rightarrow> string" where
  "named_version w = (case map_of (cm_Metadata w) ''resourceVersion'' of None \<Rightarrow> '''' | Some v \<Rightarrow> v)"

definition ks_put :: "configMapWire \<Rightarrow> kube_state \<Rightarrow> kube_response option \<times> kube_state" where
  "ks_put w s =
     (let lost = (ks_lost s \<noteq> [] \<and> hd (ks_lost s)) in
      if named_version w = '''' \<or> named_version w = ks_rv s then
        (let s' = s\<lparr>ks_data := cm_Data w, ks_version := Suc (ks_version s), ks_lost := tl (ks_lost s)\<rparr> in
         (if lost then None else Some \<lparr>kr_Status = 200, kr_Wire = Some (ks_object s')\<rparr>, s'))
      else (if lost then None else Some \<lparr>kr_Status = 409, kr_Wire = None\<rparr>, s\<lparr>ks_lost := tl (ks_lost s)\<rparr>))"

definition ks_peers :: "kube_state \<Rightarrow> kube_state" where
  "ks_peers s = (case ks_others s of [] \<Rightarrow> s | d # ds \<Rightarrow> s\<lparr>ks_data := d, ks_version := Suc (ks_version s), ks_others := ds\<rparr>)"

definition ref_kube :: "kube_state kube" where
  "ref_kube = \<lparr>k_get = ks_get, k_put = ks_put, k_peers = ks_peers, k_string = Some, k_raw = (\<lambda>s. s), k_name = ''anchor'', k_namespace = ''ternal''\<rparr>"

lemma ref_metadata: "metadataString ref_kube w ''resourceVersion'' = named_version w"
  by (auto simp: metadataString_def named_version_def ref_kube_def split: option.splits)

lemma object_version [simp]: "named_version (ks_object s) = ks_rv s"
  by (simp add: named_version_def ks_object_def)

lemma rv_inj: "ks_rv s = ks_rv s' \<Longrightarrow> ks_version s = ks_version s'"
  unfolding ks_rv_def using FormatInt_inj by fastforce

interpretation rk: configmap_server ref_kube ks_data ks_rv
proof unfold_locales
  show "k_string ref_kube (k_raw ref_kube s) = Some s" if "k_string ref_kube raw = Some s" for raw s by (simp add: ref_kube_def)
  show "cm_Data w = ks_data x \<and> metadataString ref_kube w ''resourceVersion'' = ks_rv x"
    if "k_get ref_kube x = Some r" "kr_Status r = 200" "kr_Wire r = Some w" for x r w
    using that unfolding ref_metadata by (auto simp: ref_kube_def ks_get_def) (simp add: ks_object_def)
  show "(metadataString ref_kube w ''resourceVersion'' = ks_rv x \<and> ks_data x' = cm_Data w \<and>
         (\<forall>p w'. q = Some p \<and> kr_Status p = 200 \<and> kr_Wire p = Some w' \<longrightarrow> metadataString ref_kube w' ''resourceVersion'' = ks_rv x')) \<or>
      (ks_data x' = ks_data x \<and> ks_rv x' = ks_rv x \<and> (\<forall>p. q = Some p \<longrightarrow> kr_Status p \<noteq> 200))"
    if "k_put ref_kube w x = (q, x')" "metadataString ref_kube w ''resourceVersion'' \<noteq> ''''" for w x q x'
    using that unfolding ref_metadata by (auto simp: ref_kube_def ks_put_def Let_def ks_rv_def split: if_splits)
  show "ks_data (k_peers ref_kube x) = ks_data x" if "ks_rv (k_peers ref_kube x) = ks_rv x" for x
    using rv_inj [OF that] by (auto simp: ref_kube_def ks_peers_def split: list.splits)
qed

subsection \<open>A sample of the library\<close>

definition fend :: char where "fend = CHR 0xFF"

definition evidence_text :: "trustAnchorEvidence \<Rightarrow> string" where
  "evidence_text e = ev_Format e @ fend # FormatInt (ev_Epoch e) @ fend # ev_Token e @ fend #
     (case ev_PendingEpoch e of None \<Rightarrow> '''' | Some p \<Rightarrow> FormatInt p) @ fend # ev_PendingID e @ fend # FormatBool (ev_Bootstrap e)"

definition parse_int :: "string \<Rightarrow> int option" where
  "parse_int s = (if HasPrefix s ''-'' then map_option (\<lambda>n. - int n) (parse_digits 0 (tl s)) else map_option int (parse_digits 0 s))"

definition evidence_parse :: "string \<Rightarrow> trustAnchorEvidence option" where
  "evidence_parse t =
     (case Split t fend of
        [f, e, k, p, i, b] \<Rightarrow>
          (case (parse_int e, if p = '''' then Some None else map_option Some (parse_int p)) of
             (Some epoch, Some pending) \<Rightarrow>
               Some \<lparr>ev_Format = f, ev_Epoch = epoch, ev_Token = k, ev_PendingEpoch = pending, ev_PendingID = i, ev_Bootstrap = (b = ''true'')\<rparr>
           | _ \<Rightarrow> None)
      | _ \<Rightarrow> None)"

definition anchor_sample_lib :: "(unit, unit) anchor_lib" where
  "anchor_sample_lib = \<lparr>al_evidence = evidence_text, al_read_evidence = evidence_parse, al_transition = (\<lambda>_. Some ''t''), al_read_transition = (\<lambda>s. if s = ''t'' then Some () else None),
     al_receipt = (\<lambda>_. Some ''r''), al_read_receipt = (\<lambda>s. if s = ''r'' then Some () else None), al_ops = \<lparr>tr_Generation = (\<lambda>_. 0), tr_AnchorID = (\<lambda>_. ''a''), rc_Generation = (\<lambda>_. 0)\<rparr>\<rparr>"

lemma parse_int_Format: "parse_int (FormatInt n) = Some n"
  using FormatUint_no_sign(1) [of "nat n"] by (auto simp: parse_int_def FormatInt_def parse_digits_FormatUint)

lemma fend_digits: "fend \<notin> set (FormatInt n)"
  using FormatUint_bytes [of fend] by (auto simp: FormatInt_def fend_def is_digit_def char_le_nat)

lemma fend_ascii: "ascii s \<Longrightarrow> fend \<notin> set s"
  by (auto simp: ascii_def list_all_iff fend_def)

lemma fend_bool: "fend \<notin> set (FormatBool b)"
  by (simp add: FormatBool_def fend_def)

lemma anchor_sample_json: "evidence_json_ok anchor_sample_lib"
  unfolding evidence_json_ok_def
proof (intro allI impI)
  fix e :: trustAnchorEvidence assume a: "ascii (ev_Format e) \<and> ascii (ev_Token e) \<and> ascii (ev_PendingID e)"
  have "fend \<notin> set (case ev_PendingEpoch e of None \<Rightarrow> '''' | Some p \<Rightarrow> FormatInt p)" using fend_digits by (auto split: option.splits)
  then have "Split (evidence_text e) fend = [ev_Format e, FormatInt (ev_Epoch e), ev_Token e, case ev_PendingEpoch e of None \<Rightarrow> '''' | Some p \<Rightarrow> FormatInt p,
      ev_PendingID e, FormatBool (ev_Bootstrap e)]"
    unfolding evidence_text_def using a fend_ascii fend_digits fend_bool by (simp add: Split_first Split_absent)
  then show "al_read_evidence anchor_sample_lib (al_evidence anchor_sample_lib e) = Some e"
    by (cases e) (auto simp: anchor_sample_lib_def evidence_parse_def parse_int_Format FormatBool_def split: option.splits)
qed

definition sample_anchor :: "(unit, unit) trustAnchorRecord" where
  "sample_anchor = \<lparr>ta_Format = ''1'', ta_ClusterID = ''prod'', ta_StorageID = ''s3:bucket'', ta_Epoch = 41, ta_Token = ''3f2504e0-4f89-41d3-9a0c-0305e82c3301'',
     ta_PendingEpoch = None, ta_PendingID = '''', ta_Bootstrap = False, ta_Generation = 0, ta_Transition = None, ta_Receipt = None\<rparr>"

definition next_anchor :: "(unit, unit) trustAnchorRecord" where
  "next_anchor = reserve 42 ''6ecd8c99-4036-403d-bf84-cf8400f67836'' sample_anchor"

text \<open>The data as it was before the migration.\<close>

definition legacy_data :: data_map where
  "legacy_data = [(''format'', ''1''), (''clusterID'', ''prod''), (''storageID'', ''s3:bucket''), (''epoch'', ''41''), (''token'', ''3f2504e0-4f89-41d3-9a0c-0305e82c3301''),
     (''pendingEpoch'', ''''), (''pendingID'', ''''), (''bootstrap'', ''false'')]"

definition legacy_server :: kube_state where
  "legacy_server = \<lparr>ks_data = legacy_data, ks_version = 7, ks_lost = [], ks_others = []\<rparr>"

lemma sample_storable: "storable anchor_sample_lib sample_anchor" "storable anchor_sample_lib next_anchor"
  by code_simp+

lemma legacy_reads: "parseAnchorData anchor_sample_lib legacy_data = Inr sample_anchor"
  by code_simp

theorem anchor_data_roundtrip_witness:
  "parseAnchorData anchor_sample_lib (anchorData anchor_sample_lib next_anchor) = Inr next_anchor \<and>
   anchorRecordFromRecovery anchor_sample_lib 1 (recoveryRecord anchor_sample_lib 1 next_anchor) = Inr next_anchor \<and>
   map_of legacy_data ''epoch'' = map_of (anchorData anchor_sample_lib sample_anchor) ''epoch''"
proof -
  note w = anchor_data_roundtrip [OF anchor_sample_json sample_storable(2), of 1]
  have "distinct (map fst legacy_data)" "''epoch'' \<in> set flat_keys" by code_simp+
  then show ?thesis using w legacy_reads by blast
qed

definition migrated :: "(anchor_error + string) \<times> kube_state" where
  "migrated = kube_CAS anchor_sample_lib ref_kube ''7'' next_anchor legacy_server"

lemma migrated_version: "fst migrated = Inr ''9''"
  by code_simp

theorem kubernetes_register_witness:
  "kube_Get anchor_sample_lib ref_kube legacy_server = Inr (sample_anchor, ''7'') \<and> fst migrated = Inr (ks_rv (snd migrated)) \<and>
   parseAnchorData anchor_sample_lib (ks_data (snd migrated)) = Inr next_anchor"
proof -
  have s: "storable anchor_sample_lib legacy" if "parseAnchorData anchor_sample_lib (ks_data legacy_server) = Inr legacy" for legacy
    using that legacy_reads sample_storable(1) by (simp add: legacy_server_def)
  note w = kubernetes_register [OF rk.configmap_server_axioms anchor_sample_json sample_storable(2) s, where r = sample_anchor and rv = "''7''" and rv' = "''9''" and x' = "snd migrated"]
  have c: "kube_CAS anchor_sample_lib ref_kube ''7'' next_anchor legacy_server = (Inr ''9'', snd migrated)"
    using migrated_version unfolding migrated_def by (metis prod.collapse)
  have g: "kube_Get anchor_sample_lib ref_kube legacy_server = Inr (sample_anchor, ''7'')" by code_simp
  show ?thesis using w c g migrated_version by simp
qed

subsection \<open>A deployment on Azure\<close>

definition sample_endpoint :: string where "sample_endpoint = ''https://acct.blob.core.windows.net''"

definition sample_parsed :: azure_url where
  "sample_parsed = \<lparr>az_Scheme = ''https'', az_Opaque = '''', az_User = False, az_Host = ''acct.blob.core.windows.net'', az_Path = '''', az_RawPath = '''', az_ForceQuery = False,
     az_RawQuery = '''', az_Fragment = '''', az_Hostname = ''acct.blob.core.windows.net'', az_Port = '''', az_String = sample_endpoint\<rparr>"

definition sample_url :: "string \<Rightarrow> azure_url option" where
  "sample_url s = (if s = sample_endpoint then Some sample_parsed else None)"

definition sample_data_lib :: "unit data_lib" where
  "sample_data_lib = \<lparr>dl_duration = (\<lambda>_. None), dl_members = (\<lambda>_. None), dl_key = (\<lambda>c n t. t), dl_url = sample_url, dl_marshal = concat, dl_sha256_hex = (\<lambda>s. s)\<rparr>"

definition azure_env :: env_vars where
  "azure_env k = (case map_of [(''TERNAL_DATA_LOCAL'', ''1''), (''TERNAL_OBJECT_STORE_PROVIDER'', ''azure''), (''TERNAL_LOCAL_WRITER_GC_QUIESCENCE_ACK'', ''1''),
     (''TERNAL_DATA_CLUSTER_ID'', ''prod''), (''TERNAL_OBJECT_STORE_PREFIX'', ''ternal''), (''TERNAL_OBJECT_STORE_BUCKET'', ''archive''),
     (''TERNAL_OBJECT_STORE_AZURE_STORAGE_ACCOUNT'', ''acct'')] k of None \<Rightarrow> '''' | Some v \<Rightarrow> v)"

lemma sample_url_ok: "url_ok (dl_url sample_data_lib)"
  by (simp add: url_ok_def sample_data_lib_def sample_url_def sample_parsed_def sample_endpoint_def)

definition azure_config :: "data_error + (string \<times> string \<times> unit) rhiza_config" where
  "azure_config = rhizaConfigFromEnv sample_data_lib ''async'' azure_env ''/data''"

lemma azure_starts: "case azure_config of Inl e \<Rightarrow> False | Inr c \<Rightarrow> rz_Local c \<and> rz_ObjStoreEndpoint c = ''blob.core.windows.net''"
  by code_simp

theorem storage_binding_agrees_witness:
  "case azure_config of
     Inl e \<Rightarrow> False
   | Inr c \<Rightarrow> storageBindingFromEnv sample_data_lib azure_env = \<lparr>bi_ClusterID = rz_ClusterID c, bi_StorageID = localStorageID sample_data_lib c\<rparr> \<and>
       rz_ObjStoreDurability c = ''before-ack''"
proof -
  obtain c where c: "azure_config = Inr c" "rz_Local c" using azure_starts by (auto split: sum.splits)
  show ?thesis unfolding c(1) sum.case using storage_binding_agrees [OF sample_url_ok c(1) [unfolded azure_config_def]] c(2) by blast
qed

subsection \<open>A recovery\<close>

definition sample_storage :: recoveryStorage where
  "sample_storage = \<lparr>re_Provider = ''s3'', re_Endpoint = '''', re_Bucket = ''archive'', re_Prefix = ''ternal'', re_Azure = None\<rparr>"

definition sample_request :: recovery_request where
  "sample_request = \<lparr>rreq_SourceClusterID = ''prod'', rreq_TargetClusterID = ''next'', rreq_SourcePrefix = ''ternal/prod'', rreq_TargetPrefix = ''ternal/next'',
     rreq_TargetAnchorHash = replicate 64 CHR ''a''\<rparr>"

definition frozen_anchor :: "(unit, unit) trustAnchorRecord" where
  "frozen_anchor = sample_anchor\<lparr>ta_StorageID := storage_identity sample_data_lib sample_storage ''prod''\<rparr>"

definition sample_archive :: "recovery_request \<Rightarrow> ((int \<times> string) option list \<times> bool) option" where
  "sample_archive r = Some ([Some (anchor_pair frozen_anchor)], True)"

definition sample_binding :: binding where
  "sample_binding = \<lparr>bi_ClusterID = ''next'', bi_StorageID = storage_identity sample_data_lib sample_storage ''next''\<rparr>"

definition sample_proof :: "verify_error + binding \<times> string" where
  "sample_proof = verify anchor_sample_lib sample_data_lib 1 sample_archive sample_storage sample_request (recoveryRecord anchor_sample_lib 1 frozen_anchor)"

lemma sample_recovers: "case sample_proof of Inl e \<Rightarrow> False | Inr (b, p) \<Rightarrow> True"
  by code_simp

lemma frozen_valid: "validateStructure (al_ops anchor_sample_lib) frozen_anchor"
  by code_simp

theorem recovery_proof_sound_witness:
  "sample_proof = Inr (sample_binding, al_evidence anchor_sample_lib (evidence frozen_anchor))"
proof -
  obtain b p where v: "sample_proof = Inr (b, p)" using sample_recovers by (auto split: sum.splits prod.splits)
  note w = recovery_proof_sound [OF anchor_sample_json frozen_valid v [unfolded sample_proof_def]]
  then have "p = al_evidence anchor_sample_lib (evidence frozen_anchor)" by (simp add: sample_archive_def)
  moreover have "b = sample_binding" using w by (simp add: sample_binding_def sample_request_def)
  ultimately show ?thesis using v by simp
qed

end
