(* ===== verification/Local_Preflight.thy ===== *)
theory Local_Preflight
  imports Data_Config
begin

section \<open>The preflight of a local archive (local\_preflight.go)\<close>

text \<open>
  In local mode one writer keeps its database on one machine and its history in an object store.  Before
  anything is opened, an init run checks the archive and leaves a receipt, and every start checks that the
  data directory, the archive, the receipt and the trust anchor belong together; a start in the clustered
  mode checks that none of them is local.  The outside (object store and anchor) is a sequence of moments, one
  for each call, so that others may act in between; a disk is an association list of cleaned paths.  The types of the recovery
  library, a binding and a snapshot, are type variables.
\<close>

datatype local_error =
    LE_Config data_error | LE_NotLocal | LE_IO | LE_NotExist | LE_Metadata | LE_Decode | LE_Marshal | LE_Size | LE_Paths | LE_Overlap | LE_Staging | LE_Scope
  | LE_NoAnchor | LE_Anchor | LE_AnchorInvalid | LE_Pending | LE_Bucket | LE_ArchiveMode | LE_Archive | LE_Binding | LE_Location | LE_Maintenance | LE_Checkpoint
  | LE_Changed | LE_Download | LE_Legacy | LE_DataDir | LE_Marker | LE_NonEmpty | LE_Receipt | LE_ReceiptScope | LE_LegacyAuthority | LE_BindingDiffers | LE_Open | LE_Schema

definition localModeMarker :: string where "localModeMarker = ''.ternal-data-mode.json''"
definition maxLocalReceipt :: nat where "maxLocalReceipt = 131072"

record ('b, 's) localArchiveView =
  lv_Binding :: 'b
  lv_Tip :: nat
  lv_PrefixHash :: string
  lv_Snapshot :: "'s option"

record ('b, 's) localPreflightReceipt =
  lr_Version :: int
  lr_StorageID :: string
  lr_NodeID :: string
  lr_Scope :: string
  lr_AnchorName :: string
  lr_AnchorNamespace :: string
  lr_View :: "('b, 's) localArchiveView"

record 'b localDataMode =
  lm_Version :: int
  lm_Mode :: string
  lm_StorageID :: string
  lm_Binding :: 'b

subsection \<open>The outside\<close>

text \<open>What the recovery library shows of an archive: \<open>la_Resolved\<close> is \<open>None\<close> when the state of its maintenance could not be read.\<close>

record ('b, 's) local_archive =
  la_Binding :: 'b
  la_Resolved :: "bool option"
  la_Tip :: nat
  la_PrefixHash :: "string option"
  la_Snapshot :: "'s option"

text \<open>One moment: \<open>lo_iter\<close> gives the keys below a root and whether the listing ended without an error; \<open>lo_download\<close> the
  files that it wrote and whether they verified.\<close>

record ('b, 's, 'tr, 'rc) local_outside =
  lo_anchor :: "string \<Rightarrow> string \<Rightarrow> ('tr, 'rc) trustAnchorRecord option"
  lo_bucket :: "recoveryStorage \<Rightarrow> bool"
  lo_close :: bool
  lo_iter :: "string \<Rightarrow> string list \<times> bool"
  lo_archive :: "string \<Rightarrow> ('b, 's) local_archive option"
  lo_download :: "string \<Rightarrow> 's \<Rightarrow> string list \<times> bool"

record ('b, 's, 'tr, 'rc) local_lib =
  ll_members :: "'b \<Rightarrow> string list"
  ll_location :: "'b \<Rightarrow> string"
  ll_ops :: "('tr, 'rc) recovery_ops"
  ll_receipt :: "('b, 's) localPreflightReceipt \<Rightarrow> string option"
  ll_read_receipt :: "string \<Rightarrow> ('b, 's) localPreflightReceipt option"
  ll_mode :: "'b localDataMode \<Rightarrow> string option"
  ll_read_mode :: "string \<Rightarrow> 'b localDataMode option"

subsection \<open>The disk\<close>

datatype local_entry = Regular string | Directory | Irregular

type_synonym disk = "(string \<times> local_entry) list"

datatype resolution = Resolved string | NotExist | EvalFailed

text \<open>The outcomes of system calls: \<open>di_lstat\<close> and \<open>di_read\<close> are false where a call fails for another reason than a missing file, \<open>di_eval\<close> is
  \<^verbatim>\<open>EvalSymlinks\<close>; the rest is one write of metadata and the working directory.\<close>

record disk_io =
  di_abs :: "string \<Rightarrow> string option"
  di_eval :: "string \<Rightarrow> resolution"
  di_lstat :: "string \<Rightarrow> bool"
  di_read :: "string \<Rightarrow> bool"
  di_readdir :: bool
  di_mkdir :: bool
  di_temp :: "string option"
  di_written :: nat
  di_sync :: bool
  di_close :: bool
  di_rename :: bool
  di_remove :: bool
  di_work :: "string option"
  di_files :: bool
  di_removeall :: bool

definition disk_put :: "string \<Rightarrow> local_entry \<Rightarrow> disk \<Rightarrow> disk" where
  "disk_put p e d = (p, e) # filter (\<lambda>x. fst x \<noteq> p) d"

definition disk_remove :: "string \<Rightarrow> disk \<Rightarrow> disk" where
  "disk_remove p d = filter (\<lambda>x. fst x \<noteq> p) d"

definition inside :: "string \<Rightarrow> string \<Rightarrow> bool" where
  "inside child parent \<longleftrightarrow> child = parent \<or> HasPrefix child (parent @ ''/'')"

definition filepath_Base :: "string \<Rightarrow> string" where
  "filepath_Base path =
     (let p = rev (dropWhile (\<lambda>c. c = CHR ''/'') (rev path)) in
      if path = '''' then ''.'' else if p = '''' then ''/'' else (case LastIndex p (CHR ''/'') of None \<Rightarrow> p | Some i \<Rightarrow> drop (Suc i) p))"

definition readLocalJSON :: "(string \<Rightarrow> 'a option) \<Rightarrow> disk_io \<Rightarrow> string \<Rightarrow> disk \<Rightarrow> local_error + 'a" where
  "readLocalJSON decode io name d =
     (if \<not> di_lstat io name then Inl LE_IO
      else case map_of d name of
        None \<Rightarrow> Inl LE_NotExist
      | Some (Regular s) \<Rightarrow>
          if length s > maxLocalReceipt then Inl LE_Metadata
          else if \<not> di_read io name then Inl LE_IO
          else (case decode s of None \<Rightarrow> Inl LE_Decode | Some v \<Rightarrow> Inr v)
      | Some _ \<Rightarrow> Inl LE_Metadata)"

definition writeLocalJSON :: "('a \<Rightarrow> string option) \<Rightarrow> disk_io \<Rightarrow> string \<Rightarrow> 'a \<Rightarrow> disk \<Rightarrow> local_error option \<times> disk" where
  "writeLocalJSON marshal io name v d =
     (case marshal v of
        None \<Rightarrow> (Some LE_Marshal, d)
      | Some data \<Rightarrow>
          if length data > maxLocalReceipt then (Some LE_Size, d)
          else if \<not> di_lstat io name then (Some LE_IO, d)
          else if \<not> (case map_of d name of None \<Rightarrow> True | Some (Regular _) \<Rightarrow> True | Some _ \<Rightarrow> False) then (Some LE_Metadata, d)
          else case di_temp io of
            None \<Rightarrow> (Some LE_IO, d)
          | Some temp \<Rightarrow>
              if di_written io < length data \<or> \<not> di_sync io \<or> \<not> di_close io \<or> \<not> di_rename io
              then (Some LE_IO, if di_remove io then disk_remove temp d else disk_put temp (Regular (take (di_written io) data)) d)
              else (None, disk_put name (Regular data) (disk_remove temp d)))"

subsection \<open>The parent of a path is shorter\<close>

text \<open>The weight of path segments is their length with a separator each; dropping an empty segment saves one.\<close>

definition seg_weight :: "string list \<Rightarrow> nat" where "seg_weight segs = sum_list (map (\<lambda>s. Suc (length s)) segs)"

lemma seg_weight_simps [simp]: "seg_weight [] = 0" "seg_weight (s # segs) = Suc (length s) + seg_weight segs" "seg_weight (segs @ segs') = seg_weight segs + seg_weight segs'"
  "seg_weight (rev segs) = seg_weight segs"
  by (simp_all add: seg_weight_def rev_map [symmetric])

lemma step_weight: "seg_weight (path_step rooted out seg) \<le> seg_weight out + Suc (length seg)"
  by (auto simp: path_step_def split: list.splits)

lemma fold_weight: "seg_weight (foldl (path_step rooted) out segs) \<le> seg_weight out + seg_weight segs"
proof (induction segs arbitrary: out)
  case (Cons seg segs)
  then show ?case using step_weight [of rooted out seg] by (simp add: order_trans [OF Cons.IH])
qed simp

lemma Split_weight: "seg_weight (Split s b) = Suc (length s)"
  by (induction s) (auto split: list.splits)

lemma Join_weight: "segs \<noteq> [] \<Longrightarrow> Suc (length (Join segs ''/'')) = seg_weight segs"
proof (induction segs)
  case (Cons seg segs)
  then show ?case by (cases segs) (simp_all add: Join_Cons)
qed simp

text \<open>A cleaned path of a directory, written with its final separator, is shorter.\<close>

lemma Clean_shorter:
  assumes "s = t @ ''/''" "Clean s \<noteq> ''.''" "s \<noteq> ''/''"
  shows "length (Clean s) < length s"
proof -
  define out where "out = foldl (path_step (HasPrefix s ''/'')) [] (Split s (CHR ''/''))"
  have sp: "Split s (CHR ''/'') = Split t (CHR ''/'') @ ['''']" using assms(1) Split_trailing [of t "CHR ''/''"] by simp
  have out: "out = foldl (path_step (HasPrefix s ''/'')) [] (Split t (CHR ''/''))" unfolding out_def sp by (simp add: path_step_def)
  show ?thesis
  proof (cases "HasPrefix s ''/''")
    case True
    then obtain u where u: "t = CHR ''/'' # u" using assms(1,3) by (cases t) auto
    have "out = foldl (path_step True) [] (Split u (CHR ''/''))" unfolding out using True u by (simp add: path_step_def)
    then have w: "seg_weight out \<le> Suc (length u)" using fold_weight [of True "[]" "Split u (CHR ''/'')"] by (simp add: Split_weight)
    have "length (Clean s) = Suc (length (Join (rev out) ''/''))" using True by (simp add: Clean_def Let_def out_def)
    also have "\<dots> \<le> Suc (length u)" using w Join_weight [of "rev out"] by (cases "out = []") simp_all
    finally show ?thesis using assms(1) u by simp
  next
    case False
    have w: "seg_weight out \<le> Suc (length t)" using fold_weight [of "HasPrefix s ''/''" "[]" "Split t (CHR ''/'')"] unfolding out by (simp add: Split_weight)
    have "Join (rev out) ''/'' \<noteq> ''''" "Clean s = Join (rev out) ''/''" using False assms(2) by (auto simp: Clean_def Let_def out_def split: if_splits)
    then show ?thesis using w Join_weight [of "rev out"] assms(1) by (cases "out = []") simp_all
  qed
qed

lemma LastIndex_Some: "LastIndex s b = Some i \<Longrightarrow> i < length s \<and> s ! i = b"
  by (induction s arbitrary: i) (auto split: option.splits if_splits)

definition path_measure :: "string \<Rightarrow> nat" where "path_measure name = (if name = ''.'' then 0 else Suc (length name))"

lemma Dir_smaller:
  assumes "filepath_Dir name \<noteq> name"
  shows "path_measure (filepath_Dir name) < path_measure name"
proof (cases "LastIndex name (CHR ''/'')")
  case None
  then show ?thesis using assms by (auto simp: filepath_Dir_def path_measure_def)
next
  case (Some i)
  then have i: "i < length name" "name ! i = CHR ''/''" using LastIndex_Some by blast+
  define s where "s = take (Suc i) name"
  have s: "s = take i name @ ''/''" using i by (simp add: s_def take_Suc_conv_app_nth)
  have d: "filepath_Dir name = Clean s" using Some by (simp add: filepath_Dir_def s_def)
  have n: "name \<noteq> ''.''" using i by auto
  have le: "length s \<le> length name" using i by (simp add: s_def)
  show ?thesis
  proof (cases "s = ''/''")
    case True
    have "Clean ''/'' = ''/''" by code_simp
    then show ?thesis using assms d n le True by (cases name) (auto simp: path_measure_def s_def)
  next
    case False
    then show ?thesis using Clean_shorter [OF s] d n le by (cases "Clean s = ''.''") (auto simp: path_measure_def)
  qed
qed

function resolvedLocalPath :: "disk_io \<Rightarrow> string \<Rightarrow> local_error + string" where
  "resolvedLocalPath io name =
     (case di_eval io name of
        Resolved real \<Rightarrow> Inr real
      | EvalFailed \<Rightarrow> Inl LE_IO
      | NotExist \<Rightarrow>
          if filepath_Dir name = name then Inl LE_NotExist
          else (case resolvedLocalPath io (filepath_Dir name) of
                  Inl e \<Rightarrow> Inl e
                | Inr parent \<Rightarrow> Inr (filepath_Join [parent, filepath_Base name])))"
  by auto
termination
  by (relation "measure (path_measure \<circ> snd)") (auto intro: Dir_smaller)

subsection \<open>The checks\<close>

definition validateLocalBinding :: "('b, 's, 'tr, 'rc) local_lib \<Rightarrow> 'c rhiza_config \<Rightarrow> 'b \<Rightarrow> bool" where
  "validateLocalBinding A c b \<longleftrightarrow> \<not> (length (ll_members A b) \<noteq> 1 \<or> ll_members A b ! 0 \<noteq> rz_NodeID c)"

definition readLocalArchive ::
    "('b, 's, 'tr, 'rc) local_lib \<Rightarrow> 'c rhiza_config \<Rightarrow> ('b, 's, 'tr, 'rc) local_outside \<Rightarrow> local_error + ('b, 's) localArchiveView" where
  "readLocalArchive A c mo =
     (case lo_archive mo (localNamespace c) of
        None \<Rightarrow> Inl LE_Archive
      | Some a \<Rightarrow>
          if \<not> validateLocalBinding A c (la_Binding a) then Inl LE_Binding
          else if ll_location A (la_Binding a) \<noteq> '''' then Inl LE_Location
          else if la_Resolved a \<noteq> Some True then Inl LE_Maintenance
          else case la_PrefixHash a of
            None \<Rightarrow> Inl LE_Checkpoint
          | Some hash \<Rightarrow>
              if la_Snapshot a = None then Inl LE_Checkpoint
              else Inr \<lparr>lv_Binding = la_Binding a, lv_Tip = la_Tip a, lv_PrefixHash = hash, lv_Snapshot = la_Snapshot a\<rparr>)"

definition localPreflightScope :: "env_vars \<Rightarrow> local_error + string" where
  "localPreflightScope E =
     (let scope = E ''TERNAL_LOCAL_PREFLIGHT_SCOPE'' in
      if scope = '''' \<or> length scope > 256 \<or> TrimSpace scope \<noteq> scope \<or> ContainsAny scope [CHR 0x00, CHR 0x0D, CHR 0x0A, CHR 0x09] then Inl LE_Scope else Inr scope)"

definition archive_root :: "'c rhiza_config \<Rightarrow> string" where
  "archive_root c = filepath_Join [rz_ObjStorePrefix c, rz_ClusterID c] @ ''/''"

definition local_key :: "'c rhiza_config \<Rightarrow> string \<Rightarrow> bool" where
  "local_key c key \<longleftrightarrow> HasPrefix key (filepath_Join [archive_root c, ''local/v1''] @ ''/'')"

text \<open>The callback stops the listing at the first key of the other mode.\<close>

definition checkArchiveMode :: "'c rhiza_config \<Rightarrow> ('b, 's, 'tr, 'rc) local_outside \<Rightarrow> local_error option" where
  "checkArchiveMode c mo =
     (case lo_iter mo (archive_root c) of (keys, ended) \<Rightarrow>
        if list_ex (\<lambda>key. local_key c key \<noteq> rz_Local c) keys then Some LE_ArchiveMode else if ended then None else Some LE_IO)"

text \<open>The anchor's name, namespace and binding; \<open>namespace_file\<close> is the file of the service account.\<close>

definition localTrustBeforeOpen ::
    "('b, 's, 'tr, 'rc) local_lib \<Rightarrow> 'm data_lib \<Rightarrow> string option \<Rightarrow> env_vars \<Rightarrow> ('b, 's, 'tr, 'rc) local_outside \<Rightarrow> local_error + string \<times> string" where
  "localTrustBeforeOpen A L namespace_file E mo =
     (case trustAnchorFromEnv L namespace_file E of
        Inl e \<Rightarrow> Inl (LE_Config e)
      | Inr None \<Rightarrow> Inl LE_NoAnchor
      | Inr (Some (name, namespace, b)) \<Rightarrow>
          (case lo_anchor mo name namespace of
             None \<Rightarrow> Inl LE_Anchor
           | Some r \<Rightarrow>
               if \<not> validate (ll_ops A) b r then Inl LE_AnchorInvalid
               else if ta_PendingEpoch r \<noteq> None then Inl LE_Pending
               else Inr (name, namespace)))"

definition localPreflightPaths :: "disk_io \<Rightarrow> env_vars \<Rightarrow> string \<Rightarrow> disk \<Rightarrow> local_error + string \<times> string" where
  "localPreflightPaths io E dataDir d =
     (let stage = E ''TERNAL_LOCAL_PREFLIGHT_STAGING_DIR''; receipt = E ''TERNAL_LOCAL_PREFLIGHT_RECEIPT_FILE'' in
      case di_abs io dataDir of
        None \<Rightarrow> Inl LE_IO
      | Some data \<Rightarrow>
          if \<not> filepath_IsAbs stage \<or> \<not> filepath_IsAbs receipt \<or> Clean stage \<noteq> stage \<or> Clean receipt \<noteq> receipt \<or> stage = ''/'' then Inl LE_Paths
          else if filepath_Dir receipt \<noteq> stage \<or> inside stage data \<or> inside data stage then Inl LE_Overlap
          else if \<not> di_lstat io stage \<or> map_of d stage = None then Inl LE_IO
          else if map_of d stage \<noteq> Some Directory then Inl LE_Staging
          else case di_eval io stage of
            Resolved realStage \<Rightarrow>
              (case resolvedLocalPath io data of
                 Inl e \<Rightarrow> Inl e
               | Inr realData \<Rightarrow> if inside realStage realData \<or> inside realData realStage then Inl LE_Overlap else Inr (stage, receipt))
          | _ \<Rightarrow> Inl LE_IO)"

definition checkLocalDataDir ::
    "('b, 's, 'tr, 'rc) local_lib \<Rightarrow> 'm data_lib \<Rightarrow> disk_io \<Rightarrow> 'c rhiza_config \<Rightarrow> disk \<Rightarrow> local_error + 'b localDataMode option" where
  "checkLocalDataDir A L io c d =
     (let name = filepath_Join [rz_DataDir c, localModeMarker] in
      if \<not> rz_Local c then
        (if \<not> di_lstat io name then Inl LE_IO else if map_of d name \<noteq> None then Inl LE_Legacy else Inr None)
      else if \<not> di_lstat io (rz_DataDir c) then Inl LE_IO
      else case map_of d (rz_DataDir c) of
        None \<Rightarrow> Inr None
      | Some e \<Rightarrow>
          if e \<noteq> Directory then Inl LE_DataDir
          else (case readLocalJSON (ll_read_mode A) io name d of
                  Inr marker \<Rightarrow>
                    if lm_Version marker \<noteq> 1 \<or> lm_Mode marker \<noteq> ''local'' \<or> lm_StorageID marker \<noteq> localStorageID L c then Inl LE_Marker else Inr (Some marker)
                | Inl err \<Rightarrow>
                    if err \<noteq> LE_NotExist then Inl err
                    else if \<not> di_readdir io then Inl LE_IO
                    else if list_ex (\<lambda>(p, e). HasPrefix p (rz_DataDir c @ ''/'')) d then Inl LE_NonEmpty
                    else Inr None))"

definition validateLocalReceipt :: "'m data_lib \<Rightarrow> 'c rhiza_config \<Rightarrow> ('b, 's) localPreflightReceipt \<Rightarrow> ('b, 's) localArchiveView \<Rightarrow> bool" where
  "validateLocalReceipt L c receipt current \<longleftrightarrow>
     \<not> (lr_Version receipt \<noteq> 1 \<or> lr_StorageID receipt \<noteq> localStorageID L c \<or> lr_NodeID receipt \<noteq> rz_NodeID c \<or>
        lv_Binding (lr_View receipt) \<noteq> lv_Binding current \<or> lv_Snapshot (lr_View receipt) = None)"

definition validateLocalReceiptScope :: "env_vars \<Rightarrow> ('b, 's) localPreflightReceipt \<Rightarrow> (string \<times> string) option \<Rightarrow> local_error option" where
  "validateLocalReceiptScope E receipt anchor =
     (case localPreflightScope E of
        Inl e \<Rightarrow> Some e
      | Inr scope \<Rightarrow>
          (case anchor of
             None \<Rightarrow> Some LE_ReceiptScope
           | Some (name, namespace) \<Rightarrow>
               if lr_Scope receipt \<noteq> scope \<or> lr_AnchorName receipt \<noteq> name \<or> lr_AnchorNamespace receipt \<noteq> namespace then Some LE_ReceiptScope else None))"

definition legacyLocalAuthorityGuard ::
    "'m data_lib \<Rightarrow> string option \<Rightarrow> env_vars \<Rightarrow> 'c rhiza_config \<Rightarrow> ('b, 's, 'tr, 'rc) local_outside \<Rightarrow> local_error option" where
  "legacyLocalAuthorityGuard L namespace_file E c mo =
     (if \<not> requireTrustAnchor E \<and> E ''TERNAL_TRUST_ANCHOR_CONFIGMAP'' = '''' then None
      else case trustAnchorFromEnv L namespace_file E of
        Inl e \<Rightarrow> Some (LE_Config e)
      | Inr None \<Rightarrow> Some LE_NoAnchor
      | Inr (Some (name, namespace, b)) \<Rightarrow>
          (case lo_anchor mo name namespace of
             None \<Rightarrow> Some LE_Anchor
           | Some r \<Rightarrow> if ta_StorageID r = localStorageID L c then Some LE_LegacyAuthority else None))"

subsection \<open>The init run\<close>

definition downloadLocalRoot ::
    "disk_io \<Rightarrow> ('b, 's, 'tr, 'rc) local_outside \<Rightarrow> string \<Rightarrow> 's option \<Rightarrow> string \<Rightarrow> disk \<Rightarrow> local_error option \<times> disk" where
  "downloadLocalRoot io mo namespace snapshot work d =
     (case snapshot of
        None \<Rightarrow> (Some LE_Checkpoint, d)
      | Some s \<Rightarrow>
          if \<not> di_files io then (Some LE_IO, d)
          else let files = filepath_Join [work, ''files'']; d1 = disk_put files Directory d in
            (case lo_download mo namespace s of (names, verified) \<Rightarrow>
               (if verified then None else Some LE_Download, fold (\<lambda>name. disk_put (files @ ''/'' @ name) (Regular '''')) names d1)))"

definition join_error :: "local_error option \<Rightarrow> bool \<Rightarrow> local_error option" where
  "join_error e done = (if e = None \<and> \<not> done then Some LE_IO else e)"

text \<open>In the working directory, which is removed on every return.\<close>

definition preflight_work ::
    "('b, 's, 'tr, 'rc) local_lib \<Rightarrow> 'm data_lib \<Rightarrow> string option \<Rightarrow> env_vars \<Rightarrow> disk_io \<Rightarrow> (nat \<Rightarrow> ('b, 's, 'tr, 'rc) local_outside) \<Rightarrow> 'c rhiza_config \<Rightarrow>
     string \<Rightarrow> ('b, 's) localPreflightReceipt \<Rightarrow> string \<Rightarrow> disk \<Rightarrow> local_error option \<times> disk" where
  "preflight_work A L namespace_file E io out c receiptPath receipt work d =
     (case downloadLocalRoot io (out 4) (localNamespace c) (lv_Snapshot (lr_View receipt)) work d of
        (Some e, d1) \<Rightarrow> (Some e, d1)
      | (None, d1) \<Rightarrow>
          (case readLocalArchive A c (out 5) of
             Inl e \<Rightarrow> (Some e, d1)
           | Inr after \<Rightarrow>
               if lr_View receipt \<noteq> after then (Some LE_Changed, d1)
               else case localTrustBeforeOpen A L namespace_file E (out 6) of
                 Inl e \<Rightarrow> (Some e, d1)
               | Inr _ \<Rightarrow> writeLocalJSON (ll_receipt A) io receiptPath receipt d1))"

definition preflight_bucket ::
    "('b, 's, 'tr, 'rc) local_lib \<Rightarrow> 'm data_lib \<Rightarrow> string option \<Rightarrow> env_vars \<Rightarrow> disk_io \<Rightarrow> (nat \<Rightarrow> ('b, 's, 'tr, 'rc) local_outside) \<Rightarrow> 'c rhiza_config \<Rightarrow>
     string \<Rightarrow> string \<Rightarrow> string \<times> string \<Rightarrow> disk \<Rightarrow> local_error option \<times> disk" where
  "preflight_bucket A L namespace_file E io out c receiptPath scope anchor d =
     (case checkArchiveMode c (out 2) of
        Some e \<Rightarrow> (Some e, d)
      | None \<Rightarrow>
          (case readLocalArchive A c (out 3) of
             Inl e \<Rightarrow> (Some e, d)
           | Inr before \<Rightarrow>
               (case di_work io of
                  None \<Rightarrow> (Some LE_IO, d)
                | Some work \<Rightarrow>
                    (case preflight_work A L namespace_file E io out c receiptPath
                            \<lparr>lr_Version = 1, lr_StorageID = localStorageID L c, lr_NodeID = rz_NodeID c, lr_Scope = scope, lr_AnchorName = fst anchor,
                             lr_AnchorNamespace = snd anchor, lr_View = before\<rparr> work (disk_put work Directory d) of
                       (e, d1) \<Rightarrow> (join_error e (di_removeall io), if di_removeall io then filter (\<lambda>x. \<not> inside (fst x) work) d1 else d1)))))"

definition LocalPreflightFromEnv ::
    "('b, 's, 'tr, 'rc) local_lib \<Rightarrow> 'm data_lib \<Rightarrow> string \<Rightarrow> string option \<Rightarrow> env_vars \<Rightarrow> disk_io \<Rightarrow> (nat \<Rightarrow> ('b, 's, 'tr, 'rc) local_outside) \<Rightarrow> disk \<Rightarrow>
     local_error option \<times> disk" where
  "LocalPreflightFromEnv A L async namespace_file E io out d =
     (case rhizaConfigFromEnv L async E (data_envOr E ''TERNAL_DATA_DIR'' ''ternal-data'') of
        Inl e \<Rightarrow> (Some (LE_Config e), d)
      | Inr c \<Rightarrow>
          if \<not> rz_Local c then (Some LE_NotLocal, d)
          else case localPreflightPaths io E (rz_DataDir c) d of
            Inl e \<Rightarrow> (Some e, d)
          | Inr (stage, receiptPath) \<Rightarrow>
              (case localPreflightScope E of
                 Inl e \<Rightarrow> (Some e, d)
               | Inr scope \<Rightarrow>
                   (case localTrustBeforeOpen A L namespace_file E (out 0) of
                      Inl e \<Rightarrow> (Some e, d)
                    | Inr anchor \<Rightarrow>
                        if \<not> lo_bucket (out 1) (recoveryStorageFromEnv L E) then (Some LE_Bucket, d)
                        else (case preflight_bucket A L namespace_file E io out c receiptPath scope anchor d of
                                (e, d1) \<Rightarrow> (join_error e (lo_close (out 7)), d1)))))"

subsection \<open>Every start\<close>

text \<open>With the bucket open, in local mode.\<close>

definition prepare_local ::
    "('b, 's, 'tr, 'rc) local_lib \<Rightarrow> 'm data_lib \<Rightarrow> string option \<Rightarrow> env_vars \<Rightarrow> disk_io \<Rightarrow> (nat \<Rightarrow> ('b, 's, 'tr, 'rc) local_outside) \<Rightarrow> 'c rhiza_config \<Rightarrow>
     'b localDataMode option \<Rightarrow> (string \<times> string) option \<Rightarrow> disk \<Rightarrow> local_error option \<times> disk" where
  "prepare_local A L namespace_file E io out c marker anchor d =
     (case localPreflightPaths io E (rz_DataDir c) d of
        Inl e \<Rightarrow> (Some e, d)
      | Inr (stage, receiptPath) \<Rightarrow>
          (case readLocalJSON (ll_read_receipt A) io receiptPath d of
             Inl e \<Rightarrow> (Some e, d)
           | Inr receipt \<Rightarrow>
               (case readLocalArchive A c (out 3) of
                  Inl e \<Rightarrow> (Some e, d)
                | Inr current \<Rightarrow>
                    if \<not> validateLocalReceipt L c receipt current then (Some LE_Receipt, d)
                    else case validateLocalReceiptScope E receipt anchor of
                      Some e \<Rightarrow> (Some e, d)
                    | None \<Rightarrow>
                        if (case marker of None \<Rightarrow> False | Some m \<Rightarrow> lm_Binding m \<noteq> lv_Binding current) then (Some LE_BindingDiffers, d)
                        else case localTrustBeforeOpen A L namespace_file E (out 4) of
                          Inl e \<Rightarrow> (Some e, d)
                        | Inr _ \<Rightarrow>
                            if marker \<noteq> None then (None, d)
                            else if \<not> di_mkdir io then (Some LE_IO, d)
                            else writeLocalJSON (ll_mode A) io (filepath_Join [rz_DataDir c, localModeMarker])
                                   \<lparr>lm_Version = 1, lm_Mode = ''local'', lm_StorageID = localStorageID L c, lm_Binding = lv_Binding current\<rparr>
                                   (disk_put (rz_DataDir c) Directory d))))"

definition remote_provider :: "string \<Rightarrow> bool" where
  "remote_provider provider \<longleftrightarrow> \<not> (provider \<noteq> ''s3'' \<and> provider \<noteq> ''gcs'' \<and> provider \<noteq> ''azure'')"

definition prepareLocalOpen ::
    "('b, 's, 'tr, 'rc) local_lib \<Rightarrow> 'm data_lib \<Rightarrow> string option \<Rightarrow> env_vars \<Rightarrow> disk_io \<Rightarrow> (nat \<Rightarrow> ('b, 's, 'tr, 'rc) local_outside) \<Rightarrow> 'c rhiza_config \<Rightarrow> disk \<Rightarrow>
     local_error option \<times> disk" where
  "prepareLocalOpen A L namespace_file E io out c d =
     (case checkLocalDataDir A L io c d of
        Inl e \<Rightarrow> (Some e, d)
      | Inr marker \<Rightarrow>
          (case (if rz_Local c then (case localTrustBeforeOpen A L namespace_file E (out 0) of Inl e \<Rightarrow> Inl e | Inr a \<Rightarrow> Inr (Some a))
                 else (case legacyLocalAuthorityGuard L namespace_file E c (out 0) of Some e \<Rightarrow> Inl e | None \<Rightarrow> Inr None)) of
             Inl e \<Rightarrow> (Some e, d)
           | Inr anchor \<Rightarrow>
               if \<not> rz_Local c \<and> \<not> remote_provider (rz_ObjStoreProvider c) then (None, d)
               else if \<not> lo_bucket (out 1) (recoveryStorageFromEnv L E) then (Some LE_Bucket, d)
               else (case (case checkArchiveMode c (out 2) of
                             Some e \<Rightarrow> (Some e, d)
                           | None \<Rightarrow> if \<not> rz_Local c then (None, d) else prepare_local A L namespace_file E io out c marker anchor d) of
                       (e, d1) \<Rightarrow> (join_error e (lo_close (out 5)), d1))))"

text \<open>\<open>opens\<close> says whether the database could be opened, and closed again.\<close>

definition LocalRestoreFromEnv ::
    "('b, 's, 'tr, 'rc) local_lib \<Rightarrow> 'm data_lib \<Rightarrow> string \<Rightarrow> string option \<Rightarrow> env_vars \<Rightarrow> disk_io \<Rightarrow> disk_io \<Rightarrow> (nat \<Rightarrow> ('b, 's, 'tr, 'rc) local_outside) \<Rightarrow>
     (nat \<Rightarrow> ('b, 's, 'tr, 'rc) local_outside) \<Rightarrow> ((string \<times> string \<times> 'm) rhiza_config \<Rightarrow> bool) \<Rightarrow> disk \<Rightarrow> local_error option \<times> disk" where
  "LocalRestoreFromEnv A L async namespace_file E io io' out out' opens d =
     (case LocalPreflightFromEnv A L async namespace_file E io out d of
        (Some e, d1) \<Rightarrow> (Some e, d1)
      | (None, d1) \<Rightarrow>
          (case rhizaConfigFromEnv L async E (data_envOr E ''TERNAL_DATA_DIR'' ''ternal-data'') of
             Inl e \<Rightarrow> (Some (LE_Config e), d1)
           | Inr c \<Rightarrow>
               (case prepareLocalOpen A L namespace_file E io' out' c d1 of
                  (Some e, d2) \<Rightarrow> (Some e, d2)
                | (None, d2) \<Rightarrow> (if opens c then None else Some LE_Open, d2))))"

text \<open>The first part of \<^verbatim>\<open>Open\<close>, before the database is opened; \<open>version\<close> is the schema version in decimal.\<close>

definition open_prepare ::
    "('b, 's, 'tr, 'rc) local_lib \<Rightarrow> 'm data_lib \<Rightarrow> string \<Rightarrow> string option \<Rightarrow> string \<Rightarrow> env_vars \<Rightarrow> disk_io \<Rightarrow> bool \<Rightarrow> (nat \<Rightarrow> ('b, 's, 'tr, 'rc) local_outside) \<Rightarrow>
     string \<Rightarrow> disk \<Rightarrow> (local_error + (string \<times> string \<times> 'm) rhiza_config) \<times> disk" where
  "open_prepare A L async namespace_file version E io mkdir out dataDir d =
     (if E ''TERNAL_DATA_SCHEMA_VERSION'' \<noteq> '''' \<and> E ''TERNAL_DATA_SCHEMA_VERSION'' \<noteq> version then (Inl LE_Schema, d)
      else case rhizaConfigFromEnv L async E dataDir of
        Inl e \<Rightarrow> (Inl (LE_Config e), d)
      | Inr c \<Rightarrow>
          (case prepareLocalOpen A L namespace_file E io out c d of
             (Some e, d1) \<Rightarrow> (Inl e, d1)
           | (None, d1) \<Rightarrow> if \<not> mkdir then (Inl LE_IO, d1) else (Inr c, if map_of d1 dataDir = None then disk_put dataDir Directory d1 else d1)))"

end
