(* ===== verification/Local_Properties.thy ===== *)
theory Local_Properties
  imports Local_Preflight
begin

section \<open>One mode for a data directory, one receipt for a start\<close>

subsection \<open>Disks\<close>

lemma map_of_filter_fst: "map_of (filter (\<lambda>x. P (fst x)) d) p = (if P p then map_of d p else None)"
  by (induction d) auto

lemma disk_lookup [simp]:
  "map_of (disk_put p e d) q = (if q = p then Some e else map_of d q)"
  "map_of (disk_remove p d) q = (if q = p then None else map_of d q)"
  unfolding disk_put_def disk_remove_def by (auto simp: map_of_filter_fst [of "\<lambda>x. x \<noteq> p"])

lemma read_local_Inr:
  "readLocalJSON decode io name d = Inr v \<longleftrightarrow>
     (\<exists>s. map_of d name = Some (Regular s) \<and> decode s = Some v \<and> length s \<le> maxLocalReceipt \<and> di_lstat io name \<and> di_read io name)"
  by (auto simp: readLocalJSON_def split: option.splits local_entry.splits)

lemma write_None:
  assumes "writeLocalJSON marshal io name v d = (None, d')"
  shows "\<exists>s t. marshal v = Some s \<and> length s \<le> maxLocalReceipt \<and> di_temp io = Some t \<and> d' = disk_put name (Regular s) (disk_remove t d)"
  using assms by (auto simp: writeLocalJSON_def split: option.splits if_splits)

subsection \<open>A start\<close>

lemma join_None: "join_error e ok = None \<longleftrightarrow> e = None \<and> ok"
  by (auto simp: join_error_def)

lemma trust_ok:
  assumes "localTrustBeforeOpen A L nf E mo = Inr (name, namespace)"
  shows "\<exists>b r. trustAnchorFromEnv L nf E = Inr (Some (name, namespace, b)) \<and> lo_anchor mo name namespace = Some r \<and> validate (ll_ops A) b r \<and> ta_PendingEpoch r = None"
  using assms by (auto simp: localTrustBeforeOpen_def split: sum.splits option.splits if_splits)

lemma anchor_binding: "trustAnchorFromEnv L nf E = Inr (Some (name, namespace, b)) \<Longrightarrow> b = storageBindingFromEnv L E"
  by (auto simp: trustAnchorFromEnv_def Let_def split: if_splits option.splits sum.splits)

lemma archive_ok: "readLocalArchive A c mo = Inr view \<Longrightarrow> ll_members A (lv_Binding view) = [rz_NodeID c] \<and> lv_Snapshot view \<noteq> None"
  by (auto simp: readLocalArchive_def validateLocalBinding_def length_Suc_conv split: option.splits if_splits)

lemma mode_ok: "checkArchiveMode c mo = None \<Longrightarrow> key \<in> set (fst (lo_iter mo (archive_root c))) \<Longrightarrow> local_key c key = rz_Local c"
  by (auto simp: checkArchiveMode_def list_ex_iff split: prod.splits if_splits)

lemma dir_local:
  assumes "checkLocalDataDir A L io c d = Inr marker" "rz_Local c"
  shows "(case marker of
       None \<Rightarrow> \<not> (map_of d (rz_DataDir c) = Some Directory \<and> list_ex (\<lambda>(p, e). HasPrefix p (rz_DataDir c @ ''/'')) d)
     | Some m \<Rightarrow> lm_StorageID m = localStorageID L c \<and> (\<exists>s. map_of d (filepath_Join [rz_DataDir c, localModeMarker]) = Some (Regular s) \<and> ll_read_mode A s = Some m))"
proof -
  consider "map_of d (rz_DataDir c) = None" "marker = None"
    | m where "readLocalJSON (ll_read_mode A) io (filepath_Join [rz_DataDir c, localModeMarker]) d = Inr m" "marker = Some m" "lm_StorageID m = localStorageID L c"
    | "\<not> list_ex (\<lambda>(p, e). HasPrefix p (rz_DataDir c @ ''/'')) d" "marker = None"
    using assms by (auto simp: checkLocalDataDir_def Let_def split: if_splits option.splits sum.splits)
  then show ?thesis by cases (auto simp: read_local_Inr)
qed

lemma dir_legacy: "checkLocalDataDir A L io c d = Inr marker \<Longrightarrow> \<not> rz_Local c \<Longrightarrow> map_of d (filepath_Join [rz_DataDir c, localModeMarker]) = None"
  by (auto simp: checkLocalDataDir_def Let_def split: if_splits)

lemma paths_ok:
  assumes "localPreflightPaths io E dataDir d = Inr (stage, path)"
  shows "path = E ''TERNAL_LOCAL_PREFLIGHT_RECEIPT_FILE'' \<and> filepath_Dir path = stage \<and> Clean path = path \<and> stage \<noteq> ''/'' \<and> filepath_IsAbs path \<and>
    (\<exists>data. di_abs io dataDir = Some data \<and> \<not> inside stage data \<and> \<not> inside data stage)"
  using assms by (auto simp: localPreflightPaths_def Let_def split: option.splits if_splits sum.splits resolution.splits)

lemma prepare_local_None:
  assumes "prepare_local A L nf E io out c marker anchor d = (None, d')"
  obtains receipt current name namespace where
    "readLocalJSON (ll_read_receipt A) io (E ''TERNAL_LOCAL_PREFLIGHT_RECEIPT_FILE'') d = Inr receipt" "readLocalArchive A c (out 3) = Inr current"
    "validateLocalReceipt L c receipt current" "validateLocalReceiptScope E receipt anchor = None"
    "localTrustBeforeOpen A L nf E (out 4) = Inr (name, namespace)"
    "case marker of
       None \<Rightarrow> writeLocalJSON (ll_mode A) io (filepath_Join [rz_DataDir c, localModeMarker])
                 \<lparr>lm_Version = 1, lm_Mode = ''local'', lm_StorageID = localStorageID L c, lm_Binding = lv_Binding current\<rparr> (disk_put (rz_DataDir c) Directory d) = (None, d')
     | Some m \<Rightarrow> d' = d \<and> lm_Binding m = lv_Binding current"
proof -
  obtain stage path where p [simp]: "localPreflightPaths io E (rz_DataDir c) d = Inr (stage, path)"
    using assms by (cases "localPreflightPaths io E (rz_DataDir c) d") (auto simp: prepare_local_def)
  have path [simp]: "path = E ''TERNAL_LOCAL_PREFLIGHT_RECEIPT_FILE''" using paths_ok [OF p] by simp
  obtain receipt where q [simp]: "readLocalJSON (ll_read_receipt A) io (E ''TERNAL_LOCAL_PREFLIGHT_RECEIPT_FILE'') d = Inr receipt"
    using assms by (cases "readLocalJSON (ll_read_receipt A) io (E ''TERNAL_LOCAL_PREFLIGHT_RECEIPT_FILE'') d") (auto simp: prepare_local_def)
  obtain current where u [simp]: "readLocalArchive A c (out 3) = Inr current"
    using assms by (cases "readLocalArchive A c (out 3)") (auto simp: prepare_local_def)
  have v [simp]: "validateLocalReceipt L c receipt current" "validateLocalReceiptScope E receipt anchor = None"
    using assms by (auto simp: prepare_local_def split: if_splits option.splits)
  have m: "\<not> (case marker of None \<Rightarrow> False | Some m \<Rightarrow> lm_Binding m \<noteq> lv_Binding current)"
    using assms by (simp add: prepare_local_def split: if_splits)
  obtain a where t [simp]: "localTrustBeforeOpen A L nf E (out 4) = Inr a"
    using assms m by (cases "localTrustBeforeOpen A L nf E (out 4)") (auto simp: prepare_local_def split: if_splits)
  show ?thesis using assms t m by (intro that [OF q u v, of "fst a" "snd a"]) (auto simp: prepare_local_def split: if_splits option.splits)
qed

text \<open>The local branch and the legacy branch of a start.\<close>

lemma prepare_None:
  assumes "prepareLocalOpen A L nf E io out c d = (None, d')"
  shows "if rz_Local c then
      (\<exists>marker anchor. checkLocalDataDir A L io c d = Inr marker \<and> localTrustBeforeOpen A L nf E (out 0) = Inr anchor \<and> checkArchiveMode c (out 2) = None \<and>
         prepare_local A L nf E io out c marker (Some anchor) d = (None, d'))
    else (\<exists>marker. checkLocalDataDir A L io c d = Inr marker) \<and> legacyLocalAuthorityGuard L nf E c (out 0) = None \<and> d' = d \<and>
      (remote_provider (rz_ObjStoreProvider c) \<longrightarrow> checkArchiveMode c (out 2) = None)"
  using assms by (auto simp: prepareLocalOpen_def join_None split: sum.splits prod.splits option.splits if_splits)

lemma prepare_dir:
  assumes "checkLocalDataDir A L io c d = Inl e"
  shows "fst (prepareLocalOpen A L nf E io out c d) \<noteq> None"
  using assms by (simp add: prepareLocalOpen_def)

lemma legacy_refused:
  assumes "\<not> rz_Local c" "map_of d (filepath_Join [rz_DataDir c, localModeMarker]) \<noteq> None"
  shows "fst (prepareLocalOpen A L nf E io out c d) \<noteq> None"
proof -
  obtain e where "checkLocalDataDir A L io c d = Inl e" using assms by (cases "di_lstat io (filepath_Join [rz_DataDir c, localModeMarker])") (auto simp: checkLocalDataDir_def Let_def)
  then show ?thesis by (rule prepare_dir)
qed

lemma local_refused:
  assumes "rz_Local c" "map_of d (rz_DataDir c) = Some Directory" "list_ex (\<lambda>(p, e). HasPrefix p (rz_DataDir c @ ''/'')) d"
    and "map_of d (filepath_Join [rz_DataDir c, localModeMarker]) = None"
  shows "fst (prepareLocalOpen A L nf E io out c d) \<noteq> None"
proof (cases "checkLocalDataDir A L io c d")
  case (Inl e)
  then show ?thesis by (rule prepare_dir)
next
  case (Inr marker)
  then show ?thesis using dir_local [OF Inr assms(1)] assms(2-4) by (simp split: option.splits)
qed

lemma anchor_local:
  assumes "url_ok (dl_url L)" "rhizaConfigFromEnv L async E dataDir = Inr c" "rz_Local c" "localTrustBeforeOpen A L nf E mo = Inr (name, namespace)"
  shows "\<exists>r. lo_anchor mo name namespace = Some r \<and> ta_StorageID r = localStorageID L c \<and> ta_PendingEpoch r = None \<and> ta_Transition r = None"
proof -
  obtain b r where r: "trustAnchorFromEnv L nf E = Inr (Some (name, namespace, b))" "lo_anchor mo name namespace = Some r" "validate (ll_ops A) b r" "ta_PendingEpoch r = None"
    using trust_ok [OF assms(4)] by blast
  note e = config_local [OF assms(2,3)]
  have "bi_StorageID b = localStorageID L c" using anchor_binding [OF r(1)] local_identity [OF assms(1) conjunct2 [OF e] conjunct1 [OF e]] by simp
  then show ?thesis using r by (auto simp: validate_def)
qed

lemma one_anchor: "localTrustBeforeOpen A L nf E mo = Inr a \<Longrightarrow> localTrustBeforeOpen A L nf E mo' = Inr a' \<Longrightarrow> a = a'"
  by (auto simp: localTrustBeforeOpen_def split: sum.splits option.splits if_splits)

lemma marker_stays:
  assumes "\<And>m s. ll_mode A m = Some s \<Longrightarrow> ll_read_mode A s = Some m" "checkLocalDataDir A L io c d = Inr marker" "rz_Local c"
    and "case marker of
       None \<Rightarrow> writeLocalJSON (ll_mode A) io (filepath_Join [rz_DataDir c, localModeMarker])
                 \<lparr>lm_Version = 1, lm_Mode = ''local'', lm_StorageID = localStorageID L c, lm_Binding = b\<rparr> (disk_put (rz_DataDir c) Directory d) = (None, d')
     | Some m \<Rightarrow> d' = d \<and> lm_Binding m = b"
  shows "\<exists>m s. map_of d' (filepath_Join [rz_DataDir c, localModeMarker]) = Some (Regular s) \<and> ll_read_mode A s = Some m \<and> lm_StorageID m = localStorageID L c \<and> lm_Binding m = b"
proof (cases marker)
  case None
  then show ?thesis using write_None [of "ll_mode A" io "filepath_Join [rz_DataDir c, localModeMarker]" _ _ d'] assms(1,4) by fastforce
next
  case (Some m)
  then show ?thesis using dir_local [OF assms(2,3)] assms(4) by auto
qed

text \<open>What entitles a process to open a local archive: one identity at the anchor, at the receipt and at the marker.\<close>

definition authorized_start ::
    "('b, 's, 'tr, 'rc) local_lib \<Rightarrow> 'm data_lib \<Rightarrow> env_vars \<Rightarrow> (nat \<Rightarrow> ('b, 's, 'tr, 'rc) local_outside) \<Rightarrow> 'c rhiza_config \<Rightarrow> disk \<Rightarrow> disk \<Rightarrow> bool" where
  "authorized_start A L E out c d d' \<longleftrightarrow>
     (\<exists>name namespace current text receipt m s.
         (\<forall>k \<in> {0, 4}. \<exists>r. lo_anchor (out k) name namespace = Some r \<and> ta_StorageID r = localStorageID L c \<and> ta_PendingEpoch r = None \<and> ta_Transition r = None) \<and>
         (\<forall>key \<in> set (fst (lo_iter (out 2) (archive_root c))). local_key c key) \<and>
         readLocalArchive A c (out 3) = Inr current \<and> ll_members A (lv_Binding current) = [rz_NodeID c] \<and>
         map_of d (E ''TERNAL_LOCAL_PREFLIGHT_RECEIPT_FILE'') = Some (Regular text) \<and> ll_read_receipt A text = Some receipt \<and>
         lr_StorageID receipt = localStorageID L c \<and> lr_NodeID receipt = rz_NodeID c \<and> lv_Binding (lr_View receipt) = lv_Binding current \<and>
         localPreflightScope E = Inr (lr_Scope receipt) \<and> lr_AnchorName receipt = name \<and> lr_AnchorNamespace receipt = namespace \<and>
         map_of d' (filepath_Join [rz_DataDir c, localModeMarker]) = Some (Regular s) \<and> ll_read_mode A s = Some m \<and>
         lm_StorageID m = localStorageID L c \<and> lm_Binding m = lv_Binding current)"

lemma local_start_authorized:
  assumes "url_ok (dl_url L)" "\<And>m s. ll_mode A m = Some s \<Longrightarrow> ll_read_mode A s = Some m"
    and "rhizaConfigFromEnv L async E dataDir = Inr c" "rz_Local c" "prepareLocalOpen A L nf E io out c d = (None, d')"
  shows "authorized_start A L E out c d d'"
proof -
  obtain marker anchor where p: "checkLocalDataDir A L io c d = Inr marker" "localTrustBeforeOpen A L nf E (out 0) = Inr anchor" "checkArchiveMode c (out 2) = None"
    "prepare_local A L nf E io out c marker (Some anchor) d = (None, d')" using prepare_None [OF assms(5)] assms(4) by auto
  obtain receipt current name namespace where q: "readLocalJSON (ll_read_receipt A) io (E ''TERNAL_LOCAL_PREFLIGHT_RECEIPT_FILE'') d = Inr receipt" "readLocalArchive A c (out 3) = Inr current"
    "validateLocalReceipt L c receipt current" "validateLocalReceiptScope E receipt (Some anchor) = None" "localTrustBeforeOpen A L nf E (out 4) = Inr (name, namespace)"
    "case marker of
       None \<Rightarrow> writeLocalJSON (ll_mode A) io (filepath_Join [rz_DataDir c, localModeMarker])
                 \<lparr>lm_Version = 1, lm_Mode = ''local'', lm_StorageID = localStorageID L c, lm_Binding = lv_Binding current\<rparr> (disk_put (rz_DataDir c) Directory d) = (None, d')
     | Some m \<Rightarrow> d' = d \<and> lm_Binding m = lv_Binding current"
    using prepare_local_None [OF p(4)] by metis
  have a: "anchor = (name, namespace)" using one_anchor p(2) q(5) by blast
  obtain m s where m: "map_of d' (filepath_Join [rz_DataDir c, localModeMarker]) = Some (Regular s)" "ll_read_mode A s = Some m"
    "lm_StorageID m = localStorageID L c" "lm_Binding m = lv_Binding current" using marker_stays [OF assms(2) p(1) assms(4) q(6)] by blast
  have sc: "localPreflightScope E = Inr (lr_Scope receipt)" "lr_AnchorName receipt = name" "lr_AnchorNamespace receipt = namespace"
    using q(4) a by (auto simp: validateLocalReceiptScope_def split: sum.splits if_splits)
  have "\<forall>k \<in> {0, 4}. \<exists>r. lo_anchor (out k) name namespace = Some r \<and> ta_StorageID r = localStorageID L c \<and> ta_PendingEpoch r = None \<and> ta_Transition r = None"
    using anchor_local [OF assms(1,3,4)] p(2) q(5) a by blast
  moreover have "\<forall>key \<in> set (fst (lo_iter (out 2) (archive_root c))). local_key c key" using mode_ok [OF p(3)] assms(4) by blast
  moreover have "lr_StorageID receipt = localStorageID L c \<and> lr_NodeID receipt = rz_NodeID c \<and> lv_Binding (lr_View receipt) = lv_Binding current"
    using q(3) by (auto simp: validateLocalReceipt_def)
  moreover obtain body where "map_of d (E ''TERNAL_LOCAL_PREFLIGHT_RECEIPT_FILE'') = Some (Regular body)" "ll_read_receipt A body = Some receipt" using q(1) by (auto simp: read_local_Inr)
  ultimately show ?thesis unfolding authorized_start_def using q(2) conjunct1 [OF archive_ok [OF q(2)]] m sc
    by (intro exI [of _ name] exI [of _ namespace] exI [of _ current] exI [of _ body] exI [of _ receipt] exI [of _ m] exI [of _ s] conjI) simp_all
qed

text \<open>C38. A data directory belongs to one mode, and a local start to one authority.  A successful start in
  local mode means: the settled anchor, read at both ends, names the archive of the configuration; the archive
  holds only local objects and is bound to this node; the receipt is for this archive, node, run and
  anchor; and the directory now carries the marker of this archive and binding, so that no start in the
  clustered mode ever opens it.  A successful start in the clustered mode found no marker, no local object
  in a remote store and no local authority, and a local start never opens a directory with its files.  The hypotheses are the
  documented form of URLs and that a marker reads back.\<close>

theorem local_start_sound:
  assumes "url_ok (dl_url L)" "\<And>m s. ll_mode A m = Some s \<Longrightarrow> ll_read_mode A s = Some m"
    and "rhizaConfigFromEnv L async E dataDir = Inr c" "prepareLocalOpen A L nf E io out c d = (None, d')"
  shows "(rz_Local c \<longrightarrow>
      authorized_start A L E out c d d' \<and>
      (\<forall>E' io' out' c'. \<not> rz_Local c' \<and> rz_DataDir c' = rz_DataDir c \<longrightarrow> fst (prepareLocalOpen A L nf E' io' out' c' d') \<noteq> None)) \<and>
    (\<not> rz_Local c \<longrightarrow> d' = d \<and> map_of d (filepath_Join [rz_DataDir c, localModeMarker]) = None \<and>
      (remote_provider (rz_ObjStoreProvider c) \<longrightarrow> (\<forall>key \<in> set (fst (lo_iter (out 2) (archive_root c))). \<not> local_key c key)) \<and>
      (\<forall>name namespace b r. trustAnchorFromEnv L nf E = Inr (Some (name, namespace, b)) \<and> lo_anchor (out 0) name namespace = Some r \<longrightarrow> ta_StorageID r \<noteq> localStorageID L c) \<and>
      (\<forall>E' io' out' c'. rz_Local c' \<and> rz_DataDir c' = rz_DataDir c \<and> map_of d (rz_DataDir c) = Some Directory \<and>
         list_ex (\<lambda>(p, e). HasPrefix p (rz_DataDir c @ ''/'')) d \<longrightarrow> fst (prepareLocalOpen A L nf E' io' out' c' d) \<noteq> None))"
proof (intro conjI impI)
  assume l: "rz_Local c"
  show a: "authorized_start A L E out c d d'" using local_start_authorized [OF assms(1,2,3) l assms(4)] .
  show "\<forall>E' io' out' c'. \<not> rz_Local c' \<and> rz_DataDir c' = rz_DataDir c \<longrightarrow> fst (prepareLocalOpen A L nf E' io' out' c' d') \<noteq> None"
    using a legacy_refused unfolding authorized_start_def by (metis option.distinct(1))
next
  assume l: "\<not> rz_Local c"
  have p: "\<exists>marker. checkLocalDataDir A L io c d = Inr marker" "legacyLocalAuthorityGuard L nf E c (out 0) = None"
    "remote_provider (rz_ObjStoreProvider c) \<Longrightarrow> checkArchiveMode c (out 2) = None" and d: "d' = d" using prepare_None [OF assms(4)] l by auto
  show "d' = d" by (rule d)
  show n: "map_of d (filepath_Join [rz_DataDir c, localModeMarker]) = None" using dir_legacy p(1) l by blast
  show "\<forall>key \<in> set (fst (lo_iter (out 2) (archive_root c))). \<not> local_key c key" if "remote_provider (rz_ObjStoreProvider c)" using mode_ok [OF p(3) [OF that]] l by blast
  show "\<forall>name namespace b r. trustAnchorFromEnv L nf E = Inr (Some (name, namespace, b)) \<and> lo_anchor (out 0) name namespace = Some r \<longrightarrow> ta_StorageID r \<noteq> localStorageID L c"
    using p(2) by (auto simp: legacyLocalAuthorityGuard_def trustAnchorFromEnv_def split: if_splits option.splits)
  show "\<forall>E' io' out' c'. rz_Local c' \<and> rz_DataDir c' = rz_DataDir c \<and> map_of d (rz_DataDir c) = Some Directory \<and>
         list_ex (\<lambda>(p, e). HasPrefix p (rz_DataDir c @ ''/'')) d \<longrightarrow> fst (prepareLocalOpen A L nf E' io' out' c' d) \<noteq> None"
    using n local_refused by metis
qed

subsection \<open>The receipt\<close>

lemma inside_comparable:
  assumes "inside p a" "inside p b"
  shows "inside a b \<or> inside b a"
proof -
  have le: "HasPrefix a' (b' @ ''/'')" if "p @ ''/'' = (a' @ ''/'') @ u" "p @ ''/'' = (b' @ ''/'') @ v" "length b' < length a'" for a' b' u v
  proof -
    have "take (length (b' @ ''/'')) (p @ ''/'') = b' @ ''/''" using that(2) by (simp del: append_assoc)
    moreover have "take (length (b' @ ''/'')) (p @ ''/'') = take (length (b' @ ''/'')) a'" using that(1,3) by simp
    ultimately show ?thesis unfolding HasPrefix_iff by (metis append_take_drop_id)
  qed
  obtain u v where uv: "p @ ''/'' = (a @ ''/'') @ u" "p @ ''/'' = (b @ ''/'') @ v"
    using assms unfolding inside_def HasPrefix_iff by (metis append.assoc append_Nil2)
  consider "length a = length b" | "length b < length a" | "length a < length b" by linarith
  then show ?thesis
  proof cases
    case 1
    then have "a @ ''/'' = b @ ''/''" using uv by (metis append_eq_append_conv length_append)
    then show ?thesis by (simp add: inside_def)
  next
    case 2
    then show ?thesis using le [OF uv] unfolding inside_def by blast
  next
    case 3
    then show ?thesis using le [OF uv(2,1)] unfolding inside_def by blast
  qed
qed

definition ordinary :: "string \<Rightarrow> bool" where
  "ordinary seg \<longleftrightarrow> seg \<noteq> '''' \<and> seg \<noteq> ''.'' \<and> seg \<noteq> ''..'' \<and> CHR ''/'' \<notin> set seg"

lemma fold_ordinary:
  "list_all ordinary out \<Longrightarrow> list_all (\<lambda>seg. CHR ''/'' \<notin> set seg) segs \<Longrightarrow> list_all ordinary (foldl (path_step True) out segs)"
proof (induction segs arbitrary: out)
  case (Cons seg segs)
  then show ?case by (auto intro!: Cons.IH simp: path_step_def ordinary_def split: list.splits)
qed simp

lemma fold_kept: "list_all ordinary segs \<Longrightarrow> foldl (path_step True) out segs = rev segs @ out"
  by (induction segs arbitrary: out) (auto simp: path_step_def ordinary_def)

text \<open>A cleaned absolute path lies in its directory.\<close>

lemma inside_Dir:
  assumes "Clean path = path" "filepath_IsAbs path" "filepath_Dir path \<noteq> ''/''"
  shows "inside path (filepath_Dir path)"
proof -
  define segs where "segs = rev (foldl (path_step True) [] (Split path (CHR ''/'')))"
  have "list_all (\<lambda>seg. CHR ''/'' \<notin> set seg) (Split path (CHR ''/''))" using Split_no_sep by (auto simp: list_all_iff)
  then have o: "list_all ordinary segs" using fold_ordinary [of "[]"] by (simp add: segs_def)
  have p: "path = CHR ''/'' # Join segs ''/''" using assms(1,2) by (simp add: Clean_def Let_def filepath_IsAbs_def segs_def)
  show ?thesis
  proof (cases segs rule: rev_cases)
    case Nil
    then have "path = ''/''" using p by simp
    moreover have "filepath_Dir ''/'' = ''/''" by code_simp
    ultimately show ?thesis using assms(3) by simp
  next
    case (snoc xs b)
    then have b: "CHR ''/'' \<notin> set b" "list_all ordinary xs" using o by (auto simp: ordinary_def)
    show ?thesis
    proof (cases "xs = []")
      case True
      then have "path = [] @ CHR ''/'' # b" using p snoc by simp
      then have "filepath_Dir path = Clean ''/''" using LastIndex_append_notin [OF b(1), of "[]"] by (simp add: filepath_Dir_def)
      moreover have "Clean ''/'' = ''/''" by code_simp
      ultimately show ?thesis using assms(3) by simp
    next
      case False
      have p': "path = (CHR ''/'' # Join xs ''/'') @ CHR ''/'' # b" using p snoc Join_snoc [OF False] by simp
      have "Split (Join xs ''/'' @ [CHR ''/'']) (CHR ''/'') = xs @ ['''']"
        using Split_trailing Split_Join [OF False, of "CHR ''/''"] b(2) by (auto simp: ordinary_def list_all_iff)
      then have "Clean ((CHR ''/'' # Join xs ''/'') @ ''/'') = CHR ''/'' # Join xs ''/''"
        using fold_kept [OF b(2), of "[]"] by (simp add: Clean_def Let_def path_step_def)
      then have "filepath_Dir path = CHR ''/'' # Join xs ''/''"
        unfolding filepath_Dir_def p' using LastIndex_append_notin [OF b(1), of "CHR ''/'' # Join xs ''/''"] by simp
      then show ?thesis using p' by (simp add: inside_def HasPrefix_iff)
    qed
  qed
qed

lemma Join_files:
  assumes "Clean work = work" "filepath_IsAbs work" "work \<noteq> ''/''"
  shows "filepath_Join [work, ''files''] = work @ ''/files''"
proof -
  define segs where "segs = rev (foldl (path_step True) [] (Split work (CHR ''/'')))"
  have w: "work = CHR ''/'' # Join segs ''/''" using assms(1,2) by (simp add: Clean_def Let_def filepath_IsAbs_def segs_def)
  have "list_all (\<lambda>seg. CHR ''/'' \<notin> set seg) (Split work (CHR ''/''))" using Split_no_sep by (auto simp: list_all_iff)
  then have ord: "list_all ordinary (segs @ [''files''])" using fold_ordinary [of "[]"] by (simp add: segs_def ordinary_def)
  have ne: "segs \<noteq> []" using w assms(3) by auto
  have "Split (Join (segs @ [''files'']) ''/'') (CHR ''/'') = segs @ [''files'']" using ord by (intro Split_Join) (auto simp: ordinary_def list_all_iff)
  then have "Clean (CHR ''/'' # Join (segs @ [''files'']) ''/'') = CHR ''/'' # Join (segs @ [''files'']) ''/''"
    using fold_kept [OF ord, of "[]"] by (simp add: Clean_def Let_def path_step_def)
  moreover have "CHR ''/'' # Join (segs @ [''files'']) ''/'' = work @ ''/files''" unfolding Join_snoc [OF ne] using w by simp
  moreover have "filepath_Join [work, ''files''] = Clean (work @ ''/files'')" using w by (simp add: filepath_Join_def Let_def)
  ultimately show ?thesis by simp
qed

lemma fold_put: "p \<notin> f ` set names \<Longrightarrow> map_of (fold (\<lambda>name. disk_put (f name) e) names d) p = map_of d p"
  by (induction names arbitrary: d) auto

lemma download_outside:
  assumes "downloadLocalRoot io mo namespace snapshot work d = (e, d1)" "Clean work = work" "filepath_IsAbs work" "work \<noteq> ''/''" "\<not> inside p work"
  shows "map_of d1 p = map_of d p"
proof -
  have "p \<notin> (\<lambda>name. work @ ''/files'' @ ''/'' @ name) ` set names" "p \<noteq> work @ ''/files''" for names
    using assms(5) by (auto simp: inside_def HasPrefix_iff)
  then show ?thesis using assms(1) Join_files [OF assms(2-4)] fold_put [of p "\<lambda>name. work @ ''/files'' @ ''/'' @ name" _ "Regular ''''"]
    by (auto simp: downloadLocalRoot_def Let_def split: option.splits if_splits prod.splits)
qed

lemma preflight_None:
  assumes "LocalPreflightFromEnv A L async nf E io out d = (None, d')"
  obtains c stage path scope name namespace where "rhizaConfigFromEnv L async E (data_envOr E ''TERNAL_DATA_DIR'' ''ternal-data'') = Inr c"
    "localPreflightPaths io E (rz_DataDir c) d = Inr (stage, path)" "localPreflightScope E = Inr scope" "localTrustBeforeOpen A L nf E (out 0) = Inr (name, namespace)"
    "preflight_bucket A L nf E io out c path scope (name, namespace) d = (None, d')"
  using assms by (auto simp: LocalPreflightFromEnv_def join_None split: sum.splits prod.splits if_splits)

lemma bucket_None:
  assumes "preflight_bucket A L nf E io out c path scope anchor d = (None, d')"
  obtains before work d1 where "readLocalArchive A c (out 3) = Inr before" "di_work io = Some work" "d' = filter (\<lambda>x. \<not> inside (fst x) work) d1"
    "preflight_work A L nf E io out c path
       \<lparr>lr_Version = 1, lr_StorageID = localStorageID L c, lr_NodeID = rz_NodeID c, lr_Scope = scope, lr_AnchorName = fst anchor,
        lr_AnchorNamespace = snd anchor, lr_View = before\<rparr> work (disk_put work Directory d) = (None, d1)"
  using assms by (auto simp: preflight_bucket_def join_None split: sum.splits prod.splits option.splits)

lemma work_None:
  assumes "preflight_work A L nf E io out c path receipt work d = (None, d2)"
  obtains d1 where "downloadLocalRoot io (out 4) (localNamespace c) (lv_Snapshot (lr_View receipt)) work d = (None, d1)" "readLocalArchive A c (out 5) = Inr (lr_View receipt)"
    "writeLocalJSON (ll_receipt A) io path receipt d1 = (None, d2)"
  using assms by (auto simp: preflight_work_def split: sum.splits prod.splits option.splits if_splits)

lemma preflight_disk:
  assumes "preflight_bucket A L nf E io out c path scope anchor d = (None, d')"
    and "\<And>w. di_work io = Some w \<Longrightarrow> Clean w = w \<and> filepath_IsAbs w \<and> w \<noteq> ''/'' \<and> \<not> inside path w \<and> (\<forall>p. inside p w \<longrightarrow> map_of d p = None)"
    and "\<And>t. di_temp io = Some t \<Longrightarrow> map_of d t = None"
  obtains receipt s where "ll_receipt A receipt = Some s" "map_of d' path = Some (Regular s)" "\<And>p. p \<noteq> path \<Longrightarrow> map_of d' p = map_of d p"
    "readLocalArchive A c (out 3) = Inr (lr_View receipt)" "readLocalArchive A c (out 5) = Inr (lr_View receipt)"
    "lr_Version receipt = 1" "lr_StorageID receipt = localStorageID L c" "lr_NodeID receipt = rz_NodeID c" "lr_Scope receipt = scope"
    "lr_AnchorName receipt = fst anchor" "lr_AnchorNamespace receipt = snd anchor"
proof -
  obtain before work d2 where b: "readLocalArchive A c (out 3) = Inr before" "di_work io = Some work" "d' = filter (\<lambda>x. \<not> inside (fst x) work) d2"
    "preflight_work A L nf E io out c path
       \<lparr>lr_Version = 1, lr_StorageID = localStorageID L c, lr_NodeID = rz_NodeID c, lr_Scope = scope, lr_AnchorName = fst anchor,
        lr_AnchorNamespace = snd anchor, lr_View = before\<rparr> work (disk_put work Directory d) = (None, d2)"
    using bucket_None [OF assms(1)] by metis
  define receipt where "receipt = \<lparr>lr_Version = 1, lr_StorageID = localStorageID L c, lr_NodeID = rz_NodeID c, lr_Scope = scope, lr_AnchorName = fst anchor,
        lr_AnchorNamespace = snd anchor, lr_View = before\<rparr>"
  obtain d1 where w: "downloadLocalRoot io (out 4) (localNamespace c) (lv_Snapshot (lr_View receipt)) work (disk_put work Directory d) = (None, d1)"
    "readLocalArchive A c (out 5) = Inr (lr_View receipt)" "writeLocalJSON (ll_receipt A) io path receipt d1 = (None, d2)"
    using work_None [OF b(4)] unfolding receipt_def by metis
  obtain s t where s: "ll_receipt A receipt = Some s" "di_temp io = Some t" "d2 = disk_put path (Regular s) (disk_remove t d1)" using write_None [OF w(3)] by blast
  have work: "Clean work = work" "filepath_IsAbs work" "work \<noteq> ''/''" "\<not> inside path work" "inside p work \<Longrightarrow> map_of d p = None" for p using assms(2) [OF b(2)] by auto
  have look: "map_of d' p = (if inside p work then None else map_of d2 p)" for p
    unfolding b(3) using map_of_filter_fst [of "\<lambda>p. \<not> inside p work" d2 p] by simp
  have "map_of d' path = Some (Regular s)" using look work(4) s(3) by simp
  moreover have "map_of d' p = map_of d p" if "p \<noteq> path" for p
  proof (cases "inside p work")
    case True
    then show ?thesis using look work(5) by simp
  next
    case False
    then have "map_of d1 p = map_of d p" using download_outside [OF w(1) work(1-3) False] by (auto simp: inside_def)
    then show ?thesis using look False s(3) that assms(3) [OF s(2)] by simp
  qed
  moreover have "lr_View receipt = before" by (simp add: receipt_def)
  ultimately show ?thesis using that [of receipt s] s(1) b(1) w(2) by (simp add: receipt_def)
qed

lemma receipt_accepted:
  assumes "lr_Version receipt = 1" "lv_Snapshot (lr_View receipt) \<noteq> None"
  shows "validateLocalReceipt L c receipt current \<and> validateLocalReceiptScope E receipt anchor = None \<longleftrightarrow>
    localStorageID L c = lr_StorageID receipt \<and> rz_NodeID c = lr_NodeID receipt \<and> lv_Binding current = lv_Binding (lr_View receipt) \<and>
    localPreflightScope E = Inr (lr_Scope receipt) \<and> anchor = Some (lr_AnchorName receipt, lr_AnchorNamespace receipt)"
  using assms by (auto simp: validateLocalReceipt_def validateLocalReceiptScope_def split: sum.splits option.splits)

text \<open>C39. The receipt of the init run authorizes exactly one start.  After a successful preflight the receipt reads
  back; the archive was the same before and after the download; and later starts accept the receipt exactly for
  the same archive identity, node, binding, run and anchor.  Nothing but the receipt has changed on the disk, and the
  receipt is not in the data directory.  The hypotheses are that a receipt reads back, and
  that \<^verbatim>\<open>MkdirTemp\<close> and \<^verbatim>\<open>CreateTemp\<close> choose new names.\<close>

theorem preflight_receipt_exact:
  assumes "\<And>r s. ll_receipt A r = Some s \<Longrightarrow> ll_read_receipt A s = Some r"
    and "LocalPreflightFromEnv A L async nf E io out d = (None, d')"
    and "\<And>w. di_work io = Some w \<Longrightarrow> Clean w = w \<and> filepath_IsAbs w \<and> w \<noteq> ''/'' \<and> \<not> inside (E ''TERNAL_LOCAL_PREFLIGHT_RECEIPT_FILE'') w \<and>
      (\<forall>p. inside p w \<longrightarrow> map_of d p = None)"
    and "\<And>t. di_temp io = Some t \<Longrightarrow> map_of d t = None"
  shows "\<exists>c receipt text name namespace data.
    rhizaConfigFromEnv L async E (data_envOr E ''TERNAL_DATA_DIR'' ''ternal-data'') = Inr c \<and>
    map_of d' (E ''TERNAL_LOCAL_PREFLIGHT_RECEIPT_FILE'') = Some (Regular text) \<and> ll_read_receipt A text = Some receipt \<and>
    readLocalArchive A c (out 3) = Inr (lr_View receipt) \<and> readLocalArchive A c (out 5) = Inr (lr_View receipt) \<and>
    localTrustBeforeOpen A L nf E (out 0) = Inr (name, namespace) \<and>
    (\<forall>c' E' anchor current. validateLocalReceipt L c' receipt current \<and> validateLocalReceiptScope E' receipt anchor = None \<longleftrightarrow>
       localStorageID L c' = localStorageID L c \<and> rz_NodeID c' = rz_NodeID c \<and> lv_Binding current = lv_Binding (lr_View receipt) \<and>
       localPreflightScope E' = localPreflightScope E \<and> anchor = Some (name, namespace)) \<and>
    (\<forall>p. p \<noteq> E ''TERNAL_LOCAL_PREFLIGHT_RECEIPT_FILE'' \<longrightarrow> map_of d' p = map_of d p) \<and>
    di_abs io (rz_DataDir c) = Some data \<and> \<not> inside (E ''TERNAL_LOCAL_PREFLIGHT_RECEIPT_FILE'') data"
proof -
  obtain c stage path scope name namespace where p: "rhizaConfigFromEnv L async E (data_envOr E ''TERNAL_DATA_DIR'' ''ternal-data'') = Inr c"
    "localPreflightPaths io E (rz_DataDir c) d = Inr (stage, path)" "localPreflightScope E = Inr scope" "localTrustBeforeOpen A L nf E (out 0) = Inr (name, namespace)"
    "preflight_bucket A L nf E io out c path scope (name, namespace) d = (None, d')" using preflight_None [OF assms(2)] by metis
  note path = paths_ok [OF p(2)]
  then obtain data where data: "di_abs io (rz_DataDir c) = Some data" "\<not> inside stage data" "\<not> inside data stage" by blast
  have new: "Clean w = w \<and> filepath_IsAbs w \<and> w \<noteq> ''/'' \<and> \<not> inside path w \<and> (\<forall>p. inside p w \<longrightarrow> map_of d p = None)" if "di_work io = Some w" for w
    using assms(3) [OF that] path by simp
  obtain receipt s where r: "ll_receipt A receipt = Some s" "map_of d' path = Some (Regular s)" "\<And>p. p \<noteq> path \<Longrightarrow> map_of d' p = map_of d p"
    "readLocalArchive A c (out 3) = Inr (lr_View receipt)" "readLocalArchive A c (out 5) = Inr (lr_View receipt)"
    "lr_Version receipt = 1" "lr_StorageID receipt = localStorageID L c" "lr_NodeID receipt = rz_NodeID c" "lr_Scope receipt = scope"
    "lr_AnchorName receipt = name" "lr_AnchorNamespace receipt = namespace"
    using preflight_disk [OF p(5) new assms(4)] by (metis fst_conv snd_conv)
  have "inside path stage" using inside_Dir [of path] path by auto
  then have nd: "\<not> inside path data" using inside_comparable data(2,3) by blast
  have acc: "\<forall>c' E' anchor current. validateLocalReceipt L c' receipt current \<and> validateLocalReceiptScope E' receipt anchor = None \<longleftrightarrow>
       localStorageID L c' = localStorageID L c \<and> rz_NodeID c' = rz_NodeID c \<and> lv_Binding current = lv_Binding (lr_View receipt) \<and>
       localPreflightScope E' = localPreflightScope E \<and> anchor = Some (name, namespace)"
    unfolding p(3) by (intro allI) (rule receipt_accepted [OF r(6) conjunct2 [OF archive_ok [OF r(4)]], unfolded r(7-11)])
  have rest: "\<forall>p. p \<noteq> path \<longrightarrow> map_of d' p = map_of d p" using r(3) by blast
  have e: "path = E ''TERNAL_LOCAL_PREFLIGHT_RECEIPT_FILE''" using path by blast
  show ?thesis unfolding e [symmetric]
    by (intro exI [of _ c] exI [of _ receipt] exI [of _ s] exI [of _ name] exI [of _ namespace] exI [of _ data] conjI)
      (rule p r(2) assms(1) [OF r(1)] r(4,5) acc rest data(1) nd)+
qed

end
