(* ===== verification/Local_Witness.thy ===== *)
theory Local_Witness
  imports Local_Properties Anchor_Witness
begin

section \<open>A local deployment\<close>

text \<open>One node on a bucket, its anchor, and the disk of its pod: the init run, the first start, and a start in the wrong mode.\<close>

definition local_env :: env_vars where
  "local_env k = (case map_of [(''TERNAL_DATA_LOCAL'', ''1''), (''TERNAL_OBJECT_STORE_PROVIDER'', ''s3''), (''TERNAL_LOCAL_WRITER_GC_QUIESCENCE_ACK'', ''1''),
     (''TERNAL_DATA_CLUSTER_ID'', ''prod''), (''TERNAL_DATA_NODE_ID'', ''n1''), (''TERNAL_OBJECT_STORE_PREFIX'', ''ternal''), (''TERNAL_OBJECT_STORE_BUCKET'', ''archive''),
     (''TERNAL_TRUST_ANCHOR_CONFIGMAP'', ''anchor''), (''TERNAL_TRUST_ANCHOR_NAMESPACE'', ''ternal''), (''TERNAL_LOCAL_PREFLIGHT_SCOPE'', ''pod-1''),
     (''TERNAL_LOCAL_PREFLIGHT_STAGING_DIR'', ''/stage''), (''TERNAL_LOCAL_PREFLIGHT_RECEIPT_FILE'', ''/stage/receipt.json''), (''TERNAL_DATA_DIR'', ''/data'')] k
     of None \<Rightarrow> '''' | Some v \<Rightarrow> v)"

definition local_identity_sample :: string where "local_identity_sample = bi_StorageID (storageBindingFromEnv sample_data_lib local_env)"

definition local_view :: "(string, unit) localArchiveView" where
  "local_view = \<lparr>lv_Binding = ''n1'', lv_Tip = 5, lv_PrefixHash = ''h'', lv_Snapshot = Some ()\<rparr>"

definition local_receipt :: "(string, unit) localPreflightReceipt" where
  "local_receipt = \<lparr>lr_Version = 1, lr_StorageID = local_identity_sample, lr_NodeID = ''n1'', lr_Scope = ''pod-1'', lr_AnchorName = ''anchor'', lr_AnchorNamespace = ''ternal'',
     lr_View = local_view\<rparr>"

definition local_mode :: "string localDataMode" where
  "local_mode = \<lparr>lm_Version = 1, lm_Mode = ''local'', lm_StorageID = local_identity_sample, lm_Binding = ''n1''\<rparr>"

definition local_sample_lib :: "(string, unit, unit, unit) local_lib" where
  "local_sample_lib = \<lparr>ll_members = (\<lambda>b. [b]), ll_location = (\<lambda>_. ''''), ll_ops = al_ops anchor_sample_lib,
     ll_receipt = (\<lambda>r. if r = local_receipt then Some ''receipt'' else None), ll_read_receipt = (\<lambda>s. if s = ''receipt'' then Some local_receipt else None),
     ll_mode = (\<lambda>m. if m = local_mode then Some ''mode'' else None), ll_read_mode = (\<lambda>s. if s = ''mode'' then Some local_mode else None)\<rparr>"

definition local_moment :: "(string, unit, unit, unit) local_outside" where
  "local_moment = \<lparr>lo_anchor = (\<lambda>_ _. Some (sample_anchor\<lparr>ta_StorageID := local_identity_sample\<rparr>)), lo_bucket = (\<lambda>_. True), lo_close = True,
     lo_iter = (\<lambda>_. ([''ternal/prod/local/v1/log''], True)),
     lo_archive = (\<lambda>_. Some \<lparr>la_Binding = ''n1'', la_Resolved = Some True, la_Tip = 5, la_PrefixHash = Some ''h'', la_Snapshot = Some ()\<rparr>),
     lo_download = (\<lambda>_ _. ([''block''], True))\<rparr>"

definition local_io :: "string \<Rightarrow> disk_io" where
  "local_io temp = \<lparr>di_abs = Some, di_eval = Resolved, di_lstat = (\<lambda>_. True), di_read = (\<lambda>_. True), di_readdir = True, di_mkdir = True, di_temp = Some temp, di_written = 1000,
     di_sync = True, di_close = True, di_rename = True, di_remove = True, di_work = Some ''/stage/verified-1'', di_files = True, di_removeall = True\<rparr>"

definition local_disk :: disk where "local_disk = [(''/stage'', Directory), (''/'', Directory)]"

definition preflighted :: "local_error option \<times> disk" where
  "preflighted = LocalPreflightFromEnv local_sample_lib sample_data_lib ''async'' None local_env (local_io ''/stage/.local-metadata-1'') (\<lambda>_. local_moment) local_disk"

definition started :: "local_error option \<times> disk" where
  "started = (case rhizaConfigFromEnv sample_data_lib ''async'' local_env ''/data'' of
     Inl e \<Rightarrow> (Some (LE_Config e), [])
   | Inr c \<Rightarrow> prepareLocalOpen local_sample_lib sample_data_lib None local_env (local_io ''/data/.local-metadata-2'') (\<lambda>_. local_moment) c (snd preflighted))"

lemma preflighted_ok: "fst preflighted = None"
  by code_simp

lemma started_ok: "fst started = None"
  by code_simp

lemma local_configured: "case rhizaConfigFromEnv sample_data_lib ''async'' local_env ''/data'' of Inl e \<Rightarrow> False | Inr c \<Rightarrow> rz_Local c"
  by code_simp

lemma sample_codec:
  "ll_receipt local_sample_lib r = Some s \<Longrightarrow> ll_read_receipt local_sample_lib s = Some r"
  "ll_mode local_sample_lib m = Some s \<Longrightarrow> ll_read_mode local_sample_lib s = Some m"
  by (auto simp: local_sample_lib_def split: if_splits)

theorem preflight_receipt_exact_witness:
  "\<exists>body. map_of (snd preflighted) ''/stage/receipt.json'' = Some (Regular body) \<and> ll_read_receipt local_sample_lib body \<noteq> None \<and>
     map_of (snd preflighted) ''/data'' = map_of local_disk ''/data''"
proof -
  have p: "LocalPreflightFromEnv local_sample_lib sample_data_lib ''async'' None local_env (local_io ''/stage/.local-metadata-1'') (\<lambda>_. local_moment) local_disk = (None, snd preflighted)"
    using preflighted_ok unfolding preflighted_def by (metis prod.collapse)
  have e: "local_env ''TERNAL_LOCAL_PREFLIGHT_RECEIPT_FILE'' = ''/stage/receipt.json''" by code_simp
  have w: "Clean ''/stage/verified-1'' = ''/stage/verified-1''" "filepath_IsAbs ''/stage/verified-1''" "\<not> inside ''/stage/receipt.json'' ''/stage/verified-1''" by code_simp+
  have n: "map_of local_disk p = None" if "inside p ''/stage/verified-1''" for p
    using that by (auto simp: local_disk_def inside_def HasPrefix_iff)
  have t: "map_of local_disk ''/stage/.local-metadata-1'' = None" by code_simp
  have h3: "Clean w = w \<and> filepath_IsAbs w \<and> w \<noteq> ''/'' \<and> \<not> inside (local_env ''TERNAL_LOCAL_PREFLIGHT_RECEIPT_FILE'') w \<and> (\<forall>p. inside p w \<longrightarrow> map_of local_disk p = None)"
    if "di_work (local_io ''/stage/.local-metadata-1'') = Some w" for w
  proof -
    have "w = ''/stage/verified-1''" using that by (simp add: local_io_def)
    then show ?thesis unfolding e using w n by simp
  qed
  have h4: "map_of local_disk v = None" if "di_temp (local_io ''/stage/.local-metadata-1'') = Some v" for v
    using that t by (simp add: local_io_def)
  note z = preflight_receipt_exact [OF sample_codec(1) p h3 h4, unfolded e]
  obtain body receipt where x: "map_of (snd preflighted) ''/stage/receipt.json'' = Some (Regular body)" "ll_read_receipt local_sample_lib body = Some receipt"
    and y: "\<forall>p. p \<noteq> ''/stage/receipt.json'' \<longrightarrow> map_of (snd preflighted) p = map_of local_disk p"
    by (rule exE [OF z], assumption, assumption, assumption) (elim exE conjE, rule that, assumption+)
  have "map_of (snd preflighted) ''/data'' = map_of local_disk ''/data''" using y by simp
  then show ?thesis using x by (intro exI [of _ body]) simp
qed

theorem local_start_sound_witness:
  "case rhizaConfigFromEnv sample_data_lib ''async'' local_env ''/data'' of
     Inl e \<Rightarrow> False
   | Inr c \<Rightarrow> authorized_start local_sample_lib sample_data_lib local_env (\<lambda>_. local_moment) c (snd preflighted) (snd started) \<and>
       fst (prepareLocalOpen local_sample_lib sample_data_lib None (\<lambda>_. '''') (local_io ''/data/t'') (\<lambda>_. local_moment) (c\<lparr>rz_Local := False\<rparr>) (snd started)) \<noteq> None"
proof -
  obtain c where c: "rhizaConfigFromEnv sample_data_lib ''async'' local_env ''/data'' = Inr c" "rz_Local c" using local_configured by (auto split: sum.splits)
  have s: "prepareLocalOpen local_sample_lib sample_data_lib None local_env (local_io ''/data/.local-metadata-2'') (\<lambda>_. local_moment) c (snd preflighted) = (None, snd started)"
    using started_ok c(1) by (simp add: started_def prod_eq_iff)
  have w: "authorized_start local_sample_lib sample_data_lib local_env (\<lambda>_. local_moment) c (snd preflighted) (snd started) \<and>
      (\<forall>E' io' out' c'. \<not> rz_Local c' \<and> rz_DataDir c' = rz_DataDir c \<longrightarrow>
         fst (prepareLocalOpen local_sample_lib sample_data_lib None E' io' out' c' (snd started)) \<noteq> None)"
    using conjunct1 [OF local_start_sound [OF sample_url_ok sample_codec(2) c(1) s]] c(2) by blast
  have r: "\<not> rz_Local (c\<lparr>rz_Local := False\<rparr>) \<and> rz_DataDir (c\<lparr>rz_Local := False\<rparr>) = rz_DataDir c" by simp
  show ?thesis unfolding c(1) sum.case using w r by blast
qed

end
