(* ===== verification/Spec2Isabelle.thy ===== *)
theory Spec2Isabelle
  imports Core_Command Ctx_RW_Mutex Store_Properties Access_Properties Device_Properties Fence_Properties
    Fleet_Properties Signature_Properties Auth_Properties Api_Properties Api_Witness Agent_Witness Ctl_Witness
    Anchor_Witness Local_Witness
begin

text \<open>
  Ternal hands out short-lived SSH access to edge devices.  This development models its Go sources
  under \<^verbatim>\<open>src/internal\<close>, the agent \<^verbatim>\<open>src/cmd/ternal-agent\<close> and the client \<^verbatim>\<open>src/cmd/ternalctl\<close>; this header says which theory models what, and what is proved.

  \<^bold>\<open>The program.\<close>  A user signs in through OpenID Connect (\<^verbatim>\<open>auth\<close>), asks the HTTP API (\<^verbatim>\<open>api\<close>) for access
  to a host, and, if a policy (\<^verbatim>\<open>core\<close>) allows the account, gets an SSH command that pins the host key.
  The decision is stored as request, grant and audit event (\<^verbatim>\<open>store\<close>).  The host's agent authenticates with
  its enrolled key (\<^verbatim>\<open>deviceauth\<close>), fetches the authorized keys of the live grants, installs them and
  acknowledges them; the user's client waits for that before it starts \<^verbatim>\<open>ssh\<close>.
  The store runs on an embedded replicated database; every write is fenced by a trust anchor kept outside
  it, so that a node whose database was rolled back or replaced cannot serve.

  \<^bold>\<open>Theories, bottom up.\<close>
  \<^item> \<open>Prelude\<close>, \<open>Core_Net\<close>, \<open>Go_Time\<close>, \<open>Go_Base64\<close>: what the sources use of Go's strings, strconv, net, time and
    base64 packages, with their round trips.
  \<^item> \<open>Core_Policy\<close>, \<open>Core_Command\<close> (core.go): hosts, policies, wildcard selectors, validators, shell quoting, SSH
    and proxy commands and their validators.
  \<^item> \<open>Ctx_RW_Mutex\<close> (ctxrwmutex.go): the store's lock; its critical sections as operations, goroutines as an
    interleaving step relation.
  \<^item> \<open>Database\<close>: the tables of the schema as lists of rows, the statement forms, and transactions
    (\<open>run_tx\<close>); the locale \<open>sql_conn\<close> is the contract between the store and its connection.
  \<^item> \<open>Store_Base\<close>, \<open>Store_Hosts\<close>, \<open>Store_Access\<close>, \<open>Store_Devices\<close> (store.go): every method of the store, as a
    function of the connection, the clock readings, the fresh identifiers and the world, with its
    transaction; an error is a value of \<open>store_error\<close>.
  \<^item> \<open>Store_Machine\<close>, \<open>Store_Invariant\<close>: a store call as a step relation, and the well-formedness of the tables
    (\<open>db_ok\<close>: keys, references, quotas) with one preservation lemma per transaction.
  \<^item> \<open>Trust_Record\<close>, \<open>Trust_Fence\<close> (trust\_anchor.go, rhiza\_sql.go): the anchor record, the fenced write
    (reserve, execute, publish) and the fenced read.  The database and the anchor's store are the record
    \<open>env\<close> of functions; the locale \<open>fence_env\<close> states what is documented of them, and \<open>Reference_Env\<close>
    interprets it by a concrete database with scripted faults.
  \<^item> \<open>Trust_Startup\<close> (store.go, rhiza\_sql.go): how a node settles the anchor before it serves: the migration under
    a fence of its own, the fence of a peer, the background continuation; between any two calls the peers
    may act (\<open>e_peers\<close>).  \<open>Fleet_Protocol\<close> is the protocol that all nodes follow, as a step relation on the
    shared state with in-flight requests; \<open>Fleet_Guarantee\<close> and \<open>Fleet_Startup\<close> show that a fenced write and
    settlement make only such steps, whatever the peers do (locales \<open>fleet_env\<close>, \<open>startup_fleet\<close>);
    \<open>Fleet_Process\<close> is the life of one process; \<open>Fleet_Responsive\<close> adds what the services do when they answer;
    \<open>Reference_Fleet\<close> interprets all of them by a concrete fleet with scripted faults and peers.
  \<^item> \<open>Device_Auth\<close> (deviceauth.go): signed texts, freshness on 64-bit integers, key and identity files over
    a file system whose calls may fail.
  \<^item> \<open>Auth_Session\<close>, \<open>Auth_OIDC\<close> (auth.go, oidc.go): configuration, signed cookies, the middleware, the guards,
    the login and device flows.  HMAC, SHA-256, JSON, URL parsing and the OIDC library are parameters.
  \<^item> \<open>Api_Base\<close>, \<open>Api_Access\<close>, \<open>Api_Device\<close>, \<open>Api_Router\<close> (api.go): the handlers, the route table and \<open>serve\<close>, which
    composes middleware, guards and handler.  Each store call of a handler has its own clock readings,
    identifiers and lock outcome (\<open>ticks\<close>).
  \<^item> \<open>Go_Path\<close>, \<open>Go_Trim\<close>: path cleaning and Unicode trimming.  \<open>Agent_Config\<close>, \<open>Agent_Sync\<close>, \<open>Agent_Supervise\<close>
    (ternal-agent/main.go): configuration, requests, enrolment, heartbeat, the synchronization of the key
    file with the trace of file systems it passes through, and the supervisor as a step relation.
    \<open>Agent_Server\<close> composes the agent with \<open>serve\<close>.
  \<^item> \<open>Ctl_Session\<close>, \<open>Ctl_Client\<close>, \<open>Ctl_Command\<close> (ternalctl/main.go): the session file of each origin, requests,
    the polling loops, the commands and the dispatch.  The world outside (requests, clock, sleep) is the
    record \<open>outside\<close> of functions on a state of any type.
  \<^item> \<open>Anchor_Data\<close>, \<open>Anchor_Kubernetes\<close> (trust\_anchor.go, trust\_anchor\_composite.go, trust\_anchor\_kubernetes.go): the anchor
    record as ConfigMap data and as a record of the recovery library; reading and compare-and-swap against
    an API server with other clients.  \<open>Azure_Config\<close>, \<open>Membership\<close>, \<open>Data_Config\<close> (azure\_config.go,
    membership.go, rhiza\_sql.go, local\_config.go): the configuration of the database from the environment and the
    identity of the object store.  \<open>Recovery_Verifier\<close> (recovery\_verifier.go, anchor\_service.go): the proof that a
    recovered archive carries the frozen pair.  \<open>Local_Preflight\<close> (local\_preflight.go, the first part of
    \<^verbatim>\<open>Open\<close>): local mode, the init run with its receipt and the checks of every start, over a disk and an outside that
    changes from call to call.

  \<^bold>\<open>What is proved.\<close>  \<open>Store_Properties\<close>, \<open>Access_Properties\<close>, \<open>Device_Properties\<close>: the tables stay well-formed
  under every sequence of calls and every outcome of the database; revoking a device is final; the audit
  log only grows; the authorized keys, snapshots, acknowledgements, relay admissions, session revocations
  and enrolments do what they promise.  \<open>Fence_Properties\<close>: a fenced write refines an abstract write whatever
  fails; the database is always on one of the anchor's two pairs; reads fail closed.
  \<open>Fleet_Properties\<close>: the same among interfering peers and across restarts, and settlement succeeds (unless the database
  was migrated without a trust row), or waits without an effect.
  \<open>Signature_Properties\<close>, \<open>Auth_Properties\<close>: signatures bind their requests (and one place where they do not),
  sessions round-trip, no context without a valid unrevoked session, no cross-site state change.
  \<open>Api_Properties\<close>: the same guarantees for the composed service, request by request.  \<open>Core_Command\<close>,
  \<open>Core_Policy\<close>: the matcher decides the reference glob relation, a host is visible exactly by a policy whose declared
  meaning opens it, commands consist of inert words and pass the
  client's validators.  \<open>Ctx_RW_Mutex\<close>: mutual exclusion, and every parked goroutine that could proceed has been woken.
  \<open>Agent_Keys\<close>, \<open>Agent_Machine\<close>, \<open>Agent_Properties\<close>: whatever the server answers and wherever a crash cuts a
  synchronization, the recorded snapshot never goes back and every installed line expires; one
  transport at most.  \<open>Agent_Server\<close>: agent and server agree, from signature to installed grant.
  \<open>Ctl_Properties\<close>, \<open>Ctl_Issued\<close>: the client's commands end, saved sessions stay with their origin, the key is
  installed before anything starts, and the client runs what the server issues.
  \<open>Anchor_Properties\<close>: the anchor's two representations agree and lose nothing, and the ConfigMap is a
  compare-and-swap register (locale \<open>configmap_server\<close>).  \<open>Data_Config\<close>, \<open>Membership\<close>, \<open>Recovery_Verifier\<close>: the database and the
  anchor are bound to the same storage, prepared members start, and a recovery proof is the anchor's own
  pair.  \<open>Local_Properties\<close>: a data directory belongs to one mode, a local start to one authority, and a receipt to
  one start.  The theories named
  \<open>Witness\<close> hold the concrete inputs at which the hypotheses hold.

  \<^bold>\<open>Termination and bounds.\<close>  All definitions are total; loops over input are structural or come with a
  measure (\<open>Prelude\<close>, \<open>Core_Policy\<close>, \<open>Local_Preflight\<close>).  The
  two retry loops, settlement and migration, take the number of retries before their context is done; the
  theorems hold for every such number.  The client's two polling loops may run forever under a stopped
  clock: they are partial functions into option, and they are shown to return under a clock that moves.  Integers are \<^verbatim>\<open>int\<close> where the code's arithmetic cannot
  leave its range (Unix seconds), and words where it matters (ports, timestamps, generations).

  \<^bold>\<open>Simplifications.\<close>  A loop over policies reads the clock once, where the code reads it in every round.  The epoch of
  the anchor is an unbounded integer; it differs from the code's only at the largest 64-bit value.  The
  supervisor's status is the one it last tried to write, also when the write failed, and the start of a child and its first
  synchronization are one step.  Properties of single store methods take a connection
  without other writers between the calls of one request; the fence theories have the interfering peers.
  The disk of \<open>Local_Preflight\<close> has cleaned paths, so its data directory is given as one, and creating it adds the
  directory itself, not its parents.

  \<^bold>\<open>Not modelled.\<close>  Migrations as SQL text, the HTTP requests
  to the API server and the object-store clients, the recovery library's coordinator, row scanning by
  reflection, system calls for ownership and locking, HTML pages, response headers, the start-up code of the
  two server processes, and the concurrency of requests inside one process beyond the lock.
\<close>

end
